(* ===== verification/Prelude.thy ===== *)
theory Prelude
  imports Complex_Main
begin

text \<open>
  Vocabulary shared by every component: Python exceptions as values of a sum type, JSON
  values with Python's truth value, decimal strings, and database tables with generated
  identities. Strings are lists of 8-bit characters, so code points beyond Latin-1 are
  outside the model.
\<close>

section \<open>Automation collections\<close>

named_theorems table_simps \<open>rewrite rules for the table operations\<close>
named_theorems wf_intros \<open>introduction rules for the well-formedness of tables\<close>

section \<open>JSON values\<close>

text \<open>
  The values \<^verbatim>\<open>json.loads\<close> builds. A \<^verbatim>\<open>dict\<close> is the association list of its
  items in insertion order; its keys are distinct.
\<close>

datatype json =
    JNull
  | JBool bool
  | JInt int
  | JReal rat
  | JStr string
  | JList "json list"
  | JObj "(string \<times> json) list"

section \<open>Exceptions as values\<close>

text \<open>
  A contract error (\<^verbatim>\<open>TFError\<close>) carries its registry code and the optional context of
  the raise; a reject signal (\<^verbatim>\<open>_Reject\<close>) wraps one. The errors of the SDK hold the
  error objects of the answer and the request id. The other constructors are the Python
  exceptions that the modelled code can raise or let through.
\<close>

record tf_error =
  err_code :: string
  err_name :: string
  err_http :: int
  err_retryable :: bool
  err_message :: string
  err_field_path :: "string option"
  err_retry_after :: "int option"
  err_detail :: "string option"

text \<open>The error object of an answer as the SDK keeps it, whatever its fields hold.\<close>

record error_object =
  eo_code :: json
  eo_message :: json
  eo_retryable :: bool
  eo_request_id :: json
  eo_field_path :: json
  eo_expected :: json
  eo_received :: json
  eo_retry_after :: json
  eo_doc_url :: json

datatype exn =
    TFExn tf_error
  | RejectExn tf_error
  | TimestampError
  | ValueError
  | TypeError
  | KeyError
  | AttributeError
  | FileNotFoundError
  | AssertionError
  | OverflowError
  | DatabaseError
  | TrueFigureError "error_object list" json
  | RateLimited "error_object list" json
  | OSError
  | TimeoutError
  | VerificationError
  | SystemExit
  | RuntimeError
  | HTTPStatusError

type_synonym 'a result = "exn + 'a"

definition bind_r :: "'a result \<Rightarrow> ('a \<Rightarrow> 'b result) \<Rightarrow> 'b result" where
  "bind_r m f = (case m of Inl e \<Rightarrow> Inl e | Inr x \<Rightarrow> f x)"

lemma bind_r_simps [simp]:
  "bind_r (Inl e) f = Inl e"
  "bind_r (Inr x) f = f x"
  by (simp_all add: bind_r_def)

lemma bind_r_Inr_iff: "bind_r m f = Inr y \<longleftrightarrow> (\<exists>x. m = Inr x \<and> f x = Inr y)"
  by (cases m) auto

lemma bind_r_Inl_iff: "bind_r m f = Inl e \<longleftrightarrow> m = Inl e \<or> (\<exists>x. m = Inr x \<and> f x = Inl e)"
  by (cases m) auto

lemma bind_r_cong [fundef_cong]:
  "m = m' \<Longrightarrow> (\<And>x. m' = Inr x \<Longrightarrow> f x = f' x) \<Longrightarrow> bind_r m f = bind_r m' f'"
  by (cases m') auto

definition is_ok :: "'a result \<Rightarrow> bool" where
  "is_ok r = (case r of Inl _ \<Rightarrow> False | Inr _ \<Rightarrow> True)"

lemma is_ok_simps [simp]: "\<not> is_ok (Inl e)" "is_ok (Inr x)"
  by (simp_all add: is_ok_def)

lemma is_ok_iff: "is_ok r \<longleftrightarrow> (\<exists>x. r = Inr x)"
  by (cases r) auto

section \<open>Reading JSON values\<close>

fun json_get :: "(string \<times> json) list \<Rightarrow> string \<Rightarrow> json option" where
  "json_get [] k = None"
| "json_get ((k', v) # kvs) k = (if k = k' then Some v else json_get kvs k)"

definition json_get_or :: "(string \<times> json) list \<Rightarrow> string \<Rightarrow> json \<Rightarrow> json" where
  "json_get_or kvs k d = (case json_get kvs k of None \<Rightarrow> d | Some v \<Rightarrow> v)"

fun truthy :: "json \<Rightarrow> bool" where
  "truthy JNull = False"
| "truthy (JBool b) = b"
| "truthy (JInt n) = (n \<noteq> 0)"
| "truthy (JReal r) = (r \<noteq> 0)"
| "truthy (JStr s) = (s \<noteq> [])"
| "truthy (JList xs) = (xs \<noteq> [])"
| "truthy (JObj kvs) = (kvs \<noteq> [])"

fun is_str :: "json \<Rightarrow> bool" where
  "is_str (JStr _) = True"
| "is_str _ = False"

lemma json_get_in_keys: "json_get kvs k = Some v \<Longrightarrow> k \<in> set (map fst kvs)"
  by (induction kvs) (auto split: if_splits)

lemma json_get_None_iff: "json_get kvs k = None \<longleftrightarrow> k \<notin> fst ` set kvs"
  by (induction kvs k rule: json_get.induct) auto

lemma json_get_mem: "json_get kvs k = Some v \<Longrightarrow> (k, v) \<in> set kvs"
  by (induction kvs) (auto split: if_splits)

lemma is_str_iff: "is_str j \<longleftrightarrow> (\<exists>s. j = JStr s)"
  by (cases j) auto

section \<open>Decimal strings\<close>

definition digit_char :: "nat \<Rightarrow> char" where
  "digit_char n = char_of (48 + n)"

definition digit_val :: "char \<Rightarrow> nat option" where
  "digit_val c = (let n = of_char c :: nat in if 48 \<le> n \<and> n \<le> 57 then Some (n - 48) else None)"

definition is_digit :: "char \<Rightarrow> bool" where
  "is_digit c = (digit_val c \<noteq> None)"

lemma digit_val_digit_char [simp]: "n < 10 \<Longrightarrow> digit_val (digit_char n) = Some n"
  by (simp add: digit_val_def digit_char_def)

lemma is_digit_digit_char [simp]: "n < 10 \<Longrightarrow> is_digit (digit_char n)"
  by (simp add: is_digit_def)

lemma digit_val_bound: "digit_val c = Some n \<Longrightarrow> n < 10"
  by (auto simp: digit_val_def Let_def split: if_splits)

lemma digit_char_neq: "n < 10 \<Longrightarrow> digit_val c = None \<Longrightarrow> digit_char n \<noteq> c"
  by auto

text \<open>Value of a string of digits, most significant first.\<close>

fun digits_val :: "nat \<Rightarrow> string \<Rightarrow> nat option" where
  "digits_val acc [] = Some acc"
| "digits_val acc (c # cs) =
     (case digit_val c of None \<Rightarrow> None | Some d \<Rightarrow> digits_val (10 * acc + d) cs)"

lemma digits_val_append:
  "digits_val a (xs @ ys) = (case digits_val a xs of None \<Rightarrow> None | Some b \<Rightarrow> digits_val b ys)"
  by (induction xs arbitrary: a) (auto split: option.splits)

fun nat_str :: "nat \<Rightarrow> string" where
  "nat_str n = (if n < 10 then [digit_char n] else nat_str (n div 10) @ [digit_char (n mod 10)])"

declare nat_str.simps [simp del]

lemma nat_str_code [code]:
  "nat_str n = (if n < 10 then [digit_char n] else nat_str (n div 10) @ [digit_char (n mod 10)])"
  by (rule nat_str.simps)

lemma nat_str_not_Nil [simp]: "nat_str n \<noteq> []"
  by (subst nat_str.simps) simp

lemma nat_str_digits: "c \<in> set (nat_str n) \<Longrightarrow> is_digit c"
proof (induction n rule: nat_str.induct)
  case (1 n)
  then show ?case by (cases "n < 10") (auto simp: nat_str.simps [of n])
qed

lemma digits_val_nat_str [simp]: "digits_val 0 (nat_str n) = Some n"
proof (induction n rule: nat_str.induct)
  case (1 n)
  then show ?case
    by (cases "n < 10") (simp_all add: nat_str.simps [of n] digits_val_append)
qed

lemma nat_str_inject: "nat_str m = nat_str n \<longleftrightarrow> m = n"
  by (metis digits_val_nat_str option.inject)

definition int_str :: "int \<Rightarrow> string" where
  "int_str i = (if i < 0 then CHR ''-'' # nat_str (nat (- i)) else nat_str (nat i))"

lemma nat_str_hd_not_minus: "hd (nat_str n) \<noteq> CHR ''-''"
proof
  assume *: "hd (nat_str n) = CHR ''-''"
  have "is_digit (hd (nat_str n))"
    by (rule nat_str_digits [of _ n]) simp
  with * show False by (simp add: is_digit_def digit_val_def)
qed

lemma int_str_inject: "int_str i = int_str j \<longleftrightarrow> i = j"
proof -
  have "nat_str m \<noteq> CHR ''-'' # s" for m s
    using nat_str_hd_not_minus [of m] by (cases "nat_str m") auto
  then show ?thesis by (auto simp: int_str_def nat_str_inject dest: sym)
qed

text \<open>Zero-padded fields of a formatted timestamp.\<close>

fun pad :: "nat \<Rightarrow> nat \<Rightarrow> string" where
  "pad 0 n = []"
| "pad (Suc k) n = pad k (n div 10) @ [digit_char (n mod 10)]"

lemma length_pad [simp]: "length (pad k n) = k"
  by (induction k arbitrary: n) auto

lemma pad_eq_Nil [simp]: "pad k n = [] \<longleftrightarrow> k = 0"
  by (metis length_0_conv length_pad)

lemma digits_val_pad [simp]: "n < 10 ^ k \<Longrightarrow> digits_val 0 (pad k n) = Some n"
proof (induction k arbitrary: n)
  case 0
  then show ?case by simp
next
  case (Suc k)
  then have "n div 10 < 10 ^ k" by (simp add: less_mult_imp_div_less)
  with Suc.IH show ?case by (simp add: digits_val_append)
qed

lemma pad_digits: "c \<in> set (pad k n) \<Longrightarrow> is_digit c"
  by (induction k arbitrary: n) auto

text \<open>The same renderings by integer arithmetic, as code equations.\<close>

definition idigit_char :: "int \<Rightarrow> char" where
  "idigit_char i = char_of (48 + i)"

lemma digit_char_nat:
  assumes "0 \<le> i" shows "digit_char (nat i) = idigit_char i"
proof -
  have "48 + i = int (48 + nat i)" using assms by simp
  then show ?thesis unfolding digit_char_def idigit_char_def by (metis char_of_nat)
qed

lemma digit_val_int [code]:
  "digit_val c = (let n = of_char c :: int in if 48 \<le> n \<and> n \<le> 57 then Some (nat (n - 48)) else None)"
proof -
  have "(of_char c :: int) = int (of_char c)" by (simp only: of_nat_of_char)
  then show ?thesis by (auto simp: digit_val_def Let_def nat_diff_distrib)
qed

fun ipad :: "nat \<Rightarrow> int \<Rightarrow> string" where
  "ipad 0 i = []"
| "ipad (Suc k) i = ipad k (i div 10) @ [idigit_char (i mod 10)]"

lemma nat_div_mod_10: "0 \<le> i \<Longrightarrow> nat i div 10 = nat (i div 10)" "0 \<le> i \<Longrightarrow> nat i mod 10 = nat (i mod 10)"
  by (simp_all add: nat_div_distrib nat_mod_distrib)

lemma pad_nat: "pad k (nat i) = ipad k (max 0 i)"
proof -
  have "0 \<le> i \<Longrightarrow> pad k (nat i) = ipad k i" for i
    by (induction k arbitrary: i) (simp_all add: nat_div_mod_10 digit_char_nat)
  moreover have "nat (max 0 i) = nat i" by simp
  ultimately show ?thesis by (metis max.cobounded1)
qed

function istr :: "int \<Rightarrow> string" where
  "istr i = (if i < 10 then [idigit_char i] else istr (i div 10) @ [idigit_char (i mod 10)])"
  by auto
termination by (relation "measure nat") auto

declare istr.simps [simp del]

lemma nat_str_istr: "0 \<le> i \<Longrightarrow> nat_str (nat i) = istr i"
proof (induction i rule: istr.induct)
  case (1 i)
  show ?case
  proof (cases "i < 10")
    case True
    with 1 show ?thesis by (simp add: nat_str.simps [of "nat i"] istr.simps [of i] digit_char_nat)
  next
    case False
    then have "nat_str (nat i) = nat_str (nat i div 10) @ [digit_char (nat i mod 10)]"
      by (subst nat_str.simps) simp
    moreover from False have "istr i = istr (i div 10) @ [idigit_char (i mod 10)]"
      by (subst istr.simps) simp
    ultimately show ?thesis using 1 False by (simp add: nat_div_mod_10 digit_char_nat)
  qed
qed

lemma int_str_istr [code]: "int_str i = (if i < 0 then CHR ''-'' # istr (- i) else istr i)"
  by (simp add: int_str_def nat_str_istr)

section \<open>Python string operations\<close>

fun starts_with :: "string \<Rightarrow> string \<Rightarrow> bool" where
  "starts_with s [] = True"
| "starts_with [] (p # ps) = False"
| "starts_with (c # cs) (p # ps) = (c = p \<and> starts_with cs ps)"

lemma starts_with_append [simp]: "starts_with (p @ s) p"
  by (induction p) auto

lemma starts_with_iff: "starts_with s p \<longleftrightarrow> (\<exists>t. s = p @ t)"
  by (induction s p rule: starts_with.induct) auto

text \<open>The whitespace of \<^verbatim>\<open>str.strip\<close> within Latin-1.\<close>

definition is_space :: "char \<Rightarrow> bool" where
  "is_space c = (let n = of_char c :: nat
                 in (9 \<le> n \<and> n \<le> 13) \<or> (28 \<le> n \<and> n \<le> 32) \<or> n = 133 \<or> n = 160)"

definition strip :: "string \<Rightarrow> string" where
  "strip s = rev (dropWhile is_space (rev (dropWhile is_space s)))"

lemma dropWhile_noop: "xs = [] \<or> \<not> P (hd xs) \<Longrightarrow> dropWhile P xs = xs"
  by (cases xs) auto

lemma strip_noop:
  assumes "\<not> is_space (hd s)" "\<not> is_space (last s)"
  shows "strip s = s"
  using assms by (simp add: strip_def dropWhile_noop hd_rev)

fun join :: "string \<Rightarrow> string list \<Rightarrow> string" where
  "join sep [] = []"
| "join sep [x] = x"
| "join sep (x # y # zs) = x @ sep @ join sep (y # zs)"

lemma takeWhile_join:
  "c \<notin> set x \<Longrightarrow> takeWhile (\<lambda>d. d \<noteq> c) (join [c] (x # xs)) = x"
proof -
  assume "c \<notin> set x"
  then have "takeWhile (\<lambda>d. d \<noteq> c) (x @ ys) = x @ takeWhile (\<lambda>d. d \<noteq> c) ys" for ys
    by (intro takeWhile_append2) auto
  from this [of "[]"] this [of "c # join [c] xs"] show ?thesis by (cases xs) auto
qed

text \<open>Joining with a separator is injective on parts that do not contain it.\<close>

lemma join_inject:
  assumes "join [c] xs = join [c] ys" "xs \<noteq> []" "ys \<noteq> []"
    and "\<forall>x \<in> set xs. c \<notin> set x" "\<forall>y \<in> set ys. c \<notin> set y"
  shows "xs = ys"
  using assms
proof (induction xs arbitrary: ys)
  case Nil
  then show ?case by simp
next
  case (Cons x xs)
  then obtain y ys' where ys: "ys = y # ys'" by (cases ys) auto
  with Cons.prems have xy: "x = y"
    using takeWhile_join [of c x xs] takeWhile_join [of c y ys'] by simp
  show ?case
  proof (cases "xs = [] \<or> ys' = []")
    case True
    with Cons.prems(1) ys xy show ?thesis by (cases xs; cases ys') auto
  next
    case False
    then have "join [c] xs = join [c] ys'"
      using Cons.prems(1) ys xy by (cases xs; cases ys') auto
    then show ?thesis using Cons.IH [of ys'] Cons.prems ys xy False by auto
  qed
qed

section \<open>Tables with generated identities\<close>

text \<open>
  A table is its rows in insertion order and the next value of its identity sequence
  (\<^verbatim>\<open>GENERATED ALWAYS AS IDENTITY\<close>). Where a query leaves the order of rows open, the
  model takes insertion order.
\<close>

datatype 'r table = Table (tbl_rows: "'r list") (tbl_seq: int)

definition empty_table :: "'r table" where
  "empty_table = Table [] 1"

definition insert_row :: "(int \<Rightarrow> 'r) \<Rightarrow> 'r table \<Rightarrow> 'r table" where
  "insert_row mk t = Table (tbl_rows t @ [mk (tbl_seq t)]) (tbl_seq t + 1)"

definition update_rows :: "('r \<Rightarrow> bool) \<Rightarrow> ('r \<Rightarrow> 'r) \<Rightarrow> 'r table \<Rightarrow> 'r table" where
  "update_rows P f t = Table (map (\<lambda>r. if P r then f r else r) (tbl_rows t)) (tbl_seq t)"

definition select_rows :: "('r \<Rightarrow> bool) \<Rightarrow> 'r table \<Rightarrow> 'r list" where
  "select_rows P t = filter P (tbl_rows t)"

definition fetch_one :: "('r \<Rightarrow> bool) \<Rightarrow> 'r table \<Rightarrow> 'r option" where
  "fetch_one P t = find P (tbl_rows t)"

definition exists_row :: "('r \<Rightarrow> bool) \<Rightarrow> 'r table \<Rightarrow> bool" where
  "exists_row P t = (\<exists>r \<in> set (tbl_rows t). P r)"

lemma table_rows_simps [table_simps]:
  "tbl_rows empty_table = []"
  "tbl_rows (insert_row mk t) = tbl_rows t @ [mk (tbl_seq t)]"
  "tbl_rows (update_rows P f t) = map (\<lambda>r. if P r then f r else r) (tbl_rows t)"
  "tbl_seq (insert_row mk t) = tbl_seq t + 1"
  "tbl_seq (update_rows P f t) = tbl_seq t"
  by (simp_all add: empty_table_def insert_row_def update_rows_def)

lemma fetch_one_Some: "fetch_one P t = Some r \<Longrightarrow> r \<in> set (tbl_rows t) \<and> P r"
  by (auto simp: fetch_one_def find_Some_iff)

lemma fetch_one_None: "fetch_one P t = None \<longleftrightarrow> (\<forall>r \<in> set (tbl_rows t). \<not> P r)"
  by (auto simp: fetch_one_def find_None_iff)

lemma exists_row_fetch: "exists_row P t \<longleftrightarrow> fetch_one P t \<noteq> None"
  by (auto simp: exists_row_def fetch_one_None)

lemma find_append: "find P (xs @ ys) = (case find P xs of None \<Rightarrow> find P ys | Some x \<Rightarrow> Some x)"
  by (induction xs) auto

text \<open>\<^verbatim>\<open>ORDER BY ... DESC LIMIT 1\<close>: the first row of the greatest value.\<close>

fun latest_by :: "('r \<Rightarrow> int) \<Rightarrow> 'r list \<Rightarrow> 'r option" where
  "latest_by t [] = None"
| "latest_by t (x # xs) =
     (case latest_by t xs of None \<Rightarrow> Some x | Some y \<Rightarrow> if t y > t x then Some y else Some x)"

lemma latest_by_None [simp]: "latest_by t xs = None \<longleftrightarrow> xs = []"
  by (cases xs) (auto split: option.splits)

lemma latest_by_Some: "latest_by t xs = Some x \<Longrightarrow> x \<in> set xs \<and> (\<forall>y \<in> set xs. t y \<le> t x)"
proof (induction xs arbitrary: x)
  case Nil
  then show ?case by simp
next
  case (Cons a xs)
  then show ?case
    by (cases "latest_by t xs") (force split: if_splits)+
qed

text \<open>A table is well formed when identities are distinct and below the sequence.\<close>

definition wf_table :: "('r \<Rightarrow> int) \<Rightarrow> 'r table \<Rightarrow> bool" where
  "wf_table rid t \<longleftrightarrow>
     distinct (map rid (tbl_rows t)) \<and> (\<forall>r \<in> set (tbl_rows t). rid r < tbl_seq t)"

lemma wf_empty_table [wf_intros]: "wf_table rid empty_table"
  by (simp add: wf_table_def table_simps)

lemma wf_insert_row [wf_intros]:
  "wf_table rid t \<Longrightarrow> rid (mk (tbl_seq t)) = tbl_seq t \<Longrightarrow> wf_table rid (insert_row mk t)"
  by (fastforce simp: wf_table_def table_simps)

lemma wf_update_rows [wf_intros]:
  assumes "wf_table rid t" and "\<And>r. rid (f r) = rid r"
  shows "wf_table rid (update_rows P f t)"
proof -
  have "map rid (map (\<lambda>r. if P r then f r else r) rs) = map rid rs" for rs
    using assms(2) by (induction rs) auto
  then show ?thesis using assms
    by (auto simp: wf_table_def table_simps simp del: map_map)
qed

lemma wf_table_unique:
  assumes "wf_table rid t" "r \<in> set (tbl_rows t)" "s \<in> set (tbl_rows t)" "rid r = rid s"
  shows "r = s"
  using assms by (auto simp: wf_table_def distinct_map inj_on_def)

section \<open>State and exceptions\<close>

text \<open>
  A step of a handler maps the state to the state it leaves and its value or exception.
  The state an exception leaves is kept: only \<open>transaction\<close>, the context manager of
  \<^verbatim>\<open>platform/database/db.py\<close>, rolls it back.
\<close>

type_synonym ('s, 'a) st = "'s \<Rightarrow> 's \<times> 'a result"

definition ret :: "'a \<Rightarrow> ('s, 'a) st" where
  "ret x = (\<lambda>s. (s, Inr x))"

definition raise :: "exn \<Rightarrow> ('s, 'a) st" where
  "raise e = (\<lambda>s. (s, Inl e))"

definition lift_r :: "'a result \<Rightarrow> ('s, 'a) st" where
  "lift_r r = (\<lambda>s. (s, r))"

definition reads :: "('s \<Rightarrow> 'a) \<Rightarrow> ('s, 'a) st" where
  "reads f = (\<lambda>s. (s, Inr (f s)))"

definition query :: "('s \<Rightarrow> 'a result) \<Rightarrow> ('s, 'a) st" where
  "query f = (\<lambda>s. (s, f s))"

definition writes :: "('s \<Rightarrow> 's) \<Rightarrow> ('s, unit) st" where
  "writes f = (\<lambda>s. (f s, Inr ()))"

definition bind_s :: "('s, 'a) st \<Rightarrow> ('a \<Rightarrow> ('s, 'b) st) \<Rightarrow> ('s, 'b) st" where
  "bind_s m k = (\<lambda>s. case m s of (s', Inl e) \<Rightarrow> (s', Inl e) | (s', Inr x) \<Rightarrow> k x s')"

definition transaction :: "('s, 'a) st \<Rightarrow> ('s, 'a) st" where
  "transaction m = (\<lambda>s. case m s of (s', Inl e) \<Rightarrow> (s, Inl e) | (s', Inr x) \<Rightarrow> (s', Inr x))"

text \<open>\<^verbatim>\<open>try\<close>: the handler takes the exceptions it catches and lets the rest through.\<close>

definition catch :: "('s, 'a) st \<Rightarrow> (exn \<Rightarrow> ('s, 'a) st option) \<Rightarrow> ('s, 'a) st" where
  "catch m h = (\<lambda>s. case m s of
       (s', Inr x) \<Rightarrow> (s', Inr x)
     | (s', Inl e) \<Rightarrow> (case h e of None \<Rightarrow> (s', Inl e) | Some k \<Rightarrow> k s'))"

fun for_each :: "('a \<Rightarrow> ('s, 'b) st) \<Rightarrow> 'a list \<Rightarrow> ('s, 'b list) st" where
  "for_each f [] = ret []"
| "for_each f (x # xs) =
     bind_s (f x) (\<lambda>y. bind_s (for_each f xs) (\<lambda>ys. ret (y # ys)))"

fun fold_s :: "('a \<Rightarrow> 'b \<Rightarrow> ('s, 'b) st) \<Rightarrow> 'a list \<Rightarrow> 'b \<Rightarrow> ('s, 'b) st" where
  "fold_s f [] acc = ret acc"
| "fold_s f (x # xs) acc = bind_s (f x acc) (fold_s f xs)"

lemma st_simps [simp]:
  "ret x s = (s, Inr x)"
  "raise e s = (s, Inl e)"
  "lift_r r s = (s, r)"
  "reads f s = (s, Inr (f s))"
  "query h s = (s, h s)"
  "writes g s = (g s, Inr ())"
  by (simp_all add: ret_def raise_def lift_r_def reads_def query_def writes_def)

lemma bind_s_apply:
  "bind_s m k s = (case snd (m s) of Inl e \<Rightarrow> (fst (m s), Inl e) | Inr x \<Rightarrow> k x (fst (m s)))"
  by (simp add: bind_s_def split: prod.splits sum.splits)

lemma bind_s_basic [simp]:
  "bind_s (ret x) k = k x"
  "bind_s (raise e) k' = raise e"
  "bind_s (lift_r (Inl e)) k' = raise e"
  "bind_s (lift_r (Inr y)) k2 = k2 y"
  "bind_s (reads f) k3 s = k3 (f s) s"
  "bind_s (writes g) k4 s = k4 () (g s)"
  by (simp_all add: bind_s_def fun_eq_iff)

lemma bind_s_Inr_iff:
  "bind_s m k s = (t, Inr y) \<longleftrightarrow> (\<exists>u x. m s = (u, Inr x) \<and> k x u = (t, Inr y))"
  by (auto simp: bind_s_def split: prod.splits sum.splits)

lemma bind_s_Inl_iff:
  "bind_s m k s = (t, Inl e) \<longleftrightarrow>
     m s = (t, Inl e) \<or> (\<exists>u x. m s = (u, Inr x) \<and> k x u = (t, Inl e))"
  by (auto simp: bind_s_def split: prod.splits sum.splits)

lemma bind_s_lift:
  "bind_s (lift_r r) k s = (case r of Inl e \<Rightarrow> (s, Inl e) | Inr x \<Rightarrow> k x s)"
  "bind_s (query h) k2 s = (case h s of Inl e \<Rightarrow> (s, Inl e) | Inr x \<Rightarrow> k2 x s)"
  by (simp_all add: bind_s_def split: sum.splits)

lemma transaction_Inr_iff: "transaction m s = (t, Inr x) \<longleftrightarrow> m s = (t, Inr x)"
  by (auto simp: transaction_def split: prod.splits sum.splits)

lemma transaction_Inl_iff: "transaction m s = (t, Inl e) \<longleftrightarrow> t = s \<and> (\<exists>u. m s = (u, Inl e))"
  by (auto simp: transaction_def split: prod.splits sum.splits)

lemma snd_transaction: "snd (transaction m s) = snd (m s)"
  by (simp add: transaction_def split: prod.splits sum.splits)

lemma bind_s_cong [fundef_cong]:
  "m = m' \<Longrightarrow> (\<And>x. k x = k' x) \<Longrightarrow> bind_s m k = bind_s m' k'"
  by (simp add: bind_s_def fun_eq_iff)

section \<open>How steps evolve the state\<close>

text \<open>
  A step evolves along a relation when every run of it, successful or not, moves the state
  along the relation. A preserved invariant is the case \<open>I s \<longrightarrow> I t\<close>.
\<close>

definition evolves :: "('s \<Rightarrow> 's \<Rightarrow> bool) \<Rightarrow> ('s, 'a) st \<Rightarrow> bool" where
  "evolves R m \<longleftrightarrow> (\<forall>s. R s (fst (m s)))"

lemma evolvesD: "evolves R m \<Longrightarrow> m s = (t, r) \<Longrightarrow> R s t"
  by (metis evolves_def fst_conv)

lemma evolves_writes: "(\<And>s. R s (f s)) \<Longrightarrow> evolves R (writes f)"
  by (simp add: evolves_def)

locale evolution =
  fixes R :: "'s \<Rightarrow> 's \<Rightarrow> bool"
  assumes refl: "R s s"
    and trans: "R s t \<Longrightarrow> R t u \<Longrightarrow> R s u"
begin

lemma basic: "evolves R (ret x)" "evolves R (raise e)" "evolves R (lift_r r)" "evolves R (reads f)"
  "evolves R (query h)"
  by (simp_all add: evolves_def refl)

lemma bind:
  assumes "evolves R m" "\<And>x. evolves R (k x)"
  shows "evolves R (bind_s m k)"
  unfolding evolves_def
proof
  fix s
  have a: "R s (fst (m s))" using assms(1) by (simp add: evolves_def)
  have b: "R t (fst (k x t))" for x t using assms(2) by (simp add: evolves_def)
  show "R s (fst (bind_s m k s))"
    using a trans [OF a b] by (simp add: bind_s_apply split: sum.splits)
qed

lemma in_transaction: "evolves R m \<Longrightarrow> evolves R (transaction m)"
  unfolding evolves_def
proof (intro allI)
  fix s
  assume "\<forall>s. R s (fst (m s))"
  then have "R s (fst (m s))" ..
  then show "R s (fst (transaction m s))"
    by (cases "m s") (auto simp: transaction_def refl split: sum.splits)
qed

lemma catching:
  assumes "evolves R m" "\<And>e k. h e = Some k \<Longrightarrow> evolves R k"
  shows "evolves R (catch m h)"
  unfolding evolves_def
proof
  fix s
  obtain t r where m: "m s = (t, r)" by (cases "m s")
  have a: "R s t" using evolvesD [OF assms(1) m] .
  show "R s (fst (catch m h s))"
  proof (cases r)
    case (Inr x)
    with m a show ?thesis by (simp add: catch_def)
  next
    case (Inl e)
    show ?thesis
    proof (cases "h e")
      case None
      with m a Inl show ?thesis by (simp add: catch_def)
    next
      case (Some k)
      then have "R t (fst (k t))" using assms(2) by (simp add: evolves_def)
      with m a Inl Some show ?thesis by (simp add: catch_def trans [OF a])
    qed
  qed
qed

lemma loop: "(\<And>x. evolves R (f x)) \<Longrightarrow> evolves R (for_each f xs)"
  by (induction xs) (auto intro!: bind basic)

lemma folding: "(\<And>x acc. evolves R (f x acc)) \<Longrightarrow> evolves R (fold_s f xs acc)"
  by (induction xs arbitrary: acc) (auto intro!: bind basic)

lemma loop_on: "(\<And>x. x \<in> set xs \<Longrightarrow> evolves R (f x)) \<Longrightarrow> evolves R (for_each f xs)"
  by (induction xs) (auto intro!: bind basic)

lemma after: "evolves R m \<Longrightarrow> m s = (t, r) \<Longrightarrow> R s t"
  by (rule evolvesD)

end

end
