(* ===== verification/Calendar.thy ===== *)
theory Calendar
  imports Prelude
begin

text \<open>
  The proleptic Gregorian calendar of Python's \<^verbatim>\<open>datetime\<close>: dates as year, month and
  day, their ordinals (01-Jan-0001 is day 1), and instants in microseconds since the Unix
  epoch. The conversions follow the library's arithmetic; that they are inverse to each
  other is what period bounds and canonical timestamps rest on.
\<close>

section \<open>Dates and ordinals\<close>

type_synonym date = "int \<times> int \<times> int"

definition is_leap :: "int \<Rightarrow> bool" where
  "is_leap y = (y mod 4 = 0 \<and> (y mod 100 \<noteq> 0 \<or> y mod 400 = 0))"

definition days_before_year :: "int \<Rightarrow> int" where
  "days_before_year year = (let y = year - 1 in y * 365 + y div 4 - y div 100 + y div 400)"

definition days_in_month :: "bool \<Rightarrow> int \<Rightarrow> int" where
  "days_in_month leap m =
     (if m = 2 then (if leap then 29 else 28)
      else if m = 4 \<or> m = 6 \<or> m = 9 \<or> m = 11 then 30 else 31)"

definition days_before_month :: "bool \<Rightarrow> int \<Rightarrow> int" where
  "days_before_month leap m =
     (if m = 1 then 0 else if m = 2 then 31 else if m = 3 then 59 else if m = 4 then 90
      else if m = 5 then 120 else if m = 6 then 151 else if m = 7 then 181 else if m = 8 then 212
      else if m = 9 then 243 else if m = 10 then 273 else if m = 11 then 304 else 334)
     + (if m > 2 \<and> leap then 1 else 0)"

fun ymd2ord :: "date \<Rightarrow> int" where
  "ymd2ord (y, m, d) = days_before_year y + days_before_month (is_leap y) m + d"

text \<open>Month and day of a year from the day's offset in the year.\<close>

definition month_day :: "bool \<Rightarrow> int \<Rightarrow> int \<times> int" where
  "month_day leap n =
     (let m = (n + 50) div 32;
          p = days_before_month leap m
      in if p > n then (m - 1, n - (p - days_in_month leap (m - 1)) + 1)
         else (m, n - p + 1))"

definition ord2ymd :: "int \<Rightarrow> date" where
  "ord2ymd ordinal =
     (let n = ordinal - 1;
          n400 = n div 146097; n = n mod 146097;
          n100 = n div 36524; n = n mod 36524;
          n4 = n div 1461; n = n mod 1461;
          n1 = n div 365; n = n mod 365;
          year = n400 * 400 + 1 + n100 * 100 + n4 * 4 + n1
      in if n1 = 4 \<or> n100 = 4 then (year - 1, 12, 31)
         else (year, month_day (n1 = 3 \<and> (n4 \<noteq> 24 \<or> n100 = 3)) n))"

fun valid_date :: "date \<Rightarrow> bool" where
  "valid_date (y, m, d) =
     (1 \<le> m \<and> m \<le> 12 \<and> 1 \<le> d \<and> d \<le> days_in_month (is_leap y) m)"

text \<open>Python's \<^verbatim>\<open>date(y, m, d)\<close> also bounds the year by 1 and 9999.\<close>

definition mk_date :: "int \<Rightarrow> int \<Rightarrow> int \<Rightarrow> date result" where
  "mk_date y m d =
     (if 1 \<le> y \<and> y \<le> 9999 \<and> valid_date (y, m, d) then Inr (y, m, d) else Inl ValueError)"

section \<open>The conversions are inverse\<close>

lemma pred_div:
  assumes "k > (1 :: int)"
  shows "(y - 1) div k = (if y mod k = 0 then y div k - 1 else y div k)"
proof (cases "y mod k = 0")
  case True
  then have "y - 1 = k * (y div k - 1) + (k - 1)" by (auto simp: algebra_simps)
  then have "(y - 1) div k = y div k - 1"
    using assms by (intro int_div_pos_eq [where r = "k - 1"]) auto
  with True show ?thesis by simp
next
  case False
  have "0 \<le> y mod k" "y mod k < k" using assms by simp_all
  moreover have "y - 1 = k * (y div k) + (y mod k - 1)" by simp
  ultimately have "(y - 1) div k = y div k"
    using False by (intro int_div_pos_eq [where r = "y mod k - 1"]) auto
  with False show ?thesis by simp
qed

lemma days_before_year_Suc:
  "days_before_year (y + 1) = days_before_year y + 365 + (if is_leap y then 1 else 0)"
proof -
  have d: "y mod 100 = 0 \<Longrightarrow> y mod 4 = 0" "y mod 400 = 0 \<Longrightarrow> y mod 100 = 0"
    by (auto simp: mod_eq_0_iff_dvd elim: dvd_trans [rotated])
  show ?thesis
    using d by (simp add: days_before_year_def Let_def is_leap_def pred_div)
qed

lemma year_parts:
  fixes a b c e :: int
  assumes "0 \<le> b" "b \<le> 3" "0 \<le> c" "c \<le> 24" "0 \<le> e" "e \<le> 3"
  shows "(400 * a + 100 * b + 4 * c + e) div 4 = 100 * a + 25 * b + c"
    and "(400 * a + 100 * b + 4 * c + e) div 100 = 4 * a + b"
    and "(400 * a + 100 * b + 4 * c + e) div 400 = a"
proof -
  show "(400 * a + 100 * b + 4 * c + e) div 4 = 100 * a + 25 * b + c"
    using assms by (intro int_div_pos_eq [where r = e]) auto
  show "(400 * a + 100 * b + 4 * c + e) div 100 = 4 * a + b"
    using assms by (intro int_div_pos_eq [where r = "4 * c + e"]) auto
  show "(400 * a + 100 * b + 4 * c + e) div 400 = a"
    using assms by (intro int_div_pos_eq [where r = "100 * b + 4 * c + e"]) auto
qed

lemma days_before_year_parts:
  assumes "0 \<le> b" "b \<le> 3" "0 \<le> c" "c \<le> 24" "0 \<le> e" "e \<le> 3"
  shows "days_before_year (400 * a + 1 + 100 * b + 4 * c + e) =
           146097 * a + 36524 * b + 1461 * c + 365 * e"
proof -
  have y: "400 * a + 1 + 100 * b + 4 * c + e - 1 = 400 * a + 100 * b + 4 * c + e" by simp
  show ?thesis
    unfolding days_before_year_def Let_def y year_parts [OF assms] by simp
qed

lemma is_leap_iff_days:
  "is_leap y \<longleftrightarrow> days_before_year (y + 1) = days_before_year y + 366"
  by (simp add: days_before_year_Suc)

text \<open>The year of the decomposition is a leap year when it ends a cycle of four.\<close>

lemma is_leap_parts:
  assumes "0 \<le> b" "b \<le> 3" "0 \<le> c" "c \<le> 24" "0 \<le> e" "e \<le> 3"
  shows "is_leap (400 * a + 1 + 100 * b + 4 * c + e) \<longleftrightarrow> e = 3 \<and> (c \<noteq> 24 \<or> b = 3)"
proof -
  let ?y = "400 * a + 1 + 100 * b + 4 * c + e"
  note parts = days_before_year_parts
  have y: "days_before_year ?y = 146097 * a + 36524 * b + 1461 * c + 365 * e"
    by (rule parts) (use assms in auto)
  consider "e < 3" | "e = 3" "c < 24" | "e = 3" "c = 24" "b < 3" | "e = 3" "c = 24" "b = 3"
    using assms by linarith
  then show ?thesis
  proof cases
    case 1
    have "days_before_year (400 * a + 1 + 100 * b + 4 * c + (e + 1)) =
        146097 * a + 36524 * b + 1461 * c + 365 * (e + 1)"
      by (rule parts) (use assms 1 in auto)
    with y 1 show ?thesis by (simp add: is_leap_iff_days algebra_simps)
  next
    case 2
    have "days_before_year (400 * a + 1 + 100 * b + 4 * (c + 1) + 0) =
        146097 * a + 36524 * b + 1461 * (c + 1) + 365 * 0"
      by (rule parts) (use assms 2 in auto)
    with y 2 show ?thesis by (simp add: is_leap_iff_days algebra_simps)
  next
    case 3
    have "days_before_year (400 * a + 1 + 100 * (b + 1) + 4 * 0 + 0) =
        146097 * a + 36524 * (b + 1) + 1461 * 0 + 365 * 0"
      by (rule parts) (use assms 3 in auto)
    with y 3 show ?thesis by (simp add: is_leap_iff_days algebra_simps)
  next
    case 4
    have "days_before_year (400 * (a + 1) + 1 + 100 * 0 + 4 * 0 + 0) =
        146097 * (a + 1) + 36524 * 0 + 1461 * 0 + 365 * 0"
      by (rule parts) auto
    with y 4 show ?thesis by (simp add: is_leap_iff_days algebra_simps)
  qed
qed

lemma month_cases:
  assumes "1 \<le> m" "m \<le> (12 :: int)"
  shows "m \<in> {1, 2, 3, 4, 5, 6, 7, 8, 9, 10, 11, 12}"
proof -
  have "m \<in> set [1..12]" using assms by simp
  then show ?thesis by (simp add: upto.simps)
qed

text \<open>The month estimate is checked on every day of a year, leap or not.\<close>

definition month_day_ok :: "bool \<Rightarrow> int \<Rightarrow> bool" where
  "month_day_ok leap n =
     (case month_day leap n of (m, d) \<Rightarrow>
        1 \<le> m \<and> m \<le> 12 \<and> 1 \<le> d \<and> d \<le> days_in_month leap m
        \<and> days_before_month leap m + d = n + 1)"

lemma month_day_ok_all:
  "list_all (month_day_ok leap) [0..364] \<and> month_day_ok True 365"
  by (cases leap; simp only:) code_simp+

lemma month_day_spec:
  assumes "0 \<le> n" "n \<le> 364 \<or> (leap \<and> n = 365)"
  shows "month_day_ok leap n"
  using assms month_day_ok_all [of leap] by (auto simp: list_all_iff)

lemma ord2ymd_valid_aux: "valid_date (ord2ymd n) \<and> ymd2ord (ord2ymd n) = n"
proof -
  define a u where "a = (n - 1) div 146097" and "u = (n - 1) mod 146097"
  define b v where "b = u div 36524" and "v = u mod 36524"
  define c w where "c = v div 1461" and "w = v mod 1461"
  define e r where "e = w div 365" and "r = w mod 365"
  note defs = a_def u_def b_def v_def c_def w_def e_def r_def
  have u: "n - 1 = 146097 * a + u" "0 \<le> u" "u < 146097" by (simp_all add: a_def u_def)
  have v: "u = 36524 * b + v" "0 \<le> v" "v < 36524" by (simp_all add: b_def v_def)
  have w: "v = 1461 * c + w" "0 \<le> w" "w < 1461" by (simp_all add: c_def w_def)
  have r: "w = 365 * e + r" "0 \<le> r" "r < 365" by (simp_all add: e_def r_def)
  have bnd: "0 \<le> b" "b \<le> 4" "0 \<le> c" "c \<le> 24" "0 \<le> e" "e \<le> 4"
    using u v w r by linarith+
  have n: "n = 1 + 146097 * a + 36524 * b + 1461 * c + 365 * e + r"
    using u(1) v(1) w(1) r(1) by linarith
  have ord: "ord2ymd n =
      (if e = 4 \<or> b = 4 then (a * 400 + 1 + b * 100 + c * 4 + e - 1, 12, 31)
       else (a * 400 + 1 + b * 100 + c * 4 + e, month_day (e = 3 \<and> (c \<noteq> 24 \<or> b = 3)) r))"
    by (simp add: ord2ymd_def Let_def defs)
  show ?thesis
  proof (cases "b = 4")
    case True
    with u(3) v w r bnd have z: "c = 0" "e = 0" "r = 0" by linarith+
    have "days_before_year (400 * a + 1 + 100 * 3 + 4 * 24 + 3) = 146097 * a + 145731"
      by (subst days_before_year_parts) auto
    moreover have "is_leap (400 * a + 1 + 100 * 3 + 4 * 24 + 3)"
      by (subst is_leap_parts) auto
    ultimately show ?thesis using True z n ord
      by (simp add: days_in_month_def days_before_month_def algebra_simps)
  next
    case b3: False
    show ?thesis
    proof (cases "e = 4")
      case True
      with w(3) r have z: "r = 0" by linarith
      have "c \<noteq> 24" using v(3) w(1) r(1,2) True by (intro notI) linarith
      then have c: "c \<noteq> 24 \<or> b = 3" by simp
      have "days_before_year (400 * a + 1 + 100 * b + 4 * c + 3) =
              146097 * a + 36524 * b + 1461 * c + 1095"
        using bnd b3 by (subst days_before_year_parts) auto
      moreover have "is_leap (400 * a + 1 + 100 * b + 4 * c + 3)"
        using bnd b3 c by (subst is_leap_parts) auto
      ultimately show ?thesis using True z n ord
        by (simp add: days_in_month_def days_before_month_def algebra_simps)
    next
      case e3: False
      let ?l = "e = 3 \<and> (c \<noteq> 24 \<or> b = 3)"
      have md: "month_day_ok ?l r" using r(2,3) by (intro month_day_spec) auto
      obtain m d where mdeq: "month_day ?l r = (m, d)" by fastforce
      have "is_leap (400 * a + 1 + 100 * b + 4 * c + e) \<longleftrightarrow> ?l"
        "days_before_year (400 * a + 1 + 100 * b + 4 * c + e) =
           146097 * a + 36524 * b + 1461 * c + 365 * e"
        using bnd b3 e3 by (subst is_leap_parts days_before_year_parts; simp)+
      with md mdeq n ord b3 e3 show ?thesis
        by (auto simp: month_day_ok_def algebra_simps)
    qed
  qed
qed

lemma valid_ord2ymd [simp]: "valid_date (ord2ymd n)"
  and ymd2ord_ord2ymd [simp]: "ymd2ord (ord2ymd n) = n"
  using ord2ymd_valid_aux by blast+

lemma days_before_month_next:
  assumes "1 \<le> m" "m \<le> 11"
  shows "days_before_month leap (m + 1) = days_before_month leap m + days_in_month leap m"
  using assms month_cases [of m] by (auto simp: days_before_month_def days_in_month_def)

lemma days_before_year_mono: "y \<le> z \<Longrightarrow> days_before_year y \<le> days_before_year z"
proof (induction z rule: int_ge_induct)
  case base
  show ?case by simp
next
  case (step z)
  then show ?case by (simp add: days_before_year_Suc)
qed

definition days_in_year :: "bool \<Rightarrow> int" where
  "days_in_year leap = (if leap then 366 else 365)"

lemma day_of_year_bounds:
  assumes "1 \<le> m" "m \<le> 12" "1 \<le> d" "d \<le> days_in_month leap m"
  shows "1 \<le> days_before_month leap m + d"
    and "days_before_month leap m + d \<le> days_in_year leap"
  using assms month_cases [of m]
  by (auto simp: days_before_month_def days_in_month_def days_in_year_def)

lemma ymd2ord_year_less:
  assumes "valid_date (y, m, d)" "valid_date (y', m', d')" "y < y'"
  shows "ymd2ord (y, m, d) < ymd2ord (y', m', d')"
proof -
  have "days_before_year y + days_in_year (is_leap y) \<le> days_before_year y'"
    using days_before_year_mono [of "y + 1" y'] assms(3)
    by (simp add: days_before_year_Suc days_in_year_def split: if_splits)
  moreover have "days_before_month (is_leap y) m + d \<le> days_in_year (is_leap y)"
    and "1 \<le> days_before_month (is_leap y') m' + d'"
    using assms(1,2) by (auto intro!: day_of_year_bounds)
  ultimately show ?thesis by simp
qed

lemma days_before_month_less:
  assumes "1 \<le> m" "m < m'" "m' \<le> 12"
  shows "days_before_month leap m + days_in_month leap m \<le> days_before_month leap m'"
  using assms month_cases [of m] month_cases [of m']
  by (auto simp: days_before_month_def days_in_month_def)

lemma ymd2ord_less:
  assumes "valid_date (y, m, d)" "valid_date (y', m', d')"
    and "y < y' \<or> (y = y' \<and> (m < m' \<or> (m = m' \<and> d < d')))"
  shows "ymd2ord (y, m, d) < ymd2ord (y', m', d')"
  using assms(3)
proof (elim disjE conjE)
  assume "y < y'"
  with assms(1,2) show ?thesis by (rule ymd2ord_year_less)
next
  assume "y = y'" "m < m'"
  with assms(1,2) show ?thesis
    using days_before_month_less [of m m' "is_leap y"] by auto
qed auto

lemma ymd2ord_less_iff:
  assumes "valid_date (y, m, d)" "valid_date (y', m', d')"
  shows "ymd2ord (y, m, d) < ymd2ord (y', m', d') \<longleftrightarrow>
           y < y' \<or> (y = y' \<and> (m < m' \<or> (m = m' \<and> d < d')))"
proof -
  consider "y < y' \<or> (y = y' \<and> (m < m' \<or> (m = m' \<and> d < d')))"
    | "y' < y \<or> (y' = y \<and> (m' < m \<or> (m' = m \<and> d' < d)))"
    | "(y, m, d) = (y', m', d')"
    using linorder_less_linear [of y y'] linorder_less_linear [of m m']
      linorder_less_linear [of d d'] by auto
  then show ?thesis
    using ymd2ord_less [OF assms] ymd2ord_less [OF assms(2,1)] by cases auto
qed

lemma ymd2ord_inject:
  assumes "valid_date p" "valid_date q" "ymd2ord p = ymd2ord q"
  shows "p = q"
proof (cases p, cases q)
  fix y m d y' m' d'
  assume pq: "p = (y, m, d)" "q = (y', m', d')"
  have "\<not> ymd2ord p < ymd2ord q" "\<not> ymd2ord q < ymd2ord p" using assms(3) by auto
  then show ?thesis
    using assms(1,2) unfolding pq by (auto simp only: ymd2ord_less_iff prod.inject)
qed

lemma ord2ymd_ymd2ord: "valid_date p \<Longrightarrow> ord2ymd (ymd2ord p) = p"
  by (rule ymd2ord_inject) auto

section \<open>Instants\<close>

text \<open>
  An aware \<^verbatim>\<open>datetime\<close> in UTC, and a \<^verbatim>\<open>timestamptz\<close>, is the number of
  microseconds since 1970-01-01T00:00:00Z.
\<close>

definition us_per_day :: int where "us_per_day = 86400000000"

definition epoch_ord :: int where "epoch_ord = 719163"

definition instant_date :: "int \<Rightarrow> date" where
  "instant_date t = ord2ymd (t div us_per_day + epoch_ord)"

definition instant_day :: "int \<Rightarrow> int" where
  "instant_day t = t div us_per_day + epoch_ord"

definition unix_seconds :: "int \<Rightarrow> int" where
  "unix_seconds t = t div 1000000"

definition mk_instant :: "int \<Rightarrow> int \<Rightarrow> int" where
  "mk_instant ordinal time_us = (ordinal - epoch_ord) * us_per_day + time_us"

lemma instant_day_mk: "0 \<le> u \<Longrightarrow> u < us_per_day \<Longrightarrow> instant_day (mk_instant n u) = n"
  by (simp add: instant_day_def mk_instant_def us_per_day_def)

lemma instant_day_mono: "s \<le> t \<Longrightarrow> instant_day s \<le> instant_day t"
  by (simp add: instant_day_def us_per_day_def zdiv_mono1)

lemma ymd2ord_instant_date [simp]: "ymd2ord (instant_date t) = instant_day t"
  by (simp add: instant_date_def instant_day_def)

end
