(* ===== verification/IsoTime.thy ===== *)
theory IsoTime
  imports Calendar
begin

text \<open>
  Timestamps as the source reads and prints them: \<^verbatim>\<open>datetime.fromisoformat\<close> of
  CPython 3.11 (its C accelerator, character by character, week dates and separator-free
  forms included), \<^verbatim>\<open>astimezone(UTC)\<close>, and the \<^verbatim>\<open>strftime\<close> and
  \<^verbatim>\<open>strptime\<close> calls on the canonical form. All of this is the language's standard
  library; the source only composes it (theory EventKey).
\<close>

section \<open>fromisoformat\<close>

text \<open>A parsed \<^verbatim>\<open>datetime\<close>: date, microseconds in the day, UTC offset if aware.\<close>

datatype pydatetime = PyDT (dt_date: date) (dt_time: int) (dt_offset: "int option")

fun parse_digits_acc :: "nat \<Rightarrow> nat \<Rightarrow> string \<Rightarrow> (nat \<times> string) option" where
  "parse_digits_acc acc 0 s = Some (acc, s)"
| "parse_digits_acc acc (Suc k) [] = None"
| "parse_digits_acc acc (Suc k) (c # s) =
     (case digit_val c of None \<Rightarrow> None | Some d \<Rightarrow> parse_digits_acc (10 * acc + d) k s)"

definition parse_digits :: "nat \<Rightarrow> string \<Rightarrow> (nat \<times> string) option" where
  "parse_digits k s = parse_digits_acc 0 k s"

text \<open>The character at a position, NUL past the end as in a C string.\<close>

definition char_at :: "string \<Rightarrow> nat \<Rightarrow> char" where
  "char_at s i = (if i < length s then s ! i else CHR 0x00)"

definition iso_separator :: "string \<Rightarrow> nat" where
  "iso_separator s =
     (let n = length s in
      if n = 7 then 7
      else if char_at s 4 = CHR ''-'' then
        (if char_at s 5 = CHR ''W'' then
           (if n > 8 \<and> char_at s 8 = CHR ''-'' then
              (if n > 10 \<and> is_digit (char_at s 10) then 8 else 10)
            else 8)
         else 10)
      else if char_at s 4 = CHR ''W'' then
        (let idx = 7 + length (takeWhile is_digit (drop 7 s))
         in if idx < 9 then idx else if even idx then 7 else 8)
      else 8)"

definition iso_week1_monday :: "int \<Rightarrow> int" where
  "iso_week1_monday y =
     (let first = ymd2ord (y, 1, 1); wd = (first + 6) mod 7
      in first - wd + (if wd > 3 then 7 else 0))"

definition iso_week_date :: "int \<Rightarrow> int \<Rightarrow> int \<Rightarrow> date option" where
  "iso_week_date y w d =
     (let first = ymd2ord (y, 1, 1) mod 7;
          long = (first = 4 \<or> (first = 3 \<and> is_leap y))
      in if 1 \<le> y \<and> y \<le> 9999 \<and> 0 < w \<and> (w < 53 \<or> (w = 53 \<and> long)) \<and> 0 < d \<and> d < 8
         then Some (ord2ymd (iso_week1_monday y + (w - 1) * 7 + (d - 1))) else None)"

definition parse_iso_date :: "string \<Rightarrow> date option" where
  "parse_iso_date s =
     (case parse_digits 4 s of None \<Rightarrow> None
      | Some (y, s1) \<Rightarrow>
        let sep = (char_at s1 0 = CHR ''-''); s2 = (if sep then tl s1 else s1)
        in if char_at s2 0 = CHR ''W'' then
             (case parse_digits 2 (tl s2) of None \<Rightarrow> None
              | Some (w, s3) \<Rightarrow>
                if s3 = [] then iso_week_date (int y) (int w) 1
                else if sep \<and> char_at s3 0 \<noteq> CHR ''-'' then None
                else (case parse_digits 1 (if sep then tl s3 else s3) of None \<Rightarrow> None
                      | Some (d, _) \<Rightarrow> iso_week_date (int y) (int w) (int d)))
           else
             (case parse_digits 2 s2 of None \<Rightarrow> None
              | Some (m, s3) \<Rightarrow>
                if sep \<and> char_at s3 0 \<noteq> CHR ''-'' then None
                else (case parse_digits 2 (if sep then tl s3 else s3) of None \<Rightarrow> None
                      | Some (d, _) \<Rightarrow> Some (int y, int m, int d))))"

text \<open>
  Hours, minutes, seconds and fraction. The string runs to the end of the whole input and
  \<open>n\<close> counts the characters that belong to this part; the last component says whether
  input is left over.
\<close>

definition parse_fraction :: "string \<Rightarrow> int \<Rightarrow> nat list \<Rightarrow> (nat list \<times> int \<times> bool) option" where
  "parse_fraction s n acc =
     (let k = nat (min n 6)
      in case parse_digits k s of None \<Rightarrow> None
         | Some (us, s') \<Rightarrow> Some (acc, int us * 10 ^ (6 - k), dropWhile is_digit s' \<noteq> []))"

fun parse_hms :: "nat \<Rightarrow> bool \<Rightarrow> string \<Rightarrow> int \<Rightarrow> nat list \<Rightarrow> (nat list \<times> int \<times> bool) option" where
  "parse_hms left sep s n acc =
     (case parse_digits 2 s of None \<Rightarrow> None
      | Some (v, s1) \<Rightarrow>
        let c = char_at s1 0; n' = n - 3; acc' = acc @ [v];
            sep' = (if left = 2 then c = CHR '':'' else sep)
        in if n' \<le> 0 then Some (acc', 0, c \<noteq> CHR 0x00)
           else if sep' \<and> c = CHR '':'' then
             (if left = 0 then parse_fraction (tl s1) n' acc'
              else parse_hms (left - 1) sep' (tl s1) n' acc')
           else if c = CHR ''.'' \<or> c = CHR '','' then parse_fraction (tl s1) n' acc'
           else if \<not> sep' then
             (if left = 0 then parse_fraction s1 (n' + 1) acc'
              else parse_hms (left - 1) sep' s1 (n' + 1) acc')
           else None)"

definition hms_us :: "nat list \<Rightarrow> int \<Rightarrow> int" where
  "hms_us vs us =
     (int (if length vs > 0 then vs ! 0 else 0) * 3600 + int (if length vs > 1 then vs ! 1 else 0) * 60
      + int (if length vs > 2 then vs ! 2 else 0)) * 1000000 + us"

definition hms_in_range :: "nat list \<Rightarrow> bool" where
  "hms_in_range vs =
     ((length vs > 0 \<longrightarrow> vs ! 0 < 24) \<and> (length vs > 1 \<longrightarrow> vs ! 1 < 60) \<and>
      (length vs > 2 \<longrightarrow> vs ! 2 < 60))"

text \<open>A time zone from its offset; zero seconds give UTC, a day or more is refused.\<close>

definition mk_timezone :: "int \<Rightarrow> int option" where
  "mk_timezone off =
     (if \<bar>off\<bar> < 1000000 then Some 0 else if \<bar>off\<bar> < us_per_day then Some off else None)"

definition is_tz_char :: "char \<Rightarrow> bool" where
  "is_tz_char c = (c = CHR ''+'' \<or> c = CHR ''-'' \<or> c = CHR ''Z'')"

definition parse_iso_time :: "string \<Rightarrow> (nat list \<times> int \<times> int option) option" where
  "parse_iso_time s =
     (let n = length (takeWhile (\<lambda>c. \<not> is_tz_char c) s); rest = drop n s
      in case parse_hms 2 True s (int n) [] of None \<Rightarrow> None
         | Some (vs, us, left) \<Rightarrow>
           (case rest of
              [] \<Rightarrow> if left then None else Some (vs, us, None)
            | c # tz \<Rightarrow>
              if c = CHR ''Z'' then (if tz = [] then Some (vs, us, Some 0) else None)
              else (case parse_hms 2 True tz (int (length tz)) [] of None \<Rightarrow> None
                    | Some (tvs, tus, tleft) \<Rightarrow>
                      if tleft then None
                      else (case mk_timezone ((if c = CHR ''-'' then - 1 else 1) * hms_us tvs tus) of
                              None \<Rightarrow> None | Some off \<Rightarrow> Some (vs, us, Some off)))))"

definition fromisoformat :: "string \<Rightarrow> pydatetime option" where
  "fromisoformat s =
     (if length s < 7 then None
      else let k = iso_separator s
           in case parse_iso_date (take k s) of None \<Rightarrow> None
              | Some (y, m, d) \<Rightarrow>
                (case (if length s > k then parse_iso_time (drop (k + 1) s)
                       else Some ([], 0, None)) of None \<Rightarrow> None
                 | Some (vs, us, off) \<Rightarrow>
                   if is_ok (mk_date y m d) \<and> hms_in_range vs
                   then Some (PyDT (y, m, d) (hms_us vs us) off) else None))"

section \<open>Conversion to UTC\<close>

definition min_instant :: int where "min_instant = mk_instant 1 0"
definition max_instant :: int where "max_instant = mk_instant 3652060 0"

definition instant_in_range :: "int \<Rightarrow> bool" where
  "instant_in_range t = (min_instant \<le> t \<and> t < max_instant)"

definition astimezone_utc :: "pydatetime \<Rightarrow> int \<Rightarrow> int result" where
  "astimezone_utc dt off =
     (let t = mk_instant (ymd2ord (dt_date dt)) (dt_time dt) - off
      in if instant_in_range t then Inr t else Inl OverflowError)"

section \<open>The canonical form\<close>

text \<open>
  \<^verbatim>\<open>strftime("%Y-%m-%dT%H:%M:%S.")\<close> followed by the milliseconds and \<^verbatim>\<open>Z\<close>.
  On Linux \<^verbatim>\<open>%Y\<close> is not padded, so years before 1000 print with fewer digits.
\<close>

definition time_us :: "int \<Rightarrow> int" where "time_us t = t mod us_per_day"

definition format_ts :: "int \<Rightarrow> string" where
  "format_ts t =
     (case instant_date t of (y, m, d) \<Rightarrow>
        let u = time_us t
        in int_str y @ ''-'' @ pad 2 (nat m) @ ''-'' @ pad 2 (nat d) @ ''T''
           @ pad 2 (nat (u div 3600000000)) @ '':'' @ pad 2 (nat (u div 60000000 mod 60)) @ '':''
           @ pad 2 (nat (u div 1000000 mod 60)) @ ''.'' @ pad 3 (nat (u mod 1000000 div 1000)) @ ''Z'')"

lemma format_ts_code [code]:
  "format_ts t =
     (case instant_date t of (y, m, d) \<Rightarrow>
        let u = time_us t
        in int_str y @ ''-'' @ ipad 2 (max 0 m) @ ''-'' @ ipad 2 (max 0 d) @ ''T''
           @ ipad 2 (max 0 (u div 3600000000)) @ '':'' @ ipad 2 (max 0 (u div 60000000 mod 60)) @ '':''
           @ ipad 2 (max 0 (u div 1000000 mod 60)) @ ''.'' @ ipad 3 (max 0 (u mod 1000000 div 1000)) @ ''Z'')"
  unfolding format_ts_def pad_nat by (rule refl)

text \<open>
  \<^verbatim>\<open>strptime\<close> with \<^verbatim>\<open>%Y-%m-%dT%H:%M:%S.%fZ\<close>, on strings of the canonical shape:
  \<^verbatim>\<open>%Y\<close> takes exactly four digits, so anything else is a \<^verbatim>\<open>ValueError\<close>.
\<close>

definition strptime_ms :: "string \<Rightarrow> int result" where
  "strptime_ms s =
     (if length s = 24 \<and> s ! 4 = CHR ''-'' \<and> s ! 7 = CHR ''-'' \<and> s ! 10 = CHR ''T''
         \<and> s ! 13 = CHR '':'' \<and> s ! 16 = CHR '':'' \<and> s ! 19 = CHR ''.'' \<and> s ! 23 = CHR ''Z''
      then (case (digits_val 0 (take 4 s), digits_val 0 (take 2 (drop 5 s)),
                  digits_val 0 (take 2 (drop 8 s)), digits_val 0 (take 2 (drop 11 s)),
                  digits_val 0 (take 2 (drop 14 s)), digits_val 0 (take 2 (drop 17 s)),
                  digits_val 0 (take 3 (drop 20 s))) of
              (Some y, Some m, Some d, Some h, Some mi, Some sec, Some ms) \<Rightarrow>
                if is_ok (mk_date (int y) (int m) (int d)) \<and> hms_in_range [h, mi, sec]
                then Inr (mk_instant (ymd2ord (int y, int m, int d))
                            (hms_us [h, mi, sec] (int ms * 1000)))
                else Inl ValueError
            | _ \<Rightarrow> Inl ValueError)
      else Inl ValueError)"

section \<open>Reading back the canonical form\<close>

declare parse_hms.simps [simp del]

lemma parse_digits_acc_append:
  "parse_digits_acc a (length xs) (xs @ s) = map_option (\<lambda>v. (v, s)) (digits_val a xs)"
  by (induction xs arbitrary: a) (auto split: option.splits)

lemma parse_digits_pad [simp]: "n < 10 ^ k \<Longrightarrow> parse_digits k (pad k n @ s) = Some (n, s)"
  using parse_digits_acc_append [of 0 "pad k n" s] by (simp add: parse_digits_def)

lemma parse_digits_pad2 [simp]: "n < 100 \<Longrightarrow> parse_digits 2 (pad 2 n @ s) = Some (n, s)"
  using parse_digits_pad [of n 2] by simp

lemma nat_str_pad: "10 ^ k \<le> n \<Longrightarrow> n < 10 ^ Suc k \<Longrightarrow> nat_str n = pad (Suc k) n"
proof (induction k arbitrary: n)
  case 0
  then show ?case by (simp add: nat_str.simps [of n])
next
  case (Suc k)
  then have "10 \<le> n" by (simp add: order_trans [OF _ Suc.prems(1)])
  moreover have "nat_str (n div 10) = pad (Suc k) (n div 10)"
    using Suc.prems by (intro Suc.IH) (auto simp: less_mult_imp_div_less less_eq_div_iff_mult_less_eq)
  ultimately show ?case by (simp add: nat_str.simps [of n])
qed

lemma nat_str_pad4: "1000 \<le> n \<Longrightarrow> n < 10000 \<Longrightarrow> nat_str n = pad 4 n"
  using nat_str_pad [of 3 n] by simp

lemma pad_nth_digit: "i < k \<Longrightarrow> is_digit (pad k n ! i)"
  by (rule pad_digits [of _ k n]) simp

lemma not_digit_chars [simp]:
  "\<not> is_digit CHR ''W''" "\<not> is_digit CHR ''-''" "\<not> is_digit CHR '':''" "\<not> is_digit CHR ''Z''"
  "\<not> is_digit CHR ''+''" "\<not> is_digit CHR ''.''" "\<not> is_digit CHR ''T''" "\<not> is_digit CHR 0x00"
  by (simp_all add: is_digit_def digit_val_def)

lemma digit_not_tz: "is_digit c \<Longrightarrow> \<not> is_tz_char c"
  by (auto simp: is_tz_char_def)

text \<open>The fields of a canonical timestamp, and the string they print to.\<close>

definition canon_date :: "nat \<Rightarrow> nat \<Rightarrow> nat \<Rightarrow> string" where
  "canon_date y m d = pad 4 y @ ''-'' @ pad 2 m @ ''-'' @ pad 2 d"

definition canon_time :: "nat \<Rightarrow> nat \<Rightarrow> nat \<Rightarrow> nat \<Rightarrow> string" where
  "canon_time h mi s ms = pad 2 h @ '':'' @ pad 2 mi @ '':'' @ pad 2 s @ ''.'' @ pad 3 ms"

lemma length_canon [simp]: "length (canon_date y m d) = 10" "length (canon_time h mi s ms) = 12"
  by (simp_all add: canon_date_def canon_time_def)

lemma canon_date_chars:
  "char_at (canon_date y m d @ r) 4 = CHR ''-''" "char_at (canon_date y m d @ r) 5 \<noteq> CHR ''W''"
proof -
  show "char_at (canon_date y m d @ r) 4 = CHR ''-''"
    by (simp add: canon_date_def char_at_def nth_append)
  have "char_at (canon_date y m d @ r) 5 = pad 2 m ! 0"
    by (simp add: canon_date_def char_at_def nth_append)
  moreover have "is_digit (pad 2 m ! 0)" by (rule pad_nth_digit) simp
  ultimately show "char_at (canon_date y m d @ r) 5 \<noteq> CHR ''W''" by (metis not_digit_chars(1))
qed

lemma parse_iso_date_canon:
  assumes "y < 10000" "m < 100" "d < 100"
  shows "parse_iso_date (canon_date y m d) = Some (int y, int m, int d)"
proof -
  have "parse_digits 4 (canon_date y m d) = Some (y, ''-'' @ pad 2 m @ ''-'' @ pad 2 d)"
    using assms by (simp add: canon_date_def)
  moreover have "char_at (pad 2 m @ ''-'' @ pad 2 d) 0 \<noteq> CHR ''W''"
    using pad_nth_digit [of 0 2 m] by (auto simp: char_at_def nth_append)
  moreover have "parse_digits 2 (pad 2 d) = Some (d, [])"
    using parse_digits_pad2 [of d "[]"] assms by simp
  ultimately show ?thesis
    using assms by (simp add: parse_iso_date_def Let_def char_at_def)
qed

lemma parse_hms_canon:
  assumes "h < 100" "mi < 100" "s < 100" "ms < 1000"
  shows "parse_hms 2 True (canon_time h mi s ms @ r) 12 [] =
           Some ([h, mi, s], int ms * 1000, dropWhile is_digit r \<noteq> [])"
proof -
  have frac: "parse_fraction (pad 3 ms @ r) 3 [h, mi, s] =
      Some ([h, mi, s], int ms * 1000, dropWhile is_digit r \<noteq> [])"
    using assms by (simp add: parse_fraction_def Let_def)
  show ?thesis
    unfolding canon_time_def
    using assms frac by (simp add: parse_hms.simps Let_def char_at_def)
qed

lemma parse_iso_time_canon:
  assumes "h < 100" "mi < 100" "s < 100" "ms < 1000"
  shows "parse_iso_time (canon_time h mi s ms @ ''+00:00'') =
           Some ([h, mi, s], int ms * 1000, Some 0)"
proof -
  have "\<forall>c \<in> set (canon_time h mi s ms). \<not> is_tz_char c"
    by (auto simp: canon_time_def digit_not_tz dest!: pad_digits) (auto simp: is_tz_char_def)
  then have tw: "takeWhile (\<lambda>c. \<not> is_tz_char c) (canon_time h mi s ms @ ''+00:00'')
      = canon_time h mi s ms"
    by (simp add: takeWhile_append2 is_tz_char_def)
  have tz: "parse_hms 2 True ''00:00'' 5 [] = Some ([0, 0], 0, False)" by code_simp
  show ?thesis
    using assms unfolding parse_iso_time_def tw
    by (simp add: Let_def parse_hms_canon tz hms_us_def mk_timezone_def)
qed

lemma fromisoformat_canon:
  assumes "is_ok (mk_date (int y) (int m) (int d))" "hms_in_range [h, mi, s]" "ms < 1000"
  shows "fromisoformat (canon_date y m d @ ''T'' @ canon_time h mi s ms @ ''+00:00'') =
           Some (PyDT (int y, int m, int d) (hms_us [h, mi, s] (int ms * 1000)) (Some 0))"
proof -
  have b: "y < 10000" "m < 100" "d < 100" "h < 100" "mi < 100" "s < 100"
    using assms by (auto simp: mk_date_def hms_in_range_def days_in_month_def split: if_splits)
  have "iso_separator (canon_date y m d @ ''T'' @ canon_time h mi s ms @ ''+00:00'') = 10"
    using canon_date_chars [of y m d] by (simp add: iso_separator_def Let_def)
  then show ?thesis
    using assms b parse_iso_time_canon [of h mi s ms]
    by (simp add: fromisoformat_def parse_iso_date_canon)
qed

lemma strptime_ms_canon:
  assumes "is_ok (mk_date (int y) (int m) (int d))" "hms_in_range [h, mi, s]" "ms < 1000"
  shows "strptime_ms (canon_date y m d @ ''T'' @ canon_time h mi s ms @ ''Z'') =
           Inr (mk_instant (ymd2ord (int y, int m, int d)) (hms_us [h, mi, s] (int ms * 1000)))"
proof -
  have b: "y < 10000" "m < 100" "d < 100" "h < 100" "mi < 100" "s < 100"
    using assms by (auto simp: mk_date_def hms_in_range_def days_in_month_def split: if_splits)
  show ?thesis
    using assms b by (simp add: strptime_ms_def canon_date_def canon_time_def nth_append)
qed

end
