(* ===== verification/EventKey.thy ===== *)
theory EventKey
  imports IsoTime
begin

text \<open>
  Module \<^verbatim>\<open>domain/entities/eventkey.py\<close>: canonical timestamps and the event key.
  The digest is a parameter: \<open>sha256 s\<close> stands for
  \<^verbatim>\<open>hashlib.sha256(s.encode("utf-8")).hexdigest()\<close>. Field values are JSON values, so a
  non-string field reaches \<^verbatim>\<open>"|".join\<close> and raises \<^verbatim>\<open>TypeError\<close> as in the source.
\<close>

section \<open>Canonical timestamps\<close>

definition ends_with_z :: "string \<Rightarrow> bool" where
  "ends_with_z s = (s \<noteq> [] \<and> (last s = CHR ''Z'' \<or> last s = CHR ''z''))"

definition parse_ts :: "json \<Rightarrow> int result" where
  "parse_ts ts =
     (case ts of
        JStr s \<Rightarrow>
          let raw = strip s;
              raw = (if ends_with_z raw then butlast raw @ ''+00:00'' else raw)
          in (case fromisoformat raw of
                None \<Rightarrow> Inl TimestampError
              | Some parsed \<Rightarrow>
                  (case dt_offset parsed of
                     None \<Rightarrow> Inl TimestampError
                   | Some off \<Rightarrow> astimezone_utc parsed off))
      | _ \<Rightarrow> Inl TimestampError)"

definition canonical_ts :: "json \<Rightarrow> string result" where
  "canonical_ts ts = bind_r (parse_ts ts) (\<lambda>t. Inr (format_ts t))"

section \<open>The event key\<close>

type_synonym payload = "(string \<times> json) list"

definition subscript :: "payload \<Rightarrow> string \<Rightarrow> json result" where
  "subscript p k = (case json_get p k of None \<Rightarrow> Inl KeyError | Some v \<Rightarrow> Inr v)"

fun subscripts :: "payload \<Rightarrow> string list \<Rightarrow> json list result" where
  "subscripts p [] = Inr []"
| "subscripts p (k # ks) =
     bind_r (subscript p k) (\<lambda>v. bind_r (subscripts p ks) (\<lambda>vs. Inr (v # vs)))"

text \<open>The parts of the key, in the order of the family's table.\<close>

definition key_parts :: "json \<Rightarrow> json \<Rightarrow> payload \<Rightarrow> json \<Rightarrow> json list result" where
  "key_parts deployment_id event_type p ts =
     (if event_type = JStr ''activity'' then
        bind_r (subscripts p [''user_ref'', ''work_item_id'']) (\<lambda>us.
        bind_r (subscript p ''action_type'') (\<lambda>a. Inr (deployment_id # us @ [ts, a])))
      else if event_type = JStr ''cost_meter'' then
        bind_r (subscript p ''meter'') (\<lambda>m.
          Inr [deployment_id, m, ts, json_get_or p ''meter_ref'' (JStr [])])
      else if event_type = JStr ''lifecycle'' then
        bind_r (subscripts p [''work_item_id'', ''event'']) (\<lambda>ws.
          Inr (ws @ [ts, json_get_or p ''status_to'' (JStr [])]))
      else if event_type = JStr ''quality_signal'' then
        bind_r (subscripts p [''work_item_id'', ''signal'']) (\<lambda>ws. Inr (ws @ [ts]))
      else if event_type = JStr ''revenue_signal'' then
        bind_r (subscripts p [''work_item_id'', ''revenue_ref'']) (\<lambda>ws. Inr (ws @ [ts]))
      else Inl ValueError)"

fun str_parts :: "json list \<Rightarrow> string list result" where
  "str_parts [] = Inr []"
| "str_parts (JStr s # js) = bind_r (str_parts js) (\<lambda>ss. Inr (s # ss))"
| "str_parts (_ # js) = Inl TypeError"

definition natural_key :: "json \<Rightarrow> json \<Rightarrow> payload \<Rightarrow> json \<Rightarrow> string list result" where
  "natural_key deployment_id event_type p scope =
     bind_r (subscript p ''timestamp'') (\<lambda>raw.
     bind_r (canonical_ts raw) (\<lambda>ts.
     bind_r (key_parts deployment_id event_type p (JStr ts)) (\<lambda>parts.
       str_parts (event_type # parts @ (if truthy scope then [scope] else [])))))"

definition event_key :: "(string \<Rightarrow> string) \<Rightarrow> json \<Rightarrow> json \<Rightarrow> payload \<Rightarrow> json \<Rightarrow> string result" where
  "event_key sha256 deployment_id event_type p scope =
     bind_r (natural_key deployment_id event_type p scope)
       (\<lambda>parts. Inr (take 32 (sha256 (join ''|'' parts))))"

definition id_fields :: "payload \<Rightarrow> (string \<times> string) list" where
  "id_fields p =
     List.map_filter
       (\<lambda>f. case json_get p f of Some (JStr v) \<Rightarrow> Some (f, v) | _ \<Rightarrow> None)
       [''user_ref'', ''work_item_id'', ''assignee_ref'']"

section \<open>Canonical timestamps read back\<close>

lemma time_us_fields:
  fixes u :: int
  assumes "0 \<le> u" "u < us_per_day"
  shows "hms_us [nat (u div 3600000000), nat (u div 60000000 mod 60), nat (u div 1000000 mod 60)]
           (int (nat (u mod 1000000 div 1000)) * 1000) = u div 1000 * 1000"
    and "hms_in_range [nat (u div 3600000000), nat (u div 60000000 mod 60), nat (u div 1000000 mod 60)]"
    and "nat (u mod 1000000 div 1000) < 1000"
proof -
  define s f where "s = u div 1000000" and "f = u mod 1000000 div 1000"
  define q where "q = s div 60"
  define h m r where "h = q div 60" and "m = q mod 60" and "r = s mod 60"
  have eqs: "u div 3600000000 = h" "u div 60000000 mod 60 = m" "u div 1000000 mod 60 = r"
    by (simp_all add: h_def m_def r_def q_def s_def zdiv_zmult2_eq [symmetric])
  have "u = 1000 * (s * 1000) + u mod 1000000" by (simp add: s_def)
  then have "u div 1000 = (1000 * (s * 1000) + u mod 1000000) div 1000" by simp
  then have ms: "u div 1000 = s * 1000 + f" by (simp add: f_def)
  have "q = 60 * h + m" "s = 60 * q + r" by (simp_all add: h_def m_def r_def q_def)
  then have sec: "h * 3600 + m * 60 + r = s" by linarith
  have nonneg: "0 \<le> s" "0 \<le> h" "0 \<le> m" "0 \<le> r" "0 \<le> f"
    using assms by (simp_all add: h_def m_def r_def q_def s_def f_def)
  have less: "m < 60" "r < 60" "f < 1000"
    by (simp_all add: m_def r_def f_def div_less_iff_less_mult)
  have h: "h < 24" using assms eqs(1) [symmetric] by (simp add: us_per_day_def div_less_iff_less_mult)
  have "hms_us [nat h, nat m, nat r] (int (nat f) * 1000) = (h * 3600 + m * 60 + r) * 1000000 + f * 1000"
    using nonneg by (simp add: hms_us_def)
  then show "hms_us [nat (u div 3600000000), nat (u div 60000000 mod 60), nat (u div 1000000 mod 60)]
           (int (nat (u mod 1000000 div 1000)) * 1000) = u div 1000 * 1000"
    unfolding eqs f_def [symmetric] sec ms by simp
  show "hms_in_range [nat (u div 3600000000), nat (u div 60000000 mod 60), nat (u div 1000000 mod 60)]"
    unfolding eqs using h less nonneg by (simp add: hms_in_range_def nat_less_iff)
  show "nat (u mod 1000000 div 1000) < 1000"
    using less unfolding f_def by simp
qed

text \<open>The year of an instant, and the canonical text of years with four digits.\<close>

definition instant_year :: "int \<Rightarrow> int" where
  "instant_year t = fst (instant_date t)"

definition trunc_ms :: "int \<Rightarrow> int" where
  "trunc_ms t = t div 1000 * 1000"

lemma mk_instant_trunc:
  "mk_instant (instant_day t) (time_us t div 1000 * 1000) = trunc_ms t"
proof -
  let ?d = "t div us_per_day" let ?u = "t mod us_per_day"
  have "t = 1000 * (?d * 86400000) + ?u" by (simp add: us_per_day_def)
  then have "t div 1000 = (1000 * (?d * 86400000) + ?u) div 1000" by simp
  then have "t div 1000 = ?d * 86400000 + ?u div 1000" by simp
  then show ?thesis
    by (simp add: mk_instant_def instant_day_def time_us_def trunc_ms_def us_per_day_def)
qed

lemma format_ts_fields:
  assumes "1000 \<le> instant_year t" "instant_year t \<le> 9999"
  obtains y m d h mi s ms where
    "format_ts t = canon_date y m d @ ''T'' @ canon_time h mi s ms @ ''Z''"
    "is_ok (mk_date (int y) (int m) (int d))" "hms_in_range [h, mi, s]" "ms < 1000"
    "mk_instant (ymd2ord (int y, int m, int d)) (hms_us [h, mi, s] (int ms * 1000)) = trunc_ms t"
proof -
  obtain Y M D where ymd: "instant_date t = (Y, M, D)" by (cases "instant_date t")
  then have valid: "valid_date (Y, M, D)" by (metis instant_date_def valid_ord2ymd)
  have Y: "1000 \<le> Y" "Y \<le> 9999" using assms ymd by (auto simp: instant_year_def)
  let ?u = "time_us t"
  let ?h = "nat (?u div 3600000000)" let ?mi = "nat (?u div 60000000 mod 60)"
  let ?s = "nat (?u div 1000000 mod 60)" let ?ms = "nat (?u mod 1000000 div 1000)"
  have u: "0 \<le> ?u" "?u < us_per_day" by (simp_all add: time_us_def us_per_day_def)
  have int: "int (nat Y) = Y" "int (nat M) = M" "int (nat D) = D" using Y valid by auto
  have str: "int_str Y = pad 4 (nat Y)"
    using Y nat_str_pad4 [of "nat Y"] by (simp add: int_str_def nat_less_iff le_nat_iff)
  show thesis
  proof (rule that [of "nat Y" "nat M" "nat D" ?h ?mi ?s ?ms])
    show "format_ts t = canon_date (nat Y) (nat M) (nat D) @ ''T'' @ canon_time ?h ?mi ?s ?ms @ ''Z''"
      by (simp add: format_ts_def ymd Let_def str canon_date_def canon_time_def)
    show "is_ok (mk_date (int (nat Y)) (int (nat M)) (int (nat D)))"
      unfolding int using Y valid by (simp add: mk_date_def)
    show "hms_in_range [?h, ?mi, ?s]" "?ms < 1000" using time_us_fields [OF u] by auto
    show "mk_instant (ymd2ord (int (nat Y), int (nat M), int (nat D)))
        (hms_us [?h, ?mi, ?s] (int ?ms * 1000)) = trunc_ms t"
      unfolding int time_us_fields(1) [OF u] ymd [symmetric] ymd2ord_instant_date
      by (rule mk_instant_trunc)
  qed
qed

lemma strptime_format:
  assumes "1000 \<le> instant_year t" "instant_year t \<le> 9999"
  shows "strptime_ms (format_ts t) = Inr (trunc_ms t)"
  using assms
proof (rule format_ts_fields)
  fix y m d h mi s ms
  assume "format_ts t = canon_date y m d @ ''T'' @ canon_time h mi s ms @ ''Z''"
    and ok: "is_ok (mk_date (int y) (int m) (int d))" "hms_in_range [h, mi, s]" "ms < 1000"
    and "mk_instant (ymd2ord (int y, int m, int d)) (hms_us [h, mi, s] (int ms * 1000)) = trunc_ms t"
  then show ?thesis using strptime_ms_canon [OF ok] by simp
qed

lemma instant_in_range_trunc: "instant_in_range t \<Longrightarrow> instant_in_range (trunc_ms t)"
proof -
  assume a: "instant_in_range t"
  have le: "trunc_ms t \<le> t" by (simp add: trunc_ms_def)
  have "min_instant div 1000 \<le> t div 1000"
    using a by (intro zdiv_mono1) (auto simp: instant_in_range_def)
  then have "min_instant \<le> trunc_ms t"
    by (simp add: trunc_ms_def min_instant_def mk_instant_def epoch_ord_def us_per_day_def)
  with a le show ?thesis by (simp add: instant_in_range_def)
qed

lemma parse_format:
  assumes "1000 \<le> instant_year t" "instant_year t \<le> 9999" "instant_in_range t"
  shows "parse_ts (JStr (format_ts t)) = Inr (trunc_ms t)"
  using assms(1,2)
proof (rule format_ts_fields)
  fix y m d h mi s ms
  assume f: "format_ts t = canon_date y m d @ ''T'' @ canon_time h mi s ms @ ''Z''"
    and ok: "is_ok (mk_date (int y) (int m) (int d))" "hms_in_range [h, mi, s]" "ms < 1000"
    and inst: "mk_instant (ymd2ord (int y, int m, int d)) (hms_us [h, mi, s] (int ms * 1000)) = trunc_ms t"
  have strip: "strip (format_ts t) = format_ts t"
  proof (rule strip_noop)
    have "is_digit (hd (format_ts t))"
      using pad_nth_digit [of 0 4 y] by (simp add: f canon_date_def hd_append hd_conv_nth)
    then show "\<not> is_space (hd (format_ts t))"
      by (auto simp: is_digit_def digit_val_def is_space_def Let_def split: if_splits)
    show "\<not> is_space (last (format_ts t))" by (simp add: f is_space_def)
  qed
  have "butlast (format_ts t) @ ''+00:00'' = canon_date y m d @ ''T'' @ canon_time h mi s ms @ ''+00:00''"
    by (simp add: f butlast_append)
  moreover have "ends_with_z (format_ts t)" by (simp add: ends_with_z_def f)
  ultimately show ?thesis
    using fromisoformat_canon [OF ok] inst instant_in_range_trunc [OF assms(3)]
    by (simp add: parse_ts_def strip Let_def astimezone_utc_def)
qed

lemma instant_year_bound: "instant_in_range t \<Longrightarrow> 1 \<le> instant_year t \<and> instant_year t \<le> 9999"
proof -
  assume a: "instant_in_range t"
  obtain y m d where ymd: "instant_date t = (y, m, d)" by (cases "instant_date t")
  then have v: "valid_date (y, m, d)" by (metis instant_date_def valid_ord2ymd)
  have ord: "ymd2ord (y, m, d) = instant_day t" by (metis ymd ymd2ord_instant_date)
  have lo: "ymd2ord (1, 1, 1) = 1" and hi: "ymd2ord (9999, 12, 31) = 3652059"
    and vs: "valid_date (1, 1, 1)" "valid_date (9999, 12, 31)" by code_simp+
  have "instant_day (mk_instant 1 0) \<le> instant_day t" "instant_day t \<le> instant_day (mk_instant 3652060 0 - 1)"
    using a by (auto intro!: instant_day_mono simp: instant_in_range_def min_instant_def max_instant_def)
  then have "1 \<le> instant_day t" "instant_day t \<le> 3652059"
    by (simp_all add: instant_day_def mk_instant_def us_per_day_def epoch_ord_def)
  then have "\<not> ymd2ord (y, m, d) < ymd2ord (1, 1, 1)" "\<not> ymd2ord (9999, 12, 31) < ymd2ord (y, m, d)"
    unfolding ord lo hi by auto
  then have "\<not> y < 1" "\<not> 9999 < y"
    using ymd2ord_less [OF v vs(1)] ymd2ord_less [OF vs(2) v] by blast+
  then show ?thesis by (simp add: instant_year_def ymd)
qed

lemma time_us_mk: "0 \<le> u \<Longrightarrow> u < us_per_day \<Longrightarrow> time_us (mk_instant n u) = u"
  by (simp add: time_us_def mk_instant_def)

lemma div_trunc: "0 \<le> k \<Longrightarrow> u div 1000 * 1000 div (1000 * k) = u div (1000 * k)" for u k :: int
  by (simp add: mult.commute [of _ 1000] zdiv_zmult2_eq)

lemma trunc_ms_idem [simp]: "trunc_ms (trunc_ms t) = trunc_ms t"
  by (simp add: trunc_ms_def)

lemma format_trunc: "format_ts (trunc_ms t) = format_ts t"
proof -
  have day: "trunc_ms t div us_per_day = t div us_per_day"
    using div_trunc [of t 86400000] by (simp add: trunc_ms_def us_per_day_def)
  define u where "u = time_us t"
  have "trunc_ms t = mk_instant (instant_day t) (u div 1000 * 1000)"
    by (simp add: u_def mk_instant_trunc)
  moreover have "0 \<le> u" "u < us_per_day" by (simp_all add: u_def time_us_def us_per_day_def)
  then have "0 \<le> u div 1000 * 1000" "u div 1000 * 1000 < us_per_day"
    by (auto intro: le_less_trans [of _ u])
  ultimately have tu: "time_us (trunc_ms t) = u div 1000 * 1000"
    by (simp add: time_us_mk)
  have "u div 1000 * 1000 mod 1000000 = 1000 * (u div 1000 mod 1000)"
    using mod_mult_mult1 [of 1000 "u div 1000" 1000] by (simp add: mult.commute)
  moreover have "u mod 1000000 div 1000 = u div 1000 mod 1000"
    using zmod_zmult2_eq [of 1000 u 1000] by simp
  ultimately have ms: "u div 1000 * 1000 mod 1000000 div 1000 = u mod 1000000 div 1000" by simp
  have parts: "u div 1000 * 1000 div 3600000000 = u div 3600000000"
    "u div 1000 * 1000 div 60000000 = u div 60000000" "u div 1000 * 1000 div 1000000 = u div 1000000"
    using div_trunc [of 3600000 u] div_trunc [of 60000 u] div_trunc [of 1000 u] by simp_all
  show ?thesis
    unfolding format_ts_def instant_date_def day tu Let_def u_def [symmetric] parts ms by (rule refl)
qed

lemma parse_ts_in_range: "parse_ts j = Inr t \<Longrightarrow> instant_in_range t"
  by (auto simp: parse_ts_def astimezone_utc_def Let_def split: json.splits option.splits if_splits)

text \<open>
  Canonicalization is idempotent. A timestamp of year 1000 or later has a canonical
  form; canonicalizing that form gives it back, and \<^verbatim>\<open>strptime\<close> reads it as the
  timestamp's instant cut to milliseconds.
\<close>

theorem canonical_ts_idempotent:
  assumes "parse_ts j = Inr t" and "1000 \<le> instant_year t"
  shows "\<exists>c. canonical_ts j = Inr c \<and> canonical_ts (JStr c) = Inr c
           \<and> strptime_ms c = Inr (trunc_ms t)"
proof -
  have r: "instant_in_range t" using assms(1) by (rule parse_ts_in_range)
  then have y: "instant_year t \<le> 9999" using instant_year_bound by blast
  show ?thesis
    using assms parse_format [OF assms(2) y r] strptime_format [OF assms(2) y]
    by (simp add: canonical_ts_def format_trunc)
qed

theorem canonical_ts_idempotent_witness:
  "\<exists>c. canonical_ts (JStr ''2026-07-01T09:30:00.1239+02:00'') = Inr c
     \<and> canonical_ts (JStr c) = Inr c \<and> strptime_ms c = Inr (trunc_ms 1782891000123900)"
proof -
  have p: "parse_ts (JStr ''2026-07-01T09:30:00.1239+02:00'') = Inr 1782891000123900" by code_simp
  have y: "1000 \<le> instant_year 1782891000123900" by code_simp
  show ?thesis by (rule canonical_ts_idempotent [OF p y])
qed

text \<open>Canonical forms are equal exactly for instants equal to the millisecond.\<close>

lemma canonical_ts_eq_iff:
  assumes "parse_ts a = Inr s" "parse_ts b = Inr t" "1000 \<le> instant_year s" "1000 \<le> instant_year t"
  shows "canonical_ts a = canonical_ts b \<longleftrightarrow> trunc_ms s = trunc_ms t"
proof
  assume "canonical_ts a = canonical_ts b"
  then have "format_ts s = format_ts t" using assms by (simp add: canonical_ts_def)
  moreover have "instant_year s \<le> 9999" "instant_year t \<le> 9999"
    using assms parse_ts_in_range instant_year_bound by blast+
  ultimately show "trunc_ms s = trunc_ms t"
    using strptime_format [OF assms(3)] strptime_format [OF assms(4)] by simp
next
  assume "trunc_ms s = trunc_ms t"
  then have "format_ts s = format_ts t" by (metis format_trunc)
  then show "canonical_ts a = canonical_ts b" using assms by (simp add: canonical_ts_def)
qed

section \<open>Properties of the event key\<close>

definition bar_free :: "string list \<Rightarrow> bool" where
  "bar_free ks = list_all (\<lambda>k. CHR ''|'' \<notin> set k) ks"

text \<open>Field values that the digest must not confuse.\<close>

definition digest_separates :: "(string \<Rightarrow> string) \<Rightarrow> string list \<Rightarrow> string list \<Rightarrow> bool" where
  "digest_separates sha256 ks ks' =
     (take 32 (sha256 (join ''|'' ks)) = take 32 (sha256 (join ''|'' ks')) \<longrightarrow>
        join ''|'' ks = join ''|'' ks')"

lemma str_parts_Inr: "str_parts js = Inr ss \<longleftrightarrow> js = map JStr ss"
proof (induction js arbitrary: ss rule: str_parts.induct)
  case (2 s js)
  then show ?case by (cases ss) (auto simp: bind_r_Inr_iff)
qed auto

lemma natural_key_nonempty: "natural_key dep ety p scope = Inr ks \<Longrightarrow> ks \<noteq> []"
  by (auto simp: natural_key_def bind_r_Inr_iff str_parts_Inr)

text \<open>
  The key identifies the fact. For two events whose key fields contain no \<open>|\<close> and
  whose digests do not collide, the event keys are equal exactly when the event type, the
  fields of the family and the scope are.
\<close>

theorem event_key_eq_iff:
  assumes "natural_key dep ety p scope = Inr ks" and "natural_key dep' ety' p' scope' = Inr ks'"
    and "bar_free ks" and "bar_free ks'" and "digest_separates sha256 ks ks'"
  shows "event_key sha256 dep ety p scope = event_key sha256 dep' ety' p' scope' \<longleftrightarrow> ks = ks'"
proof -
  have ne: "ks \<noteq> []" "ks' \<noteq> []" using assms(1,2) by (simp_all add: natural_key_nonempty)
  have "join ''|'' ks = join ''|'' ks' \<Longrightarrow> ks = ks'"
    using ne assms(3,4) by (intro join_inject [of "CHR ''|''"]) (auto simp: bar_free_def list_all_iff)
  then show ?thesis using assms(1,2,5) by (auto simp: event_key_def digest_separates_def)
qed

definition ex_activity :: "string \<Rightarrow> string \<Rightarrow> string \<Rightarrow> payload" where
  "ex_activity u w ts = [(''user_ref'', JStr u), (''timestamp'', JStr ts),
     (''work_item_id'', JStr w), (''action_type'', JStr ''lookup_performed'')]"

theorem event_key_eq_iff_witness:
  "event_key id (JStr ''dep_1'') (JStr ''activity'') (ex_activity ''u1'' ''w1'' ''2026-07-01T00:00:00Z'') JNull
   \<noteq> event_key id (JStr ''dep_1'') (JStr ''activity'') (ex_activity ''u2'' ''w1'' ''2026-07-01T00:00:00Z'') JNull"
proof -
  have k1: "natural_key (JStr ''dep_1'') (JStr ''activity'')
      (ex_activity ''u1'' ''w1'' ''2026-07-01T00:00:00Z'') JNull
      = Inr [''activity'', ''dep_1'', ''u1'', ''w1'', ''2026-07-01T00:00:00.000Z'', ''lookup_performed'']"
    by code_simp
  have k2: "natural_key (JStr ''dep_1'') (JStr ''activity'')
      (ex_activity ''u2'' ''w1'' ''2026-07-01T00:00:00Z'') JNull
      = Inr [''activity'', ''dep_1'', ''u2'', ''w1'', ''2026-07-01T00:00:00.000Z'', ''lookup_performed'']"
    by code_simp
  show ?thesis
    using event_key_eq_iff [OF k1 k2, of id] by (simp add: bar_free_def digest_separates_def)
qed

lemma subscripts_agree:
  "''timestamp'' \<notin> set ks \<Longrightarrow> (\<And>k. k \<noteq> ''timestamp'' \<Longrightarrow> json_get p k = json_get p' k) \<Longrightarrow>
     subscripts p ks = subscripts p' ks"
  by (induction ks) (auto simp: subscript_def)

text \<open>
  Equal instants written in different offset forms give the same event key: two
  payloads of one family that differ only in the text of a timestamp denoting the same
  millisecond.
\<close>

theorem event_key_offset_independent:
  assumes "\<And>k. k \<noteq> ''timestamp'' \<Longrightarrow> json_get p k = json_get p' k"
    and "json_get p ''timestamp'' = Some a" and "json_get p' ''timestamp'' = Some b"
    and "parse_ts a = Inr s" and "parse_ts b = Inr t" and "trunc_ms s = trunc_ms t"
    and "1000 \<le> instant_year s" and "1000 \<le> instant_year t"
  shows "event_key sha256 dep ety p scope = event_key sha256 dep ety p' scope"
proof -
  have "canonical_ts a = canonical_ts b" using canonical_ts_eq_iff assms(4-8) by blast
  moreover have "key_parts dep ety p c = key_parts dep ety p' c" for c
    using assms(1) by (simp add: key_parts_def subscript_def json_get_or_def)
  ultimately show ?thesis
    using assms(2,3) by (simp add: event_key_def natural_key_def subscript_def)
qed

theorem event_key_offset_independent_witness:
  "event_key id (JStr ''d'') (JStr ''activity'') (ex_activity ''u'' ''w'' ''2026-07-01T09:30:00+02:00'') JNull
   = event_key id (JStr ''d'') (JStr ''activity'') (ex_activity ''u'' ''w'' ''2026-07-01T07:30:00Z'') JNull"
proof (rule event_key_offset_independent [where s = 1782891000000000 and t = 1782891000000000])
  show "parse_ts (JStr ''2026-07-01T09:30:00+02:00'') = Inr 1782891000000000" by code_simp
  show "parse_ts (JStr ''2026-07-01T07:30:00Z'') = Inr 1782891000000000" by code_simp
  show "1000 \<le> instant_year 1782891000000000" by code_simp
  then show "1000 \<le> instant_year 1782891000000000" .
qed (simp_all add: ex_activity_def)

text \<open>
  Workspace-scoped families. The key of a lifecycle, quality or revenue event does
  not depend on the deployment that carries it.
\<close>

theorem event_key_workspace_scoped:
  assumes "ety \<in> {JStr ''lifecycle'', JStr ''quality_signal'', JStr ''revenue_signal''}"
  shows "event_key sha256 dep ety p scope = event_key sha256 dep' ety p scope"
  using assms by (auto simp: event_key_def natural_key_def key_parts_def)

theorem event_key_workspace_scoped_witness:
  "event_key id (JStr ''dep_a'') (JStr ''lifecycle'') [(''timestamp'', JStr ''2026-07-01T00:00:00Z'')] JNull
   = event_key id (JStr ''dep_b'') (JStr ''lifecycle'') [(''timestamp'', JStr ''2026-07-01T00:00:00Z'')] JNull"
  by (rule event_key_workspace_scoped) simp

text \<open>
  Without the restriction on \<open>|\<close> the key is ambiguous whatever the digest: two
  different activities (the separator moved between user and work item) share one key.
\<close>

theorem event_key_separator_ambiguity:
  "ex_activity ''a|b'' ''c'' ts \<noteq> ex_activity ''a'' ''b|c'' ts \<and>
   event_key sha256 dep (JStr ''activity'') (ex_activity ''a|b'' ''c'' ts) scope =
   event_key sha256 dep (JStr ''activity'') (ex_activity ''a'' ''b|c'' ts) scope"
proof (cases dep)
  case (JStr d)
  then show ?thesis
    by (cases "canonical_ts (JStr ts)"; cases scope)
      (auto simp: event_key_def natural_key_def key_parts_def ex_activity_def subscript_def)
qed (auto simp: event_key_def natural_key_def key_parts_def ex_activity_def subscript_def bind_r_def
      split: sum.splits)

end
