(* ===== verification/Periods.thy ===== *)
theory Periods
  imports Calendar
begin

text \<open>
  Module \<^verbatim>\<open>domain/entities/periods.py\<close>: the period grammar \<^verbatim>\<open>YYYY-MM\<close> and
  \<^verbatim>\<open>YYYY-qN\<close> and the inclusive date bounds of a period.
\<close>

section \<open>The grammar\<close>

text \<open>\<^verbatim>\<open>$\<close> of a Python regex also matches before a final newline.\<close>

definition dollar :: "string \<Rightarrow> string" where
  "dollar s = (if s \<noteq> [] \<and> last s = CHR 0x0A then butlast s else s)"

definition match_month :: "string \<Rightarrow> (int \<times> int) option" where
  "match_month period =
     (let s = dollar period in
      if length s = 7 \<and> list_all is_digit (take 4 s) \<and> s ! 4 = CHR ''-''
         \<and> ((s ! 5 = CHR ''0'' \<and> is_digit (s ! 6) \<and> s ! 6 \<noteq> CHR ''0'')
            \<or> (s ! 5 = CHR ''1'' \<and> s ! 6 \<in> {CHR ''0'', CHR ''1'', CHR ''2''}))
      then Some (int (the (digits_val 0 (take 4 s))), int (the (digits_val 0 (drop 5 s))))
      else None)"

definition match_quarter :: "string \<Rightarrow> (int \<times> int) option" where
  "match_quarter period =
     (let s = dollar period in
      if length s = 7 \<and> list_all is_digit (take 4 s) \<and> s ! 4 = CHR ''-'' \<and> s ! 5 = CHR ''q''
         \<and> s ! 6 \<in> {CHR ''1'', CHR ''2'', CHR ''3'', CHR ''4''}
      then Some (int (the (digits_val 0 (take 4 s))), int (the (digits_val 0 (drop 6 s))))
      else None)"

section \<open>Bounds\<close>

definition prev_day :: "date \<Rightarrow> date result" where
  "prev_day d = (if ymd2ord d \<le> 1 then Inl OverflowError else Inr (ord2ymd (ymd2ord d - 1)))"

definition period_bounds :: "string \<Rightarrow> (date \<times> date) result" where
  "period_bounds period =
     (case match_month period of
        Some (y, mo) \<Rightarrow>
          bind_r (mk_date y mo 1) (\<lambda>start.
          bind_r (if mo = 12 then mk_date (y + 1) 1 1 else mk_date y (mo + 1) 1) (\<lambda>endd.
          bind_r (prev_day endd) (\<lambda>last_day. Inr (start, last_day))))
      | None \<Rightarrow>
          (case match_quarter period of
             Some (y, qn) \<Rightarrow>
               let start_month = (qn - 1) * 3 + 1; end_month = start_month + 3 in
               bind_r (mk_date y start_month 1) (\<lambda>start.
               bind_r (if end_month > 12 then mk_date (y + 1) 1 1 else mk_date y end_month 1) (\<lambda>endd.
               bind_r (prev_day endd) (\<lambda>last_day. Inr (start, last_day))))
           | None \<Rightarrow> Inl ValueError))"

definition date_between :: "date \<Rightarrow> date \<times> date \<Rightarrow> bool" where
  "date_between d b = (ymd2ord (fst b) \<le> ymd2ord d \<and> ymd2ord d \<le> ymd2ord (snd b))"

definition day_between :: "int \<Rightarrow> date \<times> date \<Rightarrow> bool" where
  "day_between n b = (ymd2ord (fst b) \<le> n \<and> n \<le> ymd2ord (snd b))"

section \<open>What the bounds select\<close>

definition month_period :: "nat \<Rightarrow> nat \<Rightarrow> string" where
  "month_period y m = pad 4 y @ ''-'' @ pad 2 m"

definition quarter_period :: "nat \<Rightarrow> nat \<Rightarrow> string" where
  "quarter_period y q = pad 4 y @ ''-q'' @ pad 1 q"

lemma char_newline_not_digit: "is_digit c \<Longrightarrow> c \<noteq> CHR 0x0A"
  by (auto simp: is_digit_def digit_val_def)

lemma dollar_noop: "s \<noteq> [] \<Longrightarrow> is_digit (last s) \<Longrightarrow> dollar s = s"
  by (auto simp: dollar_def dest: char_newline_not_digit)

lemma last_pad: "0 < k \<Longrightarrow> is_digit (last (pad k n))"
  by (rule pad_digits [of _ k n]) simp

definition month_digits_ok :: "nat \<Rightarrow> bool" where
  "month_digits_ok m =
     ((pad 2 m ! 0 = CHR ''0'' \<and> is_digit (pad 2 m ! 1) \<and> pad 2 m ! 1 \<noteq> CHR ''0'')
      \<or> (pad 2 m ! 0 = CHR ''1'' \<and> pad 2 m ! 1 \<in> {CHR ''0'', CHR ''1'', CHR ''2''}))"

lemma month_digits_ok_all: "list_all month_digits_ok [1..<13]"
  by code_simp

lemma two_digits: "1 \<le> m \<Longrightarrow> m \<le> 12 \<Longrightarrow> month_digits_ok m"
  using month_digits_ok_all by (simp add: list_all_iff)

lemma match_month_period:
  assumes "y < 10000" "1 \<le> m" "m \<le> 12"
  shows "match_month (month_period y m) = Some (int y, int m)"
proof -
  have "dollar (month_period y m) = month_period y m"
    by (rule dollar_noop) (simp_all add: month_period_def last_pad)
  moreover have "list_all is_digit (pad 4 y)" by (auto simp: list_all_iff dest: pad_digits)
  ultimately show ?thesis
    using assms two_digits [of m]
    by (simp add: match_month_def Let_def month_period_def nth_append month_digits_ok_def)
qed

lemma quarter_digits_all:
  "list_all (\<lambda>q. pad 1 q ! 0 \<in> {CHR ''1'', CHR ''2'', CHR ''3'', CHR ''4''}) [1..<5]"
  by code_simp

lemma quarter_digit: "1 \<le> q \<Longrightarrow> q \<le> 4 \<Longrightarrow>
    pad 1 q ! 0 \<in> {CHR ''1'', CHR ''2'', CHR ''3'', CHR ''4''}"
  using quarter_digits_all by (simp add: list_all_iff)

lemma match_quarter_period:
  assumes "y < 10000" "1 \<le> q" "q \<le> 4"
  shows "match_month (quarter_period y q) = None"
    and "match_quarter (quarter_period y q) = Some (int y, int q)"
proof -
  have d: "dollar (quarter_period y q) = quarter_period y q"
    by (rule dollar_noop) (simp_all add: quarter_period_def last_pad)
  have "list_all is_digit (pad 4 y)" by (auto simp: list_all_iff dest: pad_digits)
  then show "match_quarter (quarter_period y q) = Some (int y, int q)"
    using assms quarter_digit [of q] d
    by (simp add: match_quarter_def Let_def quarter_period_def nth_append)
  show "match_month (quarter_period y q) = None"
    using d by (simp add: match_month_def Let_def quarter_period_def nth_append)
qed

text \<open>The day before the first of a month is the last day of the month before.\<close>

lemma prev_day_first:
  assumes "valid_date (y, m, d)" "ymd2ord (y, m, d) + 1 = ymd2ord p" "1 \<le> y"
  shows "prev_day p = Inr (y, m, d)"
proof -
  have "1 \<le> ymd2ord (y, m, d)"
  proof (rule ccontr)
    assume "\<not> 1 \<le> ymd2ord (y, m, d)"
    then have "ymd2ord (y, m, d) < ymd2ord (1, 1, 1)"
      by (simp add: days_before_year_def days_before_month_def)
    moreover have "valid_date (1, 1, 1)" by (simp add: days_in_month_def)
    ultimately show False
      using assms ymd2ord_less_iff [of y m d 1 1 1] by auto
  qed
  moreover have "ymd2ord p - 1 = ymd2ord (y, m, d)" using assms(2) by linarith
  ultimately show ?thesis
    unfolding prev_day_def using ord2ymd_ymd2ord [OF assms(1)] by auto
qed

lemma month_last_ord:
  assumes "1 \<le> m" "m \<le> 12"
  shows "ymd2ord (y, m, days_in_month (is_leap y) m) + 1 =
           (if m = 12 then ymd2ord (y + 1, 1, 1) else ymd2ord (y, m + 1, 1))"
proof (cases "m = 12")
  case True
  then show ?thesis
    by (simp add: days_before_year_Suc days_before_month_def days_in_month_def)
next
  case False
  then show ?thesis using assms by (simp add: days_before_month_next)
qed

lemma prev_day_month:
  assumes "1 \<le> m" "m \<le> 12" "1 \<le> y" "y \<le> 9999" "\<not> (y = 9999 \<and> m = 12)"
  shows "bind_r (if m = 12 then mk_date (y + 1) 1 1 else mk_date y (m + 1) 1) prev_day =
           Inr (y, m, days_in_month (is_leap y) m)"
proof -
  have v: "valid_date (y, m, days_in_month (is_leap y) m)"
    using assms by (simp add: days_in_month_def)
  have "1 \<le> days_in_month l k" for l k by (simp add: days_in_month_def)
  then show ?thesis
    using assms prev_day_first [OF v] month_last_ord [of m y] by (auto simp: mk_date_def)
qed

lemma period_bounds_month:
  assumes "1 \<le> y" "y \<le> 9999" "1 \<le> m" "m \<le> 12" "\<not> (y = 9999 \<and> m = 12)"
  shows "period_bounds (month_period y m) =
           Inr ((int y, int m, 1), (int y, int m, days_in_month (is_leap (int y)) (int m)))"
  using assms prev_day_month [of "int m" "int y"]
  by (simp add: period_bounds_def match_month_period mk_date_def days_in_month_def bind_r_Inr_iff
      split: if_splits)

lemma date_between_months:
  assumes "valid_date (Y, M, D)" "valid_date (y, a, 1)" "valid_date (y, b, days_in_month (is_leap y) b)"
  shows "date_between (Y, M, D) ((y, a, 1), (y, b, days_in_month (is_leap y) b)) \<longleftrightarrow>
           Y = y \<and> a \<le> M \<and> M \<le> b"
proof -
  have lo: "ymd2ord (y, a, 1) \<le> ymd2ord (Y, M, D) \<longleftrightarrow> \<not> ymd2ord (Y, M, D) < ymd2ord (y, a, 1)"
    and hi: "ymd2ord (Y, M, D) \<le> ymd2ord (y, b, days_in_month (is_leap y) b) \<longleftrightarrow>
        \<not> ymd2ord (y, b, days_in_month (is_leap y) b) < ymd2ord (Y, M, D)"
    by linarith+
  show ?thesis
    unfolding date_between_def fst_conv snd_conv lo hi
      ymd2ord_less_iff [OF assms(1,2)] ymd2ord_less_iff [OF assms(3,1)]
    using assms(1) by auto
qed

lemma period_bounds_quarter:
  assumes "1 \<le> y" "y \<le> 9999" "1 \<le> q" "q \<le> 4" "\<not> (y = 9999 \<and> q = 4)"
  shows "period_bounds (quarter_period y q) =
           Inr ((int y, 3 * int q - 2, 1), (int y, 3 * int q, days_in_month (is_leap (int y)) (3 * int q)))"
proof -
  have "q = 1 \<or> q = 2 \<or> q = 3 \<or> q = 4" using assms(3,4) by linarith
  then show ?thesis
    using assms prev_day_month [of "3 * int q" "int y"] match_quarter_period [of y q]
    by (elim disjE) (simp_all add: period_bounds_def mk_date_def days_in_month_def)
qed

text \<open>The bounds of a month period select exactly the days of that month.\<close>

theorem period_month_days:
  assumes "1 \<le> y" "y \<le> 9999" "1 \<le> m" "m \<le> 12" "\<not> (y = 9999 \<and> m = 12)"
  shows "\<exists>b. period_bounds (month_period y m) = Inr b \<and>
           (\<forall>Y M D. valid_date (Y, M, D) \<longrightarrow>
              (date_between (Y, M, D) b \<longleftrightarrow> Y = int y \<and> M = int m))"
proof -
  have "date_between (Y, M, D) ((int y, int m, 1), (int y, int m, days_in_month (is_leap (int y)) (int m)))
      \<longleftrightarrow> Y = int y \<and> M = int m" if "valid_date (Y, M, D)" for Y M D
    using date_between_months [OF that, of "int y" "int m" "int m"] assms
    by (auto simp: days_in_month_def)
  then show ?thesis using period_bounds_month [OF assms] by blast
qed

theorem period_month_days_witness:
  "\<exists>b. period_bounds ''2028-02'' = Inr b \<and> date_between (2028, 2, 29) b \<and> \<not> date_between (2028, 3, 1) b"
proof -
  have p: "month_period 2028 2 = ''2028-02''" by code_simp
  have v: "valid_date (2028, 2, 29)" "valid_date (2028, 3, 1)" by code_simp+
  show ?thesis using period_month_days [of 2028 2] v unfolding p by fastforce
qed

text \<open>
  The bounds of a quarter period select exactly the days of its three months, so the
  four quarters of a year share its months out.
\<close>

theorem period_quarter_days:
  assumes "1 \<le> y" "y \<le> 9999" "1 \<le> q" "q \<le> 4" "\<not> (y = 9999 \<and> q = 4)"
  shows "\<exists>b. period_bounds (quarter_period y q) = Inr b \<and>
           (\<forall>Y M D. valid_date (Y, M, D) \<longrightarrow>
              (date_between (Y, M, D) b \<longleftrightarrow> Y = int y \<and> (M - 1) div 3 + 1 = int q))"
proof -
  have "date_between (Y, M, D)
      ((int y, 3 * int q - 2, 1), (int y, 3 * int q, days_in_month (is_leap (int y)) (3 * int q)))
      \<longleftrightarrow> Y = int y \<and> (M - 1) div 3 + 1 = int q" if "valid_date (Y, M, D)" for Y M D
  proof -
    have "3 * int q - 2 \<le> M \<and> M \<le> 3 * int q \<longleftrightarrow> (M - 1) div 3 + 1 = int q" by linarith
    then show ?thesis
      using date_between_months [OF that, of "int y" "3 * int q - 2" "3 * int q"] assms
      by (auto simp: days_in_month_def)
  qed
  then show ?thesis using period_bounds_quarter [OF assms] by blast
qed

theorem period_quarter_days_witness:
  "\<exists>b. period_bounds ''2026-q3'' = Inr b \<and> date_between (2026, 9, 30) b \<and> \<not> date_between (2026, 10, 1) b"
proof -
  have p: "quarter_period 2026 3 = ''2026-q3''" by code_simp
  have v: "valid_date (2026, 9, 30)" "valid_date (2026, 10, 1)" by code_simp+
  show ?thesis using period_quarter_days [of 2026 3] v unfolding p by fastforce
qed

text \<open>
  The documented spelling \<^verbatim>\<open>YYYY-Qn\<close> is not in the grammar: an upper-case
  quarter is refused for every year and quarter.
\<close>

theorem period_upper_quarter_refused:
  "period_bounds (pad 4 y @ ''-Q'' @ pad 1 q) = Inl ValueError"
proof -
  have "dollar (pad 4 y @ ''-Q'' @ pad 1 q) = pad 4 y @ ''-Q'' @ pad 1 q"
    by (rule dollar_noop) (simp_all add: last_pad)
  then show ?thesis
    by (simp add: period_bounds_def match_month_def match_quarter_def Let_def nth_append)
qed

end
