(* ===== verification/ErrorModel.thy ===== *)
theory ErrorModel
  imports Prelude
begin

text \<open>
  The closed error registry (\<^verbatim>\<open>contract/error-codes.json\<close> as
  \<^verbatim>\<open>platform/config/registry.py\<close> loads it), the contract error of
  \<^verbatim>\<open>errors.py\<close>, and the response envelope with the application's exception
  handlers (\<^verbatim>\<open>api/response_models/envelope.py\<close>, \<^verbatim>\<open>api/app.py\<close>).
  Request ids and the clock are parameters.
\<close>

section \<open>The registry\<close>

text \<open>Code, name, HTTP status, retryable, message.\<close>

definition registry_codes :: "(string \<times> string \<times> int \<times> bool \<times> string) list" where
  "registry_codes =
    [(''TF-EVT-001'', ''SCHEMA_VERSION_UNSUPPORTED'', 400, False,
      ''Envelope schema_version is not supported by this server.''),
     (''TF-EVT-002'', ''UNKNOWN_DEPLOYMENT'', 404, False,
      ''deployment_id is not registered.''),
     (''TF-EVT-003'', ''MALFORMED_FIELD'', 400, False,
      ''A field failed validation. See field_path, expected, received.''),
     (''TF-EVT-004'', ''UNKNOWN_ID_NAMESPACE'', 400, False,
      ''user_ref or work_item_id namespace is not registered for this deployment.''),
     (''TF-EVT-005'', ''DUPLICATE_EVENT'', 200, False,
      ''Idempotent no-op: an event with this natural key already exists. Not a failure.''),
     (''TF-EVT-006'', ''CONTENT_FIELD_REJECTED'', 400, False,
      ''Payload contains a field that could carry prompt/response content. Structurally forbidden (BR-001).''),
     (''TF-EVT-007'', ''BATCH_LIMIT_EXCEEDED'', 413, True,
      ''Batch exceeds max_batch_size. Split and resend; idempotency makes resends safe.''),
     (''TF-EVT-008'', ''VALUE_ASSERTION_REJECTED'', 400, False,
      ''Payload contains a value/savings/ROI assertion field. The SDK witnesses facts; it never accepts valuations.''),
     (''TF-EVT-009'', ''TIMESTAMP_OUT_OF_RANGE'', 400, False,
      ''Event timestamp is in the future or beyond the accepted backfill horizon.''),
     (''TF-CFG-001'', ''PARAMETER_OVERLAP'', 409, False,
      ''Effective-date range overlaps an existing parameter version (BR: overlap-free windows).''),
     (''TF-CFG-002'', ''ROLE_DENIED'', 403, False,
      ''Caller lacks the required role (e.g., FINANCE_PARAMS for parameter writes).''),
     (''TF-CFG-003'', ''DEPLOYMENT_EXISTS'', 409, False,
      ''Deployment with this external reference already registered.''),
     (''TF-CFG-004'', ''NAMESPACE_CONFLICT'', 409, False,
      ''Id-namespace mapping conflicts with an existing mapping.''),
     (''TF-CFG-005'', ''WEBHOOK_UNREACHABLE'', 422, True,
      ''Webhook endpoint failed verification challenge.''),
     (''TF-READ-001'', ''FIGURE_NOT_FOUND'', 404, False,
      ''No figure with this id/period for the deployment.''),
     (''TF-READ-002'', ''PERIOD_NOT_COMPUTED'', 200, False,
      ''Requested period has no finalized computation yet. Response includes next_compute_at. Not a failure.''),
     (''TF-READ-003'', ''COHORT_NOT_DISCLOSABLE'', 200, False,
      ''Benchmark cohort below k_disclose. Response states threshold status (BR-014). Not a failure.''),
     (''TF-AUTH-001'', ''INVALID_API_KEY'', 401, False,
      ''API key missing, malformed, or revoked.''),
     (''TF-AUTH-002'', ''KEY_SCOPE_EXCEEDED'', 403, False,
      ''Key is not scoped to this deployment or plane.''),
     (''TF-AUTH-003'', ''TEST_KEY_IN_PRODUCTION'', 403, False,
      ''Test-scoped key used against production mode.''),
     (''TF-RATE-001'', ''RATE_LIMITED'', 429, True,
      ''Per-tenant rate limit exceeded. Honor retry_after; client buffering + idempotent replay is the designed behavior.''),
     (''TF-RATE-002'', ''QUOTA_EXCEEDED'', 429, False,
      ''Plan-level event quota exhausted for the period.''),
     (''TF-SRV-001'', ''INTERNAL'', 500, True,
      ''Platform-side failure. Retry with backoff; report request_id if persistent.''),
     (''TF-SRV-002'', ''INGESTION_PAUSED'', 503, True,
      ''Ingestion temporarily paused (correctness over liveness, e.g., checkpoint store unavailable). Buffer and replay.''),
     (''TF-CFG-006'', ''IMMUTABLE_FIELD'', 409, False,
      ''Field cannot change after events exist for the deployment (e.g., type). Register a new deployment instead.''),
     (''TF-CFG-007'', ''MALFORMED_FIELD'', 400, False,
      ''Config-plane body field failed validation. See field_path, expected, received.'')]"

definition code_ids :: "string list" where
  "code_ids = map fst registry_codes"

definition get_code :: "string \<Rightarrow> (string \<times> int \<times> bool \<times> string) result" where
  "get_code code =
     (case map_of registry_codes code of None \<Rightarrow> Inl KeyError | Some d \<Rightarrow> Inr d)"

section \<open>TFError\<close>

definition mk_tf_error ::
  "string \<Rightarrow> string option \<Rightarrow> int option \<Rightarrow> string option \<Rightarrow> string option \<Rightarrow> tf_error result" where
  "mk_tf_error code field_path retry_after detail message =
     bind_r (get_code code) (\<lambda>(name, http, retryable, msg).
       Inr \<lparr>err_code = code, err_name = name, err_http = http, err_retryable = retryable,
            err_message = (case message of None \<Rightarrow> msg | Some m \<Rightarrow> if m = [] then msg else m),
            err_field_path = field_path, err_retry_after = retry_after, err_detail = detail\<rparr>)"

text \<open>\<^verbatim>\<open>raise TFError(code, ...)\<close> as an exception value.\<close>

definition tf_raise :: "string \<Rightarrow> string option \<Rightarrow> int option \<Rightarrow> string option \<Rightarrow> exn" where
  "tf_raise code field_path retry_after detail =
     (case mk_tf_error code field_path retry_after detail None of
        Inl e \<Rightarrow> e | Inr err \<Rightarrow> TFExn err)"

definition opt_str :: "string option \<Rightarrow> json" where
  "opt_str s = (case s of None \<Rightarrow> JNull | Some x \<Rightarrow> JStr x)"

definition to_error_object :: "tf_error \<Rightarrow> json" where
  "to_error_object e =
     JObj ([(''code'', JStr (err_code e)), (''name'', JStr (err_name e)),
            (''message'', JStr (err_message e)), (''retryable'', JBool (err_retryable e))]
           @ (case err_field_path e of None \<Rightarrow> [] | Some p \<Rightarrow> [(''field_path'', JStr p)])
           @ (case err_retry_after e of None \<Rightarrow> [] | Some n \<Rightarrow> [(''retry_after'', JInt n)])
           @ (case err_detail e of None \<Rightarrow> [] | Some d \<Rightarrow> [(''detail'', JStr d)]))"

section \<open>The envelope\<close>

definition meta :: "string \<Rightarrow> string \<Rightarrow> string option \<Rightarrow> string option \<Rightarrow> string \<Rightarrow> json" where
  "meta request_id schema_version deployment_id next_cursor as_of =
     JObj ([(''schema_version'', JStr schema_version), (''request_id'', JStr request_id),
            (''as_of'', JStr as_of)]
           @ (case deployment_id of None \<Rightarrow> [] | Some d \<Rightarrow> [(''deployment_id'', JStr d)])
           @ (case next_cursor of None \<Rightarrow> [] | Some c \<Rightarrow> [(''next_cursor'', JStr c)]))"

definition envelope ::
  "json \<Rightarrow> string \<Rightarrow> string \<Rightarrow> json list \<Rightarrow> string option \<Rightarrow> string option \<Rightarrow> string \<Rightarrow> json" where
  "envelope data request_id schema_version errors deployment_id next_cursor as_of =
     JObj [(''data'', data),
           (''meta'', meta request_id schema_version deployment_id next_cursor as_of),
           (''errors'', JList errors)]"

record response =
  resp_status :: int
  resp_body :: json
  resp_headers :: "(string \<times> string) list"

definition handle_tf_error :: "string \<Rightarrow> string \<Rightarrow> string \<Rightarrow> tf_error \<Rightarrow> response" where
  "handle_tf_error request_id schema_version as_of e =
     \<lparr>resp_status = err_http e,
      resp_body = envelope JNull request_id schema_version [to_error_object e] None None as_of,
      resp_headers = (case err_retry_after e of None \<Rightarrow> []
                      | Some n \<Rightarrow> [(''Retry-After'', int_str n)])\<rparr>"

definition handle_unexpected :: "string \<Rightarrow> string \<Rightarrow> string \<Rightarrow> response result" where
  "handle_unexpected request_id schema_version as_of =
     bind_r (mk_tf_error ''TF-SRV-001'' None None (Some ''internal error'') None) (\<lambda>e.
       Inr \<lparr>resp_status = err_http e,
            resp_body = envelope JNull request_id schema_version [to_error_object e] None None as_of,
            resp_headers = []\<rparr>)"

text \<open>What the application answers to an exception that leaves a handler.\<close>

definition handle_exn :: "string \<Rightarrow> string \<Rightarrow> string \<Rightarrow> exn \<Rightarrow> response result" where
  "handle_exn request_id schema_version as_of x =
     (case x of TFExn e \<Rightarrow> Inr (handle_tf_error request_id schema_version as_of e)
      | _ \<Rightarrow> handle_unexpected request_id schema_version as_of)"

section \<open>Every answer carries a registered code\<close>

definition registered :: "tf_error \<Rightarrow> bool" where
  "registered e = (case get_code (err_code e) of Inl _ \<Rightarrow> False
                   | Inr (name, http, retryable, _) \<Rightarrow>
                       err_name e = name \<and> err_http e = http \<and> err_retryable e = retryable)"

lemma mk_tf_error_registered: "mk_tf_error c fp ra d m = Inr e \<Longrightarrow> registered e \<and> err_code e = c"
  by (auto simp: mk_tf_error_def registered_def bind_r_Inr_iff)

lemma mk_tf_error_unknown: "c \<notin> set code_ids \<Longrightarrow> mk_tf_error c fp ra d m = Inl KeyError"
proof -
  assume "c \<notin> set code_ids"
  then have "map_of registry_codes c = None" by (simp add: code_ids_def map_of_eq_None_iff)
  then show ?thesis by (simp add: mk_tf_error_def get_code_def)
qed

lemma mk_tf_error_known: "c \<in> set code_ids \<Longrightarrow> \<exists>e. mk_tf_error c fp ra d m = Inr e"
proof -
  assume "c \<in> set code_ids"
  then have "map_of registry_codes c \<noteq> None" by (simp add: code_ids_def map_of_eq_None_iff)
  then show ?thesis by (auto simp: mk_tf_error_def get_code_def)
qed

lemma tf_raise_known: "c \<in> set code_ids \<Longrightarrow> \<exists>e. tf_raise c fp ra d = TFExn e \<and> registered e \<and> err_code e = c"
  using mk_tf_error_known [of c fp ra d None]
  by (auto simp: tf_raise_def dest: mk_tf_error_registered)

lemma registered_code: "registered e \<Longrightarrow> err_code e \<in> set code_ids"
  by (auto simp: registered_def get_code_def code_ids_def split: sum.splits option.splits
      dest: map_of_SomeD intro: rev_image_eqI)

lemma srv_001: "\<exists>e. mk_tf_error ''TF-SRV-001'' fp ra d m = Inr e \<and> registered e \<and>
    err_code e = ''TF-SRV-001'' \<and> err_http e = 500 \<and> err_retry_after e = ra"
  by (simp add: mk_tf_error_def get_code_def registry_codes_def registered_def)

text \<open>
  Whatever exception leaves a handler, the application answers with the envelope of
  one error: \<open>data\<close> is null, the single error object carries a registered code, the status
  is that code's, an exception that is no contract error answers \<^verbatim>\<open>TF-SRV-001\<close> with
  status 500 (internals do not leak), and the \<^verbatim>\<open>Retry-After\<close> header is sent exactly
  when the error has a retry delay.
\<close>

theorem handle_exn_closed:
  assumes "\<And>e. x = TFExn e \<Longrightarrow> registered e"
  shows "\<exists>r e. handle_exn rid sv now x = Inr r \<and> registered e \<and>
           resp_status r = err_http e \<and>
           resp_body r = envelope JNull rid sv [to_error_object e] None None now \<and>
           (resp_headers r = [] \<longleftrightarrow> err_retry_after e = None) \<and>
           (case x of TFExn e' \<Rightarrow> e' = e
            | _ \<Rightarrow> err_code e = ''TF-SRV-001'' \<and> resp_status r = 500)"
proof (cases "\<exists>e. x = TFExn e")
  case True
  with assms show ?thesis
    by (auto simp: handle_exn_def handle_tf_error_def split: option.split)
next
  case False
  obtain e where e: "mk_tf_error ''TF-SRV-001'' None None (Some ''internal error'') None = Inr e"
    "registered e" "err_code e = ''TF-SRV-001''" "err_http e = 500" "err_retry_after e = None"
    using srv_001 by blast
  then have "handle_exn rid sv now x = Inr \<lparr>resp_status = 500,
      resp_body = envelope JNull rid sv [to_error_object e] None None now, resp_headers = []\<rparr>"
    using False by (cases x) (simp_all add: handle_exn_def handle_unexpected_def)
  with e False show ?thesis by (cases x) auto
qed

theorem handle_exn_closed_witness:
  "\<exists>r. handle_exn ''req_1'' ''1.0'' ''now'' (tf_raise ''TF-RATE-001'' None (Some 30) None) = Inr r
     \<and> resp_status r = 429 \<and> resp_headers r \<noteq> []"
proof -
  let ?e = "\<lparr>err_code = ''TF-RATE-001'', err_name = ''RATE_LIMITED'', err_http = 429,
    err_retryable = True, err_message = ''Per-tenant rate limit exceeded. Honor retry_after; client buffering + idempotent replay is the designed behavior.'',
    err_field_path = None, err_retry_after = Some 30, err_detail = None\<rparr>"
  have x: "tf_raise ''TF-RATE-001'' None (Some 30) None = TFExn ?e"
    by (simp add: tf_raise_def mk_tf_error_def get_code_def registry_codes_def)
  have reg: "registered ?e" by (simp add: registered_def get_code_def registry_codes_def)
  have "\<And>e. TFExn ?e = TFExn e \<Longrightarrow> registered e" using reg by simp
  from handle_exn_closed [of "TFExn ?e" "''req_1''" "''1.0''" "''now''", OF this]
  show ?thesis unfolding x by fastforce
qed

end
