(* ===== verification/Refs.thy ===== *)
theory Refs
  imports Prelude
begin

text \<open>
  Module \<^verbatim>\<open>domain/entities/refs.py\<close>: prefix-typed wire ids. The random part of a new
  reference (\<^verbatim>\<open>secrets.token_hex\<close>) is a parameter.
\<close>

section \<open>Python's int of a string\<close>

text \<open>
  Optional surrounding whitespace and sign, then digits with single underscores between
  them, at most 4300 digits.
\<close>

fun int_digits :: "bool \<Rightarrow> string \<Rightarrow> string option" where
  "int_digits after [] = (if after then Some [] else None)"
| "int_digits after (c # cs) =
     (if is_digit c then map_option ((#) c) (int_digits True cs)
      else if c = CHR ''_'' \<and> after then int_digits False cs
      else None)"

definition py_int :: "string \<Rightarrow> int option" where
  "py_int s =
     (let s = strip s;
          neg = (s \<noteq> [] \<and> hd s = CHR ''-'');
          body = (if s \<noteq> [] \<and> (hd s = CHR ''-'' \<or> hd s = CHR ''+'') then tl s else s)
      in case int_digits False body of
           None \<Rightarrow> None
         | Some ds \<Rightarrow>
             if length ds > 4300 then None
             else map_option (\<lambda>n. if neg then - int n else int n) (digits_val 0 ds))"

section \<open>References\<close>

definition ref_prefixes :: "(string \<times> string) list" where
  "ref_prefixes =
     [(''deployment'', ''dep_''), (''namespace'', ''ns_''), (''webhook'', ''wh_''),
      (''figure'', ''fig_''), (''license'', ''ls_''), (''change_event'', ''ce_''),
      (''mapping_contract'', ''mc_''), (''qa_label'', ''ql_''), (''delivery'', ''dl_''),
      (''alert'', ''al_''), (''report'', ''rp_''), (''import_job'', ''imp_''),
      (''api_key'', ''ak_''), (''work_item'', ''wi_''), (''alert_raw'', ''al_'')]"

definition ref_prefix :: "string \<Rightarrow> string result" where
  "ref_prefix kind = (case map_of ref_prefixes kind of None \<Rightarrow> Inl KeyError | Some p \<Rightarrow> Inr p)"

definition new_ref :: "string \<Rightarrow> string \<Rightarrow> string result" where
  "new_ref token kind = bind_r (ref_prefix kind) (\<lambda>p. Inr (p @ token))"

definition encode_id :: "string \<Rightarrow> int \<Rightarrow> string result" where
  "encode_id kind n = bind_r (ref_prefix kind) (\<lambda>p. Inr (p @ int_str n))"

definition decode_id :: "string \<Rightarrow> string \<Rightarrow> int option result" where
  "decode_id kind wire_id =
     bind_r (ref_prefix kind) (\<lambda>p.
       if \<not> starts_with wire_id p then Inr None
       else Inr (py_int (drop (length p) wire_id)))"

section \<open>Decoding inverts encoding\<close>

lemma int_digits_all: "ds \<noteq> [] \<or> a \<Longrightarrow> list_all is_digit ds \<Longrightarrow> int_digits a ds = Some ds"
  by (induction ds arbitrary: a) auto

lemma length_nat_str: "n < 10 ^ k \<Longrightarrow> 0 < k \<Longrightarrow> length (nat_str n) \<le> k"
proof (induction k arbitrary: n)
  case 0
  then show ?case by simp
next
  case (Suc k)
  show ?case
  proof (cases "n < 10")
    case True
    then show ?thesis by (simp add: nat_str.simps [of n])
  next
    case False
    with Suc.prems have "n div 10 < 10 ^ k" "0 < k"
      by (auto simp: less_mult_imp_div_less intro: gr0I)
    with Suc.IH False show ?thesis by (simp add: nat_str.simps [of n])
  qed
qed

lemma digit_not_space: "is_digit c \<Longrightarrow> \<not> is_space c"
  by (auto simp: is_digit_def digit_val_def is_space_def Let_def split: if_splits)

lemma py_int_int_str:
  assumes "\<bar>n\<bar> < 2 ^ 63"
  shows "py_int (int_str n) = Some n"
proof -
  let ?ds = "nat_str (nat \<bar>n\<bar>)"
  have b: "nat \<bar>n\<bar> < 10 ^ 19" using assms by simp
  have len: "length ?ds \<le> 4300" using length_nat_str [OF b] by simp
  have digits: "list_all is_digit ?ds" by (auto simp: list_all_iff dest: nat_str_digits)
  have hd: "is_digit (hd ?ds)" and last: "is_digit (last ?ds)"
    by (rule nat_str_digits [of _ "nat \<bar>n\<bar>"], simp)+
  have ns: "hd ?ds \<noteq> CHR ''-''" "hd ?ds \<noteq> CHR ''+''"
    using hd by (auto simp: is_digit_def digit_val_def)
  have dg: "int_digits False ?ds = Some ?ds" using digits by (intro int_digits_all) auto
  have str: "int_str n = (if n < 0 then CHR ''-'' # ?ds else ?ds)" by (simp add: int_str_def)
  have "\<not> is_space CHR ''-''" by (simp add: is_space_def)
  then have "strip (int_str n) = int_str n"
    by (intro strip_noop) (use hd last in \<open>auto simp: str digit_not_space\<close>)
  then show ?thesis using dg ns len by (auto simp: py_int_def str Let_def)
qed

definition known_kind :: "string \<Rightarrow> bool" where
  "known_kind k = (map_of ref_prefixes k \<noteq> None)"

definition prefixes_apart :: "string \<Rightarrow> string \<Rightarrow> bool" where
  "prefixes_apart p q = (p = q \<or> take (min (length p) (length q)) p \<noteq> take (min (length p) (length q)) q)"

lemma ref_prefixes_apart:
  "list_all (\<lambda>p. list_all (prefixes_apart p) (map snd ref_prefixes)) (map snd ref_prefixes)"
  by code_simp

lemma starts_with_take: "starts_with (p @ s) q \<Longrightarrow> take (min (length p) (length q)) p = take (min (length p) (length q)) q"
  by (auto simp: starts_with_iff min_def append_eq_append_conv2)

text \<open>
  Wire ids round-trip. For every kind of reference and every 64-bit identity,
  \<^verbatim>\<open>decode_id\<close> inverts \<^verbatim>\<open>encode_id\<close>, and an id of one kind is no id of a kind
  with another prefix.
\<close>

theorem decode_encode_id:
  assumes "known_kind kind" and "\<bar>n\<bar> < 2 ^ 63"
  shows "\<exists>w. encode_id kind n = Inr w \<and> decode_id kind w = Inr (Some n) \<and>
           (\<forall>kind'. known_kind kind' \<and> ref_prefix kind' \<noteq> ref_prefix kind \<longrightarrow> decode_id kind' w = Inr None)"
proof -
  obtain p where p: "map_of ref_prefixes kind = Some p" using assms(1) by (auto simp: known_kind_def)
  have "decode_id kind' (p @ int_str n) = Inr None"
    if k': "known_kind kind'" "ref_prefix kind' \<noteq> ref_prefix kind" for kind'
  proof -
    obtain q where q: "map_of ref_prefixes kind' = Some q" using k' by (auto simp: known_kind_def)
    have "p \<in> set (map snd ref_prefixes)" "q \<in> set (map snd ref_prefixes)"
      using map_of_SomeD [OF p] map_of_SomeD [OF q] by force+
    then have "prefixes_apart p q" using ref_prefixes_apart unfolding list_all_iff by blast
    moreover have "p \<noteq> q" using k'(2) p q by (auto simp: ref_prefix_def)
    ultimately have "\<not> starts_with (p @ int_str n) q"
      using starts_with_take [of p "int_str n" q] by (auto simp: prefixes_apart_def)
    then show ?thesis using q by (simp add: decode_id_def ref_prefix_def)
  qed
  then show ?thesis using p assms(2)
    by (simp add: encode_id_def decode_id_def ref_prefix_def py_int_int_str)
qed

theorem decode_encode_id_witness:
  "encode_id ''license'' 42 = Inr ''ls_42'' \<and> decode_id ''license'' ''ls_42'' = Inr (Some 42)"
proof -
  have k: "known_kind ''license''" by (simp add: known_kind_def ref_prefixes_def)
  have e: "encode_id ''license'' 42 = Inr ''ls_42''" by code_simp
  show ?thesis using decode_encode_id [OF k, of 42] e by auto
qed

end
