(* ===== verification/Wire.thy ===== *)
theory Wire
  imports Prelude
begin

text \<open>
  Module \<^verbatim>\<open>api/request_models/wire.py\<close>: the map between wire names and column names,
  and the value transforms of the api-key prefix and the roster kind. Each is a pair of
  partial maps inverse to each other, the contract of the locale \<open>renaming\<close>.
\<close>

section \<open>The contract of a two-way renaming\<close>

definition get_or_self :: "('a \<Rightarrow> 'a option) \<Rightarrow> 'a \<Rightarrow> 'a" where
  "get_or_self m x = (case m x of None \<Rightarrow> x | Some y \<Rightarrow> y)"

locale renaming =
  fixes fwd :: "'a \<Rightarrow> 'a option" and bwd :: "'a \<Rightarrow> 'a option"
  assumes inverse: "fwd x = Some y \<longleftrightarrow> bwd y = Some x"
begin

text \<open>A name that is not itself a target survives the round trip.\<close>

lemma back_forth:
  assumes "fwd x \<noteq> None \<or> bwd x = None"
  shows "get_or_self bwd (get_or_self fwd x) = x"
proof (cases "fwd x")
  case None
  with assms show ?thesis by (simp add: get_or_self_def)
next
  case (Some y)
  then have "bwd y = Some x" by (simp add: inverse)
  with Some show ?thesis by (simp add: get_or_self_def)
qed

lemma forth_back:
  assumes "bwd y \<noteq> None \<or> fwd y = None"
  shows "get_or_self fwd (get_or_self bwd y) = y"
proof (cases "bwd y")
  case None
  with assms show ?thesis by (simp add: get_or_self_def)
next
  case (Some x)
  then have "fwd x = Some y" by (simp add: inverse)
  with Some show ?thesis by (simp add: get_or_self_def)
qed

lemma fwd_injective: "fwd x = Some y \<Longrightarrow> fwd x' = Some y \<Longrightarrow> x = x'"
  using inverse by (metis option.inject)

end

section \<open>Field names\<close>

definition RENAMES :: "(string \<times> string \<times> string) list" where
  "RENAMES =
     [(''roster'', ''kind'', ''user_type''),
      (''roster'', ''role'', ''job_role''),
      (''imports'', ''kind'', ''import_type''),
      (''deployments'', ''type'', ''deployment_type''),
      (''deployments'', ''mode'', ''deployment_mode''),
      (''change_events'', ''type'', ''change_type''),
      (''change_events'', ''sidedness'', ''sided_type''),
      (''change_events'', ''supersedes'', ''superseded_by_id''),
      (''license'', ''period_unit'', ''period_unit_type''),
      (''webhooks'', ''events'', ''webhook_event_type''),
      (''lifecycle'', ''size_band'', ''size_type''),
      (''envelope'', ''origin'', ''origin_type''),
      (''api_key'', ''prefix'', ''api_key_mode'')]"

text \<open>The module-level loop that fills both dictionaries.\<close>

definition wire_to_column :: "string \<Rightarrow> string \<Rightarrow> string option" where
  "wire_to_column =
     foldl (\<lambda>m (resource, wire, column). m(resource := (m resource)(wire \<mapsto> column)))
       (\<lambda>_. Map.empty) RENAMES"

definition column_to_wire :: "string \<Rightarrow> string \<Rightarrow> string option" where
  "column_to_wire =
     foldl (\<lambda>m (resource, wire, column). m(resource := (m resource)(column \<mapsto> wire)))
       (\<lambda>_. Map.empty) RENAMES"

definition to_column :: "string \<Rightarrow> string \<Rightarrow> string" where
  "to_column resource wire_field = get_or_self (wire_to_column resource) wire_field"

definition to_wire :: "string \<Rightarrow> string \<Rightarrow> string" where
  "to_wire resource column_name = get_or_self (column_to_wire resource) column_name"

section \<open>Value transforms\<close>

definition prefix_to_mode :: "(string \<times> string) list" where
  "prefix_to_mode = [(''tf_live_'', ''production''), (''tf_test_'', ''test'')]"

definition mode_to_prefix :: "(string \<times> string) list" where
  "mode_to_prefix = map (\<lambda>(k, v). (v, k)) prefix_to_mode"

fun prefix_lookup :: "(string \<times> string) list \<Rightarrow> string \<Rightarrow> string option" where
  "prefix_lookup [] key = None"
| "prefix_lookup ((p, mode) # ps) key =
     (if starts_with key p then Some mode else prefix_lookup ps key)"

definition key_prefix_to_mode :: "string \<Rightarrow> string option" where
  "key_prefix_to_mode key = prefix_lookup prefix_to_mode key"

definition mode_to_key_prefix :: "string \<Rightarrow> string result" where
  "mode_to_key_prefix mode =
     (case map_of mode_to_prefix mode of None \<Rightarrow> Inl KeyError | Some p \<Rightarrow> Inr p)"

definition kind_to_user_type_map :: "(string \<times> string) list" where
  "kind_to_user_type_map =
     [(''person'', ''user''), (''shared'', ''shared''), (''service'', ''service''), (''bot'', ''bot'')]"

definition kind_to_user_type :: "string \<Rightarrow> string" where
  "kind_to_user_type kind = get_or_self (map_of kind_to_user_type_map) kind"

definition user_type_to_kind :: "string \<Rightarrow> string" where
  "user_type_to_kind user_type =
     get_or_self (map_of (map (\<lambda>(k, v). (v, k)) kind_to_user_type_map)) user_type"

section \<open>The transforms meet the contract\<close>

lemma map_of_swap:
  assumes "distinct (map fst ps)" "distinct (map snd ps)"
  shows "map_of ps x = Some y \<longleftrightarrow> map_of (map (\<lambda>(k, v). (v, k)) ps) y = Some x"
proof -
  have "distinct (map fst (map (\<lambda>(k, v). (v, k)) ps))"
    using assms(2) by (simp add: comp_def case_prod_beta)
  then show ?thesis
    using assms(1) by (auto simp: map_of_eq_Some_iff)
qed

definition renames_of :: "string \<Rightarrow> (string \<times> string) list" where
  "renames_of resource = map snd (filter (\<lambda>t. fst t = resource) RENAMES)"

lemma foldl_renames:
  "foldl (\<lambda>m (r, w, c). m(r := (m r)(w \<mapsto> c))) m0 ts r =
     m0 r ++ map_of (rev (map snd (filter (\<lambda>t. fst t = r) ts)))"
  by (induction ts arbitrary: m0) (auto simp: fun_eq_iff map_add_def split: option.splits)

lemma distinct_renames_of:
  "distinct (map fst (renames_of resource))" "distinct (map snd (renames_of resource))"
proof -
  have d: "distinct (map (\<lambda>(r, w, c). (r, w)) ts) \<Longrightarrow> distinct (map fst (map snd (filter (\<lambda>t. fst t = resource) ts)))"
    "distinct (map (\<lambda>(r, w, c). (r, c)) ts) \<Longrightarrow> distinct (map snd (map snd (filter (\<lambda>t. fst t = resource) ts)))"
    for ts :: "(string \<times> string \<times> string) list"
    by (induction ts) (auto simp: image_iff split: prod.splits)
  show "distinct (map fst (renames_of resource))" "distinct (map snd (renames_of resource))"
    unfolding renames_of_def by (rule d, simp add: RENAMES_def)+
qed

lemma map_of_rev_distinct: "distinct (map fst ps) \<Longrightarrow> map_of (rev ps) = map_of ps"
  by (rule map_of_eqI) (auto simp: rev_map [symmetric] map_of_eq_Some_iff)

lemma wire_to_column_renames: "wire_to_column resource = map_of (renames_of resource)"
  using distinct_renames_of(1) [of resource]
  by (simp add: wire_to_column_def foldl_renames map_of_rev_distinct flip: renames_of_def)

lemma column_to_wire_renames:
  "column_to_wire resource = map_of (map (\<lambda>(k, v). (v, k)) (renames_of resource))"
proof -
  have "foldl (\<lambda>m (r, w, c). m(r := (m r)(c \<mapsto> w))) m0 ts
      = foldl (\<lambda>m (r, w, c). m(r := (m r)(w \<mapsto> c))) m0 (map (\<lambda>(r, w, c). (r, c, w)) ts)"
    for m0 :: "string \<Rightarrow> string \<Rightarrow> string option" and ts
    by (induction ts arbitrary: m0) auto
  then have "column_to_wire resource = map_of (rev (map (\<lambda>(k, v). (v, k)) (renames_of resource)))"
    by (simp add: column_to_wire_def foldl_renames renames_of_def filter_map comp_def case_prod_beta)
  moreover have "distinct (map fst (map (\<lambda>(k, v). (v, k)) (renames_of resource)))"
    using distinct_renames_of(2) [of resource] by (simp add: comp_def case_prod_beta)
  ultimately show ?thesis by (simp add: map_of_rev_distinct)
qed

interpretation field_names: renaming "wire_to_column resource" "column_to_wire resource"
  for resource
  by unfold_locales
    (simp only: wire_to_column_renames column_to_wire_renames map_of_swap distinct_renames_of)

interpretation user_kinds: renaming "map_of kind_to_user_type_map"
    "map_of (map (\<lambda>(k, v). (v, k)) kind_to_user_type_map)"
  by unfold_locales (rule map_of_swap, simp_all add: kind_to_user_type_map_def)

interpretation key_modes: renaming "map_of prefix_to_mode" "map_of mode_to_prefix"
  unfolding mode_to_prefix_def
  by unfold_locales (rule map_of_swap, simp_all add: prefix_to_mode_def)

text \<open>
  The wire map is lossless. On every resource a documented wire name, and any name
  that is not a renamed column, is recovered from its column; and back.
\<close>

theorem wire_map_roundtrip:
  assumes "wire_to_column resource f \<noteq> None \<or> column_to_wire resource f = None"
    and "column_to_wire resource c \<noteq> None \<or> wire_to_column resource c = None"
  shows "to_wire resource (to_column resource f) = f \<and> to_column resource (to_wire resource c) = c"
  using assms by (simp add: to_wire_def to_column_def field_names.back_forth field_names.forth_back)

theorem wire_map_roundtrip_witness:
  "to_wire ''roster'' (to_column ''roster'' ''kind'') = ''kind''
   \<and> to_column ''roster'' (to_wire ''roster'' ''job_role'') = ''job_role''"
  by (rule wire_map_roundtrip) (simp_all add: wire_to_column_def column_to_wire_def RENAMES_def)

text \<open>
  The value transforms. Roster kinds and user types are in bijection, and a key built
  from a mode's prefix is recognised as a key of that mode, whatever its secret.
\<close>

theorem value_transforms_roundtrip:
  assumes "kind \<noteq> ''user''" and "user_type \<noteq> ''person''" and "mode_to_key_prefix mode = Inr p"
  shows "user_type_to_kind (kind_to_user_type kind) = kind
    \<and> kind_to_user_type (user_type_to_kind user_type) = user_type
    \<and> key_prefix_to_mode (p @ secret) = Some mode"
proof -
  have "mode = ''production'' \<and> p = ''tf_live_'' \<or> mode = ''test'' \<and> p = ''tf_test_''"
    using assms(3) by (auto simp: mode_to_key_prefix_def mode_to_prefix_def prefix_to_mode_def split: if_splits)
  then have "key_prefix_to_mode (p @ secret) = Some mode"
    by (auto simp: key_prefix_to_mode_def prefix_to_mode_def)
  moreover have "user_type_to_kind (kind_to_user_type kind) = kind"
    unfolding user_type_to_kind_def kind_to_user_type_def
    by (rule user_kinds.back_forth) (use assms(1) in \<open>simp add: kind_to_user_type_map_def\<close>)
  moreover have "kind_to_user_type (user_type_to_kind user_type) = user_type"
    unfolding user_type_to_kind_def kind_to_user_type_def
    by (rule user_kinds.forth_back) (use assms(2) in \<open>simp add: kind_to_user_type_map_def\<close>)
  ultimately show ?thesis by blast
qed

theorem value_transforms_roundtrip_witness:
  "user_type_to_kind (kind_to_user_type ''person'') = ''person''
    \<and> kind_to_user_type (user_type_to_kind ''bot'') = ''bot''
    \<and> key_prefix_to_mode (''tf_test_'' @ ''0123'') = Some ''test''"
  by (rule value_transforms_roundtrip)
    (simp_all add: mode_to_key_prefix_def mode_to_prefix_def prefix_to_mode_def)

end
