(* ===== verification/Schema.thy ===== *)
theory Schema
  imports Wire
begin

text \<open>
  The tables of \<^verbatim>\<open>supabase/migrations/0001_certified_schema.sql\<close> the server reads
  and writes: enumerated types, one record per table, the state of the system, and the two
  access patterns its statements share, the upsert on a unique key and the append-only
  version. Audit columns are left out, instants are microseconds since 1970, dates are
  proleptic ordinals.
\<close>

section \<open>Enumerated types\<close>

datatype event_type = Activity | Lifecycle | Cost_Meter | Quality_Signal | Revenue_Signal
datatype origin_type = Customer_System | Vendor_Product
datatype pipeline_status = Accepted | Resolved | Joined | Excluded
datatype exclusion_reason = Shared_Account | Service_Account | Bot_Account | Unresolved_Identity
datatype user_type = User_Account | Shared_User | Service_User | Bot_User
datatype user_status = User_Active | User_Inactive | User_Blocked
datatype deployment_type = Saas_Tool | In_House | Agent | Decision_AI
datatype deployment_mode = Planned | Measured
datatype deployment_status = Dep_Active | Dep_Paused | Dep_Archived
datatype api_key_scope = Workspace_Scope | Deployment_Scope
datatype api_key_status = Key_Active | Key_Revoked
datatype record_status = Record_Active | Record_Retired
datatype webhook_status = Unverified | Verified | Suspended | Deleted
datatype delivery_status = Retrying | Delivered | Dropped
datatype import_status = Queued | Processing | Completed | Completed_With_Rejects | Failed
datatype figure_status = Computed | Refused | Awaiting_Parameters
datatype alert_status = Alert_Open | Alert_Acked | Alert_Resolved
datatype sided_type = Symmetric | One_Sided

text \<open>An enumerated column read back as the string the code compares.\<close>

fun event_type_str :: "event_type \<Rightarrow> string" where
  "event_type_str Activity = ''activity''"
| "event_type_str Lifecycle = ''lifecycle''"
| "event_type_str Cost_Meter = ''cost_meter''"
| "event_type_str Quality_Signal = ''quality_signal''"
| "event_type_str Revenue_Signal = ''revenue_signal''"

definition event_types :: "(string \<times> event_type) list" where
  "event_types = map (\<lambda>t. (event_type_str t, t))
     [Activity, Lifecycle, Cost_Meter, Quality_Signal, Revenue_Signal]"

fun origin_type_str :: "origin_type \<Rightarrow> string" where
  "origin_type_str Customer_System = ''customer_system''"
| "origin_type_str Vendor_Product = ''vendor_product''"

definition origin_types :: "(string \<times> origin_type) list" where
  "origin_types = map (\<lambda>t. (origin_type_str t, t)) [Customer_System, Vendor_Product]"

fun pipeline_status_str :: "pipeline_status \<Rightarrow> string" where
  "pipeline_status_str Accepted = ''accepted''"
| "pipeline_status_str Resolved = ''resolved''"
| "pipeline_status_str Joined = ''joined''"
| "pipeline_status_str Excluded = ''excluded''"

fun exclusion_reason_str :: "exclusion_reason \<Rightarrow> string" where
  "exclusion_reason_str Shared_Account = ''shared_account''"
| "exclusion_reason_str Service_Account = ''service_account''"
| "exclusion_reason_str Bot_Account = ''bot_account''"
| "exclusion_reason_str Unresolved_Identity = ''unresolved_identity''"

fun import_status_str :: "import_status \<Rightarrow> string" where
  "import_status_str Queued = ''queued''"
| "import_status_str Processing = ''processing''"
| "import_status_str Completed = ''completed''"
| "import_status_str Completed_With_Rejects = ''completed_with_rejects''"
| "import_status_str Failed = ''failed''"

fun deployment_type_str :: "deployment_type \<Rightarrow> string" where
  "deployment_type_str Saas_Tool = ''saas_tool''"
| "deployment_type_str In_House = ''in_house''"
| "deployment_type_str Agent = ''agent''"
| "deployment_type_str Decision_AI = ''decision_ai''"

fun deployment_mode_str :: "deployment_mode \<Rightarrow> string" where
  "deployment_mode_str Planned = ''planned''"
| "deployment_mode_str Measured = ''measured''"

fun deployment_status_str :: "deployment_status \<Rightarrow> string" where
  "deployment_status_str Dep_Active = ''active''"
| "deployment_status_str Dep_Paused = ''paused''"
| "deployment_status_str Dep_Archived = ''archived''"

fun user_type_str :: "user_type \<Rightarrow> string" where
  "user_type_str User_Account = ''user''"
| "user_type_str Shared_User = ''shared''"
| "user_type_str Service_User = ''service''"
| "user_type_str Bot_User = ''bot''"

definition user_types :: "(string \<times> user_type) list" where
  "user_types = map (\<lambda>t. (user_type_str t, t)) [User_Account, Shared_User, Service_User, Bot_User]"

fun user_status_str :: "user_status \<Rightarrow> string" where
  "user_status_str User_Active = ''active''"
| "user_status_str User_Inactive = ''inactive''"
| "user_status_str User_Blocked = ''blocked''"

definition user_statuses :: "(string \<times> user_status) list" where
  "user_statuses = map (\<lambda>t. (user_status_str t, t)) [User_Active, User_Inactive, User_Blocked]"

fun record_status_str :: "record_status \<Rightarrow> string" where
  "record_status_str Record_Active = ''active''"
| "record_status_str Record_Retired = ''retired''"

fun webhook_status_str :: "webhook_status \<Rightarrow> string" where
  "webhook_status_str Unverified = ''unverified''"
| "webhook_status_str Verified = ''verified''"
| "webhook_status_str Suspended = ''suspended''"
| "webhook_status_str Deleted = ''deleted''"

fun delivery_status_str :: "delivery_status \<Rightarrow> string" where
  "delivery_status_str Retrying = ''retrying''"
| "delivery_status_str Delivered = ''delivered''"
| "delivery_status_str Dropped = ''dropped''"

fun alert_status_str :: "alert_status \<Rightarrow> string" where
  "alert_status_str Alert_Open = ''open''"
| "alert_status_str Alert_Acked = ''acked''"
| "alert_status_str Alert_Resolved = ''resolved''"

definition alert_statuses :: "(string \<times> alert_status) list" where
  "alert_statuses = map (\<lambda>t. (alert_status_str t, t)) [Alert_Open, Alert_Acked, Alert_Resolved]"

fun sided_type_str :: "sided_type \<Rightarrow> string" where
  "sided_type_str Symmetric = ''symmetric''"
| "sided_type_str One_Sided = ''one_sided''"

text \<open>The contract of an enumerated column: its labels name its values one to one.\<close>

locale enum_column =
  fixes label :: "'e \<Rightarrow> string" and table :: "(string \<times> 'e) list"
  assumes covers: "map_of table (label v) = Some v"
    and labelled: "(s, v) \<in> set table \<Longrightarrow> s = label v"
begin

lemma parse_iff: "map_of table s = Some v \<longleftrightarrow> s = label v"
  using covers labelled by (auto dest: map_of_SomeD)

lemma label_inject: "label v = label w \<longleftrightarrow> v = w"
  using covers by (metis option.inject)

end

interpretation event_type_column: enum_column event_type_str event_types
proof
  show "map_of event_types (event_type_str v) = Some v" for v
    by (cases v) (simp_all add: event_types_def)
qed (auto simp: event_types_def)

interpretation origin_type_column: enum_column origin_type_str origin_types
proof
  show "map_of origin_types (origin_type_str v) = Some v" for v
    by (cases v) (simp_all add: origin_types_def)
qed (auto simp: origin_types_def)

interpretation user_type_column: enum_column user_type_str user_types
proof
  show "map_of user_types (user_type_str v) = Some v" for v by (cases v) (simp_all add: user_types_def)
qed (auto simp: user_types_def)

interpretation user_status_column: enum_column user_status_str user_statuses
proof
  show "map_of user_statuses (user_status_str v) = Some v" for v by (cases v) (simp_all add: user_statuses_def)
qed (auto simp: user_statuses_def)

interpretation alert_status_column: enum_column alert_status_str alert_statuses
proof
  show "map_of alert_statuses (alert_status_str v) = Some v" for v by (cases v) (simp_all add: alert_statuses_def)
qed (auto simp: alert_statuses_def)

section \<open>Rows\<close>

record organization_row =
  org_id :: int
  org_plan_type :: string
  org_ref :: string
  org_legal_name :: string

record workspace_row =
  ws_id :: int
  ws_organization_id :: int
  ws_environment :: string
  ws_ref :: string
  ws_name :: string
  ws_backfill_horizon_days :: int
  ws_rate_limit_rpm :: int
  ws_rate_limit_epm :: int

record user_row =
  user_id :: int
  user_workspace_id :: "int option"
  user_type_of :: user_type
  user_status_of :: user_status
  user_ref :: string
  user_display_name :: "string option"
  user_job_role :: "string option"
  user_team :: "string option"
  user_effective_from :: "int option"
  user_effective_to :: "int option"

record api_key_row =
  key_id :: int
  key_workspace_id :: int
  key_owner_user_id :: int
  key_mode :: string
  key_scope :: api_key_scope
  key_status :: api_key_status
  key_ref :: string
  key_secret_hash :: string
  key_roles :: "string list"

record grant_row =
  grant_workspace_id :: int
  grant_api_key_id :: int
  grant_deployment_id :: int

record deployment_row =
  dep_id :: int
  dep_workspace_id :: int
  dep_type :: deployment_type
  dep_status :: deployment_status
  dep_ref :: string
  dep_name :: string
  dep_external_ref :: "string option"
  dep_mode :: deployment_mode
  dep_planned_rollout :: "int option"

record license_row =
  lic_id :: int
  lic_deployment_id :: int
  lic_seats_paid :: int
  lic_price_per_seat :: "rat option"
  lic_per_month :: bool
  lic_currency :: string
  lic_valid_from :: int
  lic_valid_to :: "int option"

record license_identifier_row =
  li_license_id :: int
  li_identifier :: string

record service_user_row =
  su_workspace_id :: int
  su_deployment_id :: int
  su_user_id :: int

record identifier_row =
  ident_id :: int
  ident_user_id :: int
  ident_workspace_id :: int
  ident_status :: record_status
  ident_namespace :: string
  ident_value :: string

record namespace_row =
  ns_id :: int
  ns_workspace_id :: int
  ns_deployment_id :: "int option"
  ns_field :: string
  ns_status :: record_status
  ns_source_ref :: string
  ns_namespace :: string
  ns_format_regex :: "string option"
  ns_description :: "string option"

record parameter_row =
  par_id :: int
  par_workspace_id :: int
  par_version :: int
  par_effective_from :: int
  par_currency :: string
  par_payload :: "(string \<times> json) list"

record webhook_row =
  wh_id :: int
  wh_workspace_id :: int
  wh_status :: webhook_status
  wh_events :: "string list"
  wh_ref :: string
  wh_url :: string
  wh_secret_hash :: string

record delivery_row =
  dl_id :: int
  dl_webhook_id :: int
  dl_event_type :: string
  dl_ref :: string
  dl_status :: delivery_status
  dl_payload :: json
  dl_attempt_count :: nat
  dl_last_http_status :: "int option"
  dl_next_retry_at :: "int option"

record change_row =
  chg_id :: int
  chg_workspace_id :: int
  chg_superseded_by :: "int option"
  chg_type :: string
  chg_sided :: sided_type
  chg_ref :: string
  chg_occurred_at :: int
  chg_description :: string
  chg_deployments :: "int list"

record label_schema_row =
  ql_id :: int
  ql_workspace_id :: int
  ql_ref :: string
  ql_name :: string
  ql_values :: "string list"
  ql_category :: "string option"
  ql_min_samples :: int

record mapping_row =
  mc_id :: int
  mc_workspace_id :: int
  mc_event_type :: event_type
  mc_source_ref :: string
  mc_version :: int
  mc_field_map :: "(string \<times> json) list"
  mc_notes :: "string option"

record import_row =
  imp_id :: int
  imp_workspace_id :: int
  imp_type :: string
  imp_status :: import_status
  imp_ref :: string
  imp_source_ref :: "string option"
  imp_expected :: int
  imp_received :: int
  imp_accepted :: int
  imp_duplicate :: int
  imp_rejected :: int
  imp_upload_path :: string
  imp_error_report_path :: "string option"

record work_item_row =
  wi_id :: int
  wi_workspace_id :: int
  wi_ref :: string
  wi_size :: "string option"
  wi_category :: "string option"

record event_row =
  ev_id :: int
  ev_workspace_id :: int
  ev_deployment_id :: int
  ev_resolved_user_id :: "int option"
  ev_work_item_id :: "int option"
  ev_type :: event_type
  ev_origin :: origin_type
  ev_status :: pipeline_status
  ev_exclusion :: "exclusion_reason option"
  ev_key :: string
  ev_schema_version :: string
  ev_occurred_at :: int
  ev_source_ref :: "string option"
  ev_payload :: "(string \<times> json) list"

record rejected_row =
  rej_id :: int
  rej_workspace_id :: int
  rej_event_type :: "event_type option"
  rej_deployment_ref :: "string option"
  rej_event_key :: "string option"
  rej_error_code :: string
  rej_field_path :: "string option"
  rej_source_ref :: "string option"

record meter_row =
  mu_deployment_id :: int
  mu_meter_type :: string
  mu_meter_ref :: string
  mu_bucket_date :: int
  mu_quantity_sum :: rat
  mu_gauge_last :: "rat option"

record user_activity_row =
  ua_workspace_id :: int
  ua_deployment_id :: int
  ua_user_id :: int
  ua_activity_date :: int
  ua_event_count :: int

record stats_row =
  is_deployment_id :: int
  is_source_ref :: string
  is_stat_date :: int
  is_accepted :: int
  is_identity_bearing :: int
  is_resolved :: int
  is_activity :: int
  is_joined :: int
  is_last_event_at :: int

record figure_row =
  fig_id :: int
  fig_workspace_id :: int
  fig_deployment_id :: int
  fig_status :: figure_status
  fig_grade :: "string option"
  fig_value_class :: "string option"
  fig_ref :: string
  fig_version :: int
  fig_period :: string
  fig_claim :: string
  fig_value :: "rat option"
  fig_method_id :: string
  fig_method_version :: string
  fig_parameter_version :: "int option"
  fig_change_treatment :: "string option"
  fig_refusal_reason :: "string option"
  fig_margin_exceeds_effect :: "bool option"
  fig_expected_verdict :: "int option"
  fig_missing_parameter :: "string option"
  fig_lineage :: "(string \<times> json) list"

record report_row =
  rep_id :: int
  rep_deployment_id :: int
  rep_ref :: string
  rep_version :: int
  rep_period :: string
  rep_grade_profile :: "(string \<times> int) list"
  rep_artifact_path :: string
  rep_supersedes :: "int option"

record report_figure_row =
  rf_deployment_id :: int
  rf_report_id :: int
  rf_figure_id :: int

record alert_row =
  al_id :: int
  al_workspace_id :: int
  al_deployment_id :: "int option"
  al_code :: string
  al_status :: alert_status
  al_ref :: string
  al_detail :: string
  al_acked_by :: "int option"

section \<open>The state of the system\<close>

text \<open>
  The tables, the limiter's window counters (\<^verbatim>\<open>ratelimit._window_hits\<close>) and the
  objects of the storage buckets.
\<close>

record sys =
  organizations :: "organization_row table"
  workspaces :: "workspace_row table"
  users :: "user_row table"
  api_keys :: "api_key_row table"
  api_key_deployments :: "grant_row list"
  deployments :: "deployment_row table"
  deployment_licenses :: "license_row table"
  deployment_license_identifiers :: "license_identifier_row list"
  deployment_service_users :: "service_user_row list"
  user_identifiers :: "identifier_row table"
  identifier_namespaces :: "namespace_row table"
  parameter_sets :: "parameter_row table"
  webhooks :: "webhook_row table"
  webhook_deliveries :: "delivery_row table"
  change_log :: "change_row table"
  qa_label_definitions :: "label_schema_row table"
  mapping_contracts :: "mapping_row table"
  import_jobs :: "import_row table"
  work_items :: "work_item_row table"
  events :: "event_row table"
  rejected_events :: "rejected_row table"
  meter_usage_daily :: "meter_row table"
  user_activity_daily :: "user_activity_row table"
  ingestion_stats_daily :: "stats_row table"
  figures :: "figure_row table"
  reports :: "report_row table"
  report_figures :: "report_figure_row list"
  alerts :: "alert_row table"
  window_hits :: "int \<times> int \<Rightarrow> int option"
  objects :: "string \<times> string \<Rightarrow> string option"

definition empty_sys :: sys where
  "empty_sys = \<lparr>organizations = empty_table, workspaces = empty_table, users = empty_table, api_keys = empty_table,
     api_key_deployments = [], deployments = empty_table, deployment_licenses = empty_table,
     deployment_license_identifiers = [], deployment_service_users = [], user_identifiers = empty_table,
     identifier_namespaces = empty_table, parameter_sets = empty_table, webhooks = empty_table,
     webhook_deliveries = empty_table, change_log = empty_table,
     qa_label_definitions = empty_table, mapping_contracts = empty_table, import_jobs = empty_table,
     work_items = empty_table, events = empty_table, rejected_events = empty_table,
     meter_usage_daily = empty_table, user_activity_daily = empty_table,
     ingestion_stats_daily = empty_table, figures = empty_table, reports = empty_table,
     report_figures = [], alerts = empty_table, window_hits = Map.empty, objects = Map.empty\<rparr>"

section \<open>Upserts on a unique key\<close>

text \<open>\<^verbatim>\<open>INSERT ... ON CONFLICT (key) DO UPDATE\<close>.\<close>

definition upsert :: "('r \<Rightarrow> bool) \<Rightarrow> (int \<Rightarrow> 'r) \<Rightarrow> ('r \<Rightarrow> 'r) \<Rightarrow> 'r table \<Rightarrow> 'r table" where
  "upsert P mk f t = (if exists_row P t then update_rows P f t else insert_row mk t)"

definition lookup_key :: "('r \<Rightarrow> 'k) \<Rightarrow> 'r table \<Rightarrow> 'k \<Rightarrow> 'r option" where
  "lookup_key key t k = fetch_one (\<lambda>r. key r = k) t"

text \<open>A unique index.\<close>

definition unique_key :: "('r \<Rightarrow> 'k) \<Rightarrow> 'r table \<Rightarrow> bool" where
  "unique_key key t \<longleftrightarrow> distinct (map key (tbl_rows t))"

lemma find_map_if:
  assumes "\<And>r. key (f r) = key r"
  shows "find (\<lambda>r. key r = k') (map (\<lambda>r. if key r = k then f r else r) rs)
    = (if k' = k then map_option f (find (\<lambda>r. key r = k) rs) else find (\<lambda>r. key r = k') rs)"
  using assms by (induction rs) auto

text \<open>
  The contract of a keyed aggregate: an upsert that writes rows of its own key and whose
  update leaves the key alone behaves as the update of a map at that key.
\<close>

locale keyed_upsert =
  fixes key :: "'r \<Rightarrow> 'k" and k :: 'k and mk :: "int \<Rightarrow> 'r" and f :: "'r \<Rightarrow> 'r"
  assumes mk_key: "key (mk i) = k"
    and f_key: "key r = k \<Longrightarrow> key (f r) = key r"
begin

lemma map_key: "map key (map (\<lambda>r. if key r = k then f r else r) rs) = map key rs"
  using f_key by (induction rs) auto

lemma unique: "unique_key key t \<Longrightarrow> unique_key key (upsert (\<lambda>r. key r = k) mk f t)"
  unfolding unique_key_def upsert_def
  by (auto simp: table_simps map_key exists_row_def mk_key simp del: map_map)

lemma lookup:
  "lookup_key key (upsert (\<lambda>r. key r = k) mk f t) =
     (lookup_key key t)(k \<mapsto> case lookup_key key t k of None \<Rightarrow> mk (tbl_seq t) | Some r \<Rightarrow> f r)"
proof
  fix k'
  have upd: "find (\<lambda>r. key r = k') (map (\<lambda>r. if key r = k then f r else r) rs)
    = (if k' = k then map_option f (find (\<lambda>r. key r = k) rs) else find (\<lambda>r. key r = k') rs)" for rs
    using f_key by (induction rs) auto
  show "lookup_key key (upsert (\<lambda>r. key r = k) mk f t) k' =
     ((lookup_key key t)(k \<mapsto> case lookup_key key t k of None \<Rightarrow> mk (tbl_seq t) | Some r \<Rightarrow> f r)) k'"
  proof (cases "exists_row (\<lambda>r. key r = k) t")
    case True
    then obtain r where "find (\<lambda>r. key r = k) (tbl_rows t) = Some r"
      by (auto simp: exists_row_fetch fetch_one_def)
    with True show ?thesis
      by (simp add: upsert_def lookup_key_def fetch_one_def table_simps upd)
  next
    case False
    then have n: "find (\<lambda>r. key r = k) (tbl_rows t) = None"
      by (simp add: exists_row_fetch fetch_one_def)
    with False show ?thesis
      by (auto simp: upsert_def lookup_key_def fetch_one_def table_simps find_append mk_key
          split: option.splits)
  qed
qed

lemma rows_of_other_keys: "k' \<noteq> k \<Longrightarrow>
    lookup_key key (upsert (\<lambda>r. key r = k) mk f t) k' = lookup_key key t k'"
  by (simp add: lookup)

end

section \<open>Append-only versions\<close>

text \<open>\<^verbatim>\<open>COALESCE(MAX(version),0)+1\<close> over the rows of a document.\<close>

definition next_version :: "('r \<Rightarrow> bool) \<Rightarrow> ('r \<Rightarrow> int) \<Rightarrow> 'r table \<Rightarrow> int" where
  "next_version P ver t = foldr max (map ver (select_rows P t)) 0 + 1"

definition versions_of :: "('r \<Rightarrow> 'k) \<Rightarrow> ('r \<Rightarrow> int) \<Rightarrow> 'k \<Rightarrow> 'r table \<Rightarrow> int list" where
  "versions_of key ver k t = map ver (select_rows (\<lambda>r. key r = k) t)"

definition first_versions :: "nat \<Rightarrow> int list" where
  "first_versions n = map int [1..<Suc n]"

lemma first_versions_Suc: "first_versions (Suc n) = first_versions n @ [int n + 1]"
  by (simp add: first_versions_def)

text \<open>The versions of a document are \<open>1, 2, ..., n\<close>, in the order they were written.\<close>

definition wf_versions :: "('r \<Rightarrow> 'k) \<Rightarrow> ('r \<Rightarrow> int) \<Rightarrow> 'r table \<Rightarrow> bool" where
  "wf_versions key ver t \<longleftrightarrow> (\<forall>k. versions_of key ver k t
     = first_versions (length (versions_of key ver k t)))"

lemma foldr_max_upto: "foldr max (first_versions n) 0 = int n"
proof -
  have "foldr max (map int [1..<Suc n]) m = max (int n) m" if "0 \<le> m" for m
    using that
  proof (induction n arbitrary: m)
    case 0
    then show ?case by simp
  next
    case (Suc n)
    have "foldr max (map int [1..<Suc (Suc n)]) m = foldr max (map int [1..<Suc n]) (max (int (Suc n)) m)"
      by simp
    also have "\<dots> = max (int n) (max (int (Suc n)) m)" by (rule Suc.IH) simp
    also have "\<dots> = max (int (Suc n)) m" by simp
    finally show ?case .
  qed
  from this [of 0] show ?thesis by (simp add: first_versions_def)
qed

text \<open>The statement pair that reads the next version and inserts the row of that version.\<close>

definition append_version ::
  "('r \<Rightarrow> bool) \<Rightarrow> ('r \<Rightarrow> int) \<Rightarrow> (int \<Rightarrow> int \<Rightarrow> 'r) \<Rightarrow> 'r table \<Rightarrow> 'r table" where
  "append_version P ver mk t = insert_row (mk (next_version P ver t)) t"

locale versioned_store =
  fixes key :: "'r \<Rightarrow> 'k" and ver :: "'r \<Rightarrow> int" and k :: 'k and mk :: "int \<Rightarrow> int \<Rightarrow> 'r"
  assumes mk_key: "key (mk v i) = k" and mk_ver: "ver (mk v i) = v"
begin

lemma next_eq: "wf_versions key ver t \<Longrightarrow>
    next_version (\<lambda>r. key r = k) ver t = int (length (versions_of key ver k t)) + 1"
  unfolding next_version_def wf_versions_def
  by (metis foldr_max_upto versions_of_def)

lemma versions_append:
  "versions_of key ver k' (append_version (\<lambda>r. key r = k) ver mk t) =
     versions_of key ver k' t @ (if k' = k then [next_version (\<lambda>r. key r = k) ver t] else [])"
  by (simp add: append_version_def versions_of_def select_rows_def table_simps mk_key mk_ver)

lemma wf: "wf_versions key ver t \<Longrightarrow> wf_versions key ver (append_version (\<lambda>r. key r = k) ver mk t)"
  unfolding wf_versions_def
proof
  fix k'
  assume a: "\<forall>k. versions_of key ver k t = first_versions (length (versions_of key ver k t))"
  then have n: "next_version (\<lambda>r. key r = k) ver t = int (length (versions_of key ver k t)) + 1"
    using next_eq by (simp add: wf_versions_def)
  have b: "versions_of key ver k' t = first_versions (length (versions_of key ver k' t))"
    using a by blast
  show "versions_of key ver k' (append_version (\<lambda>r. key r = k) ver mk t)
      = first_versions (length (versions_of key ver k' (append_version (\<lambda>r. key r = k) ver mk t)))"
    using b by (cases "k' = k") (simp_all add: versions_append n first_versions_Suc)
qed

end

end
