(* ===== verification/Auth.thy ===== *)
theory Auth
  imports Schema ErrorModel
begin

text \<open>
  Module \<^verbatim>\<open>api/application_services/auth.py\<close>: bearer extraction, resolution of a
  presented key to a principal, and the role and deployment guards. SHA-256 is a parameter.
\<close>

section \<open>Principals\<close>

record principal =
  p_api_key_id :: int
  p_api_key_ref :: string
  p_workspace_id :: int
  p_owner_user_id :: int
  p_mode :: string
  p_scope :: api_key_scope
  p_roles :: "string list"
  p_granted :: "int set"

definition is_test :: "principal \<Rightarrow> bool" where
  "is_test p = (p_mode p = ''test'')"

definition require_role :: "principal \<Rightarrow> string \<Rightarrow> unit result" where
  "require_role p role =
     (if role \<notin> set (p_roles p)
      then Inl (tf_raise ''TF-AUTH-002'' None None (Some (''key lacks required role '' @ [CHR 0x27] @ role @ [CHR 0x27])))
      else Inr ())"

definition require_deployment :: "principal \<Rightarrow> int \<Rightarrow> unit result" where
  "require_deployment p d =
     (if p_scope p = Deployment_Scope \<and> d \<notin> p_granted p
      then Inl (tf_raise ''TF-AUTH-002'' None None (Some (''key not scoped to deployment '' @ int_str d)))
      else Inr ())"

section \<open>Resolving a key\<close>

definition ascii_lower :: "char \<Rightarrow> char" where
  "ascii_lower c = (let n = of_char c :: nat in if 65 \<le> n \<and> n \<le> 90 then char_of (n + 32) else c)"

text \<open>
  \<open>header\<close> is the value of the Authorization header, whose lookup ignores case. Only the
  ASCII letters of \<^verbatim>\<open>str.lower\<close> can match the prefix.
\<close>

definition extract_bearer :: "string option \<Rightarrow> string result" where
  "extract_bearer header =
     (case header of
        None \<Rightarrow> Inl (tf_raise ''TF-AUTH-001'' None None
                     (Some ''missing Authorization: Bearer <api_key>''))
      | Some h \<Rightarrow>
          if \<not> starts_with (map ascii_lower h) ''bearer ''
          then Inl (tf_raise ''TF-AUTH-001'' None None
                     (Some ''missing Authorization: Bearer <api_key>''))
          else let token = strip (drop 7 h) in
               if token = [] then Inl (tf_raise ''TF-AUTH-001'' None None (Some ''empty bearer token''))
               else Inr token)"

definition expected_mode :: "string \<Rightarrow> string" where
  "expected_mode environment = (if environment = ''production'' then ''production'' else ''test'')"

definition granted_deployments :: "sys \<Rightarrow> api_key_row \<Rightarrow> int set" where
  "granted_deployments s row =
     (if key_scope row = Deployment_Scope
      then set (map grant_deployment_id
                  (filter (\<lambda>g. grant_api_key_id g = key_id row) (api_key_deployments s)))
      else {})"

definition principal_of :: "sys \<Rightarrow> api_key_row \<Rightarrow> principal" where
  "principal_of s row =
     \<lparr>p_api_key_id = key_id row, p_api_key_ref = key_ref row, p_workspace_id = key_workspace_id row,
      p_owner_user_id = key_owner_user_id row, p_mode = key_mode row, p_scope = key_scope row,
      p_roles = key_roles row, p_granted = granted_deployments s row\<rparr>"

definition resolve_key :: "(string \<Rightarrow> string) \<Rightarrow> string \<Rightarrow> sys \<Rightarrow> string \<Rightarrow> principal result" where
  "resolve_key sha256 environment s presented =
     (case key_prefix_to_mode presented of
        None \<Rightarrow> Inl (tf_raise ''TF-AUTH-001'' None None (Some ''unrecognized key prefix''))
      | Some _ \<Rightarrow>
         (case fetch_one (\<lambda>k. key_secret_hash k = sha256 presented) (api_keys s) of
            None \<Rightarrow> Inl (tf_raise ''TF-AUTH-001'' None None (Some ''key not found or revoked''))
          | Some row \<Rightarrow>
              if key_status row \<noteq> Key_Active
              then Inl (tf_raise ''TF-AUTH-001'' None None (Some ''key not found or revoked''))
              else if key_mode row \<noteq> expected_mode environment
              then Inl (tf_raise ''TF-AUTH-003'' None None
                     (Some (key_mode row @ '' key used against '' @ environment @ '' environment'')))
              else Inr (principal_of s row)))"

definition require_principal ::
  "(string \<Rightarrow> string) \<Rightarrow> string \<Rightarrow> sys \<Rightarrow> string option \<Rightarrow> principal result" where
  "require_principal sha256 environment s header =
     bind_r (extract_bearer header) (resolve_key sha256 environment s)"

section \<open>Who gets in\<close>

lemma fetch_hash:
  assumes "unique_key key_secret_hash t" "row \<in> set (tbl_rows t)" "key_secret_hash row = h"
  shows "fetch_one (\<lambda>k. key_secret_hash k = h) t = Some row"
proof -
  have "find (\<lambda>k. key_secret_hash k = h) rows = Some row"
    if "distinct (map key_secret_hash rows)" "row \<in> set rows" for rows
    using that assms(3) by (induction rows) auto
  with assms(1,2) show ?thesis by (simp add: fetch_one_def unique_key_def)
qed

lemma resolve_key_Inr_iff:
  assumes "unique_key key_secret_hash (api_keys s)"
  shows "resolve_key sha256 environment s tok = Inr p \<longleftrightarrow>
    key_prefix_to_mode tok \<noteq> None \<and>
    (\<exists>row \<in> set (tbl_rows (api_keys s)). key_secret_hash row = sha256 tok \<and> key_status row = Key_Active
       \<and> key_mode row = expected_mode environment \<and> p = principal_of s row)" (is "?l \<longleftrightarrow> ?r")
proof
  assume ?l
  then show ?r
    by (auto simp: resolve_key_def split: option.splits if_splits dest!: fetch_one_Some)
next
  assume ?r
  then show ?l using fetch_hash [OF assms]
    by (auto simp: resolve_key_def)
qed

lemma require_deployment_principal_of:
  "require_deployment (principal_of s row) d = Inr () \<longleftrightarrow>
     key_scope row = Workspace_Scope \<or>
     (\<exists>g \<in> set (api_key_deployments s). grant_api_key_id g = key_id row \<and> grant_deployment_id g = d)"
  by (cases "key_scope row") (auto simp: require_deployment_def principal_of_def granted_deployments_def)

text \<open>
  C14: access to a deployment is exactly what the key tables grant. A request may touch
  deployment \<open>d\<close> if and only if it presents a well-formed key whose hash belongs to an
  active key of the mode this environment serves, and that key is workspace-scoped or holds
  a grant on \<open>d\<close>.
\<close>

theorem access_iff_granted:
  assumes "unique_key key_secret_hash (api_keys s)" and "extract_bearer header = Inr tok"
  shows "(\<exists>p. require_principal sha256 environment s header = Inr p \<and> require_deployment p d = Inr ())
    \<longleftrightarrow> key_prefix_to_mode tok \<noteq> None \<and>
      (\<exists>row \<in> set (tbl_rows (api_keys s)). key_secret_hash row = sha256 tok \<and> key_status row = Key_Active
         \<and> key_mode row = expected_mode environment
         \<and> (key_scope row = Workspace_Scope \<or>
            (\<exists>g \<in> set (api_key_deployments s).
               grant_api_key_id g = key_id row \<and> grant_deployment_id g = d)))"
proof -
  have "(\<exists>p. require_principal sha256 environment s header = Inr p \<and> require_deployment p d = Inr ())
      \<longleftrightarrow> key_prefix_to_mode tok \<noteq> None \<and>
        (\<exists>row \<in> set (tbl_rows (api_keys s)). key_secret_hash row = sha256 tok \<and> key_status row = Key_Active
           \<and> key_mode row = expected_mode environment
           \<and> require_deployment (principal_of s row) d = Inr ())"
    unfolding require_principal_def assms(2) bind_r_simps resolve_key_Inr_iff [OF assms(1)] by blast
  then show ?thesis by (simp only: require_deployment_principal_of)
qed

definition ex_key :: "int \<Rightarrow> api_key_scope \<Rightarrow> string \<Rightarrow> api_key_row" where
  "ex_key i scope tok = \<lparr>key_id = i, key_workspace_id = 7, key_owner_user_id = 3, key_mode = ''production'',
     key_scope = scope, key_status = Key_Active, key_ref = ''key_1'', key_secret_hash = tok, key_roles = []\<rparr>"

definition ex_keys :: sys where
  "ex_keys = empty_sys\<lparr>api_keys := Table [ex_key 1 Deployment_Scope ''tf_live_a''] 2,
     api_key_deployments := [\<lparr>grant_workspace_id = 7, grant_api_key_id = 1, grant_deployment_id = 42\<rparr>]\<rparr>"

theorem access_iff_granted_witness:
  "(\<exists>p. require_principal id ''production'' ex_keys (Some ''Bearer tf_live_a'') = Inr p
        \<and> require_deployment p 42 = Inr ())
   \<and> \<not> (\<exists>p. require_principal id ''production'' ex_keys (Some ''Bearer tf_live_a'') = Inr p
        \<and> require_deployment p 43 = Inr ())"
proof -
  have u: "unique_key key_secret_hash (api_keys ex_keys)"
    by (simp add: ex_keys_def unique_key_def)
  have b: "extract_bearer (Some ''Bearer tf_live_a'') = Inr ''tf_live_a''" by code_simp
  have k: "key_prefix_to_mode ''tf_live_a'' \<noteq> None" by code_simp
  show ?thesis
    using access_iff_granted [OF u b, of id "''production''" 42]
      access_iff_granted [OF u b, of id "''production''" 43] k
    by (simp add: ex_keys_def ex_key_def expected_mode_def)
qed

section \<open>What a refused request is told\<close>

definition tf_code :: "exn \<Rightarrow> string option" where
  "tf_code x = (case x of TFExn e \<Rightarrow> Some (err_code e) | _ \<Rightarrow> None)"

definition auth_codes :: "string set" where
  "auth_codes = {''TF-AUTH-001'', ''TF-AUTH-002'', ''TF-AUTH-003''}"

lemma tf_code_auth [simp]:
  "tf_code (tf_raise ''TF-AUTH-001'' fp ra d) = Some ''TF-AUTH-001''"
  "tf_code (tf_raise ''TF-AUTH-002'' fp ra d) = Some ''TF-AUTH-002''"
  "tf_code (tf_raise ''TF-AUTH-003'' fp ra d) = Some ''TF-AUTH-003''"
  by (simp_all add: tf_code_def tf_raise_def mk_tf_error_def get_code_def registry_codes_def)

text \<open>
  A key is refused with 003 exactly when it is an active key of the other mode, and
  with 001 otherwise, so a revoked key cannot be told from one that never existed.
\<close>

theorem resolve_key_refusal:
  assumes "unique_key key_secret_hash (api_keys s)" and "resolve_key sha256 environment s tok = Inl x"
  shows "tf_code x =
    (if key_prefix_to_mode tok \<noteq> None \<and>
        (\<exists>row \<in> set (tbl_rows (api_keys s)). key_secret_hash row = sha256 tok \<and> key_status row = Key_Active)
     then Some ''TF-AUTH-003'' else Some ''TF-AUTH-001'')"
  using assms(2) fetch_hash [OF assms(1)]
  by (auto simp: resolve_key_def fetch_one_None split: option.splits if_splits dest: fetch_one_Some)

theorem resolve_key_refusal_witness:
  "(case resolve_key id ''sandbox'' ex_keys ''tf_live_a'' of
      Inl x \<Rightarrow> tf_code x = Some ''TF-AUTH-003'' | Inr _ \<Rightarrow> False)
   \<and> (case resolve_key id ''production'' ex_keys ''tf_live_b'' of
      Inl x \<Rightarrow> tf_code x = Some ''TF-AUTH-001'' | Inr _ \<Rightarrow> False)"
proof -
  have u: "unique_key key_secret_hash (api_keys ex_keys)"
    by (simp add: ex_keys_def unique_key_def)
  obtain x where x: "resolve_key id ''sandbox'' ex_keys ''tf_live_a'' = Inl x"
    by (simp add: resolve_key_def key_prefix_to_mode_def prefix_to_mode_def ex_keys_def ex_key_def
        fetch_one_def expected_mode_def)
  obtain y where y: "resolve_key id ''production'' ex_keys ''tf_live_b'' = Inl y"
    by (simp add: resolve_key_def key_prefix_to_mode_def prefix_to_mode_def ex_keys_def ex_key_def
        fetch_one_def)
  show ?thesis
    using resolve_key_refusal [OF u x] resolve_key_refusal [OF u y] x y
    by (simp add: key_prefix_to_mode_def prefix_to_mode_def ex_keys_def ex_key_def)
qed

end
