(* ===== verification/RateLimit.thy ===== *)
theory RateLimit
  imports Schema ErrorModel Calendar
begin

text \<open>
  Module \<^verbatim>\<open>platform/billing/ratelimit.py\<close>: the fixed-window request limiter, whose
  counters live in the process, and the monthly event quota of a plan.
\<close>

section \<open>The limiter and the quota\<close>

definition PLAN_QUOTA :: "(string \<times> int) list" where
  "PLAN_QUOTA = [(''free'', 20), (''team'', 100000), (''organization'', 1000000),
     (''enterprise'', 10000000), (''vendor'', 10000000)]"

definition reset_hits :: "sys \<Rightarrow> sys" where
  "reset_hits s = s\<lparr>window_hits := Map.empty\<rparr>"

definition minute :: "int \<Rightarrow> int" where
  "minute now = unix_seconds now div 60"

definition hits_of :: "sys \<Rightarrow> int \<times> int \<Rightarrow> int" where
  "hits_of s key = (case window_hits s key of None \<Rightarrow> 0 | Some n \<Rightarrow> n)"

definition check_rate :: "int \<Rightarrow> int \<Rightarrow> int \<Rightarrow> (sys, unit) st" where
  "check_rate workspace_id rpm now =
     (let key = (workspace_id, minute now) in
      bind_s (reads (\<lambda>s. hits_of s key + 1)) (\<lambda>count.
      bind_s (writes (\<lambda>s. s\<lparr>window_hits := (window_hits s)(key \<mapsto> count)\<rparr>)) (\<lambda>_.
        if count > rpm
        then raise (tf_raise ''TF-RATE-001'' None (Some (60 - unix_seconds now mod 60))
               (Some (''per-tenant rate limit '' @ int_str rpm @ ''/min exceeded'')))
        else ret ())))"

definition same_month :: "int \<Rightarrow> int \<Rightarrow> bool" where
  "same_month t now = (fst (instant_date t) = fst (instant_date now)
     \<and> fst (snd (instant_date t)) = fst (snd (instant_date now)))"

definition events_this_month :: "sys \<Rightarrow> int \<Rightarrow> int \<Rightarrow> int" where
  "events_this_month s workspace_id now =
     int (length (select_rows (\<lambda>e. ev_workspace_id e = workspace_id \<and> same_month (ev_occurred_at e) now)
        (events s)))"

definition plan_of :: "sys \<Rightarrow> int \<Rightarrow> string option" where
  "plan_of s workspace_id =
     (case fetch_one (\<lambda>w. ws_id w = workspace_id) (workspaces s) of
        None \<Rightarrow> None
      | Some w \<Rightarrow> map_option org_plan_type
          (fetch_one (\<lambda>o'. org_id o' = ws_organization_id w) (organizations s)))"

definition check_quota :: "int \<Rightarrow> int \<Rightarrow> sys \<Rightarrow> unit result" where
  "check_quota workspace_id now s =
     (case plan_of s workspace_id of
        None \<Rightarrow> Inr ()
      | Some plan \<Rightarrow>
          (case map_of PLAN_QUOTA plan of
             None \<Rightarrow> Inr ()
           | Some quota \<Rightarrow>
               if events_this_month s workspace_id now \<ge> quota
               then Inl (tf_raise ''TF-RATE-002'' None None
                      (Some (''plan '' @ [CHR 0x27] @ plan @ [CHR 0x27] @ '' event quota ('' @ int_str quota @ '') exhausted'')))
               else Inr ()))"

section \<open>What the limiter admits\<close>

lemma check_rate_apply:
  "check_rate ws rpm now s =
    (s\<lparr>window_hits := (window_hits s)((ws, minute now) \<mapsto> hits_of s (ws, minute now) + 1)\<rparr>,
     if hits_of s (ws, minute now) + 1 > rpm
     then Inl (tf_raise ''TF-RATE-001'' None (Some (60 - unix_seconds now mod 60))
            (Some (''per-tenant rate limit '' @ int_str rpm @ ''/min exceeded'')))
     else Inr ())"
  by (simp add: check_rate_def Let_def)

type_synonym request = "int \<times> int \<times> int"

definition request_key :: "request \<Rightarrow> int \<times> int" where
  "request_key r = (fst r, minute (snd (snd r)))"

text \<open>A run of requests (workspace, limit, time) and which of them were admitted.\<close>

fun run_checks :: "request list \<Rightarrow> sys \<Rightarrow> bool list" where
  "run_checks [] s = []"
| "run_checks (r # rs) s =
     (let (s', x) = check_rate (fst r) (fst (snd r)) (snd (snd r)) s in is_ok x # run_checks rs s')"

definition requests_before :: "request list \<Rightarrow> nat \<Rightarrow> nat" where
  "requests_before rs i = length (filter (\<lambda>q. request_key q = request_key (rs ! i)) (take i rs))"

lemma run_checks_from:
  "run_checks rs s = map (\<lambda>i. hits_of s (request_key (rs ! i)) + int (requests_before rs i)
      < fst (snd (rs ! i))) [0..<length rs]"
proof (induction rs arbitrary: s)
  case Nil
  then show ?case by simp
next
  case (Cons r rs)
  let ?s = "s\<lparr>window_hits := (window_hits s)(request_key r \<mapsto> hits_of s (request_key r) + 1)\<rparr>"
  have h: "hits_of ?s k = hits_of s k + (if k = request_key r then 1 else 0)" for k
    by (simp add: hits_of_def)
  have c: "check_rate (fst r) (fst (snd r)) (snd (snd r)) s
      = (?s, if hits_of s (request_key r) + 1 > fst (snd r)
             then Inl (tf_raise ''TF-RATE-001'' None (Some (60 - unix_seconds (snd (snd r)) mod 60))
                    (Some (''per-tenant rate limit '' @ int_str (fst (snd r)) @ ''/min exceeded'')))
             else Inr ())"
    by (simp add: check_rate_apply request_key_def)
  have "run_checks (r # rs) s = (hits_of s (request_key r) < fst (snd r)) # run_checks rs ?s"
    by (simp add: c)
  also have "run_checks rs ?s = map (\<lambda>i. hits_of s (request_key ((r # rs) ! Suc i))
      + int (requests_before (r # rs) (Suc i)) < fst (snd ((r # rs) ! Suc i))) [0..<length rs]"
    unfolding Cons.IH by (simp add: h requests_before_def add.assoc)
  also have "(hits_of s (request_key r) < fst (snd r)) # \<dots>
      = map (\<lambda>i. hits_of s (request_key ((r # rs) ! i)) + int (requests_before (r # rs) i)
          < fst (snd ((r # rs) ! i))) [0..<length (r # rs)]"
    by (simp only: list.size add_Suc_right add_0_right map_upt_Suc) (simp add: requests_before_def)
  finally show ?case .
qed

text \<open>
  C20: the limiter is exact. From fresh counters, a request is admitted if and only if fewer
  than its limit came before it in the same workspace and minute, whatever the interleaving
  of workspaces and minutes: one tenant's traffic never costs another its share.
\<close>

theorem rate_limit_exact:
  "run_checks rs (reset_hits s) = map (\<lambda>i. int (requests_before rs i) < fst (snd (rs ! i))) [0..<length rs]"
  by (simp add: run_checks_from hits_of_def reset_hits_def)

lemma unix_seconds_later: "unix_seconds (now + k * 1000000) = unix_seconds now + k"
  by (simp add: unix_seconds_def)

lemma window_opens: "minute (now + (60 - unix_seconds now mod 60) * 1000000) = minute now + 1"
proof -
  have "(s + (60 - s mod 60)) div 60 = s div 60 + 1" for s :: int
    by (rule int_div_pos_eq [where r = 0]) (simp_all add: minus_mod_eq_mult_div)
  then show ?thesis by (simp only: minute_def unix_seconds_later)
qed

lemma window_closed:
  assumes "0 \<le> k" "k < 60 - unix_seconds now mod 60"
  shows "minute (now + k * 1000000) = minute now"
proof -
  have "0 \<le> k \<Longrightarrow> k < 60 - s mod 60 \<Longrightarrow> (s + k) div 60 = s div 60" for s :: int
    by (rule int_div_pos_eq [where r = "s mod 60 + k"]) (use mult_div_mod_eq [of 60 s] in simp_all)
  then show ?thesis using assms by (simp only: minute_def unix_seconds_later)
qed

lemma rate_limited_error:
  "tf_raise ''TF-RATE-001'' None (Some n) d =
     TFExn \<lparr>err_code = ''TF-RATE-001'', err_name = ''RATE_LIMITED'', err_http = 429, err_retryable = True,
       err_message = ''Per-tenant rate limit exceeded. Honor retry_after; client buffering + idempotent replay is the designed behavior.'',
       err_field_path = None, err_retry_after = Some n, err_detail = d\<rparr>"
  by (simp add: tf_raise_def mk_tf_error_def get_code_def registry_codes_def)

text \<open>
  The answer to a refused request names the first whole second at which the next window
  opens: earlier the window is still the exhausted one.
\<close>

theorem retry_after_least:
  assumes "check_rate ws rpm now s = (s', Inl x)"
  shows "\<exists>e n. x = TFExn e \<and> err_code e = ''TF-RATE-001'' \<and> err_http e = 429 \<and> err_retryable e
    \<and> err_retry_after e = Some n \<and> 1 \<le> n \<and> n \<le> 60
    \<and> minute (now + n * 1000000) = minute now + 1
    \<and> (\<forall>k. 0 \<le> k \<and> k < n \<longrightarrow> minute (now + k * 1000000) = minute now)"
proof -
  let ?n = "60 - unix_seconds now mod 60"
  have x: "x = tf_raise ''TF-RATE-001'' None (Some ?n)
            (Some (''per-tenant rate limit '' @ int_str rpm @ ''/min exceeded''))"
    using assms by (simp add: check_rate_apply split: if_splits)
  have bounds: "1 \<le> ?n" "?n \<le> 60" by simp_all
  show ?thesis
    unfolding x rate_limited_error
    using bounds window_opens [of now] window_closed [of _ now]
    by (auto intro!: exI)
qed

theorem retry_after_least_witness:
  "\<exists>e n. snd (check_rate 1 0 (1000000 * 90) empty_sys) = Inl (TFExn e)
     \<and> err_retry_after e = Some n \<and> minute (1000000 * 90 + n * 1000000) = minute (1000000 * 90) + 1"
proof -
  obtain s' x where c: "check_rate 1 0 (1000000 * 90) empty_sys = (s', Inl x)"
    by (simp add: check_rate_apply hits_of_def empty_sys_def)
  from retry_after_least [OF c] obtain e n where "x = TFExn e" "err_retry_after e = Some n"
      "minute (1000000 * 90 + n * 1000000) = minute (1000000 * 90) + 1"
    by blast
  with c show ?thesis by (intro exI [of _ e] exI [of _ n]) simp
qed

end
