(* ===== verification/Namespaces.thy ===== *)
theory Namespaces
  imports Schema
begin

text \<open>
  The lookup of an identifier-namespace declaration. The statement of
  \<^verbatim>\<open>ingest._check_namespaces\<close> (which reads the format) and that of
  \<^verbatim>\<open>pipeline._applicable_namespace\<close> (which reads the namespace) differ only in the
  column they select.
\<close>

text \<open>\<^verbatim>\<open>ORDER BY rank DESC LIMIT 1\<close>.\<close>

fun first_max :: "('a \<Rightarrow> nat) \<Rightarrow> 'a list \<Rightarrow> 'a option" where
  "first_max rank [] = None"
| "first_max rank (x # xs) =
     (case first_max rank xs of
        None \<Rightarrow> Some x
      | Some y \<Rightarrow> if rank y > rank x then Some y else Some x)"

definition ns_rank :: "namespace_row \<Rightarrow> nat" where
  "ns_rank r = (if ns_deployment_id r \<noteq> None then 2 else 0) + (if ns_source_ref r \<noteq> [] then 1 else 0)"

definition ns_applies :: "int \<Rightarrow> int \<Rightarrow> string \<Rightarrow> string \<Rightarrow> namespace_row \<Rightarrow> bool" where
  "ns_applies workspace_id deployment_id field source_ref r =
     (ns_workspace_id r = workspace_id \<and> ns_field r = field \<and> ns_status r = Record_Active
      \<and> (ns_source_ref r = source_ref \<or> ns_source_ref r = [])
      \<and> (ns_deployment_id r = Some deployment_id \<or> ns_deployment_id r = None))"

definition applicable_row :: "sys \<Rightarrow> int \<Rightarrow> int \<Rightarrow> string \<Rightarrow> string \<Rightarrow> namespace_row option" where
  "applicable_row s workspace_id deployment_id field source_ref =
     first_max ns_rank
       (select_rows (ns_applies workspace_id deployment_id field source_ref) (identifier_namespaces s))"

section \<open>The most specific declaration wins\<close>

lemma first_max_None [simp]: "first_max rank xs = None \<longleftrightarrow> xs = []"
  by (cases xs) (auto split: option.splits)

lemma first_max_Some:
  "first_max rank xs = Some x \<Longrightarrow> x \<in> set xs \<and> (\<forall>y \<in> set xs. rank y \<le> rank x)"
  by (induction xs arbitrary: x) (fastforce split: option.splits if_splits)+

lemma first_max_find:
  assumes "\<forall>y \<in> set xs. rank y \<le> n" "\<exists>y \<in> set xs. rank y = n"
  shows "first_max rank xs = find (\<lambda>y. rank y = n) xs"
  using assms
proof (induction xs)
  case Nil
  then show ?case by simp
next
  case (Cons x xs)
  show ?case
  proof (cases "rank x = n")
    case True
    with Cons.prems(1) show ?thesis
      by (auto split: option.splits dest!: first_max_Some)
  next
    case False
    with Cons have "first_max rank xs = find (\<lambda>y. rank y = n) xs" by auto
    moreover from False Cons.prems obtain z where z: "find (\<lambda>y. rank y = n) xs = Some z"
      by (cases "find (\<lambda>y. rank y = n) xs") (auto simp: find_None_iff)
    moreover from z have "rank z = n" by (auto simp: find_Some_iff)
    ultimately show ?thesis using False Cons.prems(1) by auto
  qed
qed

text \<open>The declaration of one scope: a deployment or the workspace default, a feed or any.\<close>

definition declared :: "sys \<Rightarrow> int \<Rightarrow> int option \<Rightarrow> string \<Rightarrow> string \<Rightarrow> namespace_row option" where
  "declared s workspace_id dep field source_ref =
     find (\<lambda>r. ns_workspace_id r = workspace_id \<and> ns_field r = field \<and> ns_status r = Record_Active
        \<and> ns_source_ref r = source_ref \<and> ns_deployment_id r = dep) (tbl_rows (identifier_namespaces s))"

definition first_of :: "'a option list \<Rightarrow> 'a option" where
  "first_of xs = (case filter (\<lambda>x. x \<noteq> None) xs of [] \<Rightarrow> None | x # _ \<Rightarrow> x)"

lemma find_filter: "find P (filter Q xs) = find (\<lambda>x. Q x \<and> P x) xs"
  by (induction xs) auto

lemma first_max_by_rank:
  assumes "\<forall>y \<in> set xs. rank y < k"
  shows "first_max rank xs = first_of (map (\<lambda>n. find (\<lambda>y. rank y = n) xs) (rev [0..<k]))"
  using assms
proof (induction k)
  case 0
  then have "xs = []" by (cases xs) auto
  then show ?case by (simp add: first_of_def)
next
  case (Suc k)
  show ?case
  proof (cases "\<exists>y \<in> set xs. rank y = k")
    case True
    then have "first_max rank xs = find (\<lambda>y. rank y = k) xs"
      using Suc.prems by (intro first_max_find) auto
    moreover have "find (\<lambda>y. rank y = k) xs \<noteq> None"
      using True by (auto simp: find_None_iff)
    ultimately show ?thesis by (simp add: first_of_def)
  next
    case False
    then have "\<forall>y \<in> set xs. rank y < k"
      using Suc.prems by (metis less_SucE)
    moreover have "find (\<lambda>y. rank y = k) xs = None"
      using False by (auto simp: find_None_iff)
    ultimately show ?thesis using Suc.IH by (simp add: first_of_def)
  qed
qed

lemma find_cong': "(\<And>x. P x = Q x) \<Longrightarrow> find P xs = find Q xs"
  by (induction xs) auto

text \<open>
  The declaration in force for a field is the most specific one: the deployment's for
  this feed, else the deployment's for any feed, else the workspace's for this feed, else
  the workspace default.
\<close>

theorem namespace_precedence:
  assumes "source_ref \<noteq> []"
  shows "applicable_row s ws dep field source_ref =
    first_of [declared s ws (Some dep) field source_ref, declared s ws (Some dep) field [],
              declared s ws None field source_ref, declared s ws None field []]"
proof -
  let ?rows = "tbl_rows (identifier_namespaces s)"
  let ?xs = "filter (ns_applies ws dep field source_ref) ?rows"
  have rank: "(ns_applies ws dep field source_ref r \<and> ns_rank r = 2 * a + b) =
      (ns_workspace_id r = ws \<and> ns_field r = field \<and> ns_status r = Record_Active
        \<and> ns_source_ref r = (if b = 1 then source_ref else [])
        \<and> ns_deployment_id r = (if a = 1 then Some dep else None))"
    if "a \<le> 1" "b \<le> 1" for r a b
    using that assms by (auto simp: ns_applies_def ns_rank_def le_Suc_eq)
  have "find (\<lambda>r. ns_rank r = 2 * a + b) ?xs
      = declared s ws (if a = 1 then Some dep else None) field (if b = 1 then source_ref else [])"
    if "a \<le> 1" "b \<le> 1" for a b
    unfolding find_filter declared_def by (rule find_cong') (rule rank [OF that])
  note each = this [of 1 1] this [of 1 0] this [of 0 1] this [of 0 0]
  have "first_max ns_rank ?xs = first_of (map (\<lambda>n. find (\<lambda>r. ns_rank r = n) ?xs) (rev [0..<4]))"
    by (rule first_max_by_rank) (auto simp: ns_rank_def)
  also have "rev [0..<4] = [3, 2, 1, 0 :: nat]" by (simp add: upt_rec)
  finally show ?thesis using each by (simp add: applicable_row_def select_rows_def)
qed

definition ex_ns :: "int \<Rightarrow> int option \<Rightarrow> string \<Rightarrow> namespace_row" where
  "ex_ns i dep src = \<lparr>ns_id = i, ns_workspace_id = 7, ns_deployment_id = dep, ns_field = ''user_ref'',
     ns_status = Record_Active, ns_source_ref = src, ns_namespace = ''okta'', ns_format_regex = None, ns_description = None\<rparr>"

theorem namespace_precedence_witness:
  "applicable_row (empty_sys\<lparr>identifier_namespaces := Table [ex_ns 1 None ''hr'', ex_ns 2 (Some 4) []] 3\<rparr>)
     7 4 ''user_ref'' ''hr'' = Some (ex_ns 2 (Some 4) [])"
  by (subst namespace_precedence)
    (simp_all add: declared_def first_of_def ex_ns_def)

end
