(* ===== verification/EventSchema.thy ===== *)
theory EventSchema
  imports Schema EventKey
begin

text \<open>
  The meaning of \<^verbatim>\<open>contract/events.schema.json\<close>: the envelope and the five event
  families, each an object with required fields, closed against any other field. The
  \<^verbatim>\<open>date-time\<close> format of timestamps is an annotation the validator does not assert.
\<close>

section \<open>Field checks and families\<close>

datatype field_check =
    AnyString
  | NonEmptyString
  | VersionString
  | OneOf "string list"
  | NonNegative

text \<open>The pattern \<^verbatim>\<open>^1\.[0-9]+$\<close>.\<close>

definition schema_version_ok :: "string \<Rightarrow> bool" where
  "schema_version_ok sv =
     (let s = (if sv \<noteq> [] \<and> last sv = CHR 0x0A then butlast sv else sv) in
      starts_with s ''1.'' \<and> drop 2 s \<noteq> [] \<and> list_all is_digit (drop 2 s))"

fun check_field :: "field_check \<Rightarrow> json \<Rightarrow> bool" where
  "check_field AnyString j = is_str j"
| "check_field NonEmptyString j = (case j of JStr s \<Rightarrow> s \<noteq> [] | _ \<Rightarrow> False)"
| "check_field VersionString j = (case j of JStr s \<Rightarrow> schema_version_ok s | _ \<Rightarrow> False)"
| "check_field (OneOf vs) j = (case j of JStr s \<Rightarrow> s \<in> set vs | _ \<Rightarrow> False)"
| "check_field NonNegative j = (case j of JInt n \<Rightarrow> 0 \<le> n | JReal r \<Rightarrow> 0 \<le> r | _ \<Rightarrow> False)"

type_synonym object_schema = "string list \<times> (string \<times> field_check) list"

definition object_ok :: "object_schema \<Rightarrow> (string \<times> json) list \<Rightarrow> bool" where
  "object_ok sch kvs =
     (list_all (\<lambda>r. json_get kvs r \<noteq> None) (fst sch)
      \<and> list_all (\<lambda>(k, v). case map_of (snd sch) k of None \<Rightarrow> False | Some c \<Rightarrow> check_field c v) kvs)"

definition meters :: "string list" where
  "meters = [''tokens_in'', ''tokens_out'', ''api_calls'', ''compute_seconds'', ''seats_active'', ''storage_gb'']"

fun family :: "event_type \<Rightarrow> object_schema" where
  "family Activity =
     ([''user_ref'', ''timestamp'', ''work_item_id'', ''action_type''],
      [(''user_ref'', AnyString), (''timestamp'', AnyString), (''work_item_id'', AnyString),
       (''action_type'', OneOf [''suggestion_shown'', ''suggestion_accepted'', ''suggestion_rejected'',
          ''draft_generated'', ''autocomplete_used'', ''case_handled_autonomous'', ''escalated_to_human'',
          ''lookup_performed'', ''classification_applied'', ''other_assist'']),
       (''model_version_ref'', AnyString), (''session_ref'', AnyString)])"
| "family Lifecycle =
     ([''work_item_id'', ''event'', ''timestamp''],
      [(''work_item_id'', AnyString),
       (''event'', OneOf [''created'', ''status_change'', ''assigned'', ''completed'', ''reopened'',
          ''escalated'', ''transferred'']),
       (''timestamp'', AnyString), (''status_from'', AnyString), (''status_to'', AnyString),
       (''assignee_ref'', AnyString), (''category'', AnyString),
       (''size_band'', OneOf [''xs'', ''s'', ''m'', ''l'', ''xl''])])"
| "family Cost_Meter =
     ([''meter'', ''quantity'', ''timestamp''],
      [(''meter'', OneOf meters), (''quantity'', NonNegative), (''timestamp'', AnyString),
       (''meter_ref'', AnyString)])"
| "family Quality_Signal =
     ([''work_item_id'', ''signal'', ''timestamp''],
      [(''work_item_id'', AnyString),
       (''signal'', OneOf [''error_found'', ''rework_required'', ''qa_label'', ''customer_bounce'',
          ''sla_breach'']),
       (''timestamp'', AnyString), (''label_schema_ref'', AnyString), (''label_value'', AnyString),
       (''error_class'', AnyString)])"
| "family Revenue_Signal =
     ([''work_item_id'', ''revenue_ref'', ''timestamp''],
      [(''work_item_id'', AnyString), (''revenue_ref'', AnyString), (''timestamp'', AnyString),
       (''touchpoint'', OneOf [''created'', ''influenced'', ''closed_adjacent''])])"

text \<open>\<^verbatim>\<open>oneOf\<close>: exactly one family accepts the payload.\<close>

definition payload_valid :: "json \<Rightarrow> bool" where
  "payload_valid j =
     (case j of
        JObj kvs \<Rightarrow> length (filter (\<lambda>t. object_ok (family t) kvs)
           [Activity, Lifecycle, Cost_Meter, Quality_Signal, Revenue_Signal]) = 1
      | _ \<Rightarrow> False)"

definition envelope_fields :: "(string \<times> field_check) list" where
  "envelope_fields =
     [(''schema_version'', VersionString), (''deployment_id'', NonEmptyString),
      (''event_type'', OneOf (map fst event_types)), (''origin'', OneOf (map fst origin_types)),
      (''idempotency_scope'', AnyString)]"

definition envelope_valid :: "json \<Rightarrow> bool" where
  "envelope_valid j =
     (case j of
        JObj kvs \<Rightarrow>
          list_all (\<lambda>r. json_get kvs r \<noteq> None)
            [''schema_version'', ''deployment_id'', ''event_type'', ''origin'', ''payload'']
          \<and> list_all (\<lambda>(k, v). if k = ''payload'' then payload_valid v
               else (case map_of envelope_fields k of None \<Rightarrow> False | Some c \<Rightarrow> check_field c v)) kvs
      | _ \<Rightarrow> False)"

section \<open>Facts about valid events\<close>

lemma object_ok_field:
  assumes "object_ok sch kvs" "json_get kvs k = Some v"
  shows "\<exists>c. map_of (snd sch) k = Some c \<and> check_field c v"
  using json_get_mem [OF assms(2)] assms(1)
  by (auto simp: object_ok_def list_all_iff split: option.splits)

lemma object_ok_required:
  "object_ok sch kvs \<Longrightarrow> k \<in> set (fst sch) \<Longrightarrow> json_get kvs k \<noteq> None"
  by (auto simp: object_ok_def list_all_iff)

lemma object_ok_keys: "object_ok sch kvs \<Longrightarrow> k \<in> fst ` set kvs \<Longrightarrow> k \<in> fst ` set (snd sch)"
proof -
  assume a: "object_ok sch kvs" "k \<in> fst ` set kvs"
  then obtain v where "(k, v) \<in> set kvs" by auto
  with a(1) obtain c where "map_of (snd sch) k = Some c"
    by (auto simp: object_ok_def list_all_iff split: option.splits)
  then have "(k, c) \<in> set (snd sch)" by (rule map_of_SomeD)
  then show ?thesis by force
qed

text \<open>A field of the key's family that only that family has.\<close>

fun own_field :: "event_type \<Rightarrow> string" where
  "own_field Activity = ''action_type''"
| "own_field Lifecycle = ''event''"
| "own_field Cost_Meter = ''meter''"
| "own_field Quality_Signal = ''signal''"
| "own_field Revenue_Signal = ''revenue_ref''"

lemma own_field_family: "own_field u \<in> fst ` set (snd (family t)) \<longleftrightarrow> t = u"
  by (cases t; cases u) simp_all

lemma own_field_decides: "object_ok (family t) kvs \<Longrightarrow> json_get kvs (own_field u) \<noteq> None \<Longrightarrow> t = u"
  by (metis json_get_None_iff object_ok_keys own_field_family)

declare family.simps [simp del]

lemma payload_valid_family:
  "payload_valid (JObj kvs) \<Longrightarrow> \<exists>t. object_ok (family t) kvs"
  by (auto simp: payload_valid_def split: if_splits)

lemma key_parts_own_field:
  assumes "key_parts dep (JStr (event_type_str u)) p ts = Inr parts"
  shows "json_get p (own_field u) \<noteq> None"
  using assms
  by (cases u)
    (auto simp: key_parts_def subscript_def bind_r_Inr_iff split: option.splits)

lemma event_key_own_field:
  assumes "event_key sha256 dep (JStr (event_type_str u)) p scope = Inr k"
  shows "json_get p (own_field u) \<noteq> None"
  using assms key_parts_own_field
  by (fastforce simp: event_key_def natural_key_def bind_r_Inr_iff)

lemma payload_valid_obj: "payload_valid j \<Longrightarrow> \<exists>p. j = JObj p"
  by (cases j) (simp_all add: payload_valid_def)

lemma check_field_str: "check_field c j \<Longrightarrow> c \<noteq> NonNegative \<Longrightarrow> \<exists>s. j = JStr s"
  by (cases c; cases j) auto

lemma envelope_valid_fields:
  assumes "envelope_valid (JObj kvs)"
  shows "\<exists>sv. json_get kvs ''schema_version'' = Some (JStr sv)"
    and "\<exists>d. json_get kvs ''deployment_id'' = Some (JStr d)"
    and "\<exists>t. json_get kvs ''event_type'' = Some (JStr (event_type_str t))"
    and "\<exists>o'. json_get kvs ''origin'' = Some (JStr (origin_type_str o'))"
    and "\<exists>p. json_get kvs ''payload'' = Some (JObj p) \<and> payload_valid (JObj p)"
proof -
  have get: "\<exists>v. json_get kvs r = Some v \<and> (r, v) \<in> set kvs"
    if "r \<in> {''schema_version'', ''deployment_id'', ''event_type'', ''origin'', ''payload''}" for r
    using assms that by (cases "json_get kvs r") (auto simp: envelope_valid_def dest: json_get_mem)
  have chk: "if k = ''payload'' then payload_valid v
       else (case map_of envelope_fields k of None \<Rightarrow> False | Some c \<Rightarrow> check_field c v)"
    if "(k, v) \<in> set kvs" for k v
    using assms that by (auto simp: envelope_valid_def list_all_iff split: if_splits)
  show "\<exists>sv. json_get kvs ''schema_version'' = Some (JStr sv)"
    using get [of "''schema_version''"] chk [of "''schema_version''"] check_field_str [of VersionString]
    by (fastforce simp: envelope_fields_def simp del: check_field.simps)
  show "\<exists>d. json_get kvs ''deployment_id'' = Some (JStr d)"
    using get [of "''deployment_id''"] chk [of "''deployment_id''"] check_field_str [of NonEmptyString]
    by (fastforce simp: envelope_fields_def simp del: check_field.simps)
  obtain v where v: "json_get kvs ''event_type'' = Some v" "check_field (OneOf (map fst event_types)) v"
    using get [of "''event_type''"] chk [of "''event_type''"] by (auto simp: envelope_fields_def)
  then obtain x where x: "v = JStr x" "x \<in> fst ` set event_types" by (cases v) auto
  then obtain t where "x = event_type_str t"
    using event_type_column.labelled by force
  then show "\<exists>t. json_get kvs ''event_type'' = Some (JStr (event_type_str t))" using v x by blast
  obtain w where w: "json_get kvs ''origin'' = Some w" "check_field (OneOf (map fst origin_types)) w"
    using get [of "''origin''"] chk [of "''origin''"] by (auto simp: envelope_fields_def)
  then obtain y where y: "w = JStr y" "y \<in> fst ` set origin_types" by (cases w) auto
  then obtain o' where "y = origin_type_str o'"
    using origin_type_column.labelled by force
  then show "\<exists>o'. json_get kvs ''origin'' = Some (JStr (origin_type_str o'))" using w y by blast
  show "\<exists>p. json_get kvs ''payload'' = Some (JObj p) \<and> payload_valid (JObj p)"
    using get [of "''payload''"] chk [of "''payload''"] payload_valid_obj by fastforce
qed

end
