(* ===== verification/Ingest.thy ===== *)
theory Ingest
  imports Auth RateLimit Namespaces EventSchema "HOL-Library.List_Lexorder" "HOL-Library.Char_ord"
begin

text \<open>
  Module \<^verbatim>\<open>api/routes/ingest.py\<close>: \<^verbatim>\<open>POST /v1/events:batch\<close> and
  \<^verbatim>\<open>GET /v1/events/{event_key}/status\<close>. What the module takes from elsewhere is the
  record \<open>ingest_env\<close>: the digest, the clock of the request, the JSON parser, the schema
  validator, the regex search, the driver's binding of a value to a text column and Python's
  rendering of floats.
\<close>

record ingest_env =
  env_sha256 :: "string \<Rightarrow> string"
  env_now :: int
  env_loads :: "string \<Rightarrow> json option"
  env_iter_errors :: "json \<Rightarrow> (string list \<times> string) list"
  env_re_search :: "string \<Rightarrow> string \<Rightarrow> bool result"
  env_bind_text :: "json \<Rightarrow> string option result"
  env_float_repr :: "rat \<Rightarrow> string"

section \<open>Python's renderings\<close>

definition hex_digit :: "nat \<Rightarrow> char" where
  "hex_digit n = (if n < 10 then char_of (48 + n) else char_of (87 + n))"

definition repr_char :: "char \<Rightarrow> char \<Rightarrow> string" where
  "repr_char q c =
     (let n = of_char c :: nat in
      if c = q \<or> n = 92 then [char_of (92 :: nat), c]
      else if n = 10 then [char_of (92 :: nat), CHR ''n'']
      else if n = 13 then [char_of (92 :: nat), CHR ''r'']
      else if n = 9 then [char_of (92 :: nat), CHR ''t'']
      else if n < 32 \<or> (127 \<le> n \<and> n \<le> 160) \<or> n = 173
        then [char_of (92 :: nat), CHR ''x'', hex_digit (n div 16), hex_digit (n mod 16)]
      else [c])"

definition py_repr :: "string \<Rightarrow> string" where
  "py_repr s =
     (let q = (if CHR 0x27 \<in> set s \<and> CHR 0x22 \<notin> set s then CHR 0x22 else CHR 0x27)
      in [q] @ concat (map (repr_char q) s) @ [q])"

fun py_repr_json :: "(rat \<Rightarrow> string) \<Rightarrow> json \<Rightarrow> string"
  and py_repr_list :: "(rat \<Rightarrow> string) \<Rightarrow> json list \<Rightarrow> string list"
  and py_repr_items :: "(rat \<Rightarrow> string) \<Rightarrow> (string \<times> json) list \<Rightarrow> string list" where
  "py_repr_json fr JNull = ''None''"
| "py_repr_json fr (JBool b) = (if b then ''True'' else ''False'')"
| "py_repr_json fr (JInt n) = int_str n"
| "py_repr_json fr (JReal r) = fr r"
| "py_repr_json fr (JStr s) = py_repr s"
| "py_repr_json fr (JList xs) = ''['' @ join '', '' (py_repr_list fr xs) @ '']''"
| "py_repr_json fr (JObj kvs) = ''{'' @ join '', '' (py_repr_items fr kvs) @ ''}''"
| "py_repr_list fr [] = []"
| "py_repr_list fr (x # xs) = py_repr_json fr x # py_repr_list fr xs"
| "py_repr_items fr [] = []"
| "py_repr_items fr ((k, v) # kvs) = (py_repr k @ '': '' @ py_repr_json fr v) # py_repr_items fr kvs"

definition py_str :: "(rat \<Rightarrow> string) \<Rightarrow> json \<Rightarrow> string" where
  "py_str fr j = (case j of JStr s \<Rightarrow> s | _ \<Rightarrow> py_repr_json fr j)"

section \<open>Validation of one event\<close>

definition mk_reject :: "string \<Rightarrow> string \<Rightarrow> string \<Rightarrow> exn" where
  "mk_reject code field_path reason =
     (case mk_tf_error code (Some field_path) None (Some reason) None of
        Inl e \<Rightarrow> e | Inr err \<Rightarrow> RejectExn err)"

definition VALUE_FIELDS :: "string list" where
  "VALUE_FIELDS = [''value'', ''value_usd'', ''savings'', ''roi'', ''amount'', ''price'', ''dollars'',
     ''revenue_usd'', ''cost_usd'']"

fun scan_keys :: "string \<Rightarrow> string list \<Rightarrow> unit result" where
  "scan_keys scope_name [] = Inr ()"
| "scan_keys scope_name (key # ks) =
     (if key = ''content''
      then Inl (mk_reject ''TF-EVT-006'' (scope_name @ ''content'') ''content is never accepted'')
      else if key \<in> set VALUE_FIELDS
      then Inl (mk_reject ''TF-EVT-008'' (scope_name @ key)
             ''the SDK witnesses facts; it never accepts asserted value'')
      else scan_keys scope_name ks)"

definition scan_forbidden_fields :: "payload \<Rightarrow> unit result" where
  "scan_forbidden_fields event =
     (let p = (case json_get event ''payload'' of Some (JObj p) \<Rightarrow> p | _ \<Rightarrow> []) in
      bind_r (scan_keys [] (map fst event)) (\<lambda>_. scan_keys ''payload.'' (map fst p)))"

text \<open>The errors of the validator, sorted by path; Python sorts stably.\<close>

definition validate_structure :: "ingest_env \<Rightarrow> payload \<Rightarrow> unit result" where
  "validate_structure env event =
     bind_r (case json_get event ''schema_version'' of
               Some (JStr sv) \<Rightarrow>
                 if \<not> schema_version_ok sv
                 then Inl (mk_reject ''TF-EVT-001'' ''schema_version''
                        (''unsupported schema_version '' @ sv))
                 else Inr ()
             | _ \<Rightarrow> Inr ())
       (\<lambda>_. case sort_key fst (env_iter_errors env (JObj event)) of
               [] \<Rightarrow> Inr ()
             | first # _ \<Rightarrow>
                 let path = join ''.'' (fst first) in
                 Inl (mk_reject ''TF-EVT-003'' (if path = [] then ''(root)'' else path) (snd first)))"

text \<open>The message of the \<^verbatim>\<open>TimestampError\<close> that \<open>canonical_ts\<close> raises.\<close>

definition ts_error_message :: "json \<Rightarrow> string" where
  "ts_error_message ts =
     (case ts of
        JStr s \<Rightarrow>
          (let raw = strip s;
               raw = (if ends_with_z raw then butlast raw @ ''+00:00'' else raw)
           in case fromisoformat raw of
                None \<Rightarrow> ''timestamp not ISO-8601: '' @ py_repr s
              | Some _ \<Rightarrow> ''timestamp must carry a timezone (spec 1.1)'')
      | _ \<Rightarrow> ''timestamp must be an ISO-8601 string'')"

definition days_before :: "int \<Rightarrow> int \<Rightarrow> int result" where
  "days_before now days =
     (if \<bar>days\<bar> > 999999999 \<or> \<not> instant_in_range (now - days * us_per_day)
      then Inl OverflowError else Inr (now - days * us_per_day))"

definition check_timestamp :: "ingest_env \<Rightarrow> payload \<Rightarrow> int \<Rightarrow> string result" where
  "check_timestamp env p horizon_days =
     (let raw = json_get_or p ''timestamp'' JNull; now = env_now env in
      case canonical_ts raw of
        Inl TimestampError \<Rightarrow> Inl (mk_reject ''TF-EVT-003'' ''payload.timestamp'' (ts_error_message raw))
      | Inl e \<Rightarrow> Inl e
      | Inr ts \<Rightarrow>
          bind_r (strptime_ms ts) (\<lambda>when.
          if when > now + us_per_day
          then Inl (mk_reject ''TF-EVT-009'' ''payload.timestamp'' ''timestamp is in the future'')
          else bind_r (days_before now horizon_days) (\<lambda>earliest.
            if when < earliest
            then Inl (mk_reject ''TF-EVT-009'' ''payload.timestamp''
                   (''timestamp older than backfill horizon ('' @ int_str horizon_days @ ''d)''))
            else Inr ts)))"

fun check_ids :: "ingest_env \<Rightarrow> sys \<Rightarrow> int \<Rightarrow> int \<Rightarrow> string \<Rightarrow> (string \<times> string) list \<Rightarrow> unit result" where
  "check_ids env s ws dep source_ref [] = Inr ()"
| "check_ids env s ws dep source_ref ((field, v) # rest) =
     bind_r (case applicable_row s ws dep field source_ref of
               None \<Rightarrow> Inr ()
             | Some row \<Rightarrow>
                 (case ns_format_regex row of
                    None \<Rightarrow> Inr ()
                  | Some regex \<Rightarrow>
                      if regex = [] then Inr ()
                      else bind_r (env_re_search env regex v) (\<lambda>found.
                        if found then Inr ()
                        else Inl (mk_reject ''TF-EVT-004'' (''payload.'' @ field)
                               (''value '' @ py_repr v @ '' fails namespace format for '' @ field)))))
       (\<lambda>_. check_ids env s ws dep source_ref rest)"

definition check_namespaces :: "ingest_env \<Rightarrow> int \<Rightarrow> int \<Rightarrow> payload \<Rightarrow> string \<Rightarrow> sys \<Rightarrow> unit result" where
  "check_namespaces env ws dep p source_ref s = check_ids env s ws dep source_ref (id_fields p)"

section \<open>Results\<close>

datatype item_result =
    Accepted_Item int string "json option"
  | Duplicate_Item int string
  | Rejected_Item int tf_error "string option" "json option"

definition echo_json :: "json \<Rightarrow> payload \<Rightarrow> bool \<Rightarrow> string option \<Rightarrow> json" where
  "echo_json event_type p accepted reason =
     JObj ([(''accepted'', JBool accepted), (''reason'', opt_str reason), (''resolved_person'', JNull),
            (''resolution_basis'', JStr ''unresolved''),
            (''matched_work_item'', json_get_or p ''work_item_id'' JNull)]
       @ (if event_type = JStr ''activity''
          then [(''action_class'', json_get_or p ''action_type'' JNull)]
          else [(''interpreted_as'',
                  let m = json_get_or p ''meter'' JNull; e = json_get_or p ''event'' JNull in
                  if truthy m then m else if truthy e then e else json_get_or p ''signal'' JNull)]))"

definition echo_field :: "json option \<Rightarrow> (string \<times> json) list" where
  "echo_field echo = (case echo of None \<Rightarrow> [] | Some e \<Rightarrow> [(''echo'', e)])"

fun item_json :: "item_result \<Rightarrow> json" where
  "item_json (Accepted_Item i key echo) =
     JObj ([(''index'', JInt i), (''status'', JStr ''accepted''), (''event_key'', JStr key)] @ echo_field echo)"
| "item_json (Duplicate_Item i key) =
     JObj [(''index'', JInt i), (''status'', JStr ''duplicate''), (''event_key'', JStr key),
           (''code'', JStr ''TF-EVT-005'')]"
| "item_json (Rejected_Item i err key echo) =
     JObj ([(''index'', JInt i), (''status'', JStr ''rejected''), (''error'', to_error_object err)]
       @ (case key of None \<Rightarrow> [] | Some k \<Rightarrow> [(''event_key'', JStr k)]) @ echo_field echo)"

section \<open>One event\<close>

definition resolve_dep :: "ingest_env \<Rightarrow> principal \<Rightarrow> json \<Rightarrow> sys \<Rightarrow> deployment_row result" where
  "resolve_dep env p wire_id s =
     bind_r (case wire_id of
               JStr ref \<Rightarrow> Inr (fetch_one (\<lambda>d. dep_ref d = ref \<and> dep_workspace_id d = p_workspace_id p) (deployments s))
             | JNull \<Rightarrow> Inr None
             | _ \<Rightarrow> Inl DatabaseError)
       (\<lambda>row. case row of
          None \<Rightarrow> Inl (mk_reject ''TF-EVT-002'' ''deployment_id''
                    (''unknown deployment '' @ py_str (env_float_repr env) wire_id))
        | Some d \<Rightarrow>
            bind_r (require_deployment p (dep_id d)) (\<lambda>_.
              if dep_status d = Dep_Paused
              then Inl (tf_raise ''TF-SRV-002'' None None
                     (Some (''ingestion paused for '' @ py_str (env_float_repr env) wire_id)))
              else Inr d))"

definition event_row_of ::
  "principal \<Rightarrow> int \<Rightarrow> event_type \<Rightarrow> origin_type \<Rightarrow> string \<Rightarrow> string \<Rightarrow> int \<Rightarrow> string \<Rightarrow> payload \<Rightarrow> int \<Rightarrow> event_row" where
  "event_row_of p dep ety org sv key when source_ref pl i =
     \<lparr>ev_id = i, ev_workspace_id = p_workspace_id p, ev_deployment_id = dep,
      ev_resolved_user_id = None, ev_work_item_id = None, ev_type = ety, ev_origin = org,
      ev_status = Accepted, ev_exclusion = None, ev_key = key, ev_schema_version = sv,
      ev_occurred_at = when, ev_source_ref = (if source_ref = [] then None else Some source_ref),
      ev_payload = pl\<rparr>"

definition insert_event ::
  "principal \<Rightarrow> int \<Rightarrow> json \<Rightarrow> json \<Rightarrow> json \<Rightarrow> string \<Rightarrow> string \<Rightarrow> string \<Rightarrow> payload \<Rightarrow> (sys, unit) st" where
  "insert_event p dep event_type origin schema_version key ts source_ref pl =
     (case (event_type, origin, schema_version, strptime_ms ts) of
        (JStr e, JStr o', JStr sv, Inr when) \<Rightarrow>
          (case (map_of event_types e, map_of origin_types o') of
             (Some ety, Some org) \<Rightarrow>
               writes (\<lambda>s. s\<lparr>events :=
                 insert_row (event_row_of p dep ety org sv key when source_ref pl) (events s)\<rparr>)
           | _ \<Rightarrow> raise DatabaseError)
      | _ \<Rightarrow> raise DatabaseError)"

definition key_exists :: "int \<Rightarrow> string \<Rightarrow> sys \<Rightarrow> bool" where
  "key_exists ws key s = exists_row (\<lambda>e. ev_workspace_id e = ws \<and> ev_key e = key) (events s)"

text \<open>The body of the \<^verbatim>\<open>try\<close>, after the checks that need no database.\<close>

definition store_event ::
  "ingest_env \<Rightarrow> principal \<Rightarrow> payload \<Rightarrow> json \<Rightarrow> payload \<Rightarrow> string \<Rightarrow> int \<Rightarrow> string \<Rightarrow> (sys, item_result) st" where
  "store_event env p event event_type pl ts index source_ref =
     transaction
      (bind_s (lift_r (subscript event ''deployment_id'')) (\<lambda>dep_ref.
       bind_s (query (resolve_dep env p dep_ref)) (\<lambda>dep.
       bind_s (query (check_namespaces env (p_workspace_id p) (dep_id dep) pl source_ref)) (\<lambda>_.
       bind_s (lift_r (event_key (env_sha256 env) dep_ref event_type pl
                 (json_get_or event ''idempotency_scope'' JNull))) (\<lambda>key.
         if is_test p
         then ret (Accepted_Item index key (Some (echo_json event_type pl True None)))
         else bind_s (reads (key_exists (p_workspace_id p) key)) (\<lambda>dup.
           if dup then ret (Duplicate_Item index key)
           else bind_s (lift_r (subscript event ''origin'')) (\<lambda>origin.
             bind_s (lift_r (subscript event ''schema_version'')) (\<lambda>sv.
             bind_s (insert_event p (dep_id dep) event_type origin sv key ts source_ref pl) (\<lambda>_.
               ret (Accepted_Item index key None))))))))))"

definition payload_dict :: "json \<Rightarrow> payload result" where
  "payload_dict j = (case j of JObj p \<Rightarrow> Inr p | _ \<Rightarrow> Inl AttributeError)"

definition check_event ::
  "ingest_env \<Rightarrow> payload \<Rightarrow> int \<Rightarrow> (json \<times> payload \<times> string) result" where
  "check_event env event horizon =
     bind_r (scan_forbidden_fields event) (\<lambda>_.
     bind_r (validate_structure env event) (\<lambda>_.
     bind_r (subscript event ''event_type'') (\<lambda>event_type.
     bind_r (subscript event ''payload'') (\<lambda>pl.
     bind_r (payload_dict pl) (\<lambda>p.
     bind_r (check_timestamp env p horizon) (\<lambda>ts. Inr (event_type, p, ts)))))))"

definition try_event ::
  "ingest_env \<Rightarrow> principal \<Rightarrow> json \<Rightarrow> int \<Rightarrow> string \<Rightarrow> int \<Rightarrow> (sys, item_result) st" where
  "try_event env p event index source_ref horizon =
     (case event of
        JObj ev \<Rightarrow>
          bind_s (lift_r (check_event env ev horizon)) (\<lambda>(event_type, pl, ts).
            store_event env p ev event_type pl ts index source_ref)
      | _ \<Rightarrow> raise (mk_reject ''TF-EVT-003'' ''(root)'' ''event must be an object''))"

section \<open>Rejection\<close>

definition safe_key :: "ingest_env \<Rightarrow> json \<Rightarrow> string option result" where
  "safe_key env event =
     (case event of
        JObj ev \<Rightarrow>
          (case event_key (env_sha256 env)
                  (JStr (py_str (env_float_repr env) (json_get_or ev ''deployment_id'' (JStr []))))
                  (JStr (py_str (env_float_repr env) (json_get_or ev ''event_type'' (JStr []))))
                  (case json_get ev ''payload'' of Some (JObj p) \<Rightarrow> p | _ \<Rightarrow> [])
                  (json_get_or ev ''idempotency_scope'' JNull) of
             Inr k \<Rightarrow> Inr (Some k)
           | Inl e \<Rightarrow> if e \<in> {KeyError, TimestampError, ValueError} then Inr None else Inl e)
      | _ \<Rightarrow> Inr None)"

text \<open>Testing membership in a set hashes the value, which lists and dicts refuse.\<close>

definition maybe_enum :: "json \<Rightarrow> event_type option result" where
  "maybe_enum event_type =
     (case event_type of
        JStr e \<Rightarrow> Inr (map_of event_types e)
      | JList _ \<Rightarrow> Inl TypeError
      | JObj _ \<Rightarrow> Inl TypeError
      | _ \<Rightarrow> Inr None)"

definition quarantine ::
  "ingest_env \<Rightarrow> principal \<Rightarrow> json \<Rightarrow> tf_error \<Rightarrow> string \<Rightarrow> string option \<Rightarrow> (sys, unit) st" where
  "quarantine env p event err source_ref key =
     (let ev = (case event of JObj kvs \<Rightarrow> kvs | _ \<Rightarrow> []) in
      transaction
       (bind_s (lift_r (maybe_enum (json_get_or ev ''event_type'' JNull))) (\<lambda>ety.
        bind_s (lift_r (env_bind_text env (json_get_or ev ''deployment_id'' JNull))) (\<lambda>dep_ref.
          writes (\<lambda>s. s\<lparr>rejected_events := insert_row (\<lambda>i.
            \<lparr>rej_id = i, rej_workspace_id = p_workspace_id p, rej_event_type = ety,
             rej_deployment_ref = dep_ref, rej_event_key = key, rej_error_code = err_code err,
             rej_field_path = err_field_path err,
             rej_source_ref = (if source_ref = [] then None else Some source_ref)\<rparr>)
            (rejected_events s)\<rparr>)))))"

definition reject_event ::
  "ingest_env \<Rightarrow> principal \<Rightarrow> json \<Rightarrow> int \<Rightarrow> string \<Rightarrow> tf_error \<Rightarrow> (sys, item_result) st" where
  "reject_event env p event index source_ref err =
     bind_s (lift_r (safe_key env event)) (\<lambda>rkey.
     bind_s (if is_test p then ret () else quarantine env p event err source_ref rkey) (\<lambda>_.
       ret (Rejected_Item index err
             (case rkey of Some k \<Rightarrow> if k = [] then None else Some k | None \<Rightarrow> None)
             (case event of
                JObj ev \<Rightarrow>
                  (case json_get ev ''payload'' of
                     Some (JObj pl) \<Rightarrow>
                       if is_test p
                       then Some (echo_json (json_get_or ev ''event_type'' (JStr [])) pl False
                              (Some (err_message err)))
                       else None
                   | _ \<Rightarrow> None)
              | _ \<Rightarrow> None))))"

definition process_one ::
  "ingest_env \<Rightarrow> principal \<Rightarrow> json \<Rightarrow> int \<Rightarrow> string \<Rightarrow> int \<Rightarrow> (sys, item_result) st" where
  "process_one env p event index source_ref horizon =
     catch (try_event env p event index source_ref horizon)
       (\<lambda>e. case e of
          RejectExn err \<Rightarrow> Some (reject_event env p event index source_ref err)
        | _ \<Rightarrow> None)"

section \<open>The handlers\<close>

definition MAX_BATCH :: int where "MAX_BATCH = 500"
definition MAX_BODY_BYTES :: int where "MAX_BODY_BYTES = 1048576"

definition workspace_of :: "int \<Rightarrow> sys \<Rightarrow> workspace_row option" where
  "workspace_of ws s = fetch_one (\<lambda>w. ws_id w = ws) (workspaces s)"

definition backfill_horizon :: "int \<Rightarrow> sys \<Rightarrow> int" where
  "backfill_horizon ws s =
     (case workspace_of ws s of None \<Rightarrow> 400 | Some w \<Rightarrow> ws_backfill_horizon_days w)"

definition rate_limit_of :: "int \<Rightarrow> sys \<Rightarrow> int" where
  "rate_limit_of ws s = (case workspace_of ws s of None \<Rightarrow> 600 | Some w \<Rightarrow> ws_rate_limit_rpm w)"

definition parse_batch :: "ingest_env \<Rightarrow> string \<Rightarrow> json list result" where
  "parse_batch env raw =
     (if int (length raw) > MAX_BODY_BYTES
      then Inl (tf_raise ''TF-EVT-007'' None None (Some ''request body exceeds 1 MiB''))
      else case env_loads env (if raw = [] then ''{}'' else raw) of
        None \<Rightarrow> Inl (tf_raise ''TF-EVT-003'' None None (Some ''body is not valid JSON''))
      | Some body \<Rightarrow>
          (case (case body of JObj kvs \<Rightarrow> json_get kvs ''events'' | _ \<Rightarrow> None) of
             Some (JList evs) \<Rightarrow>
               if int (length evs) > MAX_BATCH
               then Inl (tf_raise ''TF-EVT-007'' None None
                      (Some (''batch exceeds '' @ int_str MAX_BATCH @ '' events'')))
               else Inr evs
           | _ \<Rightarrow> Inl (tf_raise ''TF-EVT-003'' (Some ''events'') None (Some ''events[] required''))))"

definition process_batch ::
  "ingest_env \<Rightarrow> principal \<Rightarrow> string \<Rightarrow> int \<Rightarrow> json list \<Rightarrow> (sys, item_result list) st" where
  "process_batch env p source_ref horizon evs =
     for_each (\<lambda>(index, event). process_one env p event (int index) source_ref horizon)
       (enumerate 0 evs)"

definition ingest_events ::
  "ingest_env \<Rightarrow> principal \<Rightarrow> string \<Rightarrow> string \<Rightarrow> (sys, item_result list) st" where
  "ingest_events env p source_ref raw =
     bind_s (lift_r (parse_batch env raw)) (\<lambda>evs.
     bind_s (reads (rate_limit_of (p_workspace_id p))) (\<lambda>rpm.
     bind_s (check_rate (p_workspace_id p) rpm (env_now env)) (\<lambda>_.
     bind_s (query (check_quota (p_workspace_id p) (env_now env))) (\<lambda>_.
     bind_s (reads (backfill_horizon (p_workspace_id p))) (\<lambda>horizon.
       process_batch env p source_ref horizon evs)))))"

record event_status_view =
  st_event_key :: string
  st_status :: string
  st_reason :: "string option"
  st_resolved_person :: "string option"
  st_joined_work_item :: "string option"

text \<open>Quarantined rows carry the time of insertion, so the latest is the last inserted.\<close>

definition event_status :: "principal \<Rightarrow> string \<Rightarrow> sys \<Rightarrow> event_status_view result" where
  "event_status p key s =
     (case latest_by ev_occurred_at
             (select_rows (\<lambda>e. ev_workspace_id e = p_workspace_id p \<and> ev_key e = key) (events s)) of
        Some e \<Rightarrow>
          Inr \<lparr>st_event_key = key, st_status = pipeline_status_str (ev_status e),
               st_reason = map_option exclusion_reason_str (ev_exclusion e),
               st_resolved_person =
                 (case ev_resolved_user_id e of None \<Rightarrow> None
                  | Some u \<Rightarrow> map_option user_ref (fetch_one (\<lambda>r. user_id r = u) (users s))),
               st_joined_work_item =
                 (case ev_work_item_id e of None \<Rightarrow> None
                  | Some w \<Rightarrow> map_option wi_ref (fetch_one (\<lambda>r. wi_id r = w) (work_items s)))\<rparr>
      | None \<Rightarrow>
          (case rev (select_rows (\<lambda>r. rej_workspace_id r = p_workspace_id p \<and> rej_event_key r = Some key)
                      (rejected_events s)) of
             r # _ \<Rightarrow>
               Inr \<lparr>st_event_key = key, st_status = ''rejected'', st_reason = Some (rej_error_code r),
                    st_resolved_person = None, st_joined_work_item = None\<rparr>
           | [] \<Rightarrow> Inl (tf_raise ''TF-READ-001'' None None (Some (''event '' @ key @ '' not found'')))))"

end
