(* ===== verification/IngestSafety.thy ===== *)
theory IngestSafety
  imports Ingest
begin

text \<open>
  What ingestion does to the state: which rows it adds, that it adds nothing else, that
  keys stay unique, that an event is answered alike again, and where a batch is lost.
\<close>

section \<open>The effect of one event\<close>

definition add_event :: "event_row \<Rightarrow> sys \<Rightarrow> sys" where
  "add_event row s = s\<lparr>events := insert_row (\<lambda>_. row) (events s)\<rparr>"

definition add_rejected :: "rejected_row \<Rightarrow> sys \<Rightarrow> sys" where
  "add_rejected row s = s\<lparr>rejected_events := insert_row (\<lambda>_. row) (rejected_events s)\<rparr>"

text \<open>The checks a stored event has passed, and the row it becomes.\<close>

definition accepted_row ::
  "ingest_env \<Rightarrow> principal \<Rightarrow> payload \<Rightarrow> string \<Rightarrow> int \<Rightarrow> sys \<Rightarrow> event_row \<Rightarrow> bool" where
  "accepted_row env p ev source_ref horizon s row \<longleftrightarrow> \<not> is_test p \<and>
     (\<exists>ety org pl ts dep_ref dep key sv when.
        check_event env ev horizon = Inr (JStr (event_type_str ety), pl, ts)
        \<and> subscript ev ''deployment_id'' = Inr dep_ref \<and> resolve_dep env p dep_ref s = Inr dep
        \<and> event_key (env_sha256 env) dep_ref (JStr (event_type_str ety)) pl
            (json_get_or ev ''idempotency_scope'' JNull) = Inr key
        \<and> \<not> key_exists (p_workspace_id p) key s \<and> strptime_ms ts = Inr when
        \<and> row = event_row_of p (dep_id dep) ety org sv key when source_ref pl (tbl_seq (events s)))"

lemma insert_event_Inr:
  "insert_event p dep ety org sv key ts source_ref pl s = (s', Inr u) \<Longrightarrow>
     \<exists>e o' v when. ety = JStr (event_type_str e) \<and> strptime_ms ts = Inr when
       \<and> s' = add_event (event_row_of p dep e o' v key when source_ref pl (tbl_seq (events s))) s"
  by (auto simp: insert_event_def add_event_def insert_row_def event_type_column.parse_iff
      split: json.splits sum.splits option.splits)

lemma store_event_Inl: "store_event env p ev ety pl ts i src s = (s', Inl e) \<Longrightarrow> s' = s"
  by (simp add: store_event_def transaction_Inl_iff)

lemma store_event_Inr:
  assumes "store_event env p ev ety pl ts i src s = (s', Inr x)"
    and "check_event env ev horizon = Inr (ety, pl, ts)"
  shows "s' = s \<and> (\<exists>k echo. x = Duplicate_Item i k \<or> is_test p \<and> x = Accepted_Item i k (Some echo))
    \<or> (\<exists>row. accepted_row env p ev src horizon s row \<and> s' = add_event row s
         \<and> x = Accepted_Item i (ev_key row) None)"
proof -
  obtain dep_ref dep key where d: "subscript ev ''deployment_id'' = Inr dep_ref"
      "resolve_dep env p dep_ref s = Inr dep"
      "event_key (env_sha256 env) dep_ref ety pl (json_get_or ev ''idempotency_scope'' JNull) = Inr key"
    and r: "(if is_test p
         then ret (Accepted_Item i key (Some (echo_json ety pl True None)))
         else bind_s (reads (key_exists (p_workspace_id p) key)) (\<lambda>dup.
           if dup then ret (Duplicate_Item i key)
           else bind_s (lift_r (subscript ev ''origin'')) (\<lambda>origin.
             bind_s (lift_r (subscript ev ''schema_version'')) (\<lambda>sv.
             bind_s (insert_event p (dep_id dep) ety origin sv key ts src pl) (\<lambda>_.
               ret (Accepted_Item i key None)))))) s = (s', Inr x)"
    using assms(1) unfolding store_event_def transaction_Inr_iff bind_s_Inr_iff by fastforce
  show ?thesis
  proof (cases "is_test p \<or> key_exists (p_workspace_id p) key s")
    case True
    with r show ?thesis by (auto split: if_splits)
  next
    case False
    with r obtain org sv t u where "insert_event p (dep_id dep) ety org sv key ts src pl s = (t, Inr u)"
        "s' = t" "x = Accepted_Item i key None"
      by (auto simp: bind_s_Inr_iff)
    with insert_event_Inr [OF this(1)] False d assms(2) show ?thesis
      by (fastforce simp: accepted_row_def event_row_of_def)
  qed
qed

lemma try_event_Inl: "try_event env p event i src hz s = (s', Inl e) \<Longrightarrow> s' = s"
  by (auto simp: try_event_def bind_s_Inl_iff dest: store_event_Inl split: json.splits)

lemma quarantine_cases:
  "quarantine env p event err src key s = (s', r) \<Longrightarrow> s' = s \<and> (\<exists>e. r = Inl e) \<or> (\<exists>rej. s' = add_rejected rej s)"
  by (cases r)
    (auto simp: quarantine_def Let_def transaction_Inl_iff transaction_Inr_iff bind_s_Inr_iff
      add_rejected_def insert_row_def)

lemma reject_event_cases:
  assumes "reject_event env p event i src err s = (s', r)"
  shows "(s' = s \<and> (is_test p \<or> (\<exists>e. r = Inl e)) \<or> \<not> is_test p \<and> (\<exists>rej. s' = add_rejected rej s))
     \<and> (\<forall>x. r = Inr x \<longrightarrow> (\<exists>k echo. x = Rejected_Item i err k echo))"
proof -
  show ?thesis
  proof (cases "safe_key env event")
    case (Inl e)
    with assms show ?thesis by (auto simp: reject_event_def)
  next
    case (Inr k)
    obtain t q where q: "(if is_test p then ret () else quarantine env p event err src k) s = (t, q)"
      by fastforce
    then have t: "is_test p \<and> t = s \<and> q = Inr () \<or> \<not> is_test p \<and>
        (t = s \<and> (\<exists>e. q = Inl e) \<or> (\<exists>rej. t = add_rejected rej s))"
      by (cases "is_test p") (auto dest: quarantine_cases)
    show ?thesis
      using assms Inr q t by (cases q) (auto simp: reject_event_def bind_s_apply)
  qed
qed

text \<open>One event adds one event, or one quarantined row, or nothing.\<close>

lemma process_one_cases:
  assumes "process_one env p event i src hz s = (s', r)"
  shows "s' = s \<and> (is_test p \<or> (\<exists>e. r = Inl e) \<or> (\<exists>k. r = Inr (Duplicate_Item i k)))
    \<or> (\<exists>ev row. event = JObj ev \<and> accepted_row env p ev src hz s row \<and> s' = add_event row s
         \<and> r = Inr (Accepted_Item i (ev_key row) None))
    \<or> (\<not> is_test p \<and> (\<exists>rej. s' = add_rejected rej s))"
proof -
  obtain t q where t: "try_event env p event i src hz s = (t, q)" by fastforce
  show ?thesis
  proof (cases q)
    case (Inl e)
    then have ts: "t = s" using t try_event_Inl by blast
    show ?thesis
    proof (cases "\<exists>err. e = RejectExn err")
      case True
      then obtain err where "e = RejectExn err" ..
      with assms t Inl ts have "reject_event env p event i src err s = (s', r)"
        by (simp add: process_one_def catch_def)
      then show ?thesis using reject_event_cases by blast
    next
      case False
      with assms t Inl ts show ?thesis by (auto simp: process_one_def catch_def split: exn.splits)
    qed
  next
    case (Inr x)
    with assms t have r: "r = Inr x" "s' = t" by (simp_all add: process_one_def catch_def)
    obtain ev where ev: "event = JObj ev"
      using t Inr by (cases event) (auto simp: try_event_def)
    with t Inr obtain ety pl ts where c: "check_event env ev hz = Inr (ety, pl, ts)"
        "store_event env p ev ety pl ts i src s = (t, Inr x)"
      by (auto simp: try_event_def bind_s_Inr_iff)
    from store_event_Inr [OF c(2,1)] ev r show ?thesis by blast
  qed
qed

lemma process_one_after_try:
  "process_one env p event i src hz s =
     (case try_event env p event i src hz s of
        (t, Inr x) \<Rightarrow> (t, Inr x)
      | (t, Inl (RejectExn err)) \<Rightarrow> reject_event env p event i src err t
      | (t, Inl e) \<Rightarrow> (t, Inl e))"
  by (simp add: process_one_def catch_def split: prod.splits sum.splits exn.splits)

section \<open>Example events\<close>

definition ex_env :: ingest_env where
  "ex_env = \<lparr>env_sha256 = id, env_now = 1782892800000000, env_loads = (\<lambda>_. None),
     env_iter_errors = (\<lambda>j. if envelope_valid j then [] else [([], ''invalid'')]),
     env_re_search = (\<lambda>_ _. Inr True),
     env_bind_text = (\<lambda>j. case j of JStr s \<Rightarrow> Inr (Some s) | JNull \<Rightarrow> Inr None | _ \<Rightarrow> Inl DatabaseError),
     env_float_repr = (\<lambda>_. ''0.5'')\<rparr>"

definition ex_principal :: principal where
  "ex_principal = \<lparr>p_api_key_id = 1, p_api_key_ref = ''key_1'', p_workspace_id = 7, p_owner_user_id = 3,
     p_mode = ''production'', p_scope = Workspace_Scope, p_roles = [], p_granted = {}\<rparr>"

definition ex_state :: sys where
  "ex_state = empty_sys\<lparr>workspaces := Table [\<lparr>ws_id = 7, ws_organization_id = 1, ws_environment = ''production'', ws_ref = ''ws_1'',
       ws_name = ''w'', ws_backfill_horizon_days = 400, ws_rate_limit_rpm = 600, ws_rate_limit_epm = 60000\<rparr>] 8,
     deployments := Table [\<lparr>dep_id = 42, dep_workspace_id = 7, dep_type = Agent, dep_status = Dep_Active,
       dep_ref = ''dep_1'', dep_name = ''d'', dep_external_ref = None, dep_mode = Measured,
     dep_planned_rollout = None\<rparr>] 43\<rparr>"

definition ex_envelope :: "string \<Rightarrow> payload \<Rightarrow> payload \<Rightarrow> json" where
  "ex_envelope ety pl extra = JObj ([(''schema_version'', JStr ''1.0''), (''deployment_id'', JStr ''dep_1''),
     (''event_type'', JStr ety), (''origin'', JStr ''customer_system''), (''payload'', JObj pl)] @ extra)"

definition ex_good :: "string \<Rightarrow> json" where
  "ex_good w = ex_envelope ''activity'' (ex_activity ''u1'' w ''2026-07-01T07:30:00Z'') []"

text \<open>A request whose body holds the given events.\<close>

definition ex_request :: "json list \<Rightarrow> ingest_env" where
  "ex_request evs = ex_env\<lparr>env_loads := (\<lambda>_. Some (JObj [(''events'', JList evs)]))\<rparr>"

section \<open>Only valid rows of the caller's tenant are added\<close>

definition validates :: "(json \<Rightarrow> (string list \<times> string) list) \<Rightarrow> bool" where
  "validates iter_errors \<longleftrightarrow> (\<forall>j. iter_errors j = [] \<longleftrightarrow> envelope_valid j)"

text \<open>Tenancy: the deployment is the caller's, granted to its key, and not paused.\<close>

definition tenant_ok :: "principal \<Rightarrow> deployment_row table \<Rightarrow> event_row \<Rightarrow> bool" where
  "tenant_ok p deps row \<longleftrightarrow> \<not> is_test p \<and> ev_workspace_id row = p_workspace_id p
     \<and> require_deployment p (ev_deployment_id row) = Inr ()
     \<and> (\<exists>d \<in> set (tbl_rows deps). dep_id d = ev_deployment_id row
          \<and> dep_workspace_id d = p_workspace_id p \<and> dep_status d \<noteq> Dep_Paused)"

text \<open>
  Contract: the payload is of the row's own family, holds no content and no asserted value,
  and lies in the accepted window of time.
\<close>

definition contract_ok :: "ingest_env \<Rightarrow> int \<Rightarrow> event_row \<Rightarrow> bool" where
  "contract_ok env horizon row \<longleftrightarrow> object_ok (family (ev_type row)) (ev_payload row)
     \<and> list_all (\<lambda>k. k \<noteq> ''content'' \<and> k \<notin> set VALUE_FIELDS) (map fst (ev_payload row))
     \<and> env_now env - horizon * us_per_day \<le> ev_occurred_at row
     \<and> ev_occurred_at row \<le> env_now env + us_per_day
     \<and> ev_status row = Accepted"

definition grows :: "(sys \<Rightarrow> event_row \<Rightarrow> bool) \<Rightarrow> sys \<Rightarrow> sys \<Rightarrow> bool" where
  "grows P s t \<longleftrightarrow> deployments t = deployments s \<and> identifier_namespaces t = identifier_namespaces s
     \<and> (\<exists>new rej hits.
          t = s\<lparr>events := Table (tbl_rows (events s) @ new) (tbl_seq (events s) + int (length new)),
               rejected_events := rej, window_hits := hits\<rparr>
          \<and> list_all (P s) new)"

lemma grows_add_event: "P s row \<Longrightarrow> grows P s (add_event row s)"
  unfolding grows_def
  by (intro conjI exI [of _ "[row]"] exI [of _ "rejected_events s"] exI [of _ "window_hits s"])
    (simp_all add: add_event_def insert_row_def)

lemma grows_add_rejected: "grows P s (add_rejected rej s)"
  unfolding grows_def
  by (intro conjI exI [of _ "[]"] exI [of _ "insert_row (\<lambda>_. rej) (rejected_events s)"]
      exI [of _ "window_hits s"])
    (simp_all add: add_rejected_def)

lemma grows_hits: "grows P s (s\<lparr>window_hits := h\<rparr>)"
  unfolding grows_def
  by (intro conjI exI [of _ "[]"] exI [of _ "rejected_events s"] exI [of _ h]) simp_all

lemma grows_refl: "grows P s s"
  using grows_hits [of P s "window_hits s"] by simp

lemma grows_trans:
  assumes "grows P s t" "grows P t u"
    and "\<And>row. P t row \<Longrightarrow> deployments t = deployments s \<Longrightarrow> P s row"
  shows "grows P s u"
proof -
  obtain new rej hits where t: "t = s\<lparr>events := Table (tbl_rows (events s) @ new)
        (tbl_seq (events s) + int (length new)), rejected_events := rej, window_hits := hits\<rparr>"
      "list_all (P s) new" "deployments t = deployments s"
      "identifier_namespaces t = identifier_namespaces s"
    using assms(1) unfolding grows_def by auto
  obtain new' rej' hits' where u: "u = t\<lparr>events := Table (tbl_rows (events t) @ new')
        (tbl_seq (events t) + int (length new')), rejected_events := rej', window_hits := hits'\<rparr>"
      "list_all (P t) new'"
    using assms(2) unfolding grows_def by auto
  have "list_all (P s) new'" using u(2) assms(3) t(3) by (auto simp: list_all_iff)
  then show ?thesis
    unfolding grows_def u(1) using t
    by (intro conjI exI [of _ "new @ new'"] exI [of _ rej'] exI [of _ hits']) simp_all
qed

text \<open>The relations of the two contracts are evolutions.\<close>

definition grows_tenant :: "principal \<Rightarrow> sys \<Rightarrow> sys \<Rightarrow> bool" where
  "grows_tenant p = grows (\<lambda>s. tenant_ok p (deployments s))"

definition grows_contract :: "ingest_env \<Rightarrow> int \<Rightarrow> sys \<Rightarrow> sys \<Rightarrow> bool" where
  "grows_contract env horizon = grows (\<lambda>_. contract_ok env horizon)"

interpretation tenancy: evolution "grows_tenant p" for p
  by unfold_locales (auto simp: grows_tenant_def intro: grows_refl elim!: grows_trans)

interpretation contract: evolution "grows_contract env horizon" for env horizon
  by unfold_locales (auto simp: grows_contract_def intro: grows_refl elim!: grows_trans)

lemma accepted_row_tenant:
  assumes "accepted_row env p ev src hz s row" shows "tenant_ok p (deployments s) row"
proof -
  obtain dep_ref dep where d: "resolve_dep env p dep_ref s = Inr dep" "\<not> is_test p"
      "ev_deployment_id row = dep_id dep" "ev_workspace_id row = p_workspace_id p"
    using assms by (auto simp: accepted_row_def event_row_of_def)
  then have "(\<exists>r. fetch_one (\<lambda>d. deployment_row.dep_ref d = r \<and> dep_workspace_id d = p_workspace_id p)
        (deployments s) = Some dep)
      \<and> require_deployment p (dep_id dep) = Inr () \<and> dep_status dep \<noteq> Dep_Paused"
    by (auto simp: resolve_dep_def bind_r_Inr_iff split: json.splits option.splits if_splits)
  with d show ?thesis by (auto simp: tenant_ok_def dest!: fetch_one_Some)
qed

lemma check_event_valid:
  assumes "check_event env ev hz = Inr (ety, pl, ts)"
  shows "env_iter_errors env (JObj ev) = []" and "json_get ev ''payload'' = Some (JObj pl)"
    and "check_timestamp env pl hz = Inr ts" and "scan_forbidden_fields ev = Inr ()"
    and "json_get ev ''event_type'' = Some ety"
proof -
  have "sort_key fst (env_iter_errors env (JObj ev)) = [] \<and> json_get ev ''payload'' = Some (JObj pl)
    \<and> check_timestamp env pl hz = Inr ts \<and> scan_forbidden_fields ev = Inr ()
    \<and> json_get ev ''event_type'' = Some ety"
    using assms
    by (auto simp: check_event_def validate_structure_def bind_r_Inr_iff subscript_def payload_dict_def Let_def
        split: list.splits option.splits json.splits)
  moreover have "sort_key fst xs = [] \<Longrightarrow> xs = []" for xs :: "(string list \<times> string) list"
    by (metis length_0_conv length_sort)
  ultimately show "env_iter_errors env (JObj ev) = []" "json_get ev ''payload'' = Some (JObj pl)"
    "check_timestamp env pl hz = Inr ts" "scan_forbidden_fields ev = Inr ()"
    "json_get ev ''event_type'' = Some ety"
    by auto
qed

lemma check_timestamp_window:
  assumes "check_timestamp env pl hz = Inr ts"
  shows "\<exists>when. strptime_ms ts = Inr when \<and> env_now env - hz * us_per_day \<le> when
    \<and> when \<le> env_now env + us_per_day"
  using assms
  by (auto simp: check_timestamp_def Let_def bind_r_Inr_iff days_before_def
      split: sum.splits exn.splits if_splits)

lemma family_no_value:
  "k \<in> fst ` set (snd (family t)) \<Longrightarrow> k \<noteq> ''content'' \<and> k \<notin> set VALUE_FIELDS"
proof -
  have "list_all (\<lambda>k. k \<noteq> ''content'' \<and> k \<notin> set VALUE_FIELDS) (map fst (snd (family t)))"
    by (cases t) (simp_all add: family.simps VALUE_FIELDS_def)
  then show "k \<in> fst ` set (snd (family t)) \<Longrightarrow> k \<noteq> ''content'' \<and> k \<notin> set VALUE_FIELDS"
    by (auto simp: list_all_iff)
qed

lemma object_ok_no_value:
  "object_ok (family t) kvs \<Longrightarrow> list_all (\<lambda>k. k \<noteq> ''content'' \<and> k \<notin> set VALUE_FIELDS) (map fst kvs)"
  unfolding list_all_iff
proof
  fix k
  assume "object_ok (family t) kvs" "k \<in> set (map fst kvs)"
  then have "k \<in> fst ` set (snd (family t))" using object_ok_keys by simp
  then show "k \<noteq> ''content'' \<and> k \<notin> set VALUE_FIELDS" by (rule family_no_value)
qed

lemma accepted_row_contract:
  assumes "accepted_row env p ev src hz s row" "validates (env_iter_errors env)"
  shows "contract_ok env hz row"
proof -
  obtain ety pl ts dep_ref key occ where c: "check_event env ev hz = Inr (JStr (event_type_str ety), pl, ts)"
      "event_key (env_sha256 env) dep_ref (JStr (event_type_str ety)) pl
            (json_get_or ev ''idempotency_scope'' JNull) = Inr key"
      "strptime_ms ts = Inr occ" "ev_type row = ety" "ev_payload row = pl" "ev_occurred_at row = occ"
      "ev_status row = Accepted"
    using assms(1) by (auto simp: accepted_row_def event_row_of_def)
  have "envelope_valid (JObj ev)"
    using check_event_valid(1) [OF c(1)] assms(2) by (simp add: validates_def)
  then have "payload_valid (JObj pl)"
    using envelope_valid_fields(5) check_event_valid(2) [OF c(1)] by fastforce
  then obtain t where "object_ok (family t) pl" using payload_valid_family by blast
  moreover from this have "t = ety"
    by (rule own_field_decides) (rule event_key_own_field [OF c(2)])
  ultimately show ?thesis
    using check_timestamp_window [OF check_event_valid(3) [OF c(1)]] c
    by (auto simp: contract_ok_def object_ok_no_value)
qed

lemma evolves_process_one:
  assumes "\<And>ev row s. accepted_row env p ev src hz s row \<Longrightarrow> P s row"
  shows "evolves (grows P) (process_one env p event i src hz)"
  unfolding evolves_def
proof
  fix s
  obtain s' r where "process_one env p event i src hz s = (s', r)" by fastforce
  with process_one_cases [OF this] assms show "grows P s (fst (process_one env p event i src hz s))"
    by (auto intro: grows_refl grows_add_event grows_add_rejected)
qed

lemma check_rate_grows: "evolves (grows P) (check_rate ws rpm now)"
  by (simp add: evolves_def check_rate_apply grows_hits)

text \<open>
  C10: ingestion is append-only and tenant-safe. Whatever a request sends, and also when it
  ends in an error half way, the only rows it adds to the events are of the caller's
  workspace, on deployments of that workspace which the key may touch and which are not
  paused; no stored event, no other table is changed, and a test key stores nothing.
\<close>

theorem ingest_tenant_safe:
  "grows_tenant p s (fst (ingest_events env p source_ref raw s))"
proof -
  have "evolves (grows_tenant p) (process_one env p event i src hz)" for event i src hz
    unfolding grows_tenant_def by (rule evolves_process_one) (rule accepted_row_tenant)
  moreover have "evolves (grows_tenant p) (check_rate ws rpm now)" for ws rpm now
    unfolding grows_tenant_def by (rule check_rate_grows)
  ultimately have "evolves (grows_tenant p) (ingest_events env p source_ref raw)"
    by (auto simp: ingest_events_def process_batch_def intro!: tenancy.bind tenancy.basic tenancy.loop)
  then show ?thesis by (simp add: evolves_def)
qed

text \<open>
  C23: whatever the validator accepts as the published schema, every stored event conforms
  to the family its type names (not merely to some family), carries no content and no
  asserted value, and happened within the workspace's backfill horizon and at most a day
  ahead of the clock.
\<close>

theorem ingest_contract_safe:
  assumes "validates (env_iter_errors env)"
  shows "grows_contract env (backfill_horizon (p_workspace_id p) s) s
           (fst (ingest_events env p source_ref raw s))"
proof -
  let ?hz = "backfill_horizon (p_workspace_id p) s"
  let ?R = "grows_contract env ?hz"
  obtain s1 r where c: "check_rate (p_workspace_id p) (rate_limit_of (p_workspace_id p) s) (env_now env) s = (s1, r)"
    by fastforce
  then have s1: "s1 = s\<lparr>window_hits := window_hits s1\<rparr>"
    by (auto simp: check_rate_apply)
  then have hz: "backfill_horizon (p_workspace_id p) s1 = ?hz"
    using c by (auto simp: check_rate_apply backfill_horizon_def workspace_of_def)
  have rate: "?R s s1"
    unfolding grows_contract_def by (subst s1) (rule grows_hits)
  have one: "evolves ?R (process_one env p event i src ?hz)" for event i src
    unfolding grows_contract_def by (rule evolves_process_one) (rule accepted_row_contract [OF _ assms])
  have "evolves ?R (process_batch env p source_ref ?hz evs)" for evs
    unfolding process_batch_def by (rule contract.loop) (auto intro: one)
  then have batch: "?R s (fst (process_batch env p source_ref ?hz evs s1))" for evs
    using rate contract.trans unfolding evolves_def by blast
  show ?thesis
    using rate batch c hz
    by (auto simp: ingest_events_def bind_s_apply intro: contract.refl split: sum.splits)
qed

theorem ingest_contract_safe_witness:
  "let t = fst (ingest_events (ex_request [ex_good ''w1'']) ex_principal [] ''x'' ex_state) in
     grows_contract (ex_request [ex_good ''w1'']) (backfill_horizon 7 ex_state) ex_state t
     \<and> length (tbl_rows (events t)) = 1"
proof -
  have v: "validates (env_iter_errors (ex_request [ex_good ''w1'']))"
    by (simp add: validates_def ex_request_def ex_env_def)
  have "length (tbl_rows (events
      (fst (ingest_events (ex_request [ex_good ''w1'']) ex_principal [] ''x'' ex_state)))) = 1"
    by code_simp
  then show ?thesis
    using ingest_contract_safe [OF v, of ex_principal ex_state "[]" "''x''"]
    by (simp add: Let_def ex_principal_def)
qed

section \<open>A key names at most one event\<close>

definition event_id :: "event_row \<Rightarrow> int \<times> string" where
  "event_id e = (ev_workspace_id e, ev_key e)"

definition keeps_keys_unique :: "sys \<Rightarrow> sys \<Rightarrow> bool" where
  "keeps_keys_unique s t \<longleftrightarrow> (unique_key event_id (events s) \<longrightarrow> unique_key event_id (events t))"

interpretation unique_keys: evolution keeps_keys_unique
  by unfold_locales (auto simp: keeps_keys_unique_def)

lemma key_exists_iff: "key_exists ws k s \<longleftrightarrow> (ws, k) \<in> event_id ` set (tbl_rows (events s))"
  by (auto simp: key_exists_def exists_row_def event_id_def)

lemma unique_add_event:
  assumes "\<not> key_exists (ev_workspace_id row) (ev_key row) s"
  shows "keeps_keys_unique s (add_event row s)"
  using assms
  by (auto simp: keeps_keys_unique_def unique_key_def add_event_def table_simps key_exists_iff
      event_id_def)

lemma unique_process_one: "evolves keeps_keys_unique (process_one env p event i src hz)"
  unfolding evolves_def
proof
  fix s
  obtain s' r where "process_one env p event i src hz s = (s', r)" by fastforce
  moreover have "accepted_row env p ev src hz s row \<Longrightarrow> keeps_keys_unique s (add_event row s)" for ev row
    by (rule unique_add_event) (auto simp: accepted_row_def event_row_of_def)
  ultimately show "keeps_keys_unique s (fst (process_one env p event i src hz s))"
    using process_one_cases [of env p event i src hz s s' r] unique_keys.refl
    by (auto simp: keeps_keys_unique_def add_rejected_def)
qed

lemma unique_ingest: "evolves keeps_keys_unique (ingest_events env p source_ref raw)"
proof -
  have "evolves keeps_keys_unique (check_rate ws rpm now)" for ws rpm now
    by (simp add: evolves_def check_rate_apply keeps_keys_unique_def)
  then show ?thesis
    by (auto simp: ingest_events_def process_batch_def
        intro!: unique_keys.bind unique_keys.basic unique_keys.loop unique_process_one)
qed

text \<open>
  The dedup invariant. In every state ingestion can leave, also after an error, no two
  stored events of a workspace share an event key.
\<close>

theorem ingest_keys_unique:
  assumes "unique_key event_id (events s)"
  shows "unique_key event_id (events (fst (ingest_events env p source_ref raw s)))"
  using assms unique_ingest by (simp add: evolves_def keeps_keys_unique_def)

theorem ingest_keys_unique_witness:
  "let t = fst (ingest_events (ex_request [ex_good ''w1'', ex_good ''w1'']) ex_principal [] ''x'' ex_state) in
     unique_key event_id (events t) \<and> length (tbl_rows (events t)) = 1"
proof -
  have u: "unique_key event_id (events ex_state)"
    by (simp add: unique_key_def ex_state_def empty_sys_def table_simps)
  have "length (tbl_rows (events
      (fst (ingest_events (ex_request [ex_good ''w1'', ex_good ''w1'']) ex_principal [] ''x'' ex_state)))) = 1"
    by code_simp
  then show ?thesis
    using ingest_keys_unique [OF u, of "ex_request [ex_good ''w1'', ex_good ''w1'']" ex_principal "[]" "''x''"]
    by (simp add: Let_def)
qed

section \<open>Resending a batch\<close>

text \<open>What a resend answers in place of each first answer.\<close>

fun replayed :: "item_result \<Rightarrow> item_result" where
  "replayed (Accepted_Item i k None) = Duplicate_Item i k"
| "replayed x = x"

definition same_config :: "sys \<Rightarrow> sys \<Rightarrow> bool" where
  "same_config s t \<longleftrightarrow> deployments t = deployments s \<and> identifier_namespaces t = identifier_namespaces s"

definition same_events :: "sys \<Rightarrow> sys \<Rightarrow> bool" where
  "same_events s t \<longleftrightarrow> same_config s t \<and> events t = events s"

definition keys_within :: "sys \<Rightarrow> sys \<Rightarrow> bool" where
  "keys_within s t \<longleftrightarrow> same_config s t \<and> (\<forall>ws k. key_exists ws k s \<longrightarrow> key_exists ws k t)"

interpretation replay_keys: evolution keys_within
  by unfold_locales (auto simp: keys_within_def same_config_def)

lemma same_config_queries:
  assumes "same_config s t"
  shows "resolve_dep env p w t = resolve_dep env p w s"
    and "check_namespaces env ws d pl src t = check_namespaces env ws d pl src s"
proof -
  have "applicable_row t ws d f src = applicable_row s ws d f src" for f
    using assms by (simp add: applicable_row_def same_config_def)
  then have "check_ids env t ws d src fs = check_ids env s ws d src fs" for fs
    by (induction fs) auto
  then show "check_namespaces env ws d pl src t = check_namespaces env ws d pl src s"
    by (simp add: check_namespaces_def)
  show "resolve_dep env p w t = resolve_dep env p w s"
    using assms by (cases w) (simp_all add: resolve_dep_def same_config_def)
qed

lemma keys_within_process_one: "evolves keys_within (process_one env p event i src hz)"
  unfolding evolves_def
proof
  fix s
  obtain s' r where "process_one env p event i src hz s = (s', r)" by fastforce
  from process_one_cases [OF this] this
  show "keys_within s (fst (process_one env p event i src hz s))"
    by (auto simp: keys_within_def same_config_def key_exists_iff add_event_def add_rejected_def table_simps)
qed

text \<open>The outcome before the dedup lookup depends on the configuration only.\<close>

definition prep ::
  "ingest_env \<Rightarrow> principal \<Rightarrow> payload \<Rightarrow> json \<Rightarrow> payload \<Rightarrow> string \<Rightarrow> sys \<Rightarrow> (int \<times> string) result" where
  "prep env p ev ety pl src s =
     bind_r (subscript ev ''deployment_id'') (\<lambda>dep_ref.
     bind_r (resolve_dep env p dep_ref s) (\<lambda>dep.
     bind_r (check_namespaces env (p_workspace_id p) (dep_id dep) pl src s) (\<lambda>_.
     bind_r (event_key (env_sha256 env) dep_ref ety pl (json_get_or ev ''idempotency_scope'' JNull))
       (\<lambda>key. Inr (dep_id dep, key)))))"

definition persist ::
  "principal \<Rightarrow> payload \<Rightarrow> json \<Rightarrow> payload \<Rightarrow> string \<Rightarrow> int \<Rightarrow> string \<Rightarrow> int \<Rightarrow> string \<Rightarrow> (sys, item_result) st" where
  "persist p ev ety pl ts i src dep key =
     bind_s (lift_r (subscript ev ''origin'')) (\<lambda>origin.
     bind_s (lift_r (subscript ev ''schema_version'')) (\<lambda>sv.
     bind_s (insert_event p dep ety origin sv key ts src pl) (\<lambda>_. ret (Accepted_Item i key None))))"

lemma store_event_prep:
  "store_event env p ev ety pl ts i src s =
     (case prep env p ev ety pl src s of
        Inl e \<Rightarrow> (s, Inl e)
      | Inr (dep, key) \<Rightarrow>
          if is_test p then (s, Inr (Accepted_Item i key (Some (echo_json ety pl True None))))
          else if key_exists (p_workspace_id p) key s then (s, Inr (Duplicate_Item i key))
          else transaction (persist p ev ety pl ts i src dep key) s)"
  by (simp add: store_event_def prep_def persist_def bind_r_def bind_s_lift transaction_def
      split: sum.splits)

lemma persist_no_reject: "persist p ev ety pl ts i src dep key s = (t, Inl e) \<Longrightarrow> e \<noteq> RejectExn err"
  by (auto simp: persist_def insert_event_def bind_s_Inl_iff subscript_def
      split: option.splits json.splits sum.splits)

lemma persist_Inr:
  "persist p ev ety pl ts i src dep key s = (t, Inr x) \<Longrightarrow>
     x = Accepted_Item i key None \<and> key_exists (p_workspace_id p) key t"
  by (auto simp: persist_def bind_s_Inr_iff key_exists_def exists_row_def add_event_def table_simps
      event_row_of_def dest!: insert_event_Inr)

lemma prep_same_config: "same_config s t \<Longrightarrow> prep env p ev ety pl src t = prep env p ev ety pl src s"
  by (simp add: prep_def same_config_queries)

lemma store_event_replay:
  assumes "store_event env p ev ety pl ts i src s = (s', Inr x)" "keys_within s' u" "same_config s u"
  shows "store_event env p ev ety pl ts i src u = (u, Inr (replayed x))"
proof -
  have pr: "prep env p ev ety pl src u = prep env p ev ety pl src s"
    using assms(3) by (rule prep_same_config)
  obtain dep key where k: "prep env p ev ety pl src s = Inr (dep, key)"
    using assms(1) by (auto simp: store_event_prep split: sum.splits)
  show ?thesis
  proof (cases "is_test p")
    case True
    with assms(1) pr k show ?thesis by (auto simp: store_event_prep)
  next
    case False
    have "key_exists (p_workspace_id p) key s' \<and> x \<in> {Duplicate_Item i key, Accepted_Item i key None}"
      using assms(1) False k
      by (auto simp: store_event_prep transaction_Inr_iff dest: persist_Inr split: if_splits)
    with False pr k assms(2) show ?thesis by (auto simp: store_event_prep keys_within_def)
  qed
qed

lemma store_event_replay_reject:
  assumes "store_event env p ev ety pl ts i src s = (s', Inl (RejectExn err))" "same_config s u"
  shows "store_event env p ev ety pl ts i src u = (u, Inl (RejectExn err))"
  using assms(1) prep_same_config [OF assms(2)]
  by (auto simp: store_event_prep transaction_Inl_iff dest: persist_no_reject split: sum.splits if_splits)

lemma quarantine_same_events: "quarantine env p event err src key u = (u', r) \<Longrightarrow> same_events u u'"
  using quarantine_cases by (fastforce simp: same_events_def same_config_def add_rejected_def)

lemma quarantine_result: "snd (quarantine env p event err src key u) = snd (quarantine env p event err src key s)"
  by (simp add: quarantine_def Let_def snd_transaction bind_s_lift split: sum.splits)

lemma reject_event_replay:
  assumes "reject_event env p event i src err s = (s', Inr x)"
  shows "\<exists>u'. reject_event env p event i src err u = (u', Inr x) \<and> same_events u u'"
proof -
  obtain k where k: "safe_key env event = Inr k"
    using assms by (cases "safe_key env event") (auto simp: reject_event_def)
  show ?thesis
  proof (cases "is_test p")
    case True
    with assms k show ?thesis by (simp add: reject_event_def same_events_def same_config_def)
  next
    case False
    obtain u' r where q: "quarantine env p event err src k u = (u', r)" by fastforce
    obtain s1 r1 where q1: "quarantine env p event err src k s = (s1, r1)" by fastforce
    have "r = r1" using quarantine_result [of env p event err src k u s] q q1 by simp
    with assms k False q q1 quarantine_same_events [OF q] show ?thesis
      by (cases r1) (auto simp: reject_event_def bind_s_apply)
  qed
qed

lemma replayed_rejected: "reject_event env p event i src err s = (s', Inr x) \<Longrightarrow> replayed x = x"
  using reject_event_cases by (metis replayed.simps(4))

lemma process_one_replay:
  assumes "process_one env p event i src hz s = (s', Inr x)" "keys_within s' u" "same_config s u"
  shows "\<exists>u'. process_one env p event i src hz u = (u', Inr (replayed x)) \<and> same_events u u'"
proof -
  obtain t r where t: "try_event env p event i src hz s = (t, r)" by fastforce
  show ?thesis
  proof (cases r)
    case (Inr y)
    with assms(1) t have y: "y = x" "t = s'" by (simp_all add: process_one_after_try)
    have "try_event env p event i src hz u = (u, Inr (replayed x))"
      using t Inr y assms(2,3)
      by (auto simp: try_event_def bind_s_Inr_iff intro: store_event_replay split: json.splits)
    then show ?thesis by (simp add: process_one_after_try same_events_def same_config_def)
  next
    case (Inl e)
    with assms(1) t obtain err where e: "e = RejectExn err" "reject_event env p event i src err t = (s', Inr x)"
      by (auto simp: process_one_after_try split: exn.splits)
    have "try_event env p event i src hz u = (u, Inl (RejectExn err))"
      using t Inl e assms(3)
      by (auto simp: try_event_def bind_s_Inl_iff bind_s_Inr_iff intro: store_event_replay_reject
          split: json.splits)
    with reject_event_replay [OF e(2)] replayed_rejected [OF e(2)] show ?thesis
      by (simp add: process_one_after_try)
  qed
qed

lemma keys_within_process_batch: "evolves keys_within (process_batch env p src hz evs)"
  unfolding process_batch_def by (rule replay_keys.loop) (auto intro: keys_within_process_one)

section \<open>One answer per event, or none at all\<close>

fun item_index :: "item_result \<Rightarrow> int" where
  "item_index (Accepted_Item i k e) = i"
| "item_index (Duplicate_Item i k) = i"
| "item_index (Rejected_Item i err k e) = i"

lemma try_event_index:
  "try_event env p event i src hz s = (s', Inr x) \<Longrightarrow> item_index x = i"
  by (auto simp: try_event_def bind_s_Inr_iff dest!: store_event_Inr split: json.splits)

lemma reject_event_index: "reject_event env p event i src err s = (s', Inr x) \<Longrightarrow> item_index x = i"
  using reject_event_cases by fastforce

lemma process_one_index: "process_one env p event i src hz s = (s', Inr x) \<Longrightarrow> item_index x = i"
  by (auto simp: process_one_after_try dest: try_event_index reject_event_index
      split: prod.splits sum.splits exn.splits)

lemma for_each_Inr:
  "for_each f xs s = (s', Inr ys) \<Longrightarrow>
     (\<And>x s s' y. f x s = (s', Inr y) \<Longrightarrow> g y = h x) \<Longrightarrow> map g ys = map h xs"
proof (induction xs arbitrary: s ys)
  case Nil
  then show ?case by simp
next
  case (Cons x xs)
  from Cons.prems(1) obtain s1 y zs where "f x s = (s1, Inr y)" "for_each f xs s1 = (s', Inr zs)"
      "ys = y # zs"
    by (auto simp: bind_s_Inr_iff)
  with Cons.IH [OF this(2) Cons.prems(2)] Cons.prems(2) show ?case by auto
qed

text \<open>
  An answered batch answers every event, in order: result \<open>i\<close> carries index \<open>i\<close>, so a
  rejected event does not keep the others from being answered.
\<close>

theorem batch_answers_all:
  assumes "process_batch env p source_ref horizon evs s = (s', Inr rs)"
  shows "map item_index rs = map int [0..<length evs]"
proof -
  have "map item_index rs = map (int \<circ> fst) (enumerate 0 evs)"
    using assms unfolding process_batch_def
    by (rule for_each_Inr) (auto dest: process_one_index)
  then show ?thesis by (simp add: enumerate_eq_zip flip: map_map)
qed

theorem batch_answers_all_witness:
  "(case snd (process_batch ex_env ex_principal [] 400 [ex_good ''w1'', JNull, ex_good ''w2''] ex_state) of
      Inl _ \<Rightarrow> False | Inr rs \<Rightarrow> map item_index rs = [0, 1, 2])"
proof -
  let ?r = "process_batch ex_env ex_principal [] 400 [ex_good ''w1'', JNull, ex_good ''w2''] ex_state"
  have "is_ok (snd ?r)" by code_simp
  then obtain s' rs where r: "?r = (s', Inr rs)" by (cases ?r) (auto simp: is_ok_iff)
  from batch_answers_all [OF r] r show ?thesis by (simp add: upt_rec)
qed

section \<open>What an answer says is stored\<close>

text \<open>The key under which an item was accepted or found again.\<close>

fun item_key :: "item_result \<Rightarrow> string option" where
  "item_key (Accepted_Item i k e) = Some k"
| "item_key (Duplicate_Item i k) = Some k"
| "item_key (Rejected_Item i err k e) = None"

lemma store_event_key:
  assumes "store_event env p ev ety pl ts i src s = (t, Inr x)" "\<not> is_test p"
  shows "\<exists>k. item_key x = Some k \<and> key_exists (p_workspace_id p) k t"
proof -
  obtain dep key where "(bind_s (reads (key_exists (p_workspace_id p) key)) (\<lambda>dup.
      if dup then ret (Duplicate_Item i key)
      else bind_s (lift_r (subscript ev ''origin'')) (\<lambda>origin.
        bind_s (lift_r (subscript ev ''schema_version'')) (\<lambda>sv.
        bind_s (insert_event p dep ety origin sv key ts src pl) (\<lambda>_.
          ret (Accepted_Item i key None)))))) s = (t, Inr x)"
    using assms unfolding store_event_def transaction_Inr_iff bind_s_Inr_iff by fastforce
  then show ?thesis
    by (auto simp: bind_s_Inr_iff key_exists_iff add_event_def event_row_of_def event_id_def table_simps
        dest!: insert_event_Inr split: if_splits)
qed

lemma process_one_key:
  assumes "process_one env p event i src hz s = (t, Inr x)" "\<not> is_test p" "item_key x = Some k"
  shows "key_exists (p_workspace_id p) k t"
proof -
  obtain u q where tr: "try_event env p event i src hz s = (u, q)" by fastforce
  show ?thesis
  proof (cases q)
    case (Inr y)
    with tr assms(1) have y: "y = x" "u = t" by (simp_all add: process_one_def catch_def)
    obtain ev ety pl ts where "store_event env p ev ety pl ts i src s = (t, Inr x)"
      using tr Inr y by (cases event) (auto simp: try_event_def bind_s_Inr_iff)
    from store_event_key [OF this assms(2)] assms(3) show ?thesis by simp
  next
    case (Inl e)
    with tr assms(1) obtain err where "reject_event env p event i src err u = (t, Inr x)"
      by (auto simp: process_one_def catch_def split: exn.splits)
    with reject_event_cases [OF this] assms(3) show ?thesis by auto
  qed
qed

lemma process_batch_keys:
  assumes "\<not> is_test p"
  shows "for_each (\<lambda>(index, event). process_one env p event (int index) src hz) xs s = (t, Inr rs) \<Longrightarrow>
    x \<in> set rs \<Longrightarrow> item_key x = Some k \<Longrightarrow> key_exists (p_workspace_id p) k t"
proof (induction xs arbitrary: s rs)
  case Nil
  then show ?case by simp
next
  case (Cons ie xs)
  let ?f = "\<lambda>(index, event). process_one env p event (int index) src hz"
  obtain u y ys where u: "?f ie s = (u, Inr y)" and rest: "for_each ?f xs u = (t, Inr ys)" and rs: "rs = y # ys"
    using Cons.prems(1) by (auto simp: bind_s_Inr_iff)
  show ?case
  proof (cases "x = y")
    case True
    with u Cons.prems(3) have "key_exists (p_workspace_id p) k u"
      using process_one_key [OF _ assms] by (cases ie) auto
    moreover have "evolves keys_within (for_each ?f xs)"
      by (auto intro!: replay_keys.loop keys_within_process_one)
    then have "keys_within u t" using rest by (rule evolvesD)
    ultimately show ?thesis by (simp add: keys_within_def)
  next
    case False
    with Cons rest rs show ?thesis by auto
  qed
qed

lemma ingest_keys:
  assumes "ingest_events env p src raw s = (t, Inr rs)" "\<not> is_test p" "x \<in> set rs" "item_key x = Some k"
  shows "key_exists (p_workspace_id p) k t"
  using assms(1)
  by (auto simp: ingest_events_def process_batch_def bind_s_Inr_iff
      dest: process_batch_keys [OF assms(2) _ assms(3,4)])

section \<open>Where a batch is lost\<close>

text \<open>Events whose rejection, or whose timestamp, raises an exception nothing catches.\<close>

definition ex_poison :: "(json \<times> exn) list" where
  "ex_poison =
     [(ex_envelope ''activity'' (ex_activity ''u1'' ''w1'' ''2026-07-01T07:30:00Z'')
         [(''idempotency_scope'', JInt 5)], TypeError),
      (ex_envelope ''activity'' (ex_activity ''u1'' ''w1'' ''0001-01-01T00:00:00+01:00'') [], OverflowError),
      (ex_envelope ''activity'' (ex_activity ''u1'' ''w1'' ''0999-01-01T00:00:00Z'') [], ValueError),
      (ex_envelope ''cost_meter'' (ex_activity ''u1'' ''w1'' ''2026-07-01T07:30:00Z'') [], KeyError),
      (JObj [(''event_type'', JList [])], TypeError)]"

text \<open>
  A batch can be lost to one event, against the module's statement that one bad event
  never blocks the rest. Each of these malformed events makes the request fail with an
  exception that is not a rejection; the event before it stays stored although the request
  answers nothing, and the good event after it is never looked at.
\<close>

theorem poison_event_aborts_batch:
  "list_all (\<lambda>(bad, x).
     (case process_batch ex_env ex_principal [] 400 [ex_good ''w1'', bad, ex_good ''w2''] ex_state of
        (s', r) \<Rightarrow> (case r of Inl y \<Rightarrow> y = x | Inr _ \<Rightarrow> False) \<and> length (tbl_rows (events s')) = 1))
     ex_poison
   \<and> (case process_batch ex_env ex_principal [] 400 [ex_good ''w1'', ex_good ''w2''] ex_state of
        (s', r) \<Rightarrow> is_ok r \<and> length (tbl_rows (events s')) = 2)"
  by code_simp

end
