(* ===== verification/Resend.thy ===== *)
theory Resend
  imports IngestSafety
begin

text \<open>
  Sending a batch again, at the same or a later time: what the clock changes about the
  answer of an event, and that a resent batch is a no-op.
\<close>

section \<open>The same event at another time\<close>

text \<open>The same parameters at another time.\<close>

definition at_time :: "int \<Rightarrow> ingest_env \<Rightarrow> ingest_env" where
  "at_time now env = env\<lparr>env_now := now\<rparr>"

text \<open>The instant an event claims, when its payload has a timestamp that parses.\<close>

definition claimed_instant :: "payload \<Rightarrow> int option" where
  "claimed_instant ev =
     (case json_get ev ''payload'' of
        Some (JObj p) \<Rightarrow>
          (case bind_r (canonical_ts (json_get_or p ''timestamp'' JNull)) strptime_ms of
             Inr when \<Rightarrow> Some when
           | Inl _ \<Rightarrow> None)
      | _ \<Rightarrow> None)"

definition within_horizon :: "int \<Rightarrow> int \<Rightarrow> json \<Rightarrow> bool" where
  "within_horizon now hz event =
     (case event of
        JObj ev \<Rightarrow>
          (case claimed_instant ev of
             None \<Rightarrow> True
           | Some when \<Rightarrow> (case days_before now hz of Inl _ \<Rightarrow> False | Inr earliest \<Rightarrow> earliest \<le> when))
      | _ \<Rightarrow> True)"

fun out_of_window :: "item_result \<Rightarrow> bool" where
  "out_of_window (Rejected_Item i err key e) = (err_code err = ''TF-EVT-009'')"
| "out_of_window x = False"

lemma at_time_simps [simp]:
  "env_sha256 (at_time now env) = env_sha256 env" "env_loads (at_time now env) = env_loads env"
  "env_re_search (at_time now env) = env_re_search env" "env_float_repr (at_time now env) = env_float_repr env"
  "env_bind_text (at_time now env) = env_bind_text env" "env_iter_errors (at_time now env) = env_iter_errors env"
  "env_now (at_time now env) = now"
  by (simp_all add: at_time_def)

lemma check_ids_at_time: "check_ids (at_time now env) s ws dep src fs = check_ids env s ws dep src fs"
  by (induction fs) (auto simp: bind_r_def split: option.splits sum.splits)

lemma parts_at_time:
  "resolve_dep (at_time now env) = resolve_dep env" "check_namespaces (at_time now env) = check_namespaces env"
  "safe_key (at_time now env) = safe_key env" "quarantine (at_time now env) = quarantine env"
  "validate_structure (at_time now env) = validate_structure env"
  unfolding fun_eq_iff resolve_dep_def check_namespaces_def check_ids_at_time safe_key_def quarantine_def
      validate_structure_def at_time_simps by (rule allI HOL.refl)+

lemma store_event_at_time: "store_event (at_time now env) = store_event env"
  unfolding fun_eq_iff store_event_def parts_at_time at_time_simps by (rule allI HOL.refl)+

lemma reject_event_at_time: "reject_event (at_time now env) = reject_event env"
  unfolding fun_eq_iff reject_event_def parts_at_time at_time_simps by (rule allI HOL.refl)+

lemma rejected_code: "mk_reject code path reason = RejectExn err \<Longrightarrow> err_code err = code"
  by (auto simp: mk_reject_def mk_tf_error_def get_code_def bind_r_def Let_def split: sum.splits option.splits)

text \<open>
  Later, the checks of an event say what they said before, unless the event was refused for
  its time or has left the horizon since.
\<close>

lemma timestamp_later:
  assumes "env_now env \<le> now"
    and "check_timestamp env p hz = Inr ts \<or> (\<exists>err. check_timestamp env p hz = Inl (RejectExn err) \<and> err_code err \<noteq> ''TF-EVT-009'')"
  shows "check_timestamp (at_time now env) p hz = check_timestamp env p hz
     \<or> (\<exists>e when. check_timestamp (at_time now env) p hz = Inl e
          \<and> bind_r (canonical_ts (json_get_or p ''timestamp'' JNull)) strptime_ms = Inr when
          \<and> (\<forall>earliest. days_before now hz = Inr earliest \<longrightarrow> when < earliest))"
proof (cases "canonical_ts (json_get_or p ''timestamp'' JNull)")
  case (Inl e)
  then show ?thesis by (simp add: check_timestamp_def Let_def)
next
  case ts: (Inr t)
  show ?thesis
  proof (cases "strptime_ms t")
    case (Inl e)
    with ts show ?thesis by (simp add: check_timestamp_def Let_def)
  next
    case moment: (Inr w)
    let ?refused = "\<lambda>reason. Inl (mk_reject ''TF-EVT-009'' ''payload.timestamp'' reason) :: string result"
    have no: "check_timestamp env p hz \<noteq> ?refused reason" for reason
      using assms(2) rejected_code [of "''TF-EVT-009''"] by auto
    have run: "check_timestamp e p hz = (if w > env_now e + us_per_day then ?refused ''timestamp is in the future''
        else bind_r (days_before (env_now e) hz) (\<lambda>a. if w < a
          then ?refused (''timestamp older than backfill horizon ('' @ int_str hz @ ''d)'') else Inr t))" for e
      using ts moment by (simp add: check_timestamp_def Let_def)
    have w: "w \<le> env_now env + us_per_day" using no [of "''timestamp is in the future''"] unfolding run by (rule contrapos_np) simp
    have "\<exists>a. days_before (env_now env) hz = Inr a"
      using assms(2) w unfolding run
      by (cases "days_before (env_now env) hz") (auto simp: days_before_def split: if_splits)
    then obtain a where "days_before (env_now env) hz = Inr a" ..
    with w no [of "''timestamp older than backfill horizon ('' @ int_str hz @ ''d)''"]
    have "check_timestamp env p hz = Inr t" unfolding run by (auto split: if_splits)
    moreover have "\<not> w > now + us_per_day" using w assms(1) by simp
    ultimately show ?thesis using ts moment
      by (cases "days_before now hz") (simp_all add: run)
  qed
qed

lemma check_event_later:
  assumes "env_now env \<le> now"
    and "check_event env ev hz = Inr z \<or> (\<exists>err. check_event env ev hz = Inl (RejectExn err) \<and> err_code err \<noteq> ''TF-EVT-009'')"
  shows "check_event (at_time now env) ev hz = check_event env ev hz
     \<or> (\<exists>e. check_event (at_time now env) ev hz = Inl e \<and> \<not> within_horizon now hz (JObj ev))"
proof (cases "\<exists>ety p. scan_forbidden_fields ev = Inr () \<and> validate_structure env ev = Inr ()
    \<and> json_get ev ''event_type'' = Some ety \<and> json_get ev ''payload'' = Some (JObj p)")
  case True
  then obtain ety p where p: "json_get ev ''payload'' = Some (JObj p)" and c: "check_event e ev hz = bind_r (check_timestamp e p hz) (\<lambda>ts. Inr (ety, p, ts))"
    if "validate_structure e = validate_structure env" for e
    by (fastforce simp: check_event_def subscript_def payload_dict_def)
  have v: "validate_structure (at_time now env) = validate_structure env" by (simp add: parts_at_time)
  obtain ts where "check_timestamp env p hz = Inr ts
      \<or> (\<exists>err. check_timestamp env p hz = Inl (RejectExn err) \<and> err_code err \<noteq> ''TF-EVT-009'')"
    using assms(2) c [OF HOL.refl] by (cases "check_timestamp env p hz") auto
  from timestamp_later [OF assms(1) this] show ?thesis
  proof (elim disjE exE conjE)
    assume "check_timestamp (at_time now env) p hz = check_timestamp env p hz"
    then show ?thesis by (simp add: c v)
  next
    fix e w
    assume "check_timestamp (at_time now env) p hz = Inl e"
      "bind_r (canonical_ts (json_get_or p ''timestamp'' JNull)) strptime_ms = Inr w"
      "\<forall>earliest. days_before now hz = Inr earliest \<longrightarrow> w < earliest"
    then show ?thesis using p
      by (auto simp: c v within_horizon_def claimed_instant_def split: sum.split)
  qed
next
  case False
  then show ?thesis
    by (auto simp: check_event_def parts_at_time bind_r_def subscript_def payload_dict_def split: sum.splits option.splits json.splits)
qed

text \<open>One event sent again later.\<close>

lemma reject_event_code: "reject_event env p event i src err s = (s', Inr x) \<Longrightarrow> \<exists>k e. x = Rejected_Item i err k e"
  using reject_event_cases by fastforce

lemma reject_event_same: "reject_event env p event i src err u = (u', r) \<Longrightarrow> same_events u u'"
  using reject_event_cases by (fastforce simp: same_events_def same_config_def add_rejected_def)

lemma process_one_later:
  assumes "process_one env p event i src hz s = (s', Inr x)" "keys_within s' u" "same_config s u"
    and "env_now env \<le> now" "\<not> out_of_window x" "process_one (at_time now env) p event i src hz u = (u', r)"
  shows "same_events u u' \<and> (within_horizon now hz event \<longrightarrow> r = Inr (replayed x))"
proof -
  obtain v where v: "process_one env p event i src hz u = (v, Inr (replayed x))" "same_events u v"
    using process_one_replay [OF assms(1-3)] by blast
  have kept: "same_events u u' \<and> (within_horizon now hz event \<longrightarrow> r = Inr (replayed x))"
    if "try_event (at_time now env) p event i src hz = try_event env p event i src hz"
    using that v assms(6) unfolding process_one_after_try that reject_event_at_time by simp
  show ?thesis
  proof (cases event)
    case (JObj ev)
    obtain z where first: "check_event env ev hz = Inr z
        \<or> (\<exists>err. check_event env ev hz = Inl (RejectExn err) \<and> err_code err \<noteq> ''TF-EVT-009'')"
      using assms(1,5) unfolding JObj
      by (cases "check_event env ev hz")
        (auto simp: process_one_after_try try_event_def bind_s_lift dest!: reject_event_code split: exn.splits)
    from check_event_later [OF assms(4) first] show ?thesis
    proof (elim disjE exE conjE)
      assume "check_event (at_time now env) ev hz = check_event env ev hz"
      then show ?thesis by (intro kept) (simp add: try_event_def JObj store_event_at_time)
    next
      fix e assume e: "check_event (at_time now env) ev hz = Inl e" "\<not> within_horizon now hz (JObj ev)"
      then have "try_event (at_time now env) p event i src hz u = (u, Inl e)"
        by (simp add: try_event_def JObj bind_s_lift)
      then have "same_events u u'"
        using assms(6) reject_event_same
        by (cases e) (auto simp: process_one_after_try same_events_def same_config_def)
      with e(2) show ?thesis by (simp add: JObj)
    qed
  qed (rule kept, simp add: try_event_def)+
qed

section \<open>The same batch at another time\<close>

lemma for_each_later:
  assumes "for_each f xs s = (s', Inr ys)" "for_each g xs u = (u', r)"
    and "\<And>x. x \<in> set xs \<Longrightarrow> evolves keys_within (f x)"
    and "\<And>x s s' u u' y r. x \<in> set xs \<Longrightarrow> f x s = (s', Inr y) \<Longrightarrow> keys_within s' u \<Longrightarrow> same_config s u \<Longrightarrow>
          \<not> skipped y \<Longrightarrow> g x u = (u', r) \<Longrightarrow> same_events u u' \<and> (stays x \<longrightarrow> r = Inr (replayed y))"
    and "keys_within s' u" "same_config s u" "\<forall>y \<in> set ys. \<not> skipped y"
  shows "same_events u u' \<and> ((\<forall>x \<in> set xs. stays x) \<longrightarrow> r = Inr (map replayed ys))"
  using assms
proof (induction xs arbitrary: s ys u u' r)
  case Nil
  then show ?case by (simp add: same_events_def same_config_def ret_def)
next
  case (Cons x xs)
  from Cons.prems(1) obtain s1 y zs where 1: "f x s = (s1, Inr y)" "for_each f xs s1 = (s', Inr zs)"
      "ys = y # zs"
    by (auto simp: bind_s_Inr_iff)
  have "evolves keys_within (for_each f xs)"
    by (rule replay_keys.loop_on) (auto intro: Cons.prems(3))
  then have w: "keys_within s1 s'" using 1(2) by (rule evolvesD)
  then have wu: "keys_within s1 u" using Cons.prems(5) by (rule replay_keys.trans)
  obtain u1 r1 where g: "g x u = (u1, r1)" by fastforce
  have u1: "same_events u u1" "stays x \<longrightarrow> r1 = Inr (replayed y)"
    using Cons.prems(4) [OF _ 1(1) wu Cons.prems(6) _ g] Cons.prems(7) 1(3) by auto
  have k: "keys_within s' u1" "same_config s1 u1"
    using Cons.prems(5) u1(1) w
    by (auto simp: keys_within_def same_events_def same_config_def key_exists_def)
  show ?case
  proof (cases r1)
    case (Inl e)
    with g u1 Cons.prems(2) show ?thesis by (auto simp: bind_s_apply)
  next
    case (Inr z)
    obtain u2 r2 where rest: "for_each g xs u1 = (u2, r2)" by fastforce
    have "same_events u1 u2 \<and> ((\<forall>x \<in> set xs. stays x) \<longrightarrow> r2 = Inr (map replayed zs))"
    proof (rule Cons.IH [OF 1(2) rest _ _ k])
      show "evolves keys_within (f x)" if "x \<in> set xs" for x using Cons.prems(3) that by simp
      show "same_events u u' \<and> (stays x \<longrightarrow> r = Inr (replayed y))"
        if "x \<in> set xs" "f x s = (s', Inr y)" "keys_within s' u" "same_config s u" "\<not> skipped y" "g x u = (u', r)"
        for x s s' u u' y r
        using Cons.prems(4) [OF _ that(2-6)] that(1) by simp
      show "\<forall>y \<in> set zs. \<not> skipped y" using Cons.prems(7) 1(3) by simp
    qed
    with g u1 Cons.prems(2) rest 1(3) Inr show ?thesis
      by (cases r2) (auto simp: bind_s_apply same_events_def same_config_def)
  qed
qed

text \<open>
  C16: resending is safe. Let a batch be answered and sent again at the same or a later time,
  in any later state with the same configuration that still holds its events. If no event of
  the first sending was refused for its time stamp (\<^verbatim>\<open>TF-EVT-009\<close>: such an event may be
  within the window later, and is stored then), the second sending stores no event, whatever
  becomes of it. If besides no event has fallen behind the horizon meanwhile, it is answered
  exactly as the first, except that what was accepted is now a duplicate under the same key.
\<close>

theorem resend_is_noop:
  assumes "process_batch env p source_ref horizon evs s = (s', Inr rs)"
    and "keys_within s' u" and "same_config s u" and "env_now env \<le> now"
    and "\<forall>x \<in> set rs. \<not> out_of_window x"
    and "process_batch (at_time now env) p source_ref horizon evs u = (u', r)"
  shows "events u' = events u \<and> ((\<forall>e \<in> set evs. within_horizon now horizon e) \<longrightarrow> r = Inr (map replayed rs))"
proof -
  have "same_events u u' \<and> ((\<forall>x \<in> set (enumerate 0 evs). within_horizon now horizon (snd x)) \<longrightarrow> r = Inr (map replayed rs))"
  proof (rule for_each_later [OF assms(1,6) [unfolded process_batch_def], where skipped = out_of_window])
    show "evolves keys_within (case x of (i, e) \<Rightarrow> process_one env p e (int i) source_ref horizon)" for x
      by (cases x) (simp add: keys_within_process_one)
    show "same_events v v' \<and> (within_horizon now horizon (snd x) \<longrightarrow> q = Inr (replayed y))"
      if "(case x of (i, e) \<Rightarrow> process_one env p e (int i) source_ref horizon) w = (w', Inr y)" "keys_within w' v"
        "same_config w v" "\<not> out_of_window y"
        "(case x of (i, e) \<Rightarrow> process_one (at_time now env) p e (int i) source_ref horizon) v = (v', q)"
      for x w w' v v' y q
      using process_one_later [OF _ that(2,3) assms(4) that(4)] that(1,5) by (simp add: case_prod_beta)
  qed (rule assms)+
  moreover have "(\<forall>e \<in> set evs. within_horizon now horizon e) \<longrightarrow> (\<forall>x \<in> set (enumerate 0 evs). within_horizon now horizon (snd x))"
    by (auto simp: enumerate_eq_zip dest: set_zip_rightD)
  ultimately show ?thesis unfolding same_events_def by blast
qed

theorem resend_is_noop_witness:
  "let b = process_batch ex_env ex_principal [] 400 [ex_good ''w1'', JNull] ex_state;
       b' = process_batch (at_time (env_now ex_env + 3600000000) ex_env) ex_principal [] 400 [ex_good ''w1'', JNull] (fst b) in
     events (fst b') = events (fst b) \<and> length (tbl_rows (events (fst b))) = 1
     \<and> (\<exists>rs. snd b = Inr rs \<and> snd b' = Inr (map replayed rs))"
proof -
  let ?evs = "[ex_good ''w1'', JNull]"
  let ?b = "process_batch ex_env ex_principal [] 400 ?evs" and ?now = "env_now ex_env + 3600000000"
  let ?c = "process_batch (at_time ?now ex_env) ex_principal [] 400 ?evs"
  have ok: "length (tbl_rows (events (fst (?b ex_state)))) = 1"
    "case snd (?b ex_state) of Inl _ \<Rightarrow> False | Inr rs \<Rightarrow> list_all (\<lambda>x. \<not> out_of_window x) rs"
    "list_all (within_horizon ?now 400) ?evs"
    by code_simp+
  then obtain s' rs where b: "?b ex_state = (s', Inr rs)" by (cases "?b ex_state") (auto split: sum.splits)
  obtain u' r where c: "?c s' = (u', r)" by fastforce
  have "keys_within ex_state s'" using keys_within_process_batch b by (rule evolvesD)
  then have "same_config ex_state s'" by (simp add: keys_within_def)
  from resend_is_noop [OF b replay_keys.refl this _ _ c] ok b c show ?thesis
    by (auto simp: Let_def list_all_iff)
qed

text \<open>
  The condition on the first sending is needed: an event refused because it lies more than a
  day ahead is stored when the same batch is sent again an hour later.
\<close>

lemma future_event_stored_later:
  "let evs = [ex_envelope ''activity'' (ex_activity ''u1'' ''w1'' ''2026-07-02T08:30:00Z'') []];
       b = process_batch ex_env ex_principal [] 400 evs ex_state;
       b' = process_batch (at_time (env_now ex_env + 3600000000) ex_env) ex_principal [] 400 evs (fst b) in
     tbl_rows (events (fst b)) = [] \<and> length (tbl_rows (events (fst b'))) = 1"
  by code_simp

end
