(* ===== verification/Storage.thy ===== *)
theory Storage
  imports Schema
begin

text \<open>
  Module \<^verbatim>\<open>platform/storage/storage.py\<close>: the interface its clients rely on, and the
  filesystem backend, whose files are the objects of the state.
\<close>

section \<open>The interface\<close>

locale object_store =
  fixes put :: "string \<Rightarrow> string \<Rightarrow> string \<Rightarrow> 's \<Rightarrow> 's"
    and get :: "string \<Rightarrow> string \<Rightarrow> 's \<Rightarrow> string result"
    and present :: "string \<Rightarrow> string \<Rightarrow> 's \<Rightarrow> bool"
  assumes get_put: "get b x (put b x d s) = Inr d"
    and get_put_other: "(b, x) \<noteq> (c, y) \<Longrightarrow> get b x (put c y d s) = get b x s"
    and present_iff: "present b x s \<longleftrightarrow> is_ok (get b x s)"
begin

lemma present_put: "present b x (put c y d s) \<longleftrightarrow> (b, x) = (c, y) \<or> present b x s"
  using get_put get_put_other by (cases "(b, x) = (c, y)") (auto simp: present_iff)

lemma last_put_wins: "get b x (put b x d (put b x d' s)) = Inr d"
  by (rule get_put)

end

section \<open>The filesystem backend\<close>

definition put_object :: "string \<Rightarrow> string \<Rightarrow> string \<Rightarrow> sys \<Rightarrow> sys" where
  "put_object bucket path data s = s\<lparr>objects := (objects s)((bucket, path) \<mapsto> data)\<rparr>"

text \<open>\<^verbatim>\<open>read_bytes\<close> of a file that is not there raises.\<close>

definition get_object :: "string \<Rightarrow> string \<Rightarrow> sys \<Rightarrow> string result" where
  "get_object bucket path s =
     (case objects s (bucket, path) of None \<Rightarrow> Inl FileNotFoundError | Some d \<Rightarrow> Inr d)"

definition object_exists :: "string \<Rightarrow> string \<Rightarrow> sys \<Rightarrow> bool" where
  "object_exists bucket path s = (objects s (bucket, path) \<noteq> None)"

definition signed_upload_url :: "string \<Rightarrow> string \<Rightarrow> int \<Rightarrow> string" where
  "signed_upload_url bucket path expires_s =
     ''tfstore://'' @ bucket @ ''/'' @ path @ ''?mode=upload&expires_s='' @ int_str expires_s"

definition signed_download_url :: "string \<Rightarrow> string \<Rightarrow> int \<Rightarrow> string" where
  "signed_download_url bucket path expires_s =
     ''tfstore://'' @ bucket @ ''/'' @ path @ ''?mode=download&expires_s='' @ int_str expires_s"

interpretation files: object_store put_object get_object object_exists
  by unfold_locales
    (auto simp: put_object_def get_object_def object_exists_def split: option.splits)

end
