(* ===== verification/PyJson.thy ===== *)
theory PyJson
  imports Prelude "HOL-Library.List_Lexorder" "HOL-Library.Char_ord"
begin

text \<open>
  \<^verbatim>\<open>json.dumps\<close> with ASCII escapes, and \<^verbatim>\<open>str.splitlines\<close>. The rendering of a
  float is a parameter.
\<close>

section \<open>json.dumps\<close>

definition hex_char :: "nat \<Rightarrow> char" where
  "hex_char n = (if n < 10 then char_of (48 + n) else char_of (87 + n))"

definition escape_char :: "char \<Rightarrow> string" where
  "escape_char c =
     (let n = of_char c :: nat in
      if n = 34 \<or> n = 92 then [char_of (92 :: nat), c]
      else if n = 10 then [char_of (92 :: nat), CHR ''n'']
      else if n = 13 then [char_of (92 :: nat), CHR ''r'']
      else if n = 9 then [char_of (92 :: nat), CHR ''t'']
      else if n = 12 then [char_of (92 :: nat), CHR ''f'']
      else if n = 8 then [char_of (92 :: nat), CHR ''b'']
      else if n < 32 \<or> 126 < n
        then char_of (92 :: nat) # ''u00'' @ [hex_char (n div 16), hex_char (n mod 16)]
      else [c])"

definition quote :: "string \<Rightarrow> string" where
  "quote s = [CHR 0x22] @ concat (map escape_char s) @ [CHR 0x22]"

text \<open>The separators of the call and whether it sorts keys.\<close>

record dump_style =
  item_separator :: string
  key_separator :: string
  sort_keys :: bool

definition default_style :: dump_style where
  "default_style = \<lparr>item_separator = '', '', key_separator = '': '', sort_keys = False\<rparr>"

definition compact_sorted :: dump_style where
  "compact_sorted = \<lparr>item_separator = '','', key_separator = '':'', sort_keys = True\<rparr>"

fun sort_items :: "json \<Rightarrow> json" where
  "sort_items (JList xs) = JList (map sort_items xs)"
| "sort_items (JObj kvs) = JObj (sort_key fst (map (\<lambda>(k, v). (k, sort_items v)) kvs))"
| "sort_items j = j"

fun dump_json :: "(rat \<Rightarrow> string) \<Rightarrow> dump_style \<Rightarrow> json \<Rightarrow> string"
  and dump_list :: "(rat \<Rightarrow> string) \<Rightarrow> dump_style \<Rightarrow> json list \<Rightarrow> string list"
  and dump_items :: "(rat \<Rightarrow> string) \<Rightarrow> dump_style \<Rightarrow> (string \<times> json) list \<Rightarrow> string list" where
  "dump_json fr st JNull = ''null''"
| "dump_json fr st (JBool b) = (if b then ''true'' else ''false'')"
| "dump_json fr st (JInt n) = int_str n"
| "dump_json fr st (JReal r) = fr r"
| "dump_json fr st (JStr s) = quote s"
| "dump_json fr st (JList xs) = ''['' @ join (item_separator st) (dump_list fr st xs) @ '']''"
| "dump_json fr st (JObj kvs) = ''{'' @ join (item_separator st) (dump_items fr st kvs) @ ''}''"
| "dump_list fr st [] = []"
| "dump_list fr st (x # xs) = dump_json fr st x # dump_list fr st xs"
| "dump_items fr st [] = []"
| "dump_items fr st ((k, v) # kvs) =
     (quote k @ key_separator st @ dump_json fr st v) # dump_items fr st kvs"

definition json_dumps :: "(rat \<Rightarrow> string) \<Rightarrow> dump_style \<Rightarrow> json \<Rightarrow> string" where
  "json_dumps fr st j = dump_json fr st (if sort_keys st then sort_items j else j)"

section \<open>str.splitlines\<close>

definition is_line_break :: "char \<Rightarrow> bool" where
  "is_line_break c =
     (let n = of_char c :: nat in (10 \<le> n \<and> n \<le> 13) \<or> (28 \<le> n \<and> n \<le> 30) \<or> n = 133)"

fun split_acc :: "string \<Rightarrow> string \<Rightarrow> string list" where
  "split_acc cur [] = (if cur = [] then [] else [cur])"
| "split_acc cur [c] = (if is_line_break c then [cur] else [cur @ [c]])"
| "split_acc cur (c # d # cs) =
     (if c = CHR 0x0D \<and> d = CHR 0x0A then cur # split_acc [] cs
      else if is_line_break c then cur # split_acc [] (d # cs)
      else split_acc (cur @ [c]) (d # cs))"

definition splitlines :: "string \<Rightarrow> string list" where
  "splitlines s = split_acc [] s"

text \<open>Text that breaks only at line feeds comes back line by line.\<close>

lemma split_at_break:
  "\<forall>c \<in> set l. \<not> is_line_break c \<Longrightarrow> is_line_break b \<Longrightarrow> b \<noteq> CHR 0x0D \<Longrightarrow>
     split_acc cur (l @ b # rest) = (cur @ l) # split_acc [] rest"
proof (induction l arbitrary: cur)
  case Nil
  then show ?case by (cases rest) auto
next
  case (Cons c l)
  have "\<not> is_line_break c" using Cons.prems by simp
  moreover from this have "c \<noteq> CHR 0x0D" by (auto simp: is_line_break_def)
  ultimately have "split_acc cur ((c # l) @ b # rest) = split_acc (cur @ [c]) (l @ b # rest)"
    by (cases "l @ b # rest") auto
  with Cons show ?case by simp
qed

lemma is_line_break_newline [simp]: "is_line_break (CHR 0x0A)"
  by (simp add: is_line_break_def)

lemma splitlines_lines:
  assumes "\<forall>l \<in> set ls. l \<noteq> [] \<and> (\<forall>c \<in> set l. \<not> is_line_break c)"
  shows "splitlines (concat (map (\<lambda>l. l @ [CHR 0x0A]) ls)) = ls"
  using assms unfolding splitlines_def
  by (induction ls) (auto simp: split_at_break)

end
