(* ===== verification/Imports.thy ===== *)
theory Imports
  imports IngestSafety Storage PyJson
begin

text \<open>
  Module \<^verbatim>\<open>api/routes/imports.py\<close>: the bulk lane. Its worker replays each line of an
  uploaded NDJSON file through \<open>process_one\<close> and leaves a per-line report of the rejects.
\<close>

section \<open>Jobs\<close>

definition UPLOAD_BUCKET :: string where "UPLOAD_BUCKET = ''import-uploads''"
definition ERROR_BUCKET :: string where "ERROR_BUCKET = ''import-error-reports''"

text \<open>The body is a validated \<^verbatim>\<open>ImportCreate\<close>; the reference is freshly drawn.\<close>

definition create_import ::
  "principal \<Rightarrow> string \<Rightarrow> int \<Rightarrow> string option \<Rightarrow> string \<Rightarrow> (sys, (string \<times> json) list) st" where
  "create_import p kind expected_events source_ref import_ref =
     (let upload_path = int_str (p_workspace_id p) @ ''/'' @ import_ref @ ''.ndjson'' in
      bind_s (transaction (writes (\<lambda>s. s\<lparr>import_jobs := insert_row (\<lambda>i.
        \<lparr>imp_id = i, imp_workspace_id = p_workspace_id p, imp_type = kind, imp_status = Queued,
         imp_ref = import_ref, imp_source_ref = source_ref, imp_expected = expected_events,
         imp_received = 0, imp_accepted = 0, imp_duplicate = 0, imp_rejected = 0,
         imp_upload_path = upload_path, imp_error_report_path = None\<rparr>) (import_jobs s)\<rparr>))) (\<lambda>_.
      ret [(''import_id'', JStr import_ref), (''status'', JStr ''queued''),
           (''upload_url'', JStr (signed_upload_url UPLOAD_BUCKET upload_path 86400))]))"

definition import_status :: "principal \<Rightarrow> string \<Rightarrow> sys \<Rightarrow> (string \<times> json) list result" where
  "import_status p import_id s =
     (case fetch_one (\<lambda>j. imp_ref j = import_id \<and> imp_workspace_id j = p_workspace_id p) (import_jobs s) of
        None \<Rightarrow> Inl (tf_raise ''TF-READ-001'' None None (Some (''import '' @ import_id @ '' not found'')))
      | Some j \<Rightarrow>
          Inr [(''import_id'', JStr import_id), (''status'', JStr (import_status_str (imp_status j))),
               (''counts'', JObj [(''received'', JInt (imp_received j)), (''accepted'', JInt (imp_accepted j)),
                  (''duplicates'', JInt (imp_duplicate j)), (''rejected'', JInt (imp_rejected j))]),
               (''error_report_url'',
                  case imp_error_report_path j of
                    None \<Rightarrow> JNull
                  | Some path \<Rightarrow> if path = [] then JNull else JStr (signed_download_url ERROR_BUCKET path 86400))])"

definition job_principal :: "int \<Rightarrow> principal" where
  "job_principal workspace_id =
     \<lparr>p_api_key_id = 0, p_api_key_ref = ''import_worker'', p_workspace_id = workspace_id,
      p_owner_user_id = 1, p_mode = ''production'', p_scope = Workspace_Scope, p_roles = [],
      p_granted = {}\<rparr>"

definition update_job :: "int \<Rightarrow> (import_row \<Rightarrow> import_row) \<Rightarrow> (sys, unit) st" where
  "update_job job_id f =
     transaction (writes (\<lambda>s. s\<lparr>import_jobs := update_rows (\<lambda>j. imp_id j = job_id) f (import_jobs s)\<rparr>))"

definition set_status :: "int \<Rightarrow> import_status \<Rightarrow> (sys, unit) st" where
  "set_status job_id status = update_job job_id (\<lambda>j. j\<lparr>imp_status := status\<rparr>)"

section \<open>The worker\<close>

record import_counts =
  received :: int
  accepted :: int
  duplicate :: int
  rejected :: int

definition finalize ::
  "int \<Rightarrow> import_status \<Rightarrow> import_counts \<Rightarrow> string option \<Rightarrow> (sys, unit) st" where
  "finalize job_id status counts error_report_path =
     update_job job_id (\<lambda>j. j\<lparr>imp_status := status, imp_received := received counts,
       imp_accepted := accepted counts, imp_duplicate := duplicate counts,
       imp_rejected := rejected counts, imp_error_report_path := error_report_path\<rparr>)"

type_synonym progress = "import_counts \<times> string list"

definition count_result :: "ingest_env \<Rightarrow> int \<Rightarrow> item_result \<Rightarrow> progress \<Rightarrow> progress" where
  "count_result env line_no x st =
     (case st of (c, errs) \<Rightarrow>
        (case x of
           Accepted_Item _ _ _ \<Rightarrow> (c\<lparr>accepted := accepted c + 1\<rparr>, errs)
         | Duplicate_Item _ _ \<Rightarrow> (c\<lparr>duplicate := duplicate c + 1\<rparr>, errs)
         | Rejected_Item _ err key _ \<Rightarrow>
             (c\<lparr>rejected := rejected c + 1\<rparr>,
              errs @ [json_dumps (env_float_repr env) default_style
                (JObj [(''line'', JInt line_no), (''event_key'', opt_str key),
                       (''error'', to_error_object err)])])))"

definition import_line ::
  "ingest_env \<Rightarrow> principal \<Rightarrow> string \<Rightarrow> int \<Rightarrow> nat \<times> string \<Rightarrow> progress \<Rightarrow> (sys, progress) st" where
  "import_line env p source_ref horizon numbered st =
     (case numbered of (line_no, line) \<Rightarrow>
        if strip line = [] then ret st
        else
          let st = ((fst st)\<lparr>received := received (fst st) + 1\<rparr>, snd st) in
          case env_loads env line of
            None \<Rightarrow>
              ret ((fst st)\<lparr>rejected := rejected (fst st) + 1\<rparr>,
                   snd st @ [json_dumps (env_float_repr env) default_style
                     (JObj [(''line'', JInt (int line_no)),
                            (''error'', JObj [(''code'', JStr ''TF-EVT-003''),
                                             (''message'', JStr ''line is not valid JSON'')])])])
          | Some event \<Rightarrow>
              bind_s (process_one env p event (int line_no) source_ref horizon) (\<lambda>x.
                ret (count_result env (int line_no) x st)))"

definition no_counts :: import_counts where
  "no_counts = \<lparr>received = 0, accepted = 0, duplicate = 0, rejected = 0\<rparr>"

definition import_lines ::
  "ingest_env \<Rightarrow> principal \<Rightarrow> string \<Rightarrow> int \<Rightarrow> string \<Rightarrow> (sys, progress) st" where
  "import_lines env p source_ref horizon raw =
     fold_s (import_line env p source_ref horizon) (enumerate 0 (splitlines raw)) (no_counts, [])"

definition report_errors :: "import_row \<Rightarrow> string \<Rightarrow> string list \<Rightarrow> (sys, string option) st" where
  "report_errors job import_ref error_lines =
     (if error_lines = [] then ret None
      else let path = int_str (imp_workspace_id job) @ ''/'' @ import_ref @ ''.errors.ndjson'' in
        bind_s (writes (put_object ERROR_BUCKET path (join [CHR 0x0A] error_lines @ [CHR 0x0A])))
          (\<lambda>_. ret (Some path)))"

definition run_import :: "ingest_env \<Rightarrow> string \<Rightarrow> (sys, import_counts) st" where
  "run_import env import_ref =
     bind_s (reads (\<lambda>s. fetch_one (\<lambda>j. imp_ref j = import_ref) (import_jobs s))) (\<lambda>found.
       case found of
         None \<Rightarrow> raise (tf_raise ''TF-READ-001'' None None (Some (''import '' @ import_ref @ '' not found'')))
       | Some job \<Rightarrow>
           bind_s (reads (object_exists UPLOAD_BUCKET (imp_upload_path job))) (\<lambda>uploaded.
           if \<not> uploaded
           then bind_s (set_status (imp_id job) Failed) (\<lambda>_.
             raise (tf_raise ''TF-SRV-001'' None None (Some ''upload not found for import job'')))
           else
             bind_s (set_status (imp_id job) Processing) (\<lambda>_.
             bind_s (reads (backfill_horizon (imp_workspace_id job))) (\<lambda>horizon.
             bind_s (query (get_object UPLOAD_BUCKET (imp_upload_path job))) (\<lambda>raw.
             bind_s (import_lines env (job_principal (imp_workspace_id job))
                       (case imp_source_ref job of None \<Rightarrow> [] | Some r \<Rightarrow> r) horizon raw) (\<lambda>(counts, error_lines).
             bind_s (report_errors job import_ref error_lines) (\<lambda>error_report_path.
             bind_s (finalize (imp_id job)
                       (if rejected counts \<noteq> 0 then Completed_With_Rejects else Completed)
                       counts error_report_path) (\<lambda>_. ret counts))))))))"

section \<open>The counts of a finished job\<close>

lemma fold_s_inv:
  assumes "fold_s f xs acc s = (s', Inr acc')" "I acc"
    and "\<And>x acc s s' acc'. x \<in> set xs \<Longrightarrow> f x acc s = (s', Inr acc') \<Longrightarrow> I acc \<Longrightarrow> I acc'"
  shows "I acc'"
  using assms
proof (induction xs arbitrary: acc s)
  case Nil
  then show ?case by simp
next
  case (Cons x xs)
  from Cons.prems(1) obtain s1 acc1 where "f x acc s = (s1, Inr acc1)" "fold_s f xs acc1 s1 = (s', Inr acc')"
    by (auto simp: bind_s_Inr_iff)
  with Cons.IH [OF this(2)] Cons.prems(2,3) show ?case by (metis list.set_intros)
qed

lemma fold_s_sum:
  assumes "fold_s f xs acc s = (s', Inr acc')"
    and "\<And>x acc s s' acc'. f x acc s = (s', Inr acc') \<Longrightarrow> g acc' = g acc + (m x :: int)"
  shows "g acc' = g acc + sum_list (map m xs)"
  using assms(1)
proof (induction xs arbitrary: acc s)
  case Nil
  then show ?case by simp
next
  case (Cons x xs)
  then obtain s1 acc1 where "f x acc s = (s1, Inr acc1)" "fold_s f xs acc1 s1 = (s', Inr acc')"
    by (auto simp: bind_s_Inr_iff)
  with Cons.IH [OF this(2)] assms(2) [OF this(1)] show ?case by simp
qed

definition balanced :: "progress \<Rightarrow> bool" where
  "balanced st \<longleftrightarrow> received (fst st) = accepted (fst st) + duplicate (fst st) + rejected (fst st)
     \<and> rejected (fst st) = int (length (snd st)) \<and> 0 \<le> accepted (fst st) \<and> 0 \<le> duplicate (fst st)"

lemma count_result_balanced:
  "balanced st \<Longrightarrow> balanced (count_result env n x ((fst st)\<lparr>received := received (fst st) + 1\<rparr>, snd st))"
  by (cases x) (auto simp: count_result_def balanced_def)

lemma import_line_balanced:
  "import_line env p src hz x st s = (s', Inr st') \<Longrightarrow> balanced st \<Longrightarrow> balanced st'"
  by (auto simp: import_line_def Let_def bind_s_Inr_iff intro: count_result_balanced
      split: prod.splits if_splits option.splits) (simp add: balanced_def)

lemma count_result_received: "received (fst (count_result env n x st)) = received (fst st)"
  by (cases st; cases x) (simp_all add: count_result_def)

lemma import_line_received:
  "import_line env p src hz x st s = (s', Inr st') \<Longrightarrow>
     received (fst st') = received (fst st) + (if strip (snd x) = [] then 0 else 1)"
  by (auto simp: import_line_def count_result_received Let_def bind_s_Inr_iff
      split: prod.splits if_splits option.splits)

lemma sum_list_indicator: "sum_list (map (\<lambda>x. if P x then 0 else 1) xs) = int (length (filter (\<lambda>x. \<not> P x) xs))"
  by (induction xs) auto

lemma map_over_enumerate: "map (\<lambda>x. h (snd x)) (enumerate n xs) = map h xs"
  by (induction xs arbitrary: n) auto

lemma import_lines_counts:
  assumes "import_lines env p src hz raw s = (s', Inr st)"
  shows "balanced st" and "received (fst st) = int (length (filter (\<lambda>l. strip l \<noteq> []) (splitlines raw)))"
proof -
  show "balanced st"
  proof (rule fold_s_inv [where I = balanced, OF assms [unfolded import_lines_def]])
    show "balanced (no_counts, [])" by (simp add: balanced_def no_counts_def)
  qed (rule import_line_balanced)
  have "received (fst st) = received (fst (no_counts, [] :: string list))
      + sum_list (map (\<lambda>x. if strip (snd x) = [] then 0 else 1) (enumerate 0 (splitlines raw)))"
    by (rule fold_s_sum [OF assms [unfolded import_lines_def]]) (rule import_line_received)
  also have "map (\<lambda>x. if strip (snd x) = [] then 0 else 1 :: int) (enumerate 0 (splitlines raw))
      = map (\<lambda>l. if strip l = [] then 0 else 1) (splitlines raw)"
    by (rule map_over_enumerate)
  finally show "received (fst st) = int (length (filter (\<lambda>l. strip l \<noteq> []) (splitlines raw)))"
    by (simp only: sum_list_indicator) (simp add: no_counts_def)
qed

lemma evolves_import_lines: "evolves (grows_tenant p) (import_lines env p src hz raw)"
proof -
  have one: "evolves (grows_tenant p) (process_one env p event i src hz)" for event i
    unfolding grows_tenant_def by (rule evolves_process_one) (rule accepted_row_tenant)
  have line: "evolves (grows_tenant p) (import_line env p src hz x st)" for x st
    by (auto simp: import_line_def Let_def split: prod.split option.split
        intro!: tenancy.basic tenancy.bind one)
  show ?thesis unfolding import_lines_def by (rule tenancy.folding) (rule line)
qed

lemma grows_import_jobs: "grows P s t \<Longrightarrow> import_jobs t = import_jobs s \<and> objects t = objects s"
  by (auto simp: grows_def)

definition job_counts :: "import_row \<Rightarrow> import_counts" where
  "job_counts j = \<lparr>received = imp_received j, accepted = imp_accepted j,
     duplicate = imp_duplicate j, rejected = imp_rejected j\<rparr>"

lemma update_job_apply:
  "update_job i f s = (s\<lparr>import_jobs := update_rows (\<lambda>j. imp_id j = i) f (import_jobs s)\<rparr>, Inr ())"
  by (simp add: update_job_def transaction_def)

lemma run_import_Inr:
  assumes "run_import env ref s = (s', Inr c)"
  shows "\<exists>job raw s1 s2 errs path.
    fetch_one (\<lambda>j. imp_ref j = ref) (import_jobs s) = Some job
    \<and> objects s (UPLOAD_BUCKET, imp_upload_path job) = Some raw
    \<and> fst (set_status (imp_id job) Processing s) = s1
    \<and> import_lines env (job_principal (imp_workspace_id job))
        (case imp_source_ref job of None \<Rightarrow> [] | Some r \<Rightarrow> r) (backfill_horizon (imp_workspace_id job) s1) raw s1
        = (s2, Inr (c, errs))
    \<and> (path = None \<longleftrightarrow> errs = [])
    \<and> import_jobs s' = update_rows (\<lambda>j. imp_id j = imp_id job)
        (\<lambda>j. j\<lparr>imp_status := (if rejected c \<noteq> 0 then Completed_With_Rejects else Completed),
           imp_received := received c, imp_accepted := accepted c, imp_duplicate := duplicate c,
           imp_rejected := rejected c, imp_error_report_path := path\<rparr>) (import_jobs s2)"
proof -
  obtain job where job: "fetch_one (\<lambda>j. imp_ref j = ref) (import_jobs s) = Some job"
    using assms by (cases "fetch_one (\<lambda>j. imp_ref j = ref) (import_jobs s)") (auto simp: run_import_def)
  obtain raw where raw: "objects s (UPLOAD_BUCKET, imp_upload_path job) = Some raw"
    using assms job
    by (auto simp: run_import_def object_exists_def bind_s_Inr_iff split: if_splits)
  let ?s1 = "fst (set_status (imp_id job) Processing s)"
  have s1: "set_status (imp_id job) Processing s = (?s1, Inr ())" "objects ?s1 = objects s"
    by (simp_all add: set_status_def update_job_apply)
  obtain s2 c' errs s3 path where l: "import_lines env (job_principal (imp_workspace_id job))
        (case imp_source_ref job of None \<Rightarrow> [] | Some r \<Rightarrow> r) (backfill_horizon (imp_workspace_id job) ?s1) raw ?s1
        = (s2, Inr (c', errs))"
    and p: "report_errors job ref errs s2 = (s3, Inr path)"
    and f: "finalize (imp_id job) (if rejected c' \<noteq> 0 then Completed_With_Rejects else Completed) c' path s3
        = (s', Inr ())" "c' = c"
    using assms job raw s1
    by (auto simp: run_import_def object_exists_def get_object_def bind_s_Inr_iff)
  have "(path = None \<longleftrightarrow> errs = []) \<and> import_jobs s3 = import_jobs s2"
    using p by (auto simp: report_errors_def Let_def put_object_def split: if_splits)
  then show ?thesis
    using job raw l f by (auto simp: finalize_def update_job_apply)
qed

text \<open>
  A finished import accounts for every line. The counts it returns and stores add up,
  cover exactly the lines that are not blank, and decide the job's final status; a reject
  report is attached if and only if something was rejected.
\<close>

theorem import_accounts_for_lines:
  assumes "run_import env ref s = (s', Inr c)"
  shows "received c = accepted c + duplicate c + rejected c \<and>
    (\<exists>job raw j. job \<in> set (tbl_rows (import_jobs s)) \<and> imp_ref job = ref
       \<and> objects s (UPLOAD_BUCKET, imp_upload_path job) = Some raw
       \<and> received c = int (length (filter (\<lambda>l. strip l \<noteq> []) (splitlines raw)))
       \<and> j \<in> set (tbl_rows (import_jobs s')) \<and> imp_id j = imp_id job \<and> job_counts j = c
       \<and> imp_status j = (if rejected c = 0 then Completed else Completed_With_Rejects)
       \<and> (imp_error_report_path j \<noteq> None \<longleftrightarrow> rejected c \<noteq> 0))"
proof -
  obtain job raw s1 s2 errs path where r:
    "fetch_one (\<lambda>j. imp_ref j = ref) (import_jobs s) = Some job"
    "objects s (UPLOAD_BUCKET, imp_upload_path job) = Some raw"
    "fst (set_status (imp_id job) Processing s) = s1"
    "import_lines env (job_principal (imp_workspace_id job))
        (case imp_source_ref job of None \<Rightarrow> [] | Some r \<Rightarrow> r) (backfill_horizon (imp_workspace_id job) s1) raw s1
        = (s2, Inr (c, errs))"
    "path = None \<longleftrightarrow> errs = []"
    "import_jobs s' = update_rows (\<lambda>j. imp_id j = imp_id job)
        (\<lambda>j. j\<lparr>imp_status := (if rejected c \<noteq> 0 then Completed_With_Rejects else Completed),
           imp_received := received c, imp_accepted := accepted c, imp_duplicate := duplicate c,
           imp_rejected := rejected c, imp_error_report_path := path\<rparr>) (import_jobs s2)"
    using run_import_Inr [OF assms] by blast
  have job: "job \<in> set (tbl_rows (import_jobs s))" "imp_ref job = ref"
    using fetch_one_Some [OF r(1)] by auto
  have "import_jobs s2 = import_jobs s1"
    using evolvesD [OF evolves_import_lines r(4)] by (auto simp: grows_tenant_def dest: grows_import_jobs)
  then have "job\<lparr>imp_status := Processing\<rparr> \<in> set (tbl_rows (import_jobs s2))"
    using job(1) r(3) by (auto simp: set_status_def update_job_apply table_simps image_iff)
  moreover have b: "balanced (c, errs)" "received c = int (length (filter (\<lambda>l. strip l \<noteq> []) (splitlines raw)))"
    using import_lines_counts [OF r(4)] by auto
  moreover define j where "j = job\<lparr>imp_status := (if rejected c \<noteq> 0 then Completed_With_Rejects else Completed),
           imp_received := received c, imp_accepted := accepted c, imp_duplicate := duplicate c,
           imp_rejected := rejected c, imp_error_report_path := path\<rparr>"
  ultimately have "j \<in> set (tbl_rows (import_jobs s'))"
    unfolding r(6) table_simps by (auto simp: image_iff intro!: bexI [of _ "job\<lparr>imp_status := Processing\<rparr>"])
  moreover have "job_counts j = c" by (simp add: j_def job_counts_def)
  moreover have "imp_error_report_path j \<noteq> None \<longleftrightarrow> rejected c \<noteq> 0"
    using b r(5) by (auto simp: j_def balanced_def)
  ultimately show ?thesis
    using job r(2) b by (intro conjI exI [of _ job] exI [of _ raw] exI [of _ j])
      (simp_all add: balanced_def j_def)
qed

text \<open>An uploaded file whose lines stand for events.\<close>

definition ex_upload :: "string \<Rightarrow> sys" where
  "ex_upload raw = ex_state\<lparr>import_jobs := Table [\<lparr>imp_id = 1, imp_workspace_id = 7, imp_type = ''backfill'',
       imp_status = Queued, imp_ref = ''imp_1'', imp_source_ref = None, imp_expected = 0, imp_received = 0,
       imp_accepted = 0, imp_duplicate = 0, imp_rejected = 0, imp_upload_path = ''7/imp_1.ndjson'',
       imp_error_report_path = None\<rparr>] 2,
     objects := [(UPLOAD_BUCKET, ''7/imp_1.ndjson'') \<mapsto> raw]\<rparr>"

definition ex_lines :: ingest_env where
  "ex_lines = ex_env\<lparr>env_loads := map_of [(''A'', ex_good ''w1''), (''B'', JNull),
     (''C'', fst (hd ex_poison))]\<rparr>"

theorem import_accounts_for_lines_witness:
  "case run_import ex_lines ''imp_1'' (ex_upload [CHR ''A'', CHR 0x0A, CHR ''A'', CHR 0x0A, CHR ''B'', CHR 0x0A,
        CHR 0x0A, CHR ''?'']) of
     (_, Inl _) \<Rightarrow> False
   | (_, Inr c) \<Rightarrow> received c = accepted c + duplicate c + rejected c \<and> received c = 4 \<and> rejected c = 2"
proof -
  let ?r = "run_import ex_lines ''imp_1'' (ex_upload [CHR ''A'', CHR 0x0A, CHR ''A'', CHR 0x0A, CHR ''B'', CHR 0x0A,
        CHR 0x0A, CHR ''?''])"
  have v: "case snd ?r of Inl _ \<Rightarrow> False | Inr c \<Rightarrow> received c = 4 \<and> rejected c = 2"
    by code_simp
  then obtain s' c where r: "?r = (s', Inr c)" by (cases ?r; cases "snd ?r") auto
  from import_accounts_for_lines [OF r] v r show ?thesis by simp
qed

section \<open>The same validators as the live lane\<close>

text \<open>What a list of answers says: the status of each, and its line of an error report.\<close>

definition answer_field :: "item_result \<Rightarrow> string \<Rightarrow> json" where
  "answer_field x k = (case item_json x of JObj kvs \<Rightarrow> json_get_or kvs k JNull | _ \<Rightarrow> JNull)"

definition answered_as :: "string \<Rightarrow> item_result list \<Rightarrow> item_result list" where
  "answered_as status = filter (\<lambda>x. answer_field x ''status'' = JStr status)"

definition report_line :: "ingest_env \<Rightarrow> item_result \<Rightarrow> string" where
  "report_line env x = json_dumps (env_float_repr env) default_style
     (JObj [(''line'', answer_field x ''index''), (''event_key'', answer_field x ''event_key''),
            (''error'', answer_field x ''error'')])"

definition batch_counts :: "item_result list \<Rightarrow> import_counts" where
  "batch_counts rs = \<lparr>received = int (length rs), accepted = int (length (answered_as ''accepted'' rs)),
     duplicate = int (length (answered_as ''duplicate'' rs)), rejected = int (length (answered_as ''rejected'' rs))\<rparr>"

definition batch_report :: "ingest_env \<Rightarrow> item_result list \<Rightarrow> string list" where
  "batch_report env rs = map (report_line env) (answered_as ''rejected'' rs)"

lemma count_result_answer:
  "count_result env (item_index x) x ((batch_counts rs)\<lparr>received := received (batch_counts rs) + 1\<rparr>, batch_report env rs)
     = (batch_counts (rs @ [x]), batch_report env (rs @ [x]))"
  by (cases x rule: item_json.cases)
    (simp_all add: count_result_def batch_counts_def batch_report_def answered_as_def answer_field_def report_line_def
      echo_field_def json_get_or_def opt_str_def split: option.split)

lemma import_fold_batch:
  assumes "\<forall>l \<in> set ls. strip l \<noteq> [] \<and> env_loads env l = Some (ev l)"
  shows "fold_s (import_line env p src hz) (enumerate n ls) (batch_counts qs, batch_report env qs) s =
    (case for_each (\<lambda>(i, e). process_one env p e (int i) src hz) (enumerate n (map ev ls)) s of
       (t, Inl x) \<Rightarrow> (t, Inl x) | (t, Inr rs) \<Rightarrow> (t, Inr (batch_counts (qs @ rs), batch_report env (qs @ rs))))"
  using assms
proof (induction ls arbitrary: n qs s)
  case Nil
  then show ?case by simp
next
  case (Cons l ls)
  let ?p = "process_one env p (ev l) (int n) src hz s"
  have line: "import_line env p src hz (n, l) st s =
      (case ?p of (t, Inl e) \<Rightarrow> (t, Inl e)
       | (t, Inr x) \<Rightarrow> (t, Inr (count_result env (int n) x ((fst st)\<lparr>received := received (fst st) + 1\<rparr>, snd st))))" for st
    using Cons.prems by (simp add: import_line_def Let_def bind_s_def)
  obtain t r where t: "?p = (t, r)" by fastforce
  show ?case
  proof (cases r)
    case (Inl e)
    with t line show ?thesis by (simp add: bind_s_def)
  next
    case (Inr x)
    with t have "item_index x = int n" by (auto dest: process_one_index)
    then have count: "count_result env (int n) x ((batch_counts qs)\<lparr>received := received (batch_counts qs) + 1\<rparr>, batch_report env qs)
        = (batch_counts (qs @ [x]), batch_report env (qs @ [x]))"
      using count_result_answer [of env x qs] by simp
    show ?thesis using t Inr line count Cons.IH [of "Suc n" "qs @ [x]" t] Cons.prems
      by (simp add: bind_s_apply split: sum.splits prod.splits)
  qed
qed

lemma import_lines_batch:
  assumes "\<forall>l \<in> set (splitlines raw). strip l \<noteq> [] \<and> env_loads env l = Some (ev l)"
  shows "import_lines env p source_ref horizon raw s =
    (case process_batch env p source_ref horizon (map ev (splitlines raw)) s of
       (t, Inl x) \<Rightarrow> (t, Inl x) | (t, Inr rs) \<Rightarrow> (t, Inr (batch_counts rs, batch_report env rs)))"
proof -
  have "(no_counts, []) = (batch_counts [], batch_report env [])"
    by (simp add: no_counts_def batch_counts_def batch_report_def answered_as_def)
  then show ?thesis
    using import_fold_batch [OF assms, of p source_ref horizon 0 "[]"] unfolding append_Nil import_lines_def process_batch_def by simp
qed

text \<open>
  Ingestion looks at a principal's workspace, mode and access only: the worker's own
  principal does what any production key for the whole workspace does.
\<close>

lemma process_one_principal:
  assumes "p_workspace_id p = ws" "is_test p = False" "p_scope p = Workspace_Scope"
  shows "process_one env p = process_one env (job_principal ws)"
proof -
  have "p_workspace_id (job_principal ws) = ws" "is_test (job_principal ws) = False"
    "require_deployment (job_principal ws) = (\<lambda>_. Inr ())" "require_deployment p = (\<lambda>_. Inr ())"
    using assms(3) by (simp_all add: job_principal_def is_test_def require_deployment_def fun_eq_iff)
  note eqs = this assms
  show ?thesis
    unfolding fun_eq_iff process_one_def try_event_def store_event_def reject_event_def quarantine_def resolve_dep_def
      insert_event_def event_row_of_def eqs
    by (rule allI HOL.refl)+
qed

lemma report_errors_apply:
  "report_errors job ref errs s =
     (if errs = [] then (s, Inr None)
      else let path = int_str (imp_workspace_id job) @ ''/'' @ ref @ ''.errors.ndjson'' in
        (put_object ERROR_BUCKET path (join [CHR 0x0A] errs @ [CHR 0x0A]) s, Inr (Some path)))"
  by (simp add: report_errors_def Let_def bind_s_apply)

text \<open>
  C25: the bulk lane is the live lane. Let an import job have an upload whose lines are all
  JSON and not blank. Running it stores and rejects exactly what one batch of the same
  events, from the same source, would if it were posted with any production key for the
  whole workspace while the job is marked as processing (the batch limits of the live lane
  apart). Where that batch would fail, the run fails alike and leaves the same state. Where
  it would be answered, the counts of the run are the numbers of answers with each status,
  and the error report, if there is a reject, lists the index, event key and error of
  exactly the rejected answers, in order.
\<close>

theorem import_same_as_batch:
  assumes "fetch_one (\<lambda>j. imp_ref j = ref) (import_jobs s) = Some job"
    and "objects s (UPLOAD_BUCKET, imp_upload_path job) = Some raw"
    and "\<forall>l \<in> set (splitlines raw). strip l \<noteq> [] \<and> env_loads env l = Some (ev l)"
    and "p_workspace_id p = imp_workspace_id job" and "p_scope p = Workspace_Scope" and "\<not> is_test p"
    and "process_batch env p (case imp_source_ref job of None \<Rightarrow> [] | Some r \<Rightarrow> r) (backfill_horizon (p_workspace_id p) s)
        (map ev (splitlines raw)) (fst (set_status (imp_id job) Processing s)) = (t, q)"
  shows "case q of
      Inl x \<Rightarrow> run_import env ref s = (t, Inl x)
    | Inr rs \<Rightarrow> (\<exists>u. run_import env ref s = (u, Inr (batch_counts rs))
        \<and> events u = events t \<and> rejected_events u = rejected_events t
        \<and> (answered_as ''rejected'' rs \<noteq> [] \<longrightarrow>
             objects u (ERROR_BUCKET, int_str (imp_workspace_id job) @ ''/'' @ ref @ ''.errors.ndjson'')
               = Some (join [CHR 0x0A] (map (report_line env) (answered_as ''rejected'' rs)) @ [CHR 0x0A])))"
proof -
  let ?src = "case imp_source_ref job of None \<Rightarrow> [] | Some r \<Rightarrow> r"
  obtain s1 where s1: "set_status (imp_id job) Processing s = (s1, Inr ())" "objects s1 = objects s"
    "workspaces s1 = workspaces s"
    by (simp add: set_status_def update_job_apply)
  have hz: "backfill_horizon w s1 = backfill_horizon w s" for w by (simp add: backfill_horizon_def workspace_of_def s1(3))
  have "process_one env p = process_one env (job_principal (imp_workspace_id job))"
    using assms(4-6) by (intro process_one_principal) simp_all
  then have batch: "process_batch env (job_principal (imp_workspace_id job)) ?src (backfill_horizon (imp_workspace_id job) s)
      (map ev (splitlines raw)) s1 = (t, q)"
    using assms(4,7) by (simp add: process_batch_def s1(1))
  have lines: "import_lines env (job_principal (imp_workspace_id job)) ?src (backfill_horizon (imp_workspace_id job) s) raw s1
      = (case q of Inl x \<Rightarrow> (t, Inl x) | Inr rs \<Rightarrow> (t, Inr (batch_counts rs, batch_report env rs)))"
    unfolding import_lines_batch [OF assms(3)] batch by simp
  have run: "run_import env ref s = (case q of Inl x \<Rightarrow> (t, Inl x)
      | Inr rs \<Rightarrow> bind_s (report_errors job ref (batch_report env rs)) (\<lambda>path.
          bind_s (finalize (imp_id job) (if rejected (batch_counts rs) \<noteq> 0 then Completed_With_Rejects else Completed)
            (batch_counts rs) path) (\<lambda>_. ret (batch_counts rs))) t)"
    using assms(1,2) lines
    by (cases q) (simp_all add: run_import_def bind_s_apply object_exists_def get_object_def s1 hz)
  show ?thesis
  proof (cases q)
    case (Inl x)
    with run show ?thesis by simp
  next
    case (Inr rs)
    then show ?thesis
      by (auto simp: run report_errors_apply bind_s_apply finalize_def update_job_apply put_object_def batch_report_def Let_def)
  qed
qed

theorem import_same_as_batch_witness:
  "\<exists>t rs u. process_batch ex_lines ex_principal [] 400 [ex_good ''w1'', ex_good ''w1'', JNull]
       (fst (set_status 1 Processing (ex_upload [CHR ''A'', CHR 0x0A, CHR ''A'', CHR 0x0A, CHR ''B'']))) = (t, Inr rs)
     \<and> run_import ex_lines ''imp_1'' (ex_upload [CHR ''A'', CHR 0x0A, CHR ''A'', CHR 0x0A, CHR ''B'']) = (u, Inr (batch_counts rs))
     \<and> batch_counts rs = \<lparr>received = 3, accepted = 1, duplicate = 1, rejected = 1\<rparr> \<and> events u = events t"
proof -
  let ?raw = "[CHR ''A'', CHR 0x0A, CHR ''A'', CHR 0x0A, CHR ''B'']"
  let ?s = "ex_upload ?raw" and ?evs = "[ex_good ''w1'', ex_good ''w1'', JNull]"
  let ?b = "process_batch ex_lines ex_principal [] 400 ?evs (fst (set_status 1 Processing ?s))"
  let ?ev = "\<lambda>l. if l = ''A'' then ex_good ''w1'' else JNull"
  have l: "splitlines ?raw = [''A'', ''A'', ''B'']" "strip ''A'' = ''A''" "strip ''B'' = ''B''" by code_simp+
  obtain job where job: "fetch_one (\<lambda>j. imp_ref j = ''imp_1'') (import_jobs ?s) = Some job" "imp_id job = 1"
    "imp_workspace_id job = 7" "imp_source_ref job = None" "objects ?s (UPLOAD_BUCKET, imp_upload_path job) = Some ?raw"
    by (simp add: ex_upload_def fetch_one_def)
  have lines: "\<forall>l \<in> set (splitlines ?raw). strip l \<noteq> [] \<and> env_loads ex_lines l = Some (?ev l)"
    by (simp add: l ex_lines_def)
  have c: "case snd ?b of Inl _ \<Rightarrow> False | Inr rs \<Rightarrow> batch_counts rs = \<lparr>received = 3, accepted = 1, duplicate = 1, rejected = 1\<rparr>"
    by code_simp
  then obtain t rs where b: "?b = (t, Inr rs)" by (cases ?b; cases "snd ?b") auto
  have hz: "backfill_horizon 7 ?s = 400"
    by (simp add: backfill_horizon_def workspace_of_def ex_upload_def ex_state_def fetch_one_def)
  have p: "p_workspace_id ex_principal = imp_workspace_id job" "p_scope ex_principal = Workspace_Scope" "\<not> is_test ex_principal"
    by (simp_all add: ex_principal_def is_test_def job)
  have "process_batch ex_lines ex_principal (case imp_source_ref job of None \<Rightarrow> [] | Some r \<Rightarrow> r)
      (backfill_horizon (p_workspace_id ex_principal) ?s) (map ?ev (splitlines ?raw))
      (fst (set_status (imp_id job) Processing ?s)) = (t, Inr rs)"
    using b by (simp add: job p hz l)
  from import_same_as_batch [OF job(1,5) lines p this] c b show ?thesis by auto
qed

text \<open>
  Two ways in which a legal upload goes wrong. A record with the character U+0085
  inside a string, which JSON allows unescaped, is split in two lines that do not parse, so
  one event becomes two rejects. And an event whose rejection raises leaves its job in
  \<open>Processing\<close> with no counts, although the events before it are stored.
\<close>

theorem import_line_faults:
  "(\<forall>a b. strip a \<noteq> [] \<and> strip b \<noteq> [] \<and> list_all (\<lambda>c. \<not> is_line_break c) (a @ b)
       \<and> env_loads env a = None \<and> env_loads env b = None \<longrightarrow>
     (\<exists>errs. import_lines env p source_ref horizon (a @ [CHR 0x85] @ b @ [CHR 0x0A]) s =
       (s, Inr (\<lparr>received = 2, accepted = 0, duplicate = 0, rejected = 2\<rparr>, errs))))
   \<and> (case run_import ex_lines ''imp_1'' (ex_upload [CHR ''A'', CHR 0x0A, CHR ''C'']) of
        (t, r) \<Rightarrow> \<not> is_ok r \<and> length (tbl_rows (events t)) = 1
          \<and> map imp_status (tbl_rows (import_jobs t)) = [Processing])"
proof (intro conjI allI impI)
  fix a b
  assume *: "strip a \<noteq> [] \<and> strip b \<noteq> [] \<and> list_all (\<lambda>c. \<not> is_line_break c) (a @ b)
       \<and> env_loads env a = None \<and> env_loads env b = None"
  have "a \<noteq> []" "b \<noteq> []" using * by (auto simp: strip_def)
  then have "splitlines (a @ [CHR 0x85] @ b @ [CHR 0x0A]) = [a, b]"
    using * by (simp add: splitlines_def split_at_break list_all_iff is_line_break_def)
  then show "\<exists>errs. import_lines env p source_ref horizon (a @ [CHR 0x85] @ b @ [CHR 0x0A]) s =
       (s, Inr (\<lparr>received = 2, accepted = 0, duplicate = 0, rejected = 2\<rparr>, errs))"
    using * by (simp add: import_lines_def import_line_def no_counts_def bind_s_apply)
next
  show "case run_import ex_lines ''imp_1'' (ex_upload [CHR ''A'', CHR 0x0A, CHR ''C'']) of
        (t, r) \<Rightarrow> \<not> is_ok r \<and> length (tbl_rows (events t)) = 1
          \<and> map imp_status (tbl_rows (import_jobs t)) = [Processing]"
    by code_simp
qed

theorem import_line_faults_witness:
  "\<exists>errs. import_lines ex_env ex_principal [] 400 (''{a'' @ [CHR 0x85] @ ''b}'' @ [CHR 0x0A]) ex_state =
     (ex_state, Inr (\<lparr>received = 2, accepted = 0, duplicate = 0, rejected = 2\<rparr>, errs))"
proof (rule import_line_faults [THEN conjunct1, rule_format], intro conjI)
  show "strip ''{a'' \<noteq> []" "strip ''b}'' \<noteq> []" "list_all (\<lambda>c. \<not> is_line_break c) (''{a'' @ ''b}'')"
    by code_simp+
  show "env_loads ex_env ''{a'' = None" "env_loads ex_env ''b}'' = None" by (simp_all add: ex_env_def)
qed

end
