(* ===== verification/Secretbox.thy ===== *)
theory Secretbox
  imports Prelude
begin

text \<open>
  Module \<^verbatim>\<open>platform/security/secretbox.py\<close>: the recoverable encryption of webhook
  secrets. Bytes are characters. The digests are parameters: \<open>sha256\<close> is
  \<^verbatim>\<open>hashlib.sha256(..).digest()\<close> and \<open>hmac256\<close> takes the key and the message of
  \<^verbatim>\<open>hmac.new(.., sha256).digest()\<close>. The base-64 decoder is the lenient one of the
  standard library, which skips characters outside its alphabet.
\<close>

section \<open>Text and bytes\<close>

definition utf8_char :: "char \<Rightarrow> string" where
  "utf8_char c =
     (let n = of_char c :: nat in
      if n < 128 then [c] else [char_of (192 + n div 64), char_of (128 + n mod 64)])"

definition utf8_encode :: "string \<Rightarrow> string" where
  "utf8_encode s = concat (map utf8_char s)"

text \<open>Strict decoding, on the code points of the model.\<close>

fun utf8_decode :: "string \<Rightarrow> string result" where
  "utf8_decode [] = Inr []"
| "utf8_decode [c] = (if (of_char c :: nat) < 128 then Inr [c] else Inl ValueError)"
| "utf8_decode (c # d # cs) =
     (let n = of_char c :: nat; m = of_char d :: nat in
      if n < 128 then bind_r (utf8_decode (d # cs)) (\<lambda>r. Inr (c # r))
      else if (n = 194 \<or> n = 195) \<and> 128 \<le> m \<and> m < 192
      then bind_r (utf8_decode cs) (\<lambda>r. Inr (char_of ((n - 192) * 64 + (m - 128)) # r))
      else Inl ValueError)"

fun byte_xor :: "char \<Rightarrow> char \<Rightarrow> char" where
  "byte_xor (Char a0 a1 a2 a3 a4 a5 a6 a7) (Char b0 b1 b2 b3 b4 b5 b6 b7) =
     Char (a0 \<noteq> b0) (a1 \<noteq> b1) (a2 \<noteq> b2) (a3 \<noteq> b3) (a4 \<noteq> b4) (a5 \<noteq> b5) (a6 \<noteq> b6) (a7 \<noteq> b7)"

definition xor_bytes :: "string \<Rightarrow> string \<Rightarrow> string" where
  "xor_bytes xs ks = map (\<lambda>(b, k). byte_xor b k) (zip xs ks)"

section \<open>Base 64\<close>

definition sextet_char :: "nat \<Rightarrow> char" where
  "sextet_char v =
     (if v < 26 then char_of (65 + v) else if v < 52 then char_of (71 + v)
      else if v < 62 then char_of (v - 4) else if v = 62 then CHR ''-'' else CHR ''_'')"

definition char_sextet :: "char \<Rightarrow> nat option" where
  "char_sextet c =
     (let n = of_char c :: nat in
      if 65 \<le> n \<and> n \<le> 90 then Some (n - 65)
      else if 97 \<le> n \<and> n \<le> 122 then Some (n - 71)
      else if 48 \<le> n \<and> n \<le> 57 then Some (n + 4)
      else if c = CHR ''-'' \<or> c = CHR ''+'' then Some 62
      else if c = CHR ''_'' \<or> c = CHR ''/'' then Some 63
      else None)"

definition byte_val :: "char \<Rightarrow> nat" where
  "byte_val c = of_char c"

fun b64_encode :: "string \<Rightarrow> string" where
  "b64_encode [] = []"
| "b64_encode [a] =
     map sextet_char [byte_val a div 4, byte_val a mod 4 * 16] @ ''==''"
| "b64_encode [a, b] =
     map sextet_char [byte_val a div 4, byte_val a mod 4 * 16 + byte_val b div 16,
       byte_val b mod 16 * 4] @ ''=''"
| "b64_encode (a # b # c # cs) =
     map sextet_char [byte_val a div 4, byte_val a mod 4 * 16 + byte_val b div 16,
       byte_val b mod 16 * 4 + byte_val c div 64, byte_val c mod 64] @ b64_encode cs"

text \<open>
  The state of the decoder: position in the group of four, bits left over, padding
  characters seen. It stops at complete padding and fails on an incomplete group.
\<close>

fun b64_decode_from :: "nat \<Rightarrow> nat \<Rightarrow> nat \<Rightarrow> string \<Rightarrow> string result" where
  "b64_decode_from pos left pads [] = (if pos = 0 then Inr [] else Inl ValueError)"
| "b64_decode_from pos left pads (c # cs) =
     (if c = CHR ''='' then
        (if 2 \<le> pos \<and> 4 \<le> pos + (pads + 1) then Inr []
         else b64_decode_from pos left (if 2 \<le> pos then pads + 1 else pads) cs)
      else case char_sextet c of
        None \<Rightarrow> b64_decode_from pos left pads cs
      | Some v \<Rightarrow>
          (if pos = 0 then b64_decode_from 1 v 0 cs
           else if pos = 1
           then bind_r (b64_decode_from 2 (v mod 16) 0 cs) (\<lambda>r. Inr (char_of (left * 4 + v div 16) # r))
           else if pos = 2
           then bind_r (b64_decode_from 3 (v mod 4) 0 cs) (\<lambda>r. Inr (char_of (left * 16 + v div 4) # r))
           else bind_r (b64_decode_from 0 0 0 cs) (\<lambda>r. Inr (char_of (left * 64 + v) # r))))"

definition b64_decode :: "string \<Rightarrow> string result" where
  "b64_decode s = b64_decode_from 0 0 0 (utf8_encode s)"

section \<open>The cipher\<close>

text \<open>The key comes from the environment variable \<^verbatim>\<open>TF_SECRET_KEY\<close>, unset or empty meaning the default.\<close>

definition secret_key :: "(string \<Rightarrow> string) \<Rightarrow> string option \<Rightarrow> string" where
  "secret_key sha256 setting =
     sha256 (utf8_encode (case setting of None \<Rightarrow> ''tf-dev-secret-key''
       | Some s \<Rightarrow> if s = [] then ''tf-dev-secret-key'' else s))"

definition be4 :: "nat \<Rightarrow> string" where
  "be4 n = [char_of (n div 16777216 mod 256), char_of (n div 65536 mod 256),
            char_of (n div 256 mod 256), char_of (n mod 256)]"

text \<open>The counter is written in four bytes, so the loop ends at \<open>2 ^ 32\<close> blocks at the latest.\<close>

function keystream_loop ::
  "(string \<Rightarrow> string) \<Rightarrow> string \<Rightarrow> nat \<Rightarrow> string \<Rightarrow> nat \<Rightarrow> string result" where
  "keystream_loop mac nonce len out counter =
     (if length out < len then
        (if 2 ^ 32 \<le> counter then Inl OverflowError
         else keystream_loop mac nonce len (out @ mac (nonce @ be4 counter)) (counter + 1))
      else Inr (take len out))"
  by auto
termination
  by (relation "measure (\<lambda>(mac, nonce, len, out, counter). 2 ^ 32 - counter)") auto

declare keystream_loop.simps [simp del]

definition keystream :: "(string \<Rightarrow> string) \<Rightarrow> string \<Rightarrow> nat \<Rightarrow> string result" where
  "keystream mac nonce len = keystream_loop mac nonce len [] 0"

definition encrypt ::
  "(string \<Rightarrow> string) \<Rightarrow> (string \<Rightarrow> string \<Rightarrow> string) \<Rightarrow> string option \<Rightarrow> string \<Rightarrow> string result" where
  "encrypt sha256 hmac256 setting plaintext =
     (let data = utf8_encode plaintext;
          key = secret_key sha256 setting;
          nonce = take 8 (sha256 (data @ key))
      in bind_r (keystream (hmac256 key) nonce (length data)) (\<lambda>ks.
           Inr (''enc1:'' @ b64_encode (nonce @ xor_bytes data ks))))"

definition decrypt ::
  "(string \<Rightarrow> string) \<Rightarrow> (string \<Rightarrow> string \<Rightarrow> string) \<Rightarrow> string option \<Rightarrow> string \<Rightarrow> string result" where
  "decrypt sha256 hmac256 setting token =
     (if \<not> starts_with token ''enc1:'' then Inl ValueError
      else bind_r (b64_decode (drop 5 token)) (\<lambda>blob.
        let nonce = take 8 blob; ct = drop 8 blob in
        bind_r (keystream (hmac256 (secret_key sha256 setting)) nonce (length ct)) (\<lambda>ks.
          utf8_decode (xor_bytes ct ks))))"

section \<open>Decoding inverts encoding\<close>

lemma byte_val_less: "byte_val c < 256"
  by (simp add: byte_val_def)

lemma char_of_byte_val [simp]: "char_of (byte_val c) = c"
  by (simp add: byte_val_def)

lemma byte_val_char_of [simp]: "byte_val (char_of n) = n mod 256"
  by (simp add: byte_val_def)

lemma utf8_decode_char:
  "utf8_decode (utf8_char c @ cs) = bind_r (utf8_decode cs) (\<lambda>r. Inr (c # r))"
proof (cases "byte_val c < 128")
  case True
  then show ?thesis by (cases cs) (simp_all add: utf8_char_def byte_val_def)
next
  case False
  have "byte_val c < 256" by (rule byte_val_less)
  then have d: "byte_val c div 64 = 2 \<or> byte_val c div 64 = 3" using False by auto
  have e: "byte_val c div 64 * 64 + byte_val c mod 64 = byte_val c" by simp
  have m: "byte_val c mod 64 < 64" by simp
  have u: "utf8_char c = [char_of (192 + byte_val c div 64), char_of (128 + byte_val c mod 64)]"
    using False by (simp add: utf8_char_def byte_val_def Let_def)
  from d show ?thesis
  proof
    assume h: "byte_val c div 64 = 2"
    have "char_of (128 + byte_val c mod 64) = c"
      using e h char_of_byte_val [of c] by (simp del: char_of_byte_val)
    moreover have "utf8_decode (utf8_char c @ cs)
        = bind_r (utf8_decode cs) (\<lambda>r. Inr (char_of (128 + byte_val c mod 64) # r))"
      using m unfolding u h by (simp add: Let_def)
    ultimately show ?thesis by simp
  next
    assume h: "byte_val c div 64 = 3"
    have "char_of (192 + byte_val c mod 64) = c"
      using e h char_of_byte_val [of c] by (simp del: char_of_byte_val)
    moreover have "utf8_decode (utf8_char c @ cs)
        = bind_r (utf8_decode cs) (\<lambda>r. Inr (char_of (192 + byte_val c mod 64) # r))"
      using m unfolding u h by (simp add: Let_def)
    ultimately show ?thesis by simp
  qed
qed

lemma utf8_roundtrip: "utf8_decode (utf8_encode s) = Inr s"
  unfolding utf8_encode_def by (induction s) (simp_all add: utf8_decode_char)

lemma utf8_ascii: "\<forall>c \<in> set s. byte_val c < 128 \<Longrightarrow> utf8_encode s = s"
  unfolding utf8_encode_def by (induction s) (simp_all add: utf8_char_def byte_val_def)

lemma sextet_val:
  "v < 64 \<Longrightarrow> byte_val (sextet_char v) =
     (if v < 26 then 65 + v else if v < 52 then 71 + v else if v < 62 then v - 4
      else if v = 62 then 45 else 95)"
  by (auto simp: sextet_char_def byte_val_def)

lemma char_sextet_val:
  "char_sextet c =
     (let n = byte_val c in
      if 65 \<le> n \<and> n \<le> 90 then Some (n - 65)
      else if 97 \<le> n \<and> n \<le> 122 then Some (n - 71)
      else if 48 \<le> n \<and> n \<le> 57 then Some (n + 4)
      else if n = 45 \<or> n = 43 then Some 62
      else if n = 95 \<or> n = 47 then Some 63
      else None)"
proof -
  have "c = d \<longleftrightarrow> byte_val c = byte_val d" for d
    by (metis char_of_byte_val)
  from this [of "CHR ''-''"] this [of "CHR ''+''"] this [of "CHR ''_''"] this [of "CHR ''/''"]
  show ?thesis by (simp add: char_sextet_def byte_val_def Let_def)
qed

lemma sextet_simps [simp]:
  assumes "v < 64"
  shows "char_sextet (sextet_char v) = Some v" "sextet_char v \<noteq> CHR ''=''"
    "byte_val (sextet_char v) < 128"
proof -
  note val = sextet_val [OF assms]
  show "char_sextet (sextet_char v) = Some v"
    using assms unfolding char_sextet_val val Let_def by (cases "v < 26"; cases "v < 52"; cases "v < 62") auto
  show "byte_val (sextet_char v) < 128" using assms unfolding val by auto
  have "byte_val (sextet_char v) \<noteq> 61" using assms unfolding val by auto
  moreover have "byte_val (CHR ''='') = 61" by (simp add: byte_val_def)
  ultimately show "sextet_char v \<noteq> CHR ''=''" by metis
qed

lemma sextet_bounds [simp]:
  "byte_val a div 4 < 64" "byte_val a mod 4 * 16 < 64" "byte_val b mod 16 * 4 < 64" "byte_val c mod 64 < 64"
  "byte_val a mod 4 * 16 + byte_val b div 16 < 64" "byte_val b mod 16 * 4 + byte_val c div 64 < 64"
  using byte_val_less [of a] byte_val_less [of b] byte_val_less [of c] by (auto simp: less_mult_imp_div_less)

lemma high_bits [simp]:
  "byte_val b div 16 div 16 = 0" "byte_val b div 16 mod 16 = byte_val b div 16"
  "byte_val c div 64 div 4 = 0" "byte_val c div 64 mod 4 = byte_val c div 64"
proof -
  have "byte_val b div 16 < 16" "byte_val c div 64 < 4"
    using byte_val_less [of b] byte_val_less [of c] by (auto simp: less_mult_imp_div_less)
  then show "byte_val b div 16 div 16 = 0" "byte_val b div 16 mod 16 = byte_val b div 16"
    "byte_val c div 64 div 4 = 0" "byte_val c div 64 mod 4 = byte_val c div 64"
    by auto
qed

lemma b64_ascii: "c \<in> set (b64_encode s) \<Longrightarrow> byte_val c < 128"
  by (induction s rule: b64_encode.induct) (auto simp: byte_val_def [of "CHR ''=''"])

lemma b64_decode_from_encode: "b64_decode_from 0 0 0 (b64_encode s) = Inr s"
proof (induction s rule: b64_encode.induct)
  case 1
  then show ?case by simp
next
  case (2 a)
  then show ?case by simp
next
  case (3 a b)
  then show ?case by simp
next
  case (4 a b c cs)
  then show ?case by simp
qed

lemma b64_roundtrip: "b64_decode (b64_encode s) = Inr s"
  unfolding b64_decode_def using b64_ascii by (simp add: utf8_ascii b64_decode_from_encode)

section \<open>Decryption inverts encryption\<close>

lemma byte_xor_cancel: "byte_xor (byte_xor b k) k = b"
  by (cases b; cases k) auto

lemma xor_bytes_cancel: "length ks = length xs \<Longrightarrow> xor_bytes (xor_bytes xs ks) ks = xs"
  unfolding xor_bytes_def
  by (induction xs ks rule: list_induct2') (auto simp: byte_xor_cancel)

lemma length_xor_bytes [simp]: "length (xor_bytes xs ks) = min (length xs) (length ks)"
  by (simp add: xor_bytes_def)

lemma keystream_loop_total:
  assumes "\<forall>m. length (mac m) = 32" "len \<le> length out + 32 * (2 ^ 32 - counter)"
  shows "\<exists>ks. keystream_loop mac nonce len out counter = Inr ks \<and> length ks = len"
  using assms
proof (induction mac nonce len out counter rule: keystream_loop.induct)
  case (1 mac nonce len out counter)
  show ?case
  proof (cases "length out < len")
    case True
    with 1 have c: "\<not> 2 ^ 32 \<le> counter" by auto
    with 1(3) have "len \<le> length (out @ mac (nonce @ be4 counter)) + 32 * (2 ^ 32 - (counter + 1))"
      using 1(2) by simp
    with 1(1) [OF True c 1(2)] show ?thesis
      using True c by (simp add: keystream_loop.simps [of mac nonce len out counter])
  next
    case False
    then show ?thesis by (simp add: keystream_loop.simps)
  qed
qed

lemma keystream_total:
  assumes "\<forall>m. length (mac m) = 32" "len \<le> 137438953472"
  shows "\<exists>ks. keystream mac nonce len = Inr ks \<and> length ks = len"
  unfolding keystream_def using assms by (intro keystream_loop_total) auto

lemma encrypt_decrypt_exist:
  assumes "\<forall>m. length (sha256 m) = 32" and "\<forall>k m. length (hmac256 k m) = 32"
    and "length (utf8_encode plaintext) \<le> 137438953472"
  shows "\<exists>token. encrypt sha256 hmac256 setting plaintext = Inr token
           \<and> decrypt sha256 hmac256 setting token = Inr plaintext"
proof -
  define data where "data = utf8_encode plaintext"
  define nonce where "nonce = take 8 (sha256 (data @ secret_key sha256 setting))"
  define mac where "mac = hmac256 (secret_key sha256 setting)"
  obtain ks where ks: "keystream mac nonce (length data) = Inr ks" "length ks = length data"
    using keystream_total [of mac "length data" nonce] assms(2,3) by (auto simp: mac_def data_def)
  have "length nonce = 8" using assms(1) by (simp add: nonce_def)
  then have "decrypt sha256 hmac256 setting (''enc1:'' @ b64_encode (nonce @ xor_bytes data ks)) = Inr plaintext"
    using ks by (simp add: decrypt_def b64_roundtrip Let_def xor_bytes_cancel flip: mac_def)
      (simp add: data_def utf8_roundtrip)
  moreover have "encrypt sha256 hmac256 setting plaintext = Inr (''enc1:'' @ b64_encode (nonce @ xor_bytes data ks))"
    using ks by (simp add: encrypt_def Let_def flip: mac_def data_def nonce_def)
  ultimately show ?thesis by blast
qed

lemma decrypt_encrypt:
  assumes "encrypt sha256 hmac256 setting plaintext = Inr token"
    and "\<forall>m. length (sha256 m) = 32" and "\<forall>k m. length (hmac256 k m) = 32"
    and "length (utf8_encode plaintext) \<le> 137438953472"
  shows "decrypt sha256 hmac256 setting token = Inr plaintext"
  using encrypt_decrypt_exist [OF assms(2-4), of setting] assms(1) by auto

text \<open>
  A webhook secret stored by \<^verbatim>\<open>encrypt\<close> is recovered by \<^verbatim>\<open>decrypt\<close> under the same
  key setting, whatever its text, provided the digests have their documented 32 bytes; and
  encryption always returns for a secret of at most 128 GiB.
\<close>

theorem secret_roundtrip:
  assumes "\<forall>m. length (sha256 m) = 32" and "\<forall>k m. length (hmac256 k m) = 32"
    and "length (utf8_encode plaintext) \<le> 137438953472"
  shows "\<exists>token. encrypt sha256 hmac256 setting plaintext = Inr token
           \<and> decrypt sha256 hmac256 setting token = Inr plaintext"
  using assms by (rule encrypt_decrypt_exist)

text \<open>A digest of the documented size for examples.\<close>

definition ex_digest :: "string \<Rightarrow> string" where
  "ex_digest s = take 32 (s @ replicate 32 CHR ''x'')"

lemma length_ex_digest: "length (ex_digest s) = 32"
  by (simp add: ex_digest_def)

lemma secret_roundtrip_witness:
  "\<exists>token. encrypt ex_digest (\<lambda>k m. ex_digest (k @ m)) None ''whsec_1'' = Inr token
     \<and> decrypt ex_digest (\<lambda>k m. ex_digest (k @ m)) None token = Inr ''whsec_1''"
proof -
  have "length (utf8_char c) \<le> 2" for c by (simp add: utf8_char_def Let_def)
  then have "length (utf8_encode ''whsec_1'') \<le> 137438953472"
    by (simp add: utf8_encode_def utf8_char_def)
  then show ?thesis
    using secret_roundtrip [of ex_digest "\<lambda>k m. ex_digest (k @ m)" "''whsec_1''" None]
    by (simp only: length_ex_digest simp_thms)
qed

end
