(* ===== verification/Webhooks.thy ===== *)
theory Webhooks
  imports Schema ErrorModel IsoTime Secretbox PyJson
begin

text \<open>
  Module \<^verbatim>\<open>domain/policies/webhooks_delivery.py\<close>: signing, the outbox, the retry worker
  and the verification challenge. The injected \<^verbatim>\<open>sender\<close> is a function of its request that
  returns a status or raises; \<open>wh_fresh\<close> gives the \<^verbatim>\<open>delivery_ref\<close> the database
  generates for a row.
\<close>

type_synonym headers = "(string \<times> string) list"
type_synonym sender = "string \<Rightarrow> string \<Rightarrow> headers \<Rightarrow> string \<Rightarrow> int result"

record webhook_env =
  wh_sha256 :: "string \<Rightarrow> string"
  wh_hmac :: "string \<Rightarrow> string \<Rightarrow> string"
  wh_setting :: "string option"
  wh_float_repr :: "rat \<Rightarrow> string"
  wh_fresh :: "int \<Rightarrow> string"

section \<open>Constants\<close>

definition RETRY_SCHEDULE :: "int list" where
  "RETRY_SCHEDULE = [60, 300, 1800, 7200, 21600, 86400]"

definition MAX_ATTEMPTS :: nat where
  "MAX_ATTEMPTS = length RETRY_SCHEDULE"

definition webhook_event_types :: "string list" where
  "webhook_event_types = [''figure.updated'', ''refusal.lifted'', ''alert.raised'', ''report.issued'']"

section \<open>Signatures\<close>

definition hexdigest :: "string \<Rightarrow> string" where
  "hexdigest bytes = concat (map (\<lambda>c. let n = of_char c :: nat in [hex_char (n div 16), hex_char (n mod 16)]) bytes)"

definition sign :: "webhook_env \<Rightarrow> string \<Rightarrow> int \<Rightarrow> string \<Rightarrow> string" where
  "sign env secret timestamp raw_body =
     ''v1='' @ hexdigest (wh_hmac env (utf8_encode secret) (utf8_encode (int_str timestamp @ ''.'') @ raw_body))"

text \<open>\<^verbatim>\<open>hmac.compare_digest\<close> accepts ASCII text only.\<close>

definition verify_signature :: "webhook_env \<Rightarrow> string \<Rightarrow> int \<Rightarrow> string \<Rightarrow> string \<Rightarrow> bool result" where
  "verify_signature env secret timestamp raw_body header =
     (if \<forall>c \<in> set header. byte_val c < 128
      then Inr (sign env secret timestamp raw_body = header) else Inl TypeError)"

section \<open>The outbox\<close>

definition new_delivery ::
  "webhook_env \<Rightarrow> int \<Rightarrow> string \<Rightarrow> json \<Rightarrow> webhook_row \<Rightarrow> int \<Rightarrow> delivery_row" where
  "new_delivery env now etype payload_ref hook i =
     \<lparr>dl_id = i, dl_webhook_id = wh_id hook, dl_event_type = etype, dl_ref = wh_fresh env i,
      dl_status = Retrying, dl_payload = payload_ref, dl_attempt_count = 0, dl_last_http_status = None,
      dl_next_retry_at = Some now\<rparr>"

definition subscribers :: "int \<Rightarrow> string \<Rightarrow> sys \<Rightarrow> webhook_row list" where
  "subscribers workspace_id etype s =
     select_rows (\<lambda>w. wh_workspace_id w = workspace_id \<and> wh_status w = Verified
       \<and> etype \<in> set (wh_events w)) (webhooks s)"

definition enqueue :: "webhook_env \<Rightarrow> int \<Rightarrow> string \<Rightarrow> json \<Rightarrow> webhook_row \<Rightarrow> (sys, unit) st" where
  "enqueue env now etype payload_ref hook =
     writes (\<lambda>s. s\<lparr>webhook_deliveries :=
       insert_row (new_delivery env now etype payload_ref hook) (webhook_deliveries s)\<rparr>)"

text \<open>A label outside the column's enumeration is an error of the query.\<close>

definition emit :: "webhook_env \<Rightarrow> int \<Rightarrow> int \<Rightarrow> string \<Rightarrow> json \<Rightarrow> (sys, nat) st" where
  "emit env now workspace_id etype payload_ref =
     transaction
       (if etype \<notin> set webhook_event_types then raise DatabaseError
        else bind_s (reads (subscribers workspace_id etype)) (\<lambda>hooks.
             bind_s (for_each (enqueue env now etype payload_ref) hooks) (\<lambda>xs. ret (length xs))))"

section \<open>The worker\<close>

datatype outcome = Out_Delivered | Out_Retried | Out_Dropped

definition int_timestamp :: "int \<Rightarrow> int" where
  "int_timestamp now = (if now < 0 then - ((- now) div 1000000) else now div 1000000)"

definition delivery_headers :: "webhook_env \<Rightarrow> string \<Rightarrow> int \<Rightarrow> string \<Rightarrow> string \<Rightarrow> headers" where
  "delivery_headers env secret ts raw ref =
     [(''Content-Type'', ''application/json''),
      (''X-TrueFigure-Timestamp'', int_str ts),
      (''X-TrueFigure-Signature'', sign env secret ts raw),
      (''X-TrueFigure-Delivery'', ref)]"

definition delivery_body :: "webhook_env \<Rightarrow> delivery_row \<Rightarrow> string" where
  "delivery_body env dv = utf8_encode (json_dumps (wh_float_repr env) compact_sorted (dl_payload dv))"

text \<open>The row of the query: a due delivery and its webhook.\<close>

definition due :: "int \<Rightarrow> delivery_row \<Rightarrow> bool" where
  "due now d = (dl_status d = Retrying \<and> (case dl_next_retry_at d of None \<Rightarrow> False | Some t \<Rightarrow> t \<le> now))"

definition hook_of :: "sys \<Rightarrow> delivery_row \<Rightarrow> webhook_row option" where
  "hook_of s d = fetch_one (\<lambda>w. wh_id w = dl_webhook_id d) (webhooks s)"

definition next_delivery :: "int \<Rightarrow> sys \<Rightarrow> (delivery_row \<times> webhook_row) option" where
  "next_delivery now s =
     (case latest_by (\<lambda>d. - the (dl_next_retry_at d))
             (select_rows (\<lambda>d. due now d \<and> hook_of s d \<noteq> None) (webhook_deliveries s)) of
        None \<Rightarrow> None
      | Some d \<Rightarrow> map_option (\<lambda>w. (d, w)) (hook_of s d))"

definition update_delivery :: "int \<Rightarrow> (delivery_row \<Rightarrow> delivery_row) \<Rightarrow> (sys, unit) st" where
  "update_delivery i f = writes (\<lambda>s. s\<lparr>webhook_deliveries :=
     update_rows (\<lambda>d. dl_id d = i) f (webhook_deliveries s)\<rparr>)"

definition suspend_webhook :: "int \<Rightarrow> (sys, unit) st" where
  "suspend_webhook i = writes (\<lambda>s. s\<lparr>webhooks :=
     update_rows (\<lambda>w. wh_id w = i \<and> wh_status w = Verified) (\<lambda>w. w\<lparr>wh_status := Suspended\<rparr>) (webhooks s)\<rparr>)"

text \<open>\<^verbatim>\<open>last_http_status\<close> is a SMALLINT.\<close>

definition http_status :: "int \<Rightarrow> int result" where
  "http_status n = (if n < -32768 \<or> 32767 < n then Inl DatabaseError else Inr n)"

definition is_success :: "int \<Rightarrow> bool" where
  "is_success status = (200 \<le> status \<and> status < 300)"

definition status_or_none :: "int \<Rightarrow> int option" where
  "status_or_none status = (if status = 0 then None else Some status)"

definition settle_delivery :: "delivery_status \<Rightarrow> nat \<Rightarrow> int option \<Rightarrow> delivery_row \<Rightarrow> delivery_row" where
  "settle_delivery st n status d =
     d\<lparr>dl_status := st, dl_attempt_count := n, dl_last_http_status := status, dl_next_retry_at := None\<rparr>"

definition rescheduled :: "nat \<Rightarrow> int option \<Rightarrow> int \<Rightarrow> delivery_row \<Rightarrow> delivery_row" where
  "rescheduled n status t d =
     d\<lparr>dl_attempt_count := n, dl_last_http_status := status, dl_next_retry_at := Some t\<rparr>"

text \<open>The call of the sender: every exception of it counts as status 0.\<close>

definition send_delivery ::
  "webhook_env \<Rightarrow> sender \<Rightarrow> int \<Rightarrow> delivery_row \<times> webhook_row \<Rightarrow> int result" where
  "send_delivery env sender now dv =
     (let ts = int_timestamp now; raw = delivery_body env (fst dv) in
      bind_r (decrypt (wh_sha256 env) (wh_hmac env) (wh_setting env) (wh_secret_hash (snd dv))) (\<lambda>secret.
        case sender ''POST'' (wh_url (snd dv)) (delivery_headers env secret ts raw (dl_ref (fst dv))) raw of
          Inl _ \<Rightarrow> Inr 0
        | Inr status \<Rightarrow> Inr status))"

definition attempt_delivery ::
  "webhook_env \<Rightarrow> sender \<Rightarrow> int \<Rightarrow> delivery_row \<times> webhook_row \<Rightarrow> (sys, outcome) st" where
  "attempt_delivery env sender now dv =
     bind_s (lift_r (send_delivery env sender now dv)) (\<lambda>status.
       let n = dl_attempt_count (fst dv) + 1; i = dl_id (fst dv) in
       if is_success status then
         bind_s (lift_r (http_status status)) (\<lambda>_.
         bind_s (update_delivery i (settle_delivery Delivered n (Some status))) (\<lambda>_. ret Out_Delivered))
       else if MAX_ATTEMPTS \<le> n then
         bind_s (lift_r (http_status status)) (\<lambda>_.
         bind_s (update_delivery i (settle_delivery Dropped n (status_or_none status))) (\<lambda>_.
         bind_s (suspend_webhook (dl_webhook_id (fst dv))) (\<lambda>_. ret Out_Dropped)))
       else
         let next_at = now + RETRY_SCHEDULE ! n * 1000000 in
         if \<not> instant_in_range next_at then raise OverflowError
         else
           bind_s (lift_r (http_status status)) (\<lambda>_.
           bind_s (update_delivery i (rescheduled n (status_or_none status) next_at)) (\<lambda>_. ret Out_Retried)))"

record delivery_counts =
  dc_delivered :: nat
  dc_retried :: nat
  dc_dropped :: nat

fun count_delivery :: "outcome \<Rightarrow> delivery_counts \<Rightarrow> delivery_counts" where
  "count_delivery Out_Delivered c = c\<lparr>dc_delivered := dc_delivered c + 1\<rparr>"
| "count_delivery Out_Retried c = c\<lparr>dc_retried := dc_retried c + 1\<rparr>"
| "count_delivery Out_Dropped c = c\<lparr>dc_dropped := dc_dropped c + 1\<rparr>"

text \<open>Every round but the last raises one count, so \<open>limit\<close> rounds are left at the start.\<close>

fun delivery_loop ::
  "webhook_env \<Rightarrow> sender \<Rightarrow> int \<Rightarrow> nat \<Rightarrow> delivery_counts \<Rightarrow> (sys, delivery_counts) st" where
  "delivery_loop env sender now 0 c = ret c"
| "delivery_loop env sender now (Suc n) c =
     bind_s (transaction
              (bind_s (reads (next_delivery now)) (\<lambda>found.
                 case found of None \<Rightarrow> ret None
                 | Some dv \<Rightarrow> bind_s (attempt_delivery env sender now dv) (\<lambda>out. ret (Some out))))) (\<lambda>step.
       case step of
         None \<Rightarrow> ret c
       | Some out \<Rightarrow> delivery_loop env sender now n (count_delivery out c))"

definition no_deliveries :: delivery_counts where
  "no_deliveries = \<lparr>dc_delivered = 0, dc_retried = 0, dc_dropped = 0\<rparr>"

definition deliver_once :: "webhook_env \<Rightarrow> sender \<Rightarrow> int \<Rightarrow> nat \<Rightarrow> (sys, delivery_counts) st" where
  "deliver_once env sender now limit = delivery_loop env sender now limit no_deliveries"

section \<open>The verification challenge\<close>

definition verify_webhook :: "webhook_env \<Rightarrow> string \<Rightarrow> int \<Rightarrow> sender \<Rightarrow> (sys, bool) st" where
  "verify_webhook env webhook_ref workspace_id sender =
     bind_s (reads (\<lambda>s. fetch_one (\<lambda>w. wh_ref w = webhook_ref \<and> wh_workspace_id w = workspace_id
               \<and> wh_status w = Unverified) (webhooks s))) (\<lambda>found.
       case found of
         None \<Rightarrow> ret False
       | Some w \<Rightarrow>
           let challenge = take 16 (hexdigest (wh_sha256 env (utf8_encode webhook_ref))) in
           bind_s (lift_r (sender ''GET'' (wh_url w @ ''?challenge='' @ challenge) [] [])) (\<lambda>status.
             if is_success status then
               bind_s (transaction (writes (\<lambda>s. s\<lparr>webhooks :=
                 update_rows (\<lambda>v. wh_id v = wh_id w) (\<lambda>v. v\<lparr>wh_status := Verified\<rparr>) (webhooks s)\<rparr>)))
                 (\<lambda>_. ret True)
             else raise (tf_raise ''TF-CFG-005'' None None
                    (Some (''webhook '' @ webhook_ref @ '' failed verification challenge (status ''
                           @ int_str status @ '')'')))))"

end
