(* ===== verification/ConfigPlane.thy ===== *)
theory ConfigPlane
  imports Webhooks Auth Wire Refs PyJson
begin

text \<open>
  Module \<^verbatim>\<open>api/routes/config_plane.py\<close>: the handlers that declare deployments, the
  roster, licenses, id namespaces, parameters, label schemas, webhooks, change events and
  mapping contracts. A body is the validated request model, an answer the HTTP status, the
  data and the deployment of the envelope. What the driver does with text bound to a column
  and the random part of a reference are parameters.
\<close>

type_synonym answer = "int \<times> json \<times> string option"

record config_env =
  cfg_hooks :: webhook_env
  cfg_token :: "int \<Rightarrow> string"
  cfg_date :: "string \<Rightarrow> int result"
  cfg_instant :: "string \<Rightarrow> int result"
  cfg_numeric :: "rat \<Rightarrow> rat result"
  cfg_float :: "rat \<Rightarrow> rat"

section \<open>Requests and answers\<close>

text \<open>
  \<^verbatim>\<open>api/request_models/http.py\<close>. \<open>validate\<close> is the request model's validation: the
  model, or the location and the message of its first error.
\<close>

definition parse_body ::
  "((string \<times> json) list \<Rightarrow> (string list \<times> string) + 'm) \<Rightarrow> string \<Rightarrow> json \<Rightarrow> 'm result" where
  "parse_body validate code body =
     (case body of
        JObj kvs \<Rightarrow>
          (case validate kvs of
             Inr m \<Rightarrow> Inr m
           | Inl (loc, msg) \<Rightarrow> Inl (tf_raise code (Some (join ''.'' loc)) None (Some msg)))
      | _ \<Rightarrow> Inl (tf_raise code None None (Some ''request body must be a JSON object'')))"

definition ok_response :: "string \<Rightarrow> string \<Rightarrow> string \<Rightarrow> answer \<Rightarrow> response" where
  "ok_response request_id schema_version as_of a =
     (case a of (status, data, deployment_id) \<Rightarrow>
        \<lparr>resp_status = status, resp_body = envelope data request_id schema_version [] deployment_id None as_of,
         resp_headers = []\<rparr>)"

definition answer :: "int \<Rightarrow> (string \<times> json) list \<Rightarrow> answer" where
  "answer status data = (status, JObj data, None)"

definition listing :: "json list \<Rightarrow> answer" where
  "listing items = answer 200 [(''results'', JList items)]"

section \<open>Columns\<close>

definition opt_r :: "('a \<Rightarrow> 'b result) \<Rightarrow> 'a option \<Rightarrow> 'b option result" where
  "opt_r f x = (case x of None \<Rightarrow> Inr None | Some y \<Rightarrow> bind_r (f y) (\<lambda>z. Inr (Some z)))"

definition present :: "string option \<Rightarrow> bool" where
  "present x = (x \<noteq> None \<and> x \<noteq> Some [])"

definition int4 :: "int \<Rightarrow> int result" where
  "int4 n = (if - 2147483648 \<le> n \<and> n < 2147483648 then Inr n else Inl DatabaseError)"

text \<open>\<^verbatim>\<open>CHAR(3)\<close> pads with blanks and cuts off nothing but blanks.\<close>

definition char3 :: "string \<Rightarrow> string result" where
  "char3 s = (if \<forall>c \<in> set (drop 3 s). c = CHR '' '' then Inr (take 3 s @ replicate (3 - length s) (CHR '' ''))
              else Inl DatabaseError)"

text \<open>\<^verbatim>\<open>JSONB\<close> orders the keys of an object by length, then by their bytes.\<close>

fun jsonb :: "json \<Rightarrow> json" where
  "jsonb (JList xs) = JList (map jsonb xs)"
| "jsonb (JObj kvs) =
     JObj (sort_key (\<lambda>kv. length (fst kv)) (sort_key fst (map (\<lambda>(k, v). (k, jsonb v)) kvs)))"
| "jsonb j = j"

definition jsonb_items :: "(string \<times> json) list \<Rightarrow> (string \<times> json) list" where
  "jsonb_items kvs = (case jsonb (JObj kvs) of JObj items \<Rightarrow> items | _ \<Rightarrow> [])"

definition iso_date :: "int \<Rightarrow> string" where
  "iso_date n = (case ord2ymd n of (y, m, d) \<Rightarrow> pad 4 (nat y) @ ''-'' @ pad 2 (nat m) @ ''-'' @ pad 2 (nat d))"

definition iso_instant :: "int \<Rightarrow> string" where
  "iso_instant t =
     (let us = t mod us_per_day; secs = us div 1000000 in
      iso_date (instant_day t) @ ''T'' @ pad 2 (nat (secs div 3600)) @ '':'' @ pad 2 (nat (secs div 60 mod 60))
        @ '':'' @ pad 2 (nat (secs mod 60))
        @ (if us mod 1000000 = 0 then [] else ''.'' @ pad 6 (nat (us mod 1000000))) @ ''+00:00'')"

definition opt_json :: "('a \<Rightarrow> json) \<Rightarrow> 'a option \<Rightarrow> json" where
  "opt_json f x = (case x of None \<Rightarrow> JNull | Some y \<Rightarrow> f y)"

section \<open>Deployments\<close>

definition resolve_deployment :: "principal \<Rightarrow> string \<Rightarrow> sys \<Rightarrow> deployment_row result" where
  "resolve_deployment p wire_id s =
     (case fetch_one (\<lambda>d. dep_ref d = wire_id \<and> dep_workspace_id d = p_workspace_id p) (deployments s) of
        None \<Rightarrow> Inl (tf_raise ''TF-EVT-002'' None None (Some (''unknown deployment '' @ wire_id)))
      | Some d \<Rightarrow> bind_r (require_deployment p (dep_id d)) (\<lambda>_. Inr d))"

record deployment_create =
  dc_name :: string
  dc_type :: deployment_type
  dc_external_ref :: "string option"
  dc_planned_rollout :: "string option"
  dc_service_users :: "string list"

definition already_registered :: "principal \<Rightarrow> deployment_create \<Rightarrow> sys \<Rightarrow> unit result" where
  "already_registered p body s =
     (if present (dc_external_ref body) then
        (case fetch_one (\<lambda>d. dep_workspace_id d = p_workspace_id p \<and> dep_external_ref d = dc_external_ref body)
                (deployments s) of
           None \<Rightarrow> Inr ()
         | Some d \<Rightarrow> Inl (tf_raise ''TF-CFG-003'' (Some ''external_ref'') None
                       (Some (''already applied: '' @ dep_ref d))))
      else Inr ())"

definition new_deployment :: "principal \<Rightarrow> deployment_create \<Rightarrow> string \<Rightarrow> int option \<Rightarrow> int \<Rightarrow> deployment_row" where
  "new_deployment p body ref planned_at i =
     \<lparr>dep_id = i, dep_workspace_id = p_workspace_id p, dep_type = dc_type body, dep_status = Dep_Active,
      dep_ref = ref, dep_name = dc_name body, dep_external_ref = dc_external_ref body,
      dep_mode = (if present (dc_planned_rollout body) then Planned else Measured),
      dep_planned_rollout = planned_at\<rparr>"

text \<open>The unique constraints of the table.\<close>

definition deployment_clash :: "deployment_row \<Rightarrow> sys \<Rightarrow> bool" where
  "deployment_clash r s = exists_row (\<lambda>d. dep_ref d = dep_ref r
     \<or> (dep_external_ref r \<noteq> None \<and> dep_workspace_id d = dep_workspace_id r
        \<and> dep_external_ref d = dep_external_ref r)) (deployments s)"

definition insert_deployment :: "(int \<Rightarrow> deployment_row) \<Rightarrow> (sys, int) st" where
  "insert_deployment mk =
     bind_s (reads (\<lambda>s. tbl_seq (deployments s))) (\<lambda>i.
     bind_s (reads (deployment_clash (mk i))) (\<lambda>clash.
       if clash then raise DatabaseError
       else bind_s (writes (\<lambda>s. s\<lparr>deployments := insert_row mk (deployments s)\<rparr>)) (\<lambda>_. ret i)))"

definition link_service_user :: "principal \<Rightarrow> int \<Rightarrow> string \<Rightarrow> (sys, unit) st" where
  "link_service_user p did sref =
     bind_s (reads (\<lambda>s. fetch_one (\<lambda>u. user_workspace_id u = Some (p_workspace_id p) \<and> user_ref u = sref
         \<and> user_type_of u = Service_User) (users s))) (\<lambda>found.
       case found of
         None \<Rightarrow> raise (tf_raise ''TF-CFG-007'' (Some ''service_user_refs'') None
                   (Some (sref @ '' is not a roster service account'')))
       | Some u \<Rightarrow>
           bind_s (reads (\<lambda>s. \<exists>x \<in> set (deployment_service_users s). su_deployment_id x = did
               \<and> su_user_id x = user_id u)) (\<lambda>linked.
             if linked then raise DatabaseError
             else writes (\<lambda>s. s\<lparr>deployment_service_users := deployment_service_users s @
                    [\<lparr>su_workspace_id = p_workspace_id p, su_deployment_id = did, su_user_id = user_id u\<rparr>]\<rparr>)))"

definition register_deployment :: "config_env \<Rightarrow> principal \<Rightarrow> deployment_create \<Rightarrow> (sys, answer) st" where
  "register_deployment env p body =
     transaction
      (bind_s (query (already_registered p body)) (\<lambda>_.
       bind_s (query (\<lambda>s. new_ref (cfg_token env (tbl_seq (deployments s))) ''deployment'')) (\<lambda>ref.
       bind_s (lift_r (opt_r (cfg_instant env) (dc_planned_rollout body))) (\<lambda>planned_at.
       bind_s (insert_deployment (new_deployment p body ref planned_at)) (\<lambda>did.
       bind_s (for_each (link_service_user p did) (dc_service_users body)) (\<lambda>_.
         ret (answer 201 [(''deployment_id'', JStr ref),
           (''type'', JStr (deployment_type_str (dc_type body))),
           (''mode'', JStr (if present (dc_planned_rollout body) then ''planned'' else ''measured''))])))))))"

definition deployment_fields :: "deployment_row \<Rightarrow> (string \<times> json) list" where
  "deployment_fields d =
     [(''deployment_id'', JStr (dep_ref d)), (''type'', JStr (deployment_type_str (dep_type d))),
      (''mode'', JStr (deployment_mode_str (dep_mode d))),
      (''status'', JStr (deployment_status_str (dep_status d))), (''name'', JStr (dep_name d)),
      (''external_ref'', opt_str (dep_external_ref d))]"

definition list_deployments :: "principal \<Rightarrow> sys \<Rightarrow> answer result" where
  "list_deployments p s =
     Inr (listing (map (\<lambda>d. JObj (deployment_fields d))
       (select_rows (\<lambda>d. dep_workspace_id d = p_workspace_id p) (deployments s))))"

definition get_deployment :: "principal \<Rightarrow> string \<Rightarrow> sys \<Rightarrow> answer result" where
  "get_deployment p wire_id s =
     bind_r (resolve_deployment p wire_id s) (\<lambda>d.
       Inr (200, JObj (deployment_fields d @
             [(''planned_rollout_at'', opt_json (\<lambda>t. JStr (iso_instant t)) (dep_planned_rollout d))]),
            Some (dep_ref d)))"

record deployment_update =
  du_name :: "string option"
  du_planned_rollout :: "string option"
  du_type :: "string option"

definition type_change_allowed :: "deployment_row \<Rightarrow> deployment_update \<Rightarrow> sys \<Rightarrow> unit result" where
  "type_change_allowed d body s =
     (if du_type body \<noteq> None \<and> du_type body \<noteq> Some (deployment_type_str (dep_type d))
         \<and> exists_row (\<lambda>e. ev_deployment_id e = dep_id d) (events s)
      then Inl (tf_raise ''TF-CFG-006'' (Some ''type'') None
             (Some ''deployment_type immutable once events exist''))
      else Inr ())"

definition update_deployment ::
  "config_env \<Rightarrow> principal \<Rightarrow> string \<Rightarrow> deployment_update \<Rightarrow> (sys, answer) st" where
  "update_deployment env p wire_id body =
     transaction
      (bind_s (query (resolve_deployment p wire_id)) (\<lambda>d.
       bind_s (query (type_change_allowed d body)) (\<lambda>_.
       bind_s (lift_r (opt_r (cfg_instant env) (du_planned_rollout body))) (\<lambda>instant.
       bind_s (writes (\<lambda>s. s\<lparr>deployments := update_rows (\<lambda>r. dep_id r = dep_id d)
           (\<lambda>r. r\<lparr>dep_name := (case du_name body of None \<Rightarrow> dep_name r | Some n \<Rightarrow> n),
                  dep_planned_rollout := (case instant of None \<Rightarrow> dep_planned_rollout r | Some t \<Rightarrow> Some t)\<rparr>)
           (deployments s)\<rparr>)) (\<lambda>_.
         ret (answer 200 [(''deployment_id'', JStr wire_id),
           (''updated'', JBool (present (du_name body) \<or> present (du_planned_rollout body)))]))))))"

section \<open>Roster\<close>

record roster_user =
  ru_user_ref :: string
  ru_kind :: string
  ru_role :: "string option"
  ru_team :: "string option"
  ru_display_name :: "string option"
  ru_effective_from :: "string option"
  ru_effective_to :: "string option"
  ru_identifiers :: "(string \<times> string) list"

definition roster_row ::
  "principal \<Rightarrow> roster_user \<Rightarrow> user_type \<Rightarrow> int option \<Rightarrow> int option \<Rightarrow> int \<Rightarrow> user_row" where
  "roster_row p item ty from until i =
     \<lparr>user_id = i, user_workspace_id = Some (p_workspace_id p), user_type_of = ty, user_status_of = User_Active,
      user_ref = ru_user_ref item, user_display_name = ru_display_name item, user_job_role = ru_role item,
      user_team = ru_team item, user_effective_from = from, user_effective_to = until\<rparr>"

definition roster_update :: "roster_user \<Rightarrow> user_type \<Rightarrow> int option \<Rightarrow> int option \<Rightarrow> user_row \<Rightarrow> user_row" where
  "roster_update item ty from until u =
     u\<lparr>user_type_of := ty, user_display_name := ru_display_name item, user_job_role := ru_role item,
       user_team := ru_team item, user_effective_from := from, user_effective_to := until\<rparr>"

definition roster_key :: "user_row \<Rightarrow> int option \<times> string" where
  "roster_key u = (user_workspace_id u, user_ref u)"

definition parse_enum :: "(string \<times> 'e) list \<Rightarrow> string \<Rightarrow> 'e result" where
  "parse_enum labels x = (case map_of labels x of None \<Rightarrow> Inl DatabaseError | Some v \<Rightarrow> Inr v)"

definition upsert_user :: "config_env \<Rightarrow> principal \<Rightarrow> roster_user \<Rightarrow> (sys, int) st" where
  "upsert_user env p item =
     bind_s (lift_r (parse_enum user_types (kind_to_user_type (ru_kind item)))) (\<lambda>ty.
     bind_s (lift_r (opt_r (cfg_date env) (ru_effective_from item))) (\<lambda>from.
     bind_s (lift_r (opt_r (cfg_date env) (ru_effective_to item))) (\<lambda>until.
       if from \<noteq> None \<and> until \<noteq> None \<and> the until < the from then raise DatabaseError
       else
         bind_s (writes (\<lambda>s. s\<lparr>users := upsert (\<lambda>u. roster_key u = (Some (p_workspace_id p), ru_user_ref item))
             (roster_row p item ty from until) (roster_update item ty from until) (users s)\<rparr>)) (\<lambda>_.
         reads (\<lambda>s. user_id (the (lookup_key roster_key (users s) (Some (p_workspace_id p), ru_user_ref item))))))))"

definition active_identifier :: "int \<Rightarrow> string \<Rightarrow> string \<Rightarrow> identifier_row \<Rightarrow> bool" where
  "active_identifier ws namespace val r =
     (ident_workspace_id r = ws \<and> ident_namespace r = namespace \<and> ident_value r = val
      \<and> ident_status r = Record_Active)"

definition claim_identifier :: "principal \<Rightarrow> int \<Rightarrow> string \<times> string \<Rightarrow> (sys, unit) st" where
  "claim_identifier p uid ident =
     bind_s (reads (\<lambda>s. fetch_one (active_identifier (p_workspace_id p) (fst ident) (snd ident)) (user_identifiers s)))
       (\<lambda>owner. case owner of
          Some r \<Rightarrow>
            if ident_user_id r \<noteq> uid
            then raise (tf_raise ''TF-CFG-004'' (Some ''identifiers'') None
                   (Some (fst ident @ '':'' @ snd ident @ '' owned by another user'')))
            else ret ()
        | None \<Rightarrow> writes (\<lambda>s. s\<lparr>user_identifiers := insert_row (\<lambda>i.
            \<lparr>ident_id = i, ident_user_id = uid, ident_workspace_id = p_workspace_id p,
             ident_status = Record_Active, ident_namespace = fst ident, ident_value = snd ident\<rparr>)
            (user_identifiers s)\<rparr>))"

definition upsert_roster_item :: "config_env \<Rightarrow> principal \<Rightarrow> roster_user \<Rightarrow> (sys, json) st" where
  "upsert_roster_item env p item =
     catch
       (bind_s (transaction
          (bind_s (upsert_user env p item) (\<lambda>uid. for_each (claim_identifier p uid) (ru_identifiers item)))) (\<lambda>_.
        ret (JObj [(''user_ref'', JStr (ru_user_ref item)), (''status'', JStr ''upserted'')])))
       (\<lambda>e. case e of
          TFExn err \<Rightarrow> Some (ret (JObj [(''user_ref'', JStr (ru_user_ref item)), (''status'', JStr ''rejected''),
                          (''error'', to_error_object err)]))
        | _ \<Rightarrow> None)"

definition upsert_roster :: "config_env \<Rightarrow> principal \<Rightarrow> roster_user list \<Rightarrow> (sys, answer) st" where
  "upsert_roster env p items =
     bind_s (for_each (upsert_roster_item env p) items) (\<lambda>results. ret (listing results))"

definition roster_item :: "user_row \<Rightarrow> json" where
  "roster_item u =
     JObj [(''user_ref'', JStr (user_ref u)), (''kind'', JStr (user_type_to_kind (user_type_str (user_type_of u)))),
       (''status'', JStr (user_status_str (user_status_of u))), (''role'', opt_str (user_job_role u)),
       (''team'', opt_str (user_team u)),
       (''effective_from'', opt_json (\<lambda>d. JStr (iso_date d)) (user_effective_from u)),
       (''effective_to'', opt_json (\<lambda>d. JStr (iso_date d)) (user_effective_to u))]"

text \<open>A filter that is given and not empty must be a label of the column.\<close>

definition filter_of :: "(string \<times> 'e) list \<Rightarrow> string option \<Rightarrow> 'e option result" where
  "filter_of labels x = (if present x then opt_r (parse_enum labels) x else Inr None)"

definition list_roster :: "principal \<Rightarrow> string option \<Rightarrow> string option \<Rightarrow> sys \<Rightarrow> answer result" where
  "list_roster p status kind s =
     bind_r (filter_of user_statuses status) (\<lambda>st.
     bind_r (filter_of user_types (if present kind then map_option kind_to_user_type kind else None)) (\<lambda>ty.
       Inr (listing (map roster_item (select_rows (\<lambda>u. user_workspace_id u = Some (p_workspace_id p)
         \<and> (st = None \<or> st = Some (user_status_of u)) \<and> (ty = None \<or> ty = Some (user_type_of u))) (users s))))))"

end
