(* ===== verification/Declarations.thy ===== *)
theory Declarations
  imports ConfigPlane
begin

text \<open>
  Module \<^verbatim>\<open>api/routes/config_plane.py\<close>, second part: licenses, id namespaces,
  parameter versions, label schemas, webhook subscriptions, change events and mapping
  contracts.
\<close>

section \<open>Licenses\<close>

record license_declare =
  ld_seats_paid :: int
  ld_price_per_seat :: "rat option"
  ld_currency :: string
  ld_per_month :: bool
  ld_valid_from :: string
  ld_licensed_users :: "string list"

definition is_open :: "int \<Rightarrow> license_row \<Rightarrow> bool" where
  "is_open did l = (lic_deployment_id l = did \<and> lic_valid_to l = None)"

text \<open>The check \<open>valid_to >= valid_from\<close> of the row closed.\<close>

definition close_license :: "int \<Rightarrow> int \<Rightarrow> (sys, unit) st" where
  "close_license did day =
     bind_s (reads (\<lambda>s. exists_row (\<lambda>l. is_open did l \<and> day < lic_valid_from l) (deployment_licenses s))) (\<lambda>invalid.
       if invalid then raise DatabaseError
       else writes (\<lambda>s. s\<lparr>deployment_licenses := update_rows (is_open did) (\<lambda>l. l\<lparr>lic_valid_to := Some day\<rparr>)
              (deployment_licenses s)\<rparr>))"

definition new_license :: "int \<Rightarrow> license_declare \<Rightarrow> int \<Rightarrow> rat option \<Rightarrow> string \<Rightarrow> int \<Rightarrow> license_row" where
  "new_license did body day price currency i =
     \<lparr>lic_id = i, lic_deployment_id = did, lic_seats_paid = ld_seats_paid body, lic_price_per_seat = price,
      lic_per_month = ld_per_month body, lic_currency = currency, lic_valid_from = day, lic_valid_to = None\<rparr>"

definition licensed_user :: "int \<Rightarrow> string \<Rightarrow> (sys, unit) st" where
  "licensed_user lid ref =
     writes (\<lambda>s. let r = \<lparr>li_license_id = lid, li_identifier = ref\<rparr> in
       if r \<in> set (deployment_license_identifiers s) then s
       else s\<lparr>deployment_license_identifiers := deployment_license_identifiers s @ [r]\<rparr>)"

definition declare_license ::
  "config_env \<Rightarrow> principal \<Rightarrow> string \<Rightarrow> license_declare \<Rightarrow> (sys, answer) st" where
  "declare_license env p wire_id body =
     bind_s (transaction
      (bind_s (query (resolve_deployment p wire_id)) (\<lambda>d.
       bind_s (lift_r (cfg_date env (ld_valid_from body))) (\<lambda>day.
       bind_s (close_license (dep_id d) day) (\<lambda>_.
       bind_s (lift_r (int4 (ld_seats_paid body))) (\<lambda>_.
       bind_s (lift_r (opt_r (cfg_numeric env) (ld_price_per_seat body))) (\<lambda>price.
       bind_s (lift_r (char3 (ld_currency body))) (\<lambda>currency.
       bind_s (reads (\<lambda>s. tbl_seq (deployment_licenses s))) (\<lambda>lid.
       bind_s (writes (\<lambda>s. s\<lparr>deployment_licenses :=
           insert_row (new_license (dep_id d) body day price currency) (deployment_licenses s)\<rparr>)) (\<lambda>_.
       bind_s (for_each (licensed_user lid) (ld_licensed_users body)) (\<lambda>_. ret lid))))))))))) (\<lambda>lid.
     bind_s (lift_r (encode_id ''license'' lid)) (\<lambda>license_id.
       ret (answer 200 [(''license_id'', JStr license_id), (''deployment_id'', JStr wire_id),
              (''seats_paid'', JInt (ld_seats_paid body))])))"

definition license_fields :: "config_env \<Rightarrow> license_row \<Rightarrow> (string \<times> json) list result" where
  "license_fields env l =
     bind_r (encode_id ''license'' (lic_id l)) (\<lambda>license_id.
       Inr [(''license_id'', JStr license_id), (''seats_paid'', JInt (lic_seats_paid l)),
            (''price_per_seat'', opt_json (\<lambda>q. JReal (cfg_float env q)) (lic_price_per_seat l)),
            (''currency'', JStr (lic_currency l)),
            (''period_unit'', JStr (if lic_per_month l then ''month'' else ''year'')),
            (''valid_from'', JStr (iso_date (lic_valid_from l)))])"

definition get_license :: "config_env \<Rightarrow> principal \<Rightarrow> string \<Rightarrow> sys \<Rightarrow> answer result" where
  "get_license env p wire_id s =
     bind_r (resolve_deployment p wire_id s) (\<lambda>d.
       case fetch_one (is_open (dep_id d)) (deployment_licenses s) of
         None \<Rightarrow> Inr (200, JNull, Some wire_id)
       | Some l \<Rightarrow> bind_r (license_fields env l) (\<lambda>fields. Inr (200, JObj fields, Some wire_id)))"

section \<open>Id namespaces\<close>

record namespace_create =
  nc_field :: string
  nc_namespace :: string
  nc_deployment_id :: "string option"
  nc_source_ref :: string
  nc_format_regex :: "string option"
  nc_description :: "string option"

definition namespace_scope :: "principal \<Rightarrow> namespace_create \<Rightarrow> sys \<Rightarrow> int option result" where
  "namespace_scope p body s =
     (if present (nc_deployment_id body)
      then bind_r (resolve_deployment p (the (nc_deployment_id body)) s) (\<lambda>d. Inr (Some (dep_id d)))
      else Inr None)"

definition namespace_key :: "namespace_row \<Rightarrow> int \<times> int option \<times> string \<times> string" where
  "namespace_key n = (ns_workspace_id n, ns_deployment_id n, ns_field n, ns_source_ref n)"

definition new_namespace :: "principal \<Rightarrow> namespace_create \<Rightarrow> int option \<Rightarrow> int \<Rightarrow> namespace_row" where
  "new_namespace p body did i =
     \<lparr>ns_id = i, ns_workspace_id = p_workspace_id p, ns_deployment_id = did, ns_field = nc_field body,
      ns_status = Record_Active, ns_source_ref = nc_source_ref body, ns_namespace = nc_namespace body,
      ns_format_regex = nc_format_regex body, ns_description = nc_description body\<rparr>"

definition register_id_namespace :: "principal \<Rightarrow> namespace_create \<Rightarrow> (sys, answer) st" where
  "register_id_namespace p body =
     bind_s (transaction
      (bind_s (query (namespace_scope p body)) (\<lambda>did.
       bind_s (reads (\<lambda>s. exists_row (\<lambda>n. ns_status n = Record_Active
           \<and> namespace_key n = (p_workspace_id p, did, nc_field body, nc_source_ref body)) (identifier_namespaces s))) (\<lambda>taken.
         if taken then raise (tf_raise ''TF-CFG-004'' (Some ''field'') None
                (Some ''active namespace already declared for scope''))
         else
           bind_s (reads (\<lambda>s. tbl_seq (identifier_namespaces s))) (\<lambda>i.
           bind_s (writes (\<lambda>s. s\<lparr>identifier_namespaces :=
               insert_row (new_namespace p body did) (identifier_namespaces s)\<rparr>)) (\<lambda>_. ret i)))))) (\<lambda>i.
     bind_s (lift_r (encode_id ''namespace'' i)) (\<lambda>namespace_id.
       ret (answer 201 [(''namespace_id'', JStr namespace_id), (''field'', JStr (nc_field body)),
              (''namespace'', JStr (nc_namespace body)), (''deployment_id'', opt_str (nc_deployment_id body))])))"

definition namespace_item :: "sys \<Rightarrow> namespace_row \<Rightarrow> json result" where
  "namespace_item s n =
     bind_r (encode_id ''namespace'' (ns_id n)) (\<lambda>namespace_id.
       Inr (JObj [(''namespace_id'', JStr namespace_id), (''field'', JStr (ns_field n)),
         (''namespace'', JStr (ns_namespace n)), (''source_ref'', JStr (ns_source_ref n)),
         (''status'', JStr (record_status_str (ns_status n))),
         (''deployment_id'', opt_json (\<lambda>d. JStr (dep_ref d))
            (fetch_one (\<lambda>d. Some (dep_id d) = ns_deployment_id n) (deployments s)))]))"

fun all_r :: "('a \<Rightarrow> 'b result) \<Rightarrow> 'a list \<Rightarrow> 'b list result" where
  "all_r f [] = Inr []"
| "all_r f (x # xs) = bind_r (f x) (\<lambda>y. bind_r (all_r f xs) (\<lambda>ys. Inr (y # ys)))"

definition list_id_namespaces :: "principal \<Rightarrow> sys \<Rightarrow> answer result" where
  "list_id_namespaces p s =
     bind_r (all_r (namespace_item s)
         (select_rows (\<lambda>n. ns_workspace_id n = p_workspace_id p) (identifier_namespaces s)))
       (\<lambda>items. Inr (listing items))"

section \<open>Parameter versions\<close>

record parameter_create =
  pc_effective_from :: string
  pc_currency :: string
  pc_payload :: "(string \<times> json) list"

definition par_key :: "parameter_row \<Rightarrow> int" where
  "par_key r = par_workspace_id r"

definition new_parameter ::
  "principal \<Rightarrow> parameter_create \<Rightarrow> int \<Rightarrow> string \<Rightarrow> int \<Rightarrow> int \<Rightarrow> parameter_row" where
  "new_parameter p body day currency version i =
     \<lparr>par_id = i, par_workspace_id = p_workspace_id p, par_version = version, par_effective_from = day,
      par_currency = currency, par_payload = jsonb_items (pc_payload body)\<rparr>"

definition create_parameter_version ::
  "config_env \<Rightarrow> principal \<Rightarrow> parameter_create \<Rightarrow> (sys, answer) st" where
  "create_parameter_version env p body =
     (if ''finance_params'' \<notin> set (p_roles p)
      then raise (tf_raise ''TF-CFG-002'' None None (Some ''finance_params role required (BR-016)''))
      else transaction
       (bind_s (lift_r (cfg_date env (pc_effective_from body))) (\<lambda>day.
        bind_s (reads (\<lambda>s. exists_row (\<lambda>r. par_workspace_id r = p_workspace_id p \<and> par_effective_from r = day)
            (parameter_sets s))) (\<lambda>overlaps.
          if overlaps then raise (tf_raise ''TF-CFG-001'' (Some ''effective_from'') None
                 (Some ''effective window overlaps existing version''))
          else
            bind_s (reads (\<lambda>s. next_version (\<lambda>r. par_key r = p_workspace_id p) par_version (parameter_sets s))) (\<lambda>version.
            bind_s (lift_r (int4 version)) (\<lambda>_.
            bind_s (lift_r (char3 (pc_currency body))) (\<lambda>currency.
            bind_s (writes (\<lambda>s. s\<lparr>parameter_sets := append_version (\<lambda>r. par_key r = p_workspace_id p) par_version
                (new_parameter p body day currency) (parameter_sets s)\<rparr>)) (\<lambda>_.
              ret (answer 201 [(''version'', JInt version), (''effective_from'', JStr (pc_effective_from body)),
                     (''currency'', JStr (pc_currency body))])))))))))"

definition parameter_fields :: "parameter_row \<Rightarrow> (string \<times> json) list" where
  "parameter_fields r =
     [(''version'', JInt (par_version r)), (''effective_from'', JStr (iso_date (par_effective_from r))),
      (''currency'', JStr (par_currency r))]"

definition list_parameter_versions :: "principal \<Rightarrow> sys \<Rightarrow> answer result" where
  "list_parameter_versions p s =
     Inr (listing (map (\<lambda>r. JObj (parameter_fields r))
       (sort_key par_version (select_rows (\<lambda>r. par_workspace_id r = p_workspace_id p) (parameter_sets s)))))"

definition get_parameter_version :: "principal \<Rightarrow> int \<Rightarrow> sys \<Rightarrow> answer result" where
  "get_parameter_version p version s =
     (case fetch_one (\<lambda>r. par_workspace_id r = p_workspace_id p \<and> par_version r = version) (parameter_sets s) of
        None \<Rightarrow> Inl (tf_raise ''TF-READ-001'' None None
                  (Some (''parameter version '' @ int_str version @ '' not found'')))
      | Some r \<Rightarrow> Inr (answer 200 (parameter_fields r @ [(''payload'', JObj (par_payload r))])))"

section \<open>Label schemas\<close>

record label_schema_create =
  lc_ref :: string
  lc_name :: string
  lc_values :: "string list"
  lc_category :: "string option"
  lc_min_samples :: int

definition register_label_schema :: "principal \<Rightarrow> label_schema_create \<Rightarrow> (sys, answer) st" where
  "register_label_schema p body =
     transaction
      (bind_s (lift_r (int4 (lc_min_samples body))) (\<lambda>_.
       bind_s (reads (\<lambda>s. exists_row (\<lambda>q. ql_ref q = lc_ref body) (qa_label_definitions s))) (\<lambda>taken.
         if taken then raise DatabaseError
         else bind_s (writes (\<lambda>s. s\<lparr>qa_label_definitions := insert_row (\<lambda>i.
               \<lparr>ql_id = i, ql_workspace_id = p_workspace_id p, ql_ref = lc_ref body, ql_name = lc_name body,
                ql_values = lc_values body, ql_category = lc_category body, ql_min_samples = lc_min_samples body\<rparr>)
               (qa_label_definitions s)\<rparr>)) (\<lambda>_.
           ret (answer 201 [(''label_schema_ref'', JStr (lc_ref body)), (''grader_status'', JStr ''uncalibrated'')])))))"

text \<open>No operation of the server moves \<^verbatim>\<open>grader_status\<close> off its initial value.\<close>

definition list_label_schemas :: "principal \<Rightarrow> sys \<Rightarrow> answer result" where
  "list_label_schemas p s =
     Inr (listing (map (\<lambda>q. JObj [(''label_schema_ref'', JStr (ql_ref q)), (''name'', JStr (ql_name q)),
         (''label_values'', JList (map JStr (ql_values q))), (''grader_status'', JStr ''uncalibrated''),
         (''applies_to_category'', opt_str (ql_category q))])
       (select_rows (\<lambda>q. ql_workspace_id q = p_workspace_id p) (qa_label_definitions s))))"

section \<open>Webhook subscriptions\<close>

record webhook_create =
  wc_url :: string
  wc_events :: "string list"
  wc_secret :: string

definition check_event_types :: "string list \<Rightarrow> unit result" where
  "check_event_types evs =
     (case find (\<lambda>e. e \<notin> set webhook_event_types) evs of
        None \<Rightarrow> Inr ()
      | Some e \<Rightarrow> Inl (tf_raise ''TF-CFG-007'' (Some ''events'') None (Some (''unknown event type '' @ e))))"

definition same_subscription :: "principal \<Rightarrow> webhook_create \<Rightarrow> webhook_row \<Rightarrow> bool" where
  "same_subscription p body w =
     (wh_workspace_id w = p_workspace_id p \<and> wh_url w = wc_url body \<and> wh_events w = wc_events body)"

definition new_webhook :: "principal \<Rightarrow> webhook_create \<Rightarrow> string \<Rightarrow> string \<Rightarrow> int \<Rightarrow> webhook_row" where
  "new_webhook p body ref secret i =
     \<lparr>wh_id = i, wh_workspace_id = p_workspace_id p, wh_status = Unverified, wh_events = wc_events body,
      wh_ref = ref, wh_url = wc_url body, wh_secret_hash = secret\<rparr>"

definition create_webhook :: "config_env \<Rightarrow> principal \<Rightarrow> webhook_create \<Rightarrow> (sys, answer) st" where
  "create_webhook env p body =
     bind_s (lift_r (check_event_types (wc_events body))) (\<lambda>_.
     transaction
      (bind_s (reads (\<lambda>s. fetch_one (same_subscription p body) (webhooks s))) (\<lambda>existing.
         case existing of
           Some w \<Rightarrow> ret (answer 200 [(''webhook_id'', JStr (wh_ref w)), (''idempotent'', JBool True)])
         | None \<Rightarrow>
             bind_s (query (\<lambda>s. new_ref (cfg_token env (tbl_seq (webhooks s))) ''webhook'')) (\<lambda>ref.
             bind_s (lift_r (encrypt (wh_sha256 (cfg_hooks env)) (wh_hmac (cfg_hooks env)) (wh_setting (cfg_hooks env))
                 (wc_secret body))) (\<lambda>secret.
             bind_s (reads (\<lambda>s. exists_row (\<lambda>w. wh_ref w = ref) (webhooks s))) (\<lambda>clash.
               if clash then raise DatabaseError
               else bind_s (writes (\<lambda>s. s\<lparr>webhooks := insert_row (new_webhook p body ref secret) (webhooks s)\<rparr>)) (\<lambda>_.
                 ret (answer 201 [(''webhook_id'', JStr ref), (''status'', JStr ''unverified'')]))))))))"

definition list_webhooks :: "principal \<Rightarrow> sys \<Rightarrow> answer result" where
  "list_webhooks p s =
     Inr (listing (map (\<lambda>w. JObj [(''webhook_id'', JStr (wh_ref w)), (''url'', JStr (wh_url w)),
         (''events'', JList (map JStr (wh_events w))), (''status'', JStr (webhook_status_str (wh_status w)))])
       (select_rows (\<lambda>w. wh_workspace_id w = p_workspace_id p \<and> wh_status w \<noteq> Deleted) (webhooks s))))"

definition deletable :: "principal \<Rightarrow> string \<Rightarrow> webhook_row \<Rightarrow> bool" where
  "deletable p wire_id w =
     (wh_ref w = wire_id \<and> wh_workspace_id w = p_workspace_id p \<and> wh_status w \<noteq> Deleted)"

definition delete_webhook :: "principal \<Rightarrow> string \<Rightarrow> (sys, answer) st" where
  "delete_webhook p wire_id =
     transaction
      (bind_s (reads (\<lambda>s. exists_row (deletable p wire_id) (webhooks s))) (\<lambda>found.
         if \<not> found then raise (tf_raise ''TF-READ-001'' None None (Some ''webhook not found''))
         else bind_s (writes (\<lambda>s. s\<lparr>webhooks := update_rows (deletable p wire_id) (\<lambda>w. w\<lparr>wh_status := Deleted\<rparr>)
                (webhooks s)\<rparr>)) (\<lambda>_.
           ret (answer 200 [(''webhook_id'', JStr wire_id), (''status'', JStr ''deleted'')]))))"

section \<open>Change events\<close>

record change_create =
  ch_type :: string
  ch_sided :: sided_type
  ch_occurred_at :: string
  ch_description :: string
  ch_deployments :: "string list"
  ch_supersedes :: "string option"

definition new_change :: "principal \<Rightarrow> change_create \<Rightarrow> string \<Rightarrow> int \<Rightarrow> int \<Rightarrow> change_row" where
  "new_change p body ref instant i =
     \<lparr>chg_id = i, chg_workspace_id = p_workspace_id p, chg_superseded_by = None, chg_type = ch_type body,
      chg_sided = ch_sided body, chg_ref = ref, chg_occurred_at = instant, chg_description = ch_description body,
      chg_deployments = []\<rparr>"

definition supersede :: "principal \<Rightarrow> int \<Rightarrow> string option \<Rightarrow> (sys, unit) st" where
  "supersede p cid old =
     (if \<not> present old then ret ()
      else
        bind_s (reads (\<lambda>s. exists_row (\<lambda>c. chg_ref c = the old \<and> chg_workspace_id c = p_workspace_id p) (change_log s))) (\<lambda>found.
          if \<not> found
          then raise (tf_raise ''TF-CFG-007'' (Some ''supersedes'') None (Some ''superseded change-event not found''))
          else writes (\<lambda>s. s\<lparr>change_log :=
            update_rows (\<lambda>c. chg_ref c = the old \<and> chg_workspace_id c = p_workspace_id p)
              (\<lambda>c. c\<lparr>chg_superseded_by := Some cid\<rparr>) (change_log s)\<rparr>)))"

text \<open>A row of \<^verbatim>\<open>change_log_deployments\<close>, kept with its change event.\<close>

definition link_change :: "principal \<Rightarrow> int \<Rightarrow> string \<Rightarrow> (sys, unit) st" where
  "link_change p cid dref =
     bind_s (query (resolve_deployment p dref)) (\<lambda>d.
     bind_s (reads (\<lambda>s. exists_row (\<lambda>c. chg_id c = cid \<and> dep_id d \<in> set (chg_deployments c)) (change_log s))) (\<lambda>linked.
       if linked then raise DatabaseError
       else writes (\<lambda>s. s\<lparr>change_log := update_rows (\<lambda>c. chg_id c = cid)
              (\<lambda>c. c\<lparr>chg_deployments := chg_deployments c @ [dep_id d]\<rparr>) (change_log s)\<rparr>)))"

definition declare_change_event :: "config_env \<Rightarrow> principal \<Rightarrow> change_create \<Rightarrow> (sys, answer) st" where
  "declare_change_event env p body =
     transaction
      (bind_s (query (\<lambda>s. new_ref (cfg_token env (tbl_seq (change_log s))) ''change_event'')) (\<lambda>ref.
       bind_s (lift_r (cfg_instant env (ch_occurred_at body))) (\<lambda>instant.
       bind_s (reads (\<lambda>s. exists_row (\<lambda>c. chg_ref c = ref) (change_log s))) (\<lambda>clash.
         if clash then raise DatabaseError
         else
           bind_s (reads (\<lambda>s. tbl_seq (change_log s))) (\<lambda>cid.
           bind_s (writes (\<lambda>s. s\<lparr>change_log := insert_row (new_change p body ref instant) (change_log s)\<rparr>)) (\<lambda>_.
           bind_s (supersede p cid (ch_supersedes body)) (\<lambda>_.
           bind_s (for_each (link_change p cid) (ch_deployments body)) (\<lambda>_.
             ret (answer 201 [(''change_event_ref'', JStr ref), (''type'', JStr (ch_type body)),
                    (''sidedness'', JStr (sided_type_str (ch_sided body)))])))))))))"

definition list_change_events :: "principal \<Rightarrow> sys \<Rightarrow> answer result" where
  "list_change_events p s =
     Inr (listing (map (\<lambda>c. JObj [(''change_event_ref'', JStr (chg_ref c)), (''type'', JStr (chg_type c)),
         (''sidedness'', JStr (sided_type_str (chg_sided c))), (''occurred_at'', JStr (iso_instant (chg_occurred_at c))),
         (''description'', JStr (chg_description c)), (''superseded'', JBool (chg_superseded_by c \<noteq> None))])
       (select_rows (\<lambda>c. chg_workspace_id c = p_workspace_id p) (change_log s))))"

section \<open>Mapping contracts\<close>

record mapping_create =
  mp_source_ref :: string
  mp_event_type :: event_type
  mp_version :: int
  mp_field_map :: "(string \<times> json) list"
  mp_notes :: "string option"

definition mapping_key :: "mapping_row \<Rightarrow> int \<times> string \<times> int" where
  "mapping_key m = (mc_workspace_id m, mc_source_ref m, mc_version m)"

definition new_mapping :: "principal \<Rightarrow> mapping_create \<Rightarrow> int \<Rightarrow> mapping_row" where
  "new_mapping p body i =
     \<lparr>mc_id = i, mc_workspace_id = p_workspace_id p, mc_event_type = mp_event_type body,
      mc_source_ref = mp_source_ref body, mc_version = mp_version body,
      mc_field_map = jsonb_items (mp_field_map body), mc_notes = mp_notes body\<rparr>"

definition create_mapping_contract :: "principal \<Rightarrow> mapping_create \<Rightarrow> (sys, answer) st" where
  "create_mapping_contract p body =
     bind_s (transaction
      (bind_s (reads (\<lambda>s. exists_row (\<lambda>m. mapping_key m = (p_workspace_id p, mp_source_ref body, mp_version body))
          (mapping_contracts s))) (\<lambda>taken.
         if taken then raise (tf_raise ''TF-CFG-006'' (Some ''version'') None
                (Some ''mapping contract version is immutable''))
         else
           bind_s (lift_r (int4 (mp_version body))) (\<lambda>_.
           bind_s (reads (\<lambda>s. tbl_seq (mapping_contracts s))) (\<lambda>i.
           bind_s (writes (\<lambda>s. s\<lparr>mapping_contracts := insert_row (new_mapping p body) (mapping_contracts s)\<rparr>)) (\<lambda>_.
             ret i)))))) (\<lambda>i.
     bind_s (lift_r (encode_id ''mapping_contract'' i)) (\<lambda>contract_id.
       ret (answer 201 [(''mapping_contract_id'', JStr contract_id), (''source_ref'', JStr (mp_source_ref body)),
              (''version'', JInt (mp_version body))])))"

definition mapping_item :: "mapping_row \<Rightarrow> json result" where
  "mapping_item m =
     bind_r (encode_id ''mapping_contract'' (mc_id m)) (\<lambda>contract_id.
       Inr (JObj [(''mapping_contract_id'', JStr contract_id), (''source_ref'', JStr (mc_source_ref m)),
         (''event_type'', JStr (event_type_str (mc_event_type m))), (''version'', JInt (mc_version m)),
         (''field_map'', JObj (mc_field_map m))]))"

definition list_mapping_contracts :: "principal \<Rightarrow> sys \<Rightarrow> answer result" where
  "list_mapping_contracts p s =
     bind_r (all_r mapping_item (select_rows (\<lambda>m. mc_workspace_id m = p_workspace_id p) (mapping_contracts s)))
       (\<lambda>items. Inr (listing items))"

end
