(* ===== verification/ConfigSafe.thy ===== *)
theory ConfigSafe
  imports Declarations
begin

text \<open>
  What the configuration plane promises: a caller changes nothing of another workspace and
  nothing of the data plane, and the uniqueness and history rules of every table hold after
  any sequence of requests.
\<close>

section \<open>Guards\<close>

text \<open>A step that reads a condition and goes on only where it does not hold.\<close>

context evolution
begin

lemma guarded:
  assumes "\<And>s. \<not> g s \<Longrightarrow> R s (fst (k s))"
  shows "evolves R (bind_s (reads g) (\<lambda>taken. if taken then raise e else k))"
  using assms by (simp add: evolves_def refl)

end

section \<open>Rows of other workspaces\<close>

lemma filter_update_other:
  "(\<And>r. r \<in> set rs \<Longrightarrow> P r \<Longrightarrow> \<not> Q r \<and> \<not> Q (f r)) \<Longrightarrow>
     filter Q (map (\<lambda>r. if P r then f r else r) rs) = filter Q rs"
  by (induction rs) auto

definition foreign_deployments :: "int \<Rightarrow> sys \<Rightarrow> deployment_row list" where
  "foreign_deployments ws s = filter (\<lambda>d. dep_workspace_id d \<noteq> ws) (tbl_rows (deployments s))"

definition foreign_changes :: "int \<Rightarrow> sys \<Rightarrow> change_row list" where
  "foreign_changes ws s = filter (\<lambda>c. chg_workspace_id c \<noteq> ws) (tbl_rows (change_log s))"

definition foreign_licenses :: "int \<Rightarrow> sys \<Rightarrow> license_row list" where
  "foreign_licenses ws s =
     filter (\<lambda>l. lic_deployment_id l \<in> dep_id ` set (foreign_deployments ws s)) (tbl_rows (deployment_licenses s))"

text \<open>
  The other tables: the rows of other workspaces, licenses by their deployment and the
  identifiers of a license by the license.
\<close>

definition foreign_same :: "int \<Rightarrow> sys \<Rightarrow> sys \<Rightarrow> bool" where
  "foreign_same ws s t \<longleftrightarrow>
     filter (\<lambda>u. user_workspace_id u \<noteq> Some ws) (tbl_rows (users t))
       = filter (\<lambda>u. user_workspace_id u \<noteq> Some ws) (tbl_rows (users s))
   \<and> filter (\<lambda>r. ident_workspace_id r \<noteq> ws) (tbl_rows (user_identifiers t))
       = filter (\<lambda>r. ident_workspace_id r \<noteq> ws) (tbl_rows (user_identifiers s))
   \<and> filter (\<lambda>n. ns_workspace_id n \<noteq> ws) (tbl_rows (identifier_namespaces t))
       = filter (\<lambda>n. ns_workspace_id n \<noteq> ws) (tbl_rows (identifier_namespaces s))
   \<and> filter (\<lambda>r. par_workspace_id r \<noteq> ws) (tbl_rows (parameter_sets t))
       = filter (\<lambda>r. par_workspace_id r \<noteq> ws) (tbl_rows (parameter_sets s))
   \<and> filter (\<lambda>w. wh_workspace_id w \<noteq> ws) (tbl_rows (webhooks t))
       = filter (\<lambda>w. wh_workspace_id w \<noteq> ws) (tbl_rows (webhooks s))
   \<and> filter (\<lambda>q. ql_workspace_id q \<noteq> ws) (tbl_rows (qa_label_definitions t))
       = filter (\<lambda>q. ql_workspace_id q \<noteq> ws) (tbl_rows (qa_label_definitions s))
   \<and> filter (\<lambda>m. mc_workspace_id m \<noteq> ws) (tbl_rows (mapping_contracts t))
       = filter (\<lambda>m. mc_workspace_id m \<noteq> ws) (tbl_rows (mapping_contracts s))
   \<and> filter (\<lambda>x. su_workspace_id x \<noteq> ws) (deployment_service_users t)
       = filter (\<lambda>x. su_workspace_id x \<noteq> ws) (deployment_service_users s)
   \<and> filter (\<lambda>l. lic_deployment_id l \<in> dep_id ` set (foreign_deployments ws s)) (tbl_rows (deployment_licenses t))
       = filter (\<lambda>l. lic_deployment_id l \<in> dep_id ` set (foreign_deployments ws s)) (tbl_rows (deployment_licenses s))
   \<and> filter (\<lambda>r. li_license_id r \<in> lic_id ` set (foreign_licenses ws s)) (deployment_license_identifiers t)
       = filter (\<lambda>r. li_license_id r \<in> lic_id ` set (foreign_licenses ws s)) (deployment_license_identifiers s)"

text \<open>The tables no configuration request writes.\<close>

definition data_plane_same :: "sys \<Rightarrow> sys \<Rightarrow> bool" where
  "data_plane_same s t \<longleftrightarrow>
     organizations t = organizations s \<and> workspaces t = workspaces s \<and> api_keys t = api_keys s
   \<and> api_key_deployments t = api_key_deployments s \<and> import_jobs t = import_jobs s
   \<and> work_items t = work_items s \<and> events t = events s \<and> rejected_events t = rejected_events s
   \<and> meter_usage_daily t = meter_usage_daily s \<and> user_activity_daily t = user_activity_daily s
   \<and> ingestion_stats_daily t = ingestion_stats_daily s \<and> figures t = figures s \<and> reports t = reports s
   \<and> report_figures t = report_figures s \<and> alerts t = alerts s
   \<and> webhook_deliveries t = webhook_deliveries s \<and> window_hits t = window_hits s \<and> objects t = objects s"

definition ids_ok :: "sys \<Rightarrow> bool" where
  "ids_ok s \<longleftrightarrow> wf_table dep_id (deployments s) \<and> wf_table chg_id (change_log s)
     \<and> wf_table lic_id (deployment_licenses s)"

definition kept :: "int \<Rightarrow> deployment_row list \<Rightarrow> change_row list \<Rightarrow> int set \<Rightarrow> sys \<Rightarrow> sys \<Rightarrow> bool" where
  "kept ws D C L s t \<longleftrightarrow>
     (foreign_deployments ws s = D \<and> foreign_changes ws s = C \<and> lic_id ` set (foreign_licenses ws s) = L \<and> ids_ok s \<longrightarrow>
        foreign_deployments ws t = D \<and> foreign_changes ws t = C \<and> lic_id ` set (foreign_licenses ws t) = L \<and> ids_ok t
        \<and> foreign_same ws s t \<and> data_plane_same s t)"

interpretation isolation: evolution "kept ws D C L" for ws D C L
proof
  show "kept ws D C L s s" for s by (simp add: kept_def foreign_same_def data_plane_same_def)
  show "kept ws D C L s u" if "kept ws D C L s t" "kept ws D C L t u" for s t u
    using that unfolding kept_def foreign_same_def data_plane_same_def by metis
qed

lemmas kept_defs = kept_def foreign_same_def data_plane_same_def foreign_deployments_def foreign_changes_def
  foreign_licenses_def ids_ok_def table_simps

lemma insert_deployment_kept:
  assumes "\<And>i. dep_workspace_id (mk i) = ws \<and> dep_id (mk i) = i"
  shows "evolves (kept ws D C L) (insert_deployment mk)"
  using assms unfolding insert_deployment_def
  by (auto intro!: isolation.bind isolation.basic evolves_writes wf_insert_row simp: kept_defs)

lemma link_service_user_kept: "evolves (kept (p_workspace_id p) D C L) (link_service_user p did sref)"
  unfolding link_service_user_def
  by (auto intro!: isolation.bind isolation.basic evolves_writes simp: kept_defs split: option.splits)

lemma register_deployment_kept: "evolves (kept (p_workspace_id p) D C L) (register_deployment env p body)"
  unfolding register_deployment_def
  by (intro isolation.in_transaction isolation.bind isolation.basic insert_deployment_kept
      isolation.loop link_service_user_kept) (simp add: new_deployment_def)

lemma own_deployment:
  assumes "resolve_deployment p wire_id s = Inr d" "ids_ok s"
  shows "dep_workspace_id d = p_workspace_id p" "d \<in> set (tbl_rows (deployments s))"
    "dep_id d \<notin> dep_id ` set (foreign_deployments (p_workspace_id p) s)"
proof -
  show d: "dep_workspace_id d = p_workspace_id p" "d \<in> set (tbl_rows (deployments s))"
    using assms(1) by (auto simp: resolve_deployment_def bind_r_Inr_iff split: option.splits dest!: fetch_one_Some)
  show "dep_id d \<notin> dep_id ` set (foreign_deployments (p_workspace_id p) s)"
  proof
    assume "dep_id d \<in> dep_id ` set (foreign_deployments (p_workspace_id p) s)"
    then obtain e where e: "e \<in> set (tbl_rows (deployments s))" "dep_workspace_id e \<noteq> p_workspace_id p"
      "dep_id d = dep_id e"
      by (auto simp: foreign_deployments_def)
    then have "d = e" using wf_table_unique [of dep_id, OF _ d(2) e(1)] assms(2) by (simp add: ids_ok_def)
    with d(1) e(2) show False by simp
  qed
qed

text \<open>A request that resolves a deployment goes on with one of the caller's.\<close>

lemma kept_after_resolving:
  assumes "\<And>d. dep_id d \<notin> dep_id ` set D \<Longrightarrow> evolves (kept (p_workspace_id p) D C L) (k d)"
  shows "evolves (kept (p_workspace_id p) D C L) (bind_s (query (resolve_deployment p wire_id)) k)"
  unfolding evolves_def
proof
  fix s
  show "kept (p_workspace_id p) D C L s (fst (bind_s (query (resolve_deployment p wire_id)) k s))"
  proof (cases "resolve_deployment p wire_id s")
    case (Inl x)
    then show ?thesis by (simp add: bind_s_lift isolation.refl)
  next
    case (Inr d)
    have "kept (p_workspace_id p) D C L s (fst (k d s))"
      if "foreign_deployments (p_workspace_id p) s = D" "ids_ok s"
      using assms [of d] own_deployment(3) [OF Inr that(2)] that(1) by (simp add: evolves_def)
    then show ?thesis unfolding bind_s_lift Inr by (auto simp: kept_def)
  qed
qed

lemma update_deployment_kept: "evolves (kept (p_workspace_id p) D C L) (update_deployment env p wire_id body)"
  unfolding update_deployment_def
proof (intro isolation.in_transaction kept_after_resolving isolation.bind isolation.basic)
  fix d :: deployment_row and instant
  assume d: "dep_id d \<notin> dep_id ` set D"
  let ?f = "\<lambda>r. r\<lparr>dep_name := (case du_name body of None \<Rightarrow> dep_name r | Some n \<Rightarrow> n),
      dep_planned_rollout := (case instant of None \<Rightarrow> dep_planned_rollout r | Some t \<Rightarrow> Some t)\<rparr>"
  have "filter (\<lambda>d. dep_workspace_id d \<noteq> p_workspace_id p)
      (map (\<lambda>r. if dep_id r = dep_id d then ?f r else r) (tbl_rows (deployments s)))
      = filter (\<lambda>d. dep_workspace_id d \<noteq> p_workspace_id p) (tbl_rows (deployments s))"
    if "foreign_deployments (p_workspace_id p) s = D" for s
  proof (rule filter_update_other)
    fix r
    assume r: "r \<in> set (tbl_rows (deployments s))" "dep_id r = dep_id d"
    then have "dep_workspace_id r = p_workspace_id p"
      using d that image_eqI [of "dep_id d" dep_id r "set D"] by (auto simp: foreign_deployments_def)
    then show "\<not> dep_workspace_id r \<noteq> p_workspace_id p \<and> \<not> dep_workspace_id (?f r) \<noteq> p_workspace_id p"
      by simp
  qed
  then show "evolves (kept (p_workspace_id p) D C L) (writes (\<lambda>s. s\<lparr>deployments :=
      update_rows (\<lambda>r. dep_id r = dep_id d) ?f (deployments s)\<rparr>))"
    by (intro evolves_writes) (auto simp: kept_defs intro!: wf_update_rows [unfolded table_simps])
qed

lemma upsert_user_kept: "evolves (kept (p_workspace_id p) D C L) (upsert_user env p item)"
proof -
  have "kept (p_workspace_id p) D C L s (s\<lparr>users := upsert (\<lambda>u. roster_key u = (Some (p_workspace_id p), ru_user_ref item))
      (roster_row p item ty from until) (roster_update item ty from until) (users s)\<rparr>)" for s ty "from" "until"
    by (auto simp: kept_defs upsert_def roster_row_def roster_update_def roster_key_def intro!: filter_update_other)
  then show ?thesis
    unfolding upsert_user_def by (auto intro!: isolation.bind isolation.basic evolves_writes)
qed

lemma claim_identifier_kept: "evolves (kept (p_workspace_id p) D C L) (claim_identifier p uid ident)"
  unfolding claim_identifier_def
  by (auto intro!: isolation.bind isolation.basic evolves_writes simp: kept_defs split: option.splits)

lemma upsert_roster_kept: "evolves (kept (p_workspace_id p) D C L) (upsert_roster env p items)"
  unfolding upsert_roster_def upsert_roster_item_def
  by (auto intro!: isolation.bind isolation.loop isolation.catching isolation.in_transaction isolation.basic
      upsert_user_kept claim_identifier_kept split: exn.splits)

text \<open>The identifiers of a new license: its identity is that of no license so far.\<close>

lemma licensed_user_kept: "lid \<notin> L \<Longrightarrow> evolves (kept ws D C L) (licensed_user lid ref)"
  unfolding licensed_user_def by (rule evolves_writes) (auto simp: kept_defs Let_def)

lemma insert_license_kept:
  assumes "did \<notin> dep_id ` set D"
  shows "evolves (kept ws D C L) (writes (\<lambda>s. s\<lparr>deployment_licenses :=
      insert_row (new_license did body day price currency) (deployment_licenses s)\<rparr>))"
  using assms by (intro evolves_writes) (auto simp: kept_defs new_license_def intro!: wf_insert_row)

lemma close_license_kept:
  assumes "did \<notin> dep_id ` set D"
  shows "evolves (kept ws D C L) (close_license did day)"
proof -
  have "filter (\<lambda>l. lic_deployment_id l \<in> dep_id ` set D)
      (map (\<lambda>l. if is_open did l then l\<lparr>lic_valid_to := Some day\<rparr> else l) ls)
    = filter (\<lambda>l. lic_deployment_id l \<in> dep_id ` set D) ls" for ls
    using assms by (intro filter_update_other) (auto simp: is_open_def)
  then show ?thesis unfolding close_license_def
    by (auto intro!: isolation.bind isolation.basic evolves_writes wf_update_rows [unfolded table_simps] simp: kept_defs)
qed

lemma add_license_kept:
  assumes "did \<notin> dep_id ` set D"
  shows "evolves (kept ws D C L) (bind_s (reads (\<lambda>s. tbl_seq (deployment_licenses s))) (\<lambda>lid.
      bind_s (writes (\<lambda>s. s\<lparr>deployment_licenses :=
          insert_row (new_license did body day price currency) (deployment_licenses s)\<rparr>)) (\<lambda>_.
      bind_s (for_each (licensed_user lid) refs) (\<lambda>_. ret lid))))"
    (is "evolves _ (bind_s (reads ?seq) ?add)")
  unfolding evolves_def
proof
  fix s
  show "kept ws D C L s (fst (bind_s (reads ?seq) ?add s))"
  proof (cases "lic_id ` set (foreign_licenses ws s) = L \<and> ids_ok s")
    case True
    then have "?seq s \<notin> L" by (auto simp: foreign_licenses_def ids_ok_def wf_table_def)
    then have "evolves (kept ws D C L) (?add (?seq s))"
      by (intro isolation.bind isolation.basic isolation.loop insert_license_kept licensed_user_kept assms)
    then show ?thesis by (simp only: bind_s_basic evolves_def)
  next
    case False
    then show ?thesis by (auto simp: kept_def)
  qed
qed

lemma declare_license_kept: "evolves (kept (p_workspace_id p) D C L) (declare_license env p wire_id body)"
  unfolding declare_license_def
  by (intro isolation.in_transaction kept_after_resolving isolation.bind [where m = "transaction _"] isolation.basic
      add_license_kept close_license_kept isolation.bind [where m = "lift_r _"] isolation.bind [where m = "close_license _ _"])

lemma register_id_namespace_kept: "evolves (kept (p_workspace_id p) D C L) (register_id_namespace p body)"
  unfolding register_id_namespace_def
  by (auto intro!: isolation.bind isolation.in_transaction isolation.basic evolves_writes
      simp: kept_defs new_namespace_def)

lemma create_parameter_version_kept: "evolves (kept (p_workspace_id p) D C L) (create_parameter_version env p body)"
  unfolding create_parameter_version_def
  by (auto intro!: isolation.bind isolation.in_transaction isolation.basic evolves_writes
      simp: kept_defs append_version_def new_parameter_def)

lemma register_label_schema_kept: "evolves (kept (p_workspace_id p) D C L) (register_label_schema p body)"
  unfolding register_label_schema_def
  by (auto intro!: isolation.bind isolation.in_transaction isolation.basic evolves_writes simp: kept_defs)

lemma create_webhook_kept: "evolves (kept (p_workspace_id p) D C L) (create_webhook env p body)"
  unfolding create_webhook_def
  by (auto intro!: isolation.bind isolation.in_transaction isolation.basic evolves_writes
      simp: kept_defs new_webhook_def split: option.splits)

lemma delete_webhook_kept: "evolves (kept (p_workspace_id p) D C L) (delete_webhook p wire_id)"
  unfolding delete_webhook_def
  by (auto intro!: isolation.bind isolation.in_transaction isolation.basic evolves_writes filter_update_other
      simp: kept_defs deletable_def)

lemma create_mapping_contract_kept: "evolves (kept (p_workspace_id p) D C L) (create_mapping_contract p body)"
  unfolding create_mapping_contract_def
  by (auto intro!: isolation.bind isolation.in_transaction isolation.basic evolves_writes
      simp: kept_defs new_mapping_def)

text \<open>Change events: the rows written are the new one and those of the caller's workspace.\<close>

lemma supersede_kept: "evolves (kept (p_workspace_id p) D C L) (supersede p cid old)"
  unfolding supersede_def
  by (auto intro!: isolation.bind isolation.basic evolves_writes filter_update_other wf_update_rows [unfolded table_simps]
      simp: kept_defs)

lemma link_change_kept:
  assumes "cid \<notin> chg_id ` set C"
  shows "evolves (kept (p_workspace_id p) D C L) (link_change p cid dref)"
proof -
  have "filter (\<lambda>c. chg_workspace_id c \<noteq> p_workspace_id p)
      (map (\<lambda>c. if chg_id c = cid then c\<lparr>chg_deployments := chg_deployments c @ [i]\<rparr> else c) (tbl_rows (change_log s)))
      = filter (\<lambda>c. chg_workspace_id c \<noteq> p_workspace_id p) (tbl_rows (change_log s))"
    if "foreign_changes (p_workspace_id p) s = C" for i s
  proof (rule filter_update_other)
    fix c
    assume c: "c \<in> set (tbl_rows (change_log s))" "chg_id c = cid"
    then have "chg_workspace_id c = p_workspace_id p"
      using assms that image_eqI [of cid chg_id c "set C"] by (auto simp: foreign_changes_def)
    then show "\<not> chg_workspace_id c \<noteq> p_workspace_id p
        \<and> \<not> chg_workspace_id (c\<lparr>chg_deployments := chg_deployments c @ [i]\<rparr>) \<noteq> p_workspace_id p" by simp
  qed
  then show ?thesis unfolding link_change_def
    by (auto intro!: isolation.bind isolation.basic evolves_writes wf_update_rows [unfolded table_simps] simp: kept_defs)
qed

lemma declare_change_event_kept: "evolves (kept (p_workspace_id p) D C L) (declare_change_event env p body)"
proof -
  let ?rest = "\<lambda>ref instant cid. bind_s (writes (\<lambda>s. s\<lparr>change_log := insert_row (new_change p body ref instant) (change_log s)\<rparr>)) (\<lambda>_.
      bind_s (supersede p cid (ch_supersedes body)) (\<lambda>_.
      bind_s (for_each (link_change p cid) (ch_deployments body)) (\<lambda>_.
        ret (answer 201 [(''change_event_ref'', JStr ref), (''type'', JStr (ch_type body)),
                    (''sidedness'', JStr (sided_type_str (ch_sided body)))]))))"
  have r: "evolves (kept (p_workspace_id p) D C L) (?rest ref instant cid)" if "cid \<notin> chg_id ` set C" for ref instant cid
    using that
    by (auto intro!: isolation.bind isolation.basic isolation.loop evolves_writes supersede_kept link_change_kept
        wf_insert_row simp: kept_defs new_change_def)
  have "evolves (kept (p_workspace_id p) D C L)
      (bind_s (reads (\<lambda>s. tbl_seq (change_log s))) (?rest ref instant))" for ref instant
    unfolding evolves_def
  proof
    fix s
    let ?k = "kept (p_workspace_id p) D C L s (fst (bind_s (reads (\<lambda>s. tbl_seq (change_log s))) (?rest ref instant) s))"
    show ?k
    proof (cases "foreign_changes (p_workspace_id p) s = C \<and> ids_ok s")
      case True
      then have "tbl_seq (change_log s) \<notin> chg_id ` set C"
        by (auto simp: foreign_changes_def ids_ok_def wf_table_def)
      from r [OF this] show ?thesis by (simp only: bind_s_basic evolves_def)
    next
      case False
      then show ?thesis by (auto simp: kept_def)
    qed
  qed
  then show ?thesis unfolding declare_change_event_def
    by (intro isolation.in_transaction isolation.bind isolation.basic) (auto intro: isolation.basic)
qed

section \<open>Tenant isolation\<close>

inductive config_step :: "config_env \<Rightarrow> principal \<Rightarrow> sys \<Rightarrow> sys \<Rightarrow> bool" for env p where
  "register_deployment env p b1 s = (t, r1) \<Longrightarrow> config_step env p s t"
| "update_deployment env p ref b2 s = (t, r2) \<Longrightarrow> config_step env p s t"
| "upsert_roster env p b3 s = (t, r3) \<Longrightarrow> config_step env p s t"
| "declare_license env p ref b4 s = (t, r4) \<Longrightarrow> config_step env p s t"
| "register_id_namespace p b5 s = (t, r5) \<Longrightarrow> config_step env p s t"
| "create_parameter_version env p b6 s = (t, r6) \<Longrightarrow> config_step env p s t"
| "register_label_schema p b7 s = (t, r7) \<Longrightarrow> config_step env p s t"
| "create_webhook env p b8 s = (t, r8) \<Longrightarrow> config_step env p s t"
| "delete_webhook p ref s = (t, r9) \<Longrightarrow> config_step env p s t"
| "declare_change_event env p b10 s = (t, r10) \<Longrightarrow> config_step env p s t"
| "create_mapping_contract p b11 s = (t, r11) \<Longrightarrow> config_step env p s t"

lemmas config_kept = register_deployment_kept update_deployment_kept upsert_roster_kept declare_license_kept
  register_id_namespace_kept create_parameter_version_kept register_label_schema_kept create_webhook_kept
  delete_webhook_kept declare_change_event_kept create_mapping_contract_kept

lemma config_step_kept: "config_step env p s t \<Longrightarrow> kept (p_workspace_id p) D C L s t"
  by (induction rule: config_step.induct) (rule evolvesD, rule config_kept, assumption)+

lemma config_steps_kept: "(config_step env p)\<^sup>*\<^sup>* s t \<Longrightarrow> kept (p_workspace_id p) D C L s t"
  by (induction rule: rtranclp_induct) (auto intro: isolation.refl isolation.trans config_step_kept)

text \<open>
  C17: The configuration plane is closed over the caller's workspace. Whatever requests a
  principal sends, valid or not, in any order, the deployments, people, identifiers,
  namespaces, licenses with their licensed users, service users, parameters, subscriptions,
  change events, label schemas and mapping contracts of every other workspace stay as they
  are, and no event, aggregate, figure, report, alert or key is touched.
\<close>

theorem config_tenant_safe:
  assumes "(config_step env p)\<^sup>*\<^sup>* s t" and "wf_table dep_id (deployments s)" and "wf_table chg_id (change_log s)"
    and "wf_table lic_id (deployment_licenses s)" and "ws = p_workspace_id p"
  shows "filter (\<lambda>d. dep_workspace_id d \<noteq> ws) (tbl_rows (deployments t))
         = filter (\<lambda>d. dep_workspace_id d \<noteq> ws) (tbl_rows (deployments s))
     \<and> filter (\<lambda>c. chg_workspace_id c \<noteq> ws) (tbl_rows (change_log t))
         = filter (\<lambda>c. chg_workspace_id c \<noteq> ws) (tbl_rows (change_log s))
     \<and> foreign_same ws s t \<and> data_plane_same s t"
  using config_steps_kept [OF assms(1), of "foreign_deployments ws s" "foreign_changes ws s"
      "lic_id ` set (foreign_licenses ws s)"] assms(2-5)
  by (simp add: kept_def ids_ok_def foreign_deployments_def foreign_changes_def)

end
