(* ===== verification/ConfigRules.thy ===== *)
theory ConfigRules
  imports ConfigSafe
begin

text \<open>
  The rules of the configuration tables as an invariant of every request, and what single
  requests do: licenses keep their history, registration is idempotent, a roster batch is
  all or nothing per person, and where the handlers fall short of what they promise.
\<close>

section \<open>Partial unique indexes\<close>

definition unique_where :: "('r \<Rightarrow> bool) \<Rightarrow> ('r \<Rightarrow> 'k) \<Rightarrow> 'r table \<Rightarrow> bool" where
  "unique_where P key t \<longleftrightarrow> distinct (map key (filter P (tbl_rows t)))"

lemma unique_where_insert:
  assumes "unique_where P key t" "P (mk (tbl_seq t)) \<Longrightarrow> \<not> exists_row (\<lambda>r. P r \<and> key r = key (mk (tbl_seq t))) t"
  shows "unique_where P key (insert_row mk t)"
  using assms by (auto simp: unique_where_def table_simps exists_row_def)

lemma unique_where_update:
  assumes "unique_where P key t" "\<And>r. Q r \<Longrightarrow> P (f r) \<Longrightarrow> P r \<and> key (f r) = key r"
  shows "unique_where P key (update_rows Q f t)"
proof -
  have "key ` set (filter P (map (\<lambda>r. if Q r then f r else r) rs)) \<subseteq> key ` set (filter P rs)
      \<and> (distinct (map key (filter P rs)) \<longrightarrow> distinct (map key (filter P (map (\<lambda>r. if Q r then f r else r) rs))))"
    for rs
  proof (induction rs)
    case (Cons r rs)
    then show ?case using assms(2) [of r] by (cases "Q r"; cases "P r"; cases "P (f r)") auto
  qed simp
  then show ?thesis using assms(1) by (auto simp: unique_where_def table_simps)
qed

lemma unique_key_where: "unique_key key t \<longleftrightarrow> unique_where (\<lambda>_. True) key t"
  by (simp add: unique_key_def unique_where_def)

section \<open>The rules\<close>

definition deployments_ok :: "deployment_row table \<Rightarrow> bool" where
  "deployments_ok t \<longleftrightarrow> unique_where (\<lambda>_. True) dep_ref t
     \<and> unique_where (\<lambda>d. dep_external_ref d \<noteq> None) (\<lambda>d. (dep_workspace_id d, dep_external_ref d)) t"

definition identifiers_ok :: "identifier_row table \<Rightarrow> bool" where
  "identifiers_ok t \<longleftrightarrow> unique_where (\<lambda>r. ident_status r = Record_Active)
     (\<lambda>r. (ident_workspace_id r, ident_namespace r, ident_value r)) t"

definition licenses_ok :: "license_row table \<Rightarrow> bool" where
  "licenses_ok t \<longleftrightarrow> unique_where (\<lambda>l. lic_valid_to l = None) lic_deployment_id t
     \<and> (\<forall>l \<in> set (tbl_rows t). case lic_valid_to l of None \<Rightarrow> True | Some day \<Rightarrow> lic_valid_from l \<le> day)"

definition parameters_ok :: "parameter_row table \<Rightarrow> bool" where
  "parameters_ok t \<longleftrightarrow> wf_versions par_key par_version t
     \<and> unique_where (\<lambda>_. True) (\<lambda>r. (par_workspace_id r, par_effective_from r)) t"

definition config_ok :: "sys \<Rightarrow> bool" where
  "config_ok s \<longleftrightarrow> deployments_ok (deployments s) \<and> unique_where (\<lambda>_. True) roster_key (users s)
     \<and> identifiers_ok (user_identifiers s) \<and> licenses_ok (deployment_licenses s)
     \<and> unique_where (\<lambda>n. ns_status n = Record_Active) namespace_key (identifier_namespaces s)
     \<and> parameters_ok (parameter_sets s)
     \<and> unique_where (\<lambda>_. True) (\<lambda>w. (wh_workspace_id w, wh_url w, wh_events w)) (webhooks s)
     \<and> unique_where (\<lambda>_. True) mapping_key (mapping_contracts s)"

definition keeps_rules :: "sys \<Rightarrow> sys \<Rightarrow> bool" where
  "keeps_rules s t \<longleftrightarrow> (config_ok s \<longrightarrow> config_ok t)"

interpretation rules: evolution keeps_rules
  by unfold_locales (auto simp: keeps_rules_def)

interpretation roster: keyed_upsert roster_key "(Some (p_workspace_id p), ru_user_ref item)"
    "roster_row p item ty from until" "roster_update item ty from until"
  for p :: principal and item ty "from" "until"
  by unfold_locales (simp_all add: roster_key_def roster_row_def roster_update_def)

interpretation param_store: versioned_store par_key par_version "p_workspace_id p" "new_parameter p body day currency"
  for p :: principal and body day currency
  by unfold_locales (simp_all add: par_key_def new_parameter_def)

lemma insert_deployment_rules: "evolves keeps_rules (insert_deployment mk)"
  unfolding evolves_def insert_deployment_def
  by (auto simp: keeps_rules_def config_ok_def deployments_ok_def deployment_clash_def exists_row_def
      intro!: unique_where_insert)

lemma link_service_user_rules: "evolves keeps_rules (link_service_user p did sref)"
  unfolding link_service_user_def
  by (auto intro!: rules.bind rules.basic evolves_writes simp: keeps_rules_def config_ok_def split: option.splits)

lemma register_deployment_rules: "evolves keeps_rules (register_deployment env p body)"
  unfolding register_deployment_def
  by (intro rules.in_transaction rules.bind rules.basic insert_deployment_rules rules.loop link_service_user_rules)

lemma update_deployment_rules: "evolves keeps_rules (update_deployment env p wire_id body)"
  unfolding update_deployment_def
  by (auto intro!: rules.in_transaction rules.bind rules.basic evolves_writes unique_where_update
      simp: keeps_rules_def config_ok_def deployments_ok_def)

lemma upsert_user_rules: "evolves keeps_rules (upsert_user env p item)"
  unfolding upsert_user_def
  by (auto intro!: rules.bind rules.basic evolves_writes roster.unique [unfolded unique_key_where]
      simp: keeps_rules_def config_ok_def)

lemma claim_identifier_rules: "evolves keeps_rules (claim_identifier p uid ident)"
  unfolding evolves_def claim_identifier_def
  by (auto simp: keeps_rules_def config_ok_def identifiers_ok_def fetch_one_None exists_row_def active_identifier_def
      split: option.splits intro!: unique_where_insert)

lemma upsert_roster_rules: "evolves keeps_rules (upsert_roster env p items)"
  unfolding upsert_roster_def upsert_roster_item_def
  by (auto intro!: rules.bind rules.loop rules.catching rules.in_transaction rules.basic
      upsert_user_rules claim_identifier_rules split: exn.splits)

lemma licenses_closed:
  assumes "licenses_ok t" "\<not> exists_row (\<lambda>l. is_open did l \<and> day < lic_valid_from l) t"
  shows "licenses_ok (update_rows (is_open did) (\<lambda>l. l\<lparr>lic_valid_to := Some day\<rparr>) t)"
proof -
  have "unique_where (\<lambda>l. lic_valid_to l = None) lic_deployment_id
      (update_rows (is_open did) (\<lambda>l. l\<lparr>lic_valid_to := Some day\<rparr>) t)"
    using assms(1) by (intro unique_where_update) (simp_all add: licenses_ok_def)
  then show ?thesis
    using assms by (auto simp: licenses_ok_def table_simps exists_row_def is_open_def not_less)
qed

lemma licenses_opened:
  assumes "licenses_ok t" "\<not> exists_row (is_open did) t"
  shows "licenses_ok (insert_row (new_license did body day price currency) t)"
proof -
  have u: "unique_where (\<lambda>l. lic_valid_to l = None) lic_deployment_id t" using assms(1) by (simp add: licenses_ok_def)
  have "lic_deployment_id (new_license did body day price currency i) = did" for i by (simp add: new_license_def)
  then have "\<not> exists_row (\<lambda>r. lic_valid_to r = None \<and>
      lic_deployment_id r = lic_deployment_id (new_license did body day price currency (tbl_seq t))) t"
    using assms(2) by (simp add: exists_row_def is_open_def conj_commute)
  with u have "unique_where (\<lambda>l. lic_valid_to l = None) lic_deployment_id
      (insert_row (new_license did body day price currency) t)"
    by (intro unique_where_insert)
  then show ?thesis using assms(1) by (simp add: licenses_ok_def table_simps new_license_def)
qed

lemma none_open_after: "\<not> exists_row (is_open did) (update_rows (is_open did) (\<lambda>l. l\<lparr>lic_valid_to := Some day\<rparr>) t)"
proof -
  have "\<not> is_open did (if is_open did l then l\<lparr>lic_valid_to := Some day\<rparr> else l)" for l
    by (simp add: is_open_def)
  then show ?thesis unfolding exists_row_def table_simps set_map by blast
qed

lemma bind_close_license:
  "bind_s (close_license did day) k s =
     (if exists_row (\<lambda>l. is_open did l \<and> day < lic_valid_from l) (deployment_licenses s) then (s, Inl DatabaseError)
      else k () (s\<lparr>deployment_licenses :=
        update_rows (is_open did) (\<lambda>l. l\<lparr>lic_valid_to := Some day\<rparr>) (deployment_licenses s)\<rparr>))"
  by (simp add: close_license_def bind_s_apply)

lemma declare_license_rules: "evolves keeps_rules (declare_license env p wire_id body)"
proof -
  have l: "evolves keeps_rules (licensed_user lid ref)" for lid ref
    unfolding licensed_user_def by (rule evolves_writes) (simp add: keeps_rules_def config_ok_def Let_def)
  have r: "evolves keeps_rules
      (bind_s (close_license did day) (\<lambda>_. bind_s (lift_r a) (\<lambda>_. bind_s (lift_r b) (\<lambda>price. bind_s (lift_r c) (\<lambda>currency.
       bind_s (reads (\<lambda>s. tbl_seq (deployment_licenses s))) (\<lambda>lid.
       bind_s (writes (\<lambda>s. s\<lparr>deployment_licenses :=
           insert_row (new_license did body day price currency) (deployment_licenses s)\<rparr>)) (\<lambda>_.
       bind_s (for_each (licensed_user lid) refs) (\<lambda>_. ret lid))))))))"
    for did day and a :: "int result" and b c refs
    unfolding evolves_def
  proof
    fix s :: sys
    let ?t = "s\<lparr>deployment_licenses := update_rows (is_open did) (\<lambda>l. l\<lparr>lic_valid_to := Some day\<rparr>) (deployment_licenses s)\<rparr>"
    let ?u = "\<lambda>price currency. ?t\<lparr>deployment_licenses :=
      insert_row (new_license did body day price currency) (deployment_licenses ?t)\<rparr>"
    have e: "evolves keeps_rules (bind_s (for_each (licensed_user lid) refs) (\<lambda>_. ret lid))" for lid
      by (intro rules.bind rules.loop l rules.basic)
    have "keeps_rules (?u price currency) (fst (bind_s (for_each (licensed_user lid) refs) (\<lambda>_. ret lid) (?u price currency)))"
      for price currency lid
      using e by (simp add: evolves_def)
    moreover have "keeps_rules s ?t \<and> keeps_rules s (?u price currency)"
      if "\<not> exists_row (\<lambda>l. is_open did l \<and> day < lic_valid_from l) (deployment_licenses s)" for price currency
      using that licenses_closed licenses_opened none_open_after by (simp add: keeps_rules_def config_ok_def)
    ultimately have facts:
      "\<And>price currency lid. keeps_rules (?u price currency)
         (fst (bind_s (for_each (licensed_user lid) refs) (\<lambda>_. ret lid) (?u price currency)))"
      "\<not> exists_row (\<lambda>l. is_open did l \<and> day < lic_valid_from l) (deployment_licenses s) \<Longrightarrow>
         keeps_rules s ?t \<and> keeps_rules s (?u price currency)" for price currency
      by blast+
    show "keeps_rules s (fst (bind_s (close_license did day) (\<lambda>_. bind_s (lift_r a) (\<lambda>_.
       bind_s (lift_r b) (\<lambda>price. bind_s (lift_r c) (\<lambda>currency.
       bind_s (reads (\<lambda>s. tbl_seq (deployment_licenses s))) (\<lambda>lid.
       bind_s (writes (\<lambda>s. s\<lparr>deployment_licenses :=
           insert_row (new_license did body day price currency) (deployment_licenses s)\<rparr>)) (\<lambda>_.
       bind_s (for_each (licensed_user lid) refs) (\<lambda>_. ret lid))))))) s))"
    proof (cases "exists_row (\<lambda>l. is_open did l \<and> day < lic_valid_from l) (deployment_licenses s)")
      case True
      then show ?thesis by (simp add: bind_close_license rules.refl)
    next
      case False
      note step = facts(2) [OF this] and tail = facts(1)
      have all: "keeps_rules s (fst (bind_s (for_each (licensed_user lid) refs) (\<lambda>_. ret lid)
          (s\<lparr>deployment_licenses := insert_row (new_license did body day price currency)
             (update_rows (is_open did) (\<lambda>l. l\<lparr>lic_valid_to := Some day\<rparr>) (deployment_licenses s))\<rparr>)))"
        for price currency lid
        using rules.trans [OF step [THEN conjunct2] tail] by simp
      from False show ?thesis
        by (cases a; cases b; cases c) (simp_all add: bind_close_license step all)
    qed
  qed
  show ?thesis unfolding declare_license_def
    by (intro rules.bind rules.in_transaction rules.basic r)
qed

lemma register_id_namespace_rules: "evolves keeps_rules (register_id_namespace p body)"
  unfolding register_id_namespace_def
  by (intro rules.in_transaction rules.guarded rules.bind rules.basic)
    (auto simp: keeps_rules_def config_ok_def namespace_key_def new_namespace_def intro!: unique_where_insert)

lemma parameter_added:
  assumes "parameters_ok t" "\<not> exists_row (\<lambda>r. par_workspace_id r = p_workspace_id p \<and> par_effective_from r = day) t"
  shows "parameters_ok (append_version (\<lambda>r. par_key r = p_workspace_id p) par_version (new_parameter p body day currency) t)"
  using assms unfolding parameters_ok_def
  by (intro conjI param_store.wf) (auto simp: append_version_def exists_row_def new_parameter_def intro!: unique_where_insert)

lemma create_parameter_version_rules: "evolves keeps_rules (create_parameter_version env p body)"
proof (cases "''finance_params'' \<in> set (p_roles p)")
  case True
  have add: "keeps_rules s (s\<lparr>parameter_sets := append_version (\<lambda>r. par_key r = p_workspace_id p) par_version
          (new_parameter p body day currency) (parameter_sets s)\<rparr>)"
    if "\<not> exists_row (\<lambda>r. par_workspace_id r = p_workspace_id p \<and> par_effective_from r = day) (parameter_sets s)"
    for s day currency
    using that by (simp add: keeps_rules_def config_ok_def parameter_added)
  from True show ?thesis unfolding create_parameter_version_def
    by (simp, intro rules.in_transaction rules.guarded rules.bind rules.basic)
      (auto simp: bind_s_lift add rules.refl split: sum.splits)
qed (simp add: create_parameter_version_def rules.basic)

lemma register_label_schema_rules: "evolves keeps_rules (register_label_schema p body)"
  unfolding register_label_schema_def
  by (intro rules.in_transaction rules.guarded rules.bind rules.basic) (auto simp: keeps_rules_def config_ok_def)

lemma delete_webhook_rules: "evolves keeps_rules (delete_webhook p wire_id)"
  unfolding delete_webhook_def
  by (auto intro!: rules.bind rules.in_transaction rules.basic evolves_writes unique_where_update
      simp: keeps_rules_def config_ok_def)

lemma supersede_rules: "evolves keeps_rules (supersede p cid old)"
  unfolding supersede_def
  by (auto intro!: rules.bind rules.basic evolves_writes simp: keeps_rules_def config_ok_def)

lemma link_change_rules: "evolves keeps_rules (link_change p cid dref)"
  unfolding link_change_def
  by (auto intro!: rules.bind rules.basic evolves_writes simp: keeps_rules_def config_ok_def)

lemma declare_change_event_rules: "evolves keeps_rules (declare_change_event env p body)"
  unfolding declare_change_event_def
  by (auto intro!: rules.bind rules.in_transaction rules.basic rules.loop evolves_writes supersede_rules link_change_rules
      simp: keeps_rules_def config_ok_def)

lemma create_mapping_contract_rules: "evolves keeps_rules (create_mapping_contract p body)"
  unfolding create_mapping_contract_def
  by (intro rules.in_transaction rules.guarded rules.bind rules.basic)
    (auto simp: keeps_rules_def config_ok_def mapping_key_def new_mapping_def bind_s_lift split: sum.splits
      intro!: unique_where_insert)

lemma create_webhook_rules: "evolves keeps_rules (create_webhook env p body)"
proof -
  have add: "keeps_rules s (s\<lparr>webhooks := insert_row (new_webhook p body ref secret) (webhooks s)\<rparr>)"
    if "fetch_one (same_subscription p body) (webhooks s) = None" for s ref secret
    using that by (auto simp: keeps_rules_def config_ok_def fetch_one_None same_subscription_def exists_row_def
        new_webhook_def intro!: unique_where_insert)
  have w: "evolves keeps_rules (bind_s (reads (\<lambda>s. fetch_one (same_subscription p body) (webhooks s))) (\<lambda>existing.
      case existing of Some w \<Rightarrow> ret (a w) | None \<Rightarrow>
        bind_s (query h) (\<lambda>ref. bind_s (lift_r x) (\<lambda>secret.
        bind_s (reads (\<lambda>s. exists_row (\<lambda>w. wh_ref w = ref) (webhooks s))) (\<lambda>clash.
          if clash then raise e
          else bind_s (writes (\<lambda>s. s\<lparr>webhooks := insert_row (new_webhook p body ref secret) (webhooks s)\<rparr>))
            (\<lambda>_. ret (b ref)))))))" for a b h x e
    using add by (auto simp: evolves_def bind_s_lift rules.refl split: option.splits sum.splits)
  show ?thesis unfolding create_webhook_def
    by (intro rules.in_transaction w rules.bind rules.basic)
qed

lemmas config_rules = register_deployment_rules update_deployment_rules upsert_roster_rules declare_license_rules
  register_id_namespace_rules create_parameter_version_rules register_label_schema_rules create_webhook_rules
  delete_webhook_rules declare_change_event_rules create_mapping_contract_rules

text \<open>Requests of any principals.\<close>

definition any_step :: "config_env \<Rightarrow> sys \<Rightarrow> sys \<Rightarrow> bool" where
  "any_step env s t \<longleftrightarrow> (\<exists>p. config_step env p s t)"

lemma config_step_rules: "config_step env p s t \<Longrightarrow> keeps_rules s t"
  by (induction rule: config_step.induct) (rule evolvesD, rule config_rules, assumption)+

lemma any_steps_rules: "(any_step env)\<^sup>*\<^sup>* s t \<Longrightarrow> keeps_rules s t"
  by (induction rule: rtranclp_induct) (auto simp: any_step_def intro: rules.refl rules.trans config_step_rules)

text \<open>
  C19: The rules of the configuration hold after any requests of anyone, and the handlers keep
  them by themselves: references and external references are unique, a person once per
  reference, an active identifier has one owner, a scope one active namespace, a deployment
  at most one license in force with closed ones ending no earlier than they began, the
  parameter versions of a workspace are \<open>1, 2, ..., n\<close> with distinct first days, and a
  subscription and a mapping contract version exist once.
\<close>

theorem config_rules_kept:
  assumes "(any_step env)\<^sup>*\<^sup>* s t" and "config_ok s"
  shows "config_ok t \<and>
    (\<forall>a \<in> set (tbl_rows (user_identifiers t)). \<forall>b \<in> set (tbl_rows (user_identifiers t)).
       ident_status a = Record_Active \<and> ident_status b = Record_Active \<and> ident_workspace_id a = ident_workspace_id b
       \<and> ident_namespace a = ident_namespace b \<and> ident_value a = ident_value b \<longrightarrow> ident_user_id a = ident_user_id b)
    \<and> (\<forall>did. length (filter (\<lambda>l. lic_deployment_id l = did \<and> lic_valid_to l = None)
         (tbl_rows (deployment_licenses t))) \<le> 1)
    \<and> (\<forall>ws. versions_of par_key par_version ws (parameter_sets t)
         = first_versions (length (versions_of par_key par_version ws (parameter_sets t))))"
proof -
  have t: "config_ok t" using any_steps_rules [OF assms(1)] assms(2) by (simp add: keeps_rules_def)
  have "ident_user_id a = ident_user_id b"
    if "a \<in> set (tbl_rows (user_identifiers t))" "b \<in> set (tbl_rows (user_identifiers t))"
      "ident_status a = Record_Active" "ident_status b = Record_Active" "ident_workspace_id a = ident_workspace_id b"
      "ident_namespace a = ident_namespace b" "ident_value a = ident_value b" for a b
    using t that by (auto simp: config_ok_def identifiers_ok_def unique_where_def distinct_map inj_on_def)
  moreover have "length (filter (\<lambda>l. lic_deployment_id l = did \<and> lic_valid_to l = None) ls) \<le> 1"
    if "distinct (map lic_deployment_id (filter (\<lambda>l. lic_valid_to l = None) ls))" for did and ls :: "license_row list"
    using that
  proof (induction ls)
    case (Cons l ls)
    have "filter (\<lambda>l. lic_deployment_id l = did \<and> lic_valid_to l = None) ls = []"
      if "lic_deployment_id l = did" "lic_valid_to l = None"
    proof -
      have "did \<notin> lic_deployment_id ` set (filter (\<lambda>l. lic_valid_to l = None) ls)" using Cons.prems that by simp
      then show ?thesis unfolding filter_empty_conv by auto
    qed
    then show ?case using Cons by (auto split: if_splits)
  qed simp
  then have "length (filter (\<lambda>l. lic_deployment_id l = did \<and> lic_valid_to l = None)
         (tbl_rows (deployment_licenses t))) \<le> 1" for did
    using t by (simp add: config_ok_def licenses_ok_def unique_where_def)
  moreover have "\<forall>ws. versions_of par_key par_version ws (parameter_sets t)
         = first_versions (length (versions_of par_key par_version ws (parameter_sets t)))"
    using t by (simp add: config_ok_def parameters_ok_def wf_versions_def)
  ultimately show ?thesis using t by blast
qed

section \<open>Licenses\<close>

definition same_books :: "sys \<Rightarrow> sys \<Rightarrow> bool" where
  "same_books s t \<longleftrightarrow> deployment_licenses t = deployment_licenses s \<and> deployments t = deployments s"

interpretation books: evolution same_books
  by unfold_locales (simp_all add: same_books_def)

lemma licensed_users_books: "evolves same_books (for_each (licensed_user lid) refs)"
  by (rule books.loop) (auto simp: licensed_user_def same_books_def Let_def intro!: evolves_writes)

lemma declare_license_Inr:
  assumes "declare_license env p wire_id body s = (t, Inr a)" "resolve_deployment p wire_id s = Inr d"
    and "cfg_date env (ld_valid_from body) = Inr day"
  obtains price currency where "opt_r (cfg_numeric env) (ld_price_per_seat body) = Inr price"
    "deployment_licenses t = insert_row (new_license (dep_id d) body day price currency)
       (update_rows (is_open (dep_id d)) (\<lambda>l. l\<lparr>lic_valid_to := Some day\<rparr>) (deployment_licenses s))"
    "deployments t = deployments s"
proof -
  let ?close = "update_rows (is_open (dep_id d)) (\<lambda>l. l\<lparr>lic_valid_to := Some day\<rparr>) (deployment_licenses s)"
  obtain price currency lid u r where
    b: "opt_r (cfg_numeric env) (ld_price_per_seat body) = Inr price"
      "for_each (licensed_user lid) (ld_licensed_users body)
         (s\<lparr>deployment_licenses := insert_row (new_license (dep_id d) body day price currency) ?close\<rparr>) = (t, Inr r)"
    using assms
    by (auto simp: declare_license_def bind_s_Inr_iff transaction_Inr_iff close_license_def split: if_splits)
  have "same_books (s\<lparr>deployment_licenses := insert_row (new_license (dep_id d) body day price currency) ?close\<rparr>) t"
    using books.after [OF licensed_users_books b(2)] .
  with b(1) show thesis by (intro that) (simp_all add: same_books_def)
qed

text \<open>
  A declared license reads back, and history is kept. After a successful declaration
  the deployment's license is the one declared, the one before is closed at the new first
  day and every other license row is as it was; a declaration that starts before the license
  in force does not get through.
\<close>

theorem license_declared:
  assumes "resolve_deployment p wire_id s = Inr d" and "cfg_date env (ld_valid_from body) = Inr day"
  shows "(\<forall>t a. declare_license env p wire_id body s = (t, Inr a) \<longrightarrow>
       (\<exists>l. fetch_one (is_open (dep_id d)) (deployment_licenses t) = Some l \<and> lic_seats_paid l = ld_seats_paid body
          \<and> lic_valid_from l = day \<and> lic_per_month l = ld_per_month body
          \<and> opt_r (cfg_numeric env) (ld_price_per_seat body) = Inr (lic_price_per_seat l)
          \<and> tbl_rows (deployment_licenses t) =
              map (\<lambda>r. if is_open (dep_id d) r then r\<lparr>lic_valid_to := Some day\<rparr> else r) (tbl_rows (deployment_licenses s))
              @ [l]
          \<and> get_license env p wire_id t = bind_r (license_fields env l) (\<lambda>fs. Inr (200, JObj fs, Some wire_id))))
     \<and> ((\<exists>l \<in> set (tbl_rows (deployment_licenses s)). is_open (dep_id d) l \<and> day < lic_valid_from l) \<longrightarrow>
          declare_license env p wire_id body s = (s, Inl DatabaseError))"
proof (intro conjI allI impI)
  fix t a
  assume run: "declare_license env p wire_id body s = (t, Inr a)"
  obtain price currency where t: "opt_r (cfg_numeric env) (ld_price_per_seat body) = Inr price"
    "deployment_licenses t = insert_row (new_license (dep_id d) body day price currency)
       (update_rows (is_open (dep_id d)) (\<lambda>l. l\<lparr>lic_valid_to := Some day\<rparr>) (deployment_licenses s))"
    "deployments t = deployments s"
    using declare_license_Inr [OF run assms(1,2)] by blast
  let ?closed = "map (\<lambda>r. if is_open (dep_id d) r then r\<lparr>lic_valid_to := Some day\<rparr> else r) (tbl_rows (deployment_licenses s))"
  let ?l = "new_license (dep_id d) body day price currency (tbl_seq (deployment_licenses s))"
  have rows: "tbl_rows (deployment_licenses t) = ?closed @ [?l]" by (simp add: t(2) table_simps)
  have "\<forall>r \<in> set ?closed. \<not> is_open (dep_id d) r"
    using none_open_after [of "dep_id d" day "deployment_licenses s"] by (simp only: exists_row_def table_simps) blast
  then have "find (is_open (dep_id d)) ?closed = None" by (simp only: find_None_iff) blast
  then have f: "fetch_one (is_open (dep_id d)) (deployment_licenses t) = Some ?l"
    by (simp add: fetch_one_def rows find_append is_open_def new_license_def del: find_None_iff)
  have "resolve_deployment p wire_id t = Inr d" using assms(1) t(3) by (simp add: resolve_deployment_def)
  then have "get_license env p wire_id t = bind_r (license_fields env ?l) (\<lambda>fs. Inr (200, JObj fs, Some wire_id))"
    using f by (simp add: get_license_def)
  with f rows t(1) show "\<exists>l. fetch_one (is_open (dep_id d)) (deployment_licenses t) = Some l \<and> lic_seats_paid l = ld_seats_paid body
      \<and> lic_valid_from l = day \<and> lic_per_month l = ld_per_month body
      \<and> opt_r (cfg_numeric env) (ld_price_per_seat body) = Inr (lic_price_per_seat l)
      \<and> tbl_rows (deployment_licenses t) = ?closed @ [l]
      \<and> get_license env p wire_id t = bind_r (license_fields env l) (\<lambda>fs. Inr (200, JObj fs, Some wire_id))"
    by (intro exI [of _ ?l]) (simp add: new_license_def)
next
  assume "\<exists>l \<in> set (tbl_rows (deployment_licenses s)). is_open (dep_id d) l \<and> day < lic_valid_from l"
  then have "exists_row (\<lambda>l. is_open (dep_id d) l \<and> day < lic_valid_from l) (deployment_licenses s)"
    by (simp add: exists_row_def)
  then show "declare_license env p wire_id body s = (s, Inl DatabaseError)"
    using assms(1,2) by (simp add: declare_license_def bind_s_def transaction_def close_license_def)
qed

section \<open>Registration is idempotent\<close>

lemma insert_deployment_Inr_iff:
  "insert_deployment mk s = (u, Inr i) \<longleftrightarrow> i = tbl_seq (deployments s) \<and> \<not> deployment_clash (mk i) s
     \<and> u = s\<lparr>deployments := insert_row mk (deployments s)\<rparr>"
  by (auto simp: insert_deployment_def)

definition same_deployments :: "sys \<Rightarrow> sys \<Rightarrow> bool" where
  "same_deployments s t \<longleftrightarrow> deployments t = deployments s"

interpretation deps: evolution same_deployments
  by unfold_locales (simp_all add: same_deployments_def)

lemma link_service_users_deps: "evolves same_deployments (for_each (link_service_user p did) refs)"
  by (rule deps.loop) (auto simp: evolves_def link_service_user_def same_deployments_def split: option.splits)

text \<open>
  A deployment registered with an external reference is registered once. After a successful
  registration every other one of the workspace with the same external reference, whatever
  else it says, is answered as already applied with the reference of the first, and changes
  nothing.
\<close>

theorem registration_idempotent:
  assumes "register_deployment env p body s = (t, Inr a)" and "present (dc_external_ref body)"
    and "dc_external_ref again = dc_external_ref body" and "p_workspace_id q = p_workspace_id p"
  shows "\<exists>d \<in> set (tbl_rows (deployments t)). dep_workspace_id d = p_workspace_id p
     \<and> dep_external_ref d = dc_external_ref body \<and> a = answer 201 [(''deployment_id'', JStr (dep_ref d)),
         (''type'', JStr (deployment_type_str (dep_type d))), (''mode'', JStr (deployment_mode_str (dep_mode d)))]
     \<and> register_deployment env' q again t = (t, Inl (tf_raise ''TF-CFG-003'' (Some ''external_ref'') None
         (Some (''already applied: '' @ dep_ref d))))"
proof -
  obtain ref planned_at us where b: "already_registered p body s = Inr ()"
    "for_each (link_service_user p (tbl_seq (deployments s))) (dc_service_users body)
       (s\<lparr>deployments := insert_row (new_deployment p body ref planned_at) (deployments s)\<rparr>) = (t, Inr us)"
    "a = answer 201 [(''deployment_id'', JStr ref), (''type'', JStr (deployment_type_str (dc_type body))),
           (''mode'', JStr (if present (dc_planned_rollout body) then ''planned'' else ''measured''))]"
    using assms(1) by (auto simp: register_deployment_def transaction_Inr_iff bind_s_Inr_iff insert_deployment_Inr_iff
        split del: if_split)
  let ?d = "new_deployment p body ref planned_at (tbl_seq (deployments s))"
  have rows: "tbl_rows (deployments t) = tbl_rows (deployments s) @ [?d]"
    using deps.after [OF link_service_users_deps b(2)] by (simp add: same_deployments_def table_simps)
  have none: "fetch_one (\<lambda>d. dep_workspace_id d = p_workspace_id p \<and> dep_external_ref d = dc_external_ref body) (deployments s) = None"
    using b(1) assms(2) by (simp add: already_registered_def split: option.splits)
  have "fetch_one (\<lambda>d. dep_workspace_id d = p_workspace_id p \<and> dep_external_ref d = dc_external_ref body) (deployments t) = Some ?d"
    using none by (simp add: fetch_one_def rows find_append new_deployment_def)
  then have "register_deployment env' q again t = (t, Inl (tf_raise ''TF-CFG-003'' (Some ''external_ref'') None
         (Some (''already applied: '' @ dep_ref ?d))))"
    using assms(2-4) by (simp add: register_deployment_def already_registered_def bind_s_lift transaction_def)
  then show ?thesis
    using b(3) by (intro bexI [of _ ?d]) (simp_all add: rows new_deployment_def)
qed

section \<open>Roster batches\<close>

definition same_owners :: "sys \<Rightarrow> sys \<Rightarrow> bool" where
  "same_owners s t \<longleftrightarrow> (\<exists>new. tbl_rows (user_identifiers t) = tbl_rows (user_identifiers s) @ new)"

interpretation owners: evolution same_owners
  by unfold_locales (auto simp: same_owners_def)

lemma upsert_user_owners: "evolves same_owners (upsert_user env p item)"
  unfolding upsert_user_def by (auto intro!: owners.bind owners.basic evolves_writes simp: same_owners_def)

lemma claim_identifier_owners: "evolves same_owners (claim_identifier p uid ident)"
  unfolding claim_identifier_def
  by (auto intro!: owners.bind owners.basic evolves_writes simp: same_owners_def table_simps split: option.splits)

lemma roster_item_cases:
  assumes "upsert_roster_item env p item s = (t, Inr r)"
  shows "r = JObj [(''user_ref'', JStr (ru_user_ref item)), (''status'', JStr ''upserted'')] \<and> same_owners s t
     \<or> (\<exists>err. r = JObj [(''user_ref'', JStr (ru_user_ref item)), (''status'', JStr ''rejected''),
            (''error'', to_error_object err)]) \<and> t = s"
proof -
  let ?m = "bind_s (upsert_user env p item) (\<lambda>uid. for_each (claim_identifier p uid) (ru_identifiers item))"
  obtain u x where m: "transaction ?m s = (u, x)" by (cases "transaction ?m s")
  have "same_owners s u"
    using owners.after [OF owners.in_transaction [OF owners.bind [OF upsert_user_owners owners.loop [OF claim_identifier_owners]]] m] .
  moreover have "u = s" if "x = Inl e" for e using m that by (simp add: transaction_Inl_iff)
  ultimately show ?thesis
    using assms m by (cases x) (auto simp: upsert_roster_item_def catch_def bind_s_apply split: exn.splits)
qed

text \<open>
  A roster batch answers every person in order, and each is all or nothing. When the batch
  is answered there is one result per person, in the order sent; a rejected person leaves the
  state exactly as it was before; and no identifier row, so no owner of an identifier, is
  changed or removed.
\<close>

theorem roster_batch_atomic:
  assumes "upsert_roster env p items s = (t, Inr a)"
  shows "\<exists>rs states. a = listing rs \<and> length rs = length items \<and> length states = Suc (length items)
     \<and> hd states = s \<and> last states = t \<and> same_owners s t
     \<and> (\<forall>i < length items.
          upsert_roster_item env p (items ! i) (states ! i) = (states ! Suc i, Inr (rs ! i))
        \<and> (rs ! i = JObj [(''user_ref'', JStr (ru_user_ref (items ! i))), (''status'', JStr ''upserted'')]
           \<or> (\<exists>err. rs ! i = JObj [(''user_ref'', JStr (ru_user_ref (items ! i))), (''status'', JStr ''rejected''),
                  (''error'', to_error_object err)]) \<and> states ! Suc i = states ! i))"
proof -
  obtain rs where rs: "for_each (upsert_roster_item env p) items s = (t, Inr rs)" "a = listing rs"
    using assms by (auto simp: upsert_roster_def bind_s_Inr_iff)
  have "\<exists>states. length rs = length items \<and> length states = Suc (length items) \<and> hd states = s \<and> last states = t
     \<and> same_owners s t
     \<and> (\<forall>i < length items. upsert_roster_item env p (items ! i) (states ! i) = (states ! Suc i, Inr (rs ! i)))"
    using rs(1)
  proof (induction items arbitrary: s rs)
    case Nil
    then show ?case by (intro exI [of _ "[s]"]) (simp add: owners.refl)
  next
    case (Cons item items)
    then obtain u r rs' where u: "upsert_roster_item env p item s = (u, Inr r)"
      "for_each (upsert_roster_item env p) items u = (t, Inr rs')" "rs = r # rs'"
      by (auto simp: bind_s_Inr_iff)
    obtain states where st: "length rs' = length items" "length states = Suc (length items)" "hd states = u"
      "last states = t" "same_owners u t"
      "\<forall>i < length items. upsert_roster_item env p (items ! i) (states ! i) = (states ! Suc i, Inr (rs' ! i))"
      using Cons.IH [OF u(2)] by blast
    have "same_owners s u" using roster_item_cases [OF u(1)] owners.refl by blast
    then have "same_owners s t" using st(5) owners.trans by blast
    moreover have "states ! 0 = u" "states \<noteq> []" using st(2,3) by (cases states; simp)+
    ultimately show ?case
      using st u by (intro exI [of _ "s # states"]) (auto simp: nth_Cons less_Suc_eq_0_disj split: nat.splits)
  qed
  then obtain states where st: "length rs = length items" "length states = Suc (length items)" "hd states = s"
    "last states = t" "same_owners s t"
    "\<forall>i < length items. upsert_roster_item env p (items ! i) (states ! i) = (states ! Suc i, Inr (rs ! i))"
    by blast
  have "rs ! i = JObj [(''user_ref'', JStr (ru_user_ref (items ! i))), (''status'', JStr ''upserted'')]
     \<or> (\<exists>err. rs ! i = JObj [(''user_ref'', JStr (ru_user_ref (items ! i))), (''status'', JStr ''rejected''),
            (''error'', to_error_object err)]) \<and> states ! Suc i = states ! i" if "i < length items" for i
    using roster_item_cases [of env p "items ! i" "states ! i"] st(6) that by blast
  with rs(2) st show ?thesis by (intro exI [of _ rs] exI [of _ states]) blast
qed

section \<open>Deleted subscriptions\<close>

text \<open>
  A deleted subscription cannot be had again. Once it is deleted, creating one with the
  same URL and events answers with the deleted one as if it were there, adds nothing, and
  neither the verification challenge nor any emission ever takes it up.
\<close>

theorem deleted_webhook_is_final:
  assumes "delete_webhook p wire_id s = (t, Inr a)" and "config_ok s"
    and "w \<in> set (tbl_rows (webhooks s))" "deletable p wire_id w"
    and "wc_url body = wh_url w" "wc_events body = wh_events w" "check_event_types (wc_events body) = Inr ()"
  shows "create_webhook env p body t =
       (t, Inr (answer 200 [(''webhook_id'', JStr wire_id), (''idempotent'', JBool True)]))
     \<and> verify_webhook henv wire_id (p_workspace_id p) sender t = (t, Inr False)
     \<and> (\<forall>etype. \<forall>h \<in> set (subscribers (p_workspace_id p) etype t). wh_ref h \<noteq> wire_id)"
proof -
  let ?f = "\<lambda>v. if deletable p wire_id v then v\<lparr>wh_status := Deleted\<rparr> else v"
  have rows: "tbl_rows (webhooks t) = map ?f (tbl_rows (webhooks s))"
    using assms(1) by (auto simp: delete_webhook_def transaction_Inr_iff bind_s_Inr_iff table_simps split: if_splits)
  have none: "\<not> deletable p wire_id v" if "v \<in> set (tbl_rows (webhooks t))" for v
  proof -
    from that obtain x where "v = ?f x" unfolding rows set_map by (rule imageE)
    then show ?thesis by (simp add: deletable_def)
  qed
  have w: "same_subscription p body (?f w)" "?f w \<in> set (tbl_rows (webhooks t))"
    using assms(3-6) by (auto simp: same_subscription_def deletable_def rows)
  then have "fetch_one (same_subscription p body) (webhooks t) \<noteq> None"
    unfolding fetch_one_None by blast
  then obtain v where v: "fetch_one (same_subscription p body) (webhooks t) = Some v" by blast
  then have vt: "v \<in> set (tbl_rows (webhooks t))" "same_subscription p body v" by (auto dest: fetch_one_Some)
  have "unique_where (\<lambda>_. True) (\<lambda>w. (wh_workspace_id w, wh_url w, wh_events w)) (webhooks t)"
    using rules.after [OF delete_webhook_rules assms(1)] assms(2) by (simp add: keeps_rules_def config_ok_def)
  then have "v = ?f w"
    using vt w by (auto simp: unique_where_def distinct_map inj_on_def same_subscription_def)
  then have ref: "wh_ref v = wire_id" using assms(4) by (simp add: deletable_def)
  have create: "create_webhook env p body t =
       (t, Inr (answer 200 [(''webhook_id'', JStr wire_id), (''idempotent'', JBool True)]))"
    using assms(7) v ref by (simp add: create_webhook_def transaction_def)
  have "fetch_one (\<lambda>w. wh_ref w = wire_id \<and> wh_workspace_id w = p_workspace_id p \<and> wh_status w = Unverified) (webhooks t) = None"
    unfolding fetch_one_None using none by (auto simp: deletable_def)
  then have verify: "verify_webhook henv wire_id (p_workspace_id p) sender t = (t, Inr False)"
    by (simp add: verify_webhook_def)
  have "\<forall>etype. \<forall>h \<in> set (subscribers (p_workspace_id p) etype t). wh_ref h \<noteq> wire_id"
    using none by (auto simp: subscribers_def select_rows_def deletable_def)
  with create verify show ?thesis by blast
qed

section \<open>Changing the type of a deployment\<close>

text \<open>
  The type of a deployment never changes. With events the request is refused as immutable;
  without events, where the comment says the type may still change, the request is
  answered with success and the deployment keeps its type.
\<close>

theorem type_change_ignored:
  assumes "resolve_deployment p wire_id s = Inr d" and "ty \<noteq> deployment_type_str (dep_type d)"
  shows "update_deployment env p wire_id \<lparr>du_name = None, du_planned_rollout = None, du_type = Some ty\<rparr> s =
     (s, if exists_row (\<lambda>e. ev_deployment_id e = dep_id d) (events s)
         then Inl (tf_raise ''TF-CFG-006'' (Some ''type'') None (Some ''deployment_type immutable once events exist''))
         else Inr (answer 200 [(''deployment_id'', JStr wire_id), (''updated'', JBool False)]))"
proof -
  have "update_rows P (\<lambda>r. r\<lparr>dep_name := dep_name r, dep_planned_rollout := dep_planned_rollout r\<rparr>) t = t"
    for P and t :: "deployment_row table"
    by (simp add: update_rows_def map_idI)
  then show ?thesis
    using assms by (simp add: update_deployment_def transaction_def bind_s_lift type_change_allowed_def opt_r_def
        present_def)
qed

end
