(* ===== verification/Pipeline.thy ===== *)
theory Pipeline
  imports Ingest
begin

text \<open>
  Module \<^verbatim>\<open>domain/policies/pipeline.py\<close>: the worker that resolves the person behind an
  accepted event, joins its work item, settles its status and folds it into the three daily
  aggregates. One worker runs at a time. The value a NUMERIC column stores for a bound
  quantity is the parameter \<open>numeric\<close>.
\<close>

section \<open>Vocabulary\<close>

definition ITEM_BEARING :: "event_type set" where
  "ITEM_BEARING = {Activity, Lifecycle, Quality_Signal, Revenue_Signal}"

definition GAUGE_METERS :: "string list" where
  "GAUGE_METERS = [''seats_active'', ''storage_gb'']"

fun exclusion_by_type :: "user_type \<Rightarrow> exclusion_reason option" where
  "exclusion_by_type Shared_User = Some Shared_Account"
| "exclusion_by_type Service_User = Some Service_Account"
| "exclusion_by_type Bot_User = Some Bot_Account"
| "exclusion_by_type User_Account = None"

definition event_day :: "event_row \<Rightarrow> int" where
  "event_day e = instant_day (ev_occurred_at e)"

definition event_source :: "event_row \<Rightarrow> string" where
  "event_source e = (case ev_source_ref e of None \<Rightarrow> [] | Some r \<Rightarrow> r)"

text \<open>A value bound to a text comparison or column: only strings and null are accepted.\<close>

definition text_param :: "json \<Rightarrow> string option result" where
  "text_param j = (case j of JStr s \<Rightarrow> Inr (Some s) | JNull \<Rightarrow> Inr None | _ \<Rightarrow> Inl DatabaseError)"

section \<open>Identity\<close>

definition find_user :: "sys \<Rightarrow> event_row \<Rightarrow> string \<Rightarrow> string \<Rightarrow> int option" where
  "find_user s e field v =
     (let ns = map_option ns_namespace
                 (applicable_row s (ev_workspace_id e) (ev_deployment_id e) field (event_source e));
          row = (case ns of
                   Some n \<Rightarrow> fetch_one (\<lambda>r. ident_workspace_id r = ev_workspace_id e \<and> ident_namespace r = n
                               \<and> ident_value r = v \<and> ident_status r = Record_Active) (user_identifiers s)
                 | None \<Rightarrow> fetch_one (\<lambda>r. ident_workspace_id r = ev_workspace_id e
                               \<and> ident_value r = v \<and> ident_status r = Record_Active) (user_identifiers s))
      in case row of
           Some r \<Rightarrow> Some (ident_user_id r)
         | None \<Rightarrow> map_option user_id
             (fetch_one (\<lambda>u. user_workspace_id u = Some (ev_workspace_id e) \<and> user_ref u = v) (users s)))"

definition attribution :: "event_row \<Rightarrow> user_row \<Rightarrow> int option \<times> exclusion_reason option" where
  "attribution e u =
     (if user_status_of u = User_Blocked then (Some (user_id u), Some Unresolved_Identity)
      else if (case user_effective_to u of None \<Rightarrow> False | Some d \<Rightarrow> event_day e > d) then (None, None)
      else (Some (user_id u), exclusion_by_type (user_type_of u)))"

definition resolve_identity ::
  "event_row \<Rightarrow> sys \<Rightarrow> (int option \<times> exclusion_reason option) result" where
  "resolve_identity e s =
     (let field = (if ev_type e = Activity then ''user_ref'' else ''assignee_ref'');
          v = json_get_or (ev_payload e) field JNull
      in if \<not> truthy v then Inr (None, None)
         else bind_r (text_param v) (\<lambda>t.
           case find_user s e field (case t of Some x \<Rightarrow> x | None \<Rightarrow> []) of
             None \<Rightarrow> Inr (None, None)
           | Some uid \<Rightarrow>
               (case fetch_one (\<lambda>u. user_id u = uid) (users s) of
                  None \<Rightarrow> Inl AssertionError
                | Some u \<Rightarrow> Inr (attribution e u))))"

section \<open>Work items\<close>

definition wi_key :: "work_item_row \<Rightarrow> int \<times> string" where
  "wi_key w = (wi_workspace_id w, wi_ref w)"

definition new_item :: "int \<Rightarrow> string \<Rightarrow> string option \<Rightarrow> string option \<Rightarrow> int \<Rightarrow> work_item_row" where
  "new_item ws ref sz category i =
     \<lparr>wi_id = i, wi_workspace_id = ws, wi_ref = ref, wi_size = sz, wi_category = category\<rparr>"

definition coalesce :: "'a option \<Rightarrow> 'a option \<Rightarrow> 'a option" where
  "coalesce x y = (case x of None \<Rightarrow> y | Some _ \<Rightarrow> x)"

definition merge_item :: "string option \<Rightarrow> string option \<Rightarrow> work_item_row \<Rightarrow> work_item_row" where
  "merge_item sz category w =
     w\<lparr>wi_size := coalesce sz (wi_size w), wi_category := coalesce category (wi_category w)\<rparr>"

definition SIZES :: "string list" where "SIZES = [''xs'', ''s'', ''m'', ''l'', ''xl'']"

definition join_work_item :: "event_row \<Rightarrow> (sys, int option) st" where
  "join_work_item e =
     (if ev_type e \<notin> ITEM_BEARING then ret None
      else let v = json_get_or (ev_payload e) ''work_item_id'' JNull in
        if \<not> truthy v then ret None
        else
          bind_s (lift_r (text_param v)) (\<lambda>t.
          bind_s (lift_r (text_param (if ev_type e = Lifecycle
                            then json_get_or (ev_payload e) ''size_band'' JNull else JNull))) (\<lambda>sz.
          bind_s (lift_r (text_param (if ev_type e = Lifecycle
                            then json_get_or (ev_payload e) ''category'' JNull else JNull))) (\<lambda>category.
            if (case sz of None \<Rightarrow> False | Some x \<Rightarrow> x \<notin> set SIZES) then raise DatabaseError
            else
              let ref = (case t of Some x \<Rightarrow> x | None \<Rightarrow> []); ws = ev_workspace_id e in
              bind_s (writes (\<lambda>s. s\<lparr>work_items := upsert (\<lambda>w. wi_key w = (ws, ref))
                        (new_item ws ref sz category) (merge_item sz category) (work_items s)\<rparr>)) (\<lambda>_.
              reads (\<lambda>s. map_option wi_id (lookup_key wi_key (work_items s) (ws, ref))))))))"

section \<open>Aggregates\<close>

definition is_key :: "stats_row \<Rightarrow> int \<times> string \<times> int" where
  "is_key r = (is_deployment_id r, is_source_ref r, is_stat_date r)"

definition ua_key :: "user_activity_row \<Rightarrow> int \<times> int \<times> int" where
  "ua_key r = (ua_deployment_id r, ua_user_id r, ua_activity_date r)"

definition mu_key :: "meter_row \<Rightarrow> int \<times> string \<times> string \<times> int" where
  "mu_key r = (mu_deployment_id r, mu_meter_type r, mu_meter_ref r, mu_bucket_date r)"

definition of_bool_int :: "bool \<Rightarrow> int" where
  "of_bool_int b = (if b then 1 else 0)"

definition id_bearing :: "event_row \<Rightarrow> bool" where
  "id_bearing e = (truthy (json_get_or (ev_payload e) ''user_ref'' JNull)
     \<or> truthy (json_get_or (ev_payload e) ''assignee_ref'' JNull))"

definition new_stats :: "event_row \<Rightarrow> bool \<Rightarrow> int option \<Rightarrow> int \<Rightarrow> stats_row" where
  "new_stats e counted_resolved wi i =
     \<lparr>is_deployment_id = ev_deployment_id e, is_source_ref = event_source e, is_stat_date = event_day e,
      is_accepted = 1, is_identity_bearing = of_bool_int (id_bearing e),
      is_resolved = of_bool_int counted_resolved, is_activity = of_bool_int (ev_type e = Activity),
      is_joined = of_bool_int (wi \<noteq> None), is_last_event_at = ev_occurred_at e\<rparr>"

definition add_stats :: "event_row \<Rightarrow> bool \<Rightarrow> int option \<Rightarrow> stats_row \<Rightarrow> stats_row" where
  "add_stats e counted_resolved wi r =
     r\<lparr>is_accepted := is_accepted r + 1,
       is_identity_bearing := is_identity_bearing r + of_bool_int (id_bearing e),
       is_resolved := is_resolved r + of_bool_int counted_resolved,
       is_activity := is_activity r + of_bool_int (ev_type e = Activity),
       is_joined := is_joined r + of_bool_int (wi \<noteq> None),
       is_last_event_at := max (is_last_event_at r) (ev_occurred_at e)\<rparr>"

definition new_user_activity :: "event_row \<Rightarrow> int \<Rightarrow> int \<Rightarrow> user_activity_row" where
  "new_user_activity e uid i =
     \<lparr>ua_workspace_id = ev_workspace_id e, ua_deployment_id = ev_deployment_id e, ua_user_id = uid,
      ua_activity_date = event_day e, ua_event_count = 1\<rparr>"

text \<open>The range of \<^verbatim>\<open>NUMERIC(20,6)\<close> and the column's check.\<close>

definition store_numeric :: "rat \<Rightarrow> rat result" where
  "store_numeric q = (if q < 0 \<or> 100000000000000 \<le> q then Inl DatabaseError else Inr q)"

definition new_meter :: "event_row \<Rightarrow> string \<Rightarrow> string \<Rightarrow> rat \<Rightarrow> rat option \<Rightarrow> int \<Rightarrow> meter_row" where
  "new_meter e meter meter_ref quantity gauge i =
     \<lparr>mu_deployment_id = ev_deployment_id e, mu_meter_type = meter, mu_meter_ref = meter_ref,
      mu_bucket_date = event_day e, mu_quantity_sum = quantity, mu_gauge_last = gauge\<rparr>"

definition meter_name :: "payload \<Rightarrow> string result" where
  "meter_name p =
     bind_r (subscript p ''meter'') (\<lambda>m.
       case m of
         JStr x \<Rightarrow> if x \<in> set meters then Inr x else Inl DatabaseError
       | JList _ \<Rightarrow> Inl TypeError
       | JObj _ \<Rightarrow> Inl TypeError
       | _ \<Rightarrow> Inl DatabaseError)"

definition meter_ref_of :: "payload \<Rightarrow> string result" where
  "meter_ref_of p =
     (let v = json_get_or p ''meter_ref'' (JStr []) in
      if \<not> truthy v then Inr []
      else bind_r (text_param v) (\<lambda>t. Inr (case t of Some x \<Rightarrow> x | None \<Rightarrow> [])))"

definition update_meter :: "(json \<Rightarrow> rat result) \<Rightarrow> event_row \<Rightarrow> (sys, unit) st" where
  "update_meter numeric e =
     bind_s (lift_r (meter_name (ev_payload e))) (\<lambda>meter.
     bind_s (lift_r (meter_ref_of (ev_payload e))) (\<lambda>meter_ref.
     bind_s (lift_r (bind_r (numeric (json_get_or (ev_payload e) ''quantity'' (JInt 0))) store_numeric)) (\<lambda>qty.
       let k = (ev_deployment_id e, meter, meter_ref, event_day e) in
       if meter \<in> set GAUGE_METERS
       then writes (\<lambda>s. s\<lparr>meter_usage_daily := upsert (\<lambda>r. mu_key r = k)
              (new_meter e meter meter_ref 0 (Some qty)) (\<lambda>r. r\<lparr>mu_gauge_last := Some qty\<rparr>)
              (meter_usage_daily s)\<rparr>)
       else
         bind_s (reads (\<lambda>s. case lookup_key mu_key (meter_usage_daily s) k of
                   None \<Rightarrow> 0 | Some r \<Rightarrow> mu_quantity_sum r)) (\<lambda>so_far.
         bind_s (lift_r (store_numeric (so_far + qty))) (\<lambda>_.
           writes (\<lambda>s. s\<lparr>meter_usage_daily := upsert (\<lambda>r. mu_key r = k)
             (new_meter e meter meter_ref qty None) (\<lambda>r. r\<lparr>mu_quantity_sum := mu_quantity_sum r + qty\<rparr>)
             (meter_usage_daily s)\<rparr>))))))"

definition update_aggregates ::
  "(json \<Rightarrow> rat result) \<Rightarrow> event_row \<Rightarrow> int option \<Rightarrow> exclusion_reason option \<Rightarrow> int option \<Rightarrow> (sys, unit) st" where
  "update_aggregates numeric e uid excl wi =
     (let counted_resolved = (uid \<noteq> None \<and> excl = None) in
      bind_s (writes (\<lambda>s. s\<lparr>ingestion_stats_daily :=
        upsert (\<lambda>r. is_key r = (ev_deployment_id e, event_source e, event_day e))
          (new_stats e counted_resolved wi) (add_stats e counted_resolved wi) (ingestion_stats_daily s)\<rparr>)) (\<lambda>_.
      bind_s (case uid of
                Some u \<Rightarrow>
                  if ev_type e = Activity \<and> counted_resolved
                  then writes (\<lambda>s. s\<lparr>user_activity_daily :=
                    upsert (\<lambda>r. ua_key r = (ev_deployment_id e, u, event_day e)) (new_user_activity e u)
                      (\<lambda>r. r\<lparr>ua_event_count := ua_event_count r + 1\<rparr>) (user_activity_daily s)\<rparr>)
                  else ret ()
              | None \<Rightarrow> ret ()) (\<lambda>_.
        if ev_type e = Cost_Meter then update_meter numeric e else ret ())))"

section \<open>The worker\<close>

definition settled_status :: "int option \<Rightarrow> exclusion_reason option \<Rightarrow> pipeline_status" where
  "settled_status wi excl =
     (if excl \<noteq> None then Excluded else if wi \<noteq> None then Joined else Resolved)"

definition settle :: "event_row \<Rightarrow> int option \<Rightarrow> exclusion_reason option \<Rightarrow> int option \<Rightarrow> event_row" where
  "settle e uid excl wi =
     e\<lparr>ev_status := settled_status wi excl, ev_resolved_user_id := uid, ev_work_item_id := wi,
       ev_exclusion := excl\<rparr>"

definition process_event :: "(json \<Rightarrow> rat result) \<Rightarrow> event_row \<Rightarrow> (sys, pipeline_status) st" where
  "process_event numeric e =
     bind_s (query (resolve_identity e)) (\<lambda>(uid, excl).
     bind_s (join_work_item e) (\<lambda>wi.
     bind_s (writes (\<lambda>s. s\<lparr>events := update_rows
               (\<lambda>r. ev_id r = ev_id e \<and> ev_occurred_at r = ev_occurred_at e)
               (\<lambda>r. settle r uid excl wi) (events s)\<rparr>)) (\<lambda>_.
     bind_s (update_aggregates numeric e uid excl wi) (\<lambda>_.
       ret (settled_status wi excl)))))"

record pipeline_counts =
  pc_processed :: nat
  pc_resolved :: nat
  pc_joined :: nat
  pc_excluded :: nat

definition count_outcome :: "pipeline_status \<Rightarrow> pipeline_counts \<Rightarrow> pipeline_counts" where
  "count_outcome out c =
     (let c = c\<lparr>pc_processed := pc_processed c + 1\<rparr> in
      case out of
        Excluded \<Rightarrow> c\<lparr>pc_excluded := pc_excluded c + 1\<rparr>
      | Joined \<Rightarrow> c\<lparr>pc_joined := pc_joined c + 1\<rparr>
      | _ \<Rightarrow> c\<lparr>pc_resolved := pc_resolved c + 1\<rparr>)"

text \<open>\<^verbatim>\<open>ORDER BY occurred_at LIMIT 1\<close> over the accepted events.\<close>

definition next_event :: "sys \<Rightarrow> event_row option" where
  "next_event s = latest_by (\<lambda>e. - ev_occurred_at e) (select_rows (\<lambda>e. ev_status e = Accepted) (events s))"

text \<open>The loop runs while fewer than \<open>limit\<close> events are processed; each event in its transaction.\<close>

fun pipeline_loop :: "(json \<Rightarrow> rat result) \<Rightarrow> nat \<Rightarrow> pipeline_counts \<Rightarrow> (sys, pipeline_counts) st" where
  "pipeline_loop numeric 0 c = ret c"
| "pipeline_loop numeric (Suc n) c =
     bind_s (transaction
              (bind_s (reads next_event) (\<lambda>ev.
                 case ev of None \<Rightarrow> ret None
                 | Some e \<Rightarrow> bind_s (process_event numeric e) (\<lambda>out. ret (Some out))))) (\<lambda>step.
       case step of
         None \<Rightarrow> ret c
       | Some out \<Rightarrow> pipeline_loop numeric n (count_outcome out c))"

definition run_pipeline :: "(json \<Rightarrow> rat result) \<Rightarrow> nat \<Rightarrow> (sys, pipeline_counts) st" where
  "run_pipeline numeric limit =
     pipeline_loop numeric limit \<lparr>pc_processed = 0, pc_resolved = 0, pc_joined = 0, pc_excluded = 0\<rparr>"

end
