(* ===== verification/Decimals.thy ===== *)
theory Decimals
  imports Refs
begin

text \<open>
  Exact arithmetic as the engine meets it: Python's \<^verbatim>\<open>Decimal\<close> in its default context
  (28 significant digits, ties to even) and the columns of type \<^verbatim>\<open>NUMERIC(20,6)\<close>. A
  value is the rational it denotes.
\<close>

section \<open>Rounding\<close>

definition round_half_even :: "rat \<Rightarrow> int" where
  "round_half_even q =
     (let f = \<lfloor>q\<rfloor>; d = q - of_int f in
      if d < 1 / 2 then f else if 1 / 2 < d then f + 1 else if even f then f else f + 1)"

definition pow10 :: "int \<Rightarrow> rat" where
  "pow10 n = (if 0 \<le> n then 10 ^ nat n else 1 / 10 ^ nat (- n))"

text \<open>The number of digits before the decimal point, at most 0 for a positive value below one.\<close>

definition adjusted :: "rat \<Rightarrow> int" where
  "adjusted q = (if 1 \<le> q then int (length (nat_str (nat \<lfloor>q\<rfloor>)))
                 else 1 - int (length (nat_str (nat (\<lceil>1 / q\<rceil> - 1)))))"

definition dec28 :: "rat \<Rightarrow> rat" where
  "dec28 q =
     (if q = 0 then 0
      else let n = adjusted \<bar>q\<bar> in
        sgn q * of_int (round_half_even (\<bar>q\<bar> * pow10 (28 - n))) * pow10 (n - 28))"

text \<open>Storing in \<^verbatim>\<open>NUMERIC(20,6)\<close>: ties away from zero, and an error out of range.\<close>

definition numeric_20_6 :: "rat \<Rightarrow> rat result" where
  "numeric_20_6 q =
     (let v = sgn q * of_int \<lfloor>\<bar>q\<bar> * 1000000 + 1 / 2\<rfloor> / 1000000 in
      if 100000000000000 \<le> \<bar>v\<bar> then Inl DatabaseError else Inr v)"

section \<open>When nothing is rounded\<close>

lemma round_half_even_of_int [simp]: "round_half_even (of_int n) = n"
  by (simp add: round_half_even_def)

lemma pow10_cancel: "pow10 n * pow10 (- n) = 1"
  by (simp add: pow10_def)

lemma adjusted_le:
  assumes "0 < q" "q < 10 ^ k" "0 < k"
  shows "adjusted q \<le> int k"
proof (cases "1 \<le> q")
  case True
  have "\<lfloor>q\<rfloor> < 10 ^ k"
    using assms(2) by (metis floor_less_iff of_int_numeral of_int_power)
  then have "nat \<lfloor>q\<rfloor> < 10 ^ k"
    using True by (metis nat_less_iff of_nat_numeral of_nat_power zero_le_floor zero_le_one order_trans)
  then have "length (nat_str (nat \<lfloor>q\<rfloor>)) \<le> k" using assms(3) by (rule length_nat_str)
  with True show ?thesis by (simp add: adjusted_def)
next
  case False
  then show ?thesis using assms(3) by (simp add: adjusted_def)
qed

lemma pow10_add_nat: "pow10 (int m + int n) = 10 ^ m * 10 ^ n"
  by (simp add: pow10_def nat_add_distrib power_add)

text \<open>Values of at most twelve decimals below \<open>10 ^ 16\<close> fit the context.\<close>

definition decimals12 :: "rat \<Rightarrow> bool" where
  "decimals12 q = (\<bar>q\<bar> < 10 ^ 16 \<and> of_int \<lfloor>q * 10 ^ 12\<rfloor> = q * 10 ^ 12)"

lemma dec28_exact:
  assumes "decimals12 q"
  shows "dec28 q = q"
proof (cases "q = 0")
  case True
  then show ?thesis by (simp add: dec28_def)
next
  case False
  define n where "n = adjusted \<bar>q\<bar>"
  have "n \<le> int 16" unfolding n_def using assms False by (intro adjusted_le) (auto simp: decimals12_def)
  then have k: "28 - n = int 12 + int (nat (16 - n))" by simp
  define k where "k = nat (16 - n)"
  obtain z where z: "q * 10 ^ 12 = of_int z" using assms by (metis decimals12_def)
  have "\<bar>q\<bar> * pow10 (28 - n) = \<bar>q * 10 ^ 12\<bar> * 10 ^ k"
    unfolding k pow10_add_nat by (simp add: abs_mult k_def)
  also have "\<dots> = of_int (\<bar>z\<bar> * 10 ^ k)" unfolding z by simp
  finally have e: "\<bar>q\<bar> * pow10 (28 - n) = of_int (\<bar>z\<bar> * 10 ^ k)" .
  have "dec28 q = sgn q * (\<bar>q\<bar> * pow10 (28 - n)) * pow10 (n - 28)"
    unfolding e using False e by (simp only: dec28_def Let_def round_half_even_of_int if_False flip: n_def)
  also have "\<dots> = (sgn q * \<bar>q\<bar>) * (pow10 (28 - n) * pow10 (- (28 - n)))" by simp
  also have "\<dots> = q" unfolding pow10_cancel by (simp add: sgn_mult_abs)
  finally show ?thesis .
qed

lemma decimals12_0 [simp]: "decimals12 0"
  by (simp add: decimals12_def)

lemma numeric_exact:
  assumes "\<bar>q\<bar> < 10 ^ 14" "of_int z = q * 10 ^ 6"
  shows "numeric_20_6 q = Inr q"
proof -
  have "\<bar>q\<bar> * 1000000 = of_int \<bar>z\<bar>" using assms(2) by (simp add: abs_mult)
  then have "\<lfloor>\<bar>q\<bar> * 1000000 + 1 / 2\<rfloor> = \<bar>z\<bar>"
    unfolding floor_eq_iff by simp
  then have "sgn q * of_int \<lfloor>\<bar>q\<bar> * 1000000 + 1 / 2\<rfloor> / 1000000 = sgn q * (\<bar>q\<bar> * 1000000) / 1000000"
    using assms(2) by (simp add: abs_mult)
  also have "\<dots> = q" by (simp add: sgn_mult_abs)
  finally show ?thesis using assms(1) by (simp add: numeric_20_6_def Let_def)
qed

end
