(* ===== verification/Engine.thy ===== *)
theory Engine
  imports Pipeline Webhooks Decimals Periods
begin

text \<open>
  Module \<^verbatim>\<open>domain/engine.py\<close>, the methods: parameter resolution, the append-only
  figure writer, change treatment, and the four computations. What it takes from elsewhere is
  the record \<open>engine_env\<close>: the clock, the webhook environment, \<^verbatim>\<open>Decimal(str(v))\<close> of a
  JSON value, the database's \<^verbatim>\<open>AVG\<close> and hours of an interval, and the operations on
  doubles, which are rationals here.
\<close>

record float_ops =
  fl_nearest :: "rat \<Rightarrow> rat"
  fl_sum :: "rat list \<Rightarrow> rat"
  fl_sqrt :: "nat \<Rightarrow> rat"
  fl_round :: "rat \<Rightarrow> nat \<Rightarrow> rat"
  fl_decimal :: "rat \<Rightarrow> rat"
  fl_of_json :: "json \<Rightarrow> rat result"

record engine_env =
  eng_now :: int
  eng_hooks :: webhook_env
  eng_decimal :: "json \<Rightarrow> rat result"
  eng_avg :: "rat list \<Rightarrow> rat"
  eng_hours :: "int \<Rightarrow> rat"
  eng_floats :: float_ops
  eng_token :: "int \<Rightarrow> string"

section \<open>Dictionaries\<close>

text \<open>\<^verbatim>\<open>d.get(k)\<close> on a JSON value: a missing key and null are the same, anything but an object raises.\<close>

definition dict_get :: "json \<Rightarrow> string \<Rightarrow> json option result" where
  "dict_get j k =
     (case j of
        JObj kvs \<Rightarrow> Inr (case json_get kvs k of None \<Rightarrow> None | Some v \<Rightarrow> if v = JNull then None else Some v)
      | _ \<Rightarrow> Inl AttributeError)"

definition firsts :: "'a list \<Rightarrow> 'a list" where
  "firsts xs = rev (remdups (rev xs))"

section \<open>Parameter resolution\<close>

definition parameters_at :: "int \<Rightarrow> int \<Rightarrow> sys \<Rightarrow> parameter_row list" where
  "parameters_at workspace_id day s =
     select_rows (\<lambda>p. par_workspace_id p = workspace_id \<and> par_effective_from p \<le> day) (parameter_sets s)"

text \<open>\<^verbatim>\<open>ORDER BY effective_from DESC, version DESC LIMIT 1\<close>.\<close>

definition later_parameter :: "parameter_row \<Rightarrow> parameter_row \<Rightarrow> bool" where
  "later_parameter p q = (par_effective_from q < par_effective_from p
     \<or> (par_effective_from q = par_effective_from p \<and> par_version q < par_version p))"

fun latest_parameter :: "parameter_row list \<Rightarrow> parameter_row option" where
  "latest_parameter [] = None"
| "latest_parameter (p # ps) =
     (case latest_parameter ps of None \<Rightarrow> Some p | Some q \<Rightarrow> if later_parameter q p then Some q else Some p)"

definition resolve_parameter_version ::
  "int \<Rightarrow> string \<Rightarrow> sys \<Rightarrow> (int option \<times> (string \<times> json) list) result" where
  "resolve_parameter_version workspace_id period s =
     bind_r (period_bounds period) (\<lambda>(start, _).
       case latest_parameter (parameters_at workspace_id (ymd2ord start) s) of
         None \<Rightarrow> Inr (None, [])
       | Some p \<Rightarrow> Inr (Some (par_version p), par_payload p))"

section \<open>The figure writer\<close>

definition METHOD_VERSION :: string where "METHOD_VERSION = ''1.0.0''"

text \<open>The arguments of \<^verbatim>\<open>_write_figure\<close>, with the defaults of its keywords.\<close>

definition figure_args :: "int \<Rightarrow> int \<Rightarrow> string \<Rightarrow> string \<Rightarrow> string \<Rightarrow> figure_status \<Rightarrow> figure_row" where
  "figure_args workspace_id deployment_id ref period claim status =
     \<lparr>fig_id = 0, fig_workspace_id = workspace_id, fig_deployment_id = deployment_id, fig_status = status,
      fig_grade = None, fig_value_class = None, fig_ref = ref, fig_version = 0, fig_period = period,
      fig_claim = claim, fig_value = None, fig_method_id = ''tf.method.'' @ claim,
      fig_method_version = METHOD_VERSION, fig_parameter_version = None, fig_change_treatment = None,
      fig_refusal_reason = None, fig_margin_exceeds_effect = None, fig_expected_verdict = None,
      fig_missing_parameter = None, fig_lineage = []\<rparr>"

definition fig_key :: "figure_row \<Rightarrow> int \<times> string" where
  "fig_key f = (fig_deployment_id f, fig_ref f)"

definition stamp_figure :: "figure_row \<Rightarrow> int \<Rightarrow> int \<Rightarrow> figure_row" where
  "stamp_figure f version i = f\<lparr>fig_version := version, fig_id := i\<rparr>"

text \<open>The checks and foreign keys of the table that the statement can violate.\<close>

definition period_column_ok :: "string \<Rightarrow> bool" where
  "period_column_ok p = (length p = 7 \<and> (match_month p \<noteq> None \<or> match_quarter p \<noteq> None))"

definition figure_insertable :: "figure_row \<Rightarrow> sys \<Rightarrow> bool" where
  "figure_insertable f s =
     (exists_row (\<lambda>d. dep_id d = fig_deployment_id f \<and> dep_workspace_id d = fig_workspace_id f) (deployments s)
      \<and> (case fig_parameter_version f of None \<Rightarrow> True
         | Some v \<Rightarrow> exists_row (\<lambda>p. par_workspace_id p = fig_workspace_id f \<and> par_version p = v) (parameter_sets s))
      \<and> period_column_ok (fig_period f)
      \<and> (fig_status f = Computed \<longrightarrow> fig_value f \<noteq> None \<and> fig_grade f \<noteq> None))"

definition stored_value :: "rat option \<Rightarrow> rat option result" where
  "stored_value v = (case v of None \<Rightarrow> Inr None | Some q \<Rightarrow> bind_r (numeric_20_6 q) (\<lambda>x. Inr (Some x)))"

definition append_figure :: "figure_row \<Rightarrow> sys \<Rightarrow> sys" where
  "append_figure f s =
     s\<lparr>figures := append_version (\<lambda>g. fig_key g = fig_key f) fig_version (stamp_figure f) (figures s)\<rparr>"

definition write_figure :: "figure_row \<Rightarrow> (sys, string) st" where
  "write_figure f =
     bind_s (lift_r (stored_value (fig_value f))) (\<lambda>v.
     let f = f\<lparr>fig_value := v\<rparr> in
     bind_s (reads (figure_insertable f)) (\<lambda>insertable.
       if \<not> insertable then raise DatabaseError
       else bind_s (writes (append_figure f)) (\<lambda>_. ret (fig_ref f))))"

section \<open>Change treatment\<close>

definition change_in_window :: "int \<Rightarrow> int \<Rightarrow> date \<times> date \<Rightarrow> change_row \<Rightarrow> bool" where
  "change_in_window workspace_id deployment_id b c =
     (chg_workspace_id c = workspace_id \<and> chg_superseded_by c = None
      \<and> day_between (instant_day (chg_occurred_at c)) b
      \<and> (chg_deployments c = [] \<or> deployment_id \<in> set (chg_deployments c)))"

definition change_treatment :: "int \<Rightarrow> int \<Rightarrow> date \<times> date \<Rightarrow> sys \<Rightarrow> string option" where
  "change_treatment workspace_id deployment_id b s =
     (case latest_by (\<lambda>c. - chg_occurred_at c)
             (select_rows (change_in_window workspace_id deployment_id b) (change_log s)) of
        None \<Rightarrow> None
      | Some c \<Rightarrow>
          if chg_sided c = Symmetric then Some ''symmetric_cancel''
          else if chg_type c = ''tool_change'' then Some ''incumbent_tool_change_excluded''
          else Some ''one_sided_adjusted'')"

section \<open>Cost\<close>

text \<open>The rows of the usage query, in the order their meters first occur.\<close>

definition usage_rows :: "int \<Rightarrow> date \<times> date \<Rightarrow> sys \<Rightarrow> meter_row list" where
  "usage_rows deployment_id b s =
     select_rows (\<lambda>m. mu_deployment_id m = deployment_id \<and> day_between (mu_bucket_date m) b) (meter_usage_daily s)"

definition meter_quantity :: "(rat list \<Rightarrow> rat) \<Rightarrow> meter_row list \<Rightarrow> string \<Rightarrow> rat" where
  "meter_quantity avg rows meter =
     (let rs = filter (\<lambda>r. mu_meter_type r = meter) rows in
      if meter \<in> set GAUGE_METERS
      then (let gs = List.map_filter mu_gauge_last rs in if gs = [] then 0 else avg gs)
      else sum_list (map mu_quantity_sum rs))"

definition meter_usage :: "(rat list \<Rightarrow> rat) \<Rightarrow> meter_row list \<Rightarrow> (string \<times> rat) list" where
  "meter_usage avg rows = map (\<lambda>m. (m, meter_quantity avg rows m)) (firsts (map mu_meter_type rows))"

type_synonym priced_usage = "rat \<times> string list \<times> string list"

definition price_meter :: "engine_env \<Rightarrow> json \<Rightarrow> string \<times> rat \<Rightarrow> priced_usage \<Rightarrow> priced_usage result" where
  "price_meter env unit_prices usage acc =
     (case (usage, acc) of ((meter, qty), (amount, priced, unpriced)) \<Rightarrow>
        bind_r (dict_get unit_prices meter) (\<lambda>price.
          case price of
            None \<Rightarrow> Inr (amount, priced, unpriced @ [meter])
          | Some p \<Rightarrow> bind_r (eng_decimal env p) (\<lambda>d.
              Inr (dec28 (amount + dec28 (qty * d)), priced @ [meter], unpriced))))"

fun price_meters :: "engine_env \<Rightarrow> json \<Rightarrow> (string \<times> rat) list \<Rightarrow> priced_usage \<Rightarrow> priced_usage result" where
  "price_meters env unit_prices [] acc = Inr acc"
| "price_meters env unit_prices (u # us) acc =
     bind_r (price_meter env unit_prices u acc) (price_meters env unit_prices us)"

definition str_list :: "string list \<Rightarrow> json" where
  "str_list xs = JList (map JStr xs)"

definition opt_int :: "int option \<Rightarrow> json" where
  "opt_int v = (case v of None \<Rightarrow> JNull | Some n \<Rightarrow> JInt n)"

definition compute_cost :: "engine_env \<Rightarrow> int \<Rightarrow> int \<Rightarrow> string \<Rightarrow> (sys, string) st" where
  "compute_cost env workspace_id deployment_id period =
     bind_s (lift_r (period_bounds period)) (\<lambda>b.
     let args = figure_args workspace_id deployment_id (''fig_cost_'' @ period) period ''priced_cost'' in
     bind_s (query (resolve_parameter_version workspace_id period)) (\<lambda>(pv, payload).
       if pv = None then
         write_figure ((args Awaiting_Parameters)\<lparr>fig_missing_parameter := Some ''parameter_set'',
           fig_lineage := [(''reason'', JStr ''no parameter version'')]\<rparr>)
       else
         bind_s (query (\<lambda>s. price_meters env (json_get_or payload ''unit_prices'' (JObj []))
                   (meter_usage (eng_avg env) (usage_rows deployment_id b s)) (0, [], []))) (\<lambda>(amount, priced, unpriced).
         if priced = [] \<and> unpriced \<noteq> [] then
           write_figure ((args Awaiting_Parameters)\<lparr>fig_parameter_version := pv,
             fig_missing_parameter := Some (''unit_prices.'' @ hd unpriced),
             fig_lineage := [(''unpriced_meters'', str_list unpriced)]\<rparr>)
         else
           bind_s (reads (change_treatment workspace_id deployment_id b)) (\<lambda>treatment.
           write_figure ((args Computed)\<lparr>fig_grade := Some ''measured'', fig_value_class := Some ''realized'',
             fig_value := Some amount, fig_parameter_version := pv, fig_change_treatment := treatment,
             fig_lineage := [(''priced_meters'', str_list priced), (''unpriced_meters'', str_list unpriced),
               (''parameter_set_version'', opt_int pv)]\<rparr>)))))"

section \<open>Seats\<close>

definition open_license :: "int \<Rightarrow> sys \<Rightarrow> license_row option" where
  "open_license deployment_id s =
     fetch_one (\<lambda>l. lic_deployment_id l = deployment_id \<and> lic_valid_to l = None) (deployment_licenses s)"

definition activated_users :: "int \<Rightarrow> date \<times> date \<Rightarrow> sys \<Rightarrow> int list" where
  "activated_users deployment_id b s =
     remdups (map ua_user_id (select_rows (\<lambda>u. ua_deployment_id u = deployment_id
       \<and> day_between (ua_activity_date u) b) (user_activity_daily s)))"

text \<open>The price of a seat and where it is from.\<close>

definition seat_price ::
  "engine_env \<Rightarrow> license_row \<Rightarrow> (string \<times> json) list \<Rightarrow> (rat option \<times> string option) result" where
  "seat_price env lic payload =
     (case lic_price_per_seat lic of
        Some p \<Rightarrow> Inr (Some p, Some ''license_data'')
      | None \<Rightarrow>
          if payload = [] then Inr (None, None)
          else bind_r (dict_get (json_get_or payload ''unit_prices'' (JObj [])) ''seats_active'') (\<lambda>price.
            case price of
              None \<Rightarrow> Inr (None, None)
            | Some j \<Rightarrow> bind_r (eng_decimal env j) (\<lambda>d. Inr (Some d, Some ''customer_entered''))))"

definition compute_seats :: "engine_env \<Rightarrow> int \<Rightarrow> int \<Rightarrow> string \<Rightarrow> (sys, string) st" where
  "compute_seats env workspace_id deployment_id period =
     bind_s (lift_r (period_bounds period)) (\<lambda>b.
     let args = figure_args workspace_id deployment_id (''fig_seats_'' @ period) period ''seat_utilization'' in
     bind_s (reads (open_license deployment_id)) (\<lambda>found.
       case found of
         None \<Rightarrow>
           write_figure ((args Awaiting_Parameters)\<lparr>fig_missing_parameter := Some ''license'',
             fig_lineage := [(''reason'', JStr ''no license declared'')]\<rparr>)
       | Some lic \<Rightarrow>
           bind_s (reads (\<lambda>s. int (length (activated_users deployment_id b s)))) (\<lambda>activated.
           let waste_seats = max (lic_seats_paid lic - activated) 0 in
           bind_s (query (resolve_parameter_version workspace_id period)) (\<lambda>(pv, payload).
           bind_s (lift_r (seat_price env lic payload)) (\<lambda>(price, provenance).
             write_figure ((args Computed)\<lparr>fig_grade := Some ''measured'',
               fig_value_class := Some ''realized'',
               fig_value := map_option (\<lambda>p. dec28 (p * of_int waste_seats)) price,
               fig_parameter_version := pv,
               fig_lineage := [(''seats_paid'', JInt (lic_seats_paid lic)), (''activated'', JInt activated),
                 (''waste_seats'', JInt waste_seats), (''price_provenance'', opt_str provenance)]\<rparr>))))))"

section \<open>Containment\<close>

definition event_in :: "int \<Rightarrow> date \<times> date \<Rightarrow> event_row \<Rightarrow> bool" where
  "event_in deployment_id b e =
     (ev_deployment_id e = deployment_id \<and> day_between (event_day e) b)"

definition actions_of :: "int \<Rightarrow> date \<times> date \<Rightarrow> string \<Rightarrow> sys \<Rightarrow> int" where
  "actions_of deployment_id b action s =
     int (length (select_rows (\<lambda>e. event_in deployment_id b e \<and> ev_type e = Activity
       \<and> json_get (ev_payload e) ''action_type'' = Some (JStr action)) (events s)))"

text \<open>One row for every pair of an event and a declared service account behind it.\<close>

definition corroborating :: "int \<Rightarrow> date \<times> date \<Rightarrow> sys \<Rightarrow> int" where
  "corroborating deployment_id b s =
     int (sum_list (map (\<lambda>e. length (filter (\<lambda>u. su_deployment_id u = deployment_id
             \<and> ev_resolved_user_id e = Some (su_user_id u)) (deployment_service_users s)))
       (select_rows (\<lambda>e. event_in deployment_id b e \<and> ev_origin e = Customer_System) (events s))))"

definition compute_containment :: "engine_env \<Rightarrow> int \<Rightarrow> int \<Rightarrow> string \<Rightarrow> (sys, string option) st" where
  "compute_containment env workspace_id deployment_id period =
     bind_s (lift_r (period_bounds period)) (\<lambda>b.
     bind_s (reads (actions_of deployment_id b ''case_handled_autonomous'')) (\<lambda>autonomous.
     bind_s (reads (actions_of deployment_id b ''escalated_to_human'')) (\<lambda>escalated.
       if autonomous + escalated = 0 then ret None
       else
         let rate = fl_nearest (eng_floats env) (of_int autonomous / of_int (autonomous + escalated)) in
         bind_s (reads (corroborating deployment_id b)) (\<lambda>n.
         bind_s (write_figure ((figure_args workspace_id deployment_id (''fig_containment_'' @ period) period
             ''containment_rate'' Computed)\<lparr>fig_grade := Some (if n > 0 then ''verified'' else ''measured''),
             fig_value_class := Some ''realized'',
             fig_value := Some (fl_decimal (eng_floats env) (fl_round (eng_floats env) rate 6)),
             fig_lineage := [(''autonomous'', JInt autonomous), (''escalated'', JInt escalated),
               (''g6_corroborating_events'', JInt n)]\<rparr>)) (\<lambda>ref. ret (Some ref))))))"

section \<open>Time savings\<close>

definition life_events :: "int \<Rightarrow> date \<times> date \<Rightarrow> sys \<Rightarrow> event_row list" where
  "life_events deployment_id b s =
     select_rows (\<lambda>e. event_in deployment_id b e \<and> ev_type e = Lifecycle
       \<and> (\<exists>w \<in> set (tbl_rows (work_items s)). Some (wi_id w) = ev_work_item_id e)) (events s)"

definition occurrences :: "event_row list \<Rightarrow> int \<Rightarrow> string \<Rightarrow> int list" where
  "occurrences es wi event = map ev_occurred_at (filter (\<lambda>e. ev_work_item_id e = Some wi
     \<and> json_get (ev_payload e) ''event'' = Some (JStr event)) es)"

definition is_assisted :: "int \<Rightarrow> sys \<Rightarrow> int \<Rightarrow> bool" where
  "is_assisted deployment_id s wi =
     exists_row (\<lambda>e. ev_deployment_id e = deployment_id \<and> ev_type e = Activity
       \<and> ev_work_item_id e = Some wi) (events s)"

text \<open>Work item, handling time in hours, for every item created and completed in the window.\<close>

definition handling_times :: "engine_env \<Rightarrow> int \<Rightarrow> date \<times> date \<Rightarrow> sys \<Rightarrow> (int \<times> rat) list" where
  "handling_times env deployment_id b s =
     (let es = life_events deployment_id b s in
      List.map_filter (\<lambda>wi.
        let cs = occurrences es wi ''created''; ds = occurrences es wi ''completed'' in
        if cs = [] \<or> ds = [] then None
        else Some (wi, eng_hours env (fold max (tl ds) (hd ds) - fold min (tl cs) (hd cs))))
      (firsts (List.map_filter ev_work_item_id es)))"

definition mean :: "float_ops \<Rightarrow> rat list \<Rightarrow> rat" where
  "mean fl xs = fl_nearest fl (fl_sum fl xs / of_nat (length xs))"

record savings =
  sv_assisted :: nat
  sv_unassisted :: nat
  sv_effect :: rat
  sv_margin :: rat

definition savings_of :: "float_ops \<Rightarrow> rat list \<Rightarrow> rat list \<Rightarrow> savings" where
  "savings_of fl assisted unassisted =
     (let n = length assisted + length unassisted;
          hi = fold max (tl assisted @ unassisted) (hd assisted);
          lo = fold min (tl assisted @ unassisted) (hd assisted)
      in \<lparr>sv_assisted = length assisted, sv_unassisted = length unassisted,
          sv_effect = fl_nearest fl (mean fl unassisted - mean fl assisted),
          sv_margin = fl_nearest fl (fl_nearest fl (hi - lo) / fl_nearest fl (2 * fl_sqrt fl n))\<rparr>)"

definition labor_rate :: "json \<Rightarrow> json option result" where
  "labor_rate labor =
     (case labor of
        JObj kvs \<Rightarrow>
          (let d = json_get_or kvs ''default'' JNull in
           if truthy d then Inr (Some d)
           else if kvs = [] then Inr None
           else Inr (if snd (hd kvs) = JNull then None else Some (snd (hd kvs))))
      | _ \<Rightarrow> Inl AttributeError)"

text \<open>The arguments of the figure written once both samples are there.\<close>

definition time_savings_figure ::
  "engine_env \<Rightarrow> int \<Rightarrow> int \<Rightarrow> string \<Rightarrow> date \<times> date \<Rightarrow> savings \<Rightarrow> sys \<Rightarrow> figure_row result" where
  "time_savings_figure env workspace_id deployment_id period b sv s =
     (let fl = eng_floats env;
          args = figure_args workspace_id deployment_id (''fig_time_'' @ period) period ''time_savings'';
          effect = JReal (fl_round fl (sv_effect sv) 4) in
      bind_r (resolve_parameter_version workspace_id period s) (\<lambda>(pv, payload).
        if \<bar>sv_effect sv\<bar> < sv_margin sv then
          Inr ((args Refused)\<lparr>fig_margin_exceeds_effect := Some True,
            fig_refusal_reason := Some ''margin of error exceeds the measured effect'',
            fig_expected_verdict := Some (ymd2ord (snd b)), fig_parameter_version := pv,
            fig_lineage := [(''assisted_n'', JInt (int (sv_assisted sv))),
              (''unassisted_n'', JInt (int (sv_unassisted sv))), (''effect_hours'', effect),
              (''margin_hours'', JReal (fl_round fl (sv_margin sv) 4))]\<rparr>)
        else if pv = None then
          Inr ((args Awaiting_Parameters)\<lparr>fig_missing_parameter := Some ''labor_rates'',
            fig_value_class := Some ''capacity'', fig_lineage := [(''effect_hours'', effect)]\<rparr>)
        else
          bind_r (labor_rate (json_get_or payload ''labor_rates'' (JObj []))) (\<lambda>rate.
            case rate of
              None \<Rightarrow>
                Inr ((args Awaiting_Parameters)\<lparr>fig_missing_parameter := Some ''labor_rates.default'',
                  fig_parameter_version := pv, fig_value_class := Some ''capacity'',
                  fig_lineage := [(''effect_hours'', effect)]\<rparr>)
            | Some r \<Rightarrow>
                bind_r (fl_of_json fl r) (\<lambda>x.
                  let saved = fl_nearest fl (fl_nearest fl (sv_effect sv * of_nat (sv_assisted sv)) * x) in
                  Inr ((args Computed)\<lparr>
                    fig_grade := Some (if 4 \<le> sv_assisted sv + sv_unassisted sv then ''measured'' else ''estimate''),
                    fig_value_class := Some ''capacity'',
                    fig_value := Some (fl_decimal fl (fl_round fl saved 6)), fig_parameter_version := pv,
                    fig_change_treatment := change_treatment workspace_id deployment_id b s,
                    fig_lineage := [(''assisted_n'', JInt (int (sv_assisted sv))),
                      (''unassisted_n'', JInt (int (sv_unassisted sv))), (''effect_hours'', effect),
                      (''labor_rate'', r), (''parameter_set_version'', opt_int pv)]\<rparr>)))))"

definition samples :: "engine_env \<Rightarrow> int \<Rightarrow> date \<times> date \<Rightarrow> bool \<Rightarrow> sys \<Rightarrow> rat list" where
  "samples env deployment_id b assisted s =
     map snd (filter (\<lambda>(wi, _). is_assisted deployment_id s wi = assisted) (handling_times env deployment_id b s))"

definition compute_time_savings ::
  "engine_env \<Rightarrow> int \<Rightarrow> int \<Rightarrow> string \<Rightarrow> (sys, string option) st" where
  "compute_time_savings env workspace_id deployment_id period =
     bind_s (lift_r (period_bounds period)) (\<lambda>b.
     bind_s (reads (samples env deployment_id b True)) (\<lambda>assisted.
     bind_s (reads (samples env deployment_id b False)) (\<lambda>unassisted.
       if assisted = [] \<or> unassisted = [] then ret None
       else
         bind_s (query (time_savings_figure env workspace_id deployment_id period b
                   (savings_of (eng_floats env) assisted unassisted))) (\<lambda>f.
         bind_s (write_figure f) (\<lambda>ref. ret (Some ref))))))"

section \<open>Orchestration\<close>

definition opt_list :: "'a option \<Rightarrow> 'a list" where
  "opt_list x = (case x of None \<Rightarrow> [] | Some y \<Rightarrow> [y])"

definition compute_all :: "engine_env \<Rightarrow> int \<Rightarrow> int \<Rightarrow> string \<Rightarrow> (sys, string list) st" where
  "compute_all env workspace_id deployment_id period =
     bind_s (reads (\<lambda>s. map_option dep_type (fetch_one (\<lambda>d. dep_id d = deployment_id) (deployments s)))) (\<lambda>dtype.
     bind_s (compute_cost env workspace_id deployment_id period) (\<lambda>cost.
     bind_s (compute_seats env workspace_id deployment_id period) (\<lambda>seats.
     bind_s (compute_time_savings env workspace_id deployment_id period) (\<lambda>ts.
     bind_s (if dtype = Some Agent then compute_containment env workspace_id deployment_id period else ret None)
       (\<lambda>c. ret ([cost, seats] @ opt_list ts @ opt_list c))))))"

definition deployment_ref_json :: "int \<Rightarrow> sys \<Rightarrow> json" where
  "deployment_ref_json deployment_id s =
     (case fetch_one (\<lambda>d. dep_id d = deployment_id) (deployments s) of None \<Rightarrow> JNull | Some d \<Rightarrow> JStr (dep_ref d))"

text \<open>The statuses of the two latest versions, latest first.\<close>

definition latest_statuses :: "int \<Rightarrow> string \<Rightarrow> sys \<Rightarrow> figure_status list" where
  "latest_statuses deployment_id ref s =
     map fig_status (take 2 (rev (sort_key fig_version
       (select_rows (\<lambda>f. fig_deployment_id f = deployment_id \<and> fig_ref f = ref) (figures s)))))"

definition figure_payload :: "string \<Rightarrow> json \<Rightarrow> string \<Rightarrow> json" where
  "figure_payload fr dref period =
     JObj [(''figure_id'', JStr fr), (''deployment_id'', dref), (''period'', JStr period)]"

definition fire_figure_webhooks ::
  "engine_env \<Rightarrow> int \<Rightarrow> int \<Rightarrow> string list \<Rightarrow> string \<Rightarrow> (sys, unit) st" where
  "fire_figure_webhooks env workspace_id deployment_id refs_written period =
     bind_s (reads (deployment_ref_json deployment_id)) (\<lambda>dref.
     bind_s (for_each (\<lambda>fr.
       bind_s (emit (eng_hooks env) (eng_now env) workspace_id ''figure.updated'' (figure_payload fr dref period)) (\<lambda>_.
       bind_s (reads (latest_statuses deployment_id fr)) (\<lambda>statuses.
         if statuses = [Computed, Refused]
         then bind_s (emit (eng_hooks env) (eng_now env) workspace_id ''refusal.lifted'' (figure_payload fr dref period))
                (\<lambda>_. ret ())
         else ret ()))) refs_written) (\<lambda>_. ret ()))"

definition compute_deployment :: "engine_env \<Rightarrow> int \<Rightarrow> int \<Rightarrow> string \<Rightarrow> (sys, string list) st" where
  "compute_deployment env workspace_id deployment_id period =
     bind_s (transaction (compute_all env workspace_id deployment_id period)) (\<lambda>written.
     bind_s (fire_figure_webhooks env workspace_id deployment_id written period) (\<lambda>_. ret written))"

end
