(* ===== verification/Reports.thy ===== *)
theory Reports
  imports Engine Storage
begin

text \<open>
  Module \<^verbatim>\<open>domain/engine.py\<close>, second part: the issuance of reports and the monitors
  that raise alerts. Text is ordered by code point, where the query orders by the database's
  collation.
\<close>

section \<open>json.dumps with indentation\<close>

definition newline :: "nat \<Rightarrow> string" where
  "newline level = CHR 0x0A # replicate (2 * level) CHR '' ''"

fun dump_indent :: "(rat \<Rightarrow> string) \<Rightarrow> nat \<Rightarrow> json \<Rightarrow> string"
  and indent_list :: "(rat \<Rightarrow> string) \<Rightarrow> nat \<Rightarrow> json list \<Rightarrow> string list"
  and indent_items :: "(rat \<Rightarrow> string) \<Rightarrow> nat \<Rightarrow> (string \<times> json) list \<Rightarrow> string list" where
  "dump_indent fr l JNull = ''null''"
| "dump_indent fr l (JBool b) = (if b then ''true'' else ''false'')"
| "dump_indent fr l (JInt n) = int_str n"
| "dump_indent fr l (JReal r) = fr r"
| "dump_indent fr l (JStr s) = quote s"
| "dump_indent fr l (JList xs) =
     (if xs = [] then ''[]''
      else ''['' @ newline (l + 1) @ join ('','' @ newline (l + 1)) (indent_list fr (l + 1) xs) @ newline l @ '']'')"
| "dump_indent fr l (JObj kvs) =
     (if kvs = [] then ''{}''
      else ''{'' @ newline (l + 1) @ join ('','' @ newline (l + 1)) (indent_items fr (l + 1) kvs) @ newline l @ ''}'')"
| "indent_list fr l [] = []"
| "indent_list fr l (x # xs) = dump_indent fr l x # indent_list fr l xs"
| "indent_items fr l [] = []"
| "indent_items fr l ((k, v) # kvs) = (quote k @ '': '' @ dump_indent fr l v) # indent_items fr l kvs"

section \<open>Report issuance\<close>

fun figure_status_str :: "figure_status \<Rightarrow> string" where
  "figure_status_str Computed = ''computed''"
| "figure_status_str Refused = ''refused''"
| "figure_status_str Awaiting_Parameters = ''awaiting_parameters''"

text \<open>\<^verbatim>\<open>DISTINCT ON (figure_ref) ... ORDER BY figure_ref, version DESC\<close>.\<close>

definition latest_figures :: "int \<Rightarrow> string \<Rightarrow> sys \<Rightarrow> figure_row list" where
  "latest_figures deployment_id period s =
     (let rows = select_rows (\<lambda>f. fig_deployment_id f = deployment_id \<and> fig_period f = period) (figures s) in
      List.map_filter (\<lambda>ref. latest_by fig_version (filter (\<lambda>f. fig_ref f = ref) rows))
        (sort (remdups (map fig_ref rows))))"

definition grade_label :: "figure_row \<Rightarrow> string" where
  "grade_label f = (case fig_grade f of None \<Rightarrow> figure_status_str (fig_status f)
     | Some g \<Rightarrow> if g = [] then figure_status_str (fig_status f) else g)"

fun count_label :: "string \<Rightarrow> (string \<times> int) list \<Rightarrow> (string \<times> int) list" where
  "count_label g [] = [(g, 1)]"
| "count_label g ((h, n) # prof) = (if g = h then (h, n + 1) # prof else (h, n) # count_label g prof)"

definition grade_profile :: "figure_row list \<Rightarrow> (string \<times> int) list" where
  "grade_profile figs = fold (\<lambda>f. count_label (grade_label f)) figs []"

definition REPORT_BUCKET :: string where "REPORT_BUCKET = ''report-artifacts''"

definition report_ref_of :: "string \<Rightarrow> string" where
  "report_ref_of period = ''rep_'' @ period"

definition artifact_path :: "int \<Rightarrow> string \<Rightarrow> int \<Rightarrow> string" where
  "artifact_path workspace_id ref version =
     int_str workspace_id @ ''/'' @ ref @ ''.v'' @ int_str version @ ''.json''"

definition rep_key :: "report_row \<Rightarrow> int \<times> string" where
  "rep_key r = (rep_deployment_id r, rep_ref r)"

definition new_report ::
  "int \<Rightarrow> int \<Rightarrow> string \<Rightarrow> (string \<times> int) list \<Rightarrow> int \<Rightarrow> int \<Rightarrow> report_row" where
  "new_report workspace_id deployment_id period profile version i =
     \<lparr>rep_id = i, rep_deployment_id = deployment_id, rep_ref = report_ref_of period, rep_version = version,
      rep_period = period, rep_grade_profile = profile,
      rep_artifact_path = artifact_path workspace_id (report_ref_of period) version,
      rep_supersedes = (if version > 1 then Some (version - 1) else None)\<rparr>"

definition artifact_json :: "float_ops \<Rightarrow> string \<Rightarrow> int \<Rightarrow> figure_row list \<Rightarrow> json" where
  "artifact_json fl period version figs =
     JObj [(''report_ref'', JStr (report_ref_of period)), (''version'', JInt version), (''period'', JStr period),
       (''grade_profile'', JObj (map (\<lambda>(g, n). (g, JInt n)) (grade_profile figs))),
       (''figures'', JList (map (\<lambda>f. JObj [(''figure_ref'', JStr (fig_ref f)), (''version'', JInt (fig_version f)),
          (''claim'', JStr (fig_claim f)), (''status'', JStr (figure_status_str (fig_status f))),
          (''value'', case fig_value f of None \<Rightarrow> JNull | Some v \<Rightarrow> JReal (fl_nearest fl v))]) figs))]"

definition artifact_text :: "engine_env \<Rightarrow> string \<Rightarrow> int \<Rightarrow> figure_row list \<Rightarrow> string" where
  "artifact_text env period version figs =
     dump_indent (wh_float_repr (eng_hooks env)) 0 (sort_items (artifact_json (eng_floats env) period version figs))"

definition bind_figures :: "int \<Rightarrow> int \<Rightarrow> figure_row list \<Rightarrow> sys \<Rightarrow> sys" where
  "bind_figures deployment_id rid figs s =
     s\<lparr>report_figures := report_figures s @
       map (\<lambda>f. \<lparr>rf_deployment_id = deployment_id, rf_report_id = rid, rf_figure_id = fig_id f\<rparr>) figs\<rparr>"

definition add_report :: "int \<Rightarrow> int \<Rightarrow> string \<Rightarrow> figure_row list \<Rightarrow> sys \<Rightarrow> sys" where
  "add_report workspace_id deployment_id period figs s =
     s\<lparr>reports := append_version (\<lambda>r. rep_key r = (deployment_id, report_ref_of period)) rep_version
         (new_report workspace_id deployment_id period (grade_profile figs)) (reports s)\<rparr>"

definition next_report_version :: "int \<Rightarrow> string \<Rightarrow> sys \<Rightarrow> int" where
  "next_report_version deployment_id period s =
     next_version (\<lambda>r. rep_key r = (deployment_id, report_ref_of period)) rep_version (reports s)"

definition report_body :: "int \<Rightarrow> int \<Rightarrow> string \<Rightarrow> (sys, int \<times> figure_row list) st" where
  "report_body workspace_id deployment_id period =
     bind_s (reads (latest_figures deployment_id period)) (\<lambda>figs.
     bind_s (reads (next_report_version deployment_id period)) (\<lambda>version.
     bind_s (reads (\<lambda>s. tbl_seq (reports s))) (\<lambda>rid.
     bind_s (reads (\<lambda>s. exists_row (\<lambda>d. dep_id d = deployment_id) (deployments s))) (\<lambda>known.
       if \<not> known \<or> \<not> period_column_ok period then raise DatabaseError
       else
         bind_s (writes (add_report workspace_id deployment_id period figs)) (\<lambda>_.
         bind_s (writes (bind_figures deployment_id rid figs)) (\<lambda>_. ret (version, figs)))))))"

definition issue_report_webhook :: "engine_env \<Rightarrow> int \<Rightarrow> int \<Rightarrow> int \<Rightarrow> string \<Rightarrow> (sys, unit) st" where
  "issue_report_webhook env workspace_id deployment_id version period =
     bind_s (reads (deployment_ref_json deployment_id)) (\<lambda>dref.
     bind_s (emit (eng_hooks env) (eng_now env) workspace_id ''report.issued''
       (JObj [(''report_id'', JStr (report_ref_of period)), (''version'', JInt version),
              (''period'', JStr period), (''deployment_id'', dref)])) (\<lambda>_. ret ()))"

definition issue_report :: "engine_env \<Rightarrow> int \<Rightarrow> int \<Rightarrow> string \<Rightarrow> (sys, string) st" where
  "issue_report env workspace_id deployment_id period =
     bind_s (transaction (report_body workspace_id deployment_id period)) (\<lambda>(version, figs).
     bind_s (writes (put_object REPORT_BUCKET (artifact_path workspace_id (report_ref_of period) version)
               (artifact_text env period version figs))) (\<lambda>_.
     bind_s (issue_report_webhook env workspace_id deployment_id version period) (\<lambda>_.
       ret (report_ref_of period))))"

section \<open>Monitors\<close>

definition stats_of :: "int \<Rightarrow> sys \<Rightarrow> stats_row list" where
  "stats_of deployment_id s = select_rows (\<lambda>r. is_deployment_id r = deployment_id) (ingestion_stats_daily s)"

definition max_instant_of :: "int list \<Rightarrow> int option" where
  "max_instant_of xs = (case xs of [] \<Rightarrow> None | x # xs \<Rightarrow> Some (fold max xs x))"

text \<open>\<^verbatim>\<open>timedelta.days\<close> rounds towards the past.\<close>

definition is_silent :: "int \<Rightarrow> stats_row list \<Rightarrow> bool" where
  "is_silent now rows = (case max_instant_of (map is_last_event_at rows) of None \<Rightarrow> False
     | Some last_event \<Rightarrow> 2 \<le> (now - last_event) div us_per_day)"

definition join_is_zero :: "stats_row list \<Rightarrow> bool" where
  "join_is_zero rows = (10 \<le> sum_list (map is_activity rows) \<and> sum_list (map is_joined rows) = 0)"

definition new_alert :: "int \<Rightarrow> int \<Rightarrow> string \<Rightarrow> string \<Rightarrow> string \<Rightarrow> int \<Rightarrow> alert_row" where
  "new_alert workspace_id deployment_id code detail ref i =
     \<lparr>al_id = i, al_workspace_id = workspace_id, al_deployment_id = Some deployment_id, al_code = code,
      al_status = Alert_Open, al_ref = ref, al_detail = detail, al_acked_by = None\<rparr>"

definition raise_alert ::
  "engine_env \<Rightarrow> int \<Rightarrow> int \<Rightarrow> string \<Rightarrow> string \<Rightarrow> (sys, string) st" where
  "raise_alert env workspace_id deployment_id code detail =
     bind_s (query (\<lambda>s. new_ref (eng_token env (tbl_seq (alerts s))) ''alert'')) (\<lambda>ref.
     bind_s (writes (\<lambda>s. s\<lparr>alerts := insert_row (new_alert workspace_id deployment_id code detail ref) (alerts s)\<rparr>)) (\<lambda>_.
     bind_s (emit (eng_hooks env) (eng_now env) workspace_id ''alert.raised''
       (JObj [(''alert_id'', JStr ref), (''code'', JStr code)])) (\<lambda>_. ret ref)))"

text \<open>The conditions found for one row of the query, in the order they are looked at.\<close>

definition conditions :: "int \<Rightarrow> string \<Rightarrow> stats_row list \<Rightarrow> (string \<times> string) list" where
  "conditions now dref rows =
     (if is_silent now rows
      then [(''event_silence'', ''no events for '' @ dref @ '' in >= 2 days'')] else [])
   @ (if join_is_zero rows
      then [(''join_rate_drop'', dref @ '' join rate is zero over ''
               @ int_str (sum_list (map is_activity rows)) @ '' activity events'')] else [])"

definition detected :: "int \<Rightarrow> int \<Rightarrow> sys \<Rightarrow> (int \<times> string \<times> string) list" where
  "detected now workspace_id s =
     concat (map (\<lambda>d. map (\<lambda>c. (dep_id d, c)) (conditions now (dep_ref d) (stats_of (dep_id d) s)))
       (select_rows (\<lambda>d. dep_workspace_id d = workspace_id) (deployments s)))"

definition run_monitors :: "engine_env \<Rightarrow> int \<Rightarrow> (sys, string list) st" where
  "run_monitors env workspace_id =
     transaction
       (bind_s (reads (detected (eng_now env) workspace_id)) (\<lambda>found.
        bind_s (for_each (\<lambda>(d, code, detail). raise_alert env workspace_id d code detail) found) (\<lambda>raised.
          ret (filter (\<lambda>x. x \<noteq> []) raised))))"

end
