(* ===== verification/WebhooksSafe.thy ===== *)
theory WebhooksSafe
  imports Webhooks Refs
begin

text \<open>
  What the webhook worker promises: deliveries a consumer can verify, the life of a delivery
  row as a transition relation that every operation follows, and the delay before a retry.
\<close>

section \<open>An example outbox\<close>

definition ex_wenv :: webhook_env where
  "ex_wenv = \<lparr>wh_sha256 = ex_digest, wh_hmac = (\<lambda>k m. ex_digest (k @ m)), wh_setting = None,
     wh_float_repr = (\<lambda>_. ''0.0''), wh_fresh = (\<lambda>i. ''dl_'' @ int_str i)\<rparr>"

definition ex_token :: string where
  "ex_token = (case encrypt (wh_sha256 ex_wenv) (wh_hmac ex_wenv) (wh_setting ex_wenv) ''whsec_1'' of
     Inl _ \<Rightarrow> [] | Inr t \<Rightarrow> t)"

definition ex_hook :: webhook_row where
  "ex_hook = \<lparr>wh_id = 1, wh_workspace_id = 1, wh_status = Verified, wh_events = [''report.issued''],
     wh_ref = ''wh_1'', wh_url = ''https://example.org/hook'', wh_secret_hash = ex_token\<rparr>"

definition ex_delivery :: delivery_row where
  "ex_delivery = new_delivery ex_wenv 0 ''report.issued'' (JObj [(''report_id'', JStr ''rep_1'')]) ex_hook 1"

definition ex_outbox :: sys where
  "ex_outbox = empty_sys\<lparr>webhooks := Table [ex_hook] 2\<rparr>"

definition ex_queued :: sys where
  "ex_queued = ex_outbox\<lparr>webhook_deliveries := Table [ex_delivery] 2\<rparr>"

lemma ex_digests:
  "\<forall>m. length (wh_sha256 ex_wenv m) = 32" "\<forall>k m. length (wh_hmac ex_wenv k m) = 32"
  by (simp_all add: ex_wenv_def length_ex_digest)

lemma ex_secret_short: "length (utf8_encode ''whsec_1'') \<le> 137438953472"
  by (simp add: utf8_encode_def utf8_char_def)

lemma ex_token: "encrypt (wh_sha256 ex_wenv) (wh_hmac ex_wenv) (wh_setting ex_wenv) ''whsec_1'' = Inr ex_token"
  using encrypt_decrypt_exist [OF ex_digests ex_secret_short, of "wh_setting ex_wenv"]
  by (auto simp: ex_token_def)

lemma ex_emit: "emit ex_wenv 0 1 ''report.issued'' (JObj [(''report_id'', JStr ''rep_1'')]) ex_outbox
    = (ex_queued, Inr 1)"
  by (simp add: emit_def webhook_event_types_def transaction_def subscribers_def select_rows_def
      ex_outbox_def ex_hook_def enqueue_def ex_queued_def ex_delivery_def new_delivery_def
      empty_sys_def insert_row_def empty_table_def bind_s_apply)

lemma ex_send: "send_delivery ex_wenv (\<lambda>m u h b. Inr status) now (ex_delivery, ex_hook) = Inr status"
  using decrypt_encrypt [OF ex_token ex_digests ex_secret_short]
  by (simp add: send_delivery_def ex_hook_def Let_def)

lemma ex_next: "next_delivery 0 ex_queued = Some (ex_delivery, ex_hook)"
  by (simp add: next_delivery_def ex_queued_def select_rows_def due_def hook_of_def fetch_one_def
      ex_outbox_def ex_delivery_def new_delivery_def ex_hook_def)

lemma ex_failing: "\<exists>t. attempt_delivery ex_wenv (\<lambda>m u h b. Inr 500) 0 (ex_delivery, ex_hook) ex_queued
    = (t, Inr Out_Retried)"
proof -
  have "dl_attempt_count ex_delivery = 0" by (simp add: ex_delivery_def new_delivery_def)
  moreover have "instant_in_range 300000000"
    by (simp add: instant_in_range_def min_instant_def max_instant_def mk_instant_def us_per_day_def epoch_ord_def)
  ultimately show ?thesis
    by (simp add: attempt_delivery_def ex_send is_success_def http_status_def MAX_ATTEMPTS_def
        RETRY_SCHEDULE_def update_delivery_def Let_def)
qed

section \<open>Signed deliveries\<close>

lemma hex_char_ascii: "n < 16 \<Longrightarrow> byte_val (hex_char n) < 128"
  by (simp add: hex_char_def)

lemma sign_ascii: "\<forall>c \<in> set (sign env secret ts raw). byte_val c < 128"
proof -
  have "byte_val c div 16 < 16" for c
    using byte_val_less [of c] by (simp add: less_mult_imp_div_less)
  then show ?thesis
    by (auto simp: sign_def hexdigest_def Let_def byte_val_def intro: hex_char_ascii [unfolded byte_val_def])
qed

text \<open>
  The request of a delivery attempt carries the time of the attempt, the delivery's
  reference and a signature that the consumer's check accepts for the body sent, under the
  secret the integrator was given; an exception of the sender counts as status 0.
\<close>

theorem delivery_signed:
  assumes "encrypt (wh_sha256 env) (wh_hmac env) (wh_setting env) secret = Inr (wh_secret_hash w)"
    and "\<forall>m. length (wh_sha256 env m) = 32" and "\<forall>k m. length (wh_hmac env k m) = 32"
    and "length (utf8_encode secret) \<le> 137438953472" and "\<bar>int_timestamp now\<bar> < 2 ^ 63"
  shows "\<exists>headers ts_text sig.
     send_delivery env sender now (d, w) =
       Inr (case sender ''POST'' (wh_url w) headers (delivery_body env d) of Inl _ \<Rightarrow> 0 | Inr status \<Rightarrow> status)
     \<and> map_of headers ''X-TrueFigure-Delivery'' = Some (dl_ref d)
     \<and> map_of headers ''X-TrueFigure-Timestamp'' = Some ts_text \<and> py_int ts_text = Some (int_timestamp now)
     \<and> map_of headers ''X-TrueFigure-Signature'' = Some sig
     \<and> verify_signature env secret (int_timestamp now) (delivery_body env d) sig = Inr True"
proof -
  let ?ts = "int_timestamp now" and ?raw = "delivery_body env d"
  let ?h = "delivery_headers env secret ?ts ?raw (dl_ref d)"
  have "decrypt (wh_sha256 env) (wh_hmac env) (wh_setting env) (wh_secret_hash w) = Inr secret"
    using decrypt_encrypt assms(1-4) by metis
  then have "send_delivery env sender now (d, w) =
      Inr (case sender ''POST'' (wh_url w) ?h ?raw of Inl _ \<Rightarrow> 0 | Inr status \<Rightarrow> status)"
    by (simp add: send_delivery_def Let_def split: sum.splits)
  moreover have "map_of ?h ''X-TrueFigure-Delivery'' = Some (dl_ref d)"
    "map_of ?h ''X-TrueFigure-Timestamp'' = Some (int_str ?ts)"
    "map_of ?h ''X-TrueFigure-Signature'' = Some (sign env secret ?ts ?raw)"
    by (simp_all add: delivery_headers_def)
  moreover have "verify_signature env secret ?ts ?raw (sign env secret ?ts ?raw) = Inr True"
    using sign_ascii by (simp add: verify_signature_def)
  moreover have "py_int (int_str ?ts) = Some ?ts" using assms(5) by (rule py_int_int_str)
  ultimately show ?thesis by blast
qed

lemma delivery_signed_witness:
  "\<exists>headers ts_text sig.
     send_delivery ex_wenv (\<lambda>m u h b. Inr 204) 5000000 (ex_delivery, ex_hook) = Inr 204
     \<and> map_of headers ''X-TrueFigure-Timestamp'' = Some ts_text \<and> py_int ts_text = Some 5
     \<and> map_of headers ''X-TrueFigure-Signature'' = Some sig
     \<and> verify_signature ex_wenv ''whsec_1'' 5 (delivery_body ex_wenv ex_delivery) sig = Inr True"
proof -
  have e: "encrypt (wh_sha256 ex_wenv) (wh_hmac ex_wenv) (wh_setting ex_wenv) ''whsec_1'' = Inr (wh_secret_hash ex_hook)"
    by (simp add: ex_token ex_hook_def)
  have t: "int_timestamp 5000000 = 5" by (simp add: int_timestamp_def)
  then have b: "\<bar>int_timestamp 5000000\<bar> < 2 ^ 63" by simp
  show ?thesis
    using delivery_signed [OF e ex_digests ex_secret_short b, of "\<lambda>m u h b. Inr 204" ex_delivery]
    unfolding t by simp blast
qed

section \<open>The life of a delivery\<close>

text \<open>One attempt on a row, at the time \<open>now\<close> with the given status.\<close>

inductive delivery_step :: "delivery_row \<Rightarrow> delivery_row \<Rightarrow> bool" where
  Succeed: "due now d \<Longrightarrow> is_success status \<Longrightarrow>
     delivery_step d (settle_delivery Delivered (dl_attempt_count d + 1) (Some status) d)"
| Give_Up: "due now d \<Longrightarrow> \<not> is_success status \<Longrightarrow> MAX_ATTEMPTS \<le> dl_attempt_count d + 1 \<Longrightarrow>
     delivery_step d (settle_delivery Dropped (dl_attempt_count d + 1) (status_or_none status) d)"
| Retry: "due now d \<Longrightarrow> \<not> is_success status \<Longrightarrow> dl_attempt_count d + 1 < MAX_ATTEMPTS \<Longrightarrow>
     delivery_step d (rescheduled (dl_attempt_count d + 1) (status_or_none status)
       (now + RETRY_SCHEDULE ! (dl_attempt_count d + 1) * 1000000) d)"

inductive_cases delivery_stepE: "delivery_step d e"

definition fresh_delivery :: "delivery_row \<Rightarrow> bool" where
  "fresh_delivery d = (dl_status d = Retrying \<and> dl_attempt_count d = 0 \<and> dl_last_http_status d = None
     \<and> dl_next_retry_at d \<noteq> None)"

definition failed_status :: "int option \<Rightarrow> bool" where
  "failed_status code = (case code of None \<Rightarrow> True | Some n \<Rightarrow> \<not> is_success n)"

text \<open>What the columns of a row say about each other.\<close>

definition delivery_ok :: "delivery_row \<Rightarrow> bool" where
  "delivery_ok d =
     (case dl_status d of
        Retrying \<Rightarrow> dl_attempt_count d < MAX_ATTEMPTS \<and> dl_next_retry_at d \<noteq> None
          \<and> failed_status (dl_last_http_status d)
      | Delivered \<Rightarrow> 1 \<le> dl_attempt_count d \<and> dl_attempt_count d \<le> MAX_ATTEMPTS
          \<and> dl_next_retry_at d = None \<and> \<not> failed_status (dl_last_http_status d)
      | Dropped \<Rightarrow> dl_attempt_count d = MAX_ATTEMPTS \<and> dl_next_retry_at d = None
          \<and> failed_status (dl_last_http_status d))"

lemma failed_status_or_none: "\<not> is_success st \<Longrightarrow> failed_status (status_or_none st)"
  by (simp add: failed_status_def status_or_none_def)

lemma step_ok: "delivery_step d e \<Longrightarrow> delivery_ok d \<Longrightarrow> delivery_ok e"
  by (induction rule: delivery_step.induct)
    (auto simp: delivery_ok_def due_def settle_delivery_def rescheduled_def failed_status_or_none
      failed_status_def [of "Some _"])

lemma steps_ok: "delivery_step\<^sup>*\<^sup>* d e \<Longrightarrow> delivery_ok d \<Longrightarrow> delivery_ok e"
  by (induction rule: rtranclp_induct) (auto intro: step_ok)

lemma fresh_ok: "fresh_delivery d \<Longrightarrow> delivery_ok d"
  by (simp add: fresh_delivery_def delivery_ok_def failed_status_def MAX_ATTEMPTS_def RETRY_SCHEDULE_def)

lemma settled_steps: "delivery_step\<^sup>*\<^sup>* d e \<Longrightarrow> dl_status d \<noteq> Retrying \<Longrightarrow> e = d"
  by (induction rule: rtranclp_induct) (auto elim!: delivery_stepE simp: due_def)

text \<open>
  A log grows when every row of it makes steps of its own and the rows added began as fresh
  deliveries.
\<close>

definition log_grows :: "sys \<Rightarrow> sys \<Rightarrow> bool" where
  "log_grows s t \<longleftrightarrow>
     (\<exists>f new. tbl_rows (webhook_deliveries t) = map f (tbl_rows (webhook_deliveries s)) @ new
        \<and> (\<forall>d \<in> set (tbl_rows (webhook_deliveries s)). delivery_step\<^sup>*\<^sup>* d (f d))
        \<and> (\<forall>e \<in> set new. \<exists>d. fresh_delivery d \<and> delivery_step\<^sup>*\<^sup>* d e))"

definition wf_log :: "sys \<Rightarrow> bool" where
  "wf_log s = wf_table dl_id (webhook_deliveries s)"

definition follows_log :: "sys \<Rightarrow> sys \<Rightarrow> bool" where
  "follows_log s t = (wf_log s \<longrightarrow> wf_log t \<and> log_grows s t)"

lemma log_grows_refl: "log_grows s s"
  unfolding log_grows_def by (rule exI [of _ id], rule exI [of _ "[]"]) simp

lemma log_grows_trans: "log_grows s t \<Longrightarrow> log_grows t u \<Longrightarrow> log_grows s u"
proof -
  assume "log_grows s t" "log_grows t u"
  then obtain f new g new' where
    t: "tbl_rows (webhook_deliveries t) = map f (tbl_rows (webhook_deliveries s)) @ new"
      "\<forall>d \<in> set (tbl_rows (webhook_deliveries s)). delivery_step\<^sup>*\<^sup>* d (f d)"
      "\<forall>e \<in> set new. \<exists>d. fresh_delivery d \<and> delivery_step\<^sup>*\<^sup>* d e"
    and u: "tbl_rows (webhook_deliveries u) = map g (tbl_rows (webhook_deliveries t)) @ new'"
      "\<forall>d \<in> set (tbl_rows (webhook_deliveries t)). delivery_step\<^sup>*\<^sup>* d (g d)"
      "\<forall>e \<in> set new'. \<exists>d. fresh_delivery d \<and> delivery_step\<^sup>*\<^sup>* d e"
    unfolding log_grows_def by blast
  have r: "tbl_rows (webhook_deliveries u) = map (g \<circ> f) (tbl_rows (webhook_deliveries s)) @ (map g new @ new')"
    using t(1) u(1) by simp
  have o: "\<forall>d \<in> set (tbl_rows (webhook_deliveries s)). delivery_step\<^sup>*\<^sup>* d ((g \<circ> f) d)"
    using t(1,2) u(2) by (auto intro: rtranclp_trans)
  have n: "\<exists>d. fresh_delivery d \<and> delivery_step\<^sup>*\<^sup>* d e" if "e \<in> set (map g new @ new')" for e
  proof (cases "e \<in> set new'")
    case False
    with that obtain x where x: "x \<in> set new" "e = g x" by auto
    then have "delivery_step\<^sup>*\<^sup>* x e" using t(1) u(2) by simp
    with t(3) x(1) show ?thesis by (meson rtranclp_trans)
  qed (use u(3) in blast)
  show "log_grows s u" unfolding log_grows_def using r o n by blast
qed

interpretation log: evolution follows_log
proof
  show "follows_log s s" for s by (simp add: follows_log_def log_grows_refl)
  show "follows_log s u" if "follows_log s t" "follows_log t u" for s t u
    using that by (auto simp: follows_log_def intro: log_grows_trans)
qed

lemma log_same_deliveries:
  "webhook_deliveries t = webhook_deliveries s \<Longrightarrow> follows_log s t"
  using log_grows_refl [of s] by (simp add: follows_log_def wf_log_def log_grows_def)

lemma fresh_new: "\<exists>d. fresh_delivery d \<and> delivery_step\<^sup>*\<^sup>* d (new_delivery env now etype p h i)"
  by (rule exI [of _ "new_delivery env now etype p h i"]) (simp add: fresh_delivery_def new_delivery_def)

lemma enqueue_follows: "evolves follows_log (enqueue env now etype p h)"
  unfolding enqueue_def
proof (rule evolves_writes)
  fix s :: sys
  let ?mk = "new_delivery env now etype p h"
  let ?t = "s\<lparr>webhook_deliveries := insert_row ?mk (webhook_deliveries s)\<rparr>"
  have "log_grows s ?t"
    unfolding log_grows_def
    by (rule exI [of _ id], rule exI [of _ "[?mk (tbl_seq (webhook_deliveries s))]"])
      (auto simp: table_simps fresh_new)
  then show "follows_log s ?t"
    by (auto simp: follows_log_def wf_log_def new_delivery_def intro!: wf_insert_row)
qed

lemma emit_follows: "evolves follows_log (emit env now ws etype p)"
  unfolding emit_def
  by (auto intro!: log.in_transaction log.bind log.basic log.loop enqueue_follows)

lemma update_follows:
  assumes "d \<in> set (tbl_rows (webhook_deliveries s))" "delivery_step d (f d)"
    and "\<And>r. dl_id (f r) = dl_id r"
  shows "follows_log s (s\<lparr>webhook_deliveries := update_rows (\<lambda>r. dl_id r = dl_id d) f (webhook_deliveries s)\<rparr>)"
  unfolding follows_log_def
proof
  assume wf: "wf_log s"
  let ?t = "s\<lparr>webhook_deliveries := update_rows (\<lambda>r. dl_id r = dl_id d) f (webhook_deliveries s)\<rparr>"
  have "delivery_step\<^sup>*\<^sup>* r (if dl_id r = dl_id d then f r else r)"
    if "r \<in> set (tbl_rows (webhook_deliveries s))" for r
    using wf_table_unique [OF wf [unfolded wf_log_def] that assms(1)] assms(2) by auto
  then have "log_grows s ?t"
    unfolding log_grows_def
    by (intro exI [of _ "\<lambda>r. if dl_id r = dl_id d then f r else r"] exI [of _ "[]"]) (simp add: table_simps)
  with wf assms(3) show "wf_log ?t \<and> log_grows s ?t"
    by (simp add: wf_log_def wf_update_rows)
qed

lemma next_delivery_Some:
  "next_delivery now s = Some (d, w) \<Longrightarrow>
     d \<in> set (tbl_rows (webhook_deliveries s)) \<and> due now d \<and> hook_of s d = Some w"
  by (auto simp: next_delivery_def select_rows_def split: option.splits dest!: latest_by_Some)

lemma settled_id [simp]: "dl_id (settle_delivery st n l d) = dl_id d" "dl_id (rescheduled n l t d) = dl_id d"
  by (simp_all add: settle_delivery_def rescheduled_def)

text \<open>The states an attempt can leave, by outcome.\<close>

lemma attempt_cases:
  assumes "attempt_delivery env sender now (d, w) s = (t, r)"
  obtains (fault) x where "r = Inl x" "t = s"
  | (delivered) status where "r = Inr Out_Delivered" "is_success status"
      "t = fst (update_delivery (dl_id d) (settle_delivery Delivered (dl_attempt_count d + 1) (Some status)) s)"
  | (dropped) status where "r = Inr Out_Dropped" "\<not> is_success status" "MAX_ATTEMPTS \<le> dl_attempt_count d + 1"
      "t = fst (suspend_webhook (dl_webhook_id d) (fst (update_delivery (dl_id d)
             (settle_delivery Dropped (dl_attempt_count d + 1) (status_or_none status)) s)))"
  | (retried) status where "r = Inr Out_Retried" "\<not> is_success status" "dl_attempt_count d + 1 < MAX_ATTEMPTS"
      "t = fst (update_delivery (dl_id d) (rescheduled (dl_attempt_count d + 1) (status_or_none status)
             (now + RETRY_SCHEDULE ! (dl_attempt_count d + 1) * 1000000)) s)"
  using assms
  by (auto simp: attempt_delivery_def Let_def bind_s_lift update_delivery_def suspend_webhook_def
      split: sum.splits if_splits)

lemma attempt_follows:
  assumes "next_delivery now s = Some (d, w)" "attempt_delivery env sender now (d, w) s = (t, r)"
  shows "follows_log s t"
proof -
  have d: "d \<in> set (tbl_rows (webhook_deliveries s))" "due now d"
    using next_delivery_Some [OF assms(1)] by auto
  from assms(2) show ?thesis
  proof (cases rule: attempt_cases)
    case fault
    then show ?thesis by (simp add: log.refl)
  next
    case (delivered status)
    with update_follows [where f = "settle_delivery Delivered (dl_attempt_count d + 1) (Some status)",
          OF d(1) delivery_step.Succeed [OF d(2)]] show ?thesis
      by (simp add: update_delivery_def)
  next
    case (dropped status)
    let ?u = "fst (update_delivery (dl_id d) (settle_delivery Dropped (dl_attempt_count d + 1) (status_or_none status)) s)"
    have "follows_log s ?u"
      using update_follows [where f = "settle_delivery Dropped (dl_attempt_count d + 1) (status_or_none status)",
          OF d(1) delivery_step.Give_Up [OF d(2)]] dropped
      by (simp add: update_delivery_def)
    moreover have "follows_log ?u t"
      using dropped by (intro log_same_deliveries) (simp add: suspend_webhook_def)
    ultimately show ?thesis by (rule log.trans)
  next
    case (retried status)
    with update_follows [where f = "rescheduled (dl_attempt_count d + 1) (status_or_none status)
          (now + RETRY_SCHEDULE ! (dl_attempt_count d + 1) * 1000000)",
          OF d(1) delivery_step.Retry [OF d(2)]] show ?thesis
      by (simp add: update_delivery_def)
  qed
qed

lemma round_follows:
  "evolves follows_log (bind_s (reads (next_delivery now)) (\<lambda>found.
     case found of None \<Rightarrow> ret None
     | Some dv \<Rightarrow> bind_s (attempt_delivery env sender now dv) (\<lambda>out. ret (Some out))))"
  unfolding evolves_def
proof
  fix s
  show "follows_log s (fst (bind_s (reads (next_delivery now)) (\<lambda>found.
     case found of None \<Rightarrow> ret None
     | Some dv \<Rightarrow> bind_s (attempt_delivery env sender now dv) (\<lambda>out. ret (Some out))) s))"
  proof (cases "next_delivery now s")
    case None
    then show ?thesis by (simp add: log.refl)
  next
    case (Some dv)
    obtain d w where dv: "dv = (d, w)" by (cases dv)
    have "follows_log s (fst (attempt_delivery env sender now (d, w) s))"
      using attempt_follows [of now s d w env sender] Some dv by (metis prod.collapse)
    with Some dv show ?thesis by (simp add: bind_s_apply split: sum.splits)
  qed
qed

lemma loop_follows: "evolves follows_log (delivery_loop env sender now n c)"
proof (induction n arbitrary: c)
  case 0
  show ?case unfolding delivery_loop.simps by (rule log.basic)
next
  case (Suc n)
  show ?case
    unfolding delivery_loop.simps
    by (rule log.bind [OF log.in_transaction [OF round_follows]])
      (auto split: option.splits intro: log.basic Suc.IH)
qed

lemma deliver_follows: "evolves follows_log (deliver_once env sender now limit)"
  unfolding deliver_once_def by (rule loop_follows)

lemma verify_follows: "evolves follows_log (verify_webhook env ref ws sender)"
  unfolding verify_webhook_def
  by (auto intro!: log.bind log.basic log.in_transaction evolves_writes log_same_deliveries
      simp: Let_def split: option.splits)

text \<open>The operations that touch the outbox, in any order, with any clock and sender.\<close>

inductive outbox_step :: "webhook_env \<Rightarrow> sys \<Rightarrow> sys \<Rightarrow> bool" for env where
  Emitting: "emit env now ws etype p s = (t, r) \<Longrightarrow> outbox_step env s t"
| Delivering: "deliver_once env sender now limit s = (t, r') \<Longrightarrow> outbox_step env s t"
| Verifying: "verify_webhook env ref ws sender s = (t, r'') \<Longrightarrow> outbox_step env s t"

lemma outbox_follows: "(outbox_step env)\<^sup>*\<^sup>* s t \<Longrightarrow> follows_log s t"
proof (induction rule: rtranclp_induct)
  case base
  show ?case by (rule log.refl)
next
  case (step t u)
  from step.hyps(2) have "follows_log t u"
    by cases (auto intro: log.after [OF emit_follows] log.after [OF deliver_follows]
        log.after [OF verify_follows])
  with step.IH show ?case by (rule log.trans)
qed

text \<open>
  From an empty outbox, whatever sequence of emissions, worker runs and verifications
  is made, every delivery is retrying with a due time after at most five failures, delivered
  with a 2xx status within six attempts, or dropped after exactly six failures; and a
  delivery that is delivered or dropped is never touched again.
\<close>

theorem delivery_lifecycle:
  assumes "(outbox_step env)\<^sup>*\<^sup>* s t" and "webhook_deliveries s = empty_table"
    and "(outbox_step env)\<^sup>*\<^sup>* t u"
  shows "\<forall>d \<in> set (tbl_rows (webhook_deliveries t)). delivery_ok d
     \<and> (dl_status d \<noteq> Retrying \<longrightarrow> d \<in> set (tbl_rows (webhook_deliveries u)))"
proof -
  have wf: "wf_log s" using assms(2) by (simp add: wf_log_def wf_empty_table)
  with outbox_follows [OF assms(1)] have t: "wf_log t" "log_grows s t" by (auto simp: follows_log_def)
  with outbox_follows [OF assms(3)] have u: "log_grows t u" by (auto simp: follows_log_def)
  have "delivery_ok d" if d: "d \<in> set (tbl_rows (webhook_deliveries t))" for d
  proof -
    obtain r where "fresh_delivery r" "delivery_step\<^sup>*\<^sup>* r d"
      using t(2) d unfolding log_grows_def assms(2) table_simps by auto
    then show ?thesis using steps_ok fresh_ok by blast
  qed
  moreover have "d \<in> set (tbl_rows (webhook_deliveries u))"
    if d: "d \<in> set (tbl_rows (webhook_deliveries t))" "dl_status d \<noteq> Retrying" for d
  proof -
    obtain f new where f: "tbl_rows (webhook_deliveries u) = map f (tbl_rows (webhook_deliveries t)) @ new"
        "delivery_step\<^sup>*\<^sup>* d (f d)"
      using u d(1) by (auto simp: log_grows_def)
    from settled_steps [OF f(2) d(2)] have "f d = d" .
    with f(1) d(1) show ?thesis by (metis UnI1 image_eqI list.set_map set_append)
  qed
  ultimately show ?thesis by blast
qed

lemma delivery_lifecycle_witness:
  "\<exists>u. deliver_once ex_wenv (\<lambda>m u h b. Inr 500) 0 1 ex_queued = (u, Inr (no_deliveries\<lparr>dc_retried := 1\<rparr>))
     \<and> (\<forall>d \<in> set (tbl_rows (webhook_deliveries ex_queued)). delivery_ok d
          \<and> (dl_status d \<noteq> Retrying \<longrightarrow> d \<in> set (tbl_rows (webhook_deliveries u))))"
proof -
  obtain u where "attempt_delivery ex_wenv (\<lambda>m u h b. Inr 500) 0 (ex_delivery, ex_hook) ex_queued
      = (u, Inr Out_Retried)"
    using ex_failing ..
  then have u: "deliver_once ex_wenv (\<lambda>m u h b. Inr 500) 0 1 ex_queued
      = (u, Inr (no_deliveries\<lparr>dc_retried := 1\<rparr>))"
    by (simp add: deliver_once_def ex_next bind_s_def transaction_def no_deliveries_def ret_def reads_def)
  have "(outbox_step ex_wenv)\<^sup>*\<^sup>* ex_outbox ex_queued"
    by (rule r_into_rtranclp) (rule outbox_step.Emitting [OF ex_emit])
  moreover have "(outbox_step ex_wenv)\<^sup>*\<^sup>* ex_queued u"
    by (rule r_into_rtranclp) (rule outbox_step.Delivering [OF u])
  moreover have "webhook_deliveries ex_outbox = empty_table" by (simp add: ex_outbox_def empty_sys_def)
  ultimately show ?thesis using delivery_lifecycle [of ex_wenv ex_outbox ex_queued u] u by blast
qed

section \<open>Retry delays\<close>

text \<open>
  A failed attempt that is not the last reschedules the delivery by the entry of the
  schedule after the one of its position: the first retry comes five minutes later and the
  documented delay of one minute is never used.
\<close>

theorem retry_skips_first_delay:
  assumes "next_delivery now s = Some (d, w)" and "wf_log s"
    and "attempt_delivery env sender now (d, w) s = (t, Inr Out_Retried)"
  shows "\<exists>e \<in> set (tbl_rows (webhook_deliveries t)). dl_id e = dl_id d
     \<and> dl_attempt_count e = dl_attempt_count d + 1
     \<and> dl_next_retry_at e = Some (now + RETRY_SCHEDULE ! (dl_attempt_count d + 1) * 1000000)
     \<and> now + 300 * 1000000 \<le> the (dl_next_retry_at e)"
proof -
  note d = next_delivery_Some [OF assms(1)]
  from assms(3) obtain status where n: "dl_attempt_count d + 1 < MAX_ATTEMPTS"
    and t: "t = fst (update_delivery (dl_id d) (rescheduled (dl_attempt_count d + 1) (status_or_none status)
             (now + RETRY_SCHEDULE ! (dl_attempt_count d + 1) * 1000000)) s)"
    by (cases rule: attempt_cases) auto
  define e where "e = rescheduled (dl_attempt_count d + 1) (status_or_none status)
             (now + RETRY_SCHEDULE ! (dl_attempt_count d + 1) * 1000000) d"
  have "e \<in> set (tbl_rows (webhook_deliveries t))"
    using d t by (force simp: e_def update_delivery_def table_simps)
  moreover have "300 \<le> RETRY_SCHEDULE ! (dl_attempt_count d + 1)"
  proof -
    have "dl_attempt_count d \<in> {0, 1, 2, 3, 4}"
      using n by (auto simp: MAX_ATTEMPTS_def RETRY_SCHEDULE_def)
    then show ?thesis by (auto simp: RETRY_SCHEDULE_def)
  qed
  moreover have "dl_id e = dl_id d" "dl_attempt_count e = dl_attempt_count d + 1"
    "dl_next_retry_at e = Some (now + RETRY_SCHEDULE ! (dl_attempt_count d + 1) * 1000000)"
    by (simp_all add: e_def rescheduled_def)
  ultimately show ?thesis by (intro bexI [of _ e]) auto
qed

lemma retry_skips_first_delay_witness:
  "\<exists>t. attempt_delivery ex_wenv (\<lambda>m u h b. Inr 500) 0 (ex_delivery, ex_hook) ex_queued = (t, Inr Out_Retried)
     \<and> (\<exists>e \<in> set (tbl_rows (webhook_deliveries t)). dl_attempt_count e = 1 \<and> dl_next_retry_at e = Some 300000000)"
proof -
  obtain t where r: "attempt_delivery ex_wenv (\<lambda>m u h b. Inr 500) 0 (ex_delivery, ex_hook) ex_queued
      = (t, Inr Out_Retried)"
    using ex_failing ..
  have wf: "wf_log ex_queued" by (simp add: wf_log_def wf_table_def ex_queued_def ex_delivery_def new_delivery_def)
  have "dl_attempt_count ex_delivery = 0" by (simp add: ex_delivery_def new_delivery_def)
  then show ?thesis
    using retry_skips_first_delay [OF ex_next wf r] r by (auto simp: RETRY_SCHEDULE_def)
qed

end
