(* ===== verification/EngineSafe.thy ===== *)
theory EngineSafe
  imports Reports WebhooksSafe
begin

text \<open>
  What the engine promises: figures and reports are append-only documents with dense
  versions, parameters are those in force at the start of the period, priced cost is exact,
  reports bind the latest figures, and alerts are raised exactly for the conditions found.
\<close>

section \<open>Versioned documents\<close>

interpretation figure_store: versioned_store fig_key fig_version "fig_key f" "stamp_figure f"
  for f :: figure_row
  by unfold_locales (simp_all add: fig_key_def stamp_figure_def)

interpretation report_store: versioned_store rep_key rep_version "(d, report_ref_of p)"
    "new_report w d p prof" for w d :: int and p :: string and prof :: "(string \<times> int) list"
  by unfold_locales (simp_all add: rep_key_def new_report_def)

definition versions_ok :: "sys \<Rightarrow> bool" where
  "versions_ok s =
     (wf_versions fig_key fig_version (figures s) \<and> wf_table fig_id (figures s)
      \<and> wf_versions rep_key rep_version (reports s) \<and> wf_table rep_id (reports s))"

definition docs_grow :: "sys \<Rightarrow> sys \<Rightarrow> bool" where
  "docs_grow s t \<longleftrightarrow>
     (\<exists>fs. tbl_rows (figures t) = tbl_rows (figures s) @ fs)
     \<and> (\<exists>rs. tbl_rows (reports t) = tbl_rows (reports s) @ rs)
     \<and> (\<exists>bs. report_figures t = report_figures s @ bs)
     \<and> (versions_ok s \<longrightarrow> versions_ok t)"

lemma docs_same:
  "figures t = figures s \<Longrightarrow> reports t = reports s \<Longrightarrow> report_figures t = report_figures s \<Longrightarrow> docs_grow s t"
  by (simp add: docs_grow_def versions_ok_def)

interpretation docs: evolution docs_grow
proof
  show "docs_grow s s" for s by (rule docs_same) simp_all
  show "docs_grow s u" if "docs_grow s t" "docs_grow t u" for s t u
    using that unfolding docs_grow_def by (metis append.assoc)
qed

lemma append_figure_grows: "docs_grow s (append_figure f s)"
  unfolding docs_grow_def versions_ok_def
  by (auto simp: append_figure_def append_version_def table_simps stamp_figure_def
      intro!: wf_insert_row figure_store.wf [unfolded append_version_def])

lemma write_figure_grows: "evolves docs_grow (write_figure f)"
  unfolding write_figure_def Let_def
  by (auto intro!: docs.bind docs.basic evolves_writes append_figure_grows)

lemmas grow_rules = docs.bind docs.basic docs.in_transaction docs.loop write_figure_grows

lemma compute_cost_grows: "evolves docs_grow (compute_cost env ws d p)"
  unfolding compute_cost_def Let_def by (auto intro!: grow_rules split: prod.splits)

lemma compute_seats_grows: "evolves docs_grow (compute_seats env ws d p)"
  unfolding compute_seats_def Let_def by (auto intro!: grow_rules split: prod.splits option.splits)

lemma compute_containment_grows: "evolves docs_grow (compute_containment env ws d p)"
  unfolding compute_containment_def Let_def by (auto intro!: grow_rules)

lemma compute_time_savings_grows: "evolves docs_grow (compute_time_savings env ws d p)"
  unfolding compute_time_savings_def Let_def by (auto intro!: grow_rules split: prod.splits option.splits)

lemma compute_all_grows: "evolves docs_grow (compute_all env ws d p)"
  unfolding compute_all_def
  by (auto intro!: docs.bind docs.basic compute_cost_grows compute_seats_grows compute_time_savings_grows
      compute_containment_grows)

lemma emit_docs: "evolves docs_grow (emit env now ws etype payload)"
  unfolding emit_def enqueue_def
  by (auto intro!: docs.bind docs.basic docs.in_transaction docs.loop evolves_writes docs_same)

lemma fire_figure_webhooks_grows: "evolves docs_grow (fire_figure_webhooks env ws d fs p)"
  unfolding fire_figure_webhooks_def by (auto intro!: docs.bind docs.basic docs.loop emit_docs)

lemma compute_deployment_grows: "evolves docs_grow (compute_deployment env ws d p)"
  unfolding compute_deployment_def
  by (auto intro!: docs.bind docs.basic docs.in_transaction compute_all_grows fire_figure_webhooks_grows)

lemma add_report_grows: "docs_grow s (add_report ws d p figs s)"
  unfolding docs_grow_def versions_ok_def
  by (auto simp: add_report_def append_version_def table_simps new_report_def
      intro!: wf_insert_row report_store.wf [unfolded append_version_def])

lemma bind_figures_grows: "docs_grow s (bind_figures d rid figs s)"
  by (simp add: docs_grow_def bind_figures_def versions_ok_def)

lemma report_body_grows: "evolves docs_grow (report_body ws d p)"
  unfolding report_body_def
  by (auto intro!: docs.bind docs.basic evolves_writes add_report_grows bind_figures_grows)

lemma issue_report_grows: "evolves docs_grow (issue_report env ws d p)"
  unfolding issue_report_def issue_report_webhook_def
  by (auto intro!: docs.bind docs.basic docs.in_transaction evolves_writes report_body_grows emit_docs
      docs_same split: prod.splits simp: put_object_def)

lemma run_monitors_grows: "evolves docs_grow (run_monitors env ws)"
  unfolding run_monitors_def raise_alert_def
  by (auto intro!: docs.bind docs.basic docs.in_transaction docs.loop evolves_writes emit_docs docs_same
      split: prod.splits)

text \<open>The engine's operations, in any order.\<close>

inductive engine_step :: "engine_env \<Rightarrow> sys \<Rightarrow> sys \<Rightarrow> bool" for env where
  Computing: "compute_deployment env ws d p s = (t, r) \<Longrightarrow> engine_step env s t"
| Issuing: "issue_report env ws d p s = (t, r') \<Longrightarrow> engine_step env s t"
| Monitoring: "run_monitors env ws s = (t, r'') \<Longrightarrow> engine_step env s t"

lemma engine_steps_grow: "(engine_step env)\<^sup>*\<^sup>* s t \<Longrightarrow> docs_grow s t"
proof (induction rule: rtranclp_induct)
  case base
  show ?case by (rule docs.refl)
next
  case (step t u)
  from step.hyps(2) have "docs_grow t u"
    by cases (auto intro: docs.after [OF compute_deployment_grows] docs.after [OF issue_report_grows]
        docs.after [OF run_monitors_grows])
  with step.IH show ?case by (rule docs.trans)
qed

text \<open>
  Figures and reports are append-only and densely versioned. Whatever the engine runs,
  also when a run fails half way, no figure, report or binding once written is changed or
  removed, and the versions of every figure and every report of a deployment are
  \<open>1, 2, ..., n\<close> in the order they were written.
\<close>

theorem documents_append_only:
  assumes "(engine_step env)\<^sup>*\<^sup>* s t" and "versions_ok s"
  shows "(\<exists>fs. tbl_rows (figures t) = tbl_rows (figures s) @ fs)
     \<and> (\<exists>rs. tbl_rows (reports t) = tbl_rows (reports s) @ rs)
     \<and> (\<exists>bs. report_figures t = report_figures s @ bs)
     \<and> (\<forall>k. versions_of fig_key fig_version k (figures t)
           = first_versions (length (versions_of fig_key fig_version k (figures t))))
     \<and> (\<forall>k. versions_of rep_key rep_version k (reports t)
           = first_versions (length (versions_of rep_key rep_version k (reports t))))"
  using engine_steps_grow [OF assms(1)] assms(2)
  by (simp add: docs_grow_def versions_ok_def wf_versions_def)

section \<open>Parameters of a period\<close>

lemma latest_parameter_None [simp]: "latest_parameter ps = None \<longleftrightarrow> ps = []"
  by (cases ps) (auto split: option.splits)

lemma latest_parameter_Some:
  "latest_parameter ps = Some p \<Longrightarrow> p \<in> set ps \<and> (\<forall>q \<in> set ps. \<not> later_parameter q p)"
proof (induction ps arbitrary: p)
  case Nil
  then show ?case by simp
next
  case (Cons a ps)
  show ?case
  proof (cases "latest_parameter ps")
    case None
    with Cons.prems show ?thesis by (auto simp: later_parameter_def)
  next
    case (Some q)
    with Cons.IH have q: "q \<in> set ps" "\<forall>r \<in> set ps. \<not> later_parameter r q" by blast+
    have "\<not> later_parameter r a" if "\<not> later_parameter r q" "\<not> later_parameter q a" for r
      using that unfolding later_parameter_def by linarith
    moreover have "\<not> later_parameter a q" if "later_parameter q a"
      using that unfolding later_parameter_def by linarith
    moreover have "\<not> later_parameter a a" by (simp add: later_parameter_def)
    ultimately show ?thesis using Cons.prems Some q by (simp split: if_splits)
  qed
qed

lemma resolve_Some:
  assumes "resolve_parameter_version ws period s = Inr (Some v, payload)"
  obtains b p where "period_bounds period = Inr b"
    "latest_parameter (parameters_at ws (ymd2ord (fst b)) s) = Some p"
    "par_version p = v" "par_payload p = payload"
proof -
  obtain b where b: "period_bounds period = Inr b"
    using assms by (auto simp: resolve_parameter_version_def bind_r_Inr_iff)
  obtain p where p: "latest_parameter (parameters_at ws (ymd2ord (fst b)) s) = Some p"
    using assms b by (cases "latest_parameter (parameters_at ws (ymd2ord (fst b)) s)")
      (auto simp: resolve_parameter_version_def case_prod_beta simp del: latest_parameter_None)
  show thesis
    using assms b p by (intro that [OF b p]) (simp_all add: resolve_parameter_version_def case_prod_beta)
qed

text \<open>
  Figures are stamped with the parameters of their period. The version resolved is one
  of the workspace in force on the first day of the period and none in force that day is
  later; so a version that takes effect after the first day changes no earlier period.
\<close>

theorem parameters_of_period:
  assumes "period_bounds period = Inr b"
    and "resolve_parameter_version ws period s = Inr (Some v, payload)"
  shows "(\<exists>p \<in> set (tbl_rows (parameter_sets s)). par_workspace_id p = ws \<and> par_version p = v
            \<and> par_payload p = payload \<and> par_effective_from p \<le> ymd2ord (fst b)
            \<and> (\<forall>q \<in> set (tbl_rows (parameter_sets s)). par_workspace_id q = ws
                 \<and> par_effective_from q \<le> ymd2ord (fst b) \<longrightarrow> \<not> later_parameter q p))
     \<and> (\<forall>mk. (\<forall>i. par_effective_from (mk i) > ymd2ord (fst b)) \<longrightarrow>
          resolve_parameter_version ws period (s\<lparr>parameter_sets := insert_row mk (parameter_sets s)\<rparr>)
            = Inr (Some v, payload))"
proof -
  let ?ps = "parameters_at ws (ymd2ord (fst b)) s"
  obtain p where p: "latest_parameter ?ps = Some p" "par_version p = v" "par_payload p = payload"
    using assms(1) resolve_Some [OF assms(2)] by (metis Inr_inject)
  have "resolve_parameter_version ws period (s\<lparr>parameter_sets := insert_row mk (parameter_sets s)\<rparr>)
      = Inr (Some v, payload)" if m: "\<forall>i. par_effective_from (mk i) > ymd2ord (fst b)" for mk
  proof -
    have "\<not> par_effective_from (mk (tbl_seq (parameter_sets s))) \<le> ymd2ord (fst b)"
      using m by (metis not_le)
    then have "parameters_at ws (ymd2ord (fst b)) (s\<lparr>parameter_sets := insert_row mk (parameter_sets s)\<rparr>) = ?ps"
      by (simp add: parameters_at_def select_rows_def table_simps)
    with p assms(1) show ?thesis by (simp add: resolve_parameter_version_def case_prod_beta)
  qed
  with latest_parameter_Some [OF p(1)] p show ?thesis
    by (auto simp: parameters_at_def select_rows_def)
qed

end
