(* ===== verification/PipelineExact.thy ===== *)
theory PipelineExact
  imports Pipeline IngestSafety
begin

text \<open>
  The aggregates are exact: each daily figure is the sum of the contributions of the events
  the pipeline has settled, each counted once, in every state the worker leaves.
\<close>

section \<open>Sums over events and totals of aggregates\<close>

definition total :: "('r \<Rightarrow> 'k) \<Rightarrow> ('r \<Rightarrow> 'n::comm_monoid_add) \<Rightarrow> 'r table \<Rightarrow> 'k \<Rightarrow> 'n" where
  "total key val t k = (case lookup_key key t k of None \<Rightarrow> 0 | Some r \<Rightarrow> val r)"

text \<open>What one event adds to the figure of a key.\<close>

definition share :: "(event_row \<Rightarrow> ('k \<times> 'n::comm_monoid_add) option) \<Rightarrow> 'k \<Rightarrow> event_row \<Rightarrow> 'n" where
  "share c k e = (case c e of None \<Rightarrow> 0 | Some (k', v) \<Rightarrow> if k' = k then v else 0)"

definition contributed ::
  "(event_row \<Rightarrow> ('k \<times> 'n::comm_monoid_add) option) \<Rightarrow> event_row table \<Rightarrow> 'k \<Rightarrow> 'n" where
  "contributed c t k = sum_list (map (share c k) (tbl_rows t))"

text \<open>The contract of an aggregate: its upsert adds one contribution at its key.\<close>

locale accumulating = keyed_upsert key k mk f
  for key :: "'r \<Rightarrow> 'k" and k :: 'k and mk :: "int \<Rightarrow> 'r" and f :: "'r \<Rightarrow> 'r" +
  fixes val :: "'r \<Rightarrow> 'n::comm_monoid_add" and v :: 'n
  assumes val_mk: "val (mk i) = v" and val_f: "val (f r) = val r + v"
begin

lemma total_upsert:
  "total key val (upsert (\<lambda>r. key r = k) mk f t) k' = total key val t k' + (if k' = k then v else 0)"
  by (simp add: total_def lookup val_mk val_f split: option.splits)

end

lemma sum_list_replace:
  fixes h :: "event_row \<Rightarrow> 'n::comm_monoid_add"
  assumes "distinct (map ev_id rows)" "e \<in> set rows" "h e = 0" "\<And>r. ev_id (f r) = ev_id r"
  shows "sum_list (map h (map (\<lambda>r. if ev_id r = ev_id e \<and> ev_occurred_at r = ev_occurred_at e then f r else r) rows))
    = sum_list (map h rows) + h (f e)"
  using assms
proof (induction rows)
  case Nil
  then show ?case by simp
next
  case (Cons r rows)
  show ?case
  proof (cases "r = e")
    case True
    then have "\<forall>x \<in> set rows. ev_id x \<noteq> ev_id e" using Cons.prems(1) by (auto simp: image_iff)
    then have "map (\<lambda>r. if ev_id r = ev_id e \<and> ev_occurred_at r = ev_occurred_at e then f r else r) rows = rows"
      by (intro map_idI) auto
    with True Cons.prems(3) show ?thesis by (simp add: add.commute)
  next
    case False
    with Cons.prems(1,2) have "ev_id r \<noteq> ev_id e" by (auto simp: image_iff)
    with False Cons show ?thesis by (simp add: add.assoc)
  qed
qed

section \<open>The contributions\<close>

definition settled :: "event_row \<Rightarrow> bool" where
  "settled e = (ev_status e \<noteq> Accepted)"

definition stats_key :: "event_row \<Rightarrow> int \<times> string \<times> int" where
  "stats_key e = (ev_deployment_id e, event_source e, event_day e)"

definition counts_as_resolved :: "event_row \<Rightarrow> bool" where
  "counts_as_resolved e = (ev_resolved_user_id e \<noteq> None \<and> ev_exclusion e = None)"

definition per_stats :: "(event_row \<Rightarrow> int) \<Rightarrow> event_row \<Rightarrow> ((int \<times> string \<times> int) \<times> int) option" where
  "per_stats g e = (if settled e then Some (stats_key e, g e) else None)"

definition per_user :: "event_row \<Rightarrow> ((int \<times> int \<times> int) \<times> int) option" where
  "per_user e =
     (if settled e \<and> ev_type e = Activity \<and> counts_as_resolved e
      then Some ((ev_deployment_id e, the (ev_resolved_user_id e), event_day e), 1) else None)"

definition per_counter ::
  "(json \<Rightarrow> rat result) \<Rightarrow> event_row \<Rightarrow> ((int \<times> string \<times> string \<times> int) \<times> rat) option" where
  "per_counter numeric e =
     (if settled e \<and> ev_type e = Cost_Meter
      then (case (meter_name (ev_payload e), meter_ref_of (ev_payload e),
                  numeric (json_get_or (ev_payload e) ''quantity'' (JInt 0))) of
              (Inr meter, Inr ref, Inr qty) \<Rightarrow>
                if meter \<in> set GAUGE_METERS then None
                else Some ((ev_deployment_id e, meter, ref, event_day e), qty)
            | _ \<Rightarrow> None)
      else None)"

text \<open>Every figure is the sum of the contributions of the settled events.\<close>

definition stats_exact :: "(stats_row \<Rightarrow> int) \<Rightarrow> (event_row \<Rightarrow> int) \<Rightarrow> sys \<Rightarrow> bool" where
  "stats_exact val g s \<longleftrightarrow>
     (\<forall>k. total is_key val (ingestion_stats_daily s) k = contributed (per_stats g) (events s) k)"

definition aggregates_exact :: "(json \<Rightarrow> rat result) \<Rightarrow> sys \<Rightarrow> bool" where
  "aggregates_exact numeric s \<longleftrightarrow>
     stats_exact is_accepted (\<lambda>_. 1) s
     \<and> stats_exact is_identity_bearing (\<lambda>e. of_bool_int (id_bearing e)) s
     \<and> stats_exact is_resolved (\<lambda>e. of_bool_int (counts_as_resolved e)) s
     \<and> stats_exact is_activity (\<lambda>e. of_bool_int (ev_type e = Activity)) s
     \<and> stats_exact is_joined (\<lambda>e. of_bool_int (ev_work_item_id e \<noteq> None)) s
     \<and> (\<forall>k. total ua_key ua_event_count (user_activity_daily s) k = contributed per_user (events s) k)
     \<and> (\<forall>k. total mu_key mu_quantity_sum (meter_usage_daily s) k = contributed (per_counter numeric) (events s) k)"

lemma settle_simps [simp]:
  "settled (settle e uid excl wi)"
  "stats_key (settle e uid excl wi) = stats_key e"
  "event_day (settle e uid excl wi) = event_day e"
  "ev_id (settle e uid excl wi) = ev_id e"
  "ev_type (settle e uid excl wi) = ev_type e"
  "ev_payload (settle e uid excl wi) = ev_payload e"
  "ev_deployment_id (settle e uid excl wi) = ev_deployment_id e"
  "ev_resolved_user_id (settle e uid excl wi) = uid"
  "ev_work_item_id (settle e uid excl wi) = wi"
  "id_bearing (settle e uid excl wi) = id_bearing e"
  "counts_as_resolved (settle e uid excl wi) = (uid \<noteq> None \<and> excl = None)"
  by (simp_all add: settle_def settled_def settled_status_def stats_key_def event_day_def
      event_source_def id_bearing_def counts_as_resolved_def)

lemma unsettled_share: "ev_status e = Accepted \<Longrightarrow>
    share (per_stats g) k e = 0 \<and> share per_user k' e = 0 \<and> share (per_counter numeric) k'' e = 0"
  by (simp add: share_def per_stats_def per_user_def per_counter_def settled_def)

definition settle_in :: "event_row \<Rightarrow> int option \<Rightarrow> exclusion_reason option \<Rightarrow> int option \<Rightarrow> event_row table \<Rightarrow> event_row table" where
  "settle_in e uid excl wi t =
     update_rows (\<lambda>r. ev_id r = ev_id e \<and> ev_occurred_at r = ev_occurred_at e) (\<lambda>r. settle r uid excl wi) t"

lemma contributed_settle:
  assumes "wf_table ev_id t" "e \<in> set (tbl_rows t)" "share c k e = 0"
  shows "contributed c (settle_in e uid excl wi t) k = contributed c t k + share c k (settle e uid excl wi)"
  unfolding contributed_def settle_in_def table_simps
  by (rule sum_list_replace) (use assms in \<open>auto simp: wf_table_def\<close>)

section \<open>The aggregates are accumulating\<close>

interpretation stats: keyed_upsert is_key "stats_key e" "new_stats e cr wi" "add_stats e cr wi" for e cr wi
  by unfold_locales (simp_all add: is_key_def stats_key_def new_stats_def add_stats_def)

interpretation accepted_count: accumulating is_key "stats_key e" "new_stats e cr wi" "add_stats e cr wi"
    is_accepted 1 for e cr wi
  by unfold_locales (simp_all add: new_stats_def add_stats_def)

interpretation identity_count: accumulating is_key "stats_key e" "new_stats e cr wi" "add_stats e cr wi"
    is_identity_bearing "of_bool_int (id_bearing e)" for e cr wi
  by unfold_locales (simp_all add: new_stats_def add_stats_def)

interpretation resolved_count: accumulating is_key "stats_key e" "new_stats e cr wi" "add_stats e cr wi"
    is_resolved "of_bool_int cr" for e cr wi
  by unfold_locales (simp_all add: new_stats_def add_stats_def)

interpretation activity_count: accumulating is_key "stats_key e" "new_stats e cr wi" "add_stats e cr wi"
    is_activity "of_bool_int (ev_type e = Activity)" for e cr wi
  by unfold_locales (simp_all add: new_stats_def add_stats_def)

interpretation joined_count: accumulating is_key "stats_key e" "new_stats e cr wi" "add_stats e cr wi"
    is_joined "of_bool_int (wi \<noteq> None)" for e cr wi
  by unfold_locales (simp_all add: new_stats_def add_stats_def)

interpretation user_count: accumulating ua_key "(ev_deployment_id e, u, event_day e)"
    "new_user_activity e u" "\<lambda>r. r\<lparr>ua_event_count := ua_event_count r + 1\<rparr>" ua_event_count 1 for e u
  by unfold_locales (simp_all add: ua_key_def new_user_activity_def)

interpretation counter_sum: accumulating mu_key "(ev_deployment_id e, m, ref, event_day e)"
    "new_meter e m ref q None" "\<lambda>r. r\<lparr>mu_quantity_sum := mu_quantity_sum r + q\<rparr>" mu_quantity_sum q
    for e m ref q
  by unfold_locales (simp_all add: mu_key_def new_meter_def)

interpretation gauge_last: accumulating mu_key "(ev_deployment_id e, m, ref, event_day e)"
    "new_meter e m ref 0 (Some q)" "\<lambda>r. r\<lparr>mu_gauge_last := Some q\<rparr>" mu_quantity_sum 0
    for e m ref q
  by unfold_locales (simp_all add: mu_key_def new_meter_def)

section \<open>The effect of one event\<close>

definition items_only :: "sys \<Rightarrow> sys \<Rightarrow> bool" where
  "items_only s t \<longleftrightarrow> (\<exists>w. t = s\<lparr>work_items := w\<rparr>)"

interpretation items: evolution items_only
proof
  show "items_only s s" for s
    unfolding items_only_def by (rule exI [of _ "work_items s"]) simp
qed (auto simp: items_only_def)

lemma items_only_set: "items_only s (s\<lparr>work_items := w\<rparr>)"
  by (auto simp: items_only_def)

lemma join_work_item_frame: "evolves items_only (join_work_item e)"
  unfolding join_work_item_def Let_def
  by (auto intro!: items.basic items.bind evolves_writes items_only_set)

definition fold_stats :: "event_row \<Rightarrow> bool \<Rightarrow> int option \<Rightarrow> stats_row table \<Rightarrow> stats_row table" where
  "fold_stats e cr wi = upsert (\<lambda>r. is_key r = stats_key e) (new_stats e cr wi) (add_stats e cr wi)"

definition fold_user :: "event_row \<Rightarrow> int option \<Rightarrow> bool \<Rightarrow> user_activity_row table \<Rightarrow> user_activity_row table" where
  "fold_user e uid cr t =
     (if ev_type e = Activity \<and> cr
      then upsert (\<lambda>r. ua_key r = (ev_deployment_id e, the uid, event_day e)) (new_user_activity e (the uid))
             (\<lambda>r. r\<lparr>ua_event_count := ua_event_count r + 1\<rparr>) t
      else t)"

definition fold_meter :: "event_row \<Rightarrow> string \<Rightarrow> string \<Rightarrow> rat \<Rightarrow> meter_row table \<Rightarrow> meter_row table" where
  "fold_meter e m ref q t =
     (if m \<in> set GAUGE_METERS
      then upsert (\<lambda>r. mu_key r = (ev_deployment_id e, m, ref, event_day e)) (new_meter e m ref 0 (Some q))
             (\<lambda>r. r\<lparr>mu_gauge_last := Some q\<rparr>) t
      else upsert (\<lambda>r. mu_key r = (ev_deployment_id e, m, ref, event_day e)) (new_meter e m ref q None)
             (\<lambda>r. r\<lparr>mu_quantity_sum := mu_quantity_sum r + q\<rparr>) t)"

lemma update_meter_Inr:
  assumes "update_meter numeric e s = (s', Inr u)"
  shows "\<exists>m ref q. meter_name (ev_payload e) = Inr m \<and> meter_ref_of (ev_payload e) = Inr ref
       \<and> numeric (json_get_or (ev_payload e) ''quantity'' (JInt 0)) = Inr q
       \<and> s' = s\<lparr>meter_usage_daily := fold_meter e m ref q (meter_usage_daily s)\<rparr>"
proof -
  obtain m where m: "meter_name (ev_payload e) = Inr m"
    using assms by (cases "meter_name (ev_payload e)") (auto simp: update_meter_def)
  obtain ref where ref: "meter_ref_of (ev_payload e) = Inr ref"
    using assms m by (cases "meter_ref_of (ev_payload e)") (auto simp: update_meter_def)
  obtain q where q: "numeric (json_get_or (ev_payload e) ''quantity'' (JInt 0)) = Inr q" "store_numeric q = Inr q"
    using assms m ref
    by (cases "numeric (json_get_or (ev_payload e) ''quantity'' (JInt 0))")
      (auto simp: update_meter_def store_numeric_def split: if_splits)
  have "s' = s\<lparr>meter_usage_daily := fold_meter e m ref q (meter_usage_daily s)\<rparr>"
    using assms m ref q
    by (simp add: update_meter_def fold_meter_def Let_def bind_s_lift split: if_splits sum.splits)
  with m ref q show ?thesis by blast
qed

lemma update_aggregates_Inr:
  assumes "update_aggregates numeric e uid excl wi s = (s', Inr u)"
  shows "\<exists>mu. s' = s\<lparr>ingestion_stats_daily := fold_stats e (uid \<noteq> None \<and> excl = None) wi (ingestion_stats_daily s),
       user_activity_daily := fold_user e uid (uid \<noteq> None \<and> excl = None) (user_activity_daily s),
       meter_usage_daily := mu\<rparr>
     \<and> (ev_type e \<noteq> Cost_Meter \<and> mu = meter_usage_daily s \<or> ev_type e = Cost_Meter \<and>
        (\<exists>m ref q. meter_name (ev_payload e) = Inr m \<and> meter_ref_of (ev_payload e) = Inr ref
           \<and> numeric (json_get_or (ev_payload e) ''quantity'' (JInt 0)) = Inr q
           \<and> mu = fold_meter e m ref q (meter_usage_daily s)))"
proof -
  let ?s1 = "s\<lparr>ingestion_stats_daily := fold_stats e (uid \<noteq> None \<and> excl = None) wi (ingestion_stats_daily s),
       user_activity_daily := fold_user e uid (uid \<noteq> None \<and> excl = None) (user_activity_daily s)\<rparr>"
  have "(if ev_type e = Cost_Meter then update_meter numeric e else ret ()) ?s1 = (s', Inr u)"
    using assms
    by (cases uid) (auto simp: update_aggregates_def fold_stats_def fold_user_def stats_key_def Let_def bind_s_apply)
  then show ?thesis
    by (cases "ev_type e = Cost_Meter") (auto dest!: update_meter_Inr)
qed

lemma process_event_Inr:
  assumes "process_event numeric e s = (s', Inr out)"
  shows "\<exists>uid excl wi. out = settled_status wi excl
    \<and> events s' = settle_in e uid excl wi (events s)
    \<and> ingestion_stats_daily s' = fold_stats e (uid \<noteq> None \<and> excl = None) wi (ingestion_stats_daily s)
    \<and> user_activity_daily s' = fold_user e uid (uid \<noteq> None \<and> excl = None) (user_activity_daily s)
    \<and> (ev_type e \<noteq> Cost_Meter \<and> meter_usage_daily s' = meter_usage_daily s \<or> ev_type e = Cost_Meter \<and>
        (\<exists>m ref q. meter_name (ev_payload e) = Inr m \<and> meter_ref_of (ev_payload e) = Inr ref
           \<and> numeric (json_get_or (ev_payload e) ''quantity'' (JInt 0)) = Inr q
           \<and> meter_usage_daily s' = fold_meter e m ref q (meter_usage_daily s)))"
proof -
  obtain uid excl s1 wi where j: "join_work_item e s = (s1, Inr wi)"
    and u: "update_aggregates numeric e uid excl wi
        (s1\<lparr>events := settle_in e uid excl wi (events s1)\<rparr>) = (s', Inr ())"
    and out: "out = settled_status wi excl"
    using assms by (auto simp: process_event_def settle_in_def bind_s_Inr_iff)
  obtain w where "s1 = s\<lparr>work_items := w\<rparr>"
    using evolvesD [OF join_work_item_frame j] by (auto simp: items_only_def)
  with update_aggregates_Inr [OF u] out show ?thesis
    by (intro exI [of _ uid] exI [of _ excl] exI [of _ wi]) auto
qed

lemma stats_exact_step:
  assumes "stats_exact val g s" "wf_table ev_id (events s)" "e \<in> set (tbl_rows (events s))"
    and "ev_status e = Accepted"
    and "events s' = settle_in e uid excl wi (events s)"
    and "\<And>k. total is_key val (ingestion_stats_daily s') k
           = total is_key val (ingestion_stats_daily s) k + (if k = stats_key e then g (settle e uid excl wi) else 0)"
  shows "stats_exact val g s'"
  using assms contributed_settle [OF assms(2,3), of "per_stats g"] unsettled_share [OF assms(4)]
  by (auto simp: stats_exact_def share_def per_stats_def)

lemma user_exact_step:
  assumes "\<forall>k. total ua_key ua_event_count (user_activity_daily s) k = contributed per_user (events s) k"
    and "wf_table ev_id (events s)" "e \<in> set (tbl_rows (events s))" "ev_status e = Accepted"
    and "events s' = settle_in e uid excl wi (events s)"
    and "user_activity_daily s' = fold_user e uid (uid \<noteq> None \<and> excl = None) (user_activity_daily s)"
  shows "total ua_key ua_event_count (user_activity_daily s') k = contributed per_user (events s') k"
proof -
  have "contributed per_user (events s') k
      = contributed per_user (events s) k + share per_user k (settle e uid excl wi)"
    unfolding assms(5) by (rule contributed_settle) (use assms(2,3) unsettled_share [OF assms(4)] in auto)
  then show ?thesis
    using assms(1) [rule_format, of k] assms(6)
    by (auto simp: fold_user_def user_count.total_upsert share_def per_user_def)
qed

lemma meter_exact_step:
  assumes "\<forall>k. total mu_key mu_quantity_sum (meter_usage_daily s) k = contributed (per_counter numeric) (events s) k"
    and "wf_table ev_id (events s)" "e \<in> set (tbl_rows (events s))" "ev_status e = Accepted"
    and "events s' = settle_in e uid excl wi (events s)"
    and "ev_type e \<noteq> Cost_Meter \<and> meter_usage_daily s' = meter_usage_daily s \<or> ev_type e = Cost_Meter \<and>
        (\<exists>m ref q. meter_name (ev_payload e) = Inr m \<and> meter_ref_of (ev_payload e) = Inr ref
           \<and> numeric (json_get_or (ev_payload e) ''quantity'' (JInt 0)) = Inr q
           \<and> meter_usage_daily s' = fold_meter e m ref q (meter_usage_daily s))"
  shows "total mu_key mu_quantity_sum (meter_usage_daily s') k = contributed (per_counter numeric) (events s') k"
proof -
  have "contributed (per_counter numeric) (events s') k
      = contributed (per_counter numeric) (events s) k + share (per_counter numeric) k (settle e uid excl wi)"
    unfolding assms(5) by (rule contributed_settle) (use assms(2,3) unsettled_share [OF assms(4)] in auto)
  then show ?thesis
    using assms(1) [rule_format, of k] assms(6)
    by (auto simp: fold_meter_def counter_sum.total_upsert gauge_last.total_upsert share_def per_counter_def)
qed

lemma process_event_exact:
  assumes "aggregates_exact numeric s" "wf_table ev_id (events s)" "e \<in> set (tbl_rows (events s))"
    and "ev_status e = Accepted" "process_event numeric e s = (s', Inr out)"
  shows "aggregates_exact numeric s'" "wf_table ev_id (events s')"
proof -
  obtain uid excl wi where p: "events s' = settle_in e uid excl wi (events s)"
    "ingestion_stats_daily s' = fold_stats e (uid \<noteq> None \<and> excl = None) wi (ingestion_stats_daily s)"
    "user_activity_daily s' = fold_user e uid (uid \<noteq> None \<and> excl = None) (user_activity_daily s)"
    and m: "ev_type e \<noteq> Cost_Meter \<and> meter_usage_daily s' = meter_usage_daily s \<or> ev_type e = Cost_Meter \<and>
        (\<exists>m ref q. meter_name (ev_payload e) = Inr m \<and> meter_ref_of (ev_payload e) = Inr ref
           \<and> numeric (json_get_or (ev_payload e) ''quantity'' (JInt 0)) = Inr q
           \<and> meter_usage_daily s' = fold_meter e m ref q (meter_usage_daily s))"
    using process_event_Inr [OF assms(5)] by blast
  note step = stats_exact_step [OF _ assms(2-4) p(1)]
  show "aggregates_exact numeric s'"
    unfolding aggregates_exact_def
  proof (intro conjI allI)
    show "stats_exact is_accepted (\<lambda>_. 1) s'"
      by (rule step) (use assms(1) in \<open>auto simp: aggregates_exact_def p(2) fold_stats_def accepted_count.total_upsert\<close>)
    show "stats_exact is_identity_bearing (\<lambda>e. of_bool_int (id_bearing e)) s'"
      by (rule step) (use assms(1) in \<open>auto simp: aggregates_exact_def p(2) fold_stats_def identity_count.total_upsert\<close>)
    show "stats_exact is_resolved (\<lambda>e. of_bool_int (counts_as_resolved e)) s'"
      by (rule step) (use assms(1) in \<open>auto simp: aggregates_exact_def p(2) fold_stats_def resolved_count.total_upsert\<close>)
    show "stats_exact is_activity (\<lambda>e. of_bool_int (ev_type e = Activity)) s'"
      by (rule step) (use assms(1) in \<open>auto simp: aggregates_exact_def p(2) fold_stats_def activity_count.total_upsert\<close>)
    show "stats_exact is_joined (\<lambda>e. of_bool_int (ev_work_item_id e \<noteq> None)) s'"
      by (rule step) (use assms(1) in \<open>auto simp: aggregates_exact_def p(2) fold_stats_def joined_count.total_upsert\<close>)
    show "total ua_key ua_event_count (user_activity_daily s') k = contributed per_user (events s') k" for k
      by (rule user_exact_step [OF _ assms(2-4) p(1,3)]) (use assms(1) in \<open>simp add: aggregates_exact_def\<close>)
    show "total mu_key mu_quantity_sum (meter_usage_daily s') k = contributed (per_counter numeric) (events s') k" for k
      by (rule meter_exact_step [of s numeric e s' uid excl wi])
        (use assms(1) in \<open>simp add: aggregates_exact_def\<close>, (fact assms(2-4) p(1) m)+)
  qed
  show "wf_table ev_id (events s')"
    unfolding p(1) settle_in_def by (rule wf_update_rows) (use assms(2) in simp_all)
qed

section \<open>Example queues\<close>

definition ex_numeric :: "json \<Rightarrow> rat result" where
  "ex_numeric j = (case j of JInt n \<Rightarrow> Inr (of_int n) | JReal r \<Rightarrow> Inr r | _ \<Rightarrow> Inl DatabaseError)"

definition ex_row :: "int \<Rightarrow> event_type \<Rightarrow> payload \<Rightarrow> event_row" where
  "ex_row i ety pl = event_row_of ex_principal 42 ety Customer_System ''1.0'' ''k'' (i * 1000000) [] pl i"

definition ex_user :: user_row where
  "ex_user = \<lparr>user_id = 3, user_workspace_id = Some 7, user_type_of = User_Account,
     user_status_of = User_Active, user_ref = ''u1'', user_display_name = None, user_job_role = None,
     user_team = None, user_effective_from = None, user_effective_to = None\<rparr>"

definition ex_queue :: "event_row list \<Rightarrow> sys" where
  "ex_queue rows = ex_state\<lparr>events := Table rows 10, users := Table [ex_user] 4\<rparr>"

definition ex_activity_row :: event_row where
  "ex_activity_row = ex_row 1 Activity [(''user_ref'', JStr ''u1''), (''work_item_id'', JStr ''w1'')]"

definition ex_meter_row :: "int \<Rightarrow> event_row" where
  "ex_meter_row q = ex_row 2 Cost_Meter [(''meter'', JStr ''tokens_in''), (''quantity'', JInt q)]"

section \<open>The worker\<close>

lemma next_event_Some:
  "next_event s = Some e \<Longrightarrow> e \<in> set (tbl_rows (events s)) \<and> ev_status e = Accepted"
  by (auto simp: next_event_def select_rows_def dest!: latest_by_Some)

definition keeps_exact :: "(json \<Rightarrow> rat result) \<Rightarrow> sys \<Rightarrow> sys \<Rightarrow> bool" where
  "keeps_exact numeric s t \<longleftrightarrow>
     (aggregates_exact numeric s \<and> wf_table ev_id (events s) \<longrightarrow>
      aggregates_exact numeric t \<and> wf_table ev_id (events t))"

interpretation exactness: evolution "keeps_exact numeric" for numeric
  by unfold_locales (auto simp: keeps_exact_def)

definition pipeline_step :: "(json \<Rightarrow> rat result) \<Rightarrow> (sys, pipeline_status option) st" where
  "pipeline_step numeric =
     transaction (bind_s (reads next_event) (\<lambda>ev.
       case ev of None \<Rightarrow> ret None
       | Some e \<Rightarrow> bind_s (process_event numeric e) (\<lambda>out. ret (Some out))))"

lemma pipeline_step_cases:
  assumes "pipeline_step numeric s = (s', r)"
  shows "(\<exists>x. r = Inl x) \<and> s' = s \<or> r = Inr None \<and> s' = s \<and> next_event s = None
    \<or> (\<exists>e out. next_event s = Some e \<and> process_event numeric e s = (s', Inr out) \<and> r = Inr (Some out))"
  using assms
  by (cases r; cases "next_event s")
    (auto simp: pipeline_step_def transaction_Inl_iff transaction_Inr_iff bind_s_Inr_iff)

lemma keeps_exact_step: "evolves (keeps_exact numeric) (pipeline_step numeric)"
  unfolding evolves_def
proof
  fix s
  obtain s' r where "pipeline_step numeric s = (s', r)" by fastforce
  with pipeline_step_cases [OF this] show "keeps_exact numeric s (fst (pipeline_step numeric s))"
    by (auto simp: keeps_exact_def dest!: next_event_Some intro: process_event_exact)
qed

lemma keeps_exact_loop: "evolves (keeps_exact numeric) (pipeline_loop numeric n c)"
proof (induction n arbitrary: c)
  case 0
  show ?case unfolding pipeline_loop.simps by (rule exactness.basic)
next
  case (Suc n)
  show ?case
    unfolding pipeline_loop.simps
    by (rule exactness.bind) (auto split: option.split
        intro: exactness.basic Suc.IH keeps_exact_step [unfolded pipeline_step_def])
qed

text \<open>
  C12: the aggregates are exact. However far the worker gets, also when it stops with an
  error, every daily count of ingestion, of user activity and every counter meter's daily
  quantity is the sum of the contributions of the settled events, each counted once.
\<close>

theorem pipeline_aggregates_exact:
  assumes "aggregates_exact numeric s" and "wf_table ev_id (events s)"
  shows "aggregates_exact numeric (fst (run_pipeline numeric limit s))
    \<and> wf_table ev_id (events (fst (run_pipeline numeric limit s)))"
  using keeps_exact_loop assms unfolding run_pipeline_def evolves_def keeps_exact_def by blast

lemma shares_zero:
  "\<forall>e \<in> set rows. ev_status e = Accepted \<Longrightarrow> (\<And>e. ev_status e = Accepted \<Longrightarrow> share c k e = 0) \<Longrightarrow>
     sum_list (map (share c k) rows) = 0"
  by (induction rows) auto

lemma unsettled_shares:
  "ev_status e = Accepted \<Longrightarrow> share (per_stats g) k e = 0"
  "ev_status e = Accepted \<Longrightarrow> share per_user k' e = 0"
  "ev_status e = Accepted \<Longrightarrow> share (per_counter numeric) k'' e = 0"
  using unsettled_share by blast+

lemma contributed_accepted:
  assumes "tbl_rows t = rows @ new" "\<forall>e \<in> set new. ev_status e = Accepted"
  shows "contributed (per_stats g) t k = sum_list (map (share (per_stats g) k) rows)"
    and "contributed per_user t k' = sum_list (map (share per_user k') rows)"
    and "contributed (per_counter numeric) t k'' = sum_list (map (share (per_counter numeric) k'') rows)"
  using shares_zero [OF assms(2), of "per_stats g" k, OF unsettled_shares(1)]
    shares_zero [OF assms(2), of per_user k', OF unsettled_shares(2)]
    shares_zero [OF assms(2), of "per_counter numeric" k'', OF unsettled_shares(3)]
  by (simp_all add: contributed_def assms(1))

lemma exact_initially:
  assumes "ingestion_stats_daily s = empty_table" "user_activity_daily s = empty_table"
    "meter_usage_daily s = empty_table" "\<forall>e \<in> set (tbl_rows (events s)). ev_status e = Accepted"
  shows "aggregates_exact numeric s"
  using assms(1-3) contributed_accepted [of "events s" "[]", OF _ assms(4)]
  by (simp add: aggregates_exact_def stats_exact_def total_def lookup_key_def fetch_one_def table_simps)

theorem pipeline_aggregates_exact_witness:
  "let t = fst (run_pipeline ex_numeric 5 (ex_queue [ex_activity_row, ex_meter_row 9])) in
     aggregates_exact ex_numeric t
     \<and> total is_key is_accepted (ingestion_stats_daily t) (42, [], 719163) = 2
     \<and> total ua_key ua_event_count (user_activity_daily t) (42, 3, 719163) = 1
     \<and> total mu_key mu_quantity_sum (meter_usage_daily t) (42, ''tokens_in'', [], 719163) = 9"
proof -
  let ?s = "ex_queue [ex_activity_row, ex_meter_row 9]"
  have e: "aggregates_exact ex_numeric ?s"
    by (rule exact_initially) (simp_all add: ex_queue_def ex_state_def empty_sys_def ex_activity_row_def
        ex_meter_row_def ex_row_def event_row_of_def)
  have w: "wf_table ev_id (events ?s)"
    by (simp add: ex_queue_def wf_table_def ex_activity_row_def ex_meter_row_def ex_row_def event_row_of_def)
  let ?t = "fst (run_pipeline ex_numeric 5 ?s)"
  have "total is_key is_accepted (ingestion_stats_daily ?t) (42, [], 719163) = 2" by code_simp
  moreover have "total ua_key ua_event_count (user_activity_daily ?t) (42, 3, 719163) = 1" by code_simp
  moreover have "total mu_key mu_quantity_sum (meter_usage_daily ?t) (42, ''tokens_in'', [], 719163) = 9"
    by code_simp
  ultimately show ?thesis using pipeline_aggregates_exact [OF e w, of 5] by (simp add: Let_def)
qed

section \<open>Draining the queue\<close>

definition pending :: "sys \<Rightarrow> nat" where
  "pending s = length (select_rows (\<lambda>e. ev_status e = Accepted) (events s))"

lemma pending_settle:
  assumes "wf_table ev_id t" "e \<in> set (tbl_rows t)" "ev_status e = Accepted"
  shows "Suc (length (select_rows (\<lambda>e. ev_status e = Accepted) (settle_in e uid excl wi t)))
    = length (select_rows (\<lambda>e. ev_status e = Accepted) t)"
proof -
  let ?f = "\<lambda>r. if ev_id r = ev_id e \<and> ev_occurred_at r = ev_occurred_at e then settle r uid excl wi else r"
  have "Suc (length (filter (\<lambda>e. ev_status e = Accepted) (map ?f rows)))
      = length (filter (\<lambda>e. ev_status e = Accepted) rows)"
    if "distinct (map ev_id rows)" "e \<in> set rows" for rows
    using that
  proof (induction rows)
    case Nil
    then show ?case by simp
  next
    case (Cons r rows)
    show ?case
    proof (cases "r = e")
      case True
      then have "\<forall>x \<in> set rows. ev_id x \<noteq> ev_id e" using Cons.prems(1) by (auto simp: image_iff)
      then have "map ?f rows = rows" by (intro map_idI) auto
      moreover have "ev_status (settle e uid excl wi) \<noteq> Accepted"
        by (simp add: settle_def settled_status_def)
      ultimately show ?thesis using True assms(3) by simp
    next
      case False
      with Cons.prems have "ev_id r \<noteq> ev_id e" by (auto simp: image_iff)
      with False Cons show ?thesis by auto
    qed
  qed
  from this [of "tbl_rows t"] assms(1,2) show ?thesis
    by (simp add: select_rows_def settle_in_def table_simps wf_table_def)
qed

definition pc_total :: "pipeline_counts \<Rightarrow> nat" where
  "pc_total c = pc_resolved c + pc_joined c + pc_excluded c"

lemma count_outcome_simps [simp]:
  "pc_processed (count_outcome out c) = Suc (pc_processed c)"
  "pc_total (count_outcome out c) = Suc (pc_total c)"
  by (cases out; simp add: count_outcome_def pc_total_def Let_def)+

lemma next_event_None: "next_event s = None \<longleftrightarrow> pending s = 0"
  by (simp add: next_event_def pending_def)

lemma pipeline_loop_step:
  "pipeline_loop numeric (Suc n) c s = (case pipeline_step numeric s of
      (s1, Inl e) \<Rightarrow> (s1, Inl e)
    | (s1, Inr None) \<Rightarrow> (s1, Inr c)
    | (s1, Inr (Some out)) \<Rightarrow> pipeline_loop numeric n (count_outcome out c) s1)"
  unfolding pipeline_loop.simps pipeline_step_def [symmetric]
  by (simp add: bind_s_apply split: prod.split sum.split option.split)

lemma step_settles_one:
  assumes "next_event s = Some e" "process_event numeric e s = (s1, Inr out)" "wf_table ev_id (events s)"
  shows "Suc (pending s1) = pending s" "wf_table ev_id (events s1)"
proof -
  note e = next_event_Some [OF assms(1)]
  obtain uid excl wi where ev: "events s1 = settle_in e uid excl wi (events s)"
    using process_event_Inr [OF assms(2)] by blast
  show "wf_table ev_id (events s1)"
    unfolding ev settle_in_def by (rule wf_update_rows) (use assms(3) in simp_all)
  show "Suc (pending s1) = pending s"
    unfolding pending_def ev by (rule pending_settle) (use assms(3) e in auto)
qed

lemma pipeline_loop_counts:
  assumes "pipeline_loop numeric n c s = (s', Inr c')" "wf_table ev_id (events s)"
  shows "pc_processed c' = pc_processed c + min n (pending s) \<and> pc_total c' = pc_total c + min n (pending s)
    \<and> pending s' = pending s - min n (pending s)"
  using assms
proof (induction n arbitrary: c s)
  case 0
  then show ?case by (simp add: pipeline_loop.simps)
next
  case (Suc n)
  obtain s1 r where st: "pipeline_step numeric s = (s1, r)" by fastforce
  from pipeline_step_cases [OF st] show ?case
  proof (elim disjE exE conjE)
    fix x assume "r = Inl x"
    with st Suc.prems(1) show ?thesis by (simp add: pipeline_loop_step del: pipeline_loop.simps)
  next
    assume "r = Inr None" "s1 = s" "next_event s = None"
    with st Suc.prems(1) show ?thesis by (simp add: pipeline_loop_step next_event_None del: pipeline_loop.simps)
  next
    fix e out
    assume e: "next_event s = Some e" "process_event numeric e s = (s1, Inr out)" "r = Inr (Some out)"
    note one = step_settles_one [OF e(1,2) Suc.prems(2)]
    have "pipeline_loop numeric n (count_outcome out c) s1 = (s', Inr c')"
      using st e(3) Suc.prems(1) by (simp add: pipeline_loop_step del: pipeline_loop.simps)
    from Suc.IH [OF this one(2)] one(1) show ?thesis by (auto simp: min_def)
  qed
qed

text \<open>A loop that raises has settled fewer events than its limit and stands before one that raises.\<close>

lemma pipeline_loop_raises:
  assumes "pipeline_loop numeric n c s = (s', Inl x)" "wf_table ev_id (events s)"
  shows "pending s' \<le> pending s \<and> pending s - pending s' < n
    \<and> (\<exists>e. next_event s' = Some e \<and> snd (process_event numeric e s') = Inl x)"
  using assms
proof (induction n arbitrary: c s)
  case 0
  then show ?case by (simp add: pipeline_loop.simps)
next
  case (Suc n)
  obtain s1 r where st: "pipeline_step numeric s = (s1, r)" by fastforce
  from pipeline_step_cases [OF st] show ?case
  proof (elim disjE exE conjE)
    fix y assume "r = Inl y" "s1 = s"
    with st Suc.prems(1) have run: "pipeline_step numeric s = (s, Inl x)" "s' = s" by (simp_all add: pipeline_loop_step del: pipeline_loop.simps)
    then obtain e where e: "next_event s = Some e"
      by (cases "next_event s") (auto simp: pipeline_step_def transaction_def bind_s_apply)
    moreover have "snd (process_event numeric e s) = Inl x"
      using run(1) e by (cases "process_event numeric e s"; cases "snd (process_event numeric e s)")
        (auto simp: pipeline_step_def transaction_def bind_s_apply)
    ultimately show ?thesis using run(2) by simp
  next
    assume "r = Inr None"
    with st Suc.prems(1) show ?thesis by (simp add: pipeline_loop_step del: pipeline_loop.simps)
  next
    fix e out
    assume e: "next_event s = Some e" "process_event numeric e s = (s1, Inr out)" "r = Inr (Some out)"
    note one = step_settles_one [OF e(1,2) Suc.prems(2)]
    have "pipeline_loop numeric n (count_outcome out c) s1 = (s', Inl x)"
      using st e(3) Suc.prems(1) by (simp add: pipeline_loop_step del: pipeline_loop.simps)
    from Suc.IH [OF this one(2)] one(1) show ?thesis by auto
  qed
qed

section \<open>Who is counted\<close>

definition identifiers_in_tenant :: "sys \<Rightarrow> bool" where
  "identifiers_in_tenant s \<longleftrightarrow> wf_table user_id (users s) \<and>
     (\<forall>r \<in> set (tbl_rows (user_identifiers s)). \<exists>u \<in> set (tbl_rows (users s)).
        user_id u = ident_user_id r \<and> user_workspace_id u = Some (ident_workspace_id r))"

lemma find_user_in_tenant:
  assumes "identifiers_in_tenant s" "find_user s e field v = Some i"
  shows "\<exists>u \<in> set (tbl_rows (users s)). user_id u = i \<and> user_workspace_id u = Some (ev_workspace_id e)"
  using assms
  by (fastforce simp: find_user_def Let_def identifiers_in_tenant_def split: option.splits
      dest!: fetch_one_Some)

text \<open>
  Identity resolution. Whoever an event is attributed to is a user of the event's
  workspace; the event counts for that user only if the account is a person's, is not
  blocked, and its roster window had not closed on the day of the event; a shared, service
  or bot account is resolved and excluded under its own reason (BR-011).
\<close>

theorem identity_resolution_sound:
  assumes "resolve_identity e s = Inr (Some i, excl)" and "identifiers_in_tenant s"
  shows "\<exists>u \<in> set (tbl_rows (users s)). user_id u = i \<and> user_workspace_id u = Some (ev_workspace_id e)
    \<and> (case excl of
         None \<Rightarrow> user_type_of u = User_Account \<and> user_status_of u \<noteq> User_Blocked
           \<and> (\<forall>d. user_effective_to u = Some d \<longrightarrow> event_day e \<le> d)
       | Some Unresolved_Identity \<Rightarrow> user_status_of u = User_Blocked
       | Some r \<Rightarrow> user_status_of u \<noteq> User_Blocked \<and> exclusion_by_type (user_type_of u) = Some r)"
proof -
  let ?field = "if ev_type e = Activity then ''user_ref'' else ''assignee_ref''"
  obtain v j u where f: "find_user s e ?field v = Some j" and u: "fetch_one (\<lambda>u. user_id u = j) (users s) = Some u"
    and c: "attribution e u = (Some i, excl)"
    using assms(1)
    by (auto simp: resolve_identity_def Let_def bind_r_Inr_iff split: if_splits option.splits)
  have j: "j = i" using fetch_one_Some [OF u] c by (auto simp: attribution_def split: if_splits)
  obtain u' where "u' \<in> set (tbl_rows (users s))" "user_id u' = i" "user_workspace_id u' = Some (ev_workspace_id e)"
    using find_user_in_tenant [OF assms(2) f] j by blast
  moreover from this fetch_one_Some [OF u] j have "u' = u"
    using assms(2) wf_table_unique by (fastforce simp: identifiers_in_tenant_def)
  ultimately show ?thesis using c
    by (intro bexI [of _ u])
      (cases "user_type_of u"; auto simp: attribution_def linorder_not_less split: if_splits option.splits)+
qed

theorem identity_resolution_sound_witness:
  "\<exists>u \<in> set (tbl_rows (users (ex_queue [ex_activity_row]))). user_id u = 3
     \<and> user_type_of u = User_Account \<and> user_status_of u \<noteq> User_Blocked"
proof -
  have r: "resolve_identity ex_activity_row (ex_queue [ex_activity_row]) = Inr (Some 3, None)" by code_simp
  have t: "identifiers_in_tenant (ex_queue [ex_activity_row])"
    by (simp add: identifiers_in_tenant_def ex_queue_def ex_state_def empty_sys_def wf_table_def ex_user_def table_simps)
  from identity_resolution_sound [OF r t] show ?thesis by auto
qed

lemma attribution_from: "attribution e (u\<lparr>user_effective_from := d\<rparr>) = attribution e u"
  by (simp add: attribution_def)

text \<open>
  The roster's opening date is not looked at. Changing any user's
  \<^verbatim>\<open>effective_from\<close> changes no resolution, so an event from before a person joined is
  counted for that person, against the stated honouring of roster windows.
\<close>

theorem effective_from_ignored:
  "resolve_identity e (s\<lparr>users := update_rows P (\<lambda>u. u\<lparr>user_effective_from := d\<rparr>) (users s)\<rparr>)
   = resolve_identity e s"
proof -
  let ?g = "\<lambda>u. if P u then u\<lparr>user_effective_from := d\<rparr> else u"
  have find: "fetch_one Q (update_rows P (\<lambda>u. u\<lparr>user_effective_from := d\<rparr>) t) = map_option ?g (fetch_one Q t)"
    if "\<And>u. Q (u\<lparr>user_effective_from := d\<rparr>) = Q u" for Q t
  proof -
    have "find Q (map ?g rows) = map_option ?g (find Q rows)" for rows
      using that by (induction rows) auto
    then show ?thesis by (simp add: fetch_one_def table_simps)
  qed
  have fu: "find_user (s\<lparr>users := update_rows P (\<lambda>u. u\<lparr>user_effective_from := d\<rparr>) (users s)\<rparr>) e field v
      = find_user s e field v" for field v
    by (simp add: find_user_def applicable_row_def find Let_def option.map_comp comp_def cong: option.case_cong)
      (simp add: if_distrib cong: if_cong option.case_cong)
  show ?thesis
    by (auto simp: resolve_identity_def fu find Let_def attribution_from intro!: bind_r_cong split: option.split)
qed

section \<open>Work items\<close>

interpretation item: keyed_upsert wi_key "(ws, ref)" "new_item ws ref sz category" "merge_item sz category"
  for ws ref sz category
  by unfold_locales (simp_all add: wi_key_def new_item_def merge_item_def)

text \<open>
  A work item exists once per workspace and reference. Joining an event to a reference
  keeps references unique, returns the identity of the item of that reference, which an
  existing item keeps for good, and leaves every other item as it was.
\<close>

theorem join_work_item_stable:
  assumes "join_work_item e s = (s', Inr (Some i))" and "unique_key wi_key (work_items s)"
  shows "unique_key wi_key (work_items s') \<and>
    (\<exists>ref w. json_get (ev_payload e) ''work_item_id'' = Some (JStr ref)
       \<and> lookup_key wi_key (work_items s') (ev_workspace_id e, ref) = Some w \<and> wi_id w = i
       \<and> (\<forall>w0. lookup_key wi_key (work_items s) (ev_workspace_id e, ref) = Some w0 \<longrightarrow> wi_id w0 = i)
       \<and> (\<forall>k. k \<noteq> (ev_workspace_id e, ref) \<longrightarrow>
            lookup_key wi_key (work_items s') k = lookup_key wi_key (work_items s) k))"
proof -
  let ?v = "json_get_or (ev_payload e) ''work_item_id'' JNull"
  have v: "truthy ?v" using assms(1) by (auto simp: join_work_item_def Let_def split: if_splits)
  obtain t sz category where t: "text_param ?v = Inr t"
    and s': "s' = s\<lparr>work_items := upsert (\<lambda>w. wi_key w = (ev_workspace_id e, case t of Some x \<Rightarrow> x | None \<Rightarrow> []))
        (new_item (ev_workspace_id e) (case t of Some x \<Rightarrow> x | None \<Rightarrow> []) sz category)
        (merge_item sz category) (work_items s)\<rparr>"
    and i: "map_option wi_id (lookup_key wi_key (work_items s') (ev_workspace_id e, case t of Some x \<Rightarrow> x | None \<Rightarrow> []))
        = Some i"
    using assms(1) v
    by (auto simp: join_work_item_def Let_def bind_s_Inr_iff split: if_splits)
  obtain ref where ref: "?v = JStr ref" "t = Some ref"
    using v t by (cases ?v) (auto simp: text_param_def)
  let ?k = "(ev_workspace_id e, ref)"
  have s2: "work_items s' = upsert (\<lambda>w. wi_key w = ?k) (new_item (ev_workspace_id e) ref sz category)
      (merge_item sz category) (work_items s)"
    using s' ref by simp
  obtain w where w: "lookup_key wi_key (work_items s') ?k = Some w" "wi_id w = i"
    using i ref by auto
  have old: "wi_id w0 = i" if "lookup_key wi_key (work_items s) ?k = Some w0" for w0
    using w that unfolding s2 item.lookup by (auto simp: merge_item_def)
  have "json_get (ev_payload e) ''work_item_id'' = Some (JStr ref)"
    using ref(1) by (simp add: json_get_or_def split: option.splits)
  moreover have "unique_key wi_key (work_items s')" unfolding s2 by (rule item.unique) (rule assms(2))
  moreover have "\<forall>k. k \<noteq> ?k \<longrightarrow> lookup_key wi_key (work_items s') k = lookup_key wi_key (work_items s) k"
    unfolding s2 by (auto intro!: item.rows_of_other_keys)
  ultimately show ?thesis using w old by blast
qed

theorem join_work_item_stable_witness:
  "unique_key wi_key (work_items (fst (join_work_item ex_activity_row (ex_queue []))))
   \<and> length (tbl_rows (work_items (fst (join_work_item ex_activity_row (ex_queue []))))) = 1"
proof -
  have v: "snd (join_work_item ex_activity_row (ex_queue [])) = Inr (Some 1)"
    "length (tbl_rows (work_items (fst (join_work_item ex_activity_row (ex_queue []))))) = 1"
    by code_simp+
  obtain t where j: "join_work_item ex_activity_row (ex_queue []) = (t, Inr (Some 1))"
    using v(1) by (cases "join_work_item ex_activity_row (ex_queue [])") auto
  have u: "unique_key wi_key (work_items (ex_queue []))"
    by (simp add: unique_key_def ex_queue_def ex_state_def empty_sys_def table_simps)
  from join_work_item_stable [OF j u] v(2) j show ?thesis by simp
qed

section \<open>Ingestion and the aggregates\<close>

text \<open>Ingestion adds accepted events only, which contribute nothing yet.\<close>

lemma grows_keeps_exact:
  assumes "grows P s t" "\<And>row. P s row \<Longrightarrow> ev_status row = Accepted"
    and "aggregates_exact numeric s"
  shows "aggregates_exact numeric t"
proof -
  obtain new where t: "tbl_rows (events t) = tbl_rows (events s) @ new" "list_all (P s) new"
      "ingestion_stats_daily t = ingestion_stats_daily s" "user_activity_daily t = user_activity_daily s"
      "meter_usage_daily t = meter_usage_daily s"
    using assms(1) by (auto simp: grows_def)
  have "\<forall>e \<in> set new. ev_status e = Accepted" using t(2) assms(2) by (auto simp: list_all_iff)
  from contributed_accepted [OF t(1) this] assms(3) t(3-5) show ?thesis
    by (simp add: aggregates_exact_def stats_exact_def contributed_def)
qed

end
