(* ===== verification/OpsCtl.thy ===== *)
theory OpsCtl
  imports Auth Imports Pipeline Reports ConfigPlane
begin

text \<open>
  The operators' command line (\<^verbatim>\<open>ops/opsctl.py\<close>): organizations, workspaces, users,
  API keys and their grants, limits, partitions, and the commands that start a worker. A
  command returns the lines it prints. The connection of a command is a transaction;
  \<^verbatim>\<open>SystemExit\<close> rolls it back. The random tokens and SHA-256 are parameters.
\<close>

section \<open>Shared steps\<close>

definition check_db :: "bool \<Rightarrow> (sys, unit) st" where
  "check_db ok = (if ok then ret () else raise DatabaseError)"

text \<open>\<^verbatim>\<open>_one\<close>: the first row of a query, or exit.\<close>

definition the_row :: "(sys \<Rightarrow> 'r option) \<Rightarrow> (sys, 'r) st" where
  "the_row f = bind_s (reads f) (\<lambda>found. case found of None \<Rightarrow> raise SystemExit | Some r \<Rightarrow> ret r)"

definition workspace_named :: "string \<Rightarrow> sys \<Rightarrow> workspace_row option" where
  "workspace_named ref s = fetch_one (\<lambda>w. ws_ref w = ref) (workspaces s)"

definition deployment_named :: "string \<Rightarrow> sys \<Rightarrow> deployment_row option" where
  "deployment_named ref s = fetch_one (\<lambda>d. dep_ref d = ref) (deployments s)"

definition plan_types :: "string list" where
  "plan_types = [''free'', ''team'', ''organization'', ''enterprise'', ''vendor'']"

text \<open>A positive \<^verbatim>\<open>INTEGER\<close>, the check constraint of the limits.\<close>

definition positive_int4 :: "int \<Rightarrow> bool" where
  "positive_int4 n = (0 < n \<and> n < 2147483648)"

section \<open>Organizations\<close>

definition org_create :: "string \<Rightarrow> string \<Rightarrow> string \<Rightarrow> (sys, string list) st" where
  "org_create plan ref legal_name =
     transaction
       (bind_s (reads (\<lambda>s. exists_row (\<lambda>o'. org_ref o' = ref) (organizations s))) (\<lambda>taken.
        bind_s (check_db (plan \<in> set plan_types \<and> \<not> taken)) (\<lambda>_.
        bind_s (reads (\<lambda>s. tbl_seq (organizations s))) (\<lambda>i.
        bind_s (writes (\<lambda>s. s\<lparr>organizations := insert_row (\<lambda>i.
          \<lparr>org_id = i, org_plan_type = plan, org_ref = ref, org_legal_name = legal_name\<rparr>)
          (organizations s)\<rparr>)) (\<lambda>_.
        ret [''organization '' @ ref @ '' (id='' @ int_str i @ '') plan='' @ plan])))))"

definition plan_set :: "string \<Rightarrow> string \<Rightarrow> (sys, string list) st" where
  "plan_set ref plan =
     transaction
       (bind_s (check_db (plan \<in> set plan_types)) (\<lambda>_.
        bind_s (the_row (\<lambda>s. fetch_one (\<lambda>o'. org_ref o' = ref) (organizations s))) (\<lambda>_.
        bind_s (writes (\<lambda>s. s\<lparr>organizations :=
          update_rows (\<lambda>o'. org_ref o' = ref) (\<lambda>o'. o'\<lparr>org_plan_type := plan\<rparr>) (organizations s)\<rparr>)) (\<lambda>_.
        ret [''organization '' @ ref @ '' plan -> '' @ plan]))))"

section \<open>Workspaces\<close>

definition workspace_create ::
  "string \<Rightarrow> string \<Rightarrow> string \<Rightarrow> string \<Rightarrow> int \<Rightarrow> int \<Rightarrow> int \<Rightarrow> (sys, string list) st" where
  "workspace_create organization ref name environment backfill_days rpm epm =
     transaction
       (bind_s (the_row (\<lambda>s. fetch_one (\<lambda>o'. org_ref o' = organization) (organizations s))) (\<lambda>org.
        bind_s (reads (workspace_named ref)) (\<lambda>taken.
        bind_s (check_db (positive_int4 backfill_days \<and> positive_int4 rpm \<and> positive_int4 epm \<and> taken = None)) (\<lambda>_.
        bind_s (reads (\<lambda>s. tbl_seq (workspaces s))) (\<lambda>i.
        bind_s (writes (\<lambda>s. s\<lparr>workspaces := insert_row (\<lambda>i.
          \<lparr>ws_id = i, ws_organization_id = org_id org, ws_environment = environment, ws_ref = ref,
           ws_name = name, ws_backfill_horizon_days = backfill_days, ws_rate_limit_rpm = rpm,
           ws_rate_limit_epm = epm\<rparr>) (workspaces s)\<rparr>)) (\<lambda>_.
        ret [''workspace '' @ ref @ '' (id='' @ int_str i @ '') env='' @ environment]))))))"

definition set_limits :: "int option \<Rightarrow> int option \<Rightarrow> int option \<Rightarrow> workspace_row \<Rightarrow> workspace_row" where
  "set_limits rpm epm backfill_days w =
     w\<lparr>ws_rate_limit_rpm := case rpm of None \<Rightarrow> ws_rate_limit_rpm w | Some n \<Rightarrow> n,
       ws_rate_limit_epm := case epm of None \<Rightarrow> ws_rate_limit_epm w | Some n \<Rightarrow> n,
       ws_backfill_horizon_days := case backfill_days of None \<Rightarrow> ws_backfill_horizon_days w | Some n \<Rightarrow> n\<rparr>"

definition given_limits :: "int option \<Rightarrow> int option \<Rightarrow> int option \<Rightarrow> int list" where
  "given_limits rpm epm backfill_days =
     (case rpm of None \<Rightarrow> [] | Some n \<Rightarrow> [n]) @ (case epm of None \<Rightarrow> [] | Some n \<Rightarrow> [n])
     @ (case backfill_days of None \<Rightarrow> [] | Some n \<Rightarrow> [n])"

text \<open>A number outside its column fails the statement; the check constraint needs a row.\<close>

definition limits_set ::
  "string \<Rightarrow> int option \<Rightarrow> int option \<Rightarrow> int option \<Rightarrow> (sys, string list) st" where
  "limits_set ref rpm epm backfill_days =
     (let ns = given_limits rpm epm backfill_days in
      if ns = [] then raise SystemExit
      else transaction
       (bind_s (check_db (list_all (\<lambda>n. is_ok (int4 n)) ns)) (\<lambda>_.
        bind_s (the_row (workspace_named ref)) (\<lambda>_.
        bind_s (check_db (list_all positive_int4 ns)) (\<lambda>_.
        bind_s (writes (\<lambda>s. s\<lparr>workspaces := update_rows (\<lambda>w. ws_ref w = ref)
          (set_limits rpm epm backfill_days) (workspaces s)\<rparr>)) (\<lambda>_.
        ret [''workspace '' @ ref @ '' limits updated'']))))))"

section \<open>Users\<close>

definition member_named :: "int \<Rightarrow> string \<Rightarrow> sys \<Rightarrow> user_row option" where
  "member_named workspace_id ref s =
     fetch_one (\<lambda>u. user_workspace_id u = Some workspace_id \<and> user_ref u = ref) (users s)"

definition user_create ::
  "string \<Rightarrow> string \<Rightarrow> user_type \<Rightarrow> string option \<Rightarrow> string option \<Rightarrow> (sys, string list) st" where
  "user_create workspace ref ty display_name role =
     transaction
       (bind_s (the_row (workspace_named workspace)) (\<lambda>ws.
        bind_s (reads (member_named (ws_id ws) ref)) (\<lambda>taken.
        bind_s (check_db (taken = None)) (\<lambda>_.
        bind_s (reads (\<lambda>s. tbl_seq (users s))) (\<lambda>i.
        bind_s (writes (\<lambda>s. s\<lparr>users := insert_row (\<lambda>i.
          \<lparr>user_id = i, user_workspace_id = Some (ws_id ws), user_type_of = ty, user_status_of = User_Active,
           user_ref = ref, user_display_name = display_name, user_job_role = role, user_team = None,
           user_effective_from = None, user_effective_to = None\<rparr>) (users s)\<rparr>)) (\<lambda>_.
        ret [''user '' @ ref @ '' (id='' @ int_str i @ '') type='' @ user_type_str ty]))))))"

section \<open>API keys and grants\<close>

fun scope_str :: "api_key_scope \<Rightarrow> string" where
  "scope_str Workspace_Scope = ''workspace''"
| "scope_str Deployment_Scope = ''deployment''"

definition hash_key :: "(string \<Rightarrow> string) \<Rightarrow> string \<Rightarrow> string" where
  "hash_key sha256 key = sha256 key"

definition presented_key :: "string \<Rightarrow> string \<Rightarrow> string" where
  "presented_key mode secret = (if mode = ''production'' then ''tf_live_'' else ''tf_test_'') @ secret"

definition has_grant :: "int \<Rightarrow> int \<Rightarrow> sys \<Rightarrow> bool" where
  "has_grant api_key_id deployment_id s =
     (\<exists>g \<in> set (api_key_deployments s). grant_api_key_id g = api_key_id \<and> grant_deployment_id g = deployment_id)"

definition insert_grant :: "int \<Rightarrow> int \<Rightarrow> int \<Rightarrow> (sys, unit) st" where
  "insert_grant workspace_id api_key_id deployment_id =
     writes (\<lambda>s. s\<lparr>api_key_deployments := api_key_deployments s @
       [\<lparr>grant_workspace_id = workspace_id, grant_api_key_id = api_key_id,
         grant_deployment_id = deployment_id\<rparr>]\<rparr>)"

text \<open>
  One grant of a new key. The foreign keys pair the key and the deployment with the
  workspace of the grant, which is the deployment's.
\<close>

definition issue_grant :: "int \<Rightarrow> int \<Rightarrow> string \<Rightarrow> (sys, unit) st" where
  "issue_grant workspace_id api_key_id ref =
     bind_s (the_row (deployment_named ref)) (\<lambda>dep.
     bind_s (reads (has_grant api_key_id (dep_id dep))) (\<lambda>taken.
     bind_s (check_db (dep_workspace_id dep = workspace_id \<and> \<not> taken)) (\<lambda>_.
       insert_grant (dep_workspace_id dep) api_key_id (dep_id dep))))"

definition issued_key ::
  "(string \<Rightarrow> string) \<Rightarrow> string \<Rightarrow> string \<Rightarrow> string \<Rightarrow> api_key_scope \<Rightarrow> string list \<Rightarrow> int \<Rightarrow> int \<Rightarrow> int \<Rightarrow> api_key_row" where
  "issued_key sha256 secret token mode scope roles workspace_id owner_id i =
     \<lparr>key_id = i, key_workspace_id = workspace_id, key_owner_user_id = owner_id, key_mode = mode,
      key_scope = scope, key_status = Key_Active, key_ref = ''ak_'' @ token,
      key_secret_hash = hash_key sha256 (presented_key mode secret), key_roles = roles\<rparr>"

definition key_issue ::
  "(string \<Rightarrow> string) \<Rightarrow> string \<Rightarrow> string \<Rightarrow> string \<Rightarrow> string \<Rightarrow> string \<Rightarrow> api_key_scope \<Rightarrow> string list
     \<Rightarrow> string list \<Rightarrow> (sys, string list) st" where
  "key_issue sha256 secret token workspace owner mode scope roles deployment_refs =
     (let presented = presented_key mode secret; ref = ''ak_'' @ token in
      bind_s (transaction
       (bind_s (the_row (workspace_named workspace)) (\<lambda>ws.
        bind_s (the_row (member_named (ws_id ws) owner)) (\<lambda>user.
        bind_s (reads (\<lambda>s. exists_row (\<lambda>k. key_ref k = ref) (api_keys s))) (\<lambda>taken.
        bind_s (check_db (\<not> taken)) (\<lambda>_.
        bind_s (reads (\<lambda>s. tbl_seq (api_keys s))) (\<lambda>i.
        bind_s (writes (\<lambda>s. s\<lparr>api_keys := insert_row
          (issued_key sha256 secret token mode scope roles (ws_id ws) (user_id user)) (api_keys s)\<rparr>)) (\<lambda>_.
        for_each (issue_grant (ws_id ws) i) deployment_refs)))))))) (\<lambda>_.
      ret [''api key issued: ref='' @ ref @ '' scope='' @ scope_str scope @ '' mode='' @ mode,
           ''SECRET (shown once, store it now): '' @ presented]))"

definition active_key :: "string \<Rightarrow> api_key_row \<Rightarrow> bool" where
  "active_key ref k = (key_ref k = ref \<and> key_status k = Key_Active)"

definition key_revoke :: "string \<Rightarrow> (sys, string list) st" where
  "key_revoke ref =
     transaction
       (bind_s (the_row (\<lambda>s. fetch_one (active_key ref) (api_keys s))) (\<lambda>_.
        bind_s (writes (\<lambda>s. s\<lparr>api_keys :=
          update_rows (active_key ref) (\<lambda>k. k\<lparr>key_status := Key_Revoked\<rparr>) (api_keys s)\<rparr>)) (\<lambda>_.
        ret [''api key '' @ ref @ '' revoked''])))"

definition grant_add :: "string \<Rightarrow> string \<Rightarrow> (sys, string list) st" where
  "grant_add ref deployment =
     transaction
       (bind_s (the_row (\<lambda>s. fetch_one (\<lambda>k. key_ref k = ref) (api_keys s))) (\<lambda>key.
        bind_s (the_row (deployment_named deployment)) (\<lambda>dep.
        if dep_workspace_id dep \<noteq> key_workspace_id key then raise SystemExit
        else
          bind_s (reads (has_grant (key_id key) (dep_id dep))) (\<lambda>taken.
          bind_s (if taken then ret () else insert_grant (key_workspace_id key) (key_id key) (dep_id dep)) (\<lambda>_.
          ret [''grant added: '' @ ref @ '' -> '' @ deployment])))))"

section \<open>Partitions\<close>

definition next_month :: "int \<times> int \<Rightarrow> int \<times> int" where
  "next_month ym = (case ym of (y, m) \<Rightarrow> if m = 12 then (y + 1, 1) else (y, m + 1))"

text \<open>\<^verbatim>\<open>date(y, m, 1).isoformat()\<close>.\<close>

definition first_of_month :: "int \<times> int \<Rightarrow> string result" where
  "first_of_month ym = (case ym of (y, m) \<Rightarrow>
     if 1 \<le> y \<and> y \<le> 9999 \<and> 1 \<le> m \<and> m \<le> 12
     then Inr (pad 4 (nat y) @ ''-'' @ pad 2 (nat m) @ ''-01'') else Inl ValueError)"

definition month_bounds :: "int \<times> int \<Rightarrow> (string \<times> string) result" where
  "month_bounds ym =
     bind_r (first_of_month ym) (\<lambda>lo. bind_r (first_of_month (next_month ym)) (\<lambda>hi. Inr (lo, hi)))"

definition partition_name :: "int \<times> int \<Rightarrow> string" where
  "partition_name ym = (case ym of (y, m) \<Rightarrow> ''events_'' @ pad 4 (nat y) @ ''_'' @ pad 2 (nat m))"

text \<open>\<open>ddl\<close> runs the statements that create one partition and lock it down.\<close>

primrec ensure_months ::
  "(string \<Rightarrow> string \<times> string \<Rightarrow> ('s, unit) st) \<Rightarrow> nat \<Rightarrow> int \<times> int \<Rightarrow> ('s, string list) st" where
  "ensure_months ddl 0 = (\<lambda>ym. ret [])"
| "ensure_months ddl (Suc n) = (\<lambda>ym.
     bind_s (lift_r (month_bounds ym)) (\<lambda>bounds.
     bind_s (ddl (partition_name ym) bounds) (\<lambda>_.
     bind_s (ensure_months ddl n (next_month ym)) (\<lambda>names.
     ret (partition_name ym # names)))))"

fun split_at_char :: "char \<Rightarrow> string \<Rightarrow> string \<Rightarrow> string list" where
  "split_at_char c cur [] = [cur]"
| "split_at_char c cur (d # ds) =
     (if d = c then cur # split_at_char c [] ds else split_at_char c (cur @ [d]) ds)"

definition start_month :: "int \<times> int \<Rightarrow> string option \<Rightarrow> (int \<times> int) result" where
  "start_month today start =
     (case start of
        None \<Rightarrow> Inr today
      | Some s \<Rightarrow>
          if s = [] then Inr today
          else (case map py_int (split_at_char (CHR ''-'') [] s) of
                  [Some y, Some m] \<Rightarrow> Inr (y, m)
                | _ \<Rightarrow> Inl ValueError))"

definition partitions_ensure ::
  "(string \<Rightarrow> string \<times> string \<Rightarrow> ('s, unit) st) \<Rightarrow> int \<times> int \<Rightarrow> string option \<Rightarrow> int \<Rightarrow> ('s, string list) st" where
  "partitions_ensure ddl today start months =
     bind_s (lift_r (start_month today start)) (\<lambda>ym.
     bind_s (transaction (ensure_months ddl (nat months) ym)) (\<lambda>created.
     ret [''partitions ensured: '' @ join '', '' created]))"

section \<open>Workers\<close>

definition resolve_dep_ids :: "string \<Rightarrow> (sys, int \<times> int) st" where
  "resolve_dep_ids ref =
     transaction (bind_s (the_row (deployment_named ref)) (\<lambda>d. ret (dep_workspace_id d, dep_id d)))"

definition engine_run :: "engine_env \<Rightarrow> string \<Rightarrow> string \<Rightarrow> (sys, string list) st" where
  "engine_run env ref period =
     bind_s (resolve_dep_ids ref) (\<lambda>(ws, dep).
     bind_s (compute_deployment env ws dep period) (\<lambda>written.
     ret [''engine: computed '' @ nat_str (length written) @ '' figures for '' @ ref @ '' '' @ period
            @ '': '' @ join '', '' written]))"

definition report_issue :: "engine_env \<Rightarrow> string \<Rightarrow> string \<Rightarrow> (sys, string list) st" where
  "report_issue env ref period =
     bind_s (resolve_dep_ids ref) (\<lambda>(ws, dep).
     bind_s (issue_report env ws dep period) (\<lambda>rep.
     ret [''report issued: '' @ rep @ '' for '' @ ref @ '' '' @ period]))"

definition monitors_run :: "engine_env \<Rightarrow> string \<Rightarrow> (sys, string list) st" where
  "monitors_run env ref =
     bind_s (transaction (the_row (workspace_named ref))) (\<lambda>ws.
     bind_s (run_monitors env (ws_id ws)) (\<lambda>raised.
     ret [''monitors: raised '' @ nat_str (length raised) @ '' alerts'']))"

text \<open>\<^verbatim>\<open>", ".join(f"{k}={v}" for k, v in counts.items())\<close>.\<close>

definition counts_line :: "string \<Rightarrow> (string \<times> int) list \<Rightarrow> string" where
  "counts_line label counts = label @ '': '' @ join '', '' (map (\<lambda>(k, v). k @ ''='' @ int_str v) counts)"

definition pipeline_run :: "(json \<Rightarrow> rat result) \<Rightarrow> int \<Rightarrow> (sys, string list) st" where
  "pipeline_run numeric limit =
     bind_s (run_pipeline numeric (nat limit)) (\<lambda>c.
     ret [counts_line ''pipeline'' [(''processed'', int (pc_processed c)), (''resolved'', int (pc_resolved c)),
            (''joined'', int (pc_joined c)), (''excluded'', int (pc_excluded c))]])"

definition imports_run :: "ingest_env \<Rightarrow> string \<Rightarrow> (sys, string list) st" where
  "imports_run env import_id =
     bind_s (run_import env import_id) (\<lambda>c.
     ret [counts_line (''import '' @ import_id) [(''received'', received c), (''accepted'', accepted c),
            (''duplicate'', duplicate c), (''rejected'', rejected c)]])"

definition webhooks_deliver :: "webhook_env \<Rightarrow> sender \<Rightarrow> int \<Rightarrow> int \<Rightarrow> (sys, string list) st" where
  "webhooks_deliver env sender now limit =
     bind_s (deliver_once env sender now (nat limit)) (\<lambda>c.
     ret [counts_line ''deliveries'' [(''delivered'', int (dc_delivered c)), (''retried'', int (dc_retried c)),
            (''dropped'', int (dc_dropped c))]])"

section \<open>The command line\<close>

datatype ops_command =
    Org_Create string string string
  | Plan_Set string string
  | Workspace_Create string string string string int int int
  | Limits_Set string "int option" "int option" "int option"
  | User_Create string string string "string option" "string option"
  | Key_Issue string string string string string string "string list" "string list"
  | Key_Revoke string
  | Grant_Add string string

text \<open>\<^verbatim>\<open>choices\<close> of an argument: anything else exits before the command runs.\<close>

definition choice :: "(string \<times> 'a) list \<Rightarrow> string \<Rightarrow> (sys, 'a) st" where
  "choice labels x = (case map_of labels x of None \<Rightarrow> raise SystemExit | Some v \<Rightarrow> ret v)"

definition environments :: "(string \<times> string) list" where
  "environments = [(''production'', ''production''), (''sandbox'', ''sandbox'')]"

definition key_modes :: "(string \<times> string) list" where
  "key_modes = [(''production'', ''production''), (''test'', ''test'')]"

definition key_scopes :: "(string \<times> api_key_scope) list" where
  "key_scopes = [(''workspace'', Workspace_Scope), (''deployment'', Deployment_Scope)]"

fun run_ops :: "(string \<Rightarrow> string) \<Rightarrow> ops_command \<Rightarrow> (sys, string list) st" where
  "run_ops sha256 (Org_Create plan ref legal_name) = org_create plan ref legal_name"
| "run_ops sha256 (Plan_Set ref plan) = plan_set ref plan"
| "run_ops sha256 (Workspace_Create org ref name environment backfill_days rpm epm) =
     bind_s (choice environments environment) (\<lambda>e. workspace_create org ref name e backfill_days rpm epm)"
| "run_ops sha256 (Limits_Set ref rpm epm backfill_days) = limits_set ref rpm epm backfill_days"
| "run_ops sha256 (User_Create ws ref ty display_name role) =
     bind_s (choice user_types ty) (\<lambda>t. user_create ws ref t display_name role)"
| "run_ops sha256 (Key_Issue secret token ws owner mode scope roles deps) =
     bind_s (choice key_modes mode) (\<lambda>m.
     bind_s (choice key_scopes scope) (\<lambda>sc. key_issue sha256 secret token ws owner m sc roles deps))"
| "run_ops sha256 (Key_Revoke ref) = key_revoke ref"
| "run_ops sha256 (Grant_Add ref dep) = grant_add ref dep"

end
