(* ===== verification/OpsSafe.thy ===== *)
theory OpsSafe
  imports OpsCtl
begin

text \<open>
  What the operators' commands guarantee: the tables they write stay well typed, an issued
  key authenticates with exactly what it was given until it is revoked, and the monthly
  partitions follow each other without a gap.
\<close>

section \<open>Successful runs\<close>

lemma the_row_Inr [simp]: "the_row f s = (t, Inr r) \<longleftrightarrow> t = s \<and> f s = Some r"
  by (auto simp: the_row_def split: option.split)

lemma check_db_Inr [simp]: "check_db b s = (t, Inr x) \<longleftrightarrow> t = s \<and> b"
  by (auto simp: check_db_def)

lemma choice_Inr [simp]: "choice labels x s = (t, Inr v) \<longleftrightarrow> t = s \<and> map_of labels x = Some v"
  by (auto simp: choice_def split: option.split)

lemmas run_simps = bind_s_Inr_iff prod.inject sum.inject

section \<open>Well-typed tables\<close>

definition orgs_typed :: "organization_row table \<Rightarrow> bool" where
  "orgs_typed t \<longleftrightarrow> unique_key org_ref t \<and> (\<forall>o' \<in> set (tbl_rows t). org_plan_type o' \<in> set plan_types)"

definition workspace_typed :: "workspace_row \<Rightarrow> bool" where
  "workspace_typed w \<longleftrightarrow> map_of environments (ws_environment w) \<noteq> None \<and> positive_int4 (ws_rate_limit_rpm w)
     \<and> positive_int4 (ws_rate_limit_epm w) \<and> positive_int4 (ws_backfill_horizon_days w)"

definition workspaces_typed :: "organization_row table \<Rightarrow> workspace_row table \<Rightarrow> bool" where
  "workspaces_typed orgs t \<longleftrightarrow> unique_key ws_ref t \<and> (\<forall>w \<in> set (tbl_rows t). workspace_typed w
     \<and> (\<exists>o' \<in> set (tbl_rows orgs). org_id o' = ws_organization_id w))"

definition members_typed :: "user_row table \<Rightarrow> bool" where
  "members_typed t \<longleftrightarrow> distinct (map (\<lambda>u. (user_workspace_id u, user_ref u))
     (filter (\<lambda>u. user_workspace_id u \<noteq> None) (tbl_rows t)))"

definition keys_typed :: "user_row table \<Rightarrow> api_key_row table \<Rightarrow> bool" where
  "keys_typed us t \<longleftrightarrow> unique_key key_ref t \<and> (\<forall>k \<in> set (tbl_rows t). key_id k < tbl_seq t \<and> map_of key_modes (key_mode k) \<noteq> None
     \<and> (\<exists>u \<in> set (tbl_rows us). user_id u = key_owner_user_id k \<and> user_workspace_id u = Some (key_workspace_id k)))"

definition grants_typed :: "api_key_row table \<Rightarrow> deployment_row table \<Rightarrow> grant_row list \<Rightarrow> bool" where
  "grants_typed ks ds gs \<longleftrightarrow> distinct (map (\<lambda>g. (grant_api_key_id g, grant_deployment_id g)) gs)
     \<and> (\<forall>g \<in> set gs.
          (\<exists>k \<in> set (tbl_rows ks). key_id k = grant_api_key_id g \<and> key_workspace_id k = grant_workspace_id g)
        \<and> (\<exists>d \<in> set (tbl_rows ds). dep_id d = grant_deployment_id g \<and> dep_workspace_id d = grant_workspace_id g))"

definition ops_typed :: "sys \<Rightarrow> bool" where
  "ops_typed s \<longleftrightarrow> orgs_typed (organizations s) \<and> workspaces_typed (organizations s) (workspaces s)
     \<and> members_typed (users s) \<and> keys_typed (users s) (api_keys s)
     \<and> grants_typed (api_keys s) (deployments s) (api_key_deployments s)"

lemmas typed_defs = ops_typed_def orgs_typed_def workspaces_typed_def members_typed_def keys_typed_def
  grants_typed_def unique_key_def table_simps

subsection \<open>Each statement\<close>

lemma fetch_none: "fetch_one P t = None \<longleftrightarrow> (\<forall>r \<in> set (tbl_rows t). \<not> P r)"
  by (auto simp: fetch_one_def find_None_iff)

lemma unique_key_update:
  "(\<And>r. key (f r) = key r) \<Longrightarrow> unique_key key (update_rows P f t) = unique_key key t"
proof -
  assume "\<And>r. key (f r) = key r"
  then have "map key (map (\<lambda>r. if P r then f r else r) rs) = map key rs" for rs by auto
  then show ?thesis unfolding unique_key_def table_rows_simps by metis
qed

lemma unique_key_insert:
  "unique_key key (insert_row mk t) \<longleftrightarrow>
     unique_key key t \<and> (\<forall>r \<in> set (tbl_rows t). key r \<noteq> key (mk (tbl_seq t)))"
  by (auto simp: unique_key_def table_simps) (metis image_eqI)

lemma image_update:
  assumes "\<And>r. key (f r) = key r"
  shows "key ` set (tbl_rows (update_rows P f t)) = key ` set (tbl_rows t)"
proof -
  have "map key (map (\<lambda>r. if P r then f r else r) rs) = map key rs" for rs using assms by auto
  then show ?thesis by (metis list.set_map table_rows_simps(3))
qed

lemma orgs_of_workspaces:
  "workspaces_typed orgs t \<Longrightarrow> org_id ` set (tbl_rows orgs) \<subseteq> org_id ` set (tbl_rows orgs') \<Longrightarrow> workspaces_typed orgs' t"
  unfolding workspaces_typed_def by (metis (no_types, lifting) imageE imageI subsetD)

lemma plan_update_typed:
  assumes "orgs_typed t" "plan \<in> set plan_types"
  shows "orgs_typed (update_rows P (\<lambda>o'. o'\<lparr>org_plan_type := plan\<rparr>) t)"
    and "org_id ` set (tbl_rows (update_rows P (\<lambda>o'. o'\<lparr>org_plan_type := plan\<rparr>) t)) = org_id ` set (tbl_rows t)"
  using assms by (auto simp: orgs_typed_def unique_key_update table_simps) [1] (rule image_update, simp)

lemma set_limits_typed:
  "workspace_typed w \<Longrightarrow> list_all positive_int4 (given_limits rpm epm bd) \<Longrightarrow> workspace_typed (set_limits rpm epm bd w)"
  by (auto simp: workspace_typed_def set_limits_def given_limits_def split: option.splits)

lemma limits_update_typed:
  assumes "workspaces_typed orgs t" "list_all positive_int4 (given_limits rpm epm bd)"
  shows "workspaces_typed orgs (update_rows P (set_limits rpm epm bd) t)"
proof -
  have "ws_ref (set_limits rpm epm bd w) = ws_ref w" "ws_organization_id (set_limits rpm epm bd w) = ws_organization_id w"
    for w by (simp_all add: set_limits_def)
  with assms set_limits_typed [OF _ assms(2)] show ?thesis
    by (auto simp: workspaces_typed_def unique_key_update table_simps)
qed

lemma members_insert_typed:
  assumes "members_typed t"
    and "\<forall>u \<in> set (tbl_rows t). user_workspace_id u = user_workspace_id (mk (tbl_seq t))
      \<longrightarrow> user_ref u \<noteq> user_ref (mk (tbl_seq t))"
  shows "members_typed (insert_row mk t)"
  using assms by (auto simp: members_typed_def table_simps)

lemma users_of_keys:
  "keys_typed us t \<Longrightarrow> set (tbl_rows us) \<subseteq> set (tbl_rows us') \<Longrightarrow> keys_typed us' t"
  unfolding keys_typed_def by blast

lemma keys_of_grants:
  "grants_typed ks ds gs \<Longrightarrow>
     (\<lambda>k. (key_id k, key_workspace_id k)) ` set (tbl_rows ks) \<subseteq> (\<lambda>k. (key_id k, key_workspace_id k)) ` set (tbl_rows ks')
     \<Longrightarrow> grants_typed ks' ds gs"
proof -
  assume g: "grants_typed ks ds gs"
    and sub: "(\<lambda>k. (key_id k, key_workspace_id k)) ` set (tbl_rows ks) \<subseteq> (\<lambda>k. (key_id k, key_workspace_id k)) ` set (tbl_rows ks')"
  have "\<exists>k \<in> set (tbl_rows ks'). key_id k = i \<and> key_workspace_id k = w"
    if "k \<in> set (tbl_rows ks)" "key_id k = i" "key_workspace_id k = w" for k i w
    using sub that by (force simp: image_iff)
  with g show ?thesis unfolding grants_typed_def by blast
qed

lemma revoke_update_typed:
  "keys_typed us t \<Longrightarrow> keys_typed us (update_rows P (\<lambda>k. k\<lparr>key_status := st\<rparr>) t)"
  "(\<lambda>k. (key_id k, key_workspace_id k)) ` set (tbl_rows (update_rows P (\<lambda>k. k\<lparr>key_status := st\<rparr>) t))
     = (\<lambda>k. (key_id k, key_workspace_id k)) ` set (tbl_rows t)"
  by (auto simp: keys_typed_def unique_key_update table_simps) [1] (rule image_update, simp)

lemma grant_insert_typed:
  assumes "grants_typed ks ds gs" "\<exists>k \<in> set (tbl_rows ks). key_id k = i \<and> key_workspace_id k = w"
    and "d \<in> set (tbl_rows ds)" "dep_workspace_id d = w"
    and "\<not> (\<exists>g \<in> set gs. grant_api_key_id g = i \<and> grant_deployment_id g = dep_id d)"
  shows "grants_typed ks ds (gs @ [\<lparr>grant_workspace_id = w, grant_api_key_id = i, grant_deployment_id = dep_id d\<rparr>])"
  using assms by (auto simp: grants_typed_def)

subsection \<open>Each command\<close>

lemma transaction_typed:
  assumes "ops_typed s" and "\<And>t x. m s = (t, Inr x) \<Longrightarrow> ops_typed t"
  shows "ops_typed (fst (transaction m s))"
  using assms by (auto simp: transaction_def split: prod.split sum.split)

lemma org_create_typed: "ops_typed s \<Longrightarrow> ops_typed (fst (org_create plan ref legal_name s))"
  unfolding org_create_def
  by (rule transaction_typed, assumption)
    (auto simp: run_simps ops_typed_def orgs_typed_def unique_key_insert exists_row_def table_simps
      intro: orgs_of_workspaces)

lemma plan_set_typed: "ops_typed s \<Longrightarrow> ops_typed (fst (plan_set ref plan s))"
  unfolding plan_set_def
  by (rule transaction_typed, assumption)
    (auto simp: run_simps ops_typed_def plan_update_typed intro: orgs_of_workspaces)

lemma workspace_create_typed:
  "ops_typed s \<Longrightarrow> map_of environments environment \<noteq> None \<Longrightarrow>
     ops_typed (fst (workspace_create org ref name environment bd rpm epm s))"
  unfolding workspace_create_def
  by (rule transaction_typed, assumption)
    (auto simp: run_simps ops_typed_def workspaces_typed_def unique_key_insert workspace_typed_def
      workspace_named_def fetch_none table_simps dest!: fetch_one_Some, blast)

lemma limits_set_typed: "ops_typed s \<Longrightarrow> ops_typed (fst (limits_set ref rpm epm bd s))"
proof (cases "given_limits rpm epm bd = []")
  case False
  assume s: "ops_typed s"
  show ?thesis
    unfolding limits_set_def Let_def if_not_P [OF False]
    by (rule transaction_typed [OF s]) (use s in \<open>auto simp: run_simps ops_typed_def limits_update_typed\<close>)
qed (simp add: limits_set_def)

lemma user_create_typed: "ops_typed s \<Longrightarrow> ops_typed (fst (user_create ws ref ty dn role s))"
  unfolding user_create_def
  by (rule transaction_typed, assumption)
    (auto simp: run_simps ops_typed_def member_named_def fetch_none table_simps
      intro: users_of_keys intro!: members_insert_typed)

lemma key_revoke_typed: "ops_typed s \<Longrightarrow> ops_typed (fst (key_revoke ref s))"
  unfolding key_revoke_def
  by (rule transaction_typed, assumption)
    (auto simp: run_simps ops_typed_def revoke_update_typed intro: keys_of_grants)

lemma grant_add_typed: "ops_typed s \<Longrightarrow> ops_typed (fst (grant_add ref dep s))"
  unfolding grant_add_def
  by (rule transaction_typed, assumption)
    (auto simp: run_simps ops_typed_def insert_grant_def has_grant_def deployment_named_def
      intro!: grant_insert_typed dest!: fetch_one_Some split: if_splits)

lemma issue_grants:
  "for_each (issue_grant w i) refs s = (t, Inr xs) \<Longrightarrow>
     \<exists>ds. map (\<lambda>r. deployment_named r s) refs = map Some ds \<and> (\<forall>d \<in> set ds. dep_workspace_id d = w)
       \<and> t = s\<lparr>api_key_deployments := api_key_deployments s @
            map (\<lambda>d. \<lparr>grant_workspace_id = w, grant_api_key_id = i, grant_deployment_id = dep_id d\<rparr>) ds\<rparr>"
proof (induction refs arbitrary: s xs)
  case Nil
  then show ?case by simp
next
  case (Cons r refs)
  from Cons.prems obtain u ys where u: "issue_grant w i r s = (u, Inr ())"
    and rest: "for_each (issue_grant w i) refs u = (t, Inr ys)" by (auto simp: run_simps)
  from u obtain d where d: "deployment_named r s = Some d" "dep_workspace_id d = w"
    "u = s\<lparr>api_key_deployments := api_key_deployments s @
       [\<lparr>grant_workspace_id = w, grant_api_key_id = i, grant_deployment_id = dep_id d\<rparr>]\<rparr>"
    by (auto simp: issue_grant_def insert_grant_def run_simps)
  have named: "deployment_named r' u = deployment_named r' s" for r'
    by (simp add: d(3) deployment_named_def)
  from Cons.IH [OF rest] obtain ds where "map (\<lambda>r. deployment_named r s) refs = map Some ds"
    "\<forall>d \<in> set ds. dep_workspace_id d = w"
    "t = u\<lparr>api_key_deployments := api_key_deployments u @
       map (\<lambda>d. \<lparr>grant_workspace_id = w, grant_api_key_id = i, grant_deployment_id = dep_id d\<rparr>) ds\<rparr>"
    unfolding named by blast
  with d show ?case by (intro exI [of _ "d # ds"]) simp
qed

lemma issue_grants_typed:
  "for_each (issue_grant w i) refs s = (t, Inr xs) \<Longrightarrow>
     \<exists>k \<in> set (tbl_rows (api_keys s)). key_id k = i \<and> key_workspace_id k = w \<Longrightarrow>
     grants_typed (api_keys s) (deployments s) (api_key_deployments s) \<Longrightarrow>
     grants_typed (api_keys s) (deployments s) (api_key_deployments t)"
proof (induction refs arbitrary: s xs)
  case Nil
  then show ?case by simp
next
  case (Cons r refs)
  from Cons.prems(1) obtain u ys where u: "issue_grant w i r s = (u, Inr ())"
    and rest: "for_each (issue_grant w i) refs u = (t, Inr ys)" by (auto simp: run_simps)
  from u obtain d where d: "deployment_named r s = Some d" "dep_workspace_id d = w" "\<not> has_grant i (dep_id d) s"
    "u = s\<lparr>api_key_deployments := api_key_deployments s @
       [\<lparr>grant_workspace_id = w, grant_api_key_id = i, grant_deployment_id = dep_id d\<rparr>]\<rparr>"
    by (auto simp: issue_grant_def insert_grant_def run_simps)
  then have "d \<in> set (tbl_rows (deployments s))" by (auto simp: deployment_named_def dest: fetch_one_Some)
  then have "grants_typed (api_keys u) (deployments u) (api_key_deployments u)"
    using grant_insert_typed [OF Cons.prems(3,2)] d(2,3) by (simp add: d(4) has_grant_def)
  with Cons.IH [OF rest] Cons.prems(2) show ?case by (simp add: d(4))
qed

lemma key_issue_Inr:
  assumes "key_issue sha256 secret token workspace owner mode scope roles refs s = (t, Inr out)"
  shows "\<exists>w u s1 xs. workspace_named workspace s = Some w \<and> member_named (ws_id w) owner s = Some u
    \<and> (\<forall>k \<in> set (tbl_rows (api_keys s)). key_ref k \<noteq> ''ak_'' @ token)
    \<and> s1 = s\<lparr>api_keys := insert_row (issued_key sha256 secret token mode scope roles (ws_id w) (user_id u)) (api_keys s)\<rparr>
    \<and> for_each (issue_grant (ws_id w) (tbl_seq (api_keys s))) refs s1 = (t, Inr xs)"
  using assms
  unfolding key_issue_def Let_def run_simps transaction_Inr_iff
  by (elim exE conjE) (clarsimp simp: exists_row_def simp del: append.simps)

lemma key_issue_typed:
  assumes "ops_typed s" "map_of key_modes mode \<noteq> None"
  shows "ops_typed (fst (key_issue sha256 secret token workspace owner mode scope roles refs s))"
proof -
  obtain t r where run: "key_issue sha256 secret token workspace owner mode scope roles refs s = (t, r)"
    by (cases "key_issue sha256 secret token workspace owner mode scope roles refs s")
  show ?thesis
  proof (cases r)
    case (Inl e)
    with run have "t = s" by (auto simp: key_issue_def Let_def bind_s_Inl_iff transaction_Inl_iff)
    with assms(1) run show ?thesis by simp
  next
    case (Inr out)
    from key_issue_Inr [OF run [unfolded Inr]] obtain w u s1 xs where
      w: "workspace_named workspace s = Some w" and u: "member_named (ws_id w) owner s = Some u"
      and free: "\<forall>k \<in> set (tbl_rows (api_keys s)). key_ref k \<noteq> ''ak_'' @ token"
      and s1: "s1 = s\<lparr>api_keys := insert_row (issued_key sha256 secret token mode scope roles (ws_id w) (user_id u)) (api_keys s)\<rparr>"
      and grants: "for_each (issue_grant (ws_id w) (tbl_seq (api_keys s))) refs s1 = (t, Inr xs)" by blast
    have owner: "u \<in> set (tbl_rows (users s))" "user_workspace_id u = Some (ws_id w)"
      using u by (auto simp: member_named_def dest: fetch_one_Some)
    have keys: "keys_typed (users s) (api_keys s1)"
      using assms free owner
      by (auto simp: s1 ops_typed_def keys_typed_def unique_key_insert table_simps issued_key_def) (fastforce+)?
    have "grants_typed (api_keys s1) (deployments s1) (api_key_deployments s1)"
      using assms(1) by (auto simp: s1 ops_typed_def table_simps intro: keys_of_grants)
    then have "grants_typed (api_keys s1) (deployments s1) (api_key_deployments t)"
      using issue_grants_typed [OF grants] by (simp add: s1 table_simps issued_key_def)
    moreover obtain ds where "t = s1\<lparr>api_key_deployments := ds\<rparr>" using issue_grants [OF grants] by blast
    ultimately show ?thesis
      using run assms(1) keys by (simp add: ops_typed_def s1)
  qed
qed

text \<open>Every command keeps the tables well typed, whether it succeeds or exits.\<close>

lemma run_ops_typed:
  assumes "ops_typed s"
  shows "ops_typed (fst (run_ops sha256 cmd s))"
proof -
  have choose: "ops_typed (fst (bind_s (choice labels x) k s))"
    if "\<And>v. map_of labels x = Some v \<Longrightarrow> ops_typed (fst (k v s))" for k and labels :: "(string \<times> 'a) list" and x
    using that assms by (auto simp: choice_def split: option.split)
  have plain: "map_of environments x = Some v \<Longrightarrow> v = x" "map_of key_modes x = Some v \<Longrightarrow> v = x" for x v
    by (auto simp: environments_def key_modes_def split: if_splits)
  show ?thesis
    by (cases cmd)
      (auto intro!: org_create_typed plan_set_typed workspace_create_typed limits_set_typed user_create_typed
        key_issue_typed key_revoke_typed grant_add_typed assms simp: choice_def split: option.split dest: plain)
qed

section \<open>The life of a key\<close>

lemma fetch_last:
  "(\<forall>r \<in> set (tbl_rows t). \<not> P r) \<Longrightarrow> P (mk (tbl_seq t)) \<Longrightarrow> fetch_one P (insert_row mk t) = Some (mk (tbl_seq t))"
  by (simp add: fetch_one_def table_simps find_append find_None_iff [THEN iffD2])

lemma presented_prefix: "key_prefix_to_mode (presented_key mode secret) \<noteq> None"
  by (simp add: presented_key_def key_prefix_to_mode_def prefix_to_mode_def)

text \<open>
  C21: an issued key opens exactly what it was issued for. With a hash no other key has,
  the secret the command prints authenticates, in an environment of the key's mode, as a
  principal of the named workspace and owner with the given scope and roles, whose grants
  are exactly the named deployments, all of that workspace; in any other environment it is
  refused with \<^verbatim>\<open>TF-AUTH-003\<close>.
\<close>

theorem issued_key_authenticates:
  assumes "ops_typed s"
    and "key_issue sha256 secret token workspace owner mode scope roles refs s = (t, Inr out)"
    and "\<forall>k \<in> set (tbl_rows (api_keys s)). key_secret_hash k \<noteq> sha256 (presented_key mode secret)"
  shows "\<exists>w u ds. workspace_named workspace s = Some w \<and> member_named (ws_id w) owner s = Some u
    \<and> map (\<lambda>r. deployment_named r s) refs = map Some ds \<and> (\<forall>d \<in> set ds. dep_workspace_id d = ws_id w)
    \<and> resolve_key sha256 environment t (presented_key mode secret) =
        (if mode = expected_mode environment
         then Inr \<lparr>p_api_key_id = tbl_seq (api_keys s), p_api_key_ref = ''ak_'' @ token,
                p_workspace_id = ws_id w, p_owner_user_id = user_id u, p_mode = mode, p_scope = scope,
                p_roles = roles,
                p_granted = (if scope = Deployment_Scope then set (map dep_id ds) else {})\<rparr>
         else Inl (tf_raise ''TF-AUTH-003'' None None
                (Some (mode @ '' key used against '' @ environment @ '' environment''))))"
proof -
  let ?i = "tbl_seq (api_keys s)"
  from key_issue_Inr [OF assms(2)] obtain w u s1 xs where
    w: "workspace_named workspace s = Some w" and u: "member_named (ws_id w) owner s = Some u"
    and s1: "s1 = s\<lparr>api_keys := insert_row (issued_key sha256 secret token mode scope roles (ws_id w) (user_id u)) (api_keys s)\<rparr>"
    and grants: "for_each (issue_grant (ws_id w) ?i) refs s1 = (t, Inr xs)" by blast
  let ?row = "issued_key sha256 secret token mode scope roles (ws_id w) (user_id u) ?i"
  from issue_grants [OF grants] obtain ds where ds: "map (\<lambda>r. deployment_named r s1) refs = map Some ds"
    "\<forall>d \<in> set ds. dep_workspace_id d = ws_id w"
    and t: "t = s1\<lparr>api_key_deployments := api_key_deployments s1 @
      map (\<lambda>d. \<lparr>grant_workspace_id = ws_id w, grant_api_key_id = ?i, grant_deployment_id = dep_id d\<rparr>) ds\<rparr>"
    by blast
  have named: "deployment_named r s1 = deployment_named r s" for r by (simp add: s1 deployment_named_def)
  have found: "fetch_one (\<lambda>k. key_secret_hash k = sha256 (presented_key mode secret)) (api_keys t) = Some ?row"
    unfolding t s1 using assms(3) by (simp add: fetch_last issued_key_def hash_key_def)
  have old: "grant_api_key_id g \<noteq> ?i" if "g \<in> set (api_key_deployments s)" for g
    using assms(1) that by (fastforce simp: ops_typed_def grants_typed_def keys_typed_def)
  have "granted_deployments t ?row = (if scope = Deployment_Scope then set (map dep_id ds) else {})"
    using old by (auto simp: granted_deployments_def t s1 issued_key_def comp_def)
  then have principal: "principal_of t ?row = \<lparr>p_api_key_id = ?i, p_api_key_ref = ''ak_'' @ token,
      p_workspace_id = ws_id w, p_owner_user_id = user_id u, p_mode = mode, p_scope = scope,
      p_roles = roles, p_granted = (if scope = Deployment_Scope then set (map dep_id ds) else {})\<rparr>"
    by (simp add: principal_of_def issued_key_def)
  have fields: "key_status ?row = Key_Active" "key_mode ?row = mode" by (simp_all add: issued_key_def)
  obtain m0 where "key_prefix_to_mode (presented_key mode secret) = Some m0" using presented_prefix by blast
  then have "resolve_key sha256 environment t (presented_key mode secret) =
      (if mode = expected_mode environment
       then Inr \<lparr>p_api_key_id = ?i, p_api_key_ref = ''ak_'' @ token,
              p_workspace_id = ws_id w, p_owner_user_id = user_id u, p_mode = mode, p_scope = scope,
              p_roles = roles, p_granted = (if scope = Deployment_Scope then set (map dep_id ds) else {})\<rparr>
       else Inl (tf_raise ''TF-AUTH-003'' None None
              (Some (mode @ '' key used against '' @ environment @ '' environment''))))"
    unfolding resolve_key_def
    by (simp only: option.case found principal fields if_cancel simp_thms if_True if_False; simp split: if_split)
  with w u ds named show ?thesis by (simp del: append.simps)
qed

text \<open>
  C22: revoking a key shuts out that key and no other. After the command succeeds, a
  presented key whose hash is the revoked key's is refused with \<^verbatim>\<open>TF-AUTH-001\<close> in every
  environment, and every other presented key gets the answer it got before.
\<close>

theorem revoked_key_refused:
  assumes "key_revoke ref s = (t, Inr out)"
    and "unique_key key_secret_hash (api_keys s)" and "unique_key key_ref (api_keys s)"
  shows "resolve_key sha256 environment t presented =
    (if key_prefix_to_mode presented \<noteq> None \<and>
        (\<exists>k \<in> set (tbl_rows (api_keys s)). key_ref k = ref \<and> key_secret_hash k = sha256 presented)
     then Inl (tf_raise ''TF-AUTH-001'' None None (Some ''key not found or revoked''))
     else resolve_key sha256 environment s presented)"
proof -
  from assms(1) obtain k0 where k0: "fetch_one (active_key ref) (api_keys s) = Some k0"
    and t: "t = s\<lparr>api_keys := update_rows (active_key ref) (\<lambda>k. k\<lparr>key_status := Key_Revoked\<rparr>) (api_keys s)\<rparr>"
    by (auto simp: key_revoke_def run_simps transaction_Inr_iff)
  have k0': "k0 \<in> set (tbl_rows (api_keys s))" "key_ref k0 = ref" "key_status k0 = Key_Active"
    using k0 by (auto simp: active_key_def dest: fetch_one_Some)
  let ?P = "\<lambda>k. key_secret_hash k = sha256 presented"
  have "find ?P (map (\<lambda>k. if active_key ref k then k\<lparr>key_status := Key_Revoked\<rparr> else k) rs)
      = map_option (\<lambda>k. if active_key ref k then k\<lparr>key_status := Key_Revoked\<rparr> else k) (find ?P rs)" for rs
    by (induction rs) auto
  then have found: "fetch_one ?P (api_keys t)
      = map_option (\<lambda>k. if active_key ref k then k\<lparr>key_status := Key_Revoked\<rparr> else k) (fetch_one ?P (api_keys s))"
    by (simp add: t fetch_one_def table_simps)
  have principal: "principal_of t k = principal_of s k" for k
    by (simp add: t principal_of_def granted_deployments_def)
  show ?thesis
  proof (cases "fetch_one ?P (api_keys s)")
    case None
    then have "\<not> (\<exists>k \<in> set (tbl_rows (api_keys s)). key_ref k = ref \<and> ?P k)" by (auto simp: fetch_none)
    with None found show ?thesis by (simp add: resolve_key_def split: option.split)
  next
    case (Some k)
    then have k: "k \<in> set (tbl_rows (api_keys s))" "?P k" by (auto dest: fetch_one_Some)
    have same: "k' = k" if "k' \<in> set (tbl_rows (api_keys s))" "?P k'" for k'
      using assms(2) k that unfolding unique_key_def distinct_map by (metis inj_onD)
    have row: "k = k0" if "key_ref k = ref"
      using assms(3) k(1) k0'(1,2) that unfolding unique_key_def distinct_map by (metis inj_onD)
    show ?thesis
    proof (cases "key_ref k = ref")
      case True
      with row k0'(3) have "active_key ref k" by (simp add: active_key_def)
      with Some found True k show ?thesis by (auto simp: resolve_key_def split: option.split)
    next
      case False
      then have "\<not> (\<exists>k' \<in> set (tbl_rows (api_keys s)). key_ref k' = ref \<and> ?P k')" using same by blast
      moreover have "\<not> active_key ref k" using False by (simp add: active_key_def)
      ultimately show ?thesis using Some found principal by (auto simp: resolve_key_def split: option.split)
    qed
  qed
qed

section \<open>Partitions\<close>

text \<open>Months counted from year 0, and the partitions the command asks for.\<close>

definition month_at :: "int \<Rightarrow> int \<times> int" where
  "month_at k = (k div 12, k mod 12 + 1)"

definition month_text :: "int \<Rightarrow> string" where
  "month_text k = pad 4 (nat (k div 12)) @ ''-'' @ pad 2 (nat (k mod 12 + 1)) @ ''-01''"

definition partition_at :: "int \<Rightarrow> string \<times> string \<times> string" where
  "partition_at k = (partition_name (month_at k), month_text k, month_text (k + 1))"

lemma next_month_at: "next_month (month_at k) = month_at (k + 1)"
proof -
  define q r where "q = k div 12" and "r = k mod 12"
  then have k: "k = 12 * q + r" and r: "0 \<le> r" "r < 12" by simp_all
  have parts: "(12 * q' + r') div 12 = q' \<and> (12 * q' + r') mod 12 = r'" if "0 \<le> r'" "r' < 12" for q' r' :: int
    using that by simp
  show ?thesis
  proof (cases "r = 11")
    case True
    then have "k + 1 = 12 * (q + 1) + 0" using k by simp
    moreover have "(12 * (q + 1) + 0) div 12 = q + 1 \<and> (12 * (q + 1) + 0) mod 12 = 0"
      by (rule parts) simp_all
    ultimately have "(k + 1) div 12 = q + 1" "(k + 1) mod 12 = 0" by (simp_all only:)
    with True show ?thesis by (simp add: next_month_def month_at_def flip: q_def r_def)
  next
    case False
    with r have "0 \<le> r + 1" "r + 1 < 12" by linarith+
    note p = parts [OF this, of q]
    have "k + 1 = 12 * q + (r + 1)" using k by simp
    with p have "(k + 1) div 12 = q" "(k + 1) mod 12 = r + 1" by (simp_all only:)
    with False show ?thesis by (simp add: next_month_def month_at_def flip: q_def r_def)
  qed
qed

lemma first_of_month_at: "12 \<le> k \<Longrightarrow> k < 120000 \<Longrightarrow> first_of_month (month_at k) = Inr (month_text k)"
proof -
  assume k: "12 \<le> k" "k < 120000"
  then have "1 \<le> k div 12" "k div 12 \<le> 9999" by presburger+
  moreover have "0 \<le> k mod 12" "k mod 12 < 12" by simp_all
  then have "1 \<le> k mod 12 + 1" "k mod 12 + 1 \<le> 12" by linarith+
  ultimately show ?thesis by (simp add: first_of_month_def month_at_def month_text_def)
qed

text \<open>The statements of a run, recorded in their order.\<close>

definition record_partition ::
  "string \<Rightarrow> string \<times> string \<Rightarrow> ((string \<times> string \<times> string) list, unit) st" where
  "record_partition name bounds = (\<lambda>created. (created @ [(name, bounds)], Inr ()))"

lemma record_partition_run: "bind_s (record_partition name bounds) f created = f () (created @ [(name, bounds)])"
  by (simp add: bind_s_def record_partition_def)

lemma bind_s_run: "m s = (s', Inr x) \<Longrightarrow> bind_s m f s = f x s'"
  by (simp add: bind_s_def)

text \<open>
  The partitions of a run follow each other without a gap: the command asks for the
  partitions of consecutive months, each from the first of its month to the first of the
  next, which is where the following one begins.
\<close>

theorem partitions_contiguous:
  assumes "12 \<le> k" and "k + int n < 120000"
  shows "ensure_months record_partition n (month_at k) created
    = (created @ map (\<lambda>i. partition_at (k + int i)) [0..<n], Inr (map (\<lambda>i. partition_name (month_at (k + int i))) [0..<n]))"
  using assms
proof (induction n arbitrary: k created)
  case 0
  then show ?case by simp
next
  case (Suc n)
  have bounds: "month_bounds (month_at k) = Inr (month_text k, month_text (k + 1))"
    using Suc.prems by (simp add: month_bounds_def next_month_at first_of_month_at)
  have ih: "ensure_months record_partition n (month_at (k + 1)) log'
    = (log' @ map (\<lambda>i. partition_at (k + 1 + int i)) [0..<n],
       Inr (map (\<lambda>i. partition_name (month_at (k + 1 + int i))) [0..<n]))" for log'
    using Suc.prems by (intro Suc.IH) simp_all
  have "[0..<Suc n] = 0 # map Suc [0..<n]" by (simp add: map_Suc_upt upt_conv_Cons)
  then show ?case
    by (simp add: bounds next_month_at record_partition_run bind_s_run [OF ih] partition_at_def comp_def add.assoc
        del: upt_Suc)
qed

end
