(* ===== verification/ReadPlane.thy ===== *)
theory ReadPlane
  imports Reports ConfigPlane EventSchema
begin

text \<open>
  Modules \<^verbatim>\<open>api/routes/read_plane.py\<close> and \<^verbatim>\<open>api/routes/webhooks_routes.py\<close>:
  the handlers that serve figures, reports, live counters, alerts and the delivery log. The
  time stamps a row gets when it is written are parameters by the row's identity; the
  operations on doubles are those of the engine.
\<close>

record read_env =
  rd_now :: int
  rd_floats :: float_ops
  rd_avg :: "rat list \<Rightarrow> rat"
  rd_computed_at :: "int \<Rightarrow> int"
  rd_issued_at :: "int \<Rightarrow> int"
  rd_first_seen :: "int \<Rightarrow> int"
  rd_last_seen :: "int \<Rightarrow> int"
  rd_acked_at :: "int \<Rightarrow> int"
  rd_created_at :: "int \<Rightarrow> int"

definition read_deployment :: "principal \<Rightarrow> string \<Rightarrow> sys \<Rightarrow> deployment_row result" where
  "read_deployment p wire_id s =
     (case fetch_one (\<lambda>d. dep_ref d = wire_id \<and> dep_workspace_id d = p_workspace_id p) (deployments s) of
        None \<Rightarrow> Inl (tf_raise ''TF-READ-001'' None None (Some (''deployment '' @ wire_id @ '' not found'')))
      | Some d \<Rightarrow> bind_r (require_deployment p (dep_id d)) (\<lambda>_. Inr d))"

section \<open>Figures\<close>

definition instant_json :: "int \<Rightarrow> json" where
  "instant_json t = JStr (iso_instant t)"

definition figure_dict :: "read_env \<Rightarrow> figure_row \<Rightarrow> json" where
  "figure_dict env f =
     JObj [(''figure_id'', JStr (fig_ref f)), (''version'', JInt (fig_version f)), (''period'', JStr (fig_period f)),
       (''status'', JStr (figure_status_str (fig_status f))), (''grade'', opt_str (fig_grade f)),
       (''value_class'', opt_str (fig_value_class f)), (''claim'', JStr (fig_claim f)),
       (''value'', opt_json (\<lambda>v. JReal (fl_nearest (rd_floats env) v)) (fig_value f)),
       (''parameter_set_version'', opt_int (fig_parameter_version f)),
       (''change_treatment'', opt_str (fig_change_treatment f)),
       (''refusal_reason'', opt_str (fig_refusal_reason f)),
       (''margin_exceeds_effect'', opt_json JBool (fig_margin_exceeds_effect f)),
       (''expected_verdict_date'', opt_json (\<lambda>d. JStr (iso_date d)) (fig_expected_verdict f)),
       (''missing_parameter'', opt_str (fig_missing_parameter f)),
       (''method_id'', JStr (fig_method_id f)), (''method_version'', JStr (fig_method_version f)),
       (''computed_at'', instant_json (rd_computed_at env (fig_id f)))]"

text \<open>\<^verbatim>\<open>DISTINCT ON (figure_ref) ... ORDER BY figure_ref, version DESC\<close>.\<close>

definition newest_versions :: "figure_row list \<Rightarrow> figure_row list" where
  "newest_versions rows =
     List.map_filter (\<lambda>ref. latest_by fig_version (filter (\<lambda>f. fig_ref f = ref) rows))
       (sort (remdups (map fig_ref rows)))"

definition figure_rows :: "int \<Rightarrow> string option \<Rightarrow> sys \<Rightarrow> figure_row list" where
  "figure_rows did period s =
     select_rows (\<lambda>f. fig_deployment_id f = did \<and> (present period \<longrightarrow> period = Some (fig_period f))) (figures s)"

definition list_figures :: "read_env \<Rightarrow> principal \<Rightarrow> string \<Rightarrow> string option \<Rightarrow> sys \<Rightarrow> answer result" where
  "list_figures env p wire_id period s =
     bind_r (read_deployment p wire_id s) (\<lambda>d.
       let rows = newest_versions (figure_rows (dep_id d) period s) in
       if present period \<and> rows = []
       then Inr (200, JObj [(''results'', JList []), (''status'', JStr ''period_not_computed''),
              (''code'', JStr ''TF-READ-002'')], Some wire_id)
       else Inr (200, JObj [(''results'', JList (map (figure_dict env) rows))], Some wire_id))"

definition newest_figure :: "int \<Rightarrow> string \<Rightarrow> sys \<Rightarrow> figure_row result" where
  "newest_figure did ref s =
     (case latest_by fig_version (select_rows (\<lambda>f. fig_deployment_id f = did \<and> fig_ref f = ref) (figures s)) of
        None \<Rightarrow> Inl (tf_raise ''TF-READ-001'' None None (Some (''figure '' @ ref @ '' not found'')))
      | Some f \<Rightarrow> Inr f)"

definition get_figure :: "read_env \<Rightarrow> principal \<Rightarrow> string \<Rightarrow> string \<Rightarrow> sys \<Rightarrow> answer result" where
  "get_figure env p wire_id ref s =
     bind_r (read_deployment p wire_id s) (\<lambda>d.
     bind_r (newest_figure (dep_id d) ref s) (\<lambda>f. Inr (200, figure_dict env f, Some wire_id)))"

definition lineage_dict :: "figure_row \<Rightarrow> json" where
  "lineage_dict f =
     JObj [(''figure_id'', JStr (fig_ref f)), (''version'', JInt (fig_version f)),
       (''method_id'', JStr (fig_method_id f)), (''method_version'', JStr (fig_method_version f)),
       (''parameter_set_version'', opt_int (fig_parameter_version f)),
       (''change_treatment'', opt_str (fig_change_treatment f)), (''lineage'', jsonb (JObj (fig_lineage f)))]"

definition figure_lineage :: "principal \<Rightarrow> string \<Rightarrow> string \<Rightarrow> sys \<Rightarrow> answer result" where
  "figure_lineage p wire_id ref s =
     bind_r (read_deployment p wire_id s) (\<lambda>d.
     bind_r (newest_figure (dep_id d) ref s) (\<lambda>f. Inr (200, lineage_dict f, Some wire_id)))"

section \<open>Reports\<close>

definition report_head :: "read_env \<Rightarrow> report_row \<Rightarrow> (string \<times> json) list" where
  "report_head env r =
     [(''report_id'', JStr (rep_ref r)), (''version'', JInt (rep_version r)), (''period'', JStr (rep_period r)),
      (''issued_at'', instant_json (rd_issued_at env (rep_id r))),
      (''grade_profile'', jsonb (JObj (map (\<lambda>(g, n). (g, JInt n)) (rep_grade_profile r)))),
      (''supersedes_version'', opt_int (rep_supersedes r))]"

text \<open>\<^verbatim>\<open>ORDER BY issued_at DESC, version DESC\<close>: two stable sorts.\<close>

definition reports_newest_first :: "read_env \<Rightarrow> report_row list \<Rightarrow> report_row list" where
  "reports_newest_first env rs =
     sort_key (\<lambda>r. - rd_issued_at env (rep_id r)) (sort_key (\<lambda>r. - rep_version r) rs)"

definition list_reports :: "read_env \<Rightarrow> principal \<Rightarrow> string \<Rightarrow> sys \<Rightarrow> answer result" where
  "list_reports env p wire_id s =
     bind_r (read_deployment p wire_id s) (\<lambda>d.
       Inr (200, JObj [(''results'', JList (map (\<lambda>r. JObj (report_head env r))
         (reports_newest_first env (select_rows (\<lambda>r. rep_deployment_id r = dep_id d) (reports s)))))], Some wire_id))"

definition bound_figures :: "int \<Rightarrow> sys \<Rightarrow> figure_row list" where
  "bound_figures rid s =
     List.map_filter (\<lambda>b. fetch_one (\<lambda>f. fig_id f = rf_figure_id b) (figures s))
       (filter (\<lambda>b. rf_report_id b = rid) (report_figures s))"

definition get_report :: "read_env \<Rightarrow> principal \<Rightarrow> string \<Rightarrow> string \<Rightarrow> sys \<Rightarrow> answer result" where
  "get_report env p wire_id ref s =
     bind_r (read_deployment p wire_id s) (\<lambda>d.
       case latest_by rep_version (select_rows (\<lambda>r. rep_deployment_id r = dep_id d \<and> rep_ref r = ref) (reports s)) of
         None \<Rightarrow> Inl (tf_raise ''TF-READ-001'' None None (Some (''report '' @ ref @ '' not found'')))
       | Some r \<Rightarrow>
           Inr (200, JObj (report_head env r @
             [(''artifact_url'', JStr (signed_download_url REPORT_BUCKET (rep_artifact_path r) 86400)),
              (''figures'', JList (map (\<lambda>f. JObj [(''figure_id'', JStr (fig_ref f)), (''version'', JInt (fig_version f))])
                 (bound_figures (rep_id r) s)))]), Some wire_id))"

section \<open>Live usage\<close>

definition user_days :: "int \<Rightarrow> int \<Rightarrow> sys \<Rightarrow> user_activity_row list" where
  "user_days did today s =
     select_rows (\<lambda>a. ua_deployment_id a = did \<and> today - 29 \<le> ua_activity_date a \<and> ua_activity_date a \<le> today)
       (user_activity_daily s)"

text \<open>Per user: the distinct days and the sum of events.\<close>

definition usage_by_user :: "user_activity_row list \<Rightarrow> (int \<times> int) list" where
  "usage_by_user rows =
     map (\<lambda>u. let rs = filter (\<lambda>a. ua_user_id a = u) rows in
            (int (card (set (map ua_activity_date rs))), sum_list (map ua_event_count rs)))
       (firsts (map ua_user_id rows))"

record seat_split =
  near_zero :: nat
  moderate :: nat
  heavy :: nat

definition classify_seat :: "int \<times> int \<Rightarrow> seat_split \<Rightarrow> seat_split" where
  "classify_seat u c =
     (case u of (days, n) \<Rightarrow>
        if days < 3 \<or> n < 5 then c\<lparr>near_zero := near_zero c + 1\<rparr>
        else if 15 \<le> days \<and> 100 \<le> n then c\<lparr>heavy := heavy c + 1\<rparr>
        else c\<lparr>moderate := moderate c + 1\<rparr>)"

definition classify_seats :: "(int \<times> int) list \<Rightarrow> seat_split" where
  "classify_seats us = fold classify_seat us \<lparr>near_zero = 0, moderate = 0, heavy = 0\<rparr>"

definition annual_waste :: "float_ops \<Rightarrow> license_row \<Rightarrow> rat \<Rightarrow> int \<Rightarrow> rat" where
  "annual_waste fl l price never =
     fl_nearest fl (fl_nearest fl (fl_nearest fl price * of_int never) * (if lic_per_month l then 12 else 1))"

definition usage_data :: "float_ops \<Rightarrow> (int \<times> int) list \<Rightarrow> license_row option \<Rightarrow> json" where
  "usage_data fl active lic =
     (let activated = int (length active); c = classify_seats active in
      if 0 < activated \<and> activated < 5 then
        JObj [(''grade'', JStr ''measured''),
          (''seats'', JObj ((''activated'', JInt activated) #
             (case lic of None \<Rightarrow> []
              | Some l \<Rightarrow> [(''paid'', JInt (lic_seats_paid l)),
                          (''never_activated'', JInt (max (lic_seats_paid l - activated) 0))]))),
          (''cohort_status'', JStr ''not_disclosable''), (''code'', JStr ''TF-READ-003'')]
      else
        let split = [(''activated'', JInt activated), (''near_zero'', JInt (int (near_zero c))),
                     (''moderate'', JInt (int (moderate c))), (''heavy'', JInt (int (heavy c)))] in
        case lic of
          None \<Rightarrow>
            JObj [(''grade'', JStr ''measured''),
              (''seats'', JObj (split @ [(''paid'', JNull), (''never_activated'', JNull)])),
              (''waste'', JObj [(''seats'', JNull), (''annual_usd'', JNull),
                 (''status'', JStr ''awaiting_license_declaration'')])]
        | Some l \<Rightarrow>
            let never = max (lic_seats_paid l - activated) 0 in
            JObj [(''grade'', JStr ''measured''),
              (''seats'', JObj (split @ [(''paid'', JInt (lic_seats_paid l)), (''never_activated'', JInt never)])),
              (''waste'', JObj
                 (case lic_price_per_seat l of
                    Some price \<Rightarrow> [(''seats'', JInt never), (''annual_usd'', JReal (annual_waste fl l price never)),
                                   (''price_provenance'', JStr ''license_data'')]
                  | None \<Rightarrow> [(''seats'', JInt never), (''annual_usd'', JNull),
                             (''status'', JStr ''awaiting_parameters'')]))])"

definition live_usage :: "read_env \<Rightarrow> principal \<Rightarrow> string \<Rightarrow> sys \<Rightarrow> answer result" where
  "live_usage env p wire_id s =
     bind_r (read_deployment p wire_id s) (\<lambda>d.
       Inr (200, usage_data (rd_floats env) (usage_by_user (user_days (dep_id d) (instant_day (rd_now env)) s))
              (open_license (dep_id d) s), Some wire_id))"

section \<open>Live cost\<close>

text \<open>\<^verbatim>\<open>datetime.now(UTC).strftime("%Y-%m")\<close>.\<close>

definition current_month :: "int \<Rightarrow> string" where
  "current_month now =
     (case instant_date now of (y, m, _) \<Rightarrow> nat_str (nat y) @ ''-'' @ pad 2 (nat m))"

definition param_for :: "int \<Rightarrow> int \<Rightarrow> sys \<Rightarrow> int option \<times> (string \<times> json) list" where
  "param_for workspace_id start s =
     (case latest_parameter (parameters_at workspace_id start s) of
        None \<Rightarrow> (None, [])
      | Some p \<Rightarrow> (Some (par_version p), par_payload p))"

text \<open>The rows of the query, in the order of the enumerated type of meters.\<close>

definition metered :: "(rat list \<Rightarrow> rat) \<Rightarrow> meter_row list \<Rightarrow> (string \<times> rat) list" where
  "metered avg rows =
     map (\<lambda>m. (m, meter_quantity avg rows m)) (filter (\<lambda>m. m \<in> set (map mu_meter_type rows)) meters)"

definition cost_line :: "float_ops \<Rightarrow> json \<Rightarrow> string \<times> rat \<Rightarrow> json list \<times> rat \<Rightarrow> (json list \<times> rat) result" where
  "cost_line fl unit_prices usage acc =
     (case (usage, acc) of ((meter, q), (lines, ptd)) \<Rightarrow>
        let qty = fl_nearest fl q in
        bind_r (dict_get unit_prices meter) (\<lambda>price.
          case price of
            None \<Rightarrow> Inr (lines @ [JObj [(''meter'', JStr meter), (''quantity'', JReal qty), (''usd'', JNull),
                (''status'', JStr ''awaiting_parameters''), (''missing'', JStr (''unit_prices.'' @ meter))]], ptd)
          | Some j \<Rightarrow> bind_r (fl_of_json fl j) (\<lambda>x.
              let usd = fl_nearest fl (qty * x) in
              Inr (lines @ [JObj [(''meter'', JStr meter), (''quantity'', JReal qty),
                     (''usd'', JReal (fl_round fl usd 6))]], fl_nearest fl (ptd + usd)))))"

fun cost_lines :: "float_ops \<Rightarrow> json \<Rightarrow> (string \<times> rat) list \<Rightarrow> json list \<times> rat \<Rightarrow> (json list \<times> rat) result" where
  "cost_lines fl unit_prices [] acc = Inr acc"
| "cost_lines fl unit_prices (u # us) acc =
     bind_r (cost_line fl unit_prices u acc) (cost_lines fl unit_prices us)"

definition live_cost :: "read_env \<Rightarrow> principal \<Rightarrow> string \<Rightarrow> string option \<Rightarrow> sys \<Rightarrow> answer result" where
  "live_cost env p wire_id query_period s =
     (let period = (if present query_period then the query_period else current_month (rd_now env));
          fl = rd_floats env in
      bind_r (period_bounds period) (\<lambda>b.
      bind_r (read_deployment p wire_id s) (\<lambda>d.
        case param_for (p_workspace_id p) (ymd2ord (fst b)) s of (pv, payload) \<Rightarrow>
          bind_r (cost_lines fl (json_get_or payload ''unit_prices'' (JObj []))
                   (metered (rd_avg env) (usage_rows (dep_id d) b s)) ([], 0)) (\<lambda>(lines, ptd).
            Inr (200, JObj [(''period'', JStr period), (''parameter_set_version'', opt_int pv), (''meters'', JList lines),
              (''period_to_date_usd'', JReal (fl_round fl ptd 6)),
              (''projection'', JObj [(''end_of_cycle_usd'', JReal (fl_round fl ptd 6)),
                 (''basis'', JStr ''period-to-date'')])], Some wire_id)))))"

section \<open>Live health\<close>

definition rate_of :: "float_ops \<Rightarrow> int \<Rightarrow> int \<Rightarrow> json" where
  "rate_of fl part whole =
     (if whole = 0 then JNull else JReal (fl_round fl (fl_nearest fl (of_int part / of_int whole)) 4))"

definition open_alerts :: "int \<Rightarrow> sys \<Rightarrow> alert_row list" where
  "open_alerts did s = select_rows (\<lambda>a. al_deployment_id a = Some did \<and> al_status a = Alert_Open) (alerts s)"

definition live_health :: "read_env \<Rightarrow> principal \<Rightarrow> string \<Rightarrow> sys \<Rightarrow> answer result" where
  "live_health env p wire_id s =
     bind_r (read_deployment p wire_id s) (\<lambda>d.
       let rows = stats_of (dep_id d) s; total = (\<lambda>f. sum_list (map f rows)); fl = rd_floats env in
       Inr (200, JObj [(''accepted_count'', JInt (total is_accepted)),
         (''identity_resolution_rate'', rate_of fl (total is_resolved) (total is_identity_bearing)),
         (''work_item_join_rate'', rate_of fl (total is_joined) (total is_activity)),
         (''last_event_at'', opt_json instant_json (max_instant_of (map is_last_event_at rows))),
         (''drift_warnings'', JList (map (\<lambda>a. JObj [(''code'', JStr (al_code a)), (''detail'', JStr (al_detail a))])
            (open_alerts (dep_id d) s)))], Some wire_id))"

section \<open>Alerts\<close>

definition alert_item :: "read_env \<Rightarrow> sys \<Rightarrow> alert_row \<Rightarrow> json" where
  "alert_item env s a =
     JObj [(''alert_id'', JStr (al_ref a)), (''code'', JStr (al_code a)),
       (''status'', JStr (alert_status_str (al_status a))), (''detail'', JStr (al_detail a)),
       (''deployment_id'', opt_json (\<lambda>d. JStr (dep_ref d))
          (fetch_one (\<lambda>d. Some (dep_id d) = al_deployment_id a) (deployments s))),
       (''first_seen'', instant_json (rd_first_seen env (al_id a))),
       (''last_seen'', instant_json (rd_last_seen env (al_id a))),
       (''acked_at'', if al_acked_by a = None then JNull else instant_json (rd_acked_at env (al_id a)))]"

definition list_alerts :: "read_env \<Rightarrow> principal \<Rightarrow> string option \<Rightarrow> sys \<Rightarrow> answer result" where
  "list_alerts env p status s =
     bind_r (filter_of alert_statuses status) (\<lambda>st.
       Inr (listing (map (alert_item env s) (sort_key (\<lambda>a. - rd_last_seen env (al_id a))
         (select_rows (\<lambda>a. al_workspace_id a = p_workspace_id p \<and> (st = None \<or> st = Some (al_status a))) (alerts s))))))"

definition ackable :: "principal \<Rightarrow> string \<Rightarrow> alert_row \<Rightarrow> bool" where
  "ackable p ref a = (al_ref a = ref \<and> al_workspace_id a = p_workspace_id p \<and> al_status a = Alert_Open)"

definition ack_alert :: "principal \<Rightarrow> string \<Rightarrow> (sys, answer) st" where
  "ack_alert p ref =
     bind_s (transaction
       (bind_s (reads (\<lambda>s. exists_row (ackable p ref) (alerts s))) (\<lambda>found.
        bind_s (writes (\<lambda>s. s\<lparr>alerts := update_rows (ackable p ref)
            (\<lambda>a. a\<lparr>al_status := Alert_Acked, al_acked_by := Some (p_owner_user_id p)\<rparr>) (alerts s)\<rparr>)) (\<lambda>_.
          ret found)))) (\<lambda>found.
       if found then ret (answer 200 [(''alert_id'', JStr ref), (''status'', JStr ''acked'')])
       else raise (tf_raise ''TF-READ-001'' None None (Some (''open alert '' @ ref @ '' not found''))))"

section \<open>The delivery log\<close>

definition delivery_item :: "delivery_row \<Rightarrow> json" where
  "delivery_item d =
     JObj [(''delivery_id'', JStr (dl_ref d)), (''event_type'', JStr (dl_event_type d)),
       (''status'', JStr (delivery_status_str (dl_status d))), (''attempt_count'', JInt (int (dl_attempt_count d))),
       (''last_http_status'', opt_int (dl_last_http_status d)),
       (''next_retry_at'', opt_json instant_json (dl_next_retry_at d))]"

definition webhook_deliveries_log :: "read_env \<Rightarrow> principal \<Rightarrow> string \<Rightarrow> sys \<Rightarrow> answer result" where
  "webhook_deliveries_log env p webhook_id s =
     (case fetch_one (\<lambda>w. wh_ref w = webhook_id \<and> wh_workspace_id w = p_workspace_id p) (webhooks s) of
        None \<Rightarrow> Inl (tf_raise ''TF-READ-001'' None None (Some ''webhook not found''))
      | Some w \<Rightarrow> Inr (listing (map delivery_item (take 200 (sort_key (\<lambda>d. - rd_created_at env (dl_id d))
          (select_rows (\<lambda>d. dl_webhook_id d = wh_id w) (webhook_deliveries s)))))))"

end
