(* ===== verification/Footprints.thy ===== *)
theory Footprints
  imports ConfigRules EngineSafe Imports PipelineExact OpsSafe ReadPlane
begin

text \<open>
  What each component does to the state as a whole, in two kinds of contracts. The first
  says which steps of a component move the state, so that a relation these steps follow is
  followed by all its operations. The second names the tables a component writes: a view is
  any function of the state, and a component keeps every view that does not look at them,
  whatever it is given and also when it fails.
\<close>

section \<open>The steps of a component\<close>

text \<open>Requests and jobs that ingest: events one by one, the limiter, the jobs and the objects.\<close>

locale ingesting = evolution R for R :: "sys \<Rightarrow> sys \<Rightarrow> bool" +
  assumes one: "evolves R (process_one env p event i src hz)"
    and hits: "R s (window_hits_update f s)"
    and jobs: "R s (import_jobs_update g s)"
    and stored: "R s (objects_update h s)"
begin

lemma check_rate: "evolves R (check_rate ws rpm now)"
  by (simp add: evolves_def check_rate_apply hits)

lemma ingest_events: "evolves R (ingest_events env p src raw)"
  unfolding ingest_events_def process_batch_def by (auto intro!: bind basic loop one check_rate)

lemma restart: "R s (reset_hits s)"
  by (simp add: reset_hits_def hits)

lemma create_import: "evolves R (create_import p kind n src ref)"
  unfolding create_import_def Let_def by (auto intro!: bind basic in_transaction evolves_writes jobs)

lemma update_job: "evolves R (update_job i f)"
  unfolding update_job_def by (auto intro!: in_transaction evolves_writes jobs)

lemma import_lines: "evolves R (import_lines env p src hz raw)"
  unfolding import_lines_def import_line_def Let_def
  by (auto intro!: bind basic folding one split: prod.split option.split)

lemma upload: "R s (put_object bucket path data s)"
  by (simp add: put_object_def stored)

lemma run_import: "evolves R (run_import env ref)"
  unfolding run_import_def report_errors_def set_status_def finalize_def Let_def
  by (auto intro!: bind basic evolves_writes upload update_job import_lines split: option.split prod.split)

end

text \<open>The worker of the pipeline: one settled event after the other.\<close>

locale piping = evolution R for R :: "sys \<Rightarrow> sys \<Rightarrow> bool" +
  fixes numeric :: "json \<Rightarrow> rat result"
  assumes settles: "evolves R (pipeline_step numeric)"
begin

lemma pipeline_loop: "evolves R (pipeline_loop numeric n c)"
proof (induction n arbitrary: c)
  case (Suc n)
  show ?case
    unfolding pipeline_loop.simps pipeline_step_def [symmetric]
    by (auto intro!: bind settles basic Suc.IH split: option.split)
qed (simp add: basic)

lemma run_pipeline: "evolves R (run_pipeline numeric limit)"
  unfolding run_pipeline_def by (rule pipeline_loop)

end

text \<open>The engine: figures, reports, artifacts, alerts and what it emits.\<close>

locale reporting = evolution R for R :: "sys \<Rightarrow> sys \<Rightarrow> bool" +
  assumes figure: "evolves R (write_figure f)"
    and report: "evolves R (report_body ws d p)"
    and emits: "evolves R (emit env now ws etype payload)"
    and alerted: "R s (alerts_update g s)"
    and artifact: "R s (objects_update h s)"
begin

lemma compute_deployment: "evolves R (compute_deployment env ws d p)"
  unfolding compute_deployment_def compute_all_def compute_cost_def compute_seats_def compute_containment_def
    compute_time_savings_def fire_figure_webhooks_def Let_def
  by (intro bind basic in_transaction loop emits figure)
    (auto intro!: bind basic in_transaction loop figure emits split: prod.splits option.splits)

lemma issue_report: "evolves R (issue_report env ws d p)"
  unfolding issue_report_def issue_report_webhook_def
  by (auto intro!: bind basic in_transaction emits report evolves_writes artifact split: prod.splits
      simp: put_object_def)

lemma run_monitors: "evolves R (run_monitors env ws)"
  unfolding run_monitors_def raise_alert_def
  by (auto intro!: bind basic in_transaction loop emits evolves_writes alerted split: prod.splits)

lemma engine_step: "engine_step env s t \<Longrightarrow> R s t"
  by (erule engine_step.cases) (auto intro: after [OF compute_deployment] after [OF issue_report]
      after [OF run_monitors])

lemma ack_alert: "evolves R (ack_alert p ref)"
  unfolding ack_alert_def by (auto intro!: bind basic in_transaction evolves_writes alerted)

end

section \<open>Views\<close>

definition same_view :: "('s \<Rightarrow> 'a) \<Rightarrow> 's \<Rightarrow> 's \<Rightarrow> bool" where
  "same_view F s t \<longleftrightarrow> F t = F s"

interpretation view: evolution "same_view F" for F :: "'s \<Rightarrow> 'a"
  by unfold_locales (simp_all add: same_view_def)

lemmas view_rules = view.bind view.basic view.in_transaction view.loop view.folding

section \<open>Views beside ingestion and the bulk lane\<close>

locale beside_imports =
  fixes F :: "sys \<Rightarrow> 'a"
  assumes events: "F (events_update f s) = F s"
    and rejected: "F (rejected_events_update g s) = F s"
    and hits: "F (window_hits_update h s) = F s"
    and jobs: "F (import_jobs_update j s) = F s"
    and stored: "F (objects_update b s) = F s"
begin

lemma process_one: "evolves (same_view F) (process_one env p event i src hz)"
  unfolding evolves_def
proof
  fix s
  obtain s' r where "process_one env p event i src hz s = (s', r)" by fastforce
  with process_one_cases [OF this] show "same_view F s (fst (process_one env p event i src hz s))"
    by (auto simp: same_view_def add_event_def add_rejected_def events rejected)
qed

end

sublocale beside_imports < ingests: ingesting "same_view F"
  by unfold_locales (rule process_one, simp_all add: same_view_def hits jobs stored)

section \<open>Views beside the pipeline\<close>

locale beside_pipeline =
  fixes F :: "sys \<Rightarrow> 'a"
  assumes items: "F (work_items_update f s) = F s"
    and events: "F (events_update g s) = F s"
    and stats: "F (ingestion_stats_daily_update h s) = F s"
    and activity: "F (user_activity_daily_update j s) = F s"
    and usage: "F (meter_usage_daily_update k s) = F s"
begin

lemmas tables = items events stats activity usage

lemma join_work_item: "evolves (same_view F) (join_work_item e)"
  unfolding join_work_item_def Let_def
  by (auto intro!: view_rules evolves_writes simp: same_view_def tables)

lemma update_meter: "evolves (same_view F) (update_meter numeric e)"
  unfolding update_meter_def Let_def
  by (auto intro!: view_rules evolves_writes simp: same_view_def tables)

lemma update_aggregates: "evolves (same_view F) (update_aggregates numeric e uid excl wi)"
  unfolding update_aggregates_def Let_def
  by (intro view_rules) (auto intro!: view_rules evolves_writes update_meter simp: same_view_def tables
      split: option.split)

lemma process_event: "evolves (same_view F) (process_event numeric e)"
  unfolding process_event_def
  by (auto intro!: view_rules evolves_writes join_work_item update_aggregates simp: same_view_def tables
      split: prod.split)

lemma pipeline_step: "evolves (same_view F) (pipeline_step numeric)"
  unfolding pipeline_step_def by (auto intro!: view_rules process_event split: option.split)

end

sublocale beside_pipeline < pipes: piping "same_view F" numeric for numeric
  by unfold_locales (rule pipeline_step)

section \<open>Views beside the outbox and the engine\<close>

locale beside_emission =
  fixes F :: "sys \<Rightarrow> 'a"
  assumes deliveries: "F (webhook_deliveries_update f s) = F s"
begin

lemma emit: "evolves (same_view F) (emit env now ws etype payload)"
  unfolding emit_def enqueue_def
  by (auto intro!: view_rules evolves_writes simp: same_view_def deliveries)

end

locale beside_outbox = beside_emission F for F :: "sys \<Rightarrow> 'a" +
  assumes hooks: "F (webhooks_update g s) = F s"
begin

lemma attempt_delivery: "evolves (same_view F) (attempt_delivery env sender now dv)"
  unfolding attempt_delivery_def update_delivery_def suspend_webhook_def Let_def
  by (auto intro!: view_rules evolves_writes simp: same_view_def deliveries hooks)

lemma delivery_loop: "evolves (same_view F) (delivery_loop env sender now n c)"
  by (induction n arbitrary: c) (auto intro!: view_rules attempt_delivery split: option.split)

lemma deliver_once: "evolves (same_view F) (deliver_once env sender now limit)"
  unfolding deliver_once_def by (rule delivery_loop)

lemma verify_webhook: "evolves (same_view F) (verify_webhook env ref ws sender)"
  unfolding verify_webhook_def
  by (auto intro!: view_rules evolves_writes simp: same_view_def hooks Let_def split: option.splits)

lemma outbox_step: "outbox_step env s t \<Longrightarrow> same_view F s t"
  by (erule outbox_step.cases) (auto intro: view.after [OF emit] view.after [OF deliver_once]
      view.after [OF verify_webhook])

end

locale beside_engine = beside_emission F for F :: "sys \<Rightarrow> 'a" +
  assumes alerts: "F (alerts_update f s) = F s"
    and figures: "F (figures_update g s) = F s"
    and reports: "F (reports_update h s) = F s"
    and bound: "F (report_figures_update j s) = F s"
    and artifacts: "F (objects_update k s) = F s"
begin

lemma write_figure: "evolves (same_view F) (write_figure f)"
  unfolding write_figure_def Let_def append_figure_def
  by (auto intro!: view_rules evolves_writes simp: same_view_def figures)

lemma report_body: "evolves (same_view F) (report_body ws d p)"
  unfolding report_body_def
  by (auto intro!: view_rules evolves_writes simp: same_view_def add_report_def bind_figures_def reports bound)

end

sublocale beside_engine < reports: reporting "same_view F"
  by unfold_locales (rule write_figure, rule report_body, rule emit, simp_all add: same_view_def alerts artifacts)

section \<open>Views beside the configuration plane\<close>

locale beside_declarations =
  fixes F :: "sys \<Rightarrow> 'a"
  assumes licenses: "F (deployment_licenses_update f1 s) = F s"
    and licensed: "F (deployment_license_identifiers_update f2 s) = F s"
    and namespaces: "F (identifier_namespaces_update f3 s) = F s"
    and parameters: "F (parameter_sets_update f4 s) = F s"
    and labels: "F (qa_label_definitions_update f5 s) = F s"
    and hooks: "F (webhooks_update f6 s) = F s"
    and changes: "F (change_log_update f7 s) = F s"
    and mappings: "F (mapping_contracts_update f8 s) = F s"
begin

lemmas tables = licenses licensed namespaces parameters labels hooks changes mappings

lemma declare_license: "evolves (same_view F) (declare_license env p ref body)"
  unfolding declare_license_def close_license_def licensed_user_def
  by (auto intro!: view_rules evolves_writes simp: same_view_def tables Let_def)

lemma register_id_namespace: "evolves (same_view F) (register_id_namespace p body)"
  unfolding register_id_namespace_def
  by (auto intro!: view_rules evolves_writes simp: same_view_def tables)

lemma create_parameter_version: "evolves (same_view F) (create_parameter_version env p body)"
  unfolding create_parameter_version_def
  by (auto intro!: view_rules evolves_writes simp: same_view_def tables)

lemma register_label_schema: "evolves (same_view F) (register_label_schema p body)"
  unfolding register_label_schema_def
  by (auto intro!: view_rules evolves_writes simp: same_view_def tables)

lemma create_webhook: "evolves (same_view F) (create_webhook env p body)"
  unfolding create_webhook_def
  by (auto intro!: view_rules evolves_writes simp: same_view_def tables split: option.splits)

lemma delete_webhook: "evolves (same_view F) (delete_webhook p ref)"
  unfolding delete_webhook_def by (auto intro!: view_rules evolves_writes simp: same_view_def tables)

lemma declare_change_event: "evolves (same_view F) (declare_change_event env p body)"
  unfolding declare_change_event_def supersede_def link_change_def
  by (auto intro!: view_rules evolves_writes simp: same_view_def tables)

lemma create_mapping_contract: "evolves (same_view F) (create_mapping_contract p body)"
  unfolding create_mapping_contract_def
  by (auto intro!: view_rules evolves_writes simp: same_view_def tables)

lemmas declarations = declare_license register_id_namespace create_parameter_version register_label_schema
  create_webhook delete_webhook declare_change_event create_mapping_contract

end

locale beside_config = beside_declarations F for F :: "sys \<Rightarrow> 'a" +
  assumes deployments: "F (deployments_update g1 s) = F s"
    and linked: "F (deployment_service_users_update g2 s) = F s"
    and users: "F (users_update g3 s) = F s"
    and identifiers: "F (user_identifiers_update g4 s) = F s"
begin

lemma register_deployment: "evolves (same_view F) (register_deployment env p body)"
  unfolding register_deployment_def insert_deployment_def link_service_user_def
  by (auto intro!: view_rules evolves_writes simp: same_view_def deployments linked split: option.splits)

lemma update_deployment: "evolves (same_view F) (update_deployment env p ref body)"
  unfolding update_deployment_def by (auto intro!: view_rules evolves_writes simp: same_view_def deployments)

lemma upsert_roster: "evolves (same_view F) (upsert_roster env p body)"
  unfolding upsert_roster_def upsert_roster_item_def upsert_user_def claim_identifier_def
  by (auto intro!: view_rules view.catching evolves_writes simp: same_view_def users identifiers
      split: exn.splits option.splits)

lemma config_step: "config_step env p s t \<Longrightarrow> same_view F s t"
  by (induction rule: config_step.induct)
    (rule evolvesD, rule register_deployment update_deployment upsert_roster declarations, assumption)+

end

section \<open>Views beside the operators' commands\<close>

locale beside_accounts =
  fixes F :: "sys \<Rightarrow> 'a"
  assumes orgs: "F (organizations_update f1 s) = F s"
    and workspaces: "F (workspaces_update f2 s) = F s"
    and api_keys: "F (api_keys_update f3 s) = F s"
    and grants: "F (api_key_deployments_update f4 s) = F s"
begin

lemma check_db: "evolves (same_view F) (check_db b)"
  by (simp add: check_db_def view_rules)

lemma the_row: "evolves (same_view F) (the_row rd)"
  by (auto simp: the_row_def evolves_def same_view_def split: option.split)

lemma choice: "evolves (same_view F) (choice labels x)"
  by (simp add: choice_def view_rules split: option.split)

lemma account_writes:
  "evolves (same_view F) (writes (\<lambda>s. organizations_update (f1 s) s))"
  "evolves (same_view F) (writes (\<lambda>s. workspaces_update (f2 s) s))"
  "evolves (same_view F) (writes (\<lambda>s. api_keys_update (f3 s) s))"
  "evolves (same_view F) (writes (\<lambda>s. api_key_deployments_update (f4 s) s))"
  by (auto intro!: evolves_writes simp: same_view_def orgs workspaces api_keys grants)

lemma insert_grant: "evolves (same_view F) (insert_grant w k d)"
  unfolding insert_grant_def by (rule account_writes)

lemma issue_grant: "evolves (same_view F) (issue_grant w k ref)"
  unfolding issue_grant_def by (intro view_rules check_db the_row insert_grant)

lemma commands:
  "evolves (same_view F) (org_create plan ref legal_name)"
  "evolves (same_view F) (plan_set ref plan)"
  "evolves (same_view F) (workspace_create org ref name env bd rpm epm)"
  "evolves (same_view F) (key_revoke ref)"
  "evolves (same_view F) (grant_add ref dep)"
  unfolding org_create_def plan_set_def workspace_create_def key_revoke_def grant_add_def
  by (intro view_rules check_db the_row account_writes | simp add: view_rules insert_grant)+

lemma limits_set: "evolves (same_view F) (limits_set ref rpm epm bd)"
proof (cases "given_limits rpm epm bd = []")
  case False
  show ?thesis unfolding limits_set_def Let_def if_not_P [OF False]
    by (intro view_rules check_db the_row account_writes)
qed (simp add: limits_set_def view_rules)

lemma key_issue: "evolves (same_view F) (key_issue sha256 secret token ws owner mode sc roles refs)"
  unfolding key_issue_def Let_def by (intro view_rules check_db the_row issue_grant account_writes)

lemma run_ops_else: "\<forall>ws ref ty dn role. cmd \<noteq> User_Create ws ref ty dn role \<Longrightarrow>
    evolves (same_view F) (run_ops sha256 cmd)"
  by (cases cmd; simp only: run_ops.simps) (intro view_rules choice commands limits_set key_issue; blast)+

end

locale beside_commands = beside_accounts F for F :: "sys \<Rightarrow> 'a" +
  assumes users: "F (users_update f5 s) = F s"
begin

lemma user_create: "evolves (same_view F) (user_create ws ref ty dn role)"
  unfolding user_create_def
  by (intro view_rules check_db the_row evolves_writes) (simp add: same_view_def users)

lemma run_ops: "evolves (same_view F) (run_ops sha256 cmd)"
proof (cases cmd)
  case (User_Create ws ref ty dn role)
  then show ?thesis by (simp only: run_ops.simps) (intro view_rules choice user_create)
qed (rule run_ops_else, simp)+

end

end
