(* ===== verification/System.thy ===== *)
theory System
  imports Footprints
begin

text \<open>
  The whole system as one state machine: every handler, worker and command of the program is
  a step on the shared state, in any order and with any input. What each component promises
  by itself is put together to one invariant of every state the program can reach, and to
  what the history keeps.
\<close>

section \<open>The machine\<close>

text \<open>
  The state a deployment of the program begins in: the schema with the one row the migration
  writes, the platform's own user.
\<close>

definition platform_user :: "int \<Rightarrow> user_row" where
  "platform_user i =
     \<lparr>user_id = i, user_workspace_id = None, user_type_of = Service_User, user_status_of = User_Active,
      user_ref = ''system'', user_display_name = Some ''Platform System'', user_job_role = None,
      user_team = None, user_effective_from = None, user_effective_to = None\<rparr>"

definition migrated :: sys where
  "migrated = empty_sys\<lparr>users := insert_row platform_user empty_table\<rparr>"

text \<open>
  A step is one operation with whatever input, clock and environment, and whether it
  succeeds or not. Requests of several callers and the workers interleave between
  transactions, so the transaction of a single event is a step as well. The numeric reading
  of quantities is the database's, the same in every step.
\<close>

inductive system_step :: "(json \<Rightarrow> rat result) \<Rightarrow> sys \<Rightarrow> sys \<Rightarrow> bool" for numeric where
  Operating: "run_ops sha256 cmd s = (t, r1) \<Longrightarrow> system_step numeric s t"
| Configuring: "config_step cenv p s t \<Longrightarrow> system_step numeric s t"
| Ingesting: "ingest_events ienv p src raw s = (t, r2) \<Longrightarrow> system_step numeric s t"
| Ingesting_One: "process_one ienv p event i src hz s = (t, r3) \<Longrightarrow> system_step numeric s t"
| Creating_Import: "create_import p kind n isrc ref s = (t, r4) \<Longrightarrow> system_step numeric s t"
| Uploading: "system_step numeric s (put_object bucket path data s)"
| Importing: "run_import ienv ref s = (t, r5) \<Longrightarrow> system_step numeric s t"
| Processing: "run_pipeline numeric limit s = (t, r6) \<Longrightarrow> system_step numeric s t"
| Processing_One: "pipeline_step numeric s = (t, r7) \<Longrightarrow> system_step numeric s t"
| Measuring: "engine_step eenv s t \<Longrightarrow> system_step numeric s t"
| Delivering: "outbox_step wenv s t \<Longrightarrow> system_step numeric s t"
| Acknowledging: "ack_alert p ref s = (t, r8) \<Longrightarrow> system_step numeric s t"
| Restarting: "system_step numeric s (reset_hits s)"

text \<open>The contract of a relation that every component follows.\<close>

locale steady = ingesting R + piping R numeric + reporting R
  for R :: "sys \<Rightarrow> sys \<Rightarrow> bool" and numeric :: "json \<Rightarrow> rat result" +
  assumes operates: "evolves R (run_ops sha256 cmd)"
    and configures: "config_step cenv p s t \<Longrightarrow> R s t"
    and delivers: "outbox_step wenv s t \<Longrightarrow> R s t"
begin

lemma system_step: "system_step numeric s t \<Longrightarrow> R s t"
proof (induction rule: system_step.induct)
  case (Configuring cenv p s t) then show ?case by (rule configures)
next
  case (Uploading s bucket path data) then show ?case by (rule upload)
next
  case (Measuring eenv s t) then show ?case by (rule engine_step)
next
  case (Delivering wenv s t) then show ?case by (rule delivers)
next
  case (Restarting s) then show ?case by (rule restart)
qed (blast intro: after [OF operates] after [OF ingest_events] after [OF one] after [OF create_import]
      after [OF run_import] after [OF run_pipeline] after [OF settles] after [OF ack_alert])+

lemma system_steps: "(system_step numeric)\<^sup>*\<^sup>* s t \<Longrightarrow> R s t"
  by (induction rule: rtranclp_induct) (auto intro: refl trans system_step)

end

text \<open>An invariant as the relation of the steps that keep it.\<close>

definition keeps :: "('s \<Rightarrow> bool) \<Rightarrow> 's \<Rightarrow> 's \<Rightarrow> bool" where
  "keeps I s t \<longleftrightarrow> (I s \<longrightarrow> I t)"

interpretation keeping: evolution "keeps I" for I :: "'s \<Rightarrow> bool"
  by unfold_locales (auto simp: keeps_def)

text \<open>A relation that depends on a view is followed by every step that keeps the view.\<close>

locale sees =
  fixes F :: "sys \<Rightarrow> 'a" and R :: "sys \<Rightarrow> sys \<Rightarrow> bool"
  assumes of_view: "same_view F s t \<Longrightarrow> R s t"
begin

lemma frame: "evolves (same_view F) m \<Longrightarrow> evolves R m"
  by (simp add: evolves_def of_view)

lemma unseen: "(\<And>t. F (upd t) = F t) \<Longrightarrow> R s (upd s)"
  by (rule of_view) (simp add: same_view_def)

end

section \<open>Typed tables\<close>

definition typed_view :: "sys \<Rightarrow> _" where
  "typed_view s = (organizations s, workspaces s, users s, api_keys s, deployments s, api_key_deployments s)"

interpretation typed_tables: sees typed_view "keeps ops_typed"
  by unfold_locales (simp add: keeps_def ops_typed_def typed_view_def same_view_def)

interpretation typed_imports: beside_imports typed_view by unfold_locales (simp_all add: typed_view_def)
interpretation typed_pipeline: beside_pipeline typed_view by unfold_locales (simp_all add: typed_view_def)
interpretation typed_outbox: beside_outbox typed_view by unfold_locales (simp_all add: typed_view_def)
interpretation typed_engine: beside_engine typed_view by unfold_locales (simp_all add: typed_view_def)
interpretation typed_declarations: beside_declarations typed_view by unfold_locales (simp_all add: typed_view_def)

lemma deployments_of_grants:
  "grants_typed ks ds gs \<Longrightarrow>
     (\<lambda>d. (dep_id d, dep_workspace_id d)) ` set (tbl_rows ds) \<subseteq> (\<lambda>d. (dep_id d, dep_workspace_id d)) ` set (tbl_rows ds')
     \<Longrightarrow> grants_typed ks ds' gs"
proof -
  assume g: "grants_typed ks ds gs"
    and sub: "(\<lambda>d. (dep_id d, dep_workspace_id d)) ` set (tbl_rows ds) \<subseteq> (\<lambda>d. (dep_id d, dep_workspace_id d)) ` set (tbl_rows ds')"
  have "\<exists>d \<in> set (tbl_rows ds'). dep_id d = i \<and> dep_workspace_id d = w"
    if "d \<in> set (tbl_rows ds)" "dep_id d = i" "dep_workspace_id d = w" for d i w
    using sub that by (force simp: image_iff)
  with g show ?thesis unfolding grants_typed_def by blast
qed

lemma owners_of_keys:
  "keys_typed us t \<Longrightarrow>
     (\<lambda>u. (user_id u, user_workspace_id u)) ` set (tbl_rows us) \<subseteq> (\<lambda>u. (user_id u, user_workspace_id u)) ` set (tbl_rows us')
     \<Longrightarrow> keys_typed us' t"
proof -
  assume k: "keys_typed us t"
    and sub: "(\<lambda>u. (user_id u, user_workspace_id u)) ` set (tbl_rows us) \<subseteq> (\<lambda>u. (user_id u, user_workspace_id u)) ` set (tbl_rows us')"
  have "\<exists>u \<in> set (tbl_rows us'). user_id u = i \<and> user_workspace_id u = w"
    if "u \<in> set (tbl_rows us)" "user_id u = i" "user_workspace_id u = w" for u i w
    using sub that by (force simp: image_iff)
  with k show ?thesis unfolding keys_typed_def by blast
qed

lemma members_where: "members_typed t \<longleftrightarrow> unique_where (\<lambda>u. user_workspace_id u \<noteq> None) roster_key t"
  by (simp add: members_typed_def unique_where_def roster_key_def [abs_def])

lemma roster_row_simps [simp]:
  "user_workspace_id (roster_update item ty since until u) = user_workspace_id u"
  "user_id (roster_update item ty since until u) = user_id u"
  "user_ref (roster_update item ty since until u) = user_ref u"
  by (simp_all add: roster_update_def)

lemma roster_upsert_typed:
  "members_typed t \<Longrightarrow> members_typed (upsert (\<lambda>u. roster_key u = (Some (p_workspace_id p), ru_user_ref item))
      (roster_row p item ty since until) (roster_update item ty since until) t)"
  "(\<lambda>u. (user_id u, user_workspace_id u)) ` set (tbl_rows t)
     \<subseteq> (\<lambda>u. (user_id u, user_workspace_id u)) ` set (tbl_rows (upsert
          (\<lambda>u. roster_key u = (Some (p_workspace_id p), ru_user_ref item))
          (roster_row p item ty since until) (roster_update item ty since until) t))"
proof -
  let ?P = "\<lambda>u. roster_key u = (Some (p_workspace_id p), ru_user_ref item)"
  show "members_typed t \<Longrightarrow> members_typed (upsert ?P (roster_row p item ty since until) (roster_update item ty since until) t)"
    unfolding members_where upsert_def
    by (auto simp: roster_key_def roster_row_def exists_row_def intro!: unique_where_update unique_where_insert)
  show "(\<lambda>u. (user_id u, user_workspace_id u)) ` set (tbl_rows t)
     \<subseteq> (\<lambda>u. (user_id u, user_workspace_id u)) ` set (tbl_rows (upsert ?P
          (roster_row p item ty since until) (roster_update item ty since until) t))"
  proof (cases "exists_row ?P t")
    case True
    have "(\<lambda>u. (user_id u, user_workspace_id u)) `
        set (tbl_rows (update_rows ?P (roster_update item ty since until) t))
      = (\<lambda>u. (user_id u, user_workspace_id u)) ` set (tbl_rows t)" by (rule image_update) simp
    with True show ?thesis by (simp add: upsert_def)
  qed (auto simp: upsert_def table_simps)
qed

lemma config_typed: "config_step env p s t \<Longrightarrow> keeps ops_typed s t"
proof -
  have link: "evolves (keeps ops_typed) (link_service_user p did sref)" for did sref
    unfolding link_service_user_def
    by (auto intro!: keeping.bind keeping.basic evolves_writes simp: keeps_def ops_typed_def split: option.splits)
  have insert: "evolves (keeps ops_typed) (insert_deployment mk)" for mk
    unfolding insert_deployment_def
    by (auto intro!: keeping.bind keeping.basic evolves_writes simp: keeps_def ops_typed_def table_simps
        elim!: deployments_of_grants)
  have register: "evolves (keeps ops_typed) (register_deployment env p body)" for body
    unfolding register_deployment_def
    by (intro keeping.in_transaction keeping.bind keeping.basic insert keeping.loop link)
  have update: "evolves (keeps ops_typed) (update_deployment env p ref body)" for ref body
    unfolding update_deployment_def
    by (auto intro!: keeping.in_transaction keeping.bind keeping.basic evolves_writes
        simp: keeps_def ops_typed_def image_update elim!: deployments_of_grants)
  have person: "evolves (keeps ops_typed) (upsert_user env p item)" for item
    unfolding upsert_user_def
    by (auto intro!: keeping.bind keeping.basic evolves_writes roster_upsert_typed owners_of_keys [OF _ roster_upsert_typed(2)]
        simp: keeps_def ops_typed_def)
  have claim: "evolves (keeps ops_typed) (claim_identifier p uid ident)" for uid ident
    unfolding claim_identifier_def
    by (auto intro!: keeping.bind keeping.basic evolves_writes simp: keeps_def ops_typed_def split: option.splits)
  have roster: "evolves (keeps ops_typed) (upsert_roster env p items)" for items
    unfolding upsert_roster_def upsert_roster_item_def
    by (auto intro!: keeping.bind keeping.loop keeping.catching keeping.in_transaction keeping.basic
        person claim split: exn.splits)
  show "config_step env p s t \<Longrightarrow> keeps ops_typed s t"
    by (induction rule: config_step.induct)
      (rule keeping.after, rule register update roster
        typed_declarations.declarations [THEN typed_tables.frame], assumption)+
qed

interpretation typed: steady "keeps ops_typed" numeric for numeric
proof
  show "keeps ops_typed s (window_hits_update f s)" "keeps ops_typed s (import_jobs_update g s)"
    "keeps ops_typed s (objects_update h s)" "keeps ops_typed s (alerts_update a s)" for s f g h a
    by (simp_all add: keeps_def ops_typed_def)
  show "evolves (keeps ops_typed) (run_ops sha256 cmd)" for sha256 cmd
    by (simp add: evolves_def keeps_def run_ops_typed)
qed (rule typed_imports.process_one [THEN typed_tables.frame]
      typed_pipeline.pipeline_step [THEN typed_tables.frame]
      typed_engine.write_figure [THEN typed_tables.frame]
      typed_engine.report_body [THEN typed_tables.frame]
      typed_outbox.emit [THEN typed_tables.frame]
      config_typed typed_outbox.outbox_step [THEN typed_tables.of_view], assumption?)+

section \<open>The rules of the configuration\<close>

definition rules_view :: "sys \<Rightarrow> _" where
  "rules_view s = (deployments s, users s, user_identifiers s, deployment_licenses s, identifier_namespaces s,
     parameter_sets s, webhooks s, mapping_contracts s)"

interpretation rule_tables: sees rules_view keeps_rules
  by unfold_locales (simp add: keeps_rules_def config_ok_def rules_view_def same_view_def)

interpretation rules_imports: beside_imports rules_view by unfold_locales (simp_all add: rules_view_def)
interpretation rules_pipeline: beside_pipeline rules_view by unfold_locales (simp_all add: rules_view_def)
interpretation rules_engine: beside_engine rules_view by unfold_locales (simp_all add: rules_view_def)
interpretation rules_accounts: beside_accounts rules_view by unfold_locales (simp_all add: rules_view_def)

lemma user_create_rules: "evolves keeps_rules (user_create ws ref ty dn role)"
proof -
  have add: "keeps_rules s (s\<lparr>users := insert_row mk (users s)\<rparr>)"
    if "member_named w ref s = None" "\<And>i. roster_key (mk i) = (Some w, ref)" for s w mk
    using that unfolding member_named_def fetch_one_None
    by (auto simp: keeps_rules_def config_ok_def exists_row_def roster_key_def intro!: unique_where_insert)
  show ?thesis
    unfolding user_create_def
    by (rule rules.in_transaction, rule rules.bind, rule rules_accounts.the_row [THEN rule_tables.frame])
      (auto simp: evolves_def check_db_def rules.refl roster_key_def intro!: add)
qed

lemma run_ops_rules: "evolves keeps_rules (run_ops sha256 cmd)"
proof (cases cmd)
  case (User_Create ws ref ty dn role)
  then show ?thesis
    by (simp only: run_ops.simps)
      (intro rules.bind user_create_rules rules_accounts.choice [THEN rule_tables.frame])
qed (rule rule_tables.frame, rule rules_accounts.run_ops_else, simp)+

lemma hook_status_rules: "keeps_rules s (s\<lparr>webhooks := update_rows P (\<lambda>w. w\<lparr>wh_status := st\<rparr>) (webhooks s)\<rparr>)"
  by (auto simp: keeps_rules_def config_ok_def intro!: unique_where_update)

lemma outbox_rules: "outbox_step env s t \<Longrightarrow> keeps_rules s t"
proof -
  have attempt: "evolves keeps_rules (attempt_delivery env sender now dv)" for sender now dv
    unfolding attempt_delivery_def update_delivery_def suspend_webhook_def Let_def
    by (auto intro!: rules.bind rules.basic evolves_writes hook_status_rules rule_tables.unseen simp: rules_view_def)
  have loop: "evolves keeps_rules (delivery_loop env sender now n c)" for sender now n c
    by (induction n arbitrary: c) (auto intro!: rules.bind rules.basic rules.in_transaction attempt split: option.split)
  have verify: "evolves keeps_rules (verify_webhook env ref ws sender)" for ref ws sender
    unfolding verify_webhook_def
    by (auto intro!: rules.bind rules.basic rules.in_transaction evolves_writes hook_status_rules
        simp: Let_def split: option.splits)
  show "outbox_step env s t \<Longrightarrow> keeps_rules s t"
    by (erule outbox_step.cases) (auto intro: rules.after [OF rule_tables.frame [OF rules_engine.emit]]
        rules.after [OF loop] rules.after [OF verify] simp: deliver_once_def)
qed

interpretation ruled: steady keeps_rules numeric for numeric
proof
  show "keeps_rules s (window_hits_update f s)" "keeps_rules s (import_jobs_update g s)"
    "keeps_rules s (objects_update h s)" "keeps_rules s (alerts_update a s)" for s f g h a
    by (simp_all add: keeps_rules_def config_ok_def)
qed (rule rules_imports.process_one [THEN rule_tables.frame] rules_pipeline.pipeline_step [THEN rule_tables.frame]
      rules_engine.write_figure [THEN rule_tables.frame] rules_engine.report_body [THEN rule_tables.frame]
      rules_engine.emit [THEN rule_tables.frame] run_ops_rules config_step_rules outbox_rules, assumption?)+

end
