(* ===== verification/SystemData.thy ===== *)
theory SystemData
  imports System
begin

text \<open>
  What the components promise of the data plane, kept by every step of the whole system:
  event keys, aggregates, documents, the delivery log, identities, and that whatever belongs
  to a workspace refers to rows of that workspace only.
\<close>

section \<open>Event keys and aggregates\<close>

interpretation key_table: sees events keeps_keys_unique
  by unfold_locales (simp add: keeps_keys_unique_def same_view_def)

interpretation events_outbox: beside_outbox events by unfold_locales simp_all
interpretation events_engine: beside_engine events by unfold_locales simp_all
interpretation events_config: beside_config events by unfold_locales simp_all
interpretation events_commands: beside_commands events by unfold_locales simp_all

lemma settle_keeps_key: "event_id (settle e uid excl wi) = event_id e"
  by (simp add: event_id_def settle_def)

lemma unique_pipeline_step: "evolves keeps_keys_unique (pipeline_step numeric)"
  unfolding evolves_def
proof
  fix s
  obtain s' r where p: "pipeline_step numeric s = (s', r)" by fastforce
  from pipeline_step_cases [OF p] show "keeps_keys_unique s (fst (pipeline_step numeric s))"
  proof (elim disjE conjE exE)
    fix e out assume "process_event numeric e s = (s', Inr out)"
    with process_event_Inr [OF this] p show ?thesis
      by (auto simp: keeps_keys_unique_def settle_in_def unique_key_update settle_keeps_key)
  qed (use p in \<open>simp_all add: unique_keys.refl\<close>)
qed

interpretation keyed: steady keeps_keys_unique numeric for numeric
proof
  show "keeps_keys_unique s (window_hits_update f s)" "keeps_keys_unique s (import_jobs_update g s)"
    "keeps_keys_unique s (objects_update h s)" "keeps_keys_unique s (alerts_update a s)" for s f g h a
    by (simp_all add: keeps_keys_unique_def)
qed (rule unique_process_one unique_pipeline_step events_engine.write_figure [THEN key_table.frame]
      events_engine.report_body [THEN key_table.frame] events_outbox.emit [THEN key_table.frame]
      events_commands.run_ops [THEN key_table.frame] events_config.config_step [THEN key_table.of_view]
      events_outbox.outbox_step [THEN key_table.of_view], assumption?)+

definition exact_view :: "sys \<Rightarrow> _" where
  "exact_view s = (events s, ingestion_stats_daily s, user_activity_daily s, meter_usage_daily s)"

interpretation exact_tables: sees exact_view "keeps_exact numeric" for numeric
  by unfold_locales (simp add: keeps_exact_def aggregates_exact_def stats_exact_def exact_view_def same_view_def)

interpretation exact_outbox: beside_outbox exact_view by unfold_locales (simp_all add: exact_view_def)
interpretation exact_engine: beside_engine exact_view by unfold_locales (simp_all add: exact_view_def)
interpretation exact_config: beside_config exact_view by unfold_locales (simp_all add: exact_view_def)
interpretation exact_commands: beside_commands exact_view by unfold_locales (simp_all add: exact_view_def)

text \<open>A stored event is not settled yet, so it contributes to no figure.\<close>

lemma exact_add_event:
  assumes "ev_status row = Accepted" "ev_id row = tbl_seq (events s)"
  shows "keeps_exact numeric s (add_event row s)"
proof -
  have c: "contributed c (events (add_event row s)) k = contributed c (events s) k" if "share c k row = 0"
    for c :: "event_row \<Rightarrow> ('k \<times> 'n::comm_monoid_add) option" and k
    using that by (simp add: contributed_def add_event_def table_simps)
  note none = unsettled_shares [OF assms(1)]
  have "aggregates_exact numeric s \<Longrightarrow> aggregates_exact numeric (add_event row s)"
    unfolding aggregates_exact_def stats_exact_def c [OF none(1)] c [OF none(2)] c [OF none(3)]
    by (simp add: add_event_def)
  moreover have "wf_table ev_id (events s) \<Longrightarrow> wf_table ev_id (events (add_event row s))"
    unfolding add_event_def using assms(2) by (auto intro!: wf_insert_row)
  ultimately show ?thesis by (simp add: keeps_exact_def)
qed

lemma exact_process_one: "evolves (keeps_exact numeric) (process_one env p event i src hz)"
  unfolding evolves_def
proof
  fix s
  obtain s' r where p: "process_one env p event i src hz s = (s', r)" by fastforce
  have "keeps_exact numeric s (add_event row s)" if "accepted_row env p ev src hz s row" for ev row
    using that by (intro exact_add_event) (auto simp: accepted_row_def event_row_of_def)
  moreover have "keeps_exact numeric s (add_rejected rej s)" for rej
    by (rule exact_tables.of_view) (simp add: same_view_def exact_view_def add_rejected_def)
  ultimately show "keeps_exact numeric s (fst (process_one env p event i src hz s))"
    using process_one_cases [OF p] p exactness.refl by auto
qed

interpretation exact: steady "keeps_exact numeric" numeric for numeric
proof
  show "keeps_exact numeric s (window_hits_update f s)" "keeps_exact numeric s (import_jobs_update g s)"
    "keeps_exact numeric s (objects_update h s)" "keeps_exact numeric s (alerts_update a s)" for s f g h a
    by (rule exact_tables.of_view, simp add: same_view_def exact_view_def)+
qed (rule exact_process_one keeps_exact_step exact_engine.write_figure [THEN exact_tables.frame]
      exact_engine.report_body [THEN exact_tables.frame] exact_outbox.emit [THEN exact_tables.frame]
      exact_commands.run_ops [THEN exact_tables.frame] exact_config.config_step [THEN exact_tables.of_view]
      exact_outbox.outbox_step [THEN exact_tables.of_view], assumption?)+

section \<open>Documents and deliveries\<close>

definition docs_view :: "sys \<Rightarrow> _" where
  "docs_view s = (figures s, reports s, report_figures s)"

interpretation doc_tables: sees docs_view docs_grow
  by unfold_locales (simp add: docs_view_def same_view_def docs_same)

interpretation docs_imports: beside_imports docs_view by unfold_locales (simp_all add: docs_view_def)
interpretation docs_pipeline: beside_pipeline docs_view by unfold_locales (simp_all add: docs_view_def)
interpretation docs_outbox: beside_outbox docs_view by unfold_locales (simp_all add: docs_view_def)
interpretation docs_config: beside_config docs_view by unfold_locales (simp_all add: docs_view_def)
interpretation docs_commands: beside_commands docs_view by unfold_locales (simp_all add: docs_view_def)

interpretation documented: steady docs_grow numeric for numeric
proof
  show "docs_grow s (window_hits_update f s)" "docs_grow s (import_jobs_update g s)"
    "docs_grow s (objects_update h s)" "docs_grow s (alerts_update a s)" for s f g h a
    by (rule docs_same; simp)+
qed (rule docs_imports.process_one [THEN doc_tables.frame] docs_pipeline.pipeline_step [THEN doc_tables.frame]
      write_figure_grows report_body_grows docs_outbox.emit [THEN doc_tables.frame]
      docs_commands.run_ops [THEN doc_tables.frame] docs_config.config_step [THEN doc_tables.of_view]
      docs_outbox.outbox_step [THEN doc_tables.of_view], assumption?)+

interpretation log_table: sees webhook_deliveries follows_log
  by unfold_locales (simp add: same_view_def log_same_deliveries)

interpretation log_imports: beside_imports webhook_deliveries by unfold_locales simp_all
interpretation log_pipeline: beside_pipeline webhook_deliveries by unfold_locales simp_all
interpretation log_config: beside_config webhook_deliveries by unfold_locales simp_all
interpretation log_commands: beside_commands webhook_deliveries by unfold_locales simp_all

interpretation logged: steady follows_log numeric for numeric
proof
  show "follows_log s (window_hits_update f s)" "follows_log s (import_jobs_update g s)"
    "follows_log s (objects_update h s)" "follows_log s (alerts_update a s)" for s f g h a
    by (rule log_same_deliveries; simp)+
  show "evolves follows_log (write_figure f)" for f
    unfolding write_figure_def Let_def append_figure_def
    by (auto intro!: log.bind log.basic evolves_writes log_same_deliveries)
  show "evolves follows_log (report_body ws d p)" for ws d p
    unfolding report_body_def add_report_def bind_figures_def
    by (auto intro!: log.bind log.basic evolves_writes log_same_deliveries)
  show "outbox_step env s t \<Longrightarrow> follows_log s t" for env s t
    using outbox_follows [of env s t] by blast
qed (rule log_imports.process_one [THEN log_table.frame] log_pipeline.pipeline_step [THEN log_table.frame]
      emit_follows log_commands.run_ops [THEN log_table.frame] log_config.config_step [THEN log_table.of_view],
      assumption?)+

section \<open>Identities\<close>

definition ids_view :: "sys \<Rightarrow> _" where
  "ids_view s = (deployments s, change_log s, deployment_licenses s)"

interpretation id_tables: sees ids_view "keeps ids_ok"
  by unfold_locales (simp add: keeps_def ids_ok_def ids_view_def same_view_def)

interpretation ids_imports: beside_imports ids_view by unfold_locales (simp_all add: ids_view_def)
interpretation ids_pipeline: beside_pipeline ids_view by unfold_locales (simp_all add: ids_view_def)
interpretation ids_outbox: beside_outbox ids_view by unfold_locales (simp_all add: ids_view_def)
interpretation ids_engine: beside_engine ids_view by unfold_locales (simp_all add: ids_view_def)
interpretation ids_commands: beside_commands ids_view by unfold_locales (simp_all add: ids_view_def)

interpretation identified: steady "keeps ids_ok" numeric for numeric
proof
  show "keeps ids_ok s (window_hits_update f s)" "keeps ids_ok s (import_jobs_update g s)"
    "keeps ids_ok s (objects_update h s)" "keeps ids_ok s (alerts_update a s)" for s f g h a
    by (simp_all add: keeps_def ids_ok_def)
  show "config_step env p s t \<Longrightarrow> keeps ids_ok s t" for env p s t
    using config_step_kept [of env p s t] by (auto simp: keeps_def kept_def)
qed (rule ids_imports.process_one [THEN id_tables.frame] ids_pipeline.pipeline_step [THEN id_tables.frame]
      ids_engine.write_figure [THEN id_tables.frame] ids_engine.report_body [THEN id_tables.frame]
      ids_outbox.emit [THEN id_tables.frame] ids_commands.run_ops [THEN id_tables.frame]
      ids_outbox.outbox_step [THEN id_tables.of_view], assumption?)+

text \<open>The identities of the accounts.\<close>

definition accounts_ok :: "sys \<Rightarrow> bool" where
  "accounts_ok s \<longleftrightarrow> wf_table org_id (organizations s) \<and> wf_table ws_id (workspaces s) \<and> wf_table key_id (api_keys s)"

definition accounts_view :: "sys \<Rightarrow> _" where
  "accounts_view s = (organizations s, workspaces s, api_keys s)"

interpretation account_tables: sees accounts_view "keeps accounts_ok"
  by unfold_locales (simp add: keeps_def accounts_ok_def accounts_view_def same_view_def)

interpretation accounts_imports: beside_imports accounts_view by unfold_locales (simp_all add: accounts_view_def)
interpretation accounts_pipeline: beside_pipeline accounts_view by unfold_locales (simp_all add: accounts_view_def)
interpretation accounts_outbox: beside_outbox accounts_view by unfold_locales (simp_all add: accounts_view_def)
interpretation accounts_engine: beside_engine accounts_view by unfold_locales (simp_all add: accounts_view_def)
interpretation accounts_config: beside_config accounts_view by unfold_locales (simp_all add: accounts_view_def)

lemma accounts_written:
  "(\<And>i. org_id (mk1 i) = i) \<Longrightarrow> keeps accounts_ok s (s\<lparr>organizations := insert_row mk1 (organizations s)\<rparr>)"
  "(\<And>r. org_id (f1 r) = org_id r) \<Longrightarrow> keeps accounts_ok s (s\<lparr>organizations := update_rows P1 f1 (organizations s)\<rparr>)"
  "(\<And>i. ws_id (mk2 i) = i) \<Longrightarrow> keeps accounts_ok s (s\<lparr>workspaces := insert_row mk2 (workspaces s)\<rparr>)"
  "(\<And>r. ws_id (f2 r) = ws_id r) \<Longrightarrow> keeps accounts_ok s (s\<lparr>workspaces := update_rows P2 f2 (workspaces s)\<rparr>)"
  "(\<And>i. key_id (mk3 i) = i) \<Longrightarrow> keeps accounts_ok s (s\<lparr>api_keys := insert_row mk3 (api_keys s)\<rparr>)"
  "(\<And>r. key_id (f3 r) = key_id r) \<Longrightarrow> keeps accounts_ok s (s\<lparr>api_keys := update_rows P3 f3 (api_keys s)\<rparr>)"
  by (auto simp: keeps_def accounts_ok_def intro!: wf_insert_row wf_update_rows)

lemma accounts_steps:
  "evolves (keeps accounts_ok) (check_db b)" "evolves (keeps accounts_ok) (the_row rd)"
  "evolves (keeps accounts_ok) (choice labels x)"
  "evolves (keeps accounts_ok) (writes (\<lambda>s. users_update (g s) s))"
  "evolves (keeps accounts_ok) (insert_grant w k d)"
  by (auto simp: check_db_def the_row_def choice_def insert_grant_def keeps_def accounts_ok_def evolves_def
      split: option.split)

lemmas account_rules = keeping.in_transaction keeping.bind keeping.basic keeping.loop accounts_steps

lemma accounts_issue_grant: "evolves (keeps accounts_ok) (issue_grant w k ref)"
  unfolding issue_grant_def by (intro account_rules)

lemma accounts_org_create: "evolves (keeps accounts_ok) (org_create plan ref legal_name)"
  unfolding org_create_def Let_def by (intro account_rules evolves_writes accounts_written) simp_all

lemma accounts_plan_set: "evolves (keeps accounts_ok) (plan_set ref plan)"
  unfolding plan_set_def Let_def by (intro account_rules evolves_writes accounts_written) simp_all

lemma accounts_workspace_create: "evolves (keeps accounts_ok) (workspace_create org ref name env bd rpm epm)"
  unfolding workspace_create_def Let_def by (intro account_rules evolves_writes accounts_written) simp_all

lemma accounts_user_create: "evolves (keeps accounts_ok) (user_create ws ref ty dn role)"
  unfolding user_create_def Let_def by (intro account_rules)

lemma accounts_key_revoke: "evolves (keeps accounts_ok) (key_revoke ref)"
  unfolding key_revoke_def Let_def by (intro account_rules evolves_writes accounts_written) simp_all

lemma accounts_issued: "evolves (keeps accounts_ok) (writes (\<lambda>s. s\<lparr>api_keys :=
    insert_row (issued_key sha256 secret token mode sc roles w u) (api_keys s)\<rparr>))"
  by (rule evolves_writes, rule accounts_written(5)) (simp add: issued_key_def)

lemma accounts_key_issue: "evolves (keeps accounts_ok) (key_issue sha256 secret token ws owner mode sc roles refs)"
  unfolding key_issue_def Let_def by (intro account_rules accounts_issue_grant accounts_issued)

lemma accounts_grant_add: "evolves (keeps accounts_ok) (grant_add ref dep)"
  unfolding grant_add_def by (auto intro!: account_rules)

lemma accounts_limits_set: "evolves (keeps accounts_ok) (limits_set ref rpm epm bd)"
proof (cases "given_limits rpm epm bd = []")
  case False
  show ?thesis unfolding limits_set_def Let_def if_not_P [OF False]
    by (intro account_rules evolves_writes accounts_written) (simp add: set_limits_def)
qed (simp add: limits_set_def keeping.basic)

lemma accounts_run_ops: "evolves (keeps accounts_ok) (run_ops sha256 cmd)"
  by (cases cmd; simp only: run_ops.simps)
    (intro account_rules accounts_org_create accounts_plan_set accounts_workspace_create
      accounts_user_create accounts_key_revoke accounts_key_issue accounts_grant_add accounts_limits_set)+

interpretation accounted: steady "keeps accounts_ok" numeric for numeric
proof
  show "keeps accounts_ok s (window_hits_update f s)" "keeps accounts_ok s (import_jobs_update g s)"
    "keeps accounts_ok s (objects_update h s)" "keeps accounts_ok s (alerts_update a s)" for s f g h a
    by (simp_all add: keeps_def accounts_ok_def)
qed (rule accounts_imports.process_one [THEN account_tables.frame] accounts_pipeline.pipeline_step [THEN account_tables.frame]
      accounts_engine.write_figure [THEN account_tables.frame] accounts_engine.report_body [THEN account_tables.frame]
      accounts_outbox.emit [THEN account_tables.frame] accounts_run_ops
      accounts_config.config_step [THEN account_tables.of_view]
      accounts_outbox.outbox_step [THEN account_tables.of_view], assumption?)+

end
