(* ===== verification/Tenancy.thy ===== *)
theory Tenancy
  imports SystemData
begin

text \<open>
  Tenancy of the stored rows as an invariant of the whole system: events and figures lie on
  deployments of their workspace, identifiers and resolved events name people of their
  workspace. And what the history of the events keeps.
\<close>

section \<open>Tenancy\<close>

definition dep_pair :: "deployment_row \<Rightarrow> int \<times> int" where
  "dep_pair d = (dep_id d, dep_workspace_id d)"

definition user_pair :: "user_row \<Rightarrow> int \<times> int option" where
  "user_pair u = (user_id u, user_workspace_id u)"

definition has_deployment :: "deployment_row table \<Rightarrow> int \<Rightarrow> int \<Rightarrow> bool" where
  "has_deployment ds d w \<longleftrightarrow> (d, w) \<in> dep_pair ` set (tbl_rows ds)"

definition has_member :: "user_row table \<Rightarrow> int \<Rightarrow> int \<Rightarrow> bool" where
  "has_member us u w \<longleftrightarrow> (u, Some w) \<in> user_pair ` set (tbl_rows us)"

definition event_tenanted :: "deployment_row table \<Rightarrow> user_row table \<Rightarrow> event_row \<Rightarrow> bool" where
  "event_tenanted ds us e \<longleftrightarrow> has_deployment ds (ev_deployment_id e) (ev_workspace_id e)
     \<and> (case ev_resolved_user_id e of None \<Rightarrow> True | Some u \<Rightarrow> has_member us u (ev_workspace_id e))"

definition tenancy_ok :: "sys \<Rightarrow> bool" where
  "tenancy_ok s \<longleftrightarrow> wf_table user_id (users s) \<and> wf_table ev_id (events s)
     \<and> (\<forall>r \<in> set (tbl_rows (user_identifiers s)). has_member (users s) (ident_user_id r) (ident_workspace_id r))
     \<and> (\<forall>e \<in> set (tbl_rows (events s)). event_tenanted (deployments s) (users s) e)
     \<and> (\<forall>f \<in> set (tbl_rows (figures s)). has_deployment (deployments s) (fig_deployment_id f) (fig_workspace_id f))"

lemma tenancy_identifiers: "tenancy_ok s \<Longrightarrow> identifiers_in_tenant s"
  by (force simp: tenancy_ok_def identifiers_in_tenant_def has_member_def user_pair_def)

definition tenant_view :: "sys \<Rightarrow> _" where
  "tenant_view s = (events s, deployments s, users s, user_identifiers s, figures s)"

interpretation tenant_tables: sees tenant_view "keeps tenancy_ok"
  by unfold_locales (simp add: keeps_def tenancy_ok_def tenant_view_def same_view_def)

interpretation tenant_outbox: beside_outbox tenant_view by unfold_locales (simp_all add: tenant_view_def)
interpretation tenant_declarations: beside_declarations tenant_view by unfold_locales (simp_all add: tenant_view_def)
interpretation tenant_accounts: beside_accounts tenant_view by unfold_locales (simp_all add: tenant_view_def)

text \<open>More deployments and more people leave every reference in place.\<close>

lemma tenancy_grows:
  assumes "tenancy_ok s" "events t = events s" "user_identifiers t = user_identifiers s" "figures t = figures s"
    and "wf_table user_id (users t)"
    and "dep_pair ` set (tbl_rows (deployments s)) \<subseteq> dep_pair ` set (tbl_rows (deployments t))"
    and "user_pair ` set (tbl_rows (users s)) \<subseteq> user_pair ` set (tbl_rows (users t))"
  shows "tenancy_ok t"
proof -
  have "has_deployment (deployments t) d w" if "has_deployment (deployments s) d w" for d w using assms(6) that by (auto simp: has_deployment_def)
  moreover have "has_member (users t) u w" if "has_member (users s) u w" for u w using assms(7) that by (auto simp: has_member_def)
  ultimately show ?thesis
    using assms(1-5) by (auto simp: tenancy_ok_def event_tenanted_def split: option.splits)
qed

subsection \<open>Ingestion, the pipeline and the engine\<close>

lemma tenancy_add_event:
  assumes "tenant_ok p (deployments s) row" "ev_id row = tbl_seq (events s)" "ev_resolved_user_id row = None"
  shows "keeps tenancy_ok s (add_event row s)"
proof -
  have "event_tenanted (deployments s) (users s) row"
    using assms(1,3) by (force simp: tenant_ok_def event_tenanted_def has_deployment_def dep_pair_def)
  moreover have "wf_table ev_id (events s) \<Longrightarrow> wf_table ev_id (insert_row (\<lambda>_. row) (events s))"
    using assms(2) by (auto intro!: wf_insert_row)
  ultimately show ?thesis
    by (auto simp: keeps_def tenancy_ok_def add_event_def table_simps)
qed

lemma tenancy_process_one: "evolves (keeps tenancy_ok) (process_one env p event i src hz)"
  unfolding evolves_def
proof
  fix s
  obtain s' r where p: "process_one env p event i src hz s = (s', r)" by fastforce
  have "keeps tenancy_ok s (add_event row s)" if "accepted_row env p ev src hz s row" for ev row
    by (rule tenancy_add_event [OF accepted_row_tenant [OF that]])
      (use that in \<open>auto simp: accepted_row_def event_row_of_def\<close>)
  moreover have "keeps tenancy_ok s (add_rejected rej s)" for rej
    by (rule tenant_tables.of_view) (simp add: same_view_def tenant_view_def add_rejected_def)
  ultimately show "keeps tenancy_ok s (fst (process_one env p event i src hz s))"
    using process_one_cases [OF p] p keeping.refl by auto
qed

text \<open>The tables an event's transaction reads are left alone by it.\<close>

definition settling_view :: "sys \<Rightarrow> _" where
  "settling_view s = (deployments s, users s, user_identifiers s, figures s)"

interpretation settling: beside_pipeline settling_view by unfold_locales (simp_all add: settling_view_def)

lemma process_event_resolves:
  assumes "process_event numeric e s = (s', Inr out)"
  shows "\<exists>uid excl wi. resolve_identity e s = Inr (uid, excl) \<and> events s' = settle_in e uid excl wi (events s)"
proof -
  obtain uid excl s1 wi where r: "resolve_identity e s = Inr (uid, excl)" and j: "join_work_item e s = (s1, Inr wi)"
    and a: "\<exists>u. update_aggregates numeric e uid excl wi (s1\<lparr>events := settle_in e uid excl wi (events s1)\<rparr>) = (s', Inr u)"
    using assms by (auto simp: process_event_def bind_s_Inr_iff settle_in_def)
  have "events s1 = events s"
    using items.after [OF join_work_item_frame j] by (auto simp: items_only_def)
  with r a show ?thesis by (auto dest!: update_aggregates_Inr)
qed

lemma settle_member:
  assumes "tenancy_ok s" "e \<in> set (tbl_rows (events s))" "resolve_identity e s = Inr (Some i, excl)"
  shows "has_member (users s) i (ev_workspace_id e)"
proof -
  obtain field v j u where f: "find_user s e field v = Some j" and u: "fetch_one (\<lambda>u. user_id u = j) (users s) = Some u"
    and c: "attribution e u = (Some i, excl)"
    using assms(3) by (auto simp: resolve_identity_def Let_def bind_r_Inr_iff split: if_splits option.splits)
  have "j = i" using fetch_one_Some [OF u] c by (auto simp: attribution_def split: if_splits)
  with find_user_in_tenant [OF tenancy_identifiers [OF assms(1)] f] show ?thesis
    by (force simp: has_member_def user_pair_def)
qed

lemma tenancy_settle:
  assumes "tenancy_ok s" "e \<in> set (tbl_rows (events s))" "process_event numeric e s = (s', Inr out)"
  shows "tenancy_ok s'"
proof -
  obtain uid excl wi where r: "resolve_identity e s = Inr (uid, excl)"
    and ev: "events s' = settle_in e uid excl wi (events s)"
    using process_event_resolves [OF assms(3)] by blast
  have v: "settling_view s' = settling_view s"
    using settling.process_event assms(3) by (metis evolvesD same_view_def)
  have wf: "wf_table ev_id (events s)" using assms(1) by (simp add: tenancy_ok_def)
  have "event_tenanted (deployments s) (users s) (settle x uid excl wi)"
    if x: "x \<in> set (tbl_rows (events s))" "ev_id x = ev_id e" for x
  proof -
    have "x = e" by (rule wf_table_unique [OF wf x(1) assms(2) x(2)])
    moreover have "event_tenanted (deployments s) (users s) e" using assms(1,2) by (simp add: tenancy_ok_def)
    ultimately show ?thesis
      using settle_member [OF assms(1,2), of _ excl] r
      by (auto simp: event_tenanted_def settle_def split: option.splits)
  qed
  then have "event_tenanted (deployments s) (users s) x" if "x \<in> set (tbl_rows (events s'))" for x
    using that assms(1) unfolding ev settle_in_def by (auto simp: table_simps tenancy_ok_def)
  moreover have "wf_table ev_id (events s')"
    unfolding ev settle_in_def by (rule wf_update_rows [OF wf]) simp
  ultimately show ?thesis
    using v assms(1)
    by (simp add: tenancy_ok_def settling_view_def)
qed

lemma tenancy_pipeline_step: "evolves (keeps tenancy_ok) (pipeline_step numeric)"
  unfolding evolves_def
proof
  fix s
  obtain s' r where p: "pipeline_step numeric s = (s', r)" by fastforce
  from pipeline_step_cases [OF p] p show "keeps tenancy_ok s (fst (pipeline_step numeric s))"
    by (auto simp: keeps_def dest!: next_event_Some intro: tenancy_settle)
qed

lemma tenancy_write_figure: "evolves (keeps tenancy_ok) (write_figure f)"
proof -
  have "keeps tenancy_ok s (append_figure g s)" if "figure_insertable g s" for g s
  proof -
    have "has_deployment (deployments s) (fig_deployment_id g) (fig_workspace_id g)"
      using that by (force simp: figure_insertable_def exists_row_def has_deployment_def dep_pair_def)
    then show ?thesis
      by (auto simp: keeps_def tenancy_ok_def append_figure_def append_version_def table_simps stamp_figure_def)
  qed
  then show ?thesis
    unfolding write_figure_def evolves_def
    by (auto simp: Let_def bind_s_lift keeping.refl split: sum.split)
qed

subsection \<open>The configuration plane and the operators\<close>

lemma tenancy_insert_deployment: "evolves (keeps tenancy_ok) (insert_deployment mk)"
proof -
  have "tenancy_ok s \<Longrightarrow> tenancy_ok (s\<lparr>deployments := insert_row mk (deployments s)\<rparr>)" for s
    by (rule tenancy_grows [of s]) (auto simp: table_simps tenancy_ok_def)
  then have "keeps tenancy_ok s (s\<lparr>deployments := insert_row mk (deployments s)\<rparr>)" for s by (simp add: keeps_def)
  then show ?thesis
    unfolding insert_deployment_def by (auto intro!: keeping.bind keeping.basic evolves_writes)
qed

lemma tenancy_update_deployment: "evolves (keeps tenancy_ok) (update_deployment env p ref body)"
proof -
  have "tenancy_ok s \<Longrightarrow> tenancy_ok (s\<lparr>deployments := update_rows P f (deployments s)\<rparr>)"
    if "\<And>d. dep_pair (f d) = dep_pair d" for s P f
    by (rule tenancy_grows [of s]) (auto simp: tenancy_ok_def image_update [of dep_pair f, OF that])
  then have "keeps tenancy_ok s (s\<lparr>deployments := update_rows P f (deployments s)\<rparr>)"
    if "\<And>d. dep_pair (f d) = dep_pair d" for s P f
    using that by (simp add: keeps_def)
  then show ?thesis
    unfolding update_deployment_def
    by (auto intro!: keeping.bind keeping.basic keeping.in_transaction evolves_writes simp: dep_pair_def)
qed

lemma tenancy_link: "evolves (keeps tenancy_ok) (link_service_user p did sref)"
  unfolding link_service_user_def
  by (auto intro!: keeping.bind keeping.basic evolves_writes tenant_tables.unseen simp: tenant_view_def
      split: option.splits)

lemma tenancy_register_deployment: "evolves (keeps tenancy_ok) (register_deployment env p body)"
  unfolding register_deployment_def
  by (intro keeping.in_transaction keeping.bind keeping.basic tenancy_insert_deployment keeping.loop tenancy_link)

text \<open>A roster upsert answers with the identity of a person of the caller's workspace.\<close>

lemma tenancy_upsert_user:
  assumes "upsert_user env p item s = (t, Inr uid)" "tenancy_ok s"
  shows "tenancy_ok t \<and> has_member (users t) uid (p_workspace_id p)"
proof -
  let ?k = "(Some (p_workspace_id p), ru_user_ref item)"
  from assms(1) obtain ty since until where
    t: "t = s\<lparr>users := upsert (\<lambda>u. roster_key u = ?k) (roster_row p item ty since until)
          (roster_update item ty since until) (users s)\<rparr>"
    and uid: "uid = user_id (the (lookup_key roster_key (users t) ?k))"
    by (auto simp: upsert_user_def bind_s_Inr_iff split: if_splits)
  have "wf_table user_id (users t)"
    using assms(2) unfolding t tenancy_ok_def
    by (auto simp: upsert_def roster_row_def intro!: wf_insert_row wf_update_rows)
  then have "tenancy_ok t"
    using roster_upsert_typed(2) [of "users s" p item ty since until]
    by (intro tenancy_grows [OF assms(2)]) (auto simp: t user_pair_def [abs_def])
  moreover obtain u where "lookup_key roster_key (users t) ?k = Some u"
    by (cases "lookup_key roster_key (users t) ?k") (auto simp: t roster.lookup)
  then have "has_member (users t) uid (p_workspace_id p)"
    by (force simp: uid lookup_key_def has_member_def user_pair_def roster_key_def dest: fetch_one_Some)
  ultimately show ?thesis ..
qed

lemma tenancy_claim_identifier:
  "evolves (keeps (\<lambda>s. tenancy_ok s \<and> has_member (users s) uid (p_workspace_id p))) (claim_identifier p uid ident)"
proof -
  have "keeps (\<lambda>s. tenancy_ok s \<and> has_member (users s) uid (p_workspace_id p)) s
      (s\<lparr>user_identifiers := insert_row mk (user_identifiers s)\<rparr>)"
    if "\<And>i. ident_user_id (mk i) = uid \<and> ident_workspace_id (mk i) = p_workspace_id p" for s mk
    using that by (auto simp: keeps_def tenancy_ok_def table_simps)
  then show ?thesis
    unfolding claim_identifier_def
    by (auto intro!: keeping.bind keeping.basic evolves_writes split: option.split)
qed

lemma tenancy_upsert_roster: "evolves (keeps tenancy_ok) (upsert_roster env p items)"
proof -
  have "evolves (keeps tenancy_ok) (transaction (bind_s (upsert_user env p item)
      (\<lambda>uid. for_each (claim_identifier p uid) (ru_identifiers item))))" (is "evolves _ (transaction ?m)") for item
    unfolding evolves_def
  proof
    fix s
    show "keeps tenancy_ok s (fst (transaction ?m s))"
    proof (cases "transaction ?m s")
      case (Pair t r)
      have "tenancy_ok t" if s: "tenancy_ok s"
      proof (cases r)
        case (Inr ys)
        with Pair obtain u uid where u: "upsert_user env p item s = (u, Inr uid)"
          and c: "for_each (claim_identifier p uid) (ru_identifiers item) u = (t, Inr ys)"
          by (auto simp: transaction_Inr_iff bind_s_Inr_iff)
        from keeping.after [OF keeping.loop c, OF tenancy_claim_identifier] tenancy_upsert_user [OF u s]
        show ?thesis by (simp add: keeps_def)
      qed (use Pair s in \<open>simp add: transaction_Inl_iff\<close>)
      with Pair show ?thesis by (simp add: keeps_def)
    qed
  qed
  then show ?thesis
    unfolding upsert_roster_def upsert_roster_item_def
    by (auto intro!: keeping.bind keeping.loop keeping.catching keeping.basic split: exn.splits)
qed

lemma tenancy_config_step: "config_step env p s t \<Longrightarrow> keeps tenancy_ok s t"
  by (induction rule: config_step.induct)
    (rule keeping.after, rule tenancy_register_deployment tenancy_update_deployment tenancy_upsert_roster
       tenant_declarations.declarations [THEN tenant_tables.frame], assumption)+

lemma tenancy_run_ops: "evolves (keeps tenancy_ok) (run_ops sha256 cmd)"
proof (cases cmd)
  case (User_Create ws ref ty dn role)
  have "tenancy_ok s \<Longrightarrow> tenancy_ok (s\<lparr>users := insert_row mk (users s)\<rparr>)" if "\<And>i. user_id (mk i) = i" for s mk
    by (rule tenancy_grows [of s]) (use that in \<open>auto simp: table_simps tenancy_ok_def intro!: wf_insert_row\<close>)
  then have add: "keeps tenancy_ok s (s\<lparr>users := insert_row mk (users s)\<rparr>)" if "\<And>i. user_id (mk i) = i" for s mk
    using that by (simp add: keeps_def)
  have "evolves (keeps tenancy_ok) (user_create ws ref t dn role)" for t
    unfolding user_create_def
    by (auto intro!: keeping.in_transaction keeping.bind keeping.basic evolves_writes add
        tenant_accounts.the_row [THEN tenant_tables.frame] tenant_accounts.check_db [THEN tenant_tables.frame])
  with User_Create show ?thesis
    by (simp only: run_ops.simps) (intro keeping.bind tenant_accounts.choice [THEN tenant_tables.frame])
qed (rule tenant_tables.frame, rule tenant_accounts.run_ops_else, simp)+

interpretation tenanted: steady "keeps tenancy_ok" numeric for numeric
proof
  show "keeps tenancy_ok s (window_hits_update f s)" "keeps tenancy_ok s (import_jobs_update g s)"
    "keeps tenancy_ok s (objects_update h s)" "keeps tenancy_ok s (alerts_update a s)" for s f g h a
    by (rule tenant_tables.unseen, simp add: tenant_view_def)+
  show "evolves (keeps tenancy_ok) (report_body ws d p)" for ws d p
    unfolding report_body_def add_report_def bind_figures_def
    by (auto intro!: keeping.bind keeping.basic evolves_writes tenant_tables.unseen simp: tenant_view_def)
qed (rule tenancy_process_one tenancy_pipeline_step tenancy_write_figure tenant_outbox.emit [THEN tenant_tables.frame]
      tenancy_run_ops tenancy_config_step tenant_outbox.outbox_step [THEN tenant_tables.of_view], assumption?)+

section \<open>Nobody leaves\<close>

text \<open>Deployments and people are added and updated, but keep their identity and workspace.\<close>

definition tenants_grow :: "sys \<Rightarrow> sys \<Rightarrow> bool" where
  "tenants_grow s t \<longleftrightarrow> dep_pair ` set (tbl_rows (deployments s)) \<subseteq> dep_pair ` set (tbl_rows (deployments t))
     \<and> user_pair ` set (tbl_rows (users s)) \<subseteq> user_pair ` set (tbl_rows (users t))"

interpretation growth: evolution tenants_grow
proof
  show "tenants_grow s s" for s by (simp add: tenants_grow_def)
  show "tenants_grow s u" if "tenants_grow s t" "tenants_grow t u" for s t u
    using that unfolding tenants_grow_def by (meson subset_trans)
qed

definition grow_view :: "sys \<Rightarrow> _" where
  "grow_view s = (deployments s, users s)"

interpretation grow_tables: sees grow_view tenants_grow
  by unfold_locales (simp add: tenants_grow_def grow_view_def same_view_def)

interpretation grow_imports: beside_imports grow_view by unfold_locales (simp_all add: grow_view_def)
interpretation grow_pipeline: beside_pipeline grow_view by unfold_locales (simp_all add: grow_view_def)
interpretation grow_outbox: beside_outbox grow_view by unfold_locales (simp_all add: grow_view_def)
interpretation grow_engine: beside_engine grow_view by unfold_locales (simp_all add: grow_view_def)
interpretation grow_declarations: beside_declarations grow_view by unfold_locales (simp_all add: grow_view_def)
interpretation grow_accounts: beside_accounts grow_view by unfold_locales (simp_all add: grow_view_def)

lemma grow_config_step: "config_step env p s t \<Longrightarrow> tenants_grow s t"
proof -
  have link: "evolves tenants_grow (link_service_user p did sref)" for did sref
    unfolding link_service_user_def
    by (auto intro!: growth.bind growth.basic evolves_writes grow_tables.unseen simp: grow_view_def split: option.splits)
  have register: "evolves tenants_grow (register_deployment env p body)" for body
    unfolding register_deployment_def insert_deployment_def
    by (intro growth.in_transaction growth.bind growth.basic growth.loop link)
      (auto intro!: growth.bind growth.basic evolves_writes simp: tenants_grow_def table_simps)
  have "dep_pair (d\<lparr>dep_name := n, dep_planned_rollout := r\<rparr>) = dep_pair d" for d n r by (simp add: dep_pair_def)
  then have update: "evolves tenants_grow (update_deployment env p ref body)" for ref body
    unfolding update_deployment_def
    by (auto intro!: growth.in_transaction growth.bind growth.basic evolves_writes simp: tenants_grow_def image_update)
  have person: "evolves tenants_grow (upsert_user env p item)" for item
    unfolding upsert_user_def
    using roster_upsert_typed(2) [of _ p item]
    by (auto intro!: growth.bind growth.basic evolves_writes simp: tenants_grow_def user_pair_def [abs_def])
  have claim: "evolves tenants_grow (claim_identifier p uid ident)" for uid ident
    unfolding claim_identifier_def
    by (auto intro!: growth.bind growth.basic evolves_writes grow_tables.unseen simp: grow_view_def split: option.splits)
  have roster: "evolves tenants_grow (upsert_roster env p items)" for items
    unfolding upsert_roster_def upsert_roster_item_def
    by (auto intro!: growth.bind growth.loop growth.catching growth.in_transaction growth.basic
        person claim split: exn.splits)
  show "config_step env p s t \<Longrightarrow> tenants_grow s t"
    by (induction rule: config_step.induct)
      (rule growth.after, rule register update roster grow_declarations.declarations [THEN grow_tables.frame],
        assumption)+
qed

lemma grow_run_ops: "evolves tenants_grow (run_ops sha256 cmd)"
proof (cases cmd)
  case (User_Create ws ref ty dn role)
  have "evolves tenants_grow (user_create ws ref t dn role)" for t
    unfolding user_create_def
    by (auto intro!: growth.in_transaction growth.bind growth.basic evolves_writes
        grow_accounts.the_row [THEN grow_tables.frame] grow_accounts.check_db [THEN grow_tables.frame]
        simp: tenants_grow_def table_simps)
  with User_Create show ?thesis
    by (simp only: run_ops.simps) (intro growth.bind grow_accounts.choice [THEN grow_tables.frame])
qed (rule grow_tables.frame, rule grow_accounts.run_ops_else, simp)+

interpretation growing: steady tenants_grow numeric for numeric
proof
  show "tenants_grow s (window_hits_update f s)" "tenants_grow s (import_jobs_update g s)"
    "tenants_grow s (objects_update h s)" "tenants_grow s (alerts_update a s)" for s f g h a
    by (simp_all add: tenants_grow_def)
qed (rule grow_imports.process_one [THEN grow_tables.frame] grow_pipeline.pipeline_step [THEN grow_tables.frame]
      grow_engine.write_figure [THEN grow_tables.frame] grow_engine.report_body [THEN grow_tables.frame]
      grow_outbox.emit [THEN grow_tables.frame] grow_run_ops grow_config_step
      grow_outbox.outbox_step [THEN grow_tables.of_view], assumption?)+

end
