(* ===== verification/SystemSafe.thy ===== *)
theory SystemSafe
  imports Tenancy
begin

text \<open>
  The promises of the whole system: an invariant of every state it can reach from the
  migrated database, what that says about a key that authenticates there, and what its
  history never rewrites.
\<close>

section \<open>The history of the events\<close>

text \<open>
  A row of the events is left as it is, except that an accepted one is settled once; new rows
  come after the old ones.
\<close>

definition event_moves :: "event_row \<Rightarrow> event_row \<Rightarrow> bool" where
  "event_moves e e' \<longleftrightarrow> e' = e \<or> (ev_status e = Accepted
     \<and> e' = settle e (ev_resolved_user_id e') (ev_exclusion e') (ev_work_item_id e'))"

definition events_kept :: "sys \<Rightarrow> sys \<Rightarrow> bool" where
  "events_kept s t \<longleftrightarrow> (wf_table ev_id (events s) \<longrightarrow> wf_table ev_id (events t)
     \<and> (\<exists>old new. tbl_rows (events t) = old @ new \<and> list_all2 event_moves (tbl_rows (events s)) old))"

lemma settled_stays: "event_moves e e' \<Longrightarrow> settled e \<Longrightarrow> e' = e"
  by (simp add: event_moves_def settled_def)

lemma event_moves_trans: "event_moves e f \<Longrightarrow> event_moves f g \<Longrightarrow> event_moves e g"
  using settle_simps(1) [of e "ev_resolved_user_id f" "ev_exclusion f" "ev_work_item_id f"]
  by (auto simp: event_moves_def settled_def)

lemma moves_refl: "list_all2 event_moves es es"
  by (rule list.rel_refl) (simp add: event_moves_def)

interpretation history: evolution events_kept
proof
  show "events_kept s s" for s
    unfolding events_kept_def by (intro impI conjI exI [of _ "tbl_rows (events s)"] exI [of _ "[]"]) (simp_all add: moves_refl)
  show "events_kept s u" if "events_kept s t" "events_kept t u" for s t u
    unfolding events_kept_def
  proof (intro impI)
    assume "wf_table ev_id (events s)"
    with that obtain old new old' new' where u: "wf_table ev_id (events u)"
      and t: "tbl_rows (events t) = old @ new" "list_all2 event_moves (tbl_rows (events s)) old"
      and o: "tbl_rows (events u) = old' @ new'" "list_all2 event_moves (old @ new) old'"
      unfolding events_kept_def by auto
    from o(2) obtain a b where ab: "old' = a @ b" "list_all2 event_moves old a"
      by (auto simp: list_all2_append1)
    with t(2) have "list_all2 event_moves (tbl_rows (events s)) a"
      by (blast intro: list_all2_trans [of event_moves event_moves event_moves] event_moves_trans)
    with u o(1) ab(1) show "wf_table ev_id (events u) \<and> (\<exists>old new. tbl_rows (events u) = old @ new
        \<and> list_all2 event_moves (tbl_rows (events s)) old)"
      by auto
  qed
qed

interpretation event_table: sees events events_kept
proof
  show "events_kept s t" if "same_view events s t" for s t
    using history.refl [of s] that by (simp only: events_kept_def same_view_def)
qed

lemma history_add_event:
  assumes "ev_id row = tbl_seq (events s)"
  shows "events_kept s (add_event row s)"
  unfolding events_kept_def
proof (intro impI conjI exI)
  show "wf_table ev_id (events s) \<Longrightarrow> wf_table ev_id (events (add_event row s))"
    using assms by (auto simp: add_event_def intro!: wf_insert_row)
  show "tbl_rows (events (add_event row s)) = tbl_rows (events s) @ [row]"
    by (simp add: add_event_def table_simps)
qed (rule moves_refl)

lemma history_process_one: "evolves events_kept (process_one env p event i src hz)"
  unfolding evolves_def
proof
  fix s
  obtain s' r where p: "process_one env p event i src hz s = (s', r)" by fastforce
  have "events_kept s (add_event row s)" if "accepted_row env p ev src hz s row" for ev row
    using that by (intro history_add_event) (auto simp: accepted_row_def event_row_of_def)
  moreover have "events_kept s (add_rejected rej s)" for rej
    by (rule event_table.of_view) (simp add: same_view_def add_rejected_def)
  ultimately show "events_kept s (fst (process_one env p event i src hz s))"
    using process_one_cases [OF p] p history.refl by auto
qed

lemma history_settle:
  assumes "next_event s = Some e" "process_event numeric e s = (s', Inr out)"
  shows "events_kept s s'"
  unfolding events_kept_def
proof (intro impI conjI)
  assume wf: "wf_table ev_id (events s)"
  note e = next_event_Some [OF assms(1)]
  obtain uid excl wi where ev: "events s' = settle_in e uid excl wi (events s)"
    using process_event_resolves [OF assms(2)] by blast
  show "wf_table ev_id (events s')" unfolding ev settle_in_def by (rule wf_update_rows [OF wf]) simp
  have "event_moves r (if ev_id r = ev_id e \<and> ev_occurred_at r = ev_occurred_at e then settle r uid excl wi else r)"
    if "r \<in> set (tbl_rows (events s))" for r
    using wf_table_unique [OF wf that] e by (auto simp: event_moves_def settle_def)
  then have "list_all2 event_moves (tbl_rows (events s)) (tbl_rows (events s'))"
    unfolding ev settle_in_def table_simps by (simp add: list_all2_conv_all_nth)
  then show "\<exists>old new. tbl_rows (events s') = old @ new \<and> list_all2 event_moves (tbl_rows (events s)) old"
    by (intro exI [of _ "tbl_rows (events s')"] exI [of _ "[]"]) simp
qed

lemma history_pipeline_step: "evolves events_kept (pipeline_step numeric)"
  unfolding evolves_def
proof
  fix s
  obtain s' r where p: "pipeline_step numeric s = (s', r)" by fastforce
  from pipeline_step_cases [OF p] p show "events_kept s (fst (pipeline_step numeric s))"
    by (auto intro: history.refl history_settle)
qed

interpretation historic: steady events_kept numeric for numeric
proof
  show "events_kept s (window_hits_update f s)" "events_kept s (import_jobs_update g s)"
    "events_kept s (objects_update h s)" "events_kept s (alerts_update a s)" for s f g h a
    by (rule event_table.unseen, simp)+
qed (rule history_process_one history_pipeline_step events_engine.write_figure [THEN event_table.frame]
      events_engine.report_body [THEN event_table.frame] events_outbox.emit [THEN event_table.frame]
      events_commands.run_ops [THEN event_table.frame] events_config.config_step [THEN event_table.of_view]
      events_outbox.outbox_step [THEN event_table.of_view], assumption?)+

section \<open>The invariant\<close>

definition system_ok :: "(json \<Rightarrow> rat result) \<Rightarrow> sys \<Rightarrow> bool" where
  "system_ok numeric s \<longleftrightarrow> ops_typed s \<and> accounts_ok s \<and> config_ok s \<and> ids_ok s \<and> tenancy_ok s
     \<and> unique_key event_id (events s) \<and> aggregates_exact numeric s \<and> versions_ok s
     \<and> wf_log s \<and> (\<forall>d \<in> set (tbl_rows (webhook_deliveries s)). delivery_ok d)"

lemma migrated_ok:
  "ops_typed migrated" "accounts_ok migrated" "config_ok migrated" "ids_ok migrated" "tenancy_ok migrated"
  "unique_key event_id (events migrated)" "aggregates_exact numeric migrated" "versions_ok migrated" "wf_log migrated"
  by (simp_all add: migrated_def empty_sys_def typed_defs config_ok_def deployments_ok_def identifiers_ok_def
      licenses_ok_def parameters_ok_def unique_where_def wf_versions_def versions_of_def select_rows_def
      first_versions_def accounts_ok_def ids_ok_def tenancy_ok_def versions_ok_def wf_log_def wf_table_def platform_user_def
      exact_initially)

lemma deliveries_ok:
  assumes "follows_log s t" "wf_log s" "webhook_deliveries s = empty_table"
  shows "\<forall>d \<in> set (tbl_rows (webhook_deliveries t)). delivery_ok d"
proof
  fix d
  assume d: "d \<in> set (tbl_rows (webhook_deliveries t))"
  have "log_grows s t" using assms(1,2) by (simp add: follows_log_def)
  with d assms(3) obtain r where "fresh_delivery r" "delivery_step\<^sup>*\<^sup>* r d"
    by (auto simp: log_grows_def table_simps)
  then show "delivery_ok d" using steps_ok fresh_ok by blast
qed

lemma reachable_ok:
  assumes "(system_step numeric)\<^sup>*\<^sup>* migrated s"
  shows "system_ok numeric s"
proof -
  note ok = migrated_ok
  have "wf_table ev_id (events migrated)" using ok(5) by (simp add: tenancy_ok_def)
  moreover have "webhook_deliveries migrated = empty_table" by (simp add: migrated_def empty_sys_def)
  ultimately show ?thesis
    using typed.system_steps [OF assms] accounted.system_steps [OF assms] ruled.system_steps [OF assms] identified.system_steps [OF assms]
      tenanted.system_steps [OF assms] keyed.system_steps [OF assms] exact.system_steps [OF assms]
      documented.system_steps [OF assms] logged.system_steps [OF assms]
      deliveries_ok [OF logged.system_steps [OF assms]] ok
    by (simp add: system_ok_def keeps_def keeps_rules_def keeps_keys_unique_def keeps_exact_def docs_grow_def
        follows_log_def)
qed

text \<open>
  C1: The contracts of the components hold together. In every state the system reaches from
  the migrated database, by whatever commands, requests, imports, worker runs and deliveries,
  in any order, successful or not: the operators' tables are well typed and identified; the rules of the
  configuration hold; every event and figure lies on a deployment of its workspace, every
  identifier and every resolved event names a person of its workspace; no two events of a
  workspace share a key; the aggregates are the sums of the settled events; figures and
  reports are versioned densely; and every delivery is in a state of its life cycle.
\<close>

theorem system_invariant:
  assumes "(system_step numeric)\<^sup>*\<^sup>* migrated s"
  shows "system_ok numeric s"
  using assms by (rule reachable_ok)

section \<open>The history\<close>

lemma list_all2_same: "list_all2 P xs ys \<Longrightarrow> x \<in> set xs \<Longrightarrow> (\<And>y. P x y \<Longrightarrow> y = x) \<Longrightarrow> x \<in> set ys"
  by (metis in_set_conv_nth list_all2_lengthD list_all2_nthD)

lemma events_history:
  assumes "system_ok numeric s" "(system_step numeric)\<^sup>*\<^sup>* s t"
  shows "\<exists>old new. tbl_rows (events t) = old @ new \<and> list_all2 event_moves (tbl_rows (events s)) old"
  using historic.system_steps [OF assms(2)] assms(1)
  by (simp add: events_kept_def system_ok_def tenancy_ok_def)

lemma finished_deliveries_stay:
  assumes "log_grows s t" "d \<in> set (tbl_rows (webhook_deliveries s))" "dl_status d \<noteq> Retrying"
  shows "d \<in> set (tbl_rows (webhook_deliveries t))"
proof -
  from assms(1,2) obtain f new where f: "tbl_rows (webhook_deliveries t) = map f (tbl_rows (webhook_deliveries s)) @ new"
    "delivery_step\<^sup>*\<^sup>* d (f d)" by (auto simp: log_grows_def)
  from settled_steps [OF f(2) assms(3)] f(1) assms(2) show ?thesis
    by (metis UnI1 image_eqI list.set_map set_append)
qed

text \<open>
  C2: Nothing written is rewritten. From any reachable state on, whatever the system does,
  the rows of the events keep their order and content, a row changes only when the pipeline
  settles it, which it does once, and a settled event stays as it is; no figure, report or
  binding is changed or removed; and a delivery that was delivered or dropped is never
  touched again.
\<close>

theorem system_history:
  assumes "(system_step numeric)\<^sup>*\<^sup>* migrated s" and "(system_step numeric)\<^sup>*\<^sup>* s t"
  shows "(\<exists>old new. tbl_rows (events t) = old @ new \<and> list_all2 event_moves (tbl_rows (events s)) old)
     \<and> (\<forall>e \<in> set (tbl_rows (events s)). settled e \<longrightarrow> e \<in> set (tbl_rows (events t)))
     \<and> (\<exists>fs. tbl_rows (figures t) = tbl_rows (figures s) @ fs)
     \<and> (\<exists>rs. tbl_rows (reports t) = tbl_rows (reports s) @ rs)
     \<and> (\<exists>bs. report_figures t = report_figures s @ bs)
     \<and> (\<forall>d \<in> set (tbl_rows (webhook_deliveries s)). dl_status d \<noteq> Retrying \<longrightarrow>
          d \<in> set (tbl_rows (webhook_deliveries t)))"
proof -
  have ok: "system_ok numeric s" by (rule reachable_ok [OF assms(1)])
  obtain old new where e: "tbl_rows (events t) = old @ new" "list_all2 event_moves (tbl_rows (events s)) old"
    using events_history [OF ok assms(2)] by blast
  have "e \<in> set (tbl_rows (events t))" if "e \<in> set (tbl_rows (events s))" "settled e" for e
    using list_all2_same [OF e(2) that(1)] settled_stays that(2) e(1) by auto
  moreover have "log_grows s t"
    using logged.system_steps [OF assms(2)] ok by (simp add: follows_log_def system_ok_def)
  ultimately show ?thesis
    using e documented.system_steps [OF assms(2)] finished_deliveries_stay by (auto simp: docs_grow_def)
qed

section \<open>An accepted event is stored for good\<close>

lemma moves_keep_key: "event_moves e e' \<Longrightarrow> event_id e' = event_id e"
  using settle_keeps_key by (metis event_moves_def)

text \<open>
  C3: An answer is a promise. When a request made in a reachable state is answered, each of
  its events that the answer calls accepted or duplicate is stored from then on: in every
  state the system ever reaches afterwards exactly one event of the caller's workspace has
  the key the answer names. Requests of test keys, which store nothing, are left out.
\<close>

theorem accepted_event_durable:
  assumes "(system_step numeric)\<^sup>*\<^sup>* migrated s"
    and "ingest_events env p src raw s = (t, Inr rs)" and "\<not> is_test p"
    and "x \<in> set rs" and "item_key x = Some k"
    and "(system_step numeric)\<^sup>*\<^sup>* t u"
  shows "\<exists>!e. e \<in> set (tbl_rows (events u)) \<and> ev_workspace_id e = p_workspace_id p \<and> ev_key e = k"
proof -
  have t: "(system_step numeric)\<^sup>*\<^sup>* migrated t"
    using assms(1) system_step.Ingesting [OF assms(2)] by (rule rtranclp.rtrancl_into_rtrancl)
  then have u: "(system_step numeric)\<^sup>*\<^sup>* migrated u" using assms(6) by (rule rtranclp_trans)
  obtain e where e: "e \<in> set (tbl_rows (events t))" "event_id e = (p_workspace_id p, k)"
    using ingest_keys [OF assms(2-5)] by (auto simp: key_exists_def exists_row_def event_id_def)
  obtain old new where rows: "tbl_rows (events u) = old @ new" "list_all2 event_moves (tbl_rows (events t)) old"
    using events_history [OF reachable_ok [OF t] assms(6)] by blast
  from rows(2) e(1) obtain e' where "e' \<in> set old" "event_moves e e'"
    by (metis in_set_conv_nth list_all2_lengthD list_all2_nthD)
  then have e': "e' \<in> set (tbl_rows (events u))" "event_id e' = (p_workspace_id p, k)"
    using rows(1) e(2) moves_keep_key by auto
  have "unique_key event_id (events u)" using reachable_ok [OF u] by (simp add: system_ok_def)
  then have same: "f = e'" if "f \<in> set (tbl_rows (events u))" "event_id f = (p_workspace_id p, k)" for f
    using that e' unfolding unique_key_def distinct_map by (metis inj_onD)
  show ?thesis
  proof (rule ex1I [of _ e'])
    show "e' \<in> set (tbl_rows (events u)) \<and> ev_workspace_id e' = p_workspace_id p \<and> ev_key e' = k"
      using e' by (simp add: event_id_def)
  qed (use same in \<open>simp add: event_id_def\<close>)
qed

section \<open>Who authenticates\<close>

text \<open>
  C4: A key opens its own workspace only. In every reachable state, whatever key
  authenticates in whatever environment, the owner of its principal is a member of the
  principal's workspace and every deployment it was granted is one of that workspace; and
  both still hold of the principal in every later state.
\<close>

theorem authenticated_in_workspace:
  assumes "(system_step numeric)\<^sup>*\<^sup>* migrated s"
    and "resolve_key sha256 environment s presented = Inr p"
    and "(system_step numeric)\<^sup>*\<^sup>* s t"
  shows "has_member (users t) (p_owner_user_id p) (p_workspace_id p)
     \<and> (\<forall>d \<in> p_granted p. has_deployment (deployments t) d (p_workspace_id p))"
proof -
  have ok: "system_ok numeric s" by (rule reachable_ok [OF assms(1)])
  obtain k where k: "k \<in> set (tbl_rows (api_keys s))" "p = principal_of s k"
    using assms(2) by (auto simp: resolve_key_def split: option.splits if_splits dest: fetch_one_Some)
  have "has_member (users s) (p_owner_user_id p) (p_workspace_id p)"
    using ok k by (force simp: system_ok_def ops_typed_def keys_typed_def principal_of_def has_member_def user_pair_def)
  moreover have "has_deployment (deployments s) d (p_workspace_id p)" if d: "d \<in> p_granted p" for d
  proof -
    obtain g where g: "g \<in> set (api_key_deployments s)" "grant_api_key_id g = key_id k" "grant_deployment_id g = d"
      using d unfolding k(2) by (auto simp: principal_of_def granted_deployments_def split: if_splits)
    then obtain k' dp where k': "k' \<in> set (tbl_rows (api_keys s))" "key_id k' = key_id k"
      "key_workspace_id k' = grant_workspace_id g" and dp: "dp \<in> set (tbl_rows (deployments s))"
      "dep_id dp = d" "dep_workspace_id dp = grant_workspace_id g"
      using ok by (fastforce simp: system_ok_def ops_typed_def grants_typed_def)
    have "k' = k" using wf_table_unique [OF _ k'(1) k(1) k'(2)] ok by (simp add: system_ok_def accounts_ok_def)
    with k' k(2) dp show ?thesis by (force simp: principal_of_def has_deployment_def dep_pair_def)
  qed
  ultimately show ?thesis
    using growing.system_steps [OF assms(3)] by (auto simp: tenants_grow_def has_member_def has_deployment_def)
qed

end
