(* ===== verification/PipelineProgress.thy ===== *)
theory PipelineProgress
  imports SystemSafe
begin

text \<open>
  How far the pipeline gets (\<^verbatim>\<open>domain/policies/pipeline.py\<close>): a run settles what its
  limit and the backlog allow unless an event raises, what it settles stays settled whatever
  the system does next, and one event that always raises holds up all events after it.
\<close>

section \<open>Events that cannot raise\<close>

definition textual :: "json \<Rightarrow> bool" where
  "textual j \<longleftrightarrow> j = JNull \<or> is_str j"

text \<open>
  Identifiers are text, a size is one of the column's, and a meter is a gauge with a quantity
  the column holds: nothing such an event does can be refused.
\<close>

definition plain_event :: "(json \<Rightarrow> rat result) \<Rightarrow> event_row \<Rightarrow> bool" where
  "plain_event numeric e \<longleftrightarrow>
     (let field = (\<lambda>k. json_get_or (ev_payload e) k JNull) in
      textual (field (if ev_type e = Activity then ''user_ref'' else ''assignee_ref''))
    \<and> textual (field ''work_item_id'')
    \<and> (ev_type e = Lifecycle \<longrightarrow> textual (field ''category'') \<and> field ''size_band'' \<in> insert JNull (JStr ` set SIZES))
    \<and> (ev_type e = Cost_Meter \<longrightarrow>
         (\<exists>m. meter_name (ev_payload e) = Inr m \<and> m \<in> set GAUGE_METERS) \<and> is_ok (meter_ref_of (ev_payload e))
       \<and> is_ok (bind_r (numeric (json_get_or (ev_payload e) ''quantity'' (JInt 0))) store_numeric)))"

lemma textual_param: "textual j \<Longrightarrow> \<exists>t. text_param j = Inr t"
  by (cases j) (auto simp: textual_def text_param_def)

lemma plain_identity:
  assumes "tenancy_ok s" "plain_event numeric e"
  shows "\<exists>r. resolve_identity e s = Inr r"
proof -
  let ?field = "if ev_type e = Activity then ''user_ref'' else ''assignee_ref''"
  obtain t where t: "text_param (json_get_or (ev_payload e) ?field JNull) = Inr t"
    using assms(2) textual_param unfolding plain_event_def Let_def by blast
  have "\<exists>u. fetch_one (\<lambda>u. user_id u = i) (users s) = Some u" if "find_user s e ?field v = Some i" for v i
    using find_user_in_tenant [OF tenancy_identifiers [OF assms(1)] that]
    by (cases "fetch_one (\<lambda>u. user_id u = i) (users s)") (auto simp: fetch_one_None)
  then have "\<exists>r. (case find_user s e ?field v of None \<Rightarrow> Inr (None, None)
      | Some i \<Rightarrow> (case fetch_one (\<lambda>u. user_id u = i) (users s) of None \<Rightarrow> Inl AssertionError
          | Some u \<Rightarrow> Inr (attribution e u))) = Inr r" for v
    by (cases "find_user s e ?field v") fastforce+
  then show ?thesis unfolding resolve_identity_def Let_def t bind_r_simps by (simp only: simp_thms split: if_split) blast
qed

lemma plain_item:
  assumes "plain_event numeric e"
  shows "\<exists>t r. join_work_item e s = (t, Inr r)"
proof -
  have "textual (json_get_or (ev_payload e) ''work_item_id'' JNull)"
    "ev_type e = Lifecycle \<Longrightarrow> textual (json_get_or (ev_payload e) ''category'' JNull)"
    using assms unfolding plain_event_def Let_def by blast+
  moreover have "\<exists>t. text_param (json_get_or (ev_payload e) ''size_band'' JNull) = Inr t \<and> (\<forall>x. t = Some x \<longrightarrow> x \<in> set SIZES)"
    if "ev_type e = Lifecycle"
    using assms that by (auto simp: plain_event_def Let_def text_param_def)
  moreover have "text_param JNull = Inr None" by (simp add: text_param_def)
  ultimately show ?thesis
    by (cases "ev_type e = Lifecycle")
      (fastforce simp: join_work_item_def Let_def bind_s_apply dest!: textual_param split: option.split)+
qed

lemma plain_settles:
  assumes "tenancy_ok s" "plain_event numeric e"
  shows "\<exists>t out. process_event numeric e s = (t, Inr out)"
proof -
  obtain uid excl where r: "resolve_identity e s = Inr (uid, excl)" using plain_identity [OF assms] by fastforce
  obtain t wi where j: "join_work_item e s = (t, Inr wi)" using plain_item [OF assms(2)] by blast
  have "\<exists>t u. update_meter numeric e v = (t, Inr u)" if m: "ev_type e = Cost_Meter" for v
  proof -
    obtain name ref q where "meter_name (ev_payload e) = Inr name" "name \<in> set GAUGE_METERS"
      "meter_ref_of (ev_payload e) = Inr ref" 
      "bind_r (numeric (json_get_or (ev_payload e) ''quantity'' (JInt 0))) store_numeric = Inr q"
      using assms(2) m unfolding plain_event_def Let_def is_ok_iff by blast
    then show ?thesis by (simp add: update_meter_def bind_s_lift Let_def)
  qed
  then have "\<forall>v. \<exists>t. update_aggregates numeric e uid excl wi v = (t, Inr ())"
    by (auto simp: update_aggregates_def Let_def bind_s_apply split: option.split)
  then obtain w where "\<And>v. update_aggregates numeric e uid excl wi v = (w v, Inr ())" by metis
  with r j show ?thesis by (simp add: process_event_def bind_s_apply)
qed

section \<open>A run settles what it may\<close>

definition accepted_events :: "sys \<Rightarrow> event_row set" where
  "accepted_events s = {e \<in> set (tbl_rows (events s)). ev_status e = Accepted}"

definition shrinks_backlog :: "sys \<Rightarrow> sys \<Rightarrow> bool" where
  "shrinks_backlog s t \<longleftrightarrow> accepted_events t \<subseteq> accepted_events s"

interpretation backlog: piping shrinks_backlog numeric for numeric
proof
  show "shrinks_backlog s s" for s by (simp add: shrinks_backlog_def)
  show "shrinks_backlog s u" if "shrinks_backlog s t" "shrinks_backlog t u" for s t u
    using that by (auto simp: shrinks_backlog_def)
  show "evolves shrinks_backlog (pipeline_step numeric)" for numeric
    unfolding evolves_def
  proof
    fix s
    obtain s' r where p: "pipeline_step numeric s = (s', r)" by fastforce
    have "shrinks_backlog s s'" if "process_event numeric e s = (s', Inr out)" for e out
      using process_event_resolves [OF that]
      by (auto simp: shrinks_backlog_def accepted_events_def settle_in_def table_simps settle_def settled_status_def
          split: if_splits)
    with pipeline_step_cases [OF p] p show "shrinks_backlog s (fst (pipeline_step numeric s))"
      by (auto simp: shrinks_backlog_def)
  qed
qed

lemma settled_for_good:
  assumes "wf_table ev_id (events s)" "(system_step numeric)\<^sup>*\<^sup>* s t" "e \<in> set (tbl_rows (events s))" "settled e"
  shows "e \<in> set (tbl_rows (events t))"
proof -
  obtain old new where "tbl_rows (events t) = old @ new" "list_all2 event_moves (tbl_rows (events s)) old"
    using historic.system_steps [OF assms(2)] assms(1) unfolding events_kept_def by blast
  then show ?thesis using list_all2_same [OF _ assms(3)] settled_stays assms(4) by auto
qed

text \<open>
  C26: a run drains the queue. Where it returns, it has processed exactly as many accepted
  events as its limit and the backlog allow, each has left the backlog, and the three outcome
  counts add up to the number processed. Where it raises, it has settled fewer than its limit
  and stands before the oldest accepted event left, whose processing raises; the events
  settled before it stay settled. It does return if every accepted event is a plain one. And
  what is settled is so for good: whatever the system does after the run, the row stays as
  it is.
\<close>

theorem pipeline_drains:
  assumes "run_pipeline numeric limit s = (s', r)" and "tenancy_ok s"
  shows "(case r of
       Inr c \<Rightarrow> pc_processed c = min limit (pending s)
         \<and> pc_resolved c + pc_joined c + pc_excluded c = pc_processed c
         \<and> pending s' = pending s - pc_processed c
     | Inl x \<Rightarrow> pending s' \<le> pending s \<and> pending s - pending s' < limit
         \<and> (\<exists>e. next_event s' = Some e \<and> snd (process_event numeric e s') = Inl x))
   \<and> ((\<forall>e \<in> set (tbl_rows (events s)). ev_status e = Accepted \<longrightarrow> plain_event numeric e) \<longrightarrow> (\<exists>c. r = Inr c))
   \<and> (\<forall>u. (system_step numeric)\<^sup>*\<^sup>* s' u \<longrightarrow>
        (\<forall>e \<in> set (tbl_rows (events s')). ev_status e \<noteq> Accepted \<longrightarrow> e \<in> set (tbl_rows (events u))))"
proof (intro conjI)
  have wf: "wf_table ev_id (events s)" using assms(2) by (simp add: tenancy_ok_def)
  have tenants: "tenancy_ok s'"
    using evolvesD [OF tenanted.run_pipeline assms(1)] assms(2) by (simp add: keeps_def)
  have left: "accepted_events s' \<subseteq> accepted_events s"
    using evolvesD [OF backlog.run_pipeline assms(1)] by (simp add: shrinks_backlog_def)
  show "case r of
       Inr c \<Rightarrow> pc_processed c = min limit (pending s)
         \<and> pc_resolved c + pc_joined c + pc_excluded c = pc_processed c \<and> pending s' = pending s - pc_processed c
     | Inl x \<Rightarrow> pending s' \<le> pending s \<and> pending s - pending s' < limit
         \<and> (\<exists>e. next_event s' = Some e \<and> snd (process_event numeric e s') = Inl x)"
  proof (cases r)
    case (Inl x)
    with pipeline_loop_raises [OF assms(1) [unfolded run_pipeline_def Inl] wf] show ?thesis by simp
  next
    case (Inr c)
    with pipeline_loop_counts [OF assms(1) [unfolded run_pipeline_def Inr] wf] show ?thesis by (simp add: pc_total_def)
  qed
  show "(\<forall>e \<in> set (tbl_rows (events s)). ev_status e = Accepted \<longrightarrow> plain_event numeric e) \<longrightarrow> (\<exists>c. r = Inr c)"
  proof
    assume plain: "\<forall>e \<in> set (tbl_rows (events s)). ev_status e = Accepted \<longrightarrow> plain_event numeric e"
    show "\<exists>c. r = Inr c"
    proof (cases r)
      case (Inl x)
      then obtain e where e: "next_event s' = Some e" "snd (process_event numeric e s') = Inl x"
        using pipeline_loop_raises [OF assms(1) [unfolded run_pipeline_def Inl] wf] by blast
      have "plain_event numeric e" using next_event_Some [OF e(1)] left plain by (auto simp: accepted_events_def)
      from plain_settles [OF tenants this] e(2) show ?thesis by auto
    qed simp
  qed
  have "wf_table ev_id (events s')" using tenants by (simp add: tenancy_ok_def)
  then show "\<forall>u. (system_step numeric)\<^sup>*\<^sup>* s' u \<longrightarrow>
      (\<forall>e \<in> set (tbl_rows (events s')). ev_status e \<noteq> Accepted \<longrightarrow> e \<in> set (tbl_rows (events u)))"
    using settled_for_good by (auto simp: settled_def)
qed

theorem pipeline_drains_witness:
  "let s = ex_queue [ex_activity_row, (ex_meter_row 9)\<lparr>ev_payload := [(''meter'', JStr ''storage_gb''), (''quantity'', JInt 9)]\<rparr>] in
     \<exists>t c. run_pipeline ex_numeric 5 s = (t, Inr c) \<and> pc_processed c = 2 \<and> pending t = 0"
proof -
  let ?gauge = "(ex_meter_row 9)\<lparr>ev_payload := [(''meter'', JStr ''storage_gb''), (''quantity'', JInt 9)]\<rparr>"
  let ?s = "ex_queue [ex_activity_row, ?gauge]"
  have ok: "tenancy_ok ?s"
    by (simp add: tenancy_ok_def wf_table_def event_tenanted_def has_deployment_def dep_pair_def ex_queue_def ex_state_def
        empty_sys_def ex_activity_row_def ex_meter_row_def ex_row_def event_row_of_def ex_principal_def ex_user_def has_member_def user_pair_def table_simps)
  have "plain_event ex_numeric ex_activity_row"
    by (simp add: plain_event_def textual_def ex_activity_row_def ex_row_def event_row_of_def json_get_or_def)
  moreover have "plain_event ex_numeric ?gauge"
    by (simp add: plain_event_def textual_def ex_meter_row_def ex_row_def event_row_of_def json_get_or_def meter_name_def
        meter_ref_of_def subscript_def meters_def GAUGE_METERS_def ex_numeric_def store_numeric_def)
  ultimately have plain: "\<forall>e \<in> set (tbl_rows (events ?s)). ev_status e = Accepted \<longrightarrow> plain_event ex_numeric e"
    by (simp add: ex_queue_def)
  have p: "pending ?s = 2"
    by (simp add: pending_def select_rows_def ex_queue_def ex_activity_row_def ex_meter_row_def ex_row_def event_row_of_def)
  obtain t r where run: "run_pipeline ex_numeric 5 ?s = (t, r)" by fastforce
  from pipeline_drains [OF run ok] plain obtain c where "r = Inr c" by blast
  with pipeline_drains [OF run ok] p run show ?thesis by (simp add: Let_def)
qed

section \<open>One event holds up those after it\<close>

text \<open>
  A cost meter whose quantity the contract allows and \<^verbatim>\<open>NUMERIC(20,6)\<close> cannot hold: the
  schema bounds a quantity from below only.
\<close>

definition oversized :: "(json \<Rightarrow> rat result) \<Rightarrow> event_row \<Rightarrow> bool" where
  "oversized numeric e \<longleftrightarrow> ev_type e = Cost_Meter
     \<and> (case numeric (json_get_or (ev_payload e) ''quantity'' (JInt 0)) of
          Inr q \<Rightarrow> 100000000000000 \<le> q
        | Inl _ \<Rightarrow> False)"

lemma oversized_raises:
  assumes "oversized numeric e"
  shows "process_event numeric e s \<noteq> (t, Inr out)"
proof
  assume "process_event numeric e s = (t, Inr out)"
  then obtain uid excl wi u v where "update_aggregates numeric e uid excl wi u = (v, Inr ())"
    by (auto simp: process_event_def bind_s_Inr_iff)
  then obtain w where "update_meter numeric e w = (v, Inr ())"
    using assms by (auto simp: oversized_def update_aggregates_def Let_def bind_s_Inr_iff)
  then show False
    using assms by (auto simp: oversized_def update_meter_def bind_s_Inr_iff bind_r_Inr_iff store_numeric_def
        split: if_splits)
qed

text \<open>An event that raises stays, and nothing after it gets settled.\<close>

definition blocked_by :: "(json \<Rightarrow> rat result) \<Rightarrow> event_row \<Rightarrow> sys \<Rightarrow> sys \<Rightarrow> bool" where
  "blocked_by numeric e s t \<longleftrightarrow>
     (oversized numeric e \<and> e \<in> accepted_events s \<and> wf_table ev_id (events s) \<longrightarrow>
        e \<in> accepted_events t \<and> wf_table ev_id (events t)
      \<and> (\<forall>f \<in> set (tbl_rows (events t)). ev_occurred_at e < ev_occurred_at f \<and> settled f \<longrightarrow> f \<in> set (tbl_rows (events s))))"

interpretation blocking: evolution "blocked_by numeric e" for numeric e
  by unfold_locales (auto simp: blocked_by_def)

interpretation blocked_table: sees events "blocked_by numeric e" for numeric e
  by unfold_locales (simp add: blocked_by_def accepted_events_def same_view_def)

lemma oldest_first: "next_event s = Some e \<Longrightarrow> f \<in> accepted_events s \<Longrightarrow> ev_occurred_at e \<le> ev_occurred_at f"
  using latest_by_Some [of "\<lambda>e. - ev_occurred_at e"] by (fastforce simp: next_event_def accepted_events_def select_rows_def)

lemma blocked_add_event:
  assumes "ev_id row = tbl_seq (events s)" "ev_status row = Accepted"
  shows "blocked_by numeric e s (add_event row s)"
  using assms by (auto simp: blocked_by_def accepted_events_def add_event_def settled_def table_simps
      intro!: wf_insert_row [unfolded table_simps])

lemma blocked_process_one: "evolves (blocked_by numeric e) (process_one env p event i src hz)"
  unfolding evolves_def
proof
  fix s
  obtain s' r where p: "process_one env p event i src hz s = (s', r)" by fastforce
  have "blocked_by numeric e s (add_event row s)" if "accepted_row env p ev src hz s row" for ev row
    using that by (intro blocked_add_event) (auto simp: accepted_row_def event_row_of_def)
  moreover have "blocked_by numeric e s (add_rejected rej s)" for rej
    by (rule blocked_table.of_view) (simp add: same_view_def add_rejected_def)
  ultimately show "blocked_by numeric e s (fst (process_one env p event i src hz s))"
    using process_one_cases [OF p] p blocking.refl by auto
qed

lemma blocked_settle:
  assumes "next_event s = Some f" "process_event numeric f s = (s', Inr out)"
  shows "blocked_by numeric e s s'"
  unfolding blocked_by_def
proof (intro impI)
  assume e: "oversized numeric e \<and> e \<in> accepted_events s \<and> wf_table ev_id (events s)"
  have "f \<noteq> e" using oversized_raises assms(2) e by blast
  note f = next_event_Some [OF assms(1)]
  obtain uid excl wi where ev: "events s' = settle_in f uid excl wi (events s)"
    using process_event_resolves [OF assms(2)] by blast
  let ?g = "\<lambda>r. if ev_id r = ev_id f \<and> ev_occurred_at r = ev_occurred_at f then settle r uid excl wi else r"
  have rows: "tbl_rows (events s') = map ?g (tbl_rows (events s))"
    by (simp add: ev settle_in_def table_simps)
  have same: "?g r = r" if "r \<in> set (tbl_rows (events s))" "r \<noteq> f" for r
    using wf_table_unique [of ev_id "events s" r f] that e f by auto
  have "e \<in> accepted_events s'"
    using e same [of e] \<open>f \<noteq> e\<close> unfolding accepted_events_def rows by (auto simp: image_iff intro!: bexI [of _ e])
  moreover have "wf_table ev_id (events s')" unfolding ev settle_in_def by (rule wf_update_rows) (use e in simp_all)
  moreover have "g \<in> set (tbl_rows (events s))"
    if "g \<in> set (tbl_rows (events s'))" "ev_occurred_at e < ev_occurred_at g" for g
  proof -
    have "g \<in> ?g ` set (tbl_rows (events s))" using that(1) by (simp only: rows set_map)
    then obtain r where r: "g = ?g r" "r \<in> set (tbl_rows (events s))" by (rule imageE)
    have "ev_occurred_at f \<le> ev_occurred_at e" using oldest_first [OF assms(1)] e by blast
    then have "r \<noteq> f" using that(2) r(1) by (auto simp: settle_def)
    with same r show ?thesis by simp
  qed
  ultimately show "e \<in> accepted_events s' \<and> wf_table ev_id (events s')
      \<and> (\<forall>f \<in> set (tbl_rows (events s')). ev_occurred_at e < ev_occurred_at f \<and> settled f \<longrightarrow> f \<in> set (tbl_rows (events s)))"
    by blast
qed

lemma blocked_pipeline_step: "evolves (blocked_by numeric e) (pipeline_step numeric)"
  unfolding evolves_def
proof
  fix s
  obtain s' r where p: "pipeline_step numeric s = (s', r)" by fastforce
  from pipeline_step_cases [OF p] p show "blocked_by numeric e s (fst (pipeline_step numeric s))"
    by (auto intro: blocking.refl blocked_settle)
qed

interpretation blocked: steady "blocked_by numeric e" numeric for numeric e
proof
  show "blocked_by numeric e s (window_hits_update f s)" "blocked_by numeric e s (import_jobs_update g s)"
    "blocked_by numeric e s (objects_update h s)" "blocked_by numeric e s (alerts_update a s)" for s f g h a
    by (rule blocked_table.unseen, simp)+
qed (rule blocked_process_one blocked_pipeline_step events_engine.write_figure [THEN blocked_table.frame]
      events_engine.report_body [THEN blocked_table.frame] events_outbox.emit [THEN blocked_table.frame]
      events_commands.run_ops [THEN blocked_table.frame] events_config.config_step [THEN blocked_table.of_view]
      events_outbox.outbox_step [THEN blocked_table.of_view], assumption?)+

lemma accepted_pending: "e \<in> accepted_events s \<Longrightarrow> 0 < pending s"
  by (auto simp: accepted_events_def pending_def select_rows_def length_greater_0_conv filter_empty_conv)

text \<open>
  C40: one event blocks the pipeline for good. Let a cost meter with a quantity that the
  contract allows and the column cannot hold be accepted. In every later state, whatever
  requests, runs, commands and deliveries led there, it is still accepted as it was; no event
  that occurred after it has been settled since, whether it was there before or came later;
  every run whose limit covers the backlog raises; and while it is the oldest accepted event
  every run, whatever its limit, raises and changes nothing.
\<close>

theorem pipeline_head_of_line:
  assumes "e \<in> set (tbl_rows (events s))" and "ev_status e = Accepted" and "oversized numeric e"
    and "wf_table ev_id (events s)" and "(system_step numeric)\<^sup>*\<^sup>* s t"
  shows "e \<in> set (tbl_rows (events t))
   \<and> (\<forall>f \<in> set (tbl_rows (events t)). ev_occurred_at e < ev_occurred_at f \<and> f \<notin> set (tbl_rows (events s)) \<longrightarrow>
        ev_status f = Accepted)
   \<and> (\<forall>limit. pending t \<le> limit \<longrightarrow> \<not> is_ok (snd (run_pipeline numeric limit t)))
   \<and> (next_event t = Some e \<longrightarrow> (\<exists>x. \<forall>limit > 0. run_pipeline numeric limit t = (t, Inl x)))"
proof (intro conjI)
  have b: "blocked_by numeric e s t" by (rule blocked.system_steps [OF assms(5)])
  then have t: "e \<in> accepted_events t" "wf_table ev_id (events t)"
    and later: "\<forall>f \<in> set (tbl_rows (events t)). ev_occurred_at e < ev_occurred_at f \<and> settled f \<longrightarrow> f \<in> set (tbl_rows (events s))"
    using assms(1-4) by (simp_all add: blocked_by_def accepted_events_def)
  from t(1) show "e \<in> set (tbl_rows (events t))" by (simp add: accepted_events_def)
  from later show "\<forall>f \<in> set (tbl_rows (events t)). ev_occurred_at e < ev_occurred_at f \<and> f \<notin> set (tbl_rows (events s)) \<longrightarrow>
        ev_status f = Accepted"
    by (auto simp: settled_def)
  show "\<forall>limit. pending t \<le> limit \<longrightarrow> \<not> is_ok (snd (run_pipeline numeric limit t))"
  proof (intro allI impI notI)
    fix limit
    assume l: "pending t \<le> limit" and ok: "is_ok (snd (run_pipeline numeric limit t))"
    then obtain u c where run: "run_pipeline numeric limit t = (u, Inr c)"
      by (cases "run_pipeline numeric limit t") (auto simp: is_ok_iff)
    have "pending u = 0" using pipeline_loop_counts [OF run [unfolded run_pipeline_def] t(2)] l by simp
    moreover have "e \<in> accepted_events u"
      using evolvesD [OF blocked.run_pipeline run, of e] t assms(3) by (simp add: blocked_by_def)
    ultimately show False using accepted_pending by fastforce
  qed
  show "next_event t = Some e \<longrightarrow> (\<exists>x. \<forall>limit > 0. run_pipeline numeric limit t = (t, Inl x))"
  proof
    assume head: "next_event t = Some e"
    obtain u q where p: "process_event numeric e t = (u, q)" by fastforce
    then obtain x where x: "q = Inl x" using oversized_raises [OF assms(3)] by (cases q) auto
    have step: "pipeline_step numeric t = (t, Inl x)"
      using head p x by (auto simp: pipeline_step_def transaction_def bind_s_apply)
    have "run_pipeline numeric limit t = (t, Inl x)" if l: "0 < limit" for limit
    proof -
      obtain n where "limit = Suc n" using l by (cases limit) auto
      then show ?thesis unfolding run_pipeline_def by (simp only: pipeline_loop_step step prod.case sum.case)
    qed
    then show "\<exists>x. \<forall>limit > 0. run_pipeline numeric limit t = (t, Inl x)" by blast
  qed
qed

theorem pipeline_head_of_line_witness:
  "let e = (ex_meter_row 100000000000000)\<lparr>ev_occurred_at := 0\<rparr>; s = ex_queue [e, ex_activity_row];
       t = fst (run_ops id (Org_Create ''starter'' ''org_9'' ''o'') (fst (run_pipeline ex_numeric 3 s))) in
     e \<in> set (tbl_rows (events t)) \<and> \<not> is_ok (snd (run_pipeline ex_numeric (pending t) t))"
proof -
  let ?e = "(ex_meter_row 100000000000000)\<lparr>ev_occurred_at := 0\<rparr>"
  let ?s = "ex_queue [?e, ex_activity_row]"
  let ?u = "fst (run_pipeline ex_numeric 3 ?s)"
  let ?t = "fst (run_ops id (Org_Create ''starter'' ''org_9'' ''o'') ?u)"
  have "system_step ex_numeric ?s ?u" by (rule system_step.Processing) (rule prod.collapse [symmetric])
  moreover have "system_step ex_numeric ?u ?t" by (rule system_step.Operating) (rule prod.collapse [symmetric])
  ultimately have steps: "(system_step ex_numeric)\<^sup>*\<^sup>* ?s ?t" by simp
  have big: "oversized ex_numeric ?e"
    by (simp add: oversized_def ex_meter_row_def ex_row_def event_row_of_def json_get_or_def ex_numeric_def)
  have wf: "wf_table ev_id (events ?s)"
    by (simp add: ex_queue_def wf_table_def ex_activity_row_def ex_meter_row_def ex_row_def event_row_of_def)
  have e: "?e \<in> set (tbl_rows (events ?s))" "ev_status ?e = Accepted"
    by (simp_all add: ex_queue_def ex_meter_row_def ex_row_def event_row_of_def)
  from pipeline_head_of_line [OF e big wf steps] show ?thesis unfolding Let_def by blast
qed

end
