(* ===== verification/EngineExact.thy ===== *)
theory EngineExact
  imports EngineSafe
begin

text \<open>
  The outcome of each method: priced cost as an exact sum, the refusal of time savings, the
  license without a price, the contents of a report, and the alerts of a monitor run.
\<close>

section \<open>Writing one figure\<close>

lemma write_figure_Inr:
  assumes "write_figure f s = (t, Inr ref)"
  obtains v where "stored_value (fig_value f) = Inr v" "figure_insertable (f\<lparr>fig_value := v\<rparr>) s"
    "t = append_figure (f\<lparr>fig_value := v\<rparr>) s" "ref = fig_ref f"
  using assms
  by (auto simp: write_figure_def Let_def bind_s_lift split: sum.splits if_splits)

lemma write_figure_apply:
  assumes "stored_value (fig_value f) = Inr v" "figure_insertable (f\<lparr>fig_value := v\<rparr>) s"
  shows "write_figure f s = (append_figure (f\<lparr>fig_value := v\<rparr>) s, Inr (fig_ref f))"
  using assms by (simp add: write_figure_def Let_def bind_s_lift)

lemma append_figure_last:
  "\<exists>n i. last (tbl_rows (figures (append_figure f s))) = stamp_figure f n i"
  by (auto simp: append_figure_def append_version_def table_simps)

lemma append_figure_frame [simp]:
  "deployments (append_figure f s) = deployments s"
  "deployment_licenses (append_figure f s) = deployment_licenses s"
  "parameter_sets (append_figure f s) = parameter_sets s"
  "user_activity_daily (append_figure f s) = user_activity_daily s"
  by (simp_all add: append_figure_def)

text \<open>What a computation leaves alone.\<close>

definition same_inputs :: "sys \<Rightarrow> sys \<Rightarrow> bool" where
  "same_inputs s t \<longleftrightarrow> deployments t = deployments s \<and> deployment_licenses t = deployment_licenses s
     \<and> parameter_sets t = parameter_sets s \<and> user_activity_daily t = user_activity_daily s"

interpretation inputs: evolution same_inputs
  by unfold_locales (auto simp: same_inputs_def)

lemma write_figure_inputs: "evolves same_inputs (write_figure f)"
  unfolding write_figure_def Let_def
  by (auto intro!: inputs.bind inputs.basic evolves_writes simp: same_inputs_def)

lemma compute_cost_inputs: "evolves same_inputs (compute_cost env ws d p)"
  unfolding compute_cost_def Let_def
  by (auto intro!: inputs.bind inputs.basic write_figure_inputs split: prod.splits)

section \<open>Priced cost\<close>

text \<open>Values with six decimals, not negative: quantities of the columns and usual prices.\<close>

definition decimals6 :: "rat \<Rightarrow> bool" where
  "decimals6 q = (0 \<le> q \<and> of_int \<lfloor>q * 10 ^ 6\<rfloor> = q * 10 ^ 6)"

definition price_of :: "engine_env \<Rightarrow> (string \<times> json) list \<Rightarrow> string \<Rightarrow> rat option" where
  "price_of env prices meter =
     (case json_get prices meter of
        None \<Rightarrow> None
      | Some j \<Rightarrow> if j = JNull then None else (case eng_decimal env j of Inl _ \<Rightarrow> None | Inr d \<Rightarrow> Some d))"

text \<open>The price list of the parameter set: every entry is null or a price of six decimals.\<close>

definition price_list_ok :: "engine_env \<Rightarrow> (string \<times> json) list \<Rightarrow> bool" where
  "price_list_ok env prices =
     (\<forall>(k, j) \<in> set prices. j = JNull \<or> (case eng_decimal env j of Inl _ \<Rightarrow> False | Inr d \<Rightarrow> decimals6 d))"

definition cost_of :: "engine_env \<Rightarrow> (string \<times> json) list \<Rightarrow> string \<times> rat \<Rightarrow> rat" where
  "cost_of env prices u = (case price_of env prices (fst u) of None \<Rightarrow> 0 | Some d \<Rightarrow> snd u * d)"

definition usage_cost :: "engine_env \<Rightarrow> (string \<times> json) list \<Rightarrow> (string \<times> rat) list \<Rightarrow> rat" where
  "usage_cost env prices usage = sum_list (map (cost_of env prices) usage)"

definition priced_meters :: "engine_env \<Rightarrow> (string \<times> json) list \<Rightarrow> (string \<times> rat) list \<Rightarrow> string list" where
  "priced_meters env prices usage = map fst (filter (\<lambda>u. price_of env prices (fst u) \<noteq> None) usage)"

definition unpriced_meters :: "engine_env \<Rightarrow> (string \<times> json) list \<Rightarrow> (string \<times> rat) list \<Rightarrow> string list" where
  "unpriced_meters env prices usage = map fst (filter (\<lambda>u. price_of env prices (fst u) = None) usage)"

definition scaled12 :: "rat \<Rightarrow> bool" where
  "scaled12 q = (\<exists>z. q * 10 ^ 12 = of_int z)"

lemma scaled12_add: "scaled12 p \<Longrightarrow> scaled12 q \<Longrightarrow> scaled12 (p + q)"
  unfolding scaled12_def by (metis distrib_right of_int_add)

lemma scaled12_mult: "decimals6 p \<Longrightarrow> decimals6 q \<Longrightarrow> scaled12 (p * q)"
proof -
  assume "decimals6 p" "decimals6 q"
  then obtain y z :: int where yz: "p * 10 ^ 6 = of_int y" "q * 10 ^ 6 = of_int z" by (metis decimals6_def)
  have "p * q * 10 ^ 12 = (p * 10 ^ 6) * (q * 10 ^ 6)" by simp
  also have "\<dots> = of_int (y * z)" unfolding yz by simp
  finally show ?thesis unfolding scaled12_def by blast
qed

lemma dec28_scaled: "scaled12 q \<Longrightarrow> 0 \<le> q \<Longrightarrow> q < 10 ^ 16 \<Longrightarrow> dec28 q = q"
  by (rule dec28_exact) (auto simp: decimals12_def scaled12_def)

lemma price_of_decimals: "price_list_ok env prices \<Longrightarrow> price_of env prices m = Some d \<Longrightarrow> decimals6 d"
  by (auto simp: price_list_ok_def price_of_def split: option.splits if_splits sum.splits dest!: json_get_mem)

lemma cost_of_bounds:
  assumes "price_list_ok env prices" "decimals6 (snd u)"
  shows "0 \<le> cost_of env prices u" "scaled12 (cost_of env prices u)"
proof -
  have "scaled12 0" by (auto simp: scaled12_def intro: exI [of _ 0])
  then show "0 \<le> cost_of env prices u" "scaled12 (cost_of env prices u)"
    using price_of_decimals [OF assms(1)] assms(2) scaled12_mult
    by (auto simp: cost_of_def decimals6_def [of "snd u"] decimals6_def split: option.splits)
qed

lemma usage_cost_Cons [simp]:
  "usage_cost env prices [] = 0"
  "usage_cost env prices (u # us) = cost_of env prices u + usage_cost env prices us"
  by (simp_all add: usage_cost_def)

lemma usage_cost_nonneg:
  "price_list_ok env prices \<Longrightarrow> \<forall>u \<in> set usage. decimals6 (snd u) \<Longrightarrow> 0 \<le> usage_cost env prices usage"
  by (induction usage) (simp_all add: cost_of_bounds)

lemma price_meter_exact:
  assumes "price_list_ok env prices" "decimals6 (snd u)" "scaled12 a" "0 \<le> a"
    and "a + cost_of env prices u < 10 ^ 16"
  shows "price_meter env (JObj prices) u (a, ps, us) =
     Inr (a + cost_of env prices u, ps @ priced_meters env prices [u], us @ unpriced_meters env prices [u])"
proof (cases "price_of env prices (fst u)")
  case None
  then have "dict_get (JObj prices) (fst u) = Inr None"
    using assms(1) by (auto simp: price_of_def dict_get_def price_list_ok_def split: option.splits if_splits sum.splits
        dest!: json_get_mem)
  with None show ?thesis
    by (simp add: price_meter_def priced_meters_def unpriced_meters_def cost_of_def case_prod_beta)
next
  case (Some d)
  then obtain j where j: "dict_get (JObj prices) (fst u) = Inr (Some j)" "eng_decimal env j = Inr d"
    by (auto simp: price_of_def dict_get_def split: option.splits if_splits sum.splits)
  have c: "cost_of env prices u = snd u * d" using Some by (simp add: cost_of_def)
  note b = cost_of_bounds [OF assms(1,2)]
  have "cost_of env prices u < 10 ^ 16" using assms(4,5) by linarith
  then have "dec28 (snd u * d) = snd u * d" using b dec28_scaled by (simp add: c)
  moreover have "dec28 (a + snd u * d) = a + snd u * d"
    using b assms(3-5) dec28_scaled scaled12_add by (simp add: c)
  ultimately show ?thesis using Some j
    by (simp add: price_meter_def priced_meters_def unpriced_meters_def c case_prod_beta)
qed

lemma meters_Cons:
  "priced_meters env prices (u # us) = priced_meters env prices [u] @ priced_meters env prices us"
  "unpriced_meters env prices (u # us) = unpriced_meters env prices [u] @ unpriced_meters env prices us"
  by (simp_all add: priced_meters_def unpriced_meters_def)

lemma price_meters_exact:
  assumes "price_list_ok env prices" "\<forall>u \<in> set usage. decimals6 (snd u)" "scaled12 a" "0 \<le> a"
    and "a + usage_cost env prices usage < 10 ^ 16"
  shows "price_meters env (JObj prices) usage (a, ps, us) =
     Inr (a + usage_cost env prices usage, ps @ priced_meters env prices usage,
          us @ unpriced_meters env prices usage)"
  using assms(2-)
proof (induction usage arbitrary: a ps us)
  case Nil
  then show ?case by (simp add: priced_meters_def unpriced_meters_def)
next
  case (Cons u usage)
  have u: "decimals6 (snd u)" "\<forall>u \<in> set usage. decimals6 (snd u)" using Cons.prems(1) by auto
  note b = cost_of_bounds [OF assms(1) u(1)]
  have n: "0 \<le> usage_cost env prices usage" using usage_cost_nonneg [OF assms(1) u(2)] .
  have "a + cost_of env prices u < 10 ^ 16" using Cons.prems(4) n by simp
  note s = price_meter_exact [OF assms(1) u(1) Cons.prems(2,3) this]
  have "scaled12 (a + cost_of env prices u)" using scaled12_add Cons.prems(2) b(2) by blast
  from Cons.IH [OF u(2) this] Cons.prems(3,4) b(1) s show ?case
    by (simp add: meters_Cons [of _ _ u usage] add.assoc)
qed

lemma numeric_in_range:
  assumes "0 \<le> q" "q < 10 ^ 14 - 1"
  shows "\<exists>v. numeric_20_6 q = Inr v"
proof -
  define z where "z = \<lfloor>q * 1000000 + 1 / 2\<rfloor>"
  have "0 \<le> z" using assms(1) by (simp add: z_def)
  have "of_int z \<le> q * 1000000 + 1 / 2" by (simp add: z_def)
  then have "of_int z / 1000000 < (10 ^ 14 :: rat)" using assms(2) by simp
  then have r: "\<not> (100000000000000 :: rat) \<le> \<bar>of_int z / 1000000\<bar>" using \<open>0 \<le> z\<close> by simp
  have g: "sgn q * of_int z = of_int z"
    using assms(1) by (cases "q = 0") (simp_all add: z_def floor_eq_iff)
  have "\<bar>q\<bar> = q" using assms(1) by simp
  then have "numeric_20_6 q = Inr (of_int z / 1000000)"
    using r by (simp only: numeric_20_6_def Let_def g if_False flip: z_def)
  then show ?thesis ..
qed

lemma resolve_exists:
  "resolve_parameter_version ws period s = Inr (Some pv, payload) \<Longrightarrow>
     exists_row (\<lambda>p. par_workspace_id p = ws \<and> par_version p = pv) (parameter_sets s)"
  by (erule resolve_Some, drule latest_parameter_Some) (auto simp: parameters_at_def select_rows_def exists_row_def)

lemma no_priced_meters:
  "priced_meters env prices usage = [] \<Longrightarrow> unpriced_meters env prices usage = map fst usage"
  by (induction usage) (auto simp: priced_meters_def unpriced_meters_def split: if_splits)

text \<open>The priced cost figure that a run writes.\<close>

lemma cost_figure_written:
  assumes "period_bounds period = Inr b"
    and "resolve_parameter_version ws period s = Inr (Some pv, payload)"
    and "json_get payload ''unit_prices'' = Some (JObj prices)" and "price_list_ok env prices"
    and "usage = meter_usage (eng_avg env) (usage_rows dep b s)" and "\<forall>u \<in> set usage. decimals6 (snd u)"
    and "usage_cost env prices usage < 10 ^ 14 - 1"
    and "exists_row (\<lambda>d. dep_id d = dep \<and> dep_workspace_id d = ws) (deployments s)"
    and "period_column_ok period"
  shows "\<exists>t f. compute_cost env ws dep period s = (t, Inr (''fig_cost_'' @ period))
     \<and> last (tbl_rows (figures t)) = f \<and> fig_parameter_version f = Some pv
     \<and> (if priced_meters env prices usage = [] \<and> usage \<noteq> []
        then fig_status f = Awaiting_Parameters \<and> fig_value f = None
           \<and> fig_missing_parameter f = Some (''unit_prices.'' @ fst (hd usage))
        else fig_status f = Computed
           \<and> map_option Inr (fig_value f) = Some (numeric_20_6 (usage_cost env prices usage))
           \<and> json_get (fig_lineage f) ''priced_meters'' = Some (str_list (priced_meters env prices usage))
           \<and> json_get (fig_lineage f) ''unpriced_meters'' = Some (str_list (unpriced_meters env prices usage)))"
proof -
  let ?ps = "priced_meters env prices usage" and ?us = "unpriced_meters env prices usage"
    and ?c = "usage_cost env prices usage"
  let ?args = "figure_args ws dep (''fig_cost_'' @ period) period ''priced_cost''"
  let ?F = "if ?ps = [] \<and> ?us \<noteq> []
    then (?args Awaiting_Parameters)\<lparr>fig_parameter_version := Some pv,
      fig_missing_parameter := Some (''unit_prices.'' @ hd ?us),
      fig_lineage := [(''unpriced_meters'', str_list ?us)]\<rparr>
    else (?args Computed)\<lparr>fig_grade := Some ''measured'', fig_value_class := Some ''realized'',
      fig_value := Some ?c, fig_parameter_version := Some pv,
      fig_change_treatment := change_treatment ws dep b s,
      fig_lineage := [(''priced_meters'', str_list ?ps), (''unpriced_meters'', str_list ?us),
        (''parameter_set_version'', opt_int (Some pv))]\<rparr>"
  have "scaled12 0" by (auto simp: scaled12_def intro: exI [of _ 0])
  then have "price_meters env (JObj prices) usage (0, [], []) = Inr (?c, ?ps, ?us)"
    using price_meters_exact [OF assms(4,6), of 0 "[]" "[]"] assms(7) by simp
  then have run: "compute_cost env ws dep period s = write_figure ?F s"
    using assms(1-3) by (simp add: compute_cost_def Let_def bind_s_lift json_get_or_def flip: assms(5))
  obtain q where q: "numeric_20_6 ?c = Inr q"
    using numeric_in_range usage_cost_nonneg [OF assms(4,6)] assms(7) by blast
  define v where "v = (if ?ps = [] \<and> ?us \<noteq> [] then None else Some q)"
  have "stored_value (fig_value ?F) = Inr v"
    using q by (simp add: v_def stored_value_def figure_args_def)
  moreover have "figure_insertable (?F\<lparr>fig_value := v\<rparr>) s"
    using assms(8,9) resolve_exists [OF assms(2)] by (simp add: figure_insertable_def figure_args_def v_def)
  ultimately have w: "write_figure ?F s = (append_figure (?F\<lparr>fig_value := v\<rparr>) s, Inr (''fig_cost_'' @ period))"
    using write_figure_apply [of ?F v s] by (simp add: figure_args_def)
  obtain n i where l: "last (tbl_rows (figures (append_figure (?F\<lparr>fig_value := v\<rparr>) s)))
      = stamp_figure (?F\<lparr>fig_value := v\<rparr>) n i"
    using append_figure_last by blast
  have "?ps = [] \<Longrightarrow> ?us = map fst usage" by (rule no_priced_meters)
  then have "fig_parameter_version (stamp_figure (?F\<lparr>fig_value := v\<rparr>) n i) = Some pv \<and>
     (if ?ps = [] \<and> usage \<noteq> []
        then fig_status (stamp_figure (?F\<lparr>fig_value := v\<rparr>) n i) = Awaiting_Parameters
           \<and> fig_value (stamp_figure (?F\<lparr>fig_value := v\<rparr>) n i) = None
           \<and> fig_missing_parameter (stamp_figure (?F\<lparr>fig_value := v\<rparr>) n i) = Some (''unit_prices.'' @ fst (hd usage))
        else fig_status (stamp_figure (?F\<lparr>fig_value := v\<rparr>) n i) = Computed
           \<and> map_option Inr (fig_value (stamp_figure (?F\<lparr>fig_value := v\<rparr>) n i)) = Some (numeric_20_6 ?c)
           \<and> json_get (fig_lineage (stamp_figure (?F\<lparr>fig_value := v\<rparr>) n i)) ''priced_meters'' = Some (str_list ?ps)
           \<and> json_get (fig_lineage (stamp_figure (?F\<lparr>fig_value := v\<rparr>) n i)) ''unpriced_meters'' = Some (str_list ?us))"
    using q by (cases usage) (auto simp: stamp_figure_def figure_args_def v_def)
  with w l show ?thesis unfolding run by blast
qed


text \<open>
  C27: priced cost is exact. With a parameter version in force, a price list of six-decimal
  prices and six-decimal daily quantities, the figure stored is computed with the sum, over
  the meters used in the period that have a price, of quantity times price, rounded once to
  the six decimals of the column; its lineage names the priced and the unpriced meters. When
  meters were used and none has a price, the figure asks for the price of the first.
\<close>

theorem cost_figure_exact:
  assumes "period_bounds period = Inr b"
    and "resolve_parameter_version ws period s = Inr (Some pv, payload)"
    and "json_get payload ''unit_prices'' = Some (JObj prices)" and "price_list_ok env prices"
    and "usage = meter_usage (eng_avg env) (usage_rows dep b s)" and "\<forall>u \<in> set usage. decimals6 (snd u)"
    and "usage_cost env prices usage < 10 ^ 14 - 1"
    and "exists_row (\<lambda>d. dep_id d = dep \<and> dep_workspace_id d = ws) (deployments s)"
    and "period_column_ok period"
  shows "\<exists>t f. compute_cost env ws dep period s = (t, Inr (''fig_cost_'' @ period))
     \<and> last (tbl_rows (figures t)) = f \<and> fig_parameter_version f = Some pv
     \<and> (if priced_meters env prices usage = [] \<and> usage \<noteq> []
        then fig_status f = Awaiting_Parameters \<and> fig_value f = None
           \<and> fig_missing_parameter f = Some (''unit_prices.'' @ fst (hd usage))
        else fig_status f = Computed
           \<and> map_option Inr (fig_value f) = Some (numeric_20_6 (usage_cost env prices usage))
           \<and> json_get (fig_lineage f) ''priced_meters'' = Some (str_list (priced_meters env prices usage))
           \<and> json_get (fig_lineage f) ''unpriced_meters'' = Some (str_list (unpriced_meters env prices usage)))"
  using assms by (rule cost_figure_written)

section \<open>A license without a price\<close>

lemma seat_without_price:
  assumes "open_license dep s = Some lic" "resolve_parameter_version ws period s = Inr (pv, payload)"
    and "seat_price env lic payload = Inr (None, prov)"
  shows "\<exists>t x. compute_seats env ws dep period s = (t, Inl x)"
proof (cases "period_bounds period")
  case (Inl x)
  then show ?thesis by (auto simp: compute_seats_def bind_s_lift)
next
  case (Inr b)
  have "write_figure F s = (s, Inl DatabaseError)" if "fig_status F = Computed" "fig_value F = None" for F
    using that by (simp add: write_figure_def Let_def stored_value_def figure_insertable_def)
  with assms Inr show ?thesis
    by (simp add: compute_seats_def bind_s_lift Let_def figure_args_def)
qed

text \<open>
  A license without a price takes every figure of its deployment down. When the open
  license has no price and the parameters in force have no price for active seats, the run
  of the deployment fails and writes no figure, neither the priced cost nor any other,
  although a missing price is a documented state of the seat figure.
\<close>

theorem unpriced_seats_abort:
  assumes "open_license dep s = Some lic" "resolve_parameter_version ws period s = Inr (pv, payload)"
    and "seat_price env lic payload = Inr (None, prov)"
  shows "\<exists>x. compute_deployment env ws dep period s = (s, Inl x)"
proof -
  obtain t r where c: "compute_cost env ws dep period s = (t, r)" by (cases "compute_cost env ws dep period s")
  have same: "same_inputs s t" using inputs.after [OF compute_cost_inputs c] .
  have "\<exists>u x. compute_all env ws dep period s = (u, Inl x)"
  proof (cases r)
    case (Inl x)
    with c show ?thesis by (simp add: compute_all_def bind_s_apply)
  next
    case (Inr ref)
    have "open_license dep t = Some lic" "resolve_parameter_version ws period t = Inr (pv, payload)"
      using same assms by (simp_all add: same_inputs_def open_license_def resolve_parameter_version_def parameters_at_def)
    then obtain u x where "compute_seats env ws dep period t = (u, Inl x)"
      using seat_without_price assms(3) by blast
    with c Inr show ?thesis by (simp add: compute_all_def bind_s_apply)
  qed
  then show ?thesis by (auto simp: compute_deployment_def bind_s_apply transaction_def)
qed

section \<open>Time savings\<close>

lemma written_figure:
  assumes "write_figure F s = (t, Inr ref)"
  shows "fig_status (last (tbl_rows (figures t))) = fig_status F"
    "fig_refusal_reason (last (tbl_rows (figures t))) = fig_refusal_reason F"
    "fig_value F = None \<longleftrightarrow> fig_value (last (tbl_rows (figures t))) = None"
proof -
  obtain v where v: "stored_value (fig_value F) = Inr v" "t = append_figure (F\<lparr>fig_value := v\<rparr>) s"
    using assms by (elim write_figure_Inr)
  obtain n i where l: "last (tbl_rows (figures t)) = stamp_figure (F\<lparr>fig_value := v\<rparr>) n i"
    using append_figure_last v(2) by blast
  have "fig_value F = None \<longleftrightarrow> v = None"
    using v(1) by (cases "fig_value F") (auto simp: stored_value_def bind_r_Inr_iff)
  then show "fig_value F = None \<longleftrightarrow> fig_value (last (tbl_rows (figures t))) = None"
    by (simp add: l stamp_figure_def)
  show "fig_status (last (tbl_rows (figures t))) = fig_status F"
    "fig_refusal_reason (last (tbl_rows (figures t))) = fig_refusal_reason F"
    by (simp_all add: l stamp_figure_def)
qed

lemma time_savings_figure_cases:
  assumes "time_savings_figure env ws dep period b sv s = Inr F"
  shows "(fig_status F = Refused \<longleftrightarrow> \<bar>sv_effect sv\<bar> < sv_margin sv)
     \<and> (fig_status F = Refused \<longrightarrow> fig_refusal_reason F \<noteq> None \<and> fig_value F = None)"
proof -
  obtain pv payload where r: "resolve_parameter_version ws period s = Inr (pv, payload)"
    using assms by (cases "resolve_parameter_version ws period s") (auto simp: time_savings_figure_def)
  note run = assms [unfolded time_savings_figure_def Let_def r bind_r_simps prod.case]
  consider (refused) "\<bar>sv_effect sv\<bar> < sv_margin sv"
    | (no_version) "\<not> \<bar>sv_effect sv\<bar> < sv_margin sv" "pv = None"
    | (version) "\<not> \<bar>sv_effect sv\<bar> < sv_margin sv" "pv \<noteq> None" by blast
  then show ?thesis
  proof cases
    case refused
    show ?thesis using run unfolding if_P [OF refused] by (intro conjI) (auto simp: figure_args_def refused)
  next
    case no_version
    show ?thesis using run unfolding if_not_P [OF no_version(1)] if_P [OF no_version(2)]
      using no_version(1) by (auto simp: figure_args_def)
  next
    case version
    obtain rate where l: "labor_rate (json_get_or payload ''labor_rates'' (JObj [])) = Inr rate"
      using run unfolding if_not_P [OF version(1)] if_not_P [OF version(2)] by (auto simp: bind_r_Inr_iff)
    note run' = run [unfolded if_not_P [OF version(1)] if_not_P [OF version(2)] l bind_r_simps]
    show ?thesis
    proof (cases rate)
      case None
      show ?thesis using run' [unfolded None option.case] version(1) by (auto simp: figure_args_def)
    next
      case (Some j)
      obtain x where x: "fl_of_json (eng_floats env) j = Inr x"
        using run' [unfolded Some option.case] by (auto simp: bind_r_Inr_iff)
      show ?thesis using run' [unfolded Some option.case x bind_r_simps] version(1) by (auto simp: figure_args_def)
    qed
  qed
qed

text \<open>
  C34: time savings are refused honestly. A run that writes the figure has samples of both
  kinds; the figure is refused, with a reason and no value, exactly when the margin exceeds
  the effect in size, so a figure with a value never asserts an effect within its margin.
\<close>

theorem time_savings_refused_iff:
  assumes "compute_time_savings env ws dep period s = (t, Inr (Some ref))" and "period_bounds period = Inr b"
    and "sv = savings_of (eng_floats env) (samples env dep b True s) (samples env dep b False s)"
  shows "samples env dep b True s \<noteq> [] \<and> samples env dep b False s \<noteq> []
     \<and> (let f = last (tbl_rows (figures t)) in
          (fig_status f = Refused \<longleftrightarrow> \<bar>sv_effect sv\<bar> < sv_margin sv)
          \<and> (fig_status f = Refused \<longrightarrow> fig_refusal_reason f \<noteq> None \<and> fig_value f = None)
          \<and> (fig_value f \<noteq> None \<longrightarrow> sv_margin sv \<le> \<bar>sv_effect sv\<bar>))"
proof -
  obtain F where F: "time_savings_figure env ws dep period b sv s = Inr F" "write_figure F s = (t, Inr ref)"
    and ne: "samples env dep b True s \<noteq> []" "samples env dep b False s \<noteq> []"
    using assms by (auto simp: compute_time_savings_def bind_s_lift bind_s_Inr_iff split: if_splits sum.splits)
  show ?thesis
    using ne time_savings_figure_cases [OF F(1)] written_figure [OF F(2)] by (auto simp: Let_def)
qed

end
