(* ===== verification/ReportsExact.thy ===== *)
theory ReportsExact
  imports EngineExact
begin

text \<open>
  The outcome of issuing a report and of running the monitors: what a report binds and
  counts, where its artifact is, and which alerts a run raises.
\<close>

section \<open>Emitting touches the outbox only\<close>

definition outbox_only :: "sys \<Rightarrow> sys \<Rightarrow> bool" where
  "outbox_only s t \<longleftrightarrow> (\<exists>d. t = s\<lparr>webhook_deliveries := d\<rparr>)"

interpretation outbox: evolution outbox_only
proof
  show "outbox_only s s" for s unfolding outbox_only_def by (rule exI [of _ "webhook_deliveries s"]) simp
  show "outbox_only s u" if "outbox_only s t" "outbox_only t u" for s t u
    using that by (auto simp: outbox_only_def)
qed

lemma emit_outbox: "evolves outbox_only (emit env now ws etype p)"
  unfolding emit_def enqueue_def
  by (auto intro!: outbox.bind outbox.basic outbox.in_transaction outbox.loop evolves_writes
      simp: outbox_only_def)

lemma enqueue_all: "\<exists>t xs. for_each (enqueue env now etype p) hooks s = (t, Inr xs)"
  by (induction hooks arbitrary: s) (auto simp: enqueue_def bind_s_apply split: sum.splits, metis snd_conv sum.distinct(1))

lemma emit_ok:
  assumes "etype \<in> set webhook_event_types"
  obtains t n where "emit env now ws etype p s = (t, Inr n)" "outbox_only s t"
proof -
  obtain t xs where "for_each (enqueue env now etype p) (subscribers ws etype s) s = (t, Inr xs)"
    using enqueue_all by blast
  then have "emit env now ws etype p s = (t, Inr (length xs))"
    using assms by (simp add: emit_def transaction_def bind_s_apply)
  then show thesis using that outbox.after [OF emit_outbox] by blast
qed

lemma outbox_only_frame:
  assumes "outbox_only s t"
  shows "reports t = reports s" "report_figures t = report_figures s" "figures t = figures s"
    "objects t = objects s" "alerts t = alerts s" "deployments t = deployments s"
    "ingestion_stats_daily t = ingestion_stats_daily s" "webhooks t = webhooks s"
  using assms by (auto simp: outbox_only_def)

section \<open>Reports\<close>

lemma count_label_total: "sum_list (map snd (count_label g prof)) = sum_list (map snd prof) + 1"
  by (induction prof) auto

lemma count_label_lookup:
  "map_of (count_label g prof) h =
     (if g = h then Some ((case map_of prof h of None \<Rightarrow> 0 | Some n \<Rightarrow> n) + 1) else map_of prof h)"
  by (induction prof) (auto split: option.splits)

lemma fold_profile_total:
  "sum_list (map snd (fold (\<lambda>f. count_label (grade_label f)) figs prof)) = sum_list (map snd prof) + int (length figs)"
  by (induction figs arbitrary: prof) (simp_all add: count_label_total)

lemma fold_profile_lookup:
  "(case map_of (fold (\<lambda>f. count_label (grade_label f)) figs prof) h of None \<Rightarrow> 0 | Some n \<Rightarrow> n)
     = (case map_of prof h of None \<Rightarrow> 0 | Some n \<Rightarrow> n) + int (length (filter (\<lambda>f. grade_label f = h) figs))"
  by (induction figs arbitrary: prof) (auto simp: count_label_lookup split: option.splits)

lemma latest_figures_iff:
  "f \<in> set (latest_figures dep period s) \<longleftrightarrow>
     (\<exists>ref \<in> set (map fig_ref (select_rows (\<lambda>g. fig_deployment_id g = dep \<and> fig_period g = period) (figures s))).
        latest_by fig_version (filter (\<lambda>g. fig_ref g = ref)
          (select_rows (\<lambda>g. fig_deployment_id g = dep \<and> fig_period g = period) (figures s))) = Some f)"
  by (auto simp: latest_figures_def Let_def List.map_filter_def image_iff)

lemma latest_figures_sound:
  assumes "f \<in> set (latest_figures dep period s)"
  shows "f \<in> set (tbl_rows (figures s))" "fig_deployment_id f = dep" "fig_period f = period"
    "g \<in> set (tbl_rows (figures s)) \<Longrightarrow> fig_deployment_id g = dep \<Longrightarrow> fig_period g = period
       \<Longrightarrow> fig_ref g = fig_ref f \<Longrightarrow> fig_version g \<le> fig_version f"
proof -
  obtain ref where "latest_by fig_version (filter (\<lambda>g. fig_ref g = ref)
      (select_rows (\<lambda>g. fig_deployment_id g = dep \<and> fig_period g = period) (figures s))) = Some f"
    using assms unfolding latest_figures_iff by blast
  then have f: "f \<in> set (filter (\<lambda>g. fig_ref g = ref)
      (select_rows (\<lambda>g. fig_deployment_id g = dep \<and> fig_period g = period) (figures s)))"
    "\<forall>g \<in> set (filter (\<lambda>g. fig_ref g = ref)
      (select_rows (\<lambda>g. fig_deployment_id g = dep \<and> fig_period g = period) (figures s))). fig_version g \<le> fig_version f"
    by (blast dest: latest_by_Some)+
  show "f \<in> set (tbl_rows (figures s))" "fig_deployment_id f = dep" "fig_period f = period"
    using f(1) by (simp_all add: select_rows_def)
  have "fig_ref f = ref" using f(1) by simp
  then show "fig_version g \<le> fig_version f"
    if "g \<in> set (tbl_rows (figures s))" "fig_deployment_id g = dep" "fig_period g = period" "fig_ref g = fig_ref f"
    by (intro bspec [OF f(2)]) (simp add: select_rows_def that)
qed

lemma latest_figures_complete:
  assumes "g \<in> set (tbl_rows (figures s))" "fig_deployment_id g = dep" "fig_period g = period"
  shows "\<exists>f \<in> set (latest_figures dep period s). fig_ref f = fig_ref g"
proof -
  let ?rows = "select_rows (\<lambda>g. fig_deployment_id g = dep \<and> fig_period g = period) (figures s)"
  have g: "g \<in> set ?rows" using assms by (simp add: select_rows_def)
  then have "filter (\<lambda>h. fig_ref h = fig_ref g) ?rows \<noteq> []" by (auto simp: filter_empty_conv)
  then have "latest_by fig_version (filter (\<lambda>h. fig_ref h = fig_ref g) ?rows) \<noteq> None"
    unfolding latest_by_None .
  then obtain f where f: "latest_by fig_version (filter (\<lambda>h. fig_ref h = fig_ref g) ?rows) = Some f" by blast
  then have "fig_ref f = fig_ref g" by (auto dest: latest_by_Some)
  moreover have "f \<in> set (latest_figures dep period s)" unfolding latest_figures_iff using f g by auto
  ultimately show ?thesis by blast
qed

text \<open>The state a report leaves, but for the outbox.\<close>

definition with_report :: "engine_env \<Rightarrow> int \<Rightarrow> int \<Rightarrow> string \<Rightarrow> sys \<Rightarrow> sys" where
  "with_report env ws dep period s =
     (let figs = latest_figures dep period s in
      put_object REPORT_BUCKET (artifact_path ws (report_ref_of period) (next_report_version dep period s))
        (artifact_text env period (next_report_version dep period s) figs)
        (bind_figures dep (tbl_seq (reports s)) figs (add_report ws dep period figs s)))"

lemma issue_report_ok:
  assumes "exists_row (\<lambda>d. dep_id d = dep) (deployments s)" "period_column_ok period"
  obtains t where "issue_report env ws dep period s = (t, Inr (report_ref_of period))"
    "outbox_only (with_report env ws dep period s) t"
proof -
  have b: "report_body ws dep period s =
     (bind_figures dep (tbl_seq (reports s)) (latest_figures dep period s)
        (add_report ws dep period (latest_figures dep period s) s),
      Inr (next_report_version dep period s, latest_figures dep period s))"
    using assms by (simp add: report_body_def bind_s_apply)
  have e: "''report.issued'' \<in> set webhook_event_types" by (simp add: webhook_event_types_def)
  obtain t n where t: "emit (eng_hooks env) (eng_now env) ws ''report.issued''
       (JObj [(''report_id'', JStr (report_ref_of period)), (''version'', JInt (next_report_version dep period s)),
              (''period'', JStr period),
              (''deployment_id'', deployment_ref_json dep (with_report env ws dep period s))])
       (with_report env ws dep period s) = (t, Inr n)"
      "outbox_only (with_report env ws dep period s) t"
    using emit_ok [OF e] by blast
  have "issue_report env ws dep period s = (t, Inr (report_ref_of period))"
    using t(1) unfolding with_report_def Let_def
    by (simp add: issue_report_def transaction_def b bind_s_apply issue_report_webhook_def)
  with t(2) show thesis using that by blast
qed

lemma with_report_rows:
  "tbl_rows (reports (with_report env ws dep period s)) = tbl_rows (reports s) @
     [new_report ws dep period (grade_profile (latest_figures dep period s)) (next_report_version dep period s)
        (tbl_seq (reports s))]"
  "report_figures (with_report env ws dep period s) = report_figures s @
     map (\<lambda>f. \<lparr>rf_deployment_id = dep, rf_report_id = tbl_seq (reports s), rf_figure_id = fig_id f\<rparr>)
       (latest_figures dep period s)"
  "figures (with_report env ws dep period s) = figures s"
  "deployments (with_report env ws dep period s) = deployments s"
  by (simp_all add: with_report_def Let_def put_object_def bind_figures_def add_report_def append_version_def
      table_simps next_report_version_def)

lemma with_report_object:
  "get_object REPORT_BUCKET (artifact_path ws (report_ref_of period) (next_report_version dep period s))
     (with_report env ws dep period s)
   = Inr (artifact_text env period (next_report_version dep period s) (latest_figures dep period s))"
  by (simp add: with_report_def Let_def files.get_put)

lemma outbox_get_object: "outbox_only s t \<Longrightarrow> get_object b x t = get_object b x s"
  by (simp add: get_object_def outbox_only_frame)

text \<open>
  C28: a report binds exactly the latest figures of its deployment and period. Issuing
  succeeds for a known deployment and a well-formed period; one report is added, with the
  next version and the one before it as the one it supersedes; it is bound to one figure for
  every reference of the period, the one of the greatest version; its profile counts these
  figures by grade; and its artifact is readable where the report says.
\<close>

theorem report_binds_latest:
  assumes "exists_row (\<lambda>d. dep_id d = dep) (deployments s)" "period_column_ok period"
  shows "\<exists>t rep figs. issue_report env ws dep period s = (t, Inr (report_ref_of period))
     \<and> tbl_rows (reports t) = tbl_rows (reports s) @ [rep]
     \<and> rep_version rep = next_report_version dep period s
     \<and> rep_supersedes rep = (if rep_version rep > 1 then Some (rep_version rep - 1) else None)
     \<and> report_figures t = report_figures s @
         map (\<lambda>f. \<lparr>rf_deployment_id = dep, rf_report_id = rep_id rep, rf_figure_id = fig_id f\<rparr>) figs
     \<and> (\<forall>f. f \<in> set figs \<longrightarrow> f \<in> set (tbl_rows (figures s)) \<and> fig_deployment_id f = dep \<and> fig_period f = period
          \<and> (\<forall>g \<in> set (tbl_rows (figures s)). fig_deployment_id g = dep \<and> fig_period g = period
               \<and> fig_ref g = fig_ref f \<longrightarrow> fig_version g \<le> fig_version f))
     \<and> (\<forall>g \<in> set (tbl_rows (figures s)). fig_deployment_id g = dep \<and> fig_period g = period \<longrightarrow>
          (\<exists>f \<in> set figs. fig_ref f = fig_ref g))
     \<and> (\<forall>g. (case map_of (rep_grade_profile rep) g of None \<Rightarrow> 0 | Some n \<Rightarrow> n)
            = int (length (filter (\<lambda>f. grade_label f = g) figs)))
     \<and> get_object REPORT_BUCKET (rep_artifact_path rep) t = Inr (artifact_text env period (rep_version rep) figs)"
proof -
  let ?v = "next_report_version dep period s" and ?figs = "latest_figures dep period s"
  obtain t where t: "issue_report env ws dep period s = (t, Inr (report_ref_of period))"
    "outbox_only (with_report env ws dep period s) t"
    using issue_report_ok [OF assms] by blast
  let ?rep = "new_report ws dep period (grade_profile ?figs) ?v (tbl_seq (reports s))"
  note frame = outbox_only_frame [OF t(2)] outbox_get_object [OF t(2)]
  have p: "(case map_of (grade_profile ?figs) g of None \<Rightarrow> 0 | Some n \<Rightarrow> n)
      = int (length (filter (\<lambda>f. grade_label f = g) ?figs))" for g
    using fold_profile_lookup [of ?figs "[]" g] by (simp add: grade_profile_def)
  show ?thesis
    by (rule exI [of _ t], rule exI [of _ ?rep], rule exI [of _ ?figs])
      (use p with_report_object in \<open>auto simp: t(1) frame with_report_rows new_report_def
        intro: latest_figures_sound latest_figures_complete\<close>)
qed

text \<open>
  The reports of two deployments share their artifact. Paths name the workspace, the
  period and the version but not the deployment; when a second deployment of the workspace
  issues the same version for the same period, the artifact of the first report is
  overwritten, and its path reads back the figures of the second deployment.
\<close>

theorem report_artifact_overwritten:
  assumes "dep \<noteq> dep'" "exists_row (\<lambda>d. dep_id d = dep) (deployments s)"
    and "exists_row (\<lambda>d. dep_id d = dep') (deployments s)" "period_column_ok period"
    and "next_report_version dep' period s = next_report_version dep period s"
  shows "\<exists>t u rep rep'. issue_report env ws dep period s = (t, Inr (report_ref_of period))
     \<and> issue_report env ws dep' period t = (u, Inr (report_ref_of period))
     \<and> tbl_rows (reports u) = tbl_rows (reports s) @ [rep, rep']
     \<and> rep_deployment_id rep = dep \<and> rep_deployment_id rep' = dep'
     \<and> rep_artifact_path rep' = rep_artifact_path rep
     \<and> get_object REPORT_BUCKET (rep_artifact_path rep) u
         = Inr (artifact_text env period (rep_version rep) (latest_figures dep' period s))"
proof -
  obtain t where t: "issue_report env ws dep period s = (t, Inr (report_ref_of period))"
    "outbox_only (with_report env ws dep period s) t"
    using issue_report_ok [OF assms(2,4)] by blast
  note ft = outbox_only_frame [OF t(2)]
  have "exists_row (\<lambda>d. dep_id d = dep') (deployments t)" using assms(3) by (simp add: ft with_report_rows)
  then obtain u where u: "issue_report env ws dep' period t = (u, Inr (report_ref_of period))"
    "outbox_only (with_report env ws dep' period t) u"
    using issue_report_ok [OF _ assms(4)] by blast
  note fu = outbox_only_frame [OF u(2)] outbox_get_object [OF u(2)]
  have v: "next_report_version dep' period t = next_report_version dep' period s"
    using assms(1)
    by (simp add: next_report_version_def next_version_def select_rows_def ft with_report_rows rep_key_def new_report_def)
  have l: "latest_figures dep' period t = latest_figures dep' period s"
    by (simp add: latest_figures_def ft with_report_rows)
  let ?rep = "new_report ws dep period (grade_profile (latest_figures dep period s))
      (next_report_version dep period s) (tbl_seq (reports s))"
  let ?rep' = "new_report ws dep' period (grade_profile (latest_figures dep' period t))
      (next_report_version dep' period t) (tbl_seq (reports t))"
  have "tbl_rows (reports u) = tbl_rows (reports s) @ [?rep, ?rep']" by (simp only: fu ft with_report_rows append.assoc append.simps)
  moreover have "rep_artifact_path ?rep' = rep_artifact_path ?rep" by (simp add: new_report_def v assms(5))
  moreover have "get_object REPORT_BUCKET (rep_artifact_path ?rep) u
      = Inr (artifact_text env period (rep_version ?rep) (latest_figures dep' period s))"
    using with_report_object [of ws period dep' t env] by (simp add: fu new_report_def v l assms(5))
  moreover have "rep_deployment_id ?rep = dep" "rep_deployment_id ?rep' = dep'" by (simp_all add: new_report_def)
  ultimately show ?thesis using t(1) u(1) by blast
qed

section \<open>Monitors\<close>

text \<open>The alert a condition calls for.\<close>

definition alert_for :: "engine_env \<Rightarrow> int \<Rightarrow> int \<times> string \<times> string \<Rightarrow> alert_row \<Rightarrow> bool" where
  "alert_for env ws c a = (al_workspace_id a = ws \<and> al_deployment_id a = Some (fst c) \<and> al_code a = fst (snd c)
     \<and> al_detail a = snd (snd c) \<and> al_status a = Alert_Open)"

definition monitor_inputs_kept :: "sys \<Rightarrow> sys \<Rightarrow> bool" where
  "monitor_inputs_kept s t = (deployments t = deployments s \<and> ingestion_stats_daily t = ingestion_stats_daily s)"

lemma raise_alert_ok:
  "\<exists>t ref a. raise_alert env ws d code detail s = (t, Inr ref) \<and> ref \<noteq> []
     \<and> tbl_rows (alerts t) = tbl_rows (alerts s) @ [a] \<and> alert_for env ws (d, code, detail) a
     \<and> monitor_inputs_kept s t"
proof -
  define ref where "ref = ''al_'' @ eng_token env (tbl_seq (alerts s))"
  define s' where "s' = s\<lparr>alerts := insert_row (new_alert ws d code detail ref) (alerts s)\<rparr>"
  have e: "''alert.raised'' \<in> set webhook_event_types" by (simp add: webhook_event_types_def)
  obtain t n where t: "emit (eng_hooks env) (eng_now env) ws ''alert.raised''
      (JObj [(''alert_id'', JStr ref), (''code'', JStr code)]) s' = (t, Inr n)" "outbox_only s' t"
    using emit_ok [OF e] by blast
  have r: "new_ref (eng_token env (tbl_seq (alerts s))) ''alert'' = Inr ref"
    by (simp add: new_ref_def ref_prefix_def ref_prefixes_def ref_def)
  have "raise_alert env ws d code detail s = (t, Inr ref)"
    using t(1) r by (simp add: raise_alert_def bind_s_lift bind_s_apply s'_def)
  with outbox_only_frame [OF t(2)] show ?thesis
    by (intro exI conjI) (assumption, auto simp: ref_def s'_def table_simps new_alert_def alert_for_def monitor_inputs_kept_def)
qed

lemma raise_alerts_ok:
  "\<exists>t refs as. for_each (\<lambda>(d, code, detail). raise_alert env ws d code detail) found s = (t, Inr refs)
     \<and> filter (\<lambda>x. x \<noteq> []) refs = refs \<and> length refs = length as
     \<and> tbl_rows (alerts t) = tbl_rows (alerts s) @ as \<and> list_all2 (alert_for env ws) found as
     \<and> monitor_inputs_kept s t"
proof (induction found arbitrary: s)
  case Nil
  then show ?case by (auto simp: monitor_inputs_kept_def)
next
  case (Cons c found)
  obtain d code detail where c: "c = (d, code, detail)" by (cases c)
  obtain t ref a where t: "raise_alert env ws d code detail s = (t, Inr ref)" "ref \<noteq> []"
    "tbl_rows (alerts t) = tbl_rows (alerts s) @ [a]" "alert_for env ws c a" "monitor_inputs_kept s t"
    using raise_alert_ok [of env ws d code detail s] c by blast
  obtain u refs as where u: "for_each (\<lambda>(d, code, detail). raise_alert env ws d code detail) found t = (u, Inr refs)"
    "filter (\<lambda>x. x \<noteq> []) refs = refs" "length refs = length as"
    "tbl_rows (alerts u) = tbl_rows (alerts t) @ as" "list_all2 (alert_for env ws) found as"
    "monitor_inputs_kept t u"
    using Cons.IH [of t] by blast
  have "for_each (\<lambda>(d, code, detail). raise_alert env ws d code detail) (c # found) s = (u, Inr (ref # refs))"
    by (simp add: c bind_s_apply t(1) u(1))
  with t u show ?case by (intro exI [of _ u] exI [of _ "ref # refs"] exI [of _ "a # as"])
    (simp add: monitor_inputs_kept_def)
qed

lemma detected_kept: "monitor_inputs_kept s t \<Longrightarrow> detected now ws t = detected now ws s"
  by (simp add: detected_def monitor_inputs_kept_def stats_of_def)

lemma max_instant_of_Some: "max_instant_of xs = Some m \<Longrightarrow> m \<in> set xs \<and> (\<forall>x \<in> set xs. x \<le> m)"
proof -
  have "fold max ys y \<in> insert y (set ys) \<and> (\<forall>x \<in> insert y (set ys). x \<le> fold max ys y)" for ys and y :: int
  proof (induction ys arbitrary: y)
    case (Cons z ys)
    show ?case using Cons.IH [of "max z y"] by (auto simp: max_def split: if_splits)
  qed simp
  then show "max_instant_of xs = Some m \<Longrightarrow> ?thesis"
    by (cases xs) (auto simp: max_instant_of_def)
qed

lemma is_silent_iff:
  "is_silent now rows \<longleftrightarrow> rows \<noteq> [] \<and> (\<forall>r \<in> set rows. is_last_event_at r + 2 * us_per_day \<le> now)"
proof (cases "max_instant_of (map is_last_event_at rows)")
  case None
  then show ?thesis by (cases rows) (simp_all add: is_silent_def max_instant_of_def)
next
  case (Some m)
  then have m: "m \<in> is_last_event_at ` set rows" "\<forall>r \<in> set rows. is_last_event_at r \<le> m"
    using max_instant_of_Some [OF Some] by auto
  have p: "0 < us_per_day" by (simp add: us_per_day_def)
  have "2 \<le> (now - m) div us_per_day \<longleftrightarrow> m + 2 * us_per_day \<le> now"
    using p zdiv_mono1 [of "2 * us_per_day" "now - m" us_per_day] by (auto simp: us_per_day_def)
  with m show ?thesis by (force simp: is_silent_def Some)
qed

lemma conditions_iff:
  "(\<exists>x. (code, x) \<in> set (conditions now dref rows)) \<longleftrightarrow>
     code = ''event_silence'' \<and> is_silent now rows \<or> code = ''join_rate_drop'' \<and> join_is_zero rows"
  by (auto simp: conditions_def)

lemma detected_iff:
  "(\<exists>x. (d, code, x) \<in> set (detected now ws s)) \<longleftrightarrow>
     (\<exists>r \<in> set (tbl_rows (deployments s)). dep_workspace_id r = ws \<and> dep_id r = d
        \<and> (\<exists>x. (code, x) \<in> set (conditions now (dep_ref r) (stats_of d s))))"
  by (simp add: detected_def select_rows_def image_iff) blast

text \<open>
  The monitors raise what they detect, every time. A run always succeeds and adds one
  open alert for each condition found and no other: silence for the deployments of the
  workspace whose stats all end two days ago or more, a dropped join rate for those with ten
  activity events and none joined; as nothing looks for an alert already open, the next run
  finds the same conditions and raises each of them again.
\<close>

theorem monitors_raise_detected:
  "\<exists>t refs as. run_monitors env ws s = (t, Inr refs) \<and> length refs = length as
     \<and> tbl_rows (alerts t) = tbl_rows (alerts s) @ as
     \<and> list_all2 (\<lambda>c a. al_workspace_id a = ws \<and> al_deployment_id a = Some (fst c) \<and> al_code a = fst (snd c)
          \<and> al_detail a = snd (snd c) \<and> al_status a = Alert_Open) (detected (eng_now env) ws s) as
     \<and> (\<forall>d code. (\<exists>x. (d, code, x) \<in> set (detected (eng_now env) ws s)) =
          (\<exists>r \<in> set (tbl_rows (deployments s)). dep_workspace_id r = ws \<and> dep_id r = d
             \<and> (code = ''event_silence'' \<and> stats_of d s \<noteq> []
                  \<and> (\<forall>q \<in> set (stats_of d s). is_last_event_at q + 2 * us_per_day \<le> eng_now env)
                \<or> code = ''join_rate_drop'' \<and> 10 \<le> sum_list (map is_activity (stats_of d s))
                  \<and> sum_list (map is_joined (stats_of d s)) = 0)))
     \<and> detected (eng_now env) ws t = detected (eng_now env) ws s"
proof -
  obtain t refs as where t: "for_each (\<lambda>(d, code, detail). raise_alert env ws d code detail)
       (detected (eng_now env) ws s) s = (t, Inr refs)"
    "filter (\<lambda>x. x \<noteq> []) refs = refs" "length refs = length as"
    "tbl_rows (alerts t) = tbl_rows (alerts s) @ as"
    "list_all2 (alert_for env ws) (detected (eng_now env) ws s) as" "monitor_inputs_kept s t"
    using raise_alerts_ok by blast
  have r: "run_monitors env ws s = (t, Inr refs)"
    by (simp add: run_monitors_def transaction_def bind_s_apply t(1,2))
  have d: "(\<exists>x. (d, code, x) \<in> set (detected (eng_now env) ws s)) =
          (\<exists>r \<in> set (tbl_rows (deployments s)). dep_workspace_id r = ws \<and> dep_id r = d
             \<and> (code = ''event_silence'' \<and> stats_of d s \<noteq> []
                  \<and> (\<forall>q \<in> set (stats_of d s). is_last_event_at q + 2 * us_per_day \<le> eng_now env)
                \<or> code = ''join_rate_drop'' \<and> 10 \<le> sum_list (map is_activity (stats_of d s))
                  \<and> sum_list (map is_joined (stats_of d s)) = 0))" for d code
    unfolding detected_iff conditions_iff is_silent_iff join_is_zero_def by blast
  from t(5) have a: "list_all2 (\<lambda>c a. al_workspace_id a = ws \<and> al_deployment_id a = Some (fst c) \<and> al_code a = fst (snd c)
          \<and> al_detail a = snd (snd c) \<and> al_status a = Alert_Open) (detected (eng_now env) ws s) as"
    by (rule list_all2_mono) (simp add: alert_for_def)
  show ?thesis
    by (rule exI [of _ t], rule exI [of _ refs], rule exI [of _ as], intro conjI allI)
      (rule r t(3) t(4) a d detected_kept [OF t(6)])+
qed

end
