(* ===== verification/EngineExamples.thy ===== *)
theory EngineExamples
  imports ReportsExact
begin

text \<open>
  The engine's theorems applied: one deployment with a month of usage, a price list, a
  license without a price and two work items.
\<close>

section \<open>A month of a deployment\<close>

definition ex_floats :: float_ops where
  "ex_floats = \<lparr>fl_nearest = (\<lambda>q. q), fl_sum = sum_list, fl_sqrt = (\<lambda>n. if n = 4 then 2 else 1),
     fl_round = (\<lambda>q n. q), fl_decimal = (\<lambda>q. q),
     fl_of_json = (\<lambda>j. case j of JInt n \<Rightarrow> Inr (of_int n) | JReal r \<Rightarrow> Inr r | _ \<Rightarrow> Inl TypeError)\<rparr>"

definition ex_engine :: engine_env where
  "ex_engine = \<lparr>eng_now = 1711929600000000, eng_hooks = ex_wenv,
     eng_decimal = (\<lambda>j. case j of JInt n \<Rightarrow> Inr (of_int n) | JReal r \<Rightarrow> Inr r | _ \<Rightarrow> Inl ValueError),
     eng_avg = (\<lambda>xs. sum_list xs / of_nat (length xs)), eng_hours = (\<lambda>d. of_int d / 3600000000),
     eng_floats = ex_floats, eng_token = int_str\<rparr>"

definition ex_dep :: "int \<Rightarrow> deployment_row" where
  "ex_dep i = \<lparr>dep_id = i, dep_workspace_id = 7, dep_type = Saas_Tool, dep_status = Dep_Active,
     dep_ref = ''dep_'' @ int_str i, dep_name = ''Assistant'', dep_external_ref = None, dep_mode = Measured,
     dep_planned_rollout = None\<rparr>"

definition ex_parameters :: parameter_row where
  "ex_parameters = \<lparr>par_id = 1, par_workspace_id = 7, par_version = 1, par_effective_from = 738000, par_currency = ''USD'',
     par_payload = [(''unit_prices'', JObj [(''tokens_in'', JReal (1 / 500000))])]\<rparr>"

definition ex_usage :: meter_row where
  "ex_usage = \<lparr>mu_deployment_id = 42, mu_meter_type = ''tokens_in'', mu_meter_ref = [], mu_bucket_date = 738890,
     mu_quantity_sum = 1500000, mu_gauge_last = None\<rparr>"

definition ex_license :: license_row where
  "ex_license = \<lparr>lic_id = 1, lic_deployment_id = 42, lic_seats_paid = 10, lic_price_per_seat = None,
     lic_per_month = True, lic_currency = ''USD'', lic_valid_from = 738000, lic_valid_to = None\<rparr>"

definition ex_books :: sys where
  "ex_books = empty_sys\<lparr>deployments := Table [ex_dep 42, ex_dep 43] 44, parameter_sets := Table [ex_parameters] 2,
     meter_usage_daily := Table [ex_usage] 2, deployment_licenses := Table [ex_license] 2\<rparr>"

lemma ex_january: "period_bounds ''2024-01'' = Inr ((2024, 1, 1), (2024, 1, 31))" "period_column_ok ''2024-01''"
  by code_simp+

lemma ex_january_days: "ymd2ord (2024, 1, 1) = 738886" "ymd2ord (2024, 1, 31) = 738916"
  by code_simp+

declare ymd2ord.simps [simp del]

lemma ex_resolve: "resolve_parameter_version 7 ''2024-01'' ex_books = Inr (Some 1, par_payload ex_parameters)"
  by (simp add: resolve_parameter_version_def ex_january ex_january_days ex_books_def parameters_at_def select_rows_def
      ex_parameters_def)

lemma ex_deployments:
  "exists_row (\<lambda>d. dep_id d = 42 \<and> dep_workspace_id d = 7) (deployments ex_books)"
  "exists_row (\<lambda>d. dep_id d = 42) (deployments ex_books)" "exists_row (\<lambda>d. dep_id d = 43) (deployments ex_books)"
  by (simp_all add: ex_books_def exists_row_def ex_dep_def)

lemma ex_versions: "versions_ok ex_books"
  by (simp add: versions_ok_def ex_books_def empty_sys_def wf_empty_table wf_versions_def versions_of_def
      select_rows_def table_simps first_versions_def)

section \<open>The theorems at work\<close>

lemma documents_append_only_witness:
  "\<exists>fs. tbl_rows (figures (fst (compute_deployment ex_engine 7 42 ''2024-01'' ex_books))) = tbl_rows (figures ex_books) @ fs"
proof -
  have "(engine_step ex_engine)\<^sup>*\<^sup>* ex_books (fst (compute_deployment ex_engine 7 42 ''2024-01'' ex_books))"
    by (rule r_into_rtranclp, rule engine_step.Computing [of _ 7 42 "''2024-01''" _ _
        "snd (compute_deployment ex_engine 7 42 ''2024-01'' ex_books)"]) simp
  from documents_append_only [OF this ex_versions] show ?thesis by blast
qed

lemma parameters_of_period_witness:
  "\<exists>p \<in> set (tbl_rows (parameter_sets ex_books)). par_version p = 1 \<and> par_effective_from p \<le> 738886"
  using parameters_of_period [OF ex_january(1) ex_resolve] by (auto simp: ex_january_days)

lemma cost_figure_exact_witness:
  "\<exists>t. compute_cost ex_engine 7 42 ''2024-01'' ex_books = (t, Inr ''fig_cost_2024-01'')
     \<and> fig_status (last (tbl_rows (figures t))) = Computed \<and> fig_value (last (tbl_rows (figures t))) = Some 3"
proof -
  let ?prices = "[(''tokens_in'', JReal (1 / 500000))]" and ?usage = "[(''tokens_in'', 1500000)]"
  have n: "numeric_20_6 3 = Inr 3" by (rule numeric_exact [of _ 3000000]) simp_all
  have p: "price_of ex_engine ?prices ''tokens_in'' = Some (1 / 500000)" by (simp add: price_of_def ex_engine_def)
  have m: "meter_usage (eng_avg ex_engine) (usage_rows 42 ((2024, 1, 1), (2024, 1, 31)) ex_books) = ?usage"
    by (simp add: meter_usage_def usage_rows_def select_rows_def ex_books_def ex_usage_def day_between_def
        ex_january_days firsts_def meter_quantity_def GAUGE_METERS_def)
  have c: "cost_of ex_engine ?prices (''tokens_in'', 1500000) = 3"
    "priced_meters ex_engine ?prices ?usage = [''tokens_in'']"
    using p by (simp_all add: cost_of_def priced_meters_def del: not_None_eq)
  have "json_get (par_payload ex_parameters) ''unit_prices'' = Some (JObj ?prices)" by (simp add: ex_parameters_def)
  moreover have "price_list_ok ex_engine ?prices" by (simp add: price_list_ok_def ex_engine_def decimals6_def)
  moreover have "\<forall>u \<in> set ?usage. decimals6 (snd u)" by (simp add: decimals6_def)
  ultimately show ?thesis
    using cost_figure_exact [OF ex_january(1) ex_resolve _ _ m [symmetric] _ _ ex_deployments(1) ex_january(2), of ?prices]
    by (auto simp: c n)
qed

lemma unpriced_seats_abort_witness:
  "\<exists>x. compute_deployment ex_engine 7 42 ''2024-01'' ex_books = (ex_books, Inl x)"
proof (rule unpriced_seats_abort [OF _ ex_resolve])
  show "open_license 42 ex_books = Some ex_license"
    by (simp add: open_license_def ex_books_def fetch_one_def ex_license_def)
  show "seat_price ex_engine ex_license (par_payload ex_parameters) = Inr (None, None)"
    by (simp add: seat_price_def ex_license_def ex_parameters_def json_get_or_def dict_get_def)
qed

lemma report_binds_latest_witness:
  "\<exists>t rep. issue_report ex_engine 7 42 ''2024-01'' ex_books = (t, Inr ''rep_2024-01'')
     \<and> tbl_rows (reports t) = [rep] \<and> rep_version rep = 1 \<and> rep_supersedes rep = None"
proof -
  have "next_report_version 42 ''2024-01'' ex_books = 1"
    by (simp add: next_report_version_def next_version_def select_rows_def ex_books_def empty_sys_def table_simps)
  moreover have "tbl_rows (reports ex_books) = []" by (simp add: ex_books_def empty_sys_def table_simps)
  ultimately show ?thesis
    using report_binds_latest [OF ex_deployments(2) ex_january(2), of ex_engine 7]
    by (auto simp: report_ref_of_def)
qed

lemma report_artifact_overwritten_witness:
  "\<exists>t u rep rep'. issue_report ex_engine 7 42 ''2024-01'' ex_books = (t, Inr ''rep_2024-01'')
     \<and> issue_report ex_engine 7 43 ''2024-01'' t = (u, Inr ''rep_2024-01'')
     \<and> rep_deployment_id rep = 42 \<and> rep_deployment_id rep' = 43
     \<and> tbl_rows (reports u) = [rep, rep'] \<and> rep_artifact_path rep' = rep_artifact_path rep"
proof -
  have "next_report_version 43 ''2024-01'' ex_books = next_report_version 42 ''2024-01'' ex_books"
    by (simp add: next_report_version_def next_version_def select_rows_def ex_books_def empty_sys_def table_simps)
  moreover have "tbl_rows (reports ex_books) = []" by (simp add: ex_books_def empty_sys_def table_simps)
  ultimately show ?thesis
    using report_artifact_overwritten [OF _ ex_deployments(2,3) ex_january(2), of ex_engine 7]
    by (fastforce simp: report_ref_of_def)
qed

section \<open>Two work items\<close>

definition ex_life :: "int \<Rightarrow> int \<Rightarrow> string \<Rightarrow> int \<Rightarrow> event_row" where
  "ex_life i wi event hour = \<lparr>ev_id = i, ev_workspace_id = 7, ev_deployment_id = 42, ev_resolved_user_id = None,
     ev_work_item_id = Some wi, ev_type = (if event = [] then Activity else Lifecycle), ev_origin = Customer_System,
     ev_status = Joined, ev_exclusion = None, ev_key = int_str i, ev_schema_version = ''1.0'',
     ev_occurred_at = 1704672000000000 + hour * 3600000000, ev_source_ref = None,
     ev_payload = [(''event'', JStr event)]\<rparr>"

definition ex_item :: "int \<Rightarrow> work_item_row" where
  "ex_item i = \<lparr>wi_id = i, wi_workspace_id = 7, wi_ref = int_str i, wi_size = None, wi_category = None\<rparr>"

definition ex_items :: sys where
  "ex_items = ex_books\<lparr>work_items := Table [ex_item 1, ex_item 2] 3, events := Table
     [ex_life 1 1 ''created'' 0, ex_life 2 1 ''completed'' 1, ex_life 3 1 [] 0,
      ex_life 4 2 ''created'' 0, ex_life 5 2 ''completed'' 3] 6\<rparr>"

lemma ex_life_day: "0 \<le> h \<Longrightarrow> h < 24 \<Longrightarrow> event_day (ex_life i wi ev h) = 738893"
  by (simp add: event_day_def ex_life_def instant_day_def us_per_day_def epoch_ord_def)

lemma ex_life_events:
  "life_events 42 ((2024, 1, 1), (2024, 1, 31)) ex_items =
     [ex_life 1 1 ''created'' 0, ex_life 2 1 ''completed'' 1, ex_life 4 2 ''created'' 0, ex_life 5 2 ''completed'' 3]"
  by (simp add: life_events_def ex_items_def select_rows_def event_in_def ex_life_day day_between_def ex_january_days)
    (simp add: ex_life_def ex_item_def)

lemma ex_life_simps:
  "ev_deployment_id (ex_life i wi ev h) = 42" "ev_work_item_id (ex_life i wi ev h) = Some wi"
  "ev_type (ex_life i wi ev h) = (if ev = [] then Activity else Lifecycle)"
  "ev_payload (ex_life i wi ev h) = [(''event'', JStr ev)]"
  "ev_occurred_at (ex_life i wi ev h) = 1704672000000000 + h * 3600000000"
  by (simp_all add: ex_life_def)

lemma ex_handling:
  "handling_times ex_engine 42 ((2024, 1, 1), (2024, 1, 31)) ex_items = [(1, 1), (2, 3)]"
  by (simp add: handling_times_def ex_life_events occurrences_def firsts_def List.map_filter_def Let_def
      ex_life_simps ex_engine_def)

lemma ex_assisted: "is_assisted 42 ex_items 1" "\<not> is_assisted 42 ex_items 2"
proof -
  have "tbl_rows (events ex_items) = [ex_life 1 1 ''created'' 0, ex_life 2 1 ''completed'' 1, ex_life 3 1 [] 0,
      ex_life 4 2 ''created'' 0, ex_life 5 2 ''completed'' 3]" by (simp add: ex_items_def)
  then show "is_assisted 42 ex_items 1" "\<not> is_assisted 42 ex_items 2"
    by (simp_all add: is_assisted_def exists_row_def ex_life_simps)
qed

lemma ex_samples:
  "samples ex_engine 42 ((2024, 1, 1), (2024, 1, 31)) True ex_items = [1]"
  "samples ex_engine 42 ((2024, 1, 1), (2024, 1, 31)) False ex_items = [3]"
  by (simp_all add: samples_def ex_handling ex_assisted)

lemma ex_savings:
  "savings_of (eng_floats ex_engine) [1] [3] = \<lparr>sv_assisted = 1, sv_unassisted = 1, sv_effect = 2, sv_margin = 1\<rparr>"
  by (simp add: savings_of_def mean_def ex_engine_def ex_floats_def)

lemma time_savings_refused_iff_witness:
  "\<exists>t. compute_time_savings ex_engine 7 42 ''2024-01'' ex_items = (t, Inr (Some ''fig_time_2024-01''))
     \<and> fig_status (last (tbl_rows (figures t))) \<noteq> Refused"
proof -
  have r: "resolve_parameter_version 7 ''2024-01'' ex_items = Inr (Some 1, par_payload ex_parameters)"
    using ex_resolve by (simp add: resolve_parameter_version_def parameters_at_def ex_items_def)
  obtain F where F: "time_savings_figure ex_engine 7 42 ''2024-01'' ((2024, 1, 1), (2024, 1, 31))
      (savings_of (eng_floats ex_engine) [1] [3]) ex_items = Inr F"
    "fig_value F = None" "figure_insertable F ex_items" "fig_ref F = ''fig_time_2024-01''"
    unfolding time_savings_figure_def ex_savings r
    by (simp add: json_get_or_def ex_parameters_def labor_rate_def figure_insertable_def figure_args_def
        ex_items_def ex_january ex_deployments(1)) (simp add: ex_books_def exists_row_def ex_parameters_def)
  moreover have "F\<lparr>fig_value := None\<rparr> = F" using F(2) by (cases F) simp
  ultimately obtain t where w: "write_figure F ex_items = (t, Inr ''fig_time_2024-01'')"
    using write_figure_apply [of F None ex_items] by (simp add: stored_value_def)
  have c: "compute_time_savings ex_engine 7 42 ''2024-01'' ex_items = (t, Inr (Some ''fig_time_2024-01''))"
    using F(1) w by (simp add: compute_time_savings_def ex_january bind_s_lift bind_s_apply ex_samples)
  show ?thesis
    using time_savings_refused_iff [OF c ex_january(1) refl] c by (auto simp: ex_samples ex_savings Let_def)
qed

section \<open>A monitor run\<close>

definition ex_quiet :: sys where
  "ex_quiet = ex_books\<lparr>ingestion_stats_daily := Table [\<lparr>is_deployment_id = 42, is_source_ref = [],
     is_stat_date = 738890, is_accepted = 12, is_identity_bearing = 12, is_resolved = 0, is_activity = 12,
     is_joined = 0, is_last_event_at = 1704672000000000\<rparr>] 2\<rparr>"

lemma ex_detected:
  "map (\<lambda>c. (fst c, fst (snd c))) (detected (eng_now ex_engine) 7 ex_quiet)
     = [(42, ''event_silence''), (42, ''join_rate_drop'')]"
  by (simp add: detected_def select_rows_def ex_quiet_def ex_books_def ex_dep_def conditions_def stats_of_def
      is_silent_iff join_is_zero_def ex_engine_def us_per_day_def)

lemma monitors_raise_detected_witness:
  "\<exists>t refs. run_monitors ex_engine 7 ex_quiet = (t, Inr refs)
     \<and> map (\<lambda>a. (al_deployment_id a, al_code a, al_status a)) (tbl_rows (alerts t))
       = [(Some 42, ''event_silence'', Alert_Open), (Some 42, ''join_rate_drop'', Alert_Open)]"
proof -
  obtain c d where cd: "detected (eng_now ex_engine) 7 ex_quiet = [c, d]"
    "fst c = 42" "fst (snd c) = ''event_silence''" "fst d = 42" "fst (snd d) = ''join_rate_drop''"
    using ex_detected by (auto simp: map_eq_Cons_conv)
  have "tbl_rows (alerts ex_quiet) = []" by (simp add: ex_quiet_def ex_books_def empty_sys_def table_simps)
  with monitors_raise_detected [of ex_engine 7 ex_quiet] show ?thesis
    unfolding cd(1) by (fastforce simp: list_all2_Cons1 cd(2-))
qed

end
