(* ===== verification/ConfigExamples.thy ===== *)
theory ConfigExamples
  imports ConfigRules WebhooksSafe
begin

text \<open>
  The theorems of the configuration plane applied: a workspace with one deployment, one
  license and one subscription beside the deployment of another workspace.
\<close>

section \<open>Two workspaces\<close>

definition ex_config :: config_env where
  "ex_config = \<lparr>cfg_hooks = ex_wenv, cfg_token = int_str,
     cfg_date = (\<lambda>x. if x = ''2024-01-01'' then Inr 738886 else Inl DatabaseError),
     cfg_instant = (\<lambda>x. if x = ''2024-01-01'' then Inr 1704067200000000 else Inl DatabaseError),
     cfg_numeric = (\<lambda>q. Inr q), cfg_float = (\<lambda>q. q)\<rparr>"

definition ex_owner :: principal where
  "ex_owner = \<lparr>p_api_key_id = 1, p_api_key_ref = ''ak_1'', p_workspace_id = 7, p_owner_user_id = 1,
     p_mode = ''production'', p_scope = Workspace_Scope, p_roles = [''finance_params''], p_granted = {}\<rparr>"

definition ex_deployment :: "int \<Rightarrow> int \<Rightarrow> string \<Rightarrow> deployment_row" where
  "ex_deployment i ws ref = \<lparr>dep_id = i, dep_workspace_id = ws, dep_type = Saas_Tool, dep_status = Dep_Active,
     dep_ref = ref, dep_name = ''Assistant'', dep_external_ref = None, dep_mode = Measured, dep_planned_rollout = None\<rparr>"

definition ex_seats :: license_row where
  "ex_seats = \<lparr>lic_id = 1, lic_deployment_id = 1, lic_seats_paid = 5, lic_price_per_seat = Some 12, lic_per_month = True,
     lic_currency = ''USD'', lic_valid_from = 738000, lic_valid_to = None\<rparr>"

definition ex_subscription :: webhook_row where
  "ex_subscription = \<lparr>wh_id = 1, wh_workspace_id = 7, wh_status = Verified, wh_events = [''report.issued''],
     wh_ref = ''wh_a'', wh_url = ''https://example.org/hook'', wh_secret_hash = ''enc1:''\<rparr>"

definition ex_company :: sys where
  "ex_company = empty_sys\<lparr>deployments := Table [ex_deployment 1 7 ''dep_a'', ex_deployment 2 8 ''dep_b''] 3,
     deployment_licenses := Table [ex_seats] 2, webhooks := Table [ex_subscription] 2\<rparr>"

definition ex_register :: deployment_create where
  "ex_register = \<lparr>dc_name = ''Copilot'', dc_type = Agent, dc_external_ref = Some ''crm'', dc_planned_rollout = None,
     dc_service_users = []\<rparr>"

lemma ex_rules: "config_ok ex_company"
  by (simp add: config_ok_def deployments_ok_def identifiers_ok_def licenses_ok_def parameters_ok_def unique_where_def
      wf_versions_def versions_of_def select_rows_def first_versions_def ex_company_def empty_sys_def table_simps
      ex_deployment_def ex_seats_def)

lemma ex_ids: "wf_table dep_id (deployments ex_company)" "wf_table chg_id (change_log ex_company)"
  "wf_table lic_id (deployment_licenses ex_company)"
  by (simp_all add: wf_table_def ex_company_def ex_deployment_def ex_seats_def empty_sys_def table_simps)

lemma ex_registering:
  "register_deployment ex_config ex_owner ex_register ex_company =
     (ex_company\<lparr>deployments := insert_row (new_deployment ex_owner ex_register ''dep_3'' None) (deployments ex_company)\<rparr>,
      Inr (answer 201 [(''deployment_id'', JStr ''dep_3''), (''type'', JStr ''agent''), (''mode'', JStr ''measured'')]))"
proof -
  have t: "int_str 3 = ''3''" by code_simp
  have "new_ref (cfg_token ex_config (tbl_seq (deployments ex_company))) ''deployment'' = Inr ''dep_3''"
    by (simp add: new_ref_def ref_prefix_def ref_prefixes_def ex_config_def ex_company_def t)
  moreover have "already_registered ex_owner ex_register ex_company = Inr ()"
    by (simp add: already_registered_def fetch_one_def ex_company_def ex_deployment_def ex_register_def)
  moreover have "\<not> deployment_clash (new_deployment ex_owner ex_register ''dep_3'' None (tbl_seq (deployments ex_company))) ex_company"
    by (simp add: deployment_clash_def exists_row_def ex_company_def ex_deployment_def new_deployment_def ex_register_def)
  ultimately show ?thesis
    by (simp add: register_deployment_def transaction_def bind_s_def insert_deployment_def opt_r_def ex_register_def
        present_def)
qed

section \<open>The theorems at work\<close>

lemma config_tenant_safe_witness:
  "filter (\<lambda>d. dep_workspace_id d \<noteq> 7)
     (tbl_rows (deployments (fst (register_deployment ex_config ex_owner ex_register ex_company))))
   = [ex_deployment 2 8 ''dep_b'']"
proof -
  have "(config_step ex_config ex_owner)\<^sup>*\<^sup>* ex_company (fst (register_deployment ex_config ex_owner ex_register ex_company))"
    by (rule r_into_rtranclp, rule config_step.intros(1)) (rule prod.collapse [symmetric])
  from config_tenant_safe [OF this ex_ids, of 7] show ?thesis
    by (simp add: ex_owner_def ex_company_def ex_deployment_def)
qed

lemma config_rules_kept_witness:
  "config_ok (fst (register_deployment ex_config ex_owner ex_register ex_company))"
proof -
  have "(any_step ex_config)\<^sup>*\<^sup>* ex_company (fst (register_deployment ex_config ex_owner ex_register ex_company))"
    unfolding any_step_def by (rule r_into_rtranclp, rule exI, rule config_step.intros(1)) (rule prod.collapse [symmetric])
  from config_rules_kept [OF this ex_rules] show ?thesis by blast
qed

lemma registration_idempotent_witness:
  "\<exists>t. register_deployment ex_config ex_owner ex_register
        (fst (register_deployment ex_config ex_owner ex_register ex_company))
     = (t, Inl (tf_raise ''TF-CFG-003'' (Some ''external_ref'') None (Some ''already applied: dep_3'')))"
proof -
  have p: "present (dc_external_ref ex_register)" by (simp add: present_def ex_register_def)
  obtain d :: deployment_row where d: "answer 201 [(''deployment_id'', JStr ''dep_3''), (''type'', JStr ''agent''), (''mode'', JStr ''measured'')]
      = answer 201 [(''deployment_id'', JStr (dep_ref d)), (''type'', JStr (deployment_type_str (dep_type d))),
          (''mode'', JStr (deployment_mode_str (dep_mode d)))]"
    "register_deployment ex_config ex_owner ex_register
          (fst (register_deployment ex_config ex_owner ex_register ex_company))
        = (fst (register_deployment ex_config ex_owner ex_register ex_company),
           Inl (tf_raise ''TF-CFG-003'' (Some ''external_ref'') None (Some (''already applied: '' @ dep_ref d))))"
    using registration_idempotent [OF ex_registering p refl refl, of ex_config] unfolding ex_registering fst_conv
    by (elim bexE conjE) (rule that, assumption, simp only: ex_registering fst_conv)
  have "dep_ref d = ''dep_3''" using d(1) by (simp add: answer_def)
  with d(2) show ?thesis by (intro exI) simp
qed

definition ex_declaration :: license_declare where
  "ex_declaration = \<lparr>ld_seats_paid = 9, ld_price_per_seat = None, ld_currency = ''USD'', ld_per_month = False,
     ld_valid_from = ''2024-01-01'', ld_licensed_users = []\<rparr>"

lemma ex_resolved: "resolve_deployment ex_owner ''dep_a'' ex_company = Inr (ex_deployment 1 7 ''dep_a'')"
  by (simp add: resolve_deployment_def fetch_one_def ex_company_def ex_deployment_def ex_owner_def require_deployment_def)

lemma license_declared_witness:
  "\<exists>t a l. declare_license ex_config ex_owner ''dep_a'' ex_declaration ex_company = (t, Inr a)
     \<and> fetch_one (is_open 1) (deployment_licenses t) = Some l \<and> lic_seats_paid l = 9
     \<and> tbl_rows (deployment_licenses t) = [ex_seats\<lparr>lic_valid_to := Some 738886\<rparr>, l]"
proof -
  have d: "cfg_date ex_config (ld_valid_from ex_declaration) = Inr 738886"
    by (simp add: ex_config_def ex_declaration_def)
  have c: "\<not> exists_row (\<lambda>l. is_open 1 l \<and> 738886 < lic_valid_from l) (deployment_licenses ex_company)"
    by (simp add: exists_row_def ex_company_def ex_seats_def is_open_def)
  have e: "encode_id ''license'' n = Inr (''ls_'' @ int_str n)" for n
    by (simp add: encode_id_def ref_prefix_def ref_prefixes_def)
  have f: "int4 (ld_seats_paid ex_declaration) = Inr 9" "opt_r (cfg_numeric ex_config) (ld_price_per_seat ex_declaration) = Inr None"
    "char3 (ld_currency ex_declaration) = Inr ''USD''" "ld_licensed_users ex_declaration = []"
    by (simp_all add: ex_declaration_def int4_def opt_r_def char3_def)
  have i: "dep_id (ex_deployment 1 7 ''dep_a'') = 1" by (simp add: ex_deployment_def)
  have "\<exists>t a. declare_license ex_config ex_owner ''dep_a'' ex_declaration ex_company = (t, Inr a)"
    by (simp add: declare_license_def bind_s_def transaction_def close_license_def ex_resolved d c e f i
        del: split_paired_Ex)
  then obtain t a where r: "declare_license ex_config ex_owner ''dep_a'' ex_declaration ex_company = (t, Inr a)" by blast
  have "map (\<lambda>r. if is_open 1 r then r\<lparr>lic_valid_to := Some 738886\<rparr> else r) (tbl_rows (deployment_licenses ex_company))
      = [ex_seats\<lparr>lic_valid_to := Some 738886\<rparr>]" by (simp add: ex_company_def is_open_def ex_seats_def)
  moreover have "ld_seats_paid ex_declaration = 9" by (simp add: ex_declaration_def)
  moreover obtain l :: license_row where "fetch_one (is_open 1) (deployment_licenses t) = Some l" "lic_seats_paid l = ld_seats_paid ex_declaration"
    "tbl_rows (deployment_licenses t) =
       map (\<lambda>r. if is_open 1 r then r\<lparr>lic_valid_to := Some 738886\<rparr> else r) (tbl_rows (deployment_licenses ex_company)) @ [l]"
    using license_declared [OF ex_resolved d, THEN conjunct1, rule_format, OF r] unfolding i
    by (elim exE conjE) (rule that, assumption+)
  ultimately show ?thesis using r by (intro exI conjI) (assumption, simp_all)
qed

definition ex_person :: roster_user where
  "ex_person = \<lparr>ru_user_ref = ''u1'', ru_kind = ''person'', ru_role = None, ru_team = None, ru_display_name = None,
     ru_effective_from = None, ru_effective_to = None, ru_identifiers = []\<rparr>"

lemma roster_batch_atomic_witness:
  "\<exists>t rs. upsert_roster ex_config ex_owner [ex_person] ex_company = (t, Inr (listing rs)) \<and> length rs = 1
     \<and> same_owners ex_company t"
proof -
  have k: "kind_to_user_type ''person'' = ''user''" by code_simp
  have "\<exists>t. upsert_roster ex_config ex_owner [ex_person] ex_company
      = (t, Inr (listing [JObj [(''user_ref'', JStr ''u1''), (''status'', JStr ''upserted'')]]))"
    by (simp add: upsert_roster_def upsert_roster_item_def upsert_user_def bind_s_def transaction_def catch_def
        ex_person_def k parse_enum_def user_types_def opt_r_def)
  then obtain t where r: "upsert_roster ex_config ex_owner [ex_person] ex_company
      = (t, Inr (listing [JObj [(''user_ref'', JStr ''u1''), (''status'', JStr ''upserted'')]]))" by blast
  from roster_batch_atomic [OF r] r show ?thesis by auto
qed

lemma deleted_webhook_is_final_witness:
  "\<exists>t. create_webhook ex_config ex_owner \<lparr>wc_url = ''https://example.org/hook'', wc_events = [''report.issued''],
        wc_secret = ''s''\<rparr> (fst (delete_webhook ex_owner ''wh_a'' ex_company))
     = (t, Inr (answer 200 [(''webhook_id'', JStr ''wh_a''), (''idempotent'', JBool True)]))"
proof -
  have w: "ex_subscription \<in> set (tbl_rows (webhooks ex_company))" "deletable ex_owner ''wh_a'' ex_subscription"
    by (simp_all add: ex_company_def deletable_def ex_subscription_def ex_owner_def)
  then have "exists_row (deletable ex_owner ''wh_a'') (webhooks ex_company)" by (auto simp: exists_row_def)
  then obtain t a where r: "delete_webhook ex_owner ''wh_a'' ex_company = (t, Inr a)"
    by (simp add: delete_webhook_def transaction_def)
  have e: "check_event_types [''report.issued''] = Inr ()" by (simp add: check_event_types_def webhook_event_types_def)
  show ?thesis
    using deleted_webhook_is_final [OF r ex_rules w, of "\<lparr>wc_url = ''https://example.org/hook'',
        wc_events = [''report.issued''], wc_secret = ''s''\<rparr>" ex_config] e
    by (simp add: ex_subscription_def r)
qed

lemma type_change_ignored_witness:
  "update_deployment ex_config ex_owner ''dep_a'' \<lparr>du_name = None, du_planned_rollout = None, du_type = Some ''agent''\<rparr>
     ex_company = (ex_company, Inr (answer 200 [(''deployment_id'', JStr ''dep_a''), (''updated'', JBool False)]))"
  using type_change_ignored [OF ex_resolved, of "''agent''" ex_config]
  by (simp add: ex_deployment_def exists_row_def ex_company_def empty_sys_def table_simps)

end
