(* ===== verification/ReadRules.thy ===== *)
theory ReadRules
  imports ReadPlane Declarations ReportsExact Imports
begin

text \<open>
  What the read plane promises: an answer depends on nothing of another workspace, figures
  and reports are served in their newest versions, seats are classified exactly and small
  cohorts are not split, live cost is the priced sum, and an alert is acknowledged once.
\<close>

section \<open>Reading a part of a table\<close>

lemma find_matching: "find P xs = find P (filter P xs)"
  by (induction xs) auto

lemma filter_within:
  assumes "filter Q ys = filter Q xs"
    and "\<And>r. r \<in> set xs \<Longrightarrow> P r \<Longrightarrow> Q r" and "\<And>r. r \<in> set ys \<Longrightarrow> P r \<Longrightarrow> Q r"
  shows "filter P ys = filter P xs"
proof -
  have "filter P zs = filter P (filter Q zs)" if "\<And>r. r \<in> set zs \<Longrightarrow> P r \<Longrightarrow> Q r" for zs
    unfolding filter_filter by (rule filter_cong) (use that in auto)
  then show ?thesis using assms by metis
qed

lemma select_within:
  assumes "filter Q (tbl_rows t) = filter Q (tbl_rows s)"
    and "\<And>r. r \<in> set (tbl_rows s) \<union> set (tbl_rows t) \<Longrightarrow> P r \<Longrightarrow> Q r"
  shows "select_rows P t = select_rows P s"
  unfolding select_rows_def by (rule filter_within [OF assms(1)]) (use assms(2) in auto)

lemma fetch_within:
  assumes "filter Q (tbl_rows t) = filter Q (tbl_rows s)"
    and "\<And>r. r \<in> set (tbl_rows s) \<union> set (tbl_rows t) \<Longrightarrow> P r \<Longrightarrow> Q r"
  shows "fetch_one P t = fetch_one P s"
  unfolding fetch_one_def
  by (subst (1 2) find_matching, subst filter_within [OF assms(1)]) (use assms(2) in auto)

section \<open>What a workspace sees\<close>

definition own_deployments :: "int \<Rightarrow> sys \<Rightarrow> deployment_row list" where
  "own_deployments ws s = filter (\<lambda>d. dep_workspace_id d = ws) (tbl_rows (deployments s))"

definition same_documents :: "int \<Rightarrow> sys \<Rightarrow> sys \<Rightarrow> bool" where
  "same_documents d s t \<longleftrightarrow>
     filter (\<lambda>f. fig_deployment_id f = d) (tbl_rows (figures t)) = filter (\<lambda>f. fig_deployment_id f = d) (tbl_rows (figures s))
   \<and> filter (\<lambda>r. rep_deployment_id r = d) (tbl_rows (reports t)) = filter (\<lambda>r. rep_deployment_id r = d) (tbl_rows (reports s))
   \<and> filter (\<lambda>b. rf_deployment_id b = d) (report_figures t) = filter (\<lambda>b. rf_deployment_id b = d) (report_figures s)
   \<and> filter (\<lambda>l. lic_deployment_id l = d) (tbl_rows (deployment_licenses t))
       = filter (\<lambda>l. lic_deployment_id l = d) (tbl_rows (deployment_licenses s))
   \<and> filter (\<lambda>a. ua_deployment_id a = d) (tbl_rows (user_activity_daily t))
       = filter (\<lambda>a. ua_deployment_id a = d) (tbl_rows (user_activity_daily s))
   \<and> filter (\<lambda>m. mu_deployment_id m = d) (tbl_rows (meter_usage_daily t))
       = filter (\<lambda>m. mu_deployment_id m = d) (tbl_rows (meter_usage_daily s))
   \<and> filter (\<lambda>r. is_deployment_id r = d) (tbl_rows (ingestion_stats_daily t))
       = filter (\<lambda>r. is_deployment_id r = d) (tbl_rows (ingestion_stats_daily s))"

text \<open>Two states hold the same rows of a workspace and its deployments.\<close>

definition same_workspace :: "int \<Rightarrow> sys \<Rightarrow> sys \<Rightarrow> bool" where
  "same_workspace ws s t \<longleftrightarrow>
     own_deployments ws t = own_deployments ws s
   \<and> (\<forall>d \<in> dep_id ` set (own_deployments ws s). same_documents d s t)
   \<and> filter (\<lambda>r. par_workspace_id r = ws) (tbl_rows (parameter_sets t))
       = filter (\<lambda>r. par_workspace_id r = ws) (tbl_rows (parameter_sets s))
   \<and> filter (\<lambda>a. al_workspace_id a = ws) (tbl_rows (alerts t)) = filter (\<lambda>a. al_workspace_id a = ws) (tbl_rows (alerts s))
   \<and> filter (\<lambda>w. wh_workspace_id w = ws) (tbl_rows (webhooks t)) = filter (\<lambda>w. wh_workspace_id w = ws) (tbl_rows (webhooks s))
   \<and> (\<forall>w \<in> set (filter (\<lambda>w. wh_workspace_id w = ws) (tbl_rows (webhooks s))).
        filter (\<lambda>d. dl_webhook_id d = wh_id w) (tbl_rows (webhook_deliveries t))
          = filter (\<lambda>d. dl_webhook_id d = wh_id w) (tbl_rows (webhook_deliveries s)))
   \<and> filter (\<lambda>u. user_workspace_id u = Some ws) (tbl_rows (users t))
       = filter (\<lambda>u. user_workspace_id u = Some ws) (tbl_rows (users s))
   \<and> filter (\<lambda>n. ns_workspace_id n = ws) (tbl_rows (identifier_namespaces t))
       = filter (\<lambda>n. ns_workspace_id n = ws) (tbl_rows (identifier_namespaces s))
   \<and> filter (\<lambda>q. ql_workspace_id q = ws) (tbl_rows (qa_label_definitions t))
       = filter (\<lambda>q. ql_workspace_id q = ws) (tbl_rows (qa_label_definitions s))
   \<and> filter (\<lambda>c. chg_workspace_id c = ws) (tbl_rows (change_log t))
       = filter (\<lambda>c. chg_workspace_id c = ws) (tbl_rows (change_log s))
   \<and> filter (\<lambda>m. mc_workspace_id m = ws) (tbl_rows (mapping_contracts t))
       = filter (\<lambda>m. mc_workspace_id m = ws) (tbl_rows (mapping_contracts s))
   \<and> filter (\<lambda>e. ev_workspace_id e = ws) (tbl_rows (events t)) = filter (\<lambda>e. ev_workspace_id e = ws) (tbl_rows (events s))
   \<and> filter (\<lambda>r. rej_workspace_id r = ws) (tbl_rows (rejected_events t))
       = filter (\<lambda>r. rej_workspace_id r = ws) (tbl_rows (rejected_events s))
   \<and> filter (\<lambda>w. wi_workspace_id w = ws) (tbl_rows (work_items t))
       = filter (\<lambda>w. wi_workspace_id w = ws) (tbl_rows (work_items s))
   \<and> filter (\<lambda>j. imp_workspace_id j = ws) (tbl_rows (import_jobs t))
       = filter (\<lambda>j. imp_workspace_id j = ws) (tbl_rows (import_jobs s))
   \<and> filter (\<lambda>w. ws_id w = ws) (tbl_rows (workspaces t)) = filter (\<lambda>w. ws_id w = ws) (tbl_rows (workspaces s))
   \<and> (\<forall>w \<in> set (filter (\<lambda>w. ws_id w = ws) (tbl_rows (workspaces s))).
        filter (\<lambda>o'. org_id o' = ws_organization_id w) (tbl_rows (organizations t))
          = filter (\<lambda>o'. org_id o' = ws_organization_id w) (tbl_rows (organizations s)))"

text \<open>Primary keys, and the foreign keys that pair a row's reference with its owner.\<close>

definition references_ok :: "sys \<Rightarrow> bool" where
  "references_ok s \<longleftrightarrow>
     wf_table dep_id (deployments s) \<and> wf_table fig_id (figures s) \<and> wf_table rep_id (reports s)
   \<and> (\<forall>a \<in> set (tbl_rows (alerts s)). \<forall>d. al_deployment_id a = Some d \<longrightarrow>
        exists_row (\<lambda>x. dep_id x = d \<and> dep_workspace_id x = al_workspace_id a) (deployments s))
   \<and> (\<forall>n \<in> set (tbl_rows (identifier_namespaces s)). \<forall>d. ns_deployment_id n = Some d \<longrightarrow>
        exists_row (\<lambda>x. dep_id x = d \<and> dep_workspace_id x = ns_workspace_id n) (deployments s))
   \<and> (\<forall>b \<in> set (report_figures s).
        exists_row (\<lambda>r. rep_id r = rf_report_id b \<and> rep_deployment_id r = rf_deployment_id b) (reports s)
      \<and> exists_row (\<lambda>f. fig_id f = rf_figure_id b \<and> fig_deployment_id f = rf_deployment_id b) (figures s))
   \<and> wf_table user_id (users s) \<and> wf_table wi_id (work_items s)
   \<and> (\<forall>e \<in> set (tbl_rows (events s)).
        (\<forall>u. ev_resolved_user_id e = Some u \<longrightarrow>
           exists_row (\<lambda>r. user_id r = u \<and> user_workspace_id r = Some (ev_workspace_id e)) (users s))
      \<and> (\<forall>i. ev_work_item_id e = Some i \<longrightarrow>
           exists_row (\<lambda>w. wi_id w = i \<and> wi_workspace_id w = ev_workspace_id e) (work_items s)))"

lemma same_workspace_own: "same_workspace ws s t \<Longrightarrow> filter (\<lambda>d. dep_workspace_id d = ws) (tbl_rows (deployments t))
    = filter (\<lambda>d. dep_workspace_id d = ws) (tbl_rows (deployments s))"
  by (simp add: same_workspace_def own_deployments_def)

lemma read_deployment_view: "same_workspace (p_workspace_id p) s t \<Longrightarrow> read_deployment p w t = read_deployment p w s"
  unfolding read_deployment_def by (subst fetch_within [OF same_workspace_own]) auto

lemma resolve_deployment_view: "same_workspace (p_workspace_id p) s t \<Longrightarrow> resolve_deployment p w t = resolve_deployment p w s"
  unfolding resolve_deployment_def by (subst fetch_within [OF same_workspace_own]) auto

lemma read_deployment_own:
  "read_deployment p w s = Inr d \<Longrightarrow> d \<in> set (own_deployments (p_workspace_id p) s)"
  by (auto simp: read_deployment_def own_deployments_def bind_r_Inr_iff split: option.splits dest!: fetch_one_Some)

lemma resolve_deployment_own:
  "resolve_deployment p w s = Inr d \<Longrightarrow> d \<in> set (own_deployments (p_workspace_id p) s)"
  by (auto simp: resolve_deployment_def own_deployments_def bind_r_Inr_iff split: option.splits dest!: fetch_one_Some)

lemma view_documents: "same_workspace ws s t \<Longrightarrow> d \<in> set (own_deployments ws s) \<Longrightarrow> same_documents (dep_id d) s t"
  by (simp add: same_workspace_def)

section \<open>Answers depend on the own workspace alone\<close>

text \<open>The queries of a deployment.\<close>

lemma figures_view:
  assumes "same_documents d s t"
  shows "figure_rows d period t = figure_rows d period s" "newest_figure d ref t = newest_figure d ref s"
proof -
  have f: "filter (\<lambda>f. fig_deployment_id f = d) (tbl_rows (figures t)) = filter (\<lambda>f. fig_deployment_id f = d) (tbl_rows (figures s))"
    using assms by (simp add: same_documents_def)
  show "figure_rows d period t = figure_rows d period s"
    unfolding figure_rows_def by (rule select_within [OF f]) simp
  show "newest_figure d ref t = newest_figure d ref s"
    unfolding newest_figure_def by (subst select_within [OF f]) simp_all
qed

lemma reports_view:
  assumes "same_documents d s t" "\<And>r. P r \<Longrightarrow> rep_deployment_id r = d"
  shows "select_rows P (reports t) = select_rows P (reports s)"
  using assms by (intro select_within [of "\<lambda>r. rep_deployment_id r = d"]) (simp_all add: same_documents_def)

text \<open>The rows bound to a report are those of its deployment.\<close>

lemma bound_to_report:
  assumes "references_ok s" "r \<in> set (tbl_rows (reports s))" "b \<in> set (report_figures s)" "rf_report_id b = rep_id r"
  shows "rf_deployment_id b = rep_deployment_id r"
proof -
  obtain r' where r': "r' \<in> set (tbl_rows (reports s))" "rep_id r' = rf_report_id b" "rep_deployment_id r' = rf_deployment_id b"
    using assms(1,3) by (auto simp: references_ok_def exists_row_def)
  then have "r' = r" using assms wf_table_unique [of rep_id "reports s" r' r] by (simp add: references_ok_def)
  with r' show ?thesis by simp
qed

lemma bound_figure:
  assumes "references_ok s" "b \<in> set (report_figures s)" "f \<in> set (tbl_rows (figures s))" "fig_id f = rf_figure_id b"
  shows "fig_deployment_id f = rf_deployment_id b"
proof -
  obtain f' where f': "f' \<in> set (tbl_rows (figures s))" "fig_id f' = rf_figure_id b" "fig_deployment_id f' = rf_deployment_id b"
    using assms(1,2) by (auto simp: references_ok_def exists_row_def)
  then have "f' = f" using assms wf_table_unique [of fig_id "figures s" f' f] by (simp add: references_ok_def)
  with f' show ?thesis by simp
qed

lemma bound_figures_view:
  assumes "references_ok s" "references_ok t" "same_documents d s t"
    and "r \<in> set (tbl_rows (reports s))" "r \<in> set (tbl_rows (reports t))" "rep_deployment_id r = d"
  shows "bound_figures (rep_id r) t = bound_figures (rep_id r) s"
proof -
  have rows: "filter (\<lambda>b. rf_report_id b = rep_id r) (report_figures t) = filter (\<lambda>b. rf_report_id b = rep_id r) (report_figures s)"
    by (rule filter_within [of "\<lambda>b. rf_deployment_id b = d"])
      (use assms bound_to_report in \<open>auto simp: same_documents_def\<close>)
  have "fetch_one (\<lambda>f. fig_id f = rf_figure_id b) (figures t) = fetch_one (\<lambda>f. fig_id f = rf_figure_id b) (figures s)"
    if b: "b \<in> set (filter (\<lambda>b. rf_report_id b = rep_id r) (report_figures s))" for b
  proof (rule fetch_within [of "\<lambda>f. fig_deployment_id f = d"])
    show "filter (\<lambda>f. fig_deployment_id f = d) (tbl_rows (figures t)) = filter (\<lambda>f. fig_deployment_id f = d) (tbl_rows (figures s))"
      using assms(3) by (simp add: same_documents_def)
    have bt: "b \<in> set (report_figures s)" "b \<in> set (report_figures t)" "rf_report_id b = rep_id r"
      using b arg_cong [OF rows, of set] by auto
    then have "rf_deployment_id b = d" using bound_to_report [OF assms(1,4)] assms(6) by simp
    then show "fig_deployment_id f = d"
      if "f \<in> set (tbl_rows (figures s)) \<union> set (tbl_rows (figures t))" "fig_id f = rf_figure_id b" for f
      using that bt bound_figure assms(1,2) by blast
  qed
  then show ?thesis unfolding bound_figures_def rows List.map_filter_def by (intro map_cong filter_cong) simp_all
qed

lemmas view_rows = same_workspace_def same_documents_def

lemma get_report_view:
  assumes "same_workspace (p_workspace_id p) s t" "references_ok s" "references_ok t"
  shows "get_report env p w ref t = get_report env p w ref s"
proof (cases "read_deployment p w s")
  case (Inl e)
  then show ?thesis by (simp add: get_report_def read_deployment_view [OF assms(1)])
next
  case (Inr d)
  have same: "same_documents (dep_id d) s t" using view_documents [OF assms(1) read_deployment_own [OF Inr]] .
  let ?P = "\<lambda>r. rep_deployment_id r = dep_id d \<and> rep_ref r = ref"
  have rows: "select_rows ?P (reports t) = select_rows ?P (reports s)" by (rule reports_view [OF same]) simp
  show ?thesis
  proof (cases "latest_by rep_version (select_rows ?P (reports s))")
    case None
    then show ?thesis by (simp add: get_report_def read_deployment_view [OF assms(1)] Inr rows)
  next
    case (Some r)
    then have r: "r \<in> set (select_rows ?P (reports s))" by (simp add: latest_by_Some)
    then have "r \<in> set (select_rows ?P (reports t))" using rows by simp
    with r have "bound_figures (rep_id r) t = bound_figures (rep_id r) s"
      by (intro bound_figures_view [OF assms(2,3) same]) (simp_all add: select_rows_def)
    with Some show ?thesis by (simp add: get_report_def read_deployment_view [OF assms(1)] Inr rows)
  qed
qed

text \<open>The deployment of a row that names one, found among those of the row's workspace.\<close>

lemma named_deployment_view:
  assumes "same_workspace ws s t" "references_ok s" "references_ok t"
    and "\<And>d. x = Some d \<Longrightarrow> exists_row (\<lambda>y. dep_id y = d \<and> dep_workspace_id y = ws) (deployments s)"
    and "\<And>d. x = Some d \<Longrightarrow> exists_row (\<lambda>y. dep_id y = d \<and> dep_workspace_id y = ws) (deployments t)"
  shows "fetch_one (\<lambda>y. Some (dep_id y) = x) (deployments t) = fetch_one (\<lambda>y. Some (dep_id y) = x) (deployments s)"
proof (rule fetch_within [OF same_workspace_own [OF assms(1)]])
  fix y
  assume y: "y \<in> set (tbl_rows (deployments s)) \<union> set (tbl_rows (deployments t))" "Some (dep_id y) = x"
  have "dep_workspace_id y = ws"
    if u: "wf_table dep_id (deployments u)" "exists_row (\<lambda>z. dep_id z = dep_id y \<and> dep_workspace_id z = ws) (deployments u)"
      "y \<in> set (tbl_rows (deployments u))" for u
    using u(2) wf_table_unique [OF u(1) u(3)] by (force simp: exists_row_def)
  then show "dep_workspace_id y = ws"
    using y assms(2-5) by (auto simp: references_ok_def)
qed

lemma list_alerts_view:
  assumes "same_workspace (p_workspace_id p) s t" "references_ok s" "references_ok t"
  shows "list_alerts env p status t = list_alerts env p status s"
proof -
  have rows: "select_rows (\<lambda>a. al_workspace_id a = p_workspace_id p \<and> (st = None \<or> st = Some (al_status a))) (alerts t)
      = select_rows (\<lambda>a. al_workspace_id a = p_workspace_id p \<and> (st = None \<or> st = Some (al_status a))) (alerts s)" for st
    using assms(1) by (intro select_within [of "\<lambda>a. al_workspace_id a = p_workspace_id p"]) (simp_all add: same_workspace_def)
  have mine: "a \<in> set (tbl_rows (alerts t))" if "a \<in> set (tbl_rows (alerts s))" "al_workspace_id a = p_workspace_id p" for a
  proof -
    have "filter (\<lambda>a. al_workspace_id a = p_workspace_id p) (tbl_rows (alerts t))
        = filter (\<lambda>a. al_workspace_id a = p_workspace_id p) (tbl_rows (alerts s))"
      using assms(1) by (simp add: same_workspace_def)
    then have "a \<in> set (filter (\<lambda>a. al_workspace_id a = p_workspace_id p) (tbl_rows (alerts t)))" using that by simp
    then show ?thesis by simp
  qed
  have "alert_item env t a = alert_item env s a"
    if "a \<in> set (tbl_rows (alerts s))" "al_workspace_id a = p_workspace_id p" for a
  proof -
    have "fetch_one (\<lambda>d. Some (dep_id d) = al_deployment_id a) (deployments t)
        = fetch_one (\<lambda>d. Some (dep_id d) = al_deployment_id a) (deployments s)"
      using that mine [OF that] assms(2,3)
      by (intro named_deployment_view [OF assms]) (auto simp: references_ok_def)
    then show ?thesis by (simp add: alert_item_def)
  qed
  then have items: "map (alert_item env t) (sort_key k (select_rows (\<lambda>a. al_workspace_id a = p_workspace_id p
        \<and> (st = None \<or> st = Some (al_status a))) (alerts s)))
      = map (alert_item env s) (sort_key k (select_rows (\<lambda>a. al_workspace_id a = p_workspace_id p
        \<and> (st = None \<or> st = Some (al_status a))) (alerts s)))" for k :: "alert_row \<Rightarrow> int" and st
    by (intro map_cong refl) (auto simp: select_rows_def)
  show ?thesis unfolding list_alerts_def rows items ..
qed

lemma open_alerts_view:
  assumes "same_workspace ws s t" "references_ok s" "references_ok t" "d \<in> set (own_deployments ws s)"
  shows "open_alerts (dep_id d) t = open_alerts (dep_id d) s"
  unfolding open_alerts_def
proof (rule select_within [of "\<lambda>a. al_workspace_id a = ws"])
  show "filter (\<lambda>a. al_workspace_id a = ws) (tbl_rows (alerts t)) = filter (\<lambda>a. al_workspace_id a = ws) (tbl_rows (alerts s))"
    using assms(1) by (simp add: same_workspace_def)
  fix a
  assume a: "a \<in> set (tbl_rows (alerts s)) \<union> set (tbl_rows (alerts t))"
    "al_deployment_id a = Some (dep_id d) \<and> al_status a = Alert_Open"
  have "d \<in> set (own_deployments ws t)" using assms(1,4) by (simp add: same_workspace_def)
  then have d: "d \<in> set (tbl_rows (deployments s))" "d \<in> set (tbl_rows (deployments t))" "dep_workspace_id d = ws"
    using assms(4) by (simp_all add: own_deployments_def)
  have "al_workspace_id a = ws"
    if u: "references_ok u" "a \<in> set (tbl_rows (alerts u))" "d \<in> set (tbl_rows (deployments u))" for u
  proof -
    have "exists_row (\<lambda>x. dep_id x = dep_id d \<and> dep_workspace_id x = al_workspace_id a) (deployments u)"
      using u(1,2) a(2) by (simp add: references_ok_def)
    then obtain x where "x \<in> set (tbl_rows (deployments u))" "dep_id x = dep_id d" "dep_workspace_id x = al_workspace_id a"
      by (auto simp: exists_row_def)
    then have "x = d" using wf_table_unique [of dep_id "deployments u" x d] u by (simp add: references_ok_def)
    with \<open>dep_workspace_id x = al_workspace_id a\<close> d(3) show ?thesis by simp
  qed
  then show "al_workspace_id a = ws" using a(1) d(1,2) assms(2,3) by auto
qed

lemma list_id_namespaces_view:
  assumes "same_workspace (p_workspace_id p) s t" "references_ok s" "references_ok t"
  shows "list_id_namespaces p t = list_id_namespaces p s"
proof -
  let ?mine = "\<lambda>n. ns_workspace_id n = p_workspace_id p"
  have part: "filter ?mine (tbl_rows (identifier_namespaces t)) = filter ?mine (tbl_rows (identifier_namespaces s))"
    using assms(1) by (simp add: same_workspace_def)
  have rows: "select_rows ?mine (identifier_namespaces t) = select_rows ?mine (identifier_namespaces s)"
    by (rule select_within [OF part]) simp
  have "namespace_item t n = namespace_item s n" if n: "n \<in> set (select_rows ?mine (identifier_namespaces s))" for n
  proof -
    have "n \<in> set (tbl_rows (identifier_namespaces s))" "n \<in> set (tbl_rows (identifier_namespaces t))" "?mine n"
      using n arg_cong [OF part, of set] by (auto simp: select_rows_def)
    then have "fetch_one (\<lambda>d. Some (dep_id d) = ns_deployment_id n) (deployments t)
        = fetch_one (\<lambda>d. Some (dep_id d) = ns_deployment_id n) (deployments s)"
      using assms(2,3) by (intro named_deployment_view [OF assms]) (auto simp: references_ok_def)
    then show ?thesis by (simp add: namespace_item_def)
  qed
  then have "all_r (namespace_item t) xs = all_r (namespace_item s) xs"
    if "set xs \<subseteq> set (select_rows ?mine (identifier_namespaces s))" for xs
    using that by (induction xs) auto
  then show ?thesis by (simp add: list_id_namespaces_def rows)
qed

lemma delivery_log_view:
  assumes "same_workspace (p_workspace_id p) s t"
  shows "webhook_deliveries_log env p ref t = webhook_deliveries_log env p ref s"
proof -
  let ?P = "\<lambda>w. wh_ref w = ref \<and> wh_workspace_id w = p_workspace_id p"
  have f: "fetch_one ?P (webhooks t) = fetch_one ?P (webhooks s)"
    using assms by (intro fetch_within [of "\<lambda>w. wh_workspace_id w = p_workspace_id p"]) (simp_all add: same_workspace_def)
  show ?thesis
  proof (cases "fetch_one ?P (webhooks s)")
    case None
    then show ?thesis by (simp add: webhook_deliveries_log_def f)
  next
    case (Some w)
    then have "w \<in> set (filter (\<lambda>w. wh_workspace_id w = p_workspace_id p) (tbl_rows (webhooks s)))"
      by (auto dest: fetch_one_Some)
    then have "filter (\<lambda>d. dl_webhook_id d = wh_id w) (tbl_rows (webhook_deliveries t))
        = filter (\<lambda>d. dl_webhook_id d = wh_id w) (tbl_rows (webhook_deliveries s))"
      using assms by (simp only: same_workspace_def)
    then show ?thesis by (simp add: webhook_deliveries_log_def f Some select_rows_def)
  qed
qed

text \<open>The live counters of a deployment.\<close>

lemma live_view:
  assumes "same_workspace (p_workspace_id p) s t" "references_ok s" "references_ok t"
  shows "live_usage env p w t = live_usage env p w s" "live_cost env p w period t = live_cost env p w period s"
    "live_health env p w t = live_health env p w s"
proof -
  have q: "user_days (dep_id d) today t = user_days (dep_id d) today s" "open_license (dep_id d) t = open_license (dep_id d) s"
      "usage_rows (dep_id d) b t = usage_rows (dep_id d) b s" "stats_of (dep_id d) t = stats_of (dep_id d) s"
      "open_alerts (dep_id d) t = open_alerts (dep_id d) s"
    if d: "d \<in> set (own_deployments (p_workspace_id p) s)" for d b today
  proof -
    have same: "same_documents (dep_id d) s t" using view_documents [OF assms(1) d] .
    show "user_days (dep_id d) today t = user_days (dep_id d) today s" unfolding user_days_def
      using same by (intro select_within [of "\<lambda>a. ua_deployment_id a = dep_id d"]) (simp_all add: same_documents_def)
    show "open_license (dep_id d) t = open_license (dep_id d) s" unfolding open_license_def
      using same by (intro fetch_within [of "\<lambda>l. lic_deployment_id l = dep_id d"]) (simp_all add: same_documents_def)
    show "usage_rows (dep_id d) b t = usage_rows (dep_id d) b s" unfolding usage_rows_def
      using same by (intro select_within [of "\<lambda>m. mu_deployment_id m = dep_id d"]) (simp_all add: same_documents_def)
    show "stats_of (dep_id d) t = stats_of (dep_id d) s" unfolding stats_of_def
      using same by (intro select_within [of "\<lambda>r. is_deployment_id r = dep_id d"]) (simp_all add: same_documents_def)
    show "open_alerts (dep_id d) t = open_alerts (dep_id d) s" using open_alerts_view [OF assms d] .
  qed
  have par: "param_for (p_workspace_id p) day t = param_for (p_workspace_id p) day s" for day
    unfolding param_for_def parameters_at_def
    using assms(1) by (subst select_within [of "\<lambda>r. par_workspace_id r = p_workspace_id p"]) (simp_all add: same_workspace_def)
  note dep = read_deployment_view [OF assms(1)]
  show "live_usage env p w t = live_usage env p w s"
    unfolding live_usage_def dep by (rule bind_r_cong [OF HOL.refl]) (simp add: q read_deployment_own)
  show "live_cost env p w period t = live_cost env p w period s"
    unfolding live_cost_def dep Let_def par
    by (rule bind_r_cong [OF HOL.refl], rule bind_r_cong [OF HOL.refl]) (simp add: q read_deployment_own)
  show "live_health env p w t = live_health env p w s"
    unfolding live_health_def dep Let_def by (rule bind_r_cong [OF HOL.refl]) (simp add: q read_deployment_own)
qed

lemma document_reads_view:
  assumes "same_workspace (p_workspace_id p) s t"
  shows "list_figures env p w period t = list_figures env p w period s"
    "get_figure env p w ref t = get_figure env p w ref s" "figure_lineage p w ref t = figure_lineage p w ref s"
    "list_reports env p w t = list_reports env p w s"
proof -
  have q: "figure_rows (dep_id d) period t = figure_rows (dep_id d) period s"
      "newest_figure (dep_id d) ref t = newest_figure (dep_id d) ref s"
      "select_rows (\<lambda>r. rep_deployment_id r = dep_id d) (reports t)
        = select_rows (\<lambda>r. rep_deployment_id r = dep_id d) (reports s)"
    if "read_deployment p w s = Inr d" for d
    using view_documents [OF assms read_deployment_own [OF that]] by (simp_all add: figures_view reports_view)
  show "list_figures env p w period t = list_figures env p w period s"
    "get_figure env p w ref t = get_figure env p w ref s" "figure_lineage p w ref t = figure_lineage p w ref s"
    "list_reports env p w t = list_reports env p w s"
    by (cases "read_deployment p w s"; simp add: list_figures_def get_figure_def figure_lineage_def list_reports_def
        read_deployment_view [OF assms] q)+
qed

lemma configuration_reads_view:
  assumes "same_workspace (p_workspace_id p) s t"
  shows "list_deployments p t = list_deployments p s" "get_deployment p w t = get_deployment p w s"
    "list_roster p status kind t = list_roster p status kind s" "get_license cfg p w t = get_license cfg p w s"
    "list_parameter_versions p t = list_parameter_versions p s"
    "get_parameter_version p v t = get_parameter_version p v s" "list_label_schemas p t = list_label_schemas p s"
    "list_webhooks p t = list_webhooks p s" "list_change_events p t = list_change_events p s"
    "list_mapping_contracts p t = list_mapping_contracts p s"
proof -
  have lic: "fetch_one (is_open (dep_id d)) (deployment_licenses t) = fetch_one (is_open (dep_id d)) (deployment_licenses s)"
    if "resolve_deployment p w s = Inr d" for d
    using view_documents [OF assms resolve_deployment_own [OF that]]
    by (intro fetch_within [of "\<lambda>l. lic_deployment_id l = dep_id d"]) (simp_all add: same_documents_def is_open_def)
  have rows: "select_rows (\<lambda>d. dep_workspace_id d = p_workspace_id p) (deployments t)
      = select_rows (\<lambda>d. dep_workspace_id d = p_workspace_id p) (deployments s)"
    "select_rows (\<lambda>r. par_workspace_id r = p_workspace_id p) (parameter_sets t)
      = select_rows (\<lambda>r. par_workspace_id r = p_workspace_id p) (parameter_sets s)"
    "select_rows (\<lambda>q. ql_workspace_id q = p_workspace_id p) (qa_label_definitions t)
      = select_rows (\<lambda>q. ql_workspace_id q = p_workspace_id p) (qa_label_definitions s)"
    "select_rows (\<lambda>c. chg_workspace_id c = p_workspace_id p) (change_log t)
      = select_rows (\<lambda>c. chg_workspace_id c = p_workspace_id p) (change_log s)"
    "select_rows (\<lambda>m. mc_workspace_id m = p_workspace_id p) (mapping_contracts t)
      = select_rows (\<lambda>m. mc_workspace_id m = p_workspace_id p) (mapping_contracts s)"
    using assms by (simp_all add: same_workspace_def own_deployments_def select_rows_def)
  have par: "fetch_one (\<lambda>r. par_workspace_id r = p_workspace_id p \<and> par_version r = v) (parameter_sets t)
      = fetch_one (\<lambda>r. par_workspace_id r = p_workspace_id p \<and> par_version r = v) (parameter_sets s)"
    using assms by (intro fetch_within [of "\<lambda>r. par_workspace_id r = p_workspace_id p"]) (simp_all add: same_workspace_def)
  have hooks: "select_rows (\<lambda>w. wh_workspace_id w = p_workspace_id p \<and> wh_status w \<noteq> Deleted) (webhooks t)
      = select_rows (\<lambda>w. wh_workspace_id w = p_workspace_id p \<and> wh_status w \<noteq> Deleted) (webhooks s)"
    using assms by (intro select_within [of "\<lambda>w. wh_workspace_id w = p_workspace_id p"]) (simp_all add: same_workspace_def)
  have people: "select_rows (\<lambda>u. user_workspace_id u = Some (p_workspace_id p) \<and> P u) (users t)
      = select_rows (\<lambda>u. user_workspace_id u = Some (p_workspace_id p) \<and> P u) (users s)" for P
    using assms by (intro select_within [of "\<lambda>u. user_workspace_id u = Some (p_workspace_id p)"]) (simp_all add: same_workspace_def)
  note dep = resolve_deployment_view [OF assms]
  show "get_license cfg p w t = get_license cfg p w s"
    by (cases "resolve_deployment p w s") (simp_all add: get_license_def dep lic)
  show "list_roster p status kind t = list_roster p status kind s" unfolding list_roster_def people ..
  show "list_deployments p t = list_deployments p s" "get_deployment p w t = get_deployment p w s"
    "list_parameter_versions p t = list_parameter_versions p s"
    "get_parameter_version p v t = get_parameter_version p v s" "list_label_schemas p t = list_label_schemas p s"
    "list_webhooks p t = list_webhooks p s" "list_change_events p t = list_change_events p s"
    "list_mapping_contracts p t = list_mapping_contracts p s"
    by (simp_all only: list_deployments_def get_deployment_def list_parameter_versions_def get_parameter_version_def
        list_label_schemas_def list_webhooks_def list_change_events_def list_mapping_contracts_def rows par hooks dep)
qed

text \<open>The state of an event, of an import and of the workspace itself.\<close>

lemma row_of_workspace:
  assumes "exists_row (\<lambda>r. key r = k \<and> owner r = w) u" "wf_table key u" "r \<in> set (tbl_rows u)" "key r = k"
  shows "owner r = w"
proof -
  obtain x where "x \<in> set (tbl_rows u)" "key x = k" "owner x = w" using assms(1) by (auto simp: exists_row_def)
  then have "x = r" using wf_table_unique [OF assms(2)] assms(3,4) by blast
  with \<open>owner x = w\<close> show ?thesis by simp
qed

lemma event_references:
  assumes "references_ok s" "e \<in> set (tbl_rows (events s))"
  shows "ev_resolved_user_id e = Some u \<Longrightarrow> r \<in> set (tbl_rows (users s)) \<Longrightarrow> user_id r = u \<Longrightarrow>
      user_workspace_id r = Some (ev_workspace_id e)"
    and "ev_work_item_id e = Some i \<Longrightarrow> x \<in> set (tbl_rows (work_items s)) \<Longrightarrow> wi_id x = i \<Longrightarrow>
      wi_workspace_id x = ev_workspace_id e"
proof -
  have wf: "wf_table user_id (users s)" "wf_table wi_id (work_items s)" using assms(1) by (simp_all add: references_ok_def)
  have "exists_row (\<lambda>r. user_id r = u \<and> user_workspace_id r = Some (ev_workspace_id e)) (users s)"
    if "ev_resolved_user_id e = Some u" using assms that by (simp add: references_ok_def)
  then show "ev_resolved_user_id e = Some u \<Longrightarrow> r \<in> set (tbl_rows (users s)) \<Longrightarrow> user_id r = u \<Longrightarrow>
      user_workspace_id r = Some (ev_workspace_id e)"
    using row_of_workspace [of user_id u user_workspace_id "Some (ev_workspace_id e)" "users s"] wf(1) by simp
  have "exists_row (\<lambda>w. wi_id w = i \<and> wi_workspace_id w = ev_workspace_id e) (work_items s)"
    if "ev_work_item_id e = Some i" using assms that by (simp add: references_ok_def)
  then show "ev_work_item_id e = Some i \<Longrightarrow> x \<in> set (tbl_rows (work_items s)) \<Longrightarrow> wi_id x = i \<Longrightarrow>
      wi_workspace_id x = ev_workspace_id e"
    using row_of_workspace [of wi_id i wi_workspace_id "ev_workspace_id e" "work_items s"] wf(2) by simp
qed

lemma event_status_view:
  assumes "same_workspace (p_workspace_id p) s t" "references_ok s" "references_ok t"
  shows "event_status p key t = event_status p key s"
proof -
  let ?ws = "p_workspace_id p"
  have part: "filter (\<lambda>e. ev_workspace_id e = ?ws) (tbl_rows (events t)) = filter (\<lambda>e. ev_workspace_id e = ?ws) (tbl_rows (events s))"
    using assms(1) by (simp add: same_workspace_def)
  have rows: "select_rows (\<lambda>e. ev_workspace_id e = ?ws \<and> ev_key e = key) (events t)
      = select_rows (\<lambda>e. ev_workspace_id e = ?ws \<and> ev_key e = key) (events s)"
    by (rule select_within [OF part]) simp
  have rejected: "select_rows (\<lambda>r. rej_workspace_id r = ?ws \<and> rej_event_key r = Some key) (rejected_events t)
      = select_rows (\<lambda>r. rej_workspace_id r = ?ws \<and> rej_event_key r = Some key) (rejected_events s)"
    using assms(1) by (intro select_within [of "\<lambda>r. rej_workspace_id r = ?ws"]) (simp_all add: same_workspace_def)
  have joins: "fetch_one (\<lambda>r. user_id r = u) (users t) = fetch_one (\<lambda>r. user_id r = u) (users s)"
    if named: "ev_resolved_user_id e = Some u" "e \<in> set (select_rows (\<lambda>e. ev_workspace_id e = ?ws \<and> ev_key e = key) (events s))" for e u
  proof (rule fetch_within [of "\<lambda>r. user_workspace_id r = Some ?ws"])
    show "filter (\<lambda>r. user_workspace_id r = Some ?ws) (tbl_rows (users t))
        = filter (\<lambda>r. user_workspace_id r = Some ?ws) (tbl_rows (users s))"
      using assms(1) by (simp add: same_workspace_def)
    have e: "e \<in> set (tbl_rows (events s))" "e \<in> set (tbl_rows (events t))" "ev_workspace_id e = ?ws"
      using named(2) arg_cong [OF rows, of set] by (auto simp: select_rows_def)
    show "user_workspace_id r = Some ?ws" if r: "r \<in> set (tbl_rows (users s)) \<union> set (tbl_rows (users t))" "user_id r = u" for r
      using r event_references(1) [OF assms(2) e(1) named(1)] event_references(1) [OF assms(3) e(2) named(1)] e(3) by auto
  qed
  have items: "fetch_one (\<lambda>r. wi_id r = i) (work_items t) = fetch_one (\<lambda>r. wi_id r = i) (work_items s)"
    if named: "ev_work_item_id e = Some i" "e \<in> set (select_rows (\<lambda>e. ev_workspace_id e = ?ws \<and> ev_key e = key) (events s))" for e i
  proof (rule fetch_within [of "\<lambda>r. wi_workspace_id r = ?ws"])
    show "filter (\<lambda>r. wi_workspace_id r = ?ws) (tbl_rows (work_items t)) = filter (\<lambda>r. wi_workspace_id r = ?ws) (tbl_rows (work_items s))"
      using assms(1) by (simp add: same_workspace_def)
    have e: "e \<in> set (tbl_rows (events s))" "e \<in> set (tbl_rows (events t))" "ev_workspace_id e = ?ws"
      using named(2) arg_cong [OF rows, of set] by (auto simp: select_rows_def)
    show "wi_workspace_id r = ?ws" if r: "r \<in> set (tbl_rows (work_items s)) \<union> set (tbl_rows (work_items t))" "wi_id r = i" for r
      using r event_references(2) [OF assms(2) e(1) named(1)] event_references(2) [OF assms(3) e(2) named(1)] e(3) by auto
  qed
  show ?thesis
  proof (cases "latest_by ev_occurred_at (select_rows (\<lambda>e. ev_workspace_id e = ?ws \<and> ev_key e = key) (events s))")
    case None
    then show ?thesis by (simp add: event_status_def rows rejected)
  next
    case (Some e)
    then have "e \<in> set (select_rows (\<lambda>e. ev_workspace_id e = ?ws \<and> ev_key e = key) (events s))" by (simp add: latest_by_Some)
    with Some joins items show ?thesis by (auto simp: event_status_def rows split: option.split)
  qed
qed

lemma import_status_view:
  assumes "same_workspace (p_workspace_id p) s t"
  shows "Imports.import_status p ref t = Imports.import_status p ref s"
proof -
  have "fetch_one (\<lambda>j. imp_ref j = ref \<and> imp_workspace_id j = p_workspace_id p) (import_jobs t)
      = fetch_one (\<lambda>j. imp_ref j = ref \<and> imp_workspace_id j = p_workspace_id p) (import_jobs s)"
    using assms by (intro fetch_within [of "\<lambda>j. imp_workspace_id j = p_workspace_id p"]) (simp_all add: same_workspace_def)
  then show ?thesis by (simp only: Imports.import_status_def)
qed

end
