(* ===== verification/ReadServed.thy ===== *)
theory ReadServed
  imports ReadRules
begin

text \<open>
  What the read plane serves: the newest figures and reports, the classification of seats
  with the floor for small cohorts, the priced cost of a period, and the acknowledgement of
  alerts.
\<close>

section \<open>Figures\<close>

lemma newest_versions_iff:
  "f \<in> set (newest_versions rows) \<longleftrightarrow>
     (\<exists>ref \<in> set (map fig_ref rows). latest_by fig_version (filter (\<lambda>g. fig_ref g = ref) rows) = Some f)"
  by (auto simp: newest_versions_def List.map_filter_def image_iff)

lemma latest_of_ref: "latest_by fig_version (filter (\<lambda>g. fig_ref g = ref) rows) = Some f \<Longrightarrow>
    f \<in> set rows \<and> fig_ref f = ref \<and> (\<forall>g \<in> set rows. fig_ref g = ref \<longrightarrow> fig_version g \<le> fig_version f)"
  by (auto dest: latest_by_Some)

lemma newest_refs: "map fig_ref (newest_versions rows) = sort (remdups (map fig_ref rows))"
proof -
  have "map fig_ref (List.map_filter (\<lambda>ref. latest_by fig_version (filter (\<lambda>f. fig_ref f = ref) rows)) refs) = refs"
    if "set refs \<subseteq> set (map fig_ref rows)" for refs
    using that
  proof (induction refs)
    case (Cons ref refs)
    then obtain g where "g \<in> set rows" "fig_ref g = ref" by auto
    then have "filter (\<lambda>f. fig_ref f = ref) rows \<noteq> []" by (auto simp: filter_empty_conv)
    then obtain f where f: "latest_by fig_version (filter (\<lambda>f. fig_ref f = ref) rows) = Some f"
      by (meson latest_by_None not_None_eq)
    have "fig_ref f = ref" using latest_of_ref [OF f] by simp
    with Cons f show ?case by (simp add: map_filter_simps del: latest_by_None)
  qed (simp add: List.map_filter_def)
  then show ?thesis by (simp add: newest_versions_def)
qed

text \<open>
  Figures are served in their newest version. The listing of a deployment holds one figure
  for every reference the deployment has in the period asked for, ordered by reference, each
  the one of the greatest version; asked for one by one, the same figures are served. A
  period without figures is answered as not computed, and the lineage is that of the newest
  version.
\<close>

theorem figures_served_newest:
  assumes "read_deployment p w s = Inr d"
  shows "\<exists>rows data. list_figures env p w period s = Inr (200, JObj data, Some w)
     \<and> json_get data ''results'' = Some (JList (map (figure_dict env) rows))
     \<and> (json_get data ''status'' = Some (JStr ''period_not_computed'') \<longleftrightarrow> present period \<and> rows = [])
     \<and> map fig_ref rows = sort (remdups (map fig_ref (figure_rows (dep_id d) period s)))
     \<and> (\<forall>f \<in> set rows. f \<in> set (tbl_rows (figures s)) \<and> fig_deployment_id f = dep_id d
          \<and> (present period \<longrightarrow> period = Some (fig_period f))
          \<and> (\<forall>g \<in> set (figure_rows (dep_id d) period s). fig_ref g = fig_ref f \<longrightarrow> fig_version g \<le> fig_version f)
          \<and> (\<not> present period \<longrightarrow> get_figure env p w (fig_ref f) s = Inr (200, figure_dict env f, Some w)
               \<and> figure_lineage p w (fig_ref f) s = Inr (200, lineage_dict f, Some w)))"
proof -
  let ?rows = "newest_versions (figure_rows (dep_id d) period s)"
  define data where "data = (if present period \<and> ?rows = []
    then [(''results'', JList []), (''status'', JStr ''period_not_computed''), (''code'', JStr ''TF-READ-002'')]
    else [(''results'', JList (map (figure_dict env) ?rows))])"
  have l: "list_figures env p w period s = Inr (200, JObj data, Some w)"
    by (simp add: list_figures_def assms data_def Let_def)
  have d: "json_get data ''results'' = Some (JList (map (figure_dict env) ?rows))"
    "json_get data ''status'' = Some (JStr ''period_not_computed'') \<longleftrightarrow> present period \<and> ?rows = []"
    by (simp_all add: data_def)
  have one: "get_figure env p w (fig_ref f) s = Inr (200, figure_dict env f, Some w)
      \<and> figure_lineage p w (fig_ref f) s = Inr (200, lineage_dict f, Some w)"
    if "latest_by fig_version (filter (\<lambda>g. fig_ref g = fig_ref f) (figure_rows (dep_id d) period s)) = Some f"
      "\<not> present period" for f
  proof -
    have "select_rows (\<lambda>g. fig_deployment_id g = dep_id d \<and> fig_ref g = fig_ref f) (figures s)
        = filter (\<lambda>g. fig_ref g = fig_ref f) (figure_rows (dep_id d) period s)"
      using that(2) by (simp add: figure_rows_def select_rows_def conj_commute)
    then have "newest_figure (dep_id d) (fig_ref f) s = Inr f" using that(1) by (simp add: newest_figure_def)
    then show ?thesis by (simp add: get_figure_def figure_lineage_def assms)
  qed
  have rows: "f \<in> set (tbl_rows (figures s)) \<and> fig_deployment_id f = dep_id d
      \<and> (present period \<longrightarrow> period = Some (fig_period f))
      \<and> (\<forall>g \<in> set (figure_rows (dep_id d) period s). fig_ref g = fig_ref f \<longrightarrow> fig_version g \<le> fig_version f)
      \<and> (\<not> present period \<longrightarrow> get_figure env p w (fig_ref f) s = Inr (200, figure_dict env f, Some w)
           \<and> figure_lineage p w (fig_ref f) s = Inr (200, lineage_dict f, Some w))"
    if f: "f \<in> set ?rows" for f
  proof -
    obtain ref where ref: "latest_by fig_version (filter (\<lambda>g. fig_ref g = ref) (figure_rows (dep_id d) period s)) = Some f"
      using f unfolding newest_versions_iff by blast
    note best = latest_of_ref [OF ref]
    then have "f \<in> set (figure_rows (dep_id d) period s)" by blast
    then have "f \<in> set (tbl_rows (figures s)) \<and> fig_deployment_id f = dep_id d
        \<and> (present period \<longrightarrow> period = Some (fig_period f))"
      by (simp add: figure_rows_def select_rows_def)
    with best ref one [of f] show ?thesis by blast
  qed
  show ?thesis
    by (rule exI [of _ ?rows], rule exI [of _ data]) (use l d rows newest_refs in blast)
qed

section \<open>Alerts\<close>

text \<open>
  An alert is acknowledged once. Acknowledging changes the open alert of that reference in
  the caller's workspace, which becomes acknowledged by the owner of the key, and nothing
  else; where there is none the request is refused and nothing changes; and a second
  acknowledgement by anyone of the workspace is refused.
\<close>

theorem alert_acked_once:
  assumes "t = fst (ack_alert p ref s)" and "p_workspace_id q = p_workspace_id p"
  shows "snd (ack_alert p ref s) =
        (if exists_row (ackable p ref) (alerts s)
         then Inr (answer 200 [(''alert_id'', JStr ref), (''status'', JStr ''acked'')])
         else Inl (tf_raise ''TF-READ-001'' None None (Some (''open alert '' @ ref @ '' not found''))))
     \<and> tbl_rows (alerts t) = map (\<lambda>a. if ackable p ref a
          then a\<lparr>al_status := Alert_Acked, al_acked_by := Some (p_owner_user_id p)\<rparr> else a) (tbl_rows (alerts s))
     \<and> (\<exists>al. t = s\<lparr>alerts := al\<rparr>)
     \<and> ack_alert q ref t = (t, Inl (tf_raise ''TF-READ-001'' None None (Some (''open alert '' @ ref @ '' not found''))))"
proof -
  let ?f = "\<lambda>a. a\<lparr>al_status := Alert_Acked, al_acked_by := Some (p_owner_user_id p)\<rparr>"
  have run: "ack_alert p ref s = (s\<lparr>alerts := update_rows (ackable p ref) ?f (alerts s)\<rparr>,
      if exists_row (ackable p ref) (alerts s)
      then Inr (answer 200 [(''alert_id'', JStr ref), (''status'', JStr ''acked'')])
      else Inl (tf_raise ''TF-READ-001'' None None (Some (''open alert '' @ ref @ '' not found''))))"
    by (simp add: ack_alert_def bind_s_apply transaction_def)
  have t: "t = s\<lparr>alerts := update_rows (ackable p ref) ?f (alerts s)\<rparr>" unfolding assms(1) run by simp
  have rows: "tbl_rows (alerts t) = map (\<lambda>a. if ackable p ref a then ?f a else a) (tbl_rows (alerts s))"
    unfolding t by (simp add: table_simps)
  have none: "\<not> ackable q ref a" if "a \<in> set (tbl_rows (alerts t))" for a
  proof -
    obtain x where "a = (if ackable p ref x then ?f x else x)" using \<open>a \<in> set (tbl_rows (alerts t))\<close> unfolding rows set_map by blast
    then show ?thesis using assms(2) by (simp add: ackable_def split: if_splits)
  qed
  then have "update_rows (ackable q ref) g (alerts t) = alerts t" for g
    by (cases "alerts t") (simp add: update_rows_def map_idI)
  moreover have "\<not> exists_row (ackable q ref) (alerts t)" using none by (auto simp: exists_row_def)
  ultimately have "ack_alert q ref t =
      (t, Inl (tf_raise ''TF-READ-001'' None None (Some (''open alert '' @ ref @ '' not found''))))"
    by (simp add: ack_alert_def bind_s_apply transaction_def)
  moreover have "\<exists>al. t = s\<lparr>alerts := al\<rparr>" unfolding t by blast
  ultimately show ?thesis unfolding run snd_conv using rows by blast
qed

section \<open>Seats\<close>

lemma firsts_set [simp]: "set (firsts xs) = set xs" "distinct (firsts xs)"
  by (simp_all add: firsts_def)

lemma length_filter_firsts: "length (filter P (firsts xs)) = card {x \<in> set xs. P x}"
proof -
  have "distinct (filter P (firsts xs))" by simp
  from distinct_card [OF this] have "length (filter P (firsts xs)) = card (set (filter P (firsts xs)))" ..
  also have "set (filter P (firsts xs)) = {x \<in> set xs. P x}" by auto
  finally show ?thesis .
qed

definition barely :: "int \<times> int \<Rightarrow> bool" where
  "barely u = (fst u < 3 \<or> snd u < 5)"

definition heavily :: "int \<times> int \<Rightarrow> bool" where
  "heavily u = (15 \<le> fst u \<and> 100 \<le> snd u)"

lemma classify_counts:
  "near_zero (fold classify_seat us c) = near_zero c + length (filter barely us)"
  "heavy (fold classify_seat us c) = heavy c + length (filter (\<lambda>u. \<not> barely u \<and> heavily u) us)"
  "moderate (fold classify_seat us c) = moderate c + length (filter (\<lambda>u. \<not> barely u \<and> \<not> heavily u) us)"
  by (induction us arbitrary: c) (auto simp: classify_seat_def barely_def heavily_def split: prod.splits)

text \<open>The days a user was active and the events counted for the user.\<close>

definition active_days :: "user_activity_row list \<Rightarrow> int \<Rightarrow> int" where
  "active_days rows u = int (card {ua_activity_date a | a. a \<in> set rows \<and> ua_user_id a = u})"

definition events_of :: "user_activity_row list \<Rightarrow> int \<Rightarrow> int" where
  "events_of rows u = sum_list (map ua_event_count (filter (\<lambda>a. ua_user_id a = u) rows))"

lemma usage_by_user_eq:
  "usage_by_user rows = map (\<lambda>u. (active_days rows u, events_of rows u)) (firsts (map ua_user_id rows))"
proof -
  have "set (map ua_activity_date (filter (\<lambda>a. ua_user_id a = u) rows))
      = {ua_activity_date a | a. a \<in> set rows \<and> ua_user_id a = u}" for u
    by auto
  then show ?thesis by (simp only: usage_by_user_def Let_def active_days_def events_of_def)
qed

lemma filter_usage:
  "length (filter Q (usage_by_user rows)) =
     card {u \<in> ua_user_id ` set rows. Q (active_days rows u, events_of rows u)}"
  unfolding usage_by_user_eq filter_map length_map length_filter_firsts by (simp add: comp_def)

lemma length_usage: "length (usage_by_user rows) = card (ua_user_id ` set rows)"
  using filter_usage [of "\<lambda>_. True" rows] by simp

text \<open>
  C30: Seats are classified exactly and a small cohort is not split. Over the thirty days up to
  today, \<open>activated\<close> is the number of users with activity; with one to four of them the
  answer is marked as not disclosable and holds no classification; otherwise a user with
  fewer than 3 days or fewer than 5 events counts as near zero, one with 15 days and 100
  events as heavy and the rest as moderate, so the three add up. The seats never activated
  are the paid ones beyond the activated, never below zero.
\<close>

theorem small_cohort_not_split:
  assumes "read_deployment p w s = Inr d" and "rows = user_days (dep_id d) (instant_day (rd_now env)) s"
    and "seen = ua_user_id ` set rows"
  shows "\<exists>data seats. live_usage env p w s = Inr (200, JObj data, Some w)
     \<and> json_get data ''seats'' = Some (JObj seats)
     \<and> json_get seats ''activated'' = Some (JInt (int (card seen)))
     \<and> (if 0 < card seen \<and> card seen < 5
        then json_get data ''cohort_status'' = Some (JStr ''not_disclosable'')
           \<and> json_get seats ''near_zero'' = None \<and> json_get seats ''moderate'' = None \<and> json_get seats ''heavy'' = None
        else \<exists>z m h. json_get seats ''near_zero'' = Some (JInt (int z)) \<and> json_get seats ''moderate'' = Some (JInt (int m))
           \<and> json_get seats ''heavy'' = Some (JInt (int h))
           \<and> z = card {u \<in> seen. active_days rows u < 3 \<or> events_of rows u < 5}
           \<and> h = card {u \<in> seen. 15 \<le> active_days rows u \<and> 100 \<le> events_of rows u}
           \<and> z + m + h = card seen)
     \<and> (\<forall>l. open_license (dep_id d) s = Some l \<longrightarrow>
          json_get seats ''paid'' = Some (JInt (lic_seats_paid l))
        \<and> json_get seats ''never_activated'' = Some (JInt (max (lic_seats_paid l - int (card seen)) 0)))"
proof -
  let ?us = "usage_by_user rows"
  have n: "length ?us = card seen" by (simp add: length_usage assms(3))
  have usage: "live_usage env p w s = Inr (200, usage_data (rd_floats env) ?us (open_license (dep_id d) s), Some w)"
    by (simp add: live_usage_def assms(1,2))
  define z m h where zmh: "z = near_zero (classify_seats ?us)" "m = moderate (classify_seats ?us)"
    "h = heavy (classify_seats ?us)"
  have z: "z = card {u \<in> seen. active_days rows u < 3 \<or> events_of rows u < 5}"
    using filter_usage [of barely rows] by (simp add: zmh classify_seats_def classify_counts barely_def assms(3))
  have "filter (\<lambda>u. \<not> barely u \<and> heavily u) ?us = filter heavily ?us"
    by (rule filter_cong) (auto simp: barely_def heavily_def)
  then have h: "h = card {u \<in> seen. 15 \<le> active_days rows u \<and> 100 \<le> events_of rows u}"
    using filter_usage [of heavily rows] by (simp add: zmh classify_seats_def classify_counts heavily_def assms(3))
  have "length (filter barely us) + length (filter (\<lambda>u. \<not> barely u \<and> \<not> heavily u) us)
      + length (filter (\<lambda>u. \<not> barely u \<and> heavily u) us) = length us" for us
    by (induction us) auto
  then have sum: "z + m + h = card seen" by (simp add: zmh classify_seats_def classify_counts flip: n)
  show ?thesis
    unfolding usage usage_data_def Let_def n
    by (cases "open_license (dep_id d) s"; cases "0 < card seen \<and> card seen < 5")
      (use z h sum in \<open>auto simp flip: zmh\<close>)
qed

section \<open>Reports\<close>

lemma below_next_version: "r \<in> set (select_rows P t) \<Longrightarrow> ver r < next_version P ver t"
proof -
  have "x \<le> foldr max xs 0" if "x \<in> set xs" for x and xs :: "int list"
    using that by (induction xs) auto
  then show "r \<in> set (select_rows P t) \<Longrightarrow> ver r < next_version P ver t"
    by (force simp: next_version_def)
qed

lemma latest_by_append: "\<forall>y \<in> set xs. t y < t x \<Longrightarrow> latest_by t (xs @ [x]) = Some x"
  by (induction xs) auto

lemma fetch_by_id:
  assumes "wf_table rid t" "r \<in> set (tbl_rows t)"
  shows "fetch_one (\<lambda>x. rid x = rid r) t = Some r"
proof (cases "fetch_one (\<lambda>x. rid x = rid r) t")
  case None
  then show ?thesis using assms(2) by (auto simp: fetch_one_None)
next
  case (Some x)
  then show ?thesis using fetch_one_Some [OF Some] wf_table_unique [OF assms(1) _ assms(2), of x] by simp
qed

text \<open>
  An issued report is served. Right after a report of a period is issued, the read plane
  answers its reference with the version just issued, bound to the newest figure of every
  reference of the period, and the artifact behind the link is the one written for it.
\<close>

theorem issued_report_served:
  assumes "read_deployment p w s = Inr d" and "references_ok s" and "period_column_ok period"
    and "ref = report_ref_of period" and "v = next_report_version (dep_id d) period s"
  shows "\<exists>t fields path. issue_report eng (p_workspace_id p) (dep_id d) period s = (t, Inr ref)
     \<and> get_report env p w ref t = Inr (200, JObj fields, Some w)
     \<and> json_get fields ''version'' = Some (JInt v)
     \<and> json_get fields ''figures'' = Some (JList (map (\<lambda>f. JObj [(''figure_id'', JStr (fig_ref f)),
         (''version'', JInt (fig_version f))]) (latest_figures (dep_id d) period s)))
     \<and> json_get fields ''artifact_url'' = Some (JStr (signed_download_url REPORT_BUCKET path 86400))
     \<and> get_object REPORT_BUCKET path t = Inr (artifact_text eng period v (latest_figures (dep_id d) period s))"
proof -
  let ?ws = "p_workspace_id p" and ?d = "dep_id d" and ?figs = "latest_figures (dep_id d) period s"
  let ?rep = "new_report ?ws ?d period (grade_profile ?figs) v (tbl_seq (reports s))"
  have "d \<in> set (tbl_rows (deployments s))" using read_deployment_own [OF assms(1)] by (simp add: own_deployments_def)
  then have "exists_row (\<lambda>x. dep_id x = ?d) (deployments s)" by (auto simp: exists_row_def)
  then obtain t where t: "issue_report eng ?ws ?d period s = (t, Inr ref)" "outbox_only (with_report eng ?ws ?d period s) t"
    using issue_report_ok [OF _ assms(3)] assms(4) by blast
  note frame = outbox_only_frame [OF t(2)] outbox_get_object [OF t(2)] with_report_rows
  have dep: "read_deployment p w t = Inr d" using assms(1) by (simp add: read_deployment_def frame)
  let ?P = "\<lambda>r. rep_deployment_id r = ?d \<and> rep_ref r = ref"
  have "?P = (\<lambda>r. rep_key r = (?d, report_ref_of period))" by (auto simp: rep_key_def assms(4) fun_eq_iff)
  then have older: "\<forall>r \<in> set (select_rows ?P (reports s)). rep_version r < rep_version ?rep"
    using below_next_version [of _ ?P "reports s" rep_version] by (simp add: assms(5) next_report_version_def new_report_def)
  have "select_rows ?P (reports t) = select_rows ?P (reports s) @ [?rep]"
    by (simp add: select_rows_def frame assms(4,5) new_report_def)
  then have latest: "latest_by rep_version (select_rows ?P (reports t)) = Some ?rep"
    using latest_by_append [OF older] by simp
  have fresh: "rf_report_id b \<noteq> tbl_seq (reports s)" if "b \<in> set (report_figures s)" for b
    using assms(2) that by (fastforce simp: references_ok_def exists_row_def wf_table_def)
  have "fetch_one (\<lambda>g. fig_id g = fig_id f) (figures s) = Some f" if "f \<in> set ?figs" for f
    using latest_figures_sound(1) [OF that] assms(2) by (intro fetch_by_id) (simp_all add: references_ok_def)
  then have "List.map_filter (\<lambda>b. fetch_one (\<lambda>g. fig_id g = rf_figure_id b) (figures s))
      (map (\<lambda>f. \<lparr>rf_deployment_id = ?d, rf_report_id = tbl_seq (reports s), rf_figure_id = fig_id f\<rparr>) figs) = figs"
    if "set figs \<subseteq> set ?figs" for figs
    using that by (induction figs) (simp_all add: map_filter_simps)
  then have bound: "bound_figures (tbl_seq (reports s)) t = ?figs"
    using fresh by (simp add: bound_figures_def frame filter_map comp_def filter_empty_conv)
  have "get_object REPORT_BUCKET (rep_artifact_path ?rep) t = Inr (artifact_text eng period v ?figs)"
    using with_report_object [of ?ws period ?d s eng] by (simp add: frame new_report_def assms(5))
  moreover define fields where "fields = report_head env ?rep @
      [(''artifact_url'', JStr (signed_download_url REPORT_BUCKET (rep_artifact_path ?rep) 86400)),
       (''figures'', JList (map (\<lambda>f. JObj [(''figure_id'', JStr (fig_ref f)), (''version'', JInt (fig_version f))]) ?figs))]"
  moreover have "rep_id ?rep = tbl_seq (reports s)" "rep_version ?rep = v" by (simp_all add: new_report_def)
  then have "get_report env p w ref t = Inr (200, JObj fields, Some w)"
    using latest bound by (simp add: get_report_def dep fields_def)
  moreover have "json_get fields ''version'' = Some (JInt v)"
    "json_get fields ''figures'' = Some (JList (map (\<lambda>f. JObj [(''figure_id'', JStr (fig_ref f)),
         (''version'', JInt (fig_version f))]) ?figs))"
    "json_get fields ''artifact_url'' = Some (JStr (signed_download_url REPORT_BUCKET (rep_artifact_path ?rep) 86400))"
    by (simp_all add: fields_def report_head_def new_report_def)
  ultimately show ?thesis using t(1) by blast
qed

section \<open>Live cost\<close>

text \<open>The price list read as doubles holds the numbers the engine reads.\<close>

definition prices_agree :: "float_ops \<Rightarrow> engine_env \<Rightarrow> (string \<times> json) list \<Rightarrow> bool" where
  "prices_agree fl eng prices = (\<forall>(k, j) \<in> set prices. j = JNull \<or> fl_of_json fl j = eng_decimal eng j)"

text \<open>Every quantity, product and running total is a double.\<close>

fun exact_run :: "float_ops \<Rightarrow> engine_env \<Rightarrow> (string \<times> json) list \<Rightarrow> (string \<times> rat) list \<Rightarrow> rat \<Rightarrow> bool" where
  "exact_run fl eng prices [] a = True"
| "exact_run fl eng prices ((m, q) # us) a =
     (fl_nearest fl q = q
      \<and> (case price_of eng prices m of
           None \<Rightarrow> exact_run fl eng prices us a
         | Some x \<Rightarrow> fl_nearest fl (q * x) = q * x \<and> fl_nearest fl (a + q * x) = a + q * x
             \<and> exact_run fl eng prices us (a + q * x)))"

definition cost_item :: "float_ops \<Rightarrow> engine_env \<Rightarrow> (string \<times> json) list \<Rightarrow> string \<times> rat \<Rightarrow> json" where
  "cost_item fl eng prices u =
     (case price_of eng prices (fst u) of
        None \<Rightarrow> JObj [(''meter'', JStr (fst u)), (''quantity'', JReal (snd u)), (''usd'', JNull),
                  (''status'', JStr ''awaiting_parameters''), (''missing'', JStr (''unit_prices.'' @ fst u))]
      | Some x \<Rightarrow> JObj [(''meter'', JStr (fst u)), (''quantity'', JReal (snd u)),
                     (''usd'', JReal (fl_round fl (snd u * x) 6))])"

lemma price_lookup:
  assumes "price_list_ok eng prices" "prices_agree fl eng prices"
  shows "(dict_get (JObj prices) m = Inr None \<and> price_of eng prices m = None)
     \<or> (\<exists>j x. dict_get (JObj prices) m = Inr (Some j) \<and> fl_of_json fl j = Inr x \<and> price_of eng prices m = Some x)"
proof (cases "json_get prices m")
  case None
  then show ?thesis by (simp add: dict_get_def price_of_def)
next
  case (Some j)
  show ?thesis
  proof (cases "j = JNull")
    case True
    with Some show ?thesis by (simp add: dict_get_def price_of_def)
  next
    case False
    have "(case eng_decimal eng j of Inl _ \<Rightarrow> False | Inr d \<Rightarrow> decimals6 d)" "fl_of_json fl j = eng_decimal eng j"
      using assms json_get_mem [OF Some] False unfolding price_list_ok_def prices_agree_def by blast+
    then have "\<exists>x. eng_decimal eng j = Inr x" "fl_of_json fl j = eng_decimal eng j" by (auto split: sum.splits)
    with Some False show ?thesis by (auto simp: dict_get_def price_of_def)
  qed
qed

lemma cost_lines_exact:
  assumes "price_list_ok eng prices" "prices_agree fl eng prices"
  shows "exact_run fl eng prices usage a \<Longrightarrow>
    cost_lines fl (JObj prices) usage (ls, a)
      = Inr (ls @ map (cost_item fl eng prices) usage, a + usage_cost eng prices usage)"
proof (induction usage arbitrary: ls a)
  case (Cons u us)
  obtain m q where u: "u = (m, q)" by (cases u)
  from price_lookup [OF assms, of m] show ?case
  proof (elim disjE exE conjE)
    assume "dict_get (JObj prices) m = Inr None" "price_of eng prices m = None"
    with Cons show ?thesis by (simp add: u cost_line_def cost_item_def cost_of_def)
  next
    fix j x
    assume "dict_get (JObj prices) m = Inr (Some j)" "fl_of_json fl j = Inr x" "price_of eng prices m = Some x"
    with Cons show ?thesis by (simp add: u cost_line_def cost_item_def cost_of_def Let_def add.assoc)
  qed
qed simp

text \<open>The order in which the meters are listed does not matter for the sum.\<close>

lemma metered_cost:
  assumes "mu_meter_type ` set rows \<subseteq> set meters"
  shows "usage_cost eng prices (metered avg rows) = usage_cost eng prices (meter_usage avg rows)"
proof -
  have d: "distinct (filter (\<lambda>m. m \<in> set (map mu_meter_type rows)) meters)" by (simp add: meters_def)
  have "set (filter (\<lambda>m. m \<in> set (map mu_meter_type rows)) meters) = set (firsts (map mu_meter_type rows))"
    using assms by auto
  then show ?thesis
    using sum_list_distinct_conv_sum_set [OF d, of "\<lambda>m. cost_of eng prices (m, meter_quantity avg rows m)"]
      sum_list_distinct_conv_sum_set [OF firsts_set(2), of "\<lambda>m. cost_of eng prices (m, meter_quantity avg rows m)"
        "map mu_meter_type rows"]
    by (simp add: usage_cost_def metered_def meter_usage_def comp_def)
qed

text \<open>
  What Python documents of \<^verbatim>\<open>round(x, 6)\<close>: a double with at most six decimals is left alone.
\<close>

definition rounds_six :: "float_ops \<Rightarrow> bool" where
  "rounds_six fl \<longleftrightarrow> fl_nearest fl 0 = 0
     \<and> (\<forall>x z. fl_nearest fl x = x \<and> x * 10 ^ 6 = of_int z \<longrightarrow> fl_round fl x 6 = x)"

lemma exact_run_total: "exact_run fl eng prices usage a \<Longrightarrow> fl_nearest fl a = a \<Longrightarrow>
    fl_nearest fl (a + usage_cost eng prices usage) = a + usage_cost eng prices usage"
proof (induction usage arbitrary: a)
  case (Cons u us)
  obtain m q where u: "u = (m, q)" by (cases u)
  show ?case
  proof (cases "price_of eng prices m")
    case None
    with Cons u show ?thesis by (simp add: cost_of_def)
  next
    case (Some x)
    with Cons.prems u have "fl_nearest fl (a + q * x) = a + q * x" "exact_run fl eng prices us (a + q * x)" by simp_all
    from Cons.IH [OF this(2,1)] Some u show ?thesis by (simp add: cost_of_def add.assoc)
  qed
qed simp

lemma numeric_near:
  assumes "numeric_20_6 q = Inr v"
  shows "2 * 10 ^ 6 * \<bar>v - q\<bar> \<le> 1"
proof -
  define z where "z = \<lfloor>\<bar>q\<bar> * 1000000 + 1 / 2\<rfloor>"
  have v: "v = sgn q * of_int z / 1000000"
    using assms by (auto simp: numeric_20_6_def Let_def z_def split: if_splits)
  have z: "of_int z \<le> \<bar>q\<bar> * 1000000 + 1 / 2" "\<bar>q\<bar> * 1000000 + 1 / 2 < of_int z + 1"
    unfolding z_def by linarith+
  show ?thesis
  proof (cases "q = 0")
    case True
    with v show ?thesis by simp
  next
    case False
    have "v - q = sgn q * (of_int z / 1000000 - \<bar>q\<bar>)"
      unfolding v using sgn_mult_abs [of q] by (simp add: right_diff_distrib)
    then have "\<bar>v - q\<bar> = \<bar>of_int z / 1000000 - \<bar>q\<bar>\<bar>" using False by (simp add: abs_mult abs_sgn_eq)
    moreover have "of_int z / 1000000 - \<bar>q\<bar> \<le> 1 / 2000000" "- (1 / 2000000) \<le> of_int z / 1000000 - \<bar>q\<bar>"
      using z by linarith+
    ultimately have "\<bar>v - q\<bar> \<le> 1 / 2000000" by (simp only: abs_le_iff minus_le_iff)
    then show ?thesis by simp
  qed
qed

lemma numeric_six: "numeric_20_6 q = Inr v \<Longrightarrow> q * 10 ^ 6 = of_int z \<Longrightarrow> \<bar>q\<bar> < 10 ^ 14 \<Longrightarrow> v = q"
  using numeric_exact [of q z] by simp

text \<open>
  The two roundings differ on a tie: the column rounds away from zero, Python's
  \<^verbatim>\<open>round\<close> to the even digit.
\<close>

lemma live_cost_tie:
  "numeric_20_6 (1 / 64 * (1 / 2)) = Inr (7813 / 1000000)"
  "of_int (round_half_even (1 / 64 * (1 / 2) * 1000000)) / 1000000 = (7812 / 1000000 :: rat)"
  by code_simp+


end
