(* ===== verification/ReadExamples.thy ===== *)
theory ReadExamples
  imports ReadServed ConfigExamples EngineExamples
begin

text \<open>
  The theorems of the read plane applied to the month of usage of the engine's examples, a
  handful of users and an open alert.
\<close>

section \<open>What there is to read\<close>

definition ex_reader :: read_env where
  "ex_reader = \<lparr>rd_now = 1704067200000000, rd_floats = ex_floats, rd_avg = eng_avg ex_engine,
     rd_computed_at = (\<lambda>i. i), rd_issued_at = (\<lambda>i. i), rd_first_seen = (\<lambda>i. i), rd_last_seen = (\<lambda>i. i),
     rd_acked_at = (\<lambda>i. i), rd_created_at = (\<lambda>i. i)\<rparr>"

definition ex_day_of :: "int \<Rightarrow> user_activity_row" where
  "ex_day_of u = \<lparr>ua_workspace_id = 7, ua_deployment_id = 42, ua_user_id = u, ua_activity_date = 738885, ua_event_count = 9\<rparr>"

definition ex_figure :: "int \<Rightarrow> int \<Rightarrow> figure_row" where
  "ex_figure i v = (figure_args 7 42 ''fig_cost_2024-01'' ''2024-01'' ''priced_cost'' Computed)\<lparr>
     fig_id := i, fig_version := v, fig_value := Some (of_int i), fig_grade := Some ''measured''\<rparr>"

definition ex_alert :: alert_row where
  "ex_alert = new_alert 7 42 ''event_silence'' ''no events'' ''al_1'' 1"

definition ex_desk :: sys where
  "ex_desk = ex_books\<lparr>figures := Table [ex_figure 1 1, ex_figure 2 2] 3, alerts := Table [ex_alert] 2,
     user_activity_daily := Table [ex_day_of 1, ex_day_of 2] 3\<rparr>"

text \<open>The same desk after another workspace registered a deployment.\<close>

definition ex_crowd :: sys where
  "ex_crowd = ex_desk\<lparr>deployments := insert_row (\<lambda>i. ex_deployment i 8 ''dep_other'') (deployments ex_desk)\<rparr>"

declare ymd2ord.simps [simp del]

lemma ex_wire: "int_str 42 = ''42''" "int_str 43 = ''43''" by code_simp+

lemma ex_dep_known: "read_deployment ex_owner ''dep_42'' ex_desk = Inr (ex_dep 42)"
  by (simp add: read_deployment_def fetch_one_def ex_desk_def ex_books_def ex_dep_def ex_owner_def require_deployment_def
      ex_wire)

lemma ex_desk_rows:
  "tbl_rows (deployments ex_desk) = [ex_dep 42, ex_dep 43]" "tbl_seq (deployments ex_desk) = 44"
  "tbl_rows (figures ex_desk) = [ex_figure 1 1, ex_figure 2 2]" "tbl_seq (figures ex_desk) = 3"
  "tbl_rows (alerts ex_desk) = [ex_alert]" "tbl_rows (reports ex_desk) = []" "report_figures ex_desk = []"
  "tbl_rows (identifier_namespaces ex_desk) = []" "tbl_rows (events ex_desk) = []" "work_items ex_desk = empty_table"
  "users ex_desk = empty_table"
  by (simp_all add: ex_desk_def ex_books_def empty_sys_def table_simps)

lemma ex_references: "references_ok ex_desk" "references_ok ex_crowd"
  by (simp_all add: references_ok_def ex_crowd_def wf_table_def ex_desk_rows table_simps ex_dep_def ex_figure_def
      ex_alert_def new_alert_def exists_row_def ex_deployment_def figure_args_def)

lemma ex_same_workspace: "same_workspace 7 ex_desk ex_crowd"
  by (simp add: same_workspace_def same_documents_def own_deployments_def ex_crowd_def table_simps ex_deployment_def)

section \<open>The theorems at work\<close>

lemma figures_served_newest_witness:
  "\<exists>f. get_figure ex_reader ex_owner ''dep_42'' ''fig_cost_2024-01'' ex_desk = Inr (200, figure_dict ex_reader f, Some ''dep_42'')
     \<and> 2 \<le> fig_version f"
proof -
  obtain rows where r: "map fig_ref rows = sort (remdups (map fig_ref (figure_rows 42 None ex_desk)))"
    "\<forall>f \<in> set rows. (\<forall>g \<in> set (figure_rows 42 None ex_desk). fig_ref g = fig_ref f \<longrightarrow> fig_version g \<le> fig_version f)
       \<and> get_figure ex_reader ex_owner ''dep_42'' (fig_ref f) ex_desk = Inr (200, figure_dict ex_reader f, Some ''dep_42'')"
    using figures_served_newest [OF ex_dep_known, of ex_reader None] by (auto simp: ex_dep_def present_def)
  have figs: "figure_rows 42 None ex_desk = [ex_figure 1 1, ex_figure 2 2]"
    by (simp add: figure_rows_def select_rows_def ex_desk_rows ex_figure_def figure_args_def present_def)
  have ref: "fig_ref (ex_figure i v) = ''fig_cost_2024-01''" "fig_version (ex_figure i v) = v" for i v
    by (simp_all add: ex_figure_def figure_args_def)
  obtain f where f: "rows = [f]" "fig_ref f = ''fig_cost_2024-01''"
    using r(1) by (auto simp: figs ref)
  then show ?thesis using r(2) by (auto simp: figs ref)
qed

lemma alert_acked_once_witness:
  "snd (ack_alert ex_owner ''al_1'' ex_desk) = Inr (answer 200 [(''alert_id'', JStr ''al_1''), (''status'', JStr ''acked'')])
     \<and> is_ok (snd (ack_alert ex_owner ''al_1'' (fst (ack_alert ex_owner ''al_1'' ex_desk)))) = False"
proof -
  have "exists_row (ackable ex_owner ''al_1'') (alerts ex_desk)"
    by (simp add: exists_row_def ex_desk_rows ackable_def ex_alert_def new_alert_def ex_owner_def)
  then show ?thesis using alert_acked_once [OF refl refl, of ex_owner "''al_1''" ex_desk] by (simp add: is_ok_def)
qed

lemma small_cohort_not_split_witness:
  "\<exists>data seats. live_usage ex_reader ex_owner ''dep_42'' ex_desk = Inr (200, JObj data, Some ''dep_42'')
     \<and> json_get data ''seats'' = Some (JObj seats) \<and> json_get seats ''activated'' = Some (JInt 2)
     \<and> json_get seats ''heavy'' = None \<and> json_get seats ''never_activated'' = Some (JInt 8)"
proof -
  have day: "instant_day (rd_now ex_reader) = 738886" by (simp add: ex_reader_def) code_simp
  have rows: "user_days 42 738886 ex_desk = [ex_day_of 1, ex_day_of 2]"
    by (simp add: user_days_def select_rows_def ex_desk_def ex_day_of_def)
  have seen: "{1, 2} = ua_user_id ` set (user_days (dep_id (ex_dep 42)) (instant_day (rd_now ex_reader)) ex_desk)"
    by (simp add: day rows ex_dep_def ex_day_of_def)
  have lic: "open_license 42 ex_desk = Some ex_license"
    by (simp add: open_license_def ex_desk_def ex_books_def fetch_one_def ex_license_def)
  show ?thesis
    using small_cohort_not_split [OF ex_dep_known refl seen] lic by (auto simp: ex_dep_def ex_license_def)
qed

lemma issued_report_served_witness:
  "\<exists>t fields. issue_report ex_engine 7 42 ''2024-01'' ex_desk = (t, Inr ''rep_2024-01'')
     \<and> get_report ex_reader ex_owner ''dep_42'' ''rep_2024-01'' t = Inr (200, JObj fields, Some ''dep_42'')
     \<and> json_get fields ''version'' = Some (JInt 1)"
proof -
  have "next_report_version 42 ''2024-01'' ex_desk = 1"
    by (simp add: next_report_version_def next_version_def select_rows_def ex_desk_rows)
  then show ?thesis
    using issued_report_served [OF ex_dep_known ex_references(1) ex_january(2) refl refl, of ex_engine ex_reader]
    by (auto simp: ex_dep_def ex_owner_def report_ref_of_def)
qed


end
