(* ===== verification/SdkShapes.thy ===== *)
theory SdkShapes
  imports Webhooks EventSchema Refs Auth
begin

text \<open>
  The SDK (\<^verbatim>\<open>sdk/truefigure\<close>), part one: the error objects of \<^verbatim>\<open>errors.py\<close>, the
  envelope builders of \<^verbatim>\<open>events.py\<close> and the consumer's signature check of
  \<^verbatim>\<open>webhooks.py\<close>. A value that comes from an answer is JSON, whatever it holds.
\<close>

section \<open>Python dictionaries from answers\<close>

text \<open>\<^verbatim>\<open>d.get(k, default)\<close>, \<^verbatim>\<open>d[k]\<close> and iteration, on a value that may be no dictionary.\<close>

definition py_get :: "json \<Rightarrow> string \<Rightarrow> json \<Rightarrow> json result" where
  "py_get j k d = (case j of JObj kvs \<Rightarrow> Inr (json_get_or kvs k d) | _ \<Rightarrow> Inl AttributeError)"

definition py_item :: "json \<Rightarrow> string \<Rightarrow> json result" where
  "py_item j k =
     (case j of
        JObj kvs \<Rightarrow> (case json_get kvs k of None \<Rightarrow> Inl KeyError | Some v \<Rightarrow> Inr v)
      | _ \<Rightarrow> Inl TypeError)"

definition py_iter :: "json \<Rightarrow> json list result" where
  "py_iter j =
     (case j of
        JList xs \<Rightarrow> Inr xs
      | JObj kvs \<Rightarrow> Inr (map (\<lambda>kv. JStr (fst kv)) kvs)
      | JStr s \<Rightarrow> Inr (map (\<lambda>c. JStr [c]) s)
      | _ \<Rightarrow> Inl TypeError)"

fun map_r :: "('a \<Rightarrow> 'b result) \<Rightarrow> 'a list \<Rightarrow> 'b list result" where
  "map_r f [] = Inr []"
| "map_r f (x # xs) = bind_r (f x) (\<lambda>y. bind_r (map_r f xs) (\<lambda>ys. Inr (y # ys)))"

section \<open>Error objects\<close>

text \<open>\<^verbatim>\<open>ErrorObject.from_dict\<close>.\<close>

definition error_object_of :: "json \<Rightarrow> error_object result" where
  "error_object_of d =
     (case d of
        JObj kvs \<Rightarrow>
          Inr \<lparr>eo_code = json_get_or kvs ''code'' (JStr ''TF-SRV-001''),
               eo_message = json_get_or kvs ''message'' (JStr []),
               eo_retryable = truthy (json_get_or kvs ''retryable'' (JBool False)),
               eo_request_id = json_get_or kvs ''request_id'' (JStr []),
               eo_field_path = json_get_or kvs ''field_path'' JNull,
               eo_expected = json_get_or kvs ''expected'' JNull,
               eo_received = json_get_or kvs ''received'' JNull,
               eo_retry_after = json_get_or kvs ''retry_after'' JNull,
               eo_doc_url = json_get_or kvs ''doc_url'' JNull\<rparr>
      | _ \<Rightarrow> Inl AttributeError)"

text \<open>\<open>registry\<close> holds the fix owner of every code of \<^verbatim>\<open>error_codes.json\<close>.\<close>

definition fix_owner :: "(string \<times> string) list \<Rightarrow> error_object \<Rightarrow> string result" where
  "fix_owner registry e =
     (case eo_code e of
        JStr c \<Rightarrow> Inr (case map_of registry c of None \<Rightarrow> ''unknown'' | Some owner \<Rightarrow> owner)
      | JList _ \<Rightarrow> Inl TypeError
      | JObj _ \<Rightarrow> Inl TypeError
      | _ \<Rightarrow> Inr ''unknown'')"

text \<open>The request id a \<^verbatim>\<open>TrueFigureError\<close> keeps, and the delay of a \<^verbatim>\<open>RateLimited\<close>.\<close>

definition error_request_id :: "error_object list \<Rightarrow> json \<Rightarrow> json" where
  "error_request_id errors req_id =
     (if truthy req_id then req_id else case errors of [] \<Rightarrow> JStr [] | e # _ \<Rightarrow> eo_request_id e)"

definition error_retry_after :: "error_object list \<Rightarrow> json" where
  "error_retry_after errors =
     (case find (\<lambda>e. eo_retry_after e \<noteq> JNull) errors of None \<Rightarrow> JInt 1 | Some e \<Rightarrow> eo_retry_after e)"

section \<open>Envelope builders\<close>

definition SDK_SCHEMA_VERSION :: string where
  "SDK_SCHEMA_VERSION = ''1.0''"

text \<open>\<^verbatim>\<open>d.update(items)\<close>: a key that is there keeps its place.\<close>

fun put_item :: "string \<Rightarrow> 'v \<Rightarrow> (string \<times> 'v) list \<Rightarrow> (string \<times> 'v) list" where
  "put_item k v [] = [(k, v)]"
| "put_item k v ((k', w) # kvs) = (if k = k' then (k, v) # kvs else (k', w) # put_item k v kvs)"

definition update_items :: "(string \<times> 'v) list \<Rightarrow> (string \<times> 'v) list \<Rightarrow> (string \<times> 'v) list" where
  "update_items d new = fold (\<lambda>(k, v). put_item k v) new d"

definition build_event ::
  "string \<Rightarrow> string \<Rightarrow> (string \<times> json) list \<Rightarrow> string \<Rightarrow> string option \<Rightarrow> (string \<times> json) list" where
  "build_event deployment_id ty payload origin scope =
     [(''schema_version'', JStr SDK_SCHEMA_VERSION), (''deployment_id'', JStr deployment_id),
      (''event_type'', JStr ty), (''origin'', JStr origin), (''payload'', JObj payload)]
     @ (case scope of None \<Rightarrow> [] | Some x \<Rightarrow> [(''idempotency_scope'', JStr x)])"

definition sdk_payload :: "(string \<times> json) list \<Rightarrow> (string \<times> json) list \<Rightarrow> (string \<times> json) list" where
  "sdk_payload fixed extra = update_items (filter (\<lambda>kv. snd kv \<noteq> JNull) fixed) extra"

text \<open>The keywords every builder shares.\<close>

record event_options =
  eo_origin :: string
  eo_scope :: "string option"
  eo_extra :: "(string \<times> json) list"

definition sdk_event ::
  "string \<Rightarrow> (string \<times> json) list \<Rightarrow> string \<Rightarrow> event_options \<Rightarrow> (string \<times> json) list" where
  "sdk_event ty fixed deployment_id opts =
     build_event deployment_id ty (sdk_payload fixed (eo_extra opts)) (eo_origin opts) (eo_scope opts)"

definition activity_event ::
  "json \<Rightarrow> json \<Rightarrow> json \<Rightarrow> json \<Rightarrow> string \<Rightarrow> event_options \<Rightarrow> (string \<times> json) list" where
  "activity_event user_ref' timestamp' work_item_id' action_type' =
     sdk_event ''activity'' [(''user_ref'', user_ref'), (''timestamp'', timestamp'),
       (''work_item_id'', work_item_id'), (''action_type'', action_type')]"

definition lifecycle_event ::
  "json \<Rightarrow> json \<Rightarrow> json \<Rightarrow> string \<Rightarrow> event_options \<Rightarrow> (string \<times> json) list" where
  "lifecycle_event work_item_id' event' timestamp' =
     sdk_event ''lifecycle'' [(''work_item_id'', work_item_id'), (''event'', event'), (''timestamp'', timestamp')]"

definition cost_meter_event ::
  "json \<Rightarrow> json \<Rightarrow> json \<Rightarrow> string \<Rightarrow> event_options \<Rightarrow> (string \<times> json) list" where
  "cost_meter_event meter' quantity' timestamp' =
     sdk_event ''cost_meter'' [(''meter'', meter'), (''quantity'', quantity'), (''timestamp'', timestamp')]"

definition quality_signal_event ::
  "json \<Rightarrow> json \<Rightarrow> json \<Rightarrow> string \<Rightarrow> event_options \<Rightarrow> (string \<times> json) list" where
  "quality_signal_event work_item_id' signal' timestamp' =
     sdk_event ''quality_signal'' [(''work_item_id'', work_item_id'), (''signal'', signal'), (''timestamp'', timestamp')]"

definition revenue_signal_event ::
  "json \<Rightarrow> json \<Rightarrow> json \<Rightarrow> string \<Rightarrow> event_options \<Rightarrow> (string \<times> json) list" where
  "revenue_signal_event work_item_id' revenue_ref' timestamp' =
     sdk_event ''revenue_signal''
       [(''work_item_id'', work_item_id'), (''revenue_ref'', revenue_ref'), (''timestamp'', timestamp')]"

section \<open>Signatures of webhooks\<close>

text \<open>
  \<^verbatim>\<open>verify_signature\<close> for text headers: \<open>now\<close> is \<^verbatim>\<open>int(time.time())\<close> and
  \<open>raw_body\<close> the bytes that were received.
\<close>

definition sdk_verify_signature ::
  "webhook_env \<Rightarrow> int \<Rightarrow> string \<Rightarrow> string \<Rightarrow> string \<Rightarrow> string \<Rightarrow> int option \<Rightarrow> bool result" where
  "sdk_verify_signature env now secret timestamp raw_body signature tolerance =
     (case py_int timestamp of
        None \<Rightarrow> Inr False
      | Some ts \<Rightarrow>
          if (case tolerance of None \<Rightarrow> False | Some t \<Rightarrow> t < \<bar>now - ts\<bar>) then Inr False
          else verify_signature env secret ts raw_body signature)"

definition lower_keys :: "headers \<Rightarrow> headers" where
  "lower_keys hs = map (\<lambda>(k, v). (map ascii_lower k, v)) hs"

text \<open>A later item of a dictionary display replaces an earlier one of its key.\<close>

definition last_of :: "headers \<Rightarrow> string \<Rightarrow> string option" where
  "last_of hs k = map_of (rev hs) k"

definition sdk_verify ::
  "webhook_env \<Rightarrow> int \<Rightarrow> string \<Rightarrow> headers \<Rightarrow> string \<Rightarrow> int option \<Rightarrow> unit result" where
  "sdk_verify env now secret hs raw_body tolerance =
     (let lower = lower_keys hs in
      case (last_of lower ''x-truefigure-timestamp'', last_of lower ''x-truefigure-signature'') of
        (Some ts, Some sig) \<Rightarrow>
          if ts = [] \<or> sig = [] then Inl VerificationError
          else bind_r (sdk_verify_signature env now secret ts raw_body sig tolerance) (\<lambda>valid.
            if valid then Inr () else Inl VerificationError)
      | _ \<Rightarrow> Inl VerificationError)"

end
