(* ===== verification/SdkClient.thy ===== *)
theory SdkClient
  imports SdkShapes
begin

text \<open>
  The SDK, part two (\<^verbatim>\<open>sdk/truefigure/client.py\<close>): the transport with its retries,
  the offline buffer, the queue of events and \<^verbatim>\<open>flush\<close>. The network, the clock and
  \<^verbatim>\<open>sleep\<close> act on a world that is a parameter; \<open>sdk_trace\<close> records, for the
  statements only, which requests the client sent and how long it slept.
\<close>

section \<open>Clients and their state\<close>

record http_request =
  rq_method :: string
  rq_url :: string
  rq_headers :: headers
  rq_body :: json

type_synonym answer = "int \<times> headers \<times> json"

record client =
  cl_api_key :: string
  cl_base_url :: string
  cl_deployment_id :: "string option"
  cl_buffered :: bool
  cl_max_retries :: int
  cl_source_ref :: "string option"

datatype sdk_io = Sent http_request | Slept rat

record 'w sdk =
  sdk_pending :: "json list"
  sdk_spool :: "string option"
  sdk_trace :: "sdk_io list"
  sdk_world :: 'w

text \<open>
  \<open>io_transport\<close> is the injectable transport, \<open>io_put\<close> the injectable uploader,
  \<open>io_clock\<close> reads \<^verbatim>\<open>time.monotonic\<close>, \<open>io_loads\<close> is \<^verbatim>\<open>json.loads\<close>, and
  \<open>io_repr\<close> is \<^verbatim>\<open>str\<close> of a float, a list or a dictionary.
\<close>

record 'w sdk_env =
  io_transport :: "http_request \<Rightarrow> ('w, answer) st"
  io_put :: "json \<Rightarrow> string \<Rightarrow> ('w, int) st"
  io_sleep :: "rat \<Rightarrow> 'w \<Rightarrow> 'w"
  io_clock :: "'w \<Rightarrow> rat"
  io_loads :: "string \<Rightarrow> json option"
  io_float_repr :: "rat \<Rightarrow> string"
  io_repr :: "json \<Rightarrow> string"

definition SDK_MAX_BATCH :: nat where
  "SDK_MAX_BATCH = 500"

definition given :: "string option \<Rightarrow> bool" where
  "given x = (case x of None \<Rightarrow> False | Some s \<Rightarrow> s \<noteq> [])"

definition make_client ::
  "string \<Rightarrow> string \<Rightarrow> string option \<Rightarrow> string option \<Rightarrow> int \<Rightarrow> string option \<Rightarrow> client" where
  "make_client api_key base_url deployment_id buffer_path max_retries source_ref =
     \<lparr>cl_api_key = api_key, cl_base_url = rev (dropWhile (\<lambda>c. c = CHR ''/'') (rev base_url)),
      cl_deployment_id = deployment_id, cl_buffered = given buffer_path,
      cl_max_retries = max_retries, cl_source_ref = source_ref\<rparr>"

definition on_world :: "('w, 'a) st \<Rightarrow> ('w sdk, 'a) st" where
  "on_world m s = (case m (sdk_world s) of (w, r) \<Rightarrow> (s\<lparr>sdk_world := w\<rparr>, r))"

definition log_io :: "sdk_io \<Rightarrow> 'w sdk \<Rightarrow> 'w sdk" where
  "log_io x s = s\<lparr>sdk_trace := sdk_trace s @ [x]\<rparr>"

section \<open>Requests and their retries\<close>

definition send_request :: "'w sdk_env \<Rightarrow> http_request \<Rightarrow> ('w sdk, answer) st" where
  "send_request env rq = bind_s (writes (log_io (Sent rq))) (\<lambda>_. on_world (io_transport env rq))"

text \<open>\<^verbatim>\<open>time.sleep\<close>: a number that is not negative, else it raises.\<close>

definition sleep_time :: "json \<Rightarrow> rat result" where
  "sleep_time j =
     (case j of
        JInt n \<Rightarrow> if n < 0 then Inl ValueError else Inr (of_int n)
      | JReal r \<Rightarrow> if r < 0 then Inl ValueError else Inr r
      | JBool b \<Rightarrow> Inr (if b then 1 else 0)
      | _ \<Rightarrow> Inl TypeError)"

definition sdk_sleep :: "'w sdk_env \<Rightarrow> json \<Rightarrow> ('w sdk, unit) st" where
  "sdk_sleep env j =
     bind_s (lift_r (sleep_time j)) (\<lambda>d.
     bind_s (writes (log_io (Slept d))) (\<lambda>_. on_world (writes (io_sleep env d))))"

definition answer_errors :: "json \<Rightarrow> error_object list result" where
  "answer_errors env =
     bind_r (py_get env ''errors'' (JList [])) (\<lambda>es.
     bind_r (py_iter es) (map_r error_object_of))"

definition answer_request_id :: "headers \<Rightarrow> json \<Rightarrow> json result" where
  "answer_request_id rh env =
     bind_r (py_get env ''meta'' (JObj [])) (\<lambda>m.
     py_get m ''request_id'' (JStr (case map_of rh ''x-request-id'' of None \<Rightarrow> [] | Some r \<Rightarrow> r)))"

definition is_retryable :: "int \<Rightarrow> error_object list \<Rightarrow> bool" where
  "is_retryable status errors = (status = 429 \<or> 500 \<le> status \<or> (\<exists>e \<in> set errors. eo_retryable e))"

text \<open>The delay an error asks for, else the header's seconds, else the back-off.\<close>

definition retry_wait :: "headers \<Rightarrow> error_object list \<Rightarrow> rat \<Rightarrow> json result" where
  "retry_wait rh errors delay =
     (case find (\<lambda>e. truthy (eo_retry_after e)) errors of
        Some e \<Rightarrow> Inr (eo_retry_after e)
      | None \<Rightarrow>
          (case map_of rh ''retry-after'' of
             None \<Rightarrow> Inr (JReal delay)
           | Some h \<Rightarrow>
               (case py_int h of
                  None \<Rightarrow> Inl ValueError
                | Some n \<Rightarrow> Inr (if n = 0 then JReal delay else JInt n))))"

definition unnamed_error :: "int \<Rightarrow> json \<Rightarrow> error_object" where
  "unnamed_error status req_id =
     \<lparr>eo_code = JStr ''TF-SRV-001'', eo_message = JStr (''HTTP '' @ int_str status), eo_retryable = True,
      eo_request_id = req_id, eo_field_path = JNull, eo_expected = JNull, eo_received = JNull,
      eo_retry_after = JNull, eo_doc_url = JNull\<rparr>"

definition request_failed :: "int \<Rightarrow> error_object list \<Rightarrow> json \<Rightarrow> exn" where
  "request_failed status errors req_id =
     (if status = 429 then RateLimited errors (error_request_id errors req_id)
      else let es = (if errors = [] then [unnamed_error status req_id] else errors)
           in TrueFigureError es (error_request_id es req_id))"

text \<open>\<open>retries\<close> is how many retries are left, \<open>delay\<close> the next back-off.\<close>

primrec request_loop :: "'w sdk_env \<Rightarrow> http_request \<Rightarrow> nat \<Rightarrow> rat \<Rightarrow> ('w sdk, json) st" where
  "request_loop env rq 0 = (\<lambda>delay.
     bind_s (send_request env rq) (\<lambda>(status, rh, answer).
     bind_s (lift_r (answer_errors answer)) (\<lambda>errors.
     bind_s (lift_r (answer_request_id rh answer)) (\<lambda>req_id.
       if status < 400 \<and> errors = [] then ret answer
       else raise (request_failed status errors req_id)))))"
| "request_loop env rq (Suc retries) = (\<lambda>delay.
     bind_s (send_request env rq) (\<lambda>(status, rh, answer).
     bind_s (lift_r (answer_errors answer)) (\<lambda>errors.
     bind_s (lift_r (answer_request_id rh answer)) (\<lambda>req_id.
       if status < 400 \<and> errors = [] then ret answer
       else if is_retryable status errors then
         bind_s (lift_r (retry_wait rh errors delay)) (\<lambda>wait.
         bind_s (sdk_sleep env wait) (\<lambda>_.
         request_loop env rq retries (min (delay * 2) 30)))
       else raise (request_failed status errors req_id)))))"

definition request_headers :: "client \<Rightarrow> headers \<Rightarrow> headers" where
  "request_headers c extra_headers =
     update_items
       ([(''Authorization'', ''Bearer '' @ cl_api_key c), (''Content-Type'', ''application/json'')]
        @ (case cl_source_ref c of
             None \<Rightarrow> [] | Some r \<Rightarrow> if r = [] then [] else [(''X-TrueFigure-Source'', r)]))
       extra_headers"

definition sdk_request ::
  "client \<Rightarrow> 'w sdk_env \<Rightarrow> string \<Rightarrow> string \<Rightarrow> (string \<times> json) list \<Rightarrow> headers \<Rightarrow> ('w sdk, json) st" where
  "sdk_request c env method path body extra_headers =
     request_loop env
       \<lparr>rq_method = method, rq_url = cl_base_url c @ path,
        rq_headers = request_headers c extra_headers, rq_body = JObj body\<rparr>
       (nat (cl_max_retries c)) (1 / 2)"

text \<open>
  The transport over \<^verbatim>\<open>urllib\<close>: \<open>urlopen\<close> takes the method, the URL, the headers
  and the data, and returns a reply or the reply and the text of an \<^verbatim>\<open>HTTPError\<close>.
\<close>

datatype http_reply = Http_Ok int headers string | Http_Error int headers string string

definition http_error_envelope :: "int \<Rightarrow> string \<Rightarrow> json" where
  "http_error_envelope status reason =
     JObj [(''data'', JNull), (''meta'', JObj []),
           (''errors'', JList [JObj [(''code'', JStr ''TF-SRV-001''), (''message'', JStr reason),
              (''retryable'', JBool (500 \<le> status))]])]"

definition http_transport ::
  "(string \<Rightarrow> string \<Rightarrow> headers \<Rightarrow> string option \<Rightarrow> ('w, http_reply) st) \<Rightarrow> (string \<Rightarrow> json option)
     \<Rightarrow> (rat \<Rightarrow> string) \<Rightarrow> http_request \<Rightarrow> ('w, answer) st" where
  "http_transport urlopen loads float_repr rq =
     (let data = (if rq_method rq \<noteq> ''GET'' then Some (json_dumps float_repr default_style (rq_body rq)) else None)
      in bind_s (urlopen (rq_method rq) (rq_url rq) (rq_headers rq) data) (\<lambda>reply.
        case reply of
          Http_Ok status rh text \<Rightarrow>
            (case loads text of None \<Rightarrow> raise ValueError | Some j \<Rightarrow> ret (status, rh, j))
        | Http_Error status rh text reason \<Rightarrow>
            ret (status, rh, case loads text of None \<Rightarrow> http_error_envelope status reason | Some j \<Rightarrow> j)))"

text \<open>The upload of a file without an injected uploader; \<^verbatim>\<open>HTTPError\<close> is an \<^verbatim>\<open>OSError\<close>.\<close>

definition http_upload ::
  "(string \<Rightarrow> string \<Rightarrow> headers \<Rightarrow> string option \<Rightarrow> ('w, http_reply) st) \<Rightarrow> string \<Rightarrow> string \<Rightarrow> ('w, int) st" where
  "http_upload urlopen url data =
     bind_s (urlopen ''PUT'' url [(''Content-Type'', ''application/x-ndjson'')] (Some data)) (\<lambda>reply.
       case reply of Http_Ok status _ _ \<Rightarrow> ret status | Http_Error _ _ _ _ \<Rightarrow> raise OSError)"

section \<open>The offline buffer\<close>

definition spool_lines :: "'w sdk_env \<Rightarrow> json list \<Rightarrow> string" where
  "spool_lines env envelopes =
     concat (map (\<lambda>e. json_dumps (io_float_repr env) default_style e @ [CHR 0x0A]) envelopes)"

definition spool_append :: "'w sdk_env \<Rightarrow> json list \<Rightarrow> 'w sdk \<Rightarrow> 'w sdk" where
  "spool_append env envelopes s =
     s\<lparr>sdk_spool := Some ((case sdk_spool s of None \<Rightarrow> [] | Some t \<Rightarrow> t) @ spool_lines env envelopes)\<rparr>"

text \<open>The lines of a text file: every line ending reads as a line feed.\<close>

fun file_lines_acc :: "string \<Rightarrow> string \<Rightarrow> string list" where
  "file_lines_acc cur [] = (if cur = [] then [] else [cur])"
| "file_lines_acc cur [c] =
     (if c = CHR 0x0A \<or> c = CHR 0x0D then [cur @ [CHR 0x0A]] else [cur @ [c]])"
| "file_lines_acc cur (c # d # cs) =
     (if c = CHR 0x0D \<and> d = CHR 0x0A then (cur @ [CHR 0x0A]) # file_lines_acc [] cs
      else if c = CHR 0x0A \<or> c = CHR 0x0D then (cur @ [CHR 0x0A]) # file_lines_acc [] (d # cs)
      else file_lines_acc (cur @ [c]) (d # cs))"

definition file_lines :: "string \<Rightarrow> string list" where
  "file_lines text = file_lines_acc [] text"

definition spooled :: "'w sdk_env \<Rightarrow> string \<Rightarrow> json list result" where
  "spooled env text =
     map_r (\<lambda>line. case io_loads env line of None \<Rightarrow> Inl ValueError | Some j \<Rightarrow> Inr j)
       (filter (\<lambda>line. strip line \<noteq> []) (file_lines text))"

definition drain :: "'w sdk_env \<Rightarrow> ('w sdk, json list) st" where
  "drain env =
     bind_s (reads sdk_spool) (\<lambda>file.
       case file of
         None \<Rightarrow> ret []
       | Some text \<Rightarrow>
           bind_s (lift_r (spooled env text)) (\<lambda>items.
           bind_s (writes (\<lambda>s. s\<lparr>sdk_spool := Some []\<rparr>)) (\<lambda>_. ret items)))"

section \<open>Results of a batch\<close>

record batch_result =
  br_results :: json
  br_request_id :: json
  br_accepted :: "json list"
  br_duplicates :: "json list"
  br_rejected :: "json list"

definition with_status :: "string \<Rightarrow> json list \<Rightarrow> json list result" where
  "with_status st rs =
     bind_r (map_r (\<lambda>r. bind_r (py_get r ''status'' JNull) (\<lambda>x. Inr (r, x))) rs) (\<lambda>ps.
     Inr (map fst (filter (\<lambda>p. snd p = JStr st) ps)))"

definition mk_batch_result :: "json \<Rightarrow> json \<Rightarrow> batch_result result" where
  "mk_batch_result results req_id =
     bind_r (py_iter results) (\<lambda>rs.
     bind_r (with_status ''accepted'' rs) (\<lambda>a.
     bind_r (with_status ''duplicate'' rs) (\<lambda>d.
     bind_r (with_status ''rejected'' rs) (\<lambda>x.
       Inr \<lparr>br_results = results, br_request_id = req_id, br_accepted = a, br_duplicates = d,
            br_rejected = x\<rparr>))))"

text \<open>\<^verbatim>\<open>env["meta"]["request_id"]\<close> and \<^verbatim>\<open>env["data"]["results"]\<close>.\<close>

definition meta_request_id :: "json \<Rightarrow> json result" where
  "meta_request_id env = bind_r (py_item env ''meta'') (\<lambda>m. py_item m ''request_id'')"

definition data_results :: "json \<Rightarrow> json result" where
  "data_results env = bind_r (py_item env ''data'') (\<lambda>d. py_item d ''results'')"

text \<open>What the log line of a rejected event reads from its result.\<close>

definition log_result :: "json \<Rightarrow> json result" where
  "log_result r =
     bind_r (py_get r ''status'' JNull) (\<lambda>st.
       if st = JStr ''rejected'' then
         bind_r (py_get r ''error'' (JObj [])) (\<lambda>e. bind_r (py_get e ''code'' JNull) (\<lambda>_. Inr r))
       else Inr r)"

section \<open>The queue and flush\<close>

definition batches :: "'a list \<Rightarrow> 'a list list" where
  "batches xs =
     map (\<lambda>i. take SDK_MAX_BATCH (drop (i * SDK_MAX_BATCH) xs)) [0..<(length xs + SDK_MAX_BATCH - 1) div SDK_MAX_BATCH]"

definition post_events :: "client \<Rightarrow> 'w sdk_env \<Rightarrow> string \<Rightarrow> json list \<Rightarrow> ('w sdk, json) st" where
  "post_events c env mode evs =
     sdk_request c env ''POST'' ''/v1/events:batch'' [(''events'', JList evs)]
       [(''X-TrueFigure-Mode'', mode)]"

definition chunk_failed :: "client \<Rightarrow> 'w sdk_env \<Rightarrow> json list \<Rightarrow> exn \<Rightarrow> ('w sdk, json option) st option" where
  "chunk_failed c env chunk e =
     (case e of
        TrueFigureError _ _ \<Rightarrow> Some
          (if cl_buffered c then bind_s (writes (spool_append env chunk)) (\<lambda>_. ret None)
           else bind_s (writes (\<lambda>s. s\<lparr>sdk_pending := chunk @ sdk_pending s\<rparr>)) (\<lambda>_. raise e))
      | RateLimited _ _ \<Rightarrow> Some
          (if cl_buffered c then bind_s (writes (spool_append env chunk)) (\<lambda>_. ret None)
           else bind_s (writes (\<lambda>s. s\<lparr>sdk_pending := chunk @ sdk_pending s\<rparr>)) (\<lambda>_. raise e))
      | _ \<Rightarrow> None)"

definition send_chunk ::
  "client \<Rightarrow> 'w sdk_env \<Rightarrow> string \<Rightarrow> json list \<Rightarrow> json list \<times> json \<Rightarrow> ('w sdk, json list \<times> json) st" where
  "send_chunk c env mode chunk acc =
     bind_s (catch (bind_s (post_events c env mode chunk) (\<lambda>answer. ret (Some answer)))
               (chunk_failed c env chunk)) (\<lambda>sent.
       case sent of
         None \<Rightarrow> ret acc
       | Some answer \<Rightarrow>
           bind_s (lift_r (meta_request_id answer)) (\<lambda>req_id.
           bind_s (lift_r (bind_r (data_results answer) py_iter)) (\<lambda>rs.
           bind_s (lift_r (map_r log_result rs)) (\<lambda>logged. ret (fst acc @ logged, req_id)))))"

definition flush :: "client \<Rightarrow> 'w sdk_env \<Rightarrow> string \<Rightarrow> ('w sdk, batch_result) st" where
  "flush c env mode =
     bind_s (reads sdk_pending) (\<lambda>queued.
     bind_s (writes (\<lambda>s. s\<lparr>sdk_pending := []\<rparr>)) (\<lambda>_.
     bind_s (if cl_buffered c then drain env else ret []) (\<lambda>replayed.
       let batch = replayed @ queued in
       if batch = [] then lift_r (mk_batch_result (JList []) (JStr []))
       else
         bind_s (fold_s (send_chunk c env mode) (batches batch) ([], JStr [])) (\<lambda>(results, req_id).
         lift_r (mk_batch_result (JList results) req_id)))))"

definition enqueue_event :: "client \<Rightarrow> 'w sdk_env \<Rightarrow> json \<Rightarrow> ('w sdk, nat) st" where
  "enqueue_event c env event =
     bind_s (writes (\<lambda>s. s\<lparr>sdk_pending := sdk_pending s @ [event]\<rparr>)) (\<lambda>_.
     bind_s (reads (\<lambda>s. length (sdk_pending s))) (\<lambda>pos.
     bind_s (if SDK_MAX_BATCH \<le> pos then bind_s (flush c env ''production'') (\<lambda>_. ret ()) else ret ()) (\<lambda>_.
     ret pos)))"

text \<open>\<^verbatim>\<open>override or self.deployment_id\<close>.\<close>

definition deployment_or_default :: "client \<Rightarrow> string option \<Rightarrow> string result" where
  "deployment_or_default c override =
     (case (if given override then override else cl_deployment_id c) of
        None \<Rightarrow> Inl ValueError
      | Some d \<Rightarrow> if d = [] then Inl ValueError else Inr d)"

text \<open>\<^verbatim>\<open>track_activity\<close> and its siblings differ in the builder only.\<close>

definition track_with ::
  "client \<Rightarrow> 'w sdk_env \<Rightarrow> string option \<Rightarrow> (string \<Rightarrow> (string \<times> json) list) \<Rightarrow> ('w sdk, nat) st" where
  "track_with c env deployment_id build =
     bind_s (lift_r (deployment_or_default c deployment_id)) (\<lambda>d. enqueue_event c env (JObj (build d)))"

definition track_activity ::
  "client \<Rightarrow> 'w sdk_env \<Rightarrow> string option \<Rightarrow> json \<Rightarrow> json \<Rightarrow> json \<Rightarrow> json \<Rightarrow> event_options \<Rightarrow> ('w sdk, nat) st" where
  "track_activity c env dep u ts wi act opts = track_with c env dep (\<lambda>d. activity_event u ts wi act d opts)"

definition track_lifecycle ::
  "client \<Rightarrow> 'w sdk_env \<Rightarrow> string option \<Rightarrow> json \<Rightarrow> json \<Rightarrow> json \<Rightarrow> event_options \<Rightarrow> ('w sdk, nat) st" where
  "track_lifecycle c env dep wi ev ts opts = track_with c env dep (\<lambda>d. lifecycle_event wi ev ts d opts)"

definition track_cost ::
  "client \<Rightarrow> 'w sdk_env \<Rightarrow> string option \<Rightarrow> json \<Rightarrow> json \<Rightarrow> json \<Rightarrow> event_options \<Rightarrow> ('w sdk, nat) st" where
  "track_cost c env dep m n ts opts = track_with c env dep (\<lambda>d. cost_meter_event m n ts d opts)"

definition track_quality ::
  "client \<Rightarrow> 'w sdk_env \<Rightarrow> string option \<Rightarrow> json \<Rightarrow> json \<Rightarrow> json \<Rightarrow> event_options \<Rightarrow> ('w sdk, nat) st" where
  "track_quality c env dep wi sg ts opts = track_with c env dep (\<lambda>d. quality_signal_event wi sg ts d opts)"

definition track_revenue ::
  "client \<Rightarrow> 'w sdk_env \<Rightarrow> string option \<Rightarrow> json \<Rightarrow> json \<Rightarrow> json \<Rightarrow> event_options \<Rightarrow> ('w sdk, nat) st" where
  "track_revenue c env dep wi rv ts opts = track_with c env dep (\<lambda>d. revenue_signal_event wi rv ts d opts)"

definition track :: "client \<Rightarrow> 'w sdk_env \<Rightarrow> (string \<times> json) list \<Rightarrow> ('w sdk, nat) st" where
  "track c env event = enqueue_event c env (JObj event)"

section \<open>Direct posts\<close>

definition batch_answer :: "json \<Rightarrow> batch_result result" where
  "batch_answer answer =
     bind_r (data_results answer) (\<lambda>results.
     bind_r (meta_request_id answer) (\<lambda>req_id. mk_batch_result results req_id))"

definition ingest :: "client \<Rightarrow> 'w sdk_env \<Rightarrow> json list \<Rightarrow> string \<Rightarrow> ('w sdk, batch_result) st" where
  "ingest c env envelopes mode =
     bind_s (post_events c env mode envelopes) (\<lambda>answer. lift_r (batch_answer answer))"

definition echo :: "client \<Rightarrow> 'w sdk_env \<Rightarrow> json list option \<Rightarrow> ('w sdk, batch_result) st" where
  "echo c env envelopes =
     bind_s (case envelopes of
               Some es \<Rightarrow> ret es
             | None \<Rightarrow> bind_s (reads sdk_pending) (\<lambda>es.
                 bind_s (writes (\<lambda>s. s\<lparr>sdk_pending := []\<rparr>)) (\<lambda>_. ret es))) (\<lambda>es.
     bind_s (post_events c env ''test'' es) (\<lambda>answer. lift_r (batch_answer answer)))"

end
