(* ===== verification/SdkApi.thy ===== *)
theory SdkApi
  imports SdkClient
begin

text \<open>
  The SDK, part three (\<^verbatim>\<open>sdk/truefigure/client.py\<close>): the method of every endpoint,
  pagination, and the upload of an import with the polling of its job. A body value is JSON
  and \<open>JNull\<close> stands for an argument left at \<^verbatim>\<open>None\<close>.
\<close>

section \<open>Endpoints\<close>

text \<open>\<^verbatim>\<open>self._request(...)["data"]\<close>, with the deployment of the path where it has one.\<close>

definition api ::
  "client \<Rightarrow> 'w sdk_env \<Rightarrow> string \<Rightarrow> string \<Rightarrow> (string \<times> json) list \<Rightarrow> ('w sdk, json) st" where
  "api c env method path body =
     bind_s (sdk_request c env method path body []) (\<lambda>answer. lift_r (py_item answer ''data''))"

definition api_at ::
  "client \<Rightarrow> 'w sdk_env \<Rightarrow> string \<Rightarrow> string option \<Rightarrow> (string \<Rightarrow> string) \<Rightarrow> (string \<times> json) list
     \<Rightarrow> ('w sdk, json) st" where
  "api_at c env method dep path body =
     bind_s (lift_r (deployment_or_default c dep)) (\<lambda>d. api c env method (path d) body)"

definition if_truthy :: "string \<Rightarrow> json \<Rightarrow> (string \<times> json) list" where
  "if_truthy k v = (if truthy v then [(k, v)] else [])"

definition if_some :: "string \<Rightarrow> json \<Rightarrow> (string \<times> json) list" where
  "if_some k v = (if v \<noteq> JNull then [(k, v)] else [])"

definition period_query :: "string option \<Rightarrow> string" where
  "period_query period = (case period of None \<Rightarrow> [] | Some p \<Rightarrow> if p = [] then [] else ''?period='' @ p)"

subsection \<open>Read plane\<close>

definition sdk_event_status where
  "sdk_event_status c env event_key' = api c env ''GET'' (''/v1/events/'' @ event_key' @ ''/status'') []"

definition sdk_live_usage where
  "sdk_live_usage c env dep = api_at c env ''GET'' dep (\<lambda>d. ''/v1/live/usage/'' @ d) []"

definition sdk_live_cost where
  "sdk_live_cost c env dep = api_at c env ''GET'' dep (\<lambda>d. ''/v1/live/cost/'' @ d) []"

definition integration_health where
  "integration_health c env dep = api_at c env ''GET'' dep (\<lambda>d. ''/v1/live/health/'' @ d) []"

definition figures_of where
  "figures_of c env dep period =
     api_at c env ''GET'' dep (\<lambda>d. ''/v1/figures/'' @ d @ period_query period) []"

definition sdk_get_figure where
  "sdk_get_figure c env figure_id dep = api_at c env ''GET'' dep (\<lambda>d. ''/v1/figures/'' @ d @ ''/'' @ figure_id) []"

definition sdk_figure_lineage where
  "sdk_figure_lineage c env figure_id dep =
     api_at c env ''GET'' dep (\<lambda>d. ''/v1/figures/'' @ d @ ''/'' @ figure_id @ ''/lineage'') []"

definition reports_of where
  "reports_of c env dep period =
     api_at c env ''GET'' dep (\<lambda>d. ''/v1/reports/'' @ d @ period_query period) []"

definition sdk_get_report where
  "sdk_get_report c env report_id dep = api_at c env ''GET'' dep (\<lambda>d. ''/v1/reports/'' @ d @ ''/'' @ report_id) []"

definition list_alerts_of where
  "list_alerts_of c env dep status' =
     api c env ''GET'' (''/v1/alerts?status='' @ status'
       @ (case dep of None \<Rightarrow> [] | Some d \<Rightarrow> if d = [] then [] else ''&deployment_id='' @ d)) []"

definition ack_alert_of where
  "ack_alert_of c env alert_id = api c env ''POST'' (''/v1/alerts/'' @ alert_id @ '':ack'') []"

definition sdk_whoami where
  "sdk_whoami c env = api c env ''GET'' ''/v1/whoami'' []"

subsection \<open>Deployments, licences and the roster\<close>

definition sdk_register_deployment where
  "sdk_register_deployment c env name type external_ref planned_rollout_at service_user_refs =
     api c env ''POST'' ''/v1/deployments''
       ([(''name'', name), (''type'', type)] @ if_truthy ''external_ref'' external_ref
        @ if_truthy ''planned_rollout_at'' planned_rollout_at
        @ if_truthy ''service_user_refs'' service_user_refs)"

definition sdk_list_deployments where
  "sdk_list_deployments c env = api c env ''GET'' ''/v1/deployments'' []"

definition sdk_get_deployment where
  "sdk_get_deployment c env dep = api_at c env ''GET'' dep (\<lambda>d. ''/v1/deployments/'' @ d) []"

definition sdk_update_deployment where
  "sdk_update_deployment c env dep name planned_rollout_at =
     api_at c env ''PATCH'' dep (\<lambda>d. ''/v1/deployments/'' @ d)
       (if_some ''name'' name @ if_some ''planned_rollout_at'' planned_rollout_at)"

definition sdk_declare_license where
  "sdk_declare_license c env seats_paid valid_from price_per_seat period_unit currency licensed_user_refs dep =
     api_at c env ''PUT'' dep (\<lambda>d. ''/v1/deployments/'' @ d @ ''/license'')
       ([(''seats_paid'', seats_paid), (''valid_from'', valid_from), (''period_unit'', period_unit),
         (''currency'', currency)] @ if_some ''price_per_seat'' price_per_seat
        @ if_truthy ''licensed_user_refs'' licensed_user_refs)"

definition sdk_get_license where
  "sdk_get_license c env dep = api_at c env ''GET'' dep (\<lambda>d. ''/v1/deployments/'' @ d @ ''/license'') []"

definition sdk_upsert_roster where
  "sdk_upsert_roster c env users' = api c env ''POST'' ''/v1/roster:batch'' [(''users'', users')]"

definition sdk_list_roster where
  "sdk_list_roster c env status' kind =
     (let q = join ''&'' (map (\<lambda>(k, v). k @ ''='' @ the v)
                (filter (\<lambda>kv. given (snd kv)) [(''status'', status'), (''kind'', kind)]))
      in api c env ''GET'' (''/v1/roster'' @ (if q = [] then [] else ''?'' @ q)) [])"

subsection \<open>Declarations\<close>

definition sdk_create_parameter_version where
  "sdk_create_parameter_version c env parameters' effective_from currency =
     api c env ''POST'' ''/v1/parameters''
       [(''payload'', parameters'), (''effective_from'', effective_from), (''currency'', currency)]"

definition sdk_list_parameters where
  "sdk_list_parameters c env = api c env ''GET'' ''/v1/parameters'' []"

definition sdk_get_parameter_version where
  "sdk_get_parameter_version c env version = api c env ''GET'' (''/v1/parameters/'' @ int_str version) []"

definition sdk_declare_change_event where
  "sdk_declare_change_event c env type occurred_at sidedness description deployment_refs supersedes =
     api c env ''POST'' ''/v1/change-events''
       ([(''type'', type), (''occurred_at'', occurred_at), (''sidedness'', sidedness),
         (''description'', description)] @ if_truthy ''deployment_refs'' deployment_refs
        @ if_truthy ''supersedes'' supersedes)"

definition sdk_list_change_events where
  "sdk_list_change_events c env = api c env ''GET'' ''/v1/change-events'' []"

definition sdk_register_id_namespace where
  "sdk_register_id_namespace c env field namespace dep source_ref format_regex description =
     api c env ''POST'' ''/v1/id-namespaces''
       ([(''field'', field), (''namespace'', namespace), (''source_ref'', source_ref)]
        @ if_truthy ''deployment_id'' dep @ if_truthy ''format_regex'' format_regex
        @ if_truthy ''description'' description)"

definition sdk_list_id_namespaces where
  "sdk_list_id_namespaces c env = api c env ''GET'' ''/v1/id-namespaces'' []"

definition sdk_register_label_schema where
  "sdk_register_label_schema c env label_schema_ref name label_values applies_to_category min_samples =
     api c env ''POST'' ''/v1/qa-labels/schemas''
       ([(''label_schema_ref'', label_schema_ref), (''name'', name), (''label_values'', label_values),
         (''min_samples_for_calibration'', min_samples)]
        @ if_truthy ''applies_to_category'' applies_to_category)"

definition sdk_list_label_schemas where
  "sdk_list_label_schemas c env = api c env ''GET'' ''/v1/qa-labels/schemas'' []"

definition sdk_create_mapping_contract where
  "sdk_create_mapping_contract c env source_ref event_type version field_map notes =
     api c env ''POST'' ''/v1/mapping-contracts''
       ([(''source_ref'', source_ref), (''event_type'', event_type), (''version'', version),
         (''field_map'', field_map)] @ if_truthy ''notes'' notes)"

definition sdk_list_mapping_contracts where
  "sdk_list_mapping_contracts c env = api c env ''GET'' ''/v1/mapping-contracts'' []"

definition sdk_create_webhook where
  "sdk_create_webhook c env url evs secret =
     api c env ''POST'' ''/v1/webhooks'' [(''url'', url), (''events'', evs), (''secret'', secret)]"

definition sdk_list_webhooks where
  "sdk_list_webhooks c env = api c env ''GET'' ''/v1/webhooks'' []"

definition sdk_delete_webhook where
  "sdk_delete_webhook c env webhook_id = api c env ''DELETE'' (''/v1/webhooks/'' @ webhook_id) []"

definition sdk_webhook_deliveries where
  "sdk_webhook_deliveries c env webhook_id =
     api c env ''GET'' (''/v1/webhooks/'' @ webhook_id @ ''/deliveries'') []"

section \<open>Bring-up\<close>

text \<open>\<^verbatim>\<open>str(v)\<close> of a JSON value, as an f-string and \<^verbatim>\<open>urlencode\<close> render it.\<close>

definition sdk_str :: "'w sdk_env \<Rightarrow> json \<Rightarrow> string" where
  "sdk_str env j =
     (case j of
        JStr s \<Rightarrow> s
      | JNull \<Rightarrow> ''None''
      | JBool b \<Rightarrow> if b then ''True'' else ''False''
      | JInt n \<Rightarrow> int_str n
      | _ \<Rightarrow> io_repr env j)"

text \<open>\<^verbatim>\<open>f(**kw)\<close>: no keyword outside the signature, none of the required ones missing.\<close>

definition check_keywords :: "string list \<Rightarrow> string list \<Rightarrow> (string \<times> json) list \<Rightarrow> unit result" where
  "check_keywords required optional kw =
     (if list_all (\<lambda>r. json_get kw r \<noteq> None) required
         \<and> list_all (\<lambda>kv. fst kv \<in> set (required @ optional)) kw
      then Inr () else Inl TypeError)"

definition declare_license_kw ::
  "client \<Rightarrow> 'w sdk_env \<Rightarrow> json \<Rightarrow> (string \<times> json) list \<Rightarrow> ('w sdk, json) st" where
  "declare_license_kw c env did kw =
     bind_s (lift_r (check_keywords [''seats_paid'', ''valid_from'']
               [''price_per_seat'', ''period_unit'', ''currency'', ''licensed_user_refs''] kw)) (\<lambda>_.
     sdk_declare_license c env (json_get_or kw ''seats_paid'' JNull) (json_get_or kw ''valid_from'' JNull)
       (json_get_or kw ''price_per_seat'' JNull) (json_get_or kw ''period_unit'' (JStr ''year''))
       (json_get_or kw ''currency'' (JStr ''USD'')) (json_get_or kw ''licensed_user_refs'' JNull)
       (if truthy did then Some (sdk_str env did) else None))"

definition provision ::
  "client \<Rightarrow> 'w sdk_env \<Rightarrow> json \<Rightarrow> json \<Rightarrow> (string \<times> json) list \<Rightarrow> json \<Rightarrow> json
     \<Rightarrow> (string \<times> json) list \<Rightarrow> ('w sdk, json) st" where
  "provision c env name type license parameters' effective_from deploy_kw =
     bind_s (lift_r (check_keywords [] [''external_ref'', ''planned_rollout_at'', ''service_user_refs'']
               deploy_kw)) (\<lambda>_.
     bind_s (sdk_register_deployment c env name type (json_get_or deploy_kw ''external_ref'' JNull)
               (json_get_or deploy_kw ''planned_rollout_at'' JNull)
               (json_get_or deploy_kw ''service_user_refs'' JNull)) (\<lambda>dep.
     bind_s (lift_r (py_item dep ''deployment_id'')) (\<lambda>did.
     bind_s (if license = [] then ret JNull else declare_license_kw c env did license) (\<lambda>_.
     bind_s (if truthy parameters'
             then sdk_create_parameter_version c env parameters'
                    (if truthy effective_from then effective_from else JStr ''1970-01-01'') (JStr ''USD'')
             else ret JNull) (\<lambda>_. ret dep)))))"

section \<open>Pagination\<close>

text \<open>\<^verbatim>\<open>urlencode\<close>: \<^verbatim>\<open>quote_plus\<close> of every key and value.\<close>

definition is_url_safe :: "char \<Rightarrow> bool" where
  "is_url_safe c =
     (let n = of_char c :: nat in (48 \<le> n \<and> n \<le> 57) \<or> (65 \<le> n \<and> n \<le> 90) \<or> (97 \<le> n \<and> n \<le> 122)
        \<or> c \<in> set ''_.-~'')"

definition upper_hex :: "nat \<Rightarrow> char" where
  "upper_hex n = (if n < 10 then char_of (48 + n) else char_of (55 + n))"

definition quote_plus :: "string \<Rightarrow> string" where
  "quote_plus s =
     concat (map (\<lambda>c. let n = of_char c :: nat in
       if c = CHR '' '' then ''+'' else if is_url_safe c then [c]
       else [CHR 0x25, upper_hex (n div 16), upper_hex (n mod 16)]) (utf8_encode s))"

definition urlencode :: "'w sdk_env \<Rightarrow> (string \<times> json) list \<Rightarrow> string" where
  "urlencode env q = join ''&'' (map (\<lambda>(k, v). quote_plus k @ ''='' @ quote_plus (sdk_str env v)) q)"

text \<open>The request of one page, its items and the cursor of the next.\<close>

definition page_url :: "'w sdk_env \<Rightarrow> string \<Rightarrow> (string \<times> json) list \<Rightarrow> json \<Rightarrow> string" where
  "page_url env path params cursor =
     (let q = (if truthy cursor then put_item ''cursor'' cursor params else params)
      in path @ (if q = [] then [] else ''?'' @ urlencode env q))"

definition page_items :: "string \<Rightarrow> json \<Rightarrow> json list result" where
  "page_items items_key answer =
     bind_r (py_get answer ''data'' JNull) (\<lambda>data.
       case data of
         JObj kvs \<Rightarrow> py_iter (json_get_or kvs items_key (JList []))
       | _ \<Rightarrow> if truthy data then py_iter data else Inr [])"

definition page_cursor :: "json \<Rightarrow> json result" where
  "page_cursor answer =
     bind_r (py_get answer ''meta'' JNull) (\<lambda>m. if truthy m then py_get m ''next_cursor'' JNull else Inr JNull)"

text \<open>
  The generator run to its end: the items it yielded and the exception that ended it, if
  any. \<open>None\<close> says that \<open>fuel\<close> pages did not reach the end.
\<close>

fun paginate_from ::
  "nat \<Rightarrow> client \<Rightarrow> 'w sdk_env \<Rightarrow> string \<Rightarrow> (string \<times> json) list \<Rightarrow> string \<Rightarrow> json \<Rightarrow> json list
     \<Rightarrow> 'w sdk \<Rightarrow> ('w sdk \<times> json list \<times> exn option) option" where
  "paginate_from 0 c env path params items_key cursor items s = None"
| "paginate_from (Suc fuel) c env path params items_key cursor items s =
     (case sdk_request c env ''GET'' (page_url env path params cursor) [] [] s of
        (s', Inl e) \<Rightarrow> Some (s', items, Some e)
      | (s', Inr answer) \<Rightarrow>
          (case page_items items_key answer of
             Inl e \<Rightarrow> Some (s', items, Some e)
           | Inr new \<Rightarrow>
               (case page_cursor answer of
                  Inl e \<Rightarrow> Some (s', items @ new, Some e)
                | Inr next \<Rightarrow>
                    if truthy next
                    then paginate_from fuel c env path params items_key next (items @ new) s'
                    else Some (s', items @ new, None))))"

definition paginate where
  "paginate fuel c env path params items_key = paginate_from fuel c env path params items_key JNull []"

definition iter_roster where
  "iter_roster fuel c env filters = paginate fuel c env ''/v1/roster'' filters ''results''"

definition iter_deployments where
  "iter_deployments fuel c env = paginate fuel c env ''/v1/deployments'' [] ''results''"

definition iter_change_events where
  "iter_change_events fuel c env = paginate fuel c env ''/v1/change-events'' [] ''results''"

section \<open>Imports\<close>

definition sdk_create_import :: "client \<Rightarrow> 'w sdk_env \<Rightarrow> string \<Rightarrow> int option \<Rightarrow> ('w sdk, json) st" where
  "sdk_create_import c env kind expected_events =
     api c env ''POST'' ''/v1/imports''
       ([(''kind'', JStr kind)]
        @ (case expected_events of None \<Rightarrow> [] | Some n \<Rightarrow> if n = 0 then [] else [(''expected_events'', JInt n)])
        @ (case cl_source_ref c of None \<Rightarrow> [] | Some r \<Rightarrow> if r = [] then [] else [(''source_ref'', JStr r)]))"

definition sdk_import_status :: "client \<Rightarrow> 'w sdk_env \<Rightarrow> string \<Rightarrow> ('w sdk, json) st" where
  "sdk_import_status c env import_id = api c env ''GET'' (''/v1/imports/'' @ import_id) []"

definition IMPORT_TERMINAL :: "string list" where
  "IMPORT_TERMINAL = [''completed'', ''completed_with_rejects'', ''failed'']"

text \<open>\<^verbatim>\<open>status.get("status") in IMPORT_TERMINAL\<close>: a list or a dictionary has no hash.\<close>

definition is_terminal :: "json \<Rightarrow> bool result" where
  "is_terminal status' =
     bind_r (py_get status' ''status'' JNull) (\<lambda>st.
       case st of
         JStr x \<Rightarrow> Inr (x \<in> set IMPORT_TERMINAL)
       | JList _ \<Rightarrow> Inl TypeError
       | JObj _ \<Rightarrow> Inl TypeError
       | _ \<Rightarrow> Inr False)"

text \<open>\<open>None\<close>: neither a terminal state nor the deadline came within \<open>fuel\<close> polls.\<close>

fun poll_import ::
  "nat \<Rightarrow> client \<Rightarrow> 'w sdk_env \<Rightarrow> string \<Rightarrow> rat \<Rightarrow> rat \<Rightarrow> 'w sdk \<Rightarrow> ('w sdk \<times> json result) option" where
  "poll_import 0 c env import_id poll_interval deadline s = None"
| "poll_import (Suc fuel) c env import_id poll_interval deadline s =
     (case sdk_import_status c env import_id s of
        (s1, Inl e) \<Rightarrow> Some (s1, Inl e)
      | (s1, Inr status') \<Rightarrow>
          (case is_terminal status' of
             Inl e \<Rightarrow> Some (s1, Inl e)
           | Inr True \<Rightarrow> Some (s1, Inr status')
           | Inr False \<Rightarrow>
               if deadline \<le> io_clock env (sdk_world s1) then Some (s1, Inl TimeoutError)
               else
                 (case sdk_sleep env (JReal poll_interval) s1 of
                    (s2, Inl e) \<Rightarrow> Some (s2, Inl e)
                  | (s2, Inr _) \<Rightarrow> poll_import fuel c env import_id poll_interval deadline s2)))"

definition wait_for_import ::
  "nat \<Rightarrow> client \<Rightarrow> 'w sdk_env \<Rightarrow> string \<Rightarrow> rat \<Rightarrow> rat \<Rightarrow> 'w sdk \<Rightarrow> ('w sdk \<times> json result) option" where
  "wait_for_import fuel c env import_id poll_interval timeout s =
     poll_import fuel c env import_id poll_interval (io_clock env (sdk_world s) + timeout) s"

text \<open>The uploaded text; it is ASCII, hence its own UTF-8 encoding.\<close>

definition ndjson :: "'w sdk_env \<Rightarrow> json list \<Rightarrow> string" where
  "ndjson env evs = join [CHR 0x0A] (map (json_dumps (io_float_repr env) default_style) evs)"

definition upload_created ::
  "client \<Rightarrow> 'w sdk_env \<Rightarrow> json list \<Rightarrow> string \<Rightarrow> int option \<Rightarrow> ('w sdk, json \<times> json) st" where
  "upload_created c env evs kind expected_events =
     bind_s (sdk_create_import c env kind
       (Some (case expected_events of None \<Rightarrow> int (length evs) | Some n \<Rightarrow> n))) (\<lambda>created.
     bind_s (lift_r (py_item created ''import_id'')) (\<lambda>import_id.
     bind_s (lift_r (py_item created ''upload_url'')) (\<lambda>upload_url.
     bind_s (on_world (io_put env upload_url (ndjson env evs))) (\<lambda>_. ret (created, import_id)))))"

definition upload_import ::
  "nat \<Rightarrow> client \<Rightarrow> 'w sdk_env \<Rightarrow> json list \<Rightarrow> string \<Rightarrow> int option \<Rightarrow> bool \<Rightarrow> rat \<Rightarrow> rat
     \<Rightarrow> 'w sdk \<Rightarrow> ('w sdk \<times> json result) option" where
  "upload_import fuel c env evs kind expected_events wait poll_interval timeout s =
     (case upload_created c env evs kind expected_events s of
        (s', Inl e) \<Rightarrow> Some (s', Inl e)
      | (s', Inr (created, import_id)) \<Rightarrow>
          if wait then wait_for_import fuel c env (sdk_str env import_id) poll_interval timeout s'
          else Some (s', Inr created))"

end
