(* ===== verification/SdkSafe.thy ===== *)
theory SdkSafe
  imports SdkApi
begin

text \<open>
  What the SDK's transport and queue guarantee: how often a request is sent and how long it
  sleeps, what the client makes of the server's answers, and which events a flush keeps.
\<close>

section \<open>A request leaves the queue alone\<close>

definition blank :: "'w \<Rightarrow> 'w sdk" where
  "blank w = \<lparr>sdk_pending = [], sdk_spool = None, sdk_trace = [], sdk_world = w\<rparr>"

text \<open>The effect of a step that only sends, sleeps and moves the world.\<close>

definition after_io :: "'w sdk \<Rightarrow> 'w sdk \<Rightarrow> 'w sdk" where
  "after_io s u = s\<lparr>sdk_trace := sdk_trace s @ sdk_trace u, sdk_world := sdk_world u\<rparr>"

definition io_only :: "('w sdk, 'a) st \<Rightarrow> bool" where
  "io_only m \<longleftrightarrow> (\<forall>s. m s = (after_io s (fst (m (blank (sdk_world s)))), snd (m (blank (sdk_world s)))))"

named_theorems io_rules \<open>introduction rules for steps that only do input and output\<close>

lemma after_io_simps [simp]:
  "sdk_pending (after_io s u) = sdk_pending s" "sdk_spool (after_io s u) = sdk_spool s"
  "sdk_world (after_io s u) = sdk_world u" "sdk_trace (after_io s u) = sdk_trace s @ sdk_trace u"
  "sdk_world (blank w) = w" "sdk_trace (blank w) = []"
  by (simp_all add: after_io_def blank_def)

lemma after_io_blank [simp]: "after_io s (blank (sdk_world s)) = s"
  by (simp add: after_io_def blank_def)

lemma after_io_trans: "after_io (after_io s u) v = after_io s (after_io u v)"
  by (simp add: after_io_def)

lemma io_onlyD: "io_only m \<Longrightarrow> m s = (after_io s (fst (m (blank (sdk_world s)))), snd (m (blank (sdk_world s))))"
  unfolding io_only_def by blast

lemma io_basic [io_rules]:
  "io_only (ret x)" "io_only (raise e)" "io_only (lift_r r)" "io_only (on_world h)"
  "io_only (writes (log_io x'))"
  by (auto simp: io_only_def on_world_def log_io_def after_io_def blank_def split: prod.splits)

lemma io_bind [io_rules]:
  fixes m :: "('w sdk, 'a) st"
  assumes "io_only m" "\<And>x. io_only (k x)"
  shows "io_only (bind_s m k)"
  unfolding io_only_def
proof
  fix s :: "'w sdk"
  let ?b = "blank (sdk_world s)"
  obtain u r where u: "m ?b = (u, r)" by (cases "m ?b")
  then have ms: "m s = (after_io s u, r)" using io_onlyD [OF assms(1), of s] by simp
  show "bind_s m k s = (after_io s (fst (bind_s m k ?b)), snd (bind_s m k ?b))"
  proof (cases r)
    case (Inl e)
    with u ms show ?thesis by (simp add: bind_s_apply)
  next
    case (Inr x)
    have "k x (after_io s u) = (after_io (after_io s u) v, q)" "k x u = (after_io u v, q)"
      if "k x (blank (sdk_world u)) = (v, q)" for v q
      using io_onlyD [OF assms(2), of x "after_io s u"] io_onlyD [OF assms(2), of x u] that by simp_all
    then show ?thesis
      using u ms Inr by (cases "k x (blank (sdk_world u))") (simp add: bind_s_apply after_io_trans)
  qed
qed

lemma io_split [io_rules]:
  "(P \<Longrightarrow> io_only m) \<Longrightarrow> (\<not> P \<Longrightarrow> io_only m') \<Longrightarrow> io_only (if P then m else m')"
  "(\<And>a b c. x = (a, b, c) \<Longrightarrow> io_only (k a b c)) \<Longrightarrow> io_only (case x of (a, b, c) \<Rightarrow> k a b c)"
  by (auto split: prod.splits)

lemma io_send [io_rules]: "io_only (send_request env rq)"
  unfolding send_request_def by (intro io_rules)

lemma io_sleep [io_rules]: "io_only (sdk_sleep env j)"
  unfolding sdk_sleep_def by (intro io_rules)

lemma io_request_loop [io_rules]: "io_only (request_loop env rq n delay)"
  by (induction n arbitrary: delay) (auto intro!: io_rules)

lemma io_request [io_rules]: "io_only (sdk_request c env meth path body extra)"
  unfolding sdk_request_def by (rule io_rules)

lemma io_post [io_rules]: "io_only (post_events c env mode evs)"
  unfolding post_events_def by (rule io_rules)

section \<open>How often a request is sent\<close>

text \<open>The trace of a request that slept \<open>ds\<close> between its attempts.\<close>

definition attempts :: "http_request \<Rightarrow> rat list \<Rightarrow> sdk_io list" where
  "attempts rq ds = concat (map (\<lambda>d. [Sent rq, Slept d]) ds) @ [Sent rq]"

lemma attempts_simps: "attempts rq [] = [Sent rq]" "attempts rq (d # ds) = Sent rq # Slept d # attempts rq ds"
  by (simp_all add: attempts_def)

lemma send_request_trace:
  "send_request env rq s = (t, r) \<Longrightarrow> sdk_trace t = sdk_trace s @ [Sent rq]"
  by (auto simp: send_request_def on_world_def log_io_def split: prod.splits)

lemma sdk_sleep_trace:
  "sdk_sleep env j s = (t, Inr x) \<Longrightarrow> \<exists>d. sleep_time j = Inr d \<and> sdk_trace t = sdk_trace s @ [Slept d]"
  "sdk_sleep env j s = (t, Inl e) \<Longrightarrow> sleep_time j = Inl e \<and> t = s"
  by (auto simp: sdk_sleep_def on_world_def log_io_def bind_s_lift split: sum.splits)

lemma request_loop_trace:
  "request_loop env rq n delay s = (t, r) \<Longrightarrow>
     \<exists>ds. sdk_trace t = sdk_trace s @ attempts rq ds \<and> length ds \<le> n"
proof (induction n arbitrary: delay s)
  case 0
  obtain u q where u: "send_request env rq s = (u, q)" by (cases "send_request env rq s")
  from 0 u have "t = u"
    by (auto simp: bind_s_apply raise_def ret_def lift_r_def split: sum.splits prod.splits if_splits)
  with send_request_trace [OF u] show ?case by (auto simp: attempts_simps intro!: exI [of _ "[]"])
next
  case (Suc n)
  obtain u q where u: "send_request env rq s = (u, q)" by (cases "send_request env rq s")
  note tr = send_request_trace [OF u]
  show ?case
  proof (cases "t = u")
    case True
    with tr show ?thesis by (auto simp: attempts_simps intro!: exI [of _ "[]"])
  next
    case False
    from Suc.prems u False obtain d' w v where w: "sdk_sleep env w u = (v, Inr ())"
      "request_loop env rq n d' v = (t, r)"
      by (auto simp: bind_s_def raise_def ret_def lift_r_def dest: sdk_sleep_trace(2)
          split: sum.splits prod.splits if_splits)
    obtain d where "sdk_trace v = sdk_trace u @ [Slept d]" using sdk_sleep_trace(1) [OF w(1)] by blast
    moreover obtain ds where "sdk_trace t = sdk_trace v @ attempts rq ds" "length ds \<le> n"
      using Suc.IH [OF w(2)] by blast
    ultimately show ?thesis using tr by (intro exI [of _ "d # ds"]) (simp add: attempts_simps)
  qed
qed

definition the_request :: "client \<Rightarrow> string \<Rightarrow> string \<Rightarrow> (string \<times> json) list \<Rightarrow> headers \<Rightarrow> http_request" where
  "the_request c meth path body extra_headers =
     \<lparr>rq_method = meth, rq_url = cl_base_url c @ path,
      rq_headers = request_headers c extra_headers, rq_body = JObj body\<rparr>"

lemma sdk_request_loop:
  "sdk_request c env meth path body extra =
     request_loop env (the_request c meth path body extra) (nat (cl_max_retries c)) (1 / 2)"
  by (simp add: sdk_request_def the_request_def)

text \<open>
  C36: whatever the network answers, one request of the SDK is sent at most
  \<^verbatim>\<open>max_retries\<close> + 1 times, every time the same request, sleeping once between two
  attempts and never after the last; it leaves the queue and the offline buffer alone.
\<close>

theorem sdk_request_bounded:
  "\<exists>ds. sdk_trace (fst (sdk_request c env meth path body extra s))
          = sdk_trace s @ attempts (the_request c meth path body extra) ds
        \<and> length ds \<le> nat (cl_max_retries c)
        \<and> sdk_pending (fst (sdk_request c env meth path body extra s)) = sdk_pending s
        \<and> sdk_spool (fst (sdk_request c env meth path body extra s)) = sdk_spool s"
proof -
  obtain t r where t: "sdk_request c env meth path body extra s = (t, r)"
    by (cases "sdk_request c env meth path body extra s")
  have "sdk_pending t = sdk_pending s" "sdk_spool t = sdk_spool s"
    using io_onlyD [OF io_request, of c env meth path body extra s] t by simp_all
  with request_loop_trace [of env "the_request c meth path body extra" "nat (cl_max_retries c)" "1 / 2" s] t
  show ?thesis by (auto simp: sdk_request_loop)
qed

section \<open>A server that keeps answering with an error\<close>

text \<open>The back-off of the loop: it doubles, up to thirty seconds.\<close>

primrec backoff :: "nat \<Rightarrow> rat \<Rightarrow> rat list" where
  "backoff 0 d = []"
| "backoff (Suc n) d = d # backoff n (min (d * 2) 30)"

lemma backoff_closed: "0 \<le> d \<Longrightarrow> d \<le> 30 \<Longrightarrow> backoff n d = map (\<lambda>i. min (2 ^ i * d) 30) [0..<n]"
proof (induction n arbitrary: d)
  case 0
  then show ?case by simp
next
  case (Suc n)
  have step: "min (2 ^ i * min (d * 2) 30) 30 = min (2 ^ Suc i * d) 30" for i
  proof (cases "d * 2 \<le> 30")
    case True
    then show ?thesis by (simp add: ac_simps)
  next
    case False
    have one: "(1 :: rat) \<le> 2 ^ i" by simp
    have "30 \<le> 2 ^ i * (d * 2)" using mult_mono [OF one, of 30 "d * 2"] False by simp
    moreover have "(30 :: rat) \<le> 2 ^ i * 30" by simp
    ultimately show ?thesis using False by (simp add: ac_simps)
  qed
  have "backoff n (min (d * 2) 30) = map (\<lambda>i. min (2 ^ Suc i * d) 30) [0..<n]"
    using Suc.IH [of "min (d * 2) 30"] Suc.prems by (simp only: step)
  moreover have "[0..<Suc n] = 0 # map Suc [0..<n]" by (simp add: map_Suc_upt upt_conv_Cons)
  ultimately show ?case using Suc.prems by (simp add: comp_def del: upt_Suc)
qed

definition persistent :: "'w sdk_env \<Rightarrow> answer \<Rightarrow> bool" where
  "persistent env a \<longleftrightarrow> (\<forall>rq w. snd (io_transport env rq w) = Inr a)"

lemma send_persistent:
  "persistent env a \<Longrightarrow> \<exists>u. send_request env rq s = (u, Inr a) \<and> sdk_trace u = sdk_trace s @ [Sent rq]"
  by (auto simp: persistent_def send_request_def on_world_def log_io_def split: prod.splits)
    (metis snd_conv)

lemma request_loop_persistent:
  assumes "persistent env (status, rh, a)" "answer_errors a = Inr errors"
    and "answer_request_id rh a = Inr rid" "\<not> (status < 400 \<and> errors = [])"
    and wait: "\<And>d. is_retryable status errors \<Longrightarrow> 0 \<le> d \<Longrightarrow> bind_r (retry_wait rh errors d) sleep_time = Inr (f d)"
  shows "0 \<le> delay \<Longrightarrow> snd (request_loop env rq n delay s) = Inl (request_failed status errors rid)
    \<and> sdk_trace (fst (request_loop env rq n delay s)) = sdk_trace s @
        attempts rq (if is_retryable status errors then map f (backoff n delay) else [])"
proof (induction n arbitrary: delay s)
  case 0
  with send_persistent [OF assms(1), of rq s] assms(2-4) show ?case
    by (auto simp: bind_s_def attempts_simps)
next
  case (Suc n)
  obtain u where u: "send_request env rq s = (u, Inr (status, rh, a))" "sdk_trace u = sdk_trace s @ [Sent rq]"
    using send_persistent [OF assms(1)] by blast
  show ?case
  proof (cases "is_retryable status errors")
    case False
    with u assms(2-4) show ?thesis by (auto simp: bind_s_def attempts_simps)
  next
    case True
    obtain w where w: "retry_wait rh errors delay = Inr w" "sleep_time w = Inr (f delay)"
      using wait [OF True Suc.prems] by (auto simp: bind_r_Inr_iff)
    then obtain v where v: "sdk_sleep env w u = (v, Inr ())" "sdk_trace v = sdk_trace u @ [Slept (f delay)]"
      by (simp add: sdk_sleep_def on_world_def log_io_def)
    have "request_loop env rq (Suc n) delay s = request_loop env rq n (min (delay * 2) 30) v"
      using u v w True assms(2-4) by (auto simp: bind_s_def)
    with Suc.IH [of "min (delay * 2) 30" v] Suc.prems True u v show ?thesis
      by (simp add: attempts_simps)
  qed
qed

text \<open>What the SDK makes of the server's error.\<close>

definition sdk_error :: "tf_error \<Rightarrow> error_object" where
  "sdk_error e =
     \<lparr>eo_code = JStr (err_code e), eo_message = JStr (err_message e), eo_retryable = err_retryable e,
      eo_request_id = JStr [],
      eo_field_path = (case err_field_path e of None \<Rightarrow> JNull | Some p \<Rightarrow> JStr p),
      eo_expected = JNull, eo_received = JNull,
      eo_retry_after = (case err_retry_after e of None \<Rightarrow> JNull | Some n \<Rightarrow> JInt n), eo_doc_url = JNull\<rparr>"

lemma sdk_error_of: "error_object_of (to_error_object e) = Inr (sdk_error e)"
  by (cases "err_field_path e"; cases "err_retry_after e"; cases "err_detail e")
    (simp_all add: error_object_of_def to_error_object_def sdk_error_def json_get_or_def)

lemma read_error_envelope:
  "answer_errors (envelope d rid sv [to_error_object e] dep cur now) = Inr [sdk_error e]"
  "answer_request_id rh (envelope d rid sv es dep cur now) = Inr (JStr rid)"
  by (simp_all add: answer_errors_def answer_request_id_def envelope_def meta_def py_get_def py_iter_def
      json_get_or_def sdk_error_of)

lemma read_ok_envelope: "answer_errors (envelope d rid sv [] dep cur now) = Inr []"
  by (simp add: answer_errors_def envelope_def py_get_def py_iter_def json_get_or_def)

lemma sdk_error_wait:
  assumes "err_retry_after e = None \<or> (\<exists>n > 0. err_retry_after e = Some n)"
    and "err_retry_after e = None \<Longrightarrow> map_of rh ''retry-after'' = None" "0 \<le> d"
  shows "bind_r (retry_wait rh [sdk_error e] d) sleep_time
    = Inr (case err_retry_after e of None \<Rightarrow> d | Some n \<Rightarrow> of_int n)"
  using assms by (auto simp: retry_wait_def sdk_error_def sleep_time_def)

text \<open>
  C24: the server's errors reach the caller of the SDK unchanged. Against a server that
  keeps answering an exception, the SDK sends the request once when the error is not
  retryable, and \<^verbatim>\<open>max_retries\<close> + 1 times when it is (retryable by the registry, 429 or
  5xx); between two attempts it sleeps what the error asks for, else half a second, doubled
  each time up to thirty; then it raises \<^verbatim>\<open>RateLimited\<close> on a 429 and
  \<^verbatim>\<open>TrueFigureError\<close> otherwise, with the error's code, message, retry delay and the
  request id of the answer.
\<close>

theorem server_error_reaches_caller:
  assumes answer: "handle_exn rid sv now x = Inr resp"
    and reg: "\<And>e. x = TFExn e \<Longrightarrow> registered e"
    and asks: "\<And>e n. x = TFExn e \<Longrightarrow> err_retry_after e = Some n \<Longrightarrow> 0 < n"
    and transport: "persistent env (resp_status resp, lower_keys (resp_headers resp), resp_body resp)"
  shows "\<exists>e. registered e \<and> (case x of TFExn e' \<Rightarrow> e' = e | _ \<Rightarrow> err_code e = ''TF-SRV-001'')
    \<and> snd (sdk_request c env meth path body extra s)
        = Inl (if err_http e = 429 then RateLimited [sdk_error e] (JStr rid)
               else TrueFigureError [sdk_error e] (JStr rid))
    \<and> sdk_trace (fst (sdk_request c env meth path body extra s)) = sdk_trace s @
        attempts (the_request c meth path body extra)
          (if err_retryable e \<or> err_http e = 429 \<or> 500 \<le> err_http e
           then map (\<lambda>i. case err_retry_after e of None \<Rightarrow> min (2 ^ i / 2) 30 | Some n \<Rightarrow> of_int n)
                  [0..<nat (cl_max_retries c)]
           else [])"
proof -
  obtain e where e: "registered e" "resp_status resp = err_http e"
    "resp_body resp = envelope JNull rid sv [to_error_object e] None None now"
    "resp_headers resp = [] \<longleftrightarrow> err_retry_after e = None"
    "case x of TFExn e' \<Rightarrow> e' = e | _ \<Rightarrow> err_code e = ''TF-SRV-001'' \<and> resp_status resp = 500"
    using handle_exn_closed [of x rid sv now, OF reg] answer by auto
  have pos: "err_retry_after e = None \<or> (\<exists>n > 0. err_retry_after e = Some n)"
  proof (cases "\<exists>e'. x = TFExn e'")
    case True
    with e(5) asks show ?thesis by (cases "err_retry_after e") auto
  next
    case False
    with answer have "resp_headers resp = []"
      by (cases x) (auto simp: handle_exn_def handle_unexpected_def bind_r_Inr_iff)
    with e(4) show ?thesis by simp
  qed
  have quiet: "err_retry_after e = None \<Longrightarrow> map_of (lower_keys (resp_headers resp)) ''retry-after'' = None"
    using e(4) by (simp add: lower_keys_def)
  let ?f = "\<lambda>d. case err_retry_after e of None \<Rightarrow> d | Some n \<Rightarrow> of_int n"
  let ?rq = "the_request c meth path body extra" and ?n = "nat (cl_max_retries c)"
  have transport': "persistent env (err_http e, lower_keys (resp_headers resp),
      envelope JNull rid sv [to_error_object e] None None now)"
    using transport e(2,3) by simp
  have loop: "snd (request_loop env ?rq ?n (1 / 2) s)
        = Inl (request_failed (err_http e) [sdk_error e] (JStr rid))
      \<and> sdk_trace (fst (request_loop env ?rq ?n (1 / 2) s)) = sdk_trace s @
        attempts ?rq (if is_retryable (err_http e) [sdk_error e] then map ?f (backoff ?n (1 / 2)) else [])"
    by (rule request_loop_persistent [OF transport' read_error_envelope(1) read_error_envelope(2)])
      (simp_all add: sdk_error_wait [OF pos quiet])
  have waits: "map ?f (backoff ?n (1 / 2)) =
      map (\<lambda>i. case err_retry_after e of None \<Rightarrow> min (2 ^ i / 2) 30 | Some n \<Rightarrow> of_int n) [0..<?n]"
    by (cases "err_retry_after e") (simp_all add: backoff_closed)
  have final: "request_failed (err_http e) [sdk_error e] (JStr rid)
      = (if err_http e = 429 then RateLimited [sdk_error e] (JStr rid)
         else TrueFigureError [sdk_error e] (JStr rid))"
    by (simp add: request_failed_def error_request_id_def sdk_error_def)
  have retr: "is_retryable (err_http e) [sdk_error e]
      \<longleftrightarrow> err_retryable e \<or> err_http e = 429 \<or> 500 \<le> err_http e"
    by (auto simp: is_retryable_def sdk_error_def)
  from e(5) have "case x of TFExn e' \<Rightarrow> e' = e | _ \<Rightarrow> err_code e = ''TF-SRV-001''"
    by (cases x) simp_all
  with e(1) loop show ?thesis unfolding sdk_request_loop waits final retr by blast
qed

end
