(* ===== verification/SdkQueue.thy ===== *)
theory SdkQueue
  imports SdkSafe
begin

text \<open>
  The SDK's client as a queue: the events in the offline buffer followed by those pending.
  \<open>flush\<close> refines an operation of that queue, and what it loses, it loses by that
  operation.
\<close>

section \<open>The text of the offline buffer\<close>

definition printable :: "char \<Rightarrow> bool" where
  "printable c = (let n = of_char c :: nat in 32 \<le> n \<and> n \<le> 126)"

text \<open>What \<^verbatim>\<open>float.__repr__\<close> promises: printable text that is not blank.\<close>

definition plain_repr :: "(rat \<Rightarrow> string) \<Rightarrow> bool" where
  "plain_repr fr \<longleftrightarrow> (\<forall>r. (\<forall>c \<in> set (fr r). printable c) \<and> strip (fr r) \<noteq> [])"

lemma printable_nat:
  assumes "32 \<le> n" "n \<le> 126" shows "printable (char_of (n :: nat))"
proof -
  have "n mod 256 = n" using assms by simp
  then show ?thesis using assms by (simp add: printable_def Let_def of_char_of take_bit_eq_mod)
qed

lemma digit_printable: "is_digit c \<Longrightarrow> printable c"
  by (auto simp: is_digit_def digit_val_def printable_def Let_def split: if_splits)

lemma int_str_printable: "c \<in> set (int_str i) \<Longrightarrow> printable c"
  by (auto simp: int_str_def split: if_splits dest: nat_str_digits digit_printable)
    (simp add: printable_def)

lemma hex_char_printable: "n < 16 \<Longrightarrow> printable (hex_char n)"
  by (auto simp: hex_char_def intro!: printable_nat)

lemma escape_char_printable: "d \<in> set (escape_char c) \<Longrightarrow> printable d"
proof -
  have "(of_char c :: nat) < 256" by simp
  then have h: "(of_char c :: nat) div 16 < 16" by linarith
  have b: "printable (char_of (92 :: nat))" by (rule printable_nat) simp_all
  show "d \<in> set (escape_char c) \<Longrightarrow> printable d"
    unfolding escape_char_def Let_def
    using b hex_char_printable [OF h] hex_char_printable [of "of_char c mod 16"]
    by (auto split: if_splits) (simp_all add: printable_def)
qed

lemma quote_printable: "d \<in> set (quote s) \<Longrightarrow> printable d"
  by (auto simp: quote_def dest: escape_char_printable) (simp_all add: printable_def)

lemma join_chars: "c \<in> set (join sep xs) \<Longrightarrow> c \<in> set sep \<or> (\<exists>x \<in> set xs. c \<in> set x)"
  by (induction sep xs rule: join.induct) auto

definition plain_style :: "(rat \<Rightarrow> string) \<Rightarrow> dump_style \<Rightarrow> bool" where
  "plain_style fr st \<longleftrightarrow> plain_repr fr \<and> (\<forall>c \<in> set (item_separator st). printable c)
     \<and> (\<forall>c \<in> set (key_separator st). printable c)"

lemma join_printable:
  "c \<in> set (join sep xs) \<Longrightarrow> (\<And>d. d \<in> set sep \<Longrightarrow> printable d) \<Longrightarrow>
     (\<And>x d. x \<in> set xs \<Longrightarrow> d \<in> set x \<Longrightarrow> printable d) \<Longrightarrow> printable c"
  using join_chars by blast

lemma brackets_printable: "\<forall>c \<in> set ''[]{}nultrefas''. printable c"
  by (simp add: printable_def)

lemma dump_printable:
  "plain_style fr st \<Longrightarrow> c \<in> set (dump_json fr st j) \<Longrightarrow> printable c"
  "plain_style fr st \<Longrightarrow> x \<in> set (dump_list fr st js) \<Longrightarrow> c \<in> set x \<Longrightarrow> printable c"
  "plain_style fr st \<Longrightarrow> y \<in> set (dump_items fr st kvs) \<Longrightarrow> c \<in> set y \<Longrightarrow> printable c"
proof (induction fr st j and fr st js and fr st kvs arbitrary: c and c x and c y
    rule: dump_json_dump_list_dump_items.induct)
  case (1 fr st)
  then show ?case by (auto simp: printable_def)
next
  case (2 fr st b)
  then show ?case by (auto simp: printable_def split: if_splits)
next
  case (3 fr st n)
  then show ?case by (auto dest: int_str_printable)
next
  case (4 fr st r)
  then show ?case by (auto simp: plain_style_def plain_repr_def)
next
  case (5 fr st s)
  then show ?case by (auto dest: quote_printable)
next
  case (6 fr st xs)
  consider "c \<in> set ''[]''" | "c \<in> set (join (item_separator st) (dump_list fr st xs))"
    using "6.prems"(2) by auto
  then show ?case
  proof cases
    case 1
    then show ?thesis using brackets_printable by auto
  next
    case 2
    then show ?thesis
      using "6.IH" [OF "6.prems"(1)] "6.prems"(1) by (auto simp: plain_style_def elim: join_printable)
  qed
next
  case (7 fr st kvs)
  consider "c \<in> set ''{}''" | "c \<in> set (join (item_separator st) (dump_items fr st kvs))"
    using "7.prems"(2) by auto
  then show ?case
  proof cases
    case 1
    then show ?thesis using brackets_printable by auto
  next
    case 2
    then show ?thesis
      using "7.IH" [OF "7.prems"(1)] "7.prems"(1) by (auto simp: plain_style_def elim: join_printable)
  qed
next
  case (8 fr st)
  then show ?case by simp
next
  case (9 fr st x xs)
  then show ?case by auto
next
  case (10 fr st)
  then show ?case by simp
next
  case (11 fr st k v kvs)
  consider "y = quote k @ key_separator st @ dump_json fr st v" | "y \<in> set (dump_items fr st kvs)"
    using "11.prems"(2) by auto
  then show ?case
  proof cases
    case 1
    then show ?thesis
      using "11.IH"(1) [OF "11.prems"(1)] "11.prems"(1,3) quote_printable [of c k]
      by (auto simp: plain_style_def)
  next
    case 2
    then show ?thesis using "11.IH"(2) "11.prems" by blast
  qed
qed

lemma plain_default: "plain_repr fr \<Longrightarrow> plain_style fr default_style"
  by (simp add: plain_style_def default_style_def printable_def)

lemma dumps_printable: "plain_repr fr \<Longrightarrow> c \<in> set (json_dumps fr default_style j) \<Longrightarrow> printable c"
  using dump_printable(1) [OF plain_default] by (simp add: json_dumps_def default_style_def)

lemma strip_Nil_iff: "strip s = [] \<longleftrightarrow> (\<forall>c \<in> set s. is_space c)"
proof
  assume "strip s = []"
  then have "\<forall>c \<in> set (dropWhile is_space s). is_space c" by (simp add: strip_def)
  then show "\<forall>c \<in> set s. is_space c"
    by (metis dropWhile_eq_Nil_conv hd_dropWhile list.set_sel(1))
next
  assume "\<forall>c \<in> set s. is_space c"
  then show "strip s = []" by (simp add: strip_def dropWhile_eq_Nil_conv [THEN iffD2])
qed

lemma nat_str_no_space: "\<exists>c \<in> set (nat_str n). \<not> is_space c"
  using nat_str_digits [of "hd (nat_str n)" n] digit_not_space by (metis list.set_sel(1) nat_str_not_Nil)

lemma int_str_no_space: "\<exists>c \<in> set (int_str i). \<not> is_space c"
  using nat_str_no_space by (auto simp: int_str_def)

lemma literal_no_space:
  "\<exists>c \<in> set ''null''. \<not> is_space c" "\<exists>c \<in> set ''true''. \<not> is_space c" "\<exists>c \<in> set ''false''. \<not> is_space c"
  "\<not> is_space (CHR 0x22)" "\<not> is_space (CHR ''['')" "\<not> is_space (CHR ''{'')"
  by (simp_all add: is_space_def)

lemma dump_not_blank: "plain_repr fr \<Longrightarrow> \<exists>c \<in> set (json_dumps fr default_style j). \<not> is_space c"
proof -
  assume fr: "plain_repr fr"
  have "\<exists>c \<in> set (dump_json fr default_style j). \<not> is_space c"
  proof (cases j)
    case (JReal r)
    with fr show ?thesis by (simp add: plain_repr_def strip_Nil_iff)
  qed (use literal_no_space int_str_no_space in \<open>auto simp: quote_def\<close>)
  then show ?thesis by (simp add: json_dumps_def default_style_def)
qed

section \<open>Writing and reading the offline buffer\<close>

lemma file_lines_acc_line:
  "\<forall>c \<in> set l. c \<noteq> CHR 0x0A \<and> c \<noteq> CHR 0x0D \<Longrightarrow>
     file_lines_acc cur (l @ CHR 0x0A # rest) = (cur @ l @ [CHR 0x0A]) # file_lines_acc [] rest"
proof (induction l arbitrary: cur)
  case Nil
  then show ?case by (cases rest) auto
next
  case (Cons c l)
  then have "file_lines_acc cur ((c # l) @ CHR 0x0A # rest) = file_lines_acc (cur @ [c]) (l @ CHR 0x0A # rest)"
    by (cases "l @ CHR 0x0A # rest") auto
  with Cons show ?case by simp
qed

lemma file_lines_of_lines:
  "\<forall>l \<in> set ls. \<forall>c \<in> set l. c \<noteq> CHR 0x0A \<and> c \<noteq> CHR 0x0D \<Longrightarrow>
     file_lines (concat (map (\<lambda>l. l @ [CHR 0x0A]) ls)) = map (\<lambda>l. l @ [CHR 0x0A]) ls"
  unfolding file_lines_def by (induction ls) (simp_all add: file_lines_acc_line)

text \<open>\<^verbatim>\<open>json.loads\<close> reads back a line that \<^verbatim>\<open>json.dumps\<close> wrote for one of these values.\<close>

definition reads_back :: "'w sdk_env \<Rightarrow> json list \<Rightarrow> bool" where
  "reads_back env q \<longleftrightarrow> plain_repr (io_float_repr env)
     \<and> (\<forall>e \<in> set q. io_loads env (json_dumps (io_float_repr env) default_style e @ [CHR 0x0A]) = Some e)"

lemma reads_back_subset: "reads_back env q \<Longrightarrow> set q' \<subseteq> set q \<Longrightarrow> reads_back env q'"
  by (auto simp: reads_back_def)

lemma map_r_all: "(\<And>x. x \<in> set xs \<Longrightarrow> f x = Inr (g x)) \<Longrightarrow> map_r f xs = Inr (map g xs)"
  by (induction xs) simp_all

lemma spooled_lines:
  assumes "reads_back env q"
  shows "spooled env (spool_lines env q) = Inr q"
proof -
  let ?d = "json_dumps (io_float_repr env) default_style"
  have fr: "plain_repr (io_float_repr env)" using assms by (simp add: reads_back_def)
  have "c \<noteq> CHR 0x0A \<and> c \<noteq> CHR 0x0D" if "c \<in> set (?d e)" for c e
    using dumps_printable [OF fr that] by (auto simp: printable_def)
  then have lines: "file_lines (spool_lines env q) = map (\<lambda>e. ?d e @ [CHR 0x0A]) q"
    using file_lines_of_lines [of "map ?d q"] by (simp add: spool_lines_def comp_def)
  have "strip (?d e @ [CHR 0x0A]) \<noteq> []" for e
    using dump_not_blank [OF fr, of e] by (auto simp: strip_Nil_iff)
  then have "filter (\<lambda>line. strip line \<noteq> []) (file_lines (spool_lines env q)) = map (\<lambda>e. ?d e @ [CHR 0x0A]) q"
    by (simp add: lines filter_map comp_def)
  moreover have "map_r (\<lambda>line. case io_loads env line of None \<Rightarrow> Inl ValueError | Some j \<Rightarrow> Inr j)
      (map (\<lambda>e. ?d e @ [CHR 0x0A]) q) = Inr q"
    using assms by (induction q) (auto simp: reads_back_def)
  ultimately show ?thesis by (simp add: spooled_def)
qed

section \<open>Batches\<close>

lemma batches_Nil [simp]: "batches [] = []"
  by (simp add: batches_def SDK_MAX_BATCH_def)

lemma batches_step:
  assumes "xs \<noteq> []"
  shows "batches xs = take SDK_MAX_BATCH xs # batches (drop SDK_MAX_BATCH xs)"
proof -
  define k where "k = (length (drop SDK_MAX_BATCH xs) + SDK_MAX_BATCH - 1) div SDK_MAX_BATCH"
  have "0 < length xs" using assms by simp
  then have k: "(length xs + SDK_MAX_BATCH - 1) div SDK_MAX_BATCH = Suc k"
    by (cases "SDK_MAX_BATCH \<le> length xs") (auto simp: k_def SDK_MAX_BATCH_def div_if)
  have "[0..<Suc k] = 0 # map Suc [0..<k]" by (simp add: map_Suc_upt upt_conv_Cons)
  then show ?thesis
    unfolding batches_def k k_def [symmetric] by (simp add: comp_def add.commute del: upt_Suc)
qed

lemma batches_concat: "concat (batches xs) = xs"
proof (induction xs rule: length_induct)
  case (1 xs)
  then show ?case
  proof (cases "xs = []")
    case False
    then have "length (drop SDK_MAX_BATCH xs) < length xs" by (simp add: SDK_MAX_BATCH_def)
    with 1 have "concat (batches (drop SDK_MAX_BATCH xs)) = drop SDK_MAX_BATCH xs" by blast
    with False show ?thesis by (simp add: batches_step)
  qed simp
qed

lemma batches_bounded: "ch \<in> set (batches xs) \<Longrightarrow> ch \<noteq> [] \<and> length ch \<le> SDK_MAX_BATCH"
proof (induction xs rule: length_induct)
  case (1 xs)
  then have ne: "xs \<noteq> []" by auto
  then have "length (drop SDK_MAX_BATCH xs) < length xs" by (simp add: SDK_MAX_BATCH_def)
  with 1 have "ch \<in> set (batches (drop SDK_MAX_BATCH xs)) \<longrightarrow> ch \<noteq> [] \<and> length ch \<le> SDK_MAX_BATCH" by blast
  with 1 ne show ?case by (auto simp: batches_step SDK_MAX_BATCH_def)
qed

lemma batches_Nil_iff [simp]: "batches xs = [] \<longleftrightarrow> xs = []"
  by (metis batches_Nil batches_step list.distinct(1))

section \<open>The abstract flush\<close>

definition contract_error :: "exn \<Rightarrow> bool" where
  "contract_error e = (case e of TrueFigureError _ _ \<Rightarrow> True | RateLimited _ _ \<Rightarrow> True | _ \<Rightarrow> False)"

definition read_results :: "json \<Rightarrow> (json list \<times> json) result" where
  "read_results answer =
     bind_r (meta_request_id answer) (\<lambda>req_id.
     bind_r (bind_r (data_results answer) py_iter) (\<lambda>rs.
     bind_r (map_r log_result rs) (\<lambda>logged. Inr (logged, req_id))))"

text \<open>
  The events a flush of the chunks keeps, with the results it collects: a chunk whose post
  ends in a contract error is kept, one that is answered is gone, and any other exception
  ends the flush with what was kept so far.
\<close>

fun flush_queue ::
  "(json list \<Rightarrow> ('s, json) st) \<Rightarrow> json list list \<Rightarrow> json list \<times> json \<Rightarrow> 's
     \<Rightarrow> 's \<times> json list \<times> (json list \<times> json) result" where
  "flush_queue post [] acc s = (s, [], Inr acc)"
| "flush_queue post (ch # chs) acc s =
     (case post ch s of
        (s', Inl e) \<Rightarrow>
          if contract_error e then (case flush_queue post chs acc s' of (u, kept, r) \<Rightarrow> (u, ch @ kept, r))
          else (s', [], Inl e)
      | (s', Inr answer) \<Rightarrow>
          (case read_results answer of
             Inl e \<Rightarrow> (s', [], Inl e)
           | Inr (new, req_id) \<Rightarrow> flush_queue post chs (fst acc @ new, req_id) s'))"

definition spool_add :: "'w sdk_env \<Rightarrow> json list \<Rightarrow> 'w sdk \<Rightarrow> 'w sdk" where
  "spool_add env kept s = (if kept = [] then s else spool_append env kept s)"

lemma spool_add_simps [simp]:
  "spool_add env [] s = s"
  "sdk_pending (spool_add env k s) = sdk_pending s" "sdk_trace (spool_add env k s) = sdk_trace s"
  "sdk_world (spool_add env k s) = sdk_world s"
  "spool_add env k2 (spool_add env k1 s) = spool_add env (k1 @ k2) s"
  by (auto simp: spool_add_def spool_append_def spool_lines_def split: option.splits)

lemma spool_add_nonempty: "k \<noteq> [] \<Longrightarrow> spool_append env k s = spool_add env k s"
  by (simp add: spool_add_def)

lemma spool_add_io: "spool_add env k (after_io s u) = after_io (spool_add env k s) u"
  by (simp add: spool_add_def spool_append_def after_io_def)

lemma io_only_spool: "io_only m \<Longrightarrow> m s = (s', r) \<Longrightarrow> m (spool_add env k s) = (spool_add env k s', r)"
  by (metis io_onlyD prod.inject spool_add_io spool_add_simps(4))

lemma send_chunk_cases:
  assumes post: "post_events c env mode ch s = (s', x)" and "cl_buffered c" and "ch \<noteq> []"
  shows "send_chunk c env mode ch acc s =
    (case x of
       Inl e \<Rightarrow> if contract_error e then (spool_add env ch s', Inr acc) else (s', Inl e)
     | Inr answer \<Rightarrow> (s', bind_r (read_results answer) (\<lambda>(new, req_id). Inr (fst acc @ new, req_id))))"
proof (cases x)
  case (Inl e)
  then show ?thesis
    using assms
    by (cases e) (simp_all add: send_chunk_def catch_def chunk_failed_def contract_error_def bind_s_apply
        spool_add_nonempty)
next
  case (Inr answer)
  then show ?thesis
    using assms
    by (simp add: send_chunk_def catch_def read_results_def bind_s_apply split: sum.split)
qed

lemma fold_chunks_refines:
  assumes "cl_buffered c"
  shows "\<forall>ch \<in> set chs. ch \<noteq> [] \<Longrightarrow> flush_queue (post_events c env mode) chs acc s = (u, kept, r) \<Longrightarrow>
    fold_s (send_chunk c env mode) chs acc (spool_add env k s) = (spool_add env (k @ kept) u, r)"
proof (induction chs arbitrary: acc s k u kept r)
  case Nil
  then show ?case by simp
next
  case (Cons ch chs)
  obtain s' x where post: "post_events c env mode ch s = (s', x)" by (cases "post_events c env mode ch s")
  then have "post_events c env mode ch (spool_add env k s) = (spool_add env k s', x)"
    by (rule io_only_spool [OF io_post])
  note step = send_chunk_cases [OF this assms, of acc]
  have ne: "ch \<noteq> []" "\<forall>ch \<in> set chs. ch \<noteq> []" using Cons.prems(1) by auto
  show ?case
  proof (cases x)
    case (Inl e)
    show ?thesis
    proof (cases "contract_error e")
      case True
      obtain kept' where fl: "flush_queue (post_events c env mode) chs acc s' = (u, kept', r)" "kept = ch @ kept'"
        using Cons.prems(2) post Inl True by (auto split: prod.splits)
      from Cons.IH [OF ne(2) fl(1), of "k @ ch"] step ne(1) Inl True fl(2) show ?thesis
        by (simp add: bind_s_apply)
    next
      case False
      with Cons.prems(2) post Inl step ne show ?thesis by (auto simp: bind_s_apply)
    qed
  next
    case (Inr answer)
    show ?thesis
    proof (cases "read_results answer")
      case bad: (Inl e)
      then have "send_chunk c env mode ch acc (spool_add env k s) = (spool_add env k s', Inl e)"
        using step ne(1) Inr by simp
      moreover have "u = s'" "kept = []" "r = Inl e" using Cons.prems(2) post Inr bad by simp_all
      ultimately show ?thesis by (simp add: bind_s_apply)
    next
      case r: (Inr new)
      with Cons.prems(2) post Inr have
        "flush_queue (post_events c env mode) chs (fst acc @ fst new, snd new) s' = (u, kept, r)"
        by (simp add: case_prod_beta)
      from Cons.IH [OF ne(2) this, of k] step ne(1) Inr r show ?thesis
        by (simp add: bind_s_apply case_prod_beta)
    qed
  qed
qed

section \<open>Flush refines the abstract flush\<close>

text \<open>The events the client still holds: the offline buffer first.\<close>

definition outstanding :: "'w sdk_env \<Rightarrow> 'w sdk \<Rightarrow> json list result" where
  "outstanding env s =
     bind_r (case sdk_spool s of None \<Rightarrow> Inr [] | Some text \<Rightarrow> spooled env text)
       (\<lambda>q. Inr (q @ sdk_pending s))"

definition drained :: "'w sdk \<Rightarrow> 'w sdk" where
  "drained s = s\<lparr>sdk_pending := [], sdk_spool := map_option (\<lambda>_. []) (sdk_spool s)\<rparr>"

lemma flush_run:
  assumes "cl_buffered c" "outstanding env s = Inr q"
  shows "flush c env mode s =
    bind_s (fold_s (send_chunk c env mode) (batches q) ([], JStr []))
      (\<lambda>(results, req_id). lift_r (mk_batch_result (JList results) req_id)) (drained s)"
proof -
  obtain q0 where replay: "drain env (s\<lparr>sdk_pending := []\<rparr>) = (drained s, Inr q0)" "q = q0 @ sdk_pending s"
  proof (cases "sdk_spool s")
    case None
    then have "s\<lparr>sdk_pending := []\<rparr> = drained s" by (cases s) (simp add: drained_def)
    moreover have "sdk_spool (drained s) = None" using None by (simp add: drained_def)
    ultimately show ?thesis
      using assms(2) None by (intro that [of "[]"]) (simp_all add: outstanding_def drain_def)
  next
    case (Some spool)
    with assms(2) obtain q0 where "spooled env spool = Inr q0" "q = q0 @ sdk_pending s"
      by (auto simp: outstanding_def bind_r_Inr_iff)
    with Some show ?thesis by (intro that [of q0]) (simp_all add: drain_def drained_def)
  qed
  show ?thesis
    using assms(1) replay by (cases "q = []") (simp_all add: flush_def bind_s_apply Let_def)
qed

lemma io_only_frame: "io_only m \<Longrightarrow> m s = (t, r) \<Longrightarrow> sdk_pending t = sdk_pending s \<and> sdk_spool t = sdk_spool s"
  by (metis after_io_simps(1,2) fst_conv io_onlyD)

lemma flush_queue_frame:
  "flush_queue (post_events c env mode) chs acc s = (u, kept, r) \<Longrightarrow>
     sdk_pending u = sdk_pending s \<and> sdk_spool u = sdk_spool s \<and> set kept \<subseteq> set (concat chs)"
proof (induction chs arbitrary: acc s u kept r)
  case Nil
  then show ?case by simp
next
  case (Cons ch chs)
  obtain s' x where post: "post_events c env mode ch s = (s', x)" by (cases "post_events c env mode ch s")
  then have "sdk_pending s' = sdk_pending s \<and> sdk_spool s' = sdk_spool s"
    by (rule io_only_frame [OF io_post])
  moreover have "(\<exists>kept'. flush_queue (post_events c env mode) chs acc s' = (u, kept', r) \<and> kept = ch @ kept')
      \<or> (u = s' \<and> kept = []) \<or> (\<exists>acc'. flush_queue (post_events c env mode) chs acc' s' = (u, kept, r))"
    using Cons.prems post by (auto split: sum.splits if_splits prod.splits)
  ultimately show ?case using Cons.IH by fastforce
qed

lemma flush_queue_refined:
  assumes "cl_buffered c" and "outstanding env s = Inr q" and "reads_back env q"
  shows "\<exists>u kept r. flush_queue (post_events c env mode) (batches q) ([], JStr []) (drained s) = (u, kept, r)
    \<and> outstanding env (fst (flush c env mode s)) = Inr kept
    \<and> sdk_pending (fst (flush c env mode s)) = []
    \<and> snd (flush c env mode s) = bind_r r (\<lambda>(results, req_id). mk_batch_result (JList results) req_id)
    \<and> sdk_trace (fst (flush c env mode s)) = sdk_trace u
    \<and> sdk_world (fst (flush c env mode s)) = sdk_world u"
proof -
  obtain u kept r where fl:
    "flush_queue (post_events c env mode) (batches q) ([], JStr []) (drained s) = (u, kept, r)"
    using prod_cases3 by blast
  have frame: "sdk_pending u = []" "sdk_spool u = map_option (\<lambda>_. []) (sdk_spool s)" "set kept \<subseteq> set q"
    using flush_queue_frame [OF fl] batches_concat [of q] by (auto simp: drained_def)
  have "\<forall>ch \<in> set (batches q). ch \<noteq> []" using batches_bounded by blast
  from fold_chunks_refines [OF assms(1) this fl, of "[]"]
  have run: "flush c env mode s = (spool_add env kept u,
      bind_r r (\<lambda>(results, req_id). mk_batch_result (JList results) req_id))"
    by (simp add: flush_run [OF assms(1,2)] bind_s_apply case_prod_beta split: sum.split)
  have "outstanding env (spool_add env kept u) = Inr kept"
  proof (cases "kept = []")
    case True
    then show ?thesis
      using frame(1,2) by (cases "sdk_spool s") (simp_all add: outstanding_def spooled_def file_lines_def)
  next
    case False
    then have "sdk_spool (spool_add env kept u) = Some (spool_lines env kept)"
      using frame(2) by (auto simp: spool_add_def spool_append_def split: option.splits)
    then show ?thesis
      using spooled_lines [OF reads_back_subset [OF assms(3) frame(3)]] frame(1)
      by (simp add: outstanding_def)
  qed
  with fl run frame(1) show ?thesis by simp
qed

text \<open>
  C13: flush with an offline buffer refines an operation on a plain queue of events. Seen
  as the queue of its outstanding events (buffer, then pending), the client posts the
  queue in order in batches of at most 500; what it holds afterwards is exactly what the
  queue operation keeps, its results and exceptions are those of the operation, and so are
  the requests it sends.
\<close>

theorem flush_refines_queue:
  assumes "cl_buffered c" and "outstanding env s = Inr q" and "reads_back env q"
  shows "\<exists>u kept r. flush_queue (post_events c env mode) (batches q) ([], JStr []) (drained s) = (u, kept, r)
    \<and> outstanding env (fst (flush c env mode s)) = Inr kept
    \<and> sdk_pending (fst (flush c env mode s)) = []
    \<and> snd (flush c env mode s) = bind_r r (\<lambda>(results, req_id). mk_batch_result (JList results) req_id)
    \<and> sdk_trace (fst (flush c env mode s)) = sdk_trace u
    \<and> sdk_world (fst (flush c env mode s)) = sdk_world u"
  using assms by (rule flush_queue_refined)

section \<open>What a flush keeps and what it loses\<close>

text \<open>Every post is answered readably or fails with an error of the contract.\<close>

definition contract_only :: "client \<Rightarrow> 'w sdk_env \<Rightarrow> string \<Rightarrow> bool" where
  "contract_only c env mode \<longleftrightarrow>
     (\<forall>ch s. case snd (post_events c env mode ch s) of
        Inl e \<Rightarrow> contract_error e | Inr answer \<Rightarrow> is_ok (read_results answer))"

lemma flush_queue_partition:
  assumes "contract_only c env mode"
  shows "flush_queue (post_events c env mode) chs acc s = (u, kept, r) \<Longrightarrow>
    \<exists>answers. length answers = length chs
      \<and> kept = concat (map fst (filter (\<lambda>x. snd x = None) (zip chs answers)))
      \<and> (\<exists>rid. r = Inr (fst acc @ concat (map the (filter (\<lambda>x. x \<noteq> None) answers)), rid))"
proof (induction chs arbitrary: acc s u kept r)
  case Nil
  then show ?case by (cases acc) auto
next
  case (Cons ch chs)
  obtain s' x where post: "post_events c env mode ch s = (s', x)" by (cases "post_events c env mode ch s")
  then have ok: "case x of Inl e \<Rightarrow> contract_error e | Inr answer \<Rightarrow> is_ok (read_results answer)"
    using assms unfolding contract_only_def by (metis snd_conv)
  show ?case
  proof (cases x)
    case (Inl e)
    then obtain kept' where fl: "flush_queue (post_events c env mode) chs acc s' = (u, kept', r)" "kept = ch @ kept'"
      using Cons.prems post ok by (auto split: prod.splits)
    then obtain answers where "length answers = length chs"
      "kept' = concat (map fst (filter (\<lambda>x. snd x = None) (zip chs answers)))"
      "\<exists>rid. r = Inr (fst acc @ concat (map the (filter (\<lambda>x. x \<noteq> None) answers)), rid)"
      using Cons.IH by blast
    with fl(2) show ?thesis by (intro exI [of _ "None # answers"]) simp
  next
    case (Inr answer)
    then obtain new rid where new: "read_results answer = Inr (new, rid)" using ok by (auto simp: is_ok_iff)
    then have "flush_queue (post_events c env mode) chs (fst acc @ new, rid) s' = (u, kept, r)"
      using Cons.prems post Inr by simp
    from Cons.IH [OF this] obtain answers where "length answers = length chs"
      "kept = concat (map fst (filter (\<lambda>x. snd x = None) (zip chs answers)))"
      "\<exists>rid. r = Inr (fst (fst acc @ new, rid) @ concat (map the (filter (\<lambda>x. x \<noteq> None) answers)), rid)"
      by (elim exE conjE) (rule that, simp_all)
    then show ?thesis by (intro exI [of _ "Some new # answers"]) simp
  qed
qed

text \<open>
  With an offline buffer no event is lost to the server's errors. When every post is
  answered or fails with a contract error, flush splits its outstanding events into
  batches, each of them answered or kept; the events of the kept batches, in their order,
  are what it still holds, and the results it returns are those of the answered ones.
\<close>

theorem flush_keeps_failed_batches:
  assumes "cl_buffered c" and "outstanding env s = Inr q" and "reads_back env q"
    and "contract_only c env mode"
  shows "\<exists>answers. length answers = length (batches q)
    \<and> outstanding env (fst (flush c env mode s))
        = Inr (concat (map fst (filter (\<lambda>x. snd x = None) (zip (batches q) answers))))
    \<and> (\<exists>rid. snd (flush c env mode s)
        = mk_batch_result (JList (concat (map the (filter (\<lambda>x. x \<noteq> None) answers)))) rid)"
proof -
  obtain u kept r where fl:
    "flush_queue (post_events c env mode) (batches q) ([], JStr []) (drained s) = (u, kept, r)"
    "outstanding env (fst (flush c env mode s)) = Inr kept"
    "snd (flush c env mode s) = bind_r r (\<lambda>(results, req_id). mk_batch_result (JList results) req_id)"
    using flush_queue_refined [OF assms(1-3), of mode] by blast
  from flush_queue_partition [OF assms(4) this(1)] fl(2,3) show ?thesis by force
qed

text \<open>
  C35: an outage of the network loses events. When the transport raises an
  \<^verbatim>\<open>OSError\<close>, flush raises it, and neither the pending events nor those it had read
  back from the offline buffer are held any more: the client holds no event.
\<close>

theorem outage_loses_events:
  assumes "cl_buffered c" and "outstanding env s = Inr q" and "q \<noteq> []"
    and "\<forall>rq w. snd (io_transport env rq w) = Inl OSError"
  shows "snd (flush c env mode s) = Inl OSError
    \<and> outstanding env (fst (flush c env mode s)) = Inr []"
proof -
  have send: "\<exists>t. send_request env rq u = (t, Inl OSError)" for rq and u :: "'a sdk"
    using assms(4) by (simp add: send_request_def on_world_def log_io_def split: prod.splits) (metis snd_conv)
  have "\<exists>t. request_loop env rq n d u = (t, Inl OSError)" for rq n d and u :: "'a sdk"
    using send [of rq u] by (cases n) (auto simp: bind_s_apply)
  then have post: "\<exists>t. post_events c env mode ch u = (t, Inl OSError)" for ch and u :: "'a sdk"
    by (simp add: post_events_def sdk_request_loop)
  obtain ch chs where chs: "batches q = ch # chs" using assms(3) by (metis batches_Nil_iff list.exhaust)
  then have ne: "\<forall>ch \<in> set (batches q). ch \<noteq> []" using batches_bounded by blast
  obtain t where t: "post_events c env mode ch (drained s) = (t, Inl OSError)" using post by blast
  then have "flush_queue (post_events c env mode) (batches q) ([], JStr []) (drained s) = (t, [], Inl OSError)"
    by (simp add: chs contract_error_def)
  from fold_chunks_refines [OF assms(1) ne this, of "[]"]
  have run: "flush c env mode s = (t, Inl OSError)"
    by (simp add: flush_run [OF assms(1,2)] bind_s_apply)
  have "sdk_pending t = [] \<and> sdk_spool t = map_option (\<lambda>_. []) (sdk_spool s)"
    using io_only_frame [OF io_post t] by (simp add: drained_def)
  then have "outstanding env t = Inr []"
    by (cases "sdk_spool s") (simp_all add: outstanding_def spooled_def file_lines_def)
  with run show ?thesis by simp
qed

text \<open>
  Without an offline buffer a failed batch is put back and the rest is dropped. When
  the first batch fails with a contract error, flush raises it and the client holds the
  first 500 events only: the events after them are gone.
\<close>

theorem flush_unbuffered_drops_rest:
  assumes "\<not> cl_buffered c" and "sdk_pending s \<noteq> []" and "contract_error e"
    and "post_events c env mode (take SDK_MAX_BATCH (sdk_pending s)) (s\<lparr>sdk_pending := []\<rparr>) = (t, Inl e)"
  shows "flush c env mode s = (t\<lparr>sdk_pending := take SDK_MAX_BATCH (sdk_pending s)\<rparr>, Inl e)"
proof -
  let ?ch = "take SDK_MAX_BATCH (sdk_pending s)"
  have pend: "sdk_pending t = []" using io_only_frame [OF io_post assms(4)] by simp
  have "send_chunk c env mode ?ch ([], JStr []) (s\<lparr>sdk_pending := []\<rparr>) = (t\<lparr>sdk_pending := ?ch\<rparr>, Inl e)"
    using assms(1,3,4) pend
    by (cases e) (simp_all add: send_chunk_def catch_def chunk_failed_def contract_error_def bind_s_apply)
  with assms(1,2) show ?thesis
    by (simp add: flush_def bind_s_apply batches_step Let_def)
qed

end
