(* ===== verification/SdkServer.thy ===== *)
theory SdkServer
  imports SdkQueue WebhooksSafe Imports
begin

text \<open>
  The SDK against the server: webhooks the SDK verifies, events the server's schema accepts,
  uploads the import worker reads back, and the two polling loops.
\<close>

section \<open>Webhooks\<close>

lemma lower_keys_simps: "lower_keys [] = []" "lower_keys ((k, v) # hs) = (map ascii_lower k, v) # lower_keys hs"
  by (simp_all add: lower_keys_def)

lemma lowered_delivery_headers:
  "last_of (lower_keys (delivery_headers env secret ts raw ref)) ''x-truefigure-timestamp'' = Some (int_str ts)"
  "last_of (lower_keys (delivery_headers env secret ts raw ref)) ''x-truefigure-signature''
     = Some (sign env secret ts raw)"
proof -
  have k: "map ascii_lower ''Content-Type'' = ''content-type''"
    "map ascii_lower ''X-TrueFigure-Timestamp'' = ''x-truefigure-timestamp''"
    "map ascii_lower ''X-TrueFigure-Signature'' = ''x-truefigure-signature''"
    "map ascii_lower ''X-TrueFigure-Delivery'' = ''x-truefigure-delivery''"
    by code_simp+
  show "last_of (lower_keys (delivery_headers env secret ts raw ref)) ''x-truefigure-timestamp'' = Some (int_str ts)"
    "last_of (lower_keys (delivery_headers env secret ts raw ref)) ''x-truefigure-signature''
       = Some (sign env secret ts raw)"
    by (simp_all only: last_of_def lower_keys_simps delivery_headers_def k) simp_all
qed

text \<open>
  C31: the consumer's check of the SDK accepts what the worker delivers. The request of a
  delivery attempt carries headers that \<^verbatim>\<open>verify\<close>, under the secret the integrator was
  given and for the body sent, accepts exactly when the receiver's clock is within the
  tolerance of the attempt's time, and answers with a verification error otherwise.
\<close>

theorem sdk_verifies_deliveries:
  assumes "encrypt (wh_sha256 env) (wh_hmac env) (wh_setting env) secret = Inr (wh_secret_hash w)"
    and "\<forall>m. length (wh_sha256 env m) = 32" and "\<forall>k m. length (wh_hmac env k m) = 32"
    and "length (utf8_encode secret) \<le> 137438953472" and "\<bar>int_timestamp now\<bar> < 2 ^ 63"
  shows "\<exists>headers.
     send_delivery env sender now (d, w) =
       Inr (case sender ''POST'' (wh_url w) headers (delivery_body env d) of Inl _ \<Rightarrow> 0 | Inr status \<Rightarrow> status)
     \<and> (\<forall>clock tolerance. sdk_verify env clock secret headers (delivery_body env d) (Some tolerance)
          = (if \<bar>clock - int_timestamp now\<bar> \<le> tolerance then Inr () else Inl VerificationError))"
proof -
  let ?ts = "int_timestamp now" and ?raw = "delivery_body env d"
  let ?h = "delivery_headers env secret ?ts ?raw (dl_ref d)"
  have "decrypt (wh_sha256 env) (wh_hmac env) (wh_setting env) (wh_secret_hash w) = Inr secret"
    using decrypt_encrypt assms(1-4) by metis
  then have "send_delivery env sender now (d, w) =
      Inr (case sender ''POST'' (wh_url w) ?h ?raw of Inl _ \<Rightarrow> 0 | Inr status \<Rightarrow> status)"
    by (simp add: send_delivery_def Let_def split: sum.splits)
  moreover have "sdk_verify env clock secret ?h ?raw (Some tolerance)
      = (if \<bar>clock - ?ts\<bar> \<le> tolerance then Inr () else Inl VerificationError)" for clock tolerance
  proof -
    have "sign env secret ?ts ?raw \<noteq> []" by (simp add: sign_def)
    moreover have "int_str ?ts \<noteq> []" by (simp add: int_str_def)
    ultimately show ?thesis
      using sign_ascii [of env secret ?ts ?raw]
      by (auto simp: sdk_verify_def lowered_delivery_headers sdk_verify_signature_def
          py_int_int_str [OF assms(5)] verify_signature_def)
  qed
  ultimately show ?thesis by blast
qed

lemma sdk_verifies_deliveries_witness:
  "\<exists>headers.
     send_delivery ex_wenv (\<lambda>m u h b. Inr 204) 5000000 (ex_delivery, ex_hook) = Inr 204
     \<and> sdk_verify ex_wenv 305 ''whsec_1'' headers (delivery_body ex_wenv ex_delivery) (Some 300) = Inr ()
     \<and> sdk_verify ex_wenv 306 ''whsec_1'' headers (delivery_body ex_wenv ex_delivery) (Some 300)
         = Inl VerificationError"
proof -
  have e: "encrypt (wh_sha256 ex_wenv) (wh_hmac ex_wenv) (wh_setting ex_wenv) ''whsec_1'' = Inr (wh_secret_hash ex_hook)"
    by (simp add: ex_token ex_hook_def)
  have t: "int_timestamp 5000000 = 5" by (simp add: int_timestamp_def)
  then have b: "\<bar>int_timestamp 5000000\<bar> < 2 ^ 63" by simp
  obtain hs where hs: "send_delivery ex_wenv (\<lambda>m u h b. Inr 204) 5000000 (ex_delivery, ex_hook)
      = Inr (case Inr 204 :: int result of Inl _ \<Rightarrow> 0 | Inr status \<Rightarrow> status)"
    "\<forall>clock tolerance. sdk_verify ex_wenv clock ''whsec_1'' hs (delivery_body ex_wenv ex_delivery) (Some tolerance)
      = (if \<bar>clock - 5\<bar> \<le> tolerance then Inr () else Inl VerificationError)"
    using sdk_verifies_deliveries [OF e ex_digests ex_secret_short b, of "\<lambda>m u h b. Inr 204" ex_delivery]
    unfolding t by blast
  from hs(1) hs(2) [rule_format, of 305 300] hs(2) [rule_format, of 306 300]
  show ?thesis by (intro exI [of _ hs]) simp
qed

section \<open>Events\<close>

lemma sdk_event_valid_iff:
  assumes "dep \<noteq> []" and "eo_origin opts \<in> fst ` set origin_types"
  shows "envelope_valid (JObj (sdk_event (event_type_str t) fixed dep opts))
    \<longleftrightarrow> payload_valid (JObj (sdk_payload fixed (eo_extra opts)))"
proof -
  have "schema_version_ok SDK_SCHEMA_VERSION" by code_simp
  moreover have "event_type_str t \<in> fst ` set event_types"
    by (cases t) (simp_all add: event_types_def)
  ultimately show ?thesis
    using assms by (simp add: envelope_valid_def sdk_event_def build_event_def envelope_fields_def
        split: option.split)
qed

text \<open>
  C37: the envelopes the SDK builds pass the server's schema. For a deployment, an origin of
  the contract, string references and timestamps, and a label of the family's enumeration,
  each of the five builders gives an envelope the validator accepts, with or without an
  idempotency scope.
\<close>

theorem sdk_events_valid:
  assumes "dep \<noteq> []" and "eo_origin opts \<in> fst ` set origin_types" and "eo_extra opts = []"
    and "act \<in> {''suggestion_shown'', ''suggestion_accepted'', ''suggestion_rejected'', ''draft_generated'',
           ''autocomplete_used'', ''case_handled_autonomous'', ''escalated_to_human'', ''lookup_performed'',
           ''classification_applied'', ''other_assist''}"
    and "ev \<in> {''created'', ''status_change'', ''assigned'', ''completed'', ''reopened'', ''escalated'', ''transferred''}"
    and "m \<in> set meters" and "0 \<le> n"
    and "sg \<in> {''error_found'', ''rework_required'', ''qa_label'', ''customer_bounce'', ''sla_breach''}"
  shows "envelope_valid (JObj (activity_event (JStr u) (JStr ts) (JStr wi) (JStr act) dep opts))
    \<and> envelope_valid (JObj (lifecycle_event (JStr wi) (JStr ev) (JStr ts) dep opts))
    \<and> envelope_valid (JObj (cost_meter_event (JStr m) (JInt n) (JStr ts) dep opts))
    \<and> envelope_valid (JObj (quality_signal_event (JStr wi) (JStr sg) (JStr ts) dep opts))
    \<and> envelope_valid (JObj (revenue_signal_event (JStr wi) (JStr rv) (JStr ts) dep opts))"
proof -
  note valid = sdk_event_valid_iff [OF assms(1,2)] assms(3) sdk_payload_def update_items_def
    payload_valid_def object_ok_def family.simps
  show ?thesis
    using assms(4-8)
    unfolding activity_event_def lifecycle_event_def cost_meter_event_def quality_signal_event_def
      revenue_signal_event_def
    using sdk_event_valid_iff [OF assms(1,2), of Activity] sdk_event_valid_iff [OF assms(1,2), of Lifecycle]
      sdk_event_valid_iff [OF assms(1,2), of Cost_Meter] sdk_event_valid_iff [OF assms(1,2), of Quality_Signal]
      sdk_event_valid_iff [OF assms(1,2), of Revenue_Signal]
    by (simp add: valid)
qed

section \<open>Uploads\<close>

lemma printable_no_break: "printable c \<Longrightarrow> \<not> is_line_break c"
  by (auto simp: printable_def is_line_break_def Let_def)

lemma split_last_line:
  "\<forall>c \<in> set l. \<not> is_line_break c \<Longrightarrow> cur @ l \<noteq> [] \<Longrightarrow> split_acc cur l = [cur @ l]"
proof (induction l arbitrary: cur)
  case Nil
  then show ?case by simp
next
  case (Cons c l)
  have "\<not> is_line_break c" using Cons.prems by simp
  moreover from this have "c \<noteq> CHR 0x0D" by (auto simp: is_line_break_def)
  ultimately show ?case using Cons by (cases l) auto
qed

lemma splitlines_join:
  assumes "\<forall>l \<in> set ls. l \<noteq> [] \<and> (\<forall>c \<in> set l. \<not> is_line_break c)"
  shows "splitlines (join [CHR 0x0A] ls) = ls"
  using assms unfolding splitlines_def
proof (induction ls)
  case Nil
  then show ?case by simp
next
  case (Cons l ls)
  then show ?case by (cases ls) (simp_all add: split_last_line split_at_break)
qed

lemma splitlines_ndjson:
  assumes "plain_repr (io_float_repr env)"
  shows "splitlines (ndjson env evs) = map (json_dumps (io_float_repr env) default_style) evs"
proof -
  have "json_dumps (io_float_repr env) default_style e \<noteq> []" for e
    using dump_not_blank [OF assms, of e] by auto
  with printable_no_break dumps_printable [OF assms] show ?thesis
    unfolding ndjson_def by (intro splitlines_join) (auto simp del: split_paired_All)
qed

lemma fold_s_map:
  assumes "\<And>x. x \<in> set xs \<Longrightarrow> f (h x) = g x"
  shows "fold_s f (map h xs) acc = fold_s g xs acc"
  using assms by (induction xs arbitrary: acc) (simp_all add: bind_s_def fun_eq_iff split: prod.splits sum.splits)

lemma enumerate_map: "enumerate n (map f xs) = map (\<lambda>(i, x). (i, f x)) (enumerate n xs)"
  by (induction xs arbitrary: n) auto

text \<open>What the import worker does with one event.\<close>

definition import_event ::
  "ingest_env \<Rightarrow> principal \<Rightarrow> string \<Rightarrow> int \<Rightarrow> nat \<times> json \<Rightarrow> progress \<Rightarrow> (sys, progress) st" where
  "import_event ienv p source_ref horizon numbered st =
     (case numbered of (n, event) \<Rightarrow>
        bind_s (process_one ienv p event (int n) source_ref horizon) (\<lambda>x.
          ret (count_result ienv (int n) x ((fst st)\<lparr>received := received (fst st) + 1\<rparr>, snd st))))"

text \<open>
  C32: the worker reads an SDK upload back event by event. The NDJSON text
  \<^verbatim>\<open>upload_import\<close> sends has one line per event, whatever its strings hold; replaying
  the file runs every event of the list, in order and under its index, through the ingestion
  of a single event, and skips, joins or rejects no line as malformed.
\<close>

theorem upload_read_back:
  assumes "plain_repr (io_float_repr env)"
    and "\<forall>e \<in> set evs. env_loads ienv (json_dumps (io_float_repr env) default_style e) = Some e"
  shows "import_lines ienv p src hz (ndjson env evs)
    = fold_s (import_event ienv p src hz) (enumerate 0 evs) (no_counts, [])"
proof -
  have "import_line ienv p src hz (n, json_dumps (io_float_repr env) default_style e) = import_event ienv p src hz (n, e)"
    if "(n, e) \<in> set (enumerate 0 evs)" for n e
  proof -
    have "e \<in> set evs" using in_set_enumerate_eq [of "(n, e)" 0 evs] that by auto
    then have "env_loads ienv (json_dumps (io_float_repr env) default_style e) = Some e" using assms(2) by blast
    moreover have "strip (json_dumps (io_float_repr env) default_style e) \<noteq> []"
      using dump_not_blank [OF assms(1), of e] by (auto simp: strip_Nil_iff)
    ultimately show ?thesis by (simp add: import_line_def import_event_def fun_eq_iff)
  qed
  then show ?thesis
    unfolding import_lines_def splitlines_ndjson [OF assms(1)] enumerate_map
    by (intro fold_s_map) auto
qed

section \<open>Polling an import\<close>

lemma sleep_time_nonneg: "sleep_time j = Inr d \<Longrightarrow> 0 \<le> d"
  by (auto simp: sleep_time_def split: json.splits if_splits)

text \<open>What \<^verbatim>\<open>time.monotonic\<close> and \<^verbatim>\<open>time.sleep\<close> promise.\<close>

definition clock_runs :: "'w sdk_env \<Rightarrow> bool" where
  "clock_runs env \<longleftrightarrow> (\<forall>rq w. io_clock env w \<le> io_clock env (fst (io_transport env rq w)))
     \<and> (\<forall>d w. 0 \<le> d \<longrightarrow> io_clock env w + d \<le> io_clock env (io_sleep env d w))"

definition now_of :: "'w sdk_env \<Rightarrow> 'w sdk \<Rightarrow> rat" where
  "now_of env s = io_clock env (sdk_world s)"

lemma send_clock: "clock_runs env \<Longrightarrow> send_request env rq s = (t, r) \<Longrightarrow> now_of env s \<le> now_of env t"
  by (auto simp: clock_runs_def now_of_def send_request_def on_world_def log_io_def split: prod.splits)
    (metis fst_conv)

lemma sleep_clock:
  assumes "clock_runs env" "sdk_sleep env j s = (t, Inr x)"
  shows "\<exists>d. sleep_time j = Inr d \<and> now_of env s + d \<le> now_of env t"
proof -
  from assms(2) obtain d where d: "sleep_time j = Inr d" "sdk_world t = io_sleep env d (sdk_world s)"
    by (auto simp: sdk_sleep_def on_world_def log_io_def bind_s_lift split: sum.splits)
  with sleep_time_nonneg [OF d(1)] assms(1) show ?thesis by (auto simp: clock_runs_def now_of_def)
qed

lemma sleep_clock_mono: "clock_runs env \<Longrightarrow> sdk_sleep env j s = (t, r) \<Longrightarrow> now_of env s \<le> now_of env t"
proof (cases r)
  case (Inl e)
  assume "sdk_sleep env j s = (t, r)"
  with Inl show ?thesis using sdk_sleep_trace(2) by fastforce
next
  case (Inr x)
  assume "clock_runs env" "sdk_sleep env j s = (t, r)"
  with Inr sleep_clock sleep_time_nonneg show ?thesis by fastforce
qed

lemma request_loop_clock:
  assumes "clock_runs env"
  shows "request_loop env rq n delay s = (t, r) \<Longrightarrow> now_of env s \<le> now_of env t"
proof (induction n arbitrary: delay s)
  case 0
  obtain u q where u: "send_request env rq s = (u, q)" by (cases "send_request env rq s")
  from 0 u have "t = u"
    by (auto simp: bind_s_def raise_def ret_def lift_r_def split: sum.splits prod.splits if_splits)
  with send_clock [OF assms u] show ?case by simp
next
  case (Suc n)
  obtain u q where u: "send_request env rq s = (u, q)" by (cases "send_request env rq s")
  note first = send_clock [OF assms u]
  from Suc.prems u have "t = u \<or> (\<exists>w v x. sdk_sleep env w u = (v, x) \<and>
      (t = v \<or> (\<exists>d. request_loop env rq n d v = (t, r))))"
    by (fastforce simp: bind_s_def raise_def ret_def lift_r_def split: sum.splits prod.splits if_splits)
  then show ?case
  proof (elim disjE exE conjE)
    fix w v x assume "sdk_sleep env w u = (v, x)" "t = v"
    with sleep_clock_mono [OF assms] first show ?thesis by fastforce
  next
    fix w v x d assume "sdk_sleep env w u = (v, x)" "request_loop env rq n d v = (t, r)"
    with sleep_clock_mono [OF assms] Suc.IH first show ?thesis by fastforce
  qed (use first in simp)
qed

lemma api_clock: "clock_runs env \<Longrightarrow> api c env m path body s = (t, r) \<Longrightarrow> now_of env s \<le> now_of env t"
proof -
  assume c: "clock_runs env" and a: "api c env m path body s = (t, r)"
  obtain u q where u: "sdk_request c env m path body [] s = (u, q)" by (cases "sdk_request c env m path body [] s")
  with a have "t = u" by (auto simp: api_def bind_s_apply split: sum.splits)
  with request_loop_clock [OF c] u show ?thesis by (simp add: sdk_request_loop)
qed

lemma poll_import_ends:
  assumes "clock_runs env" "0 < poll"
  shows "deadline \<le> now_of env s + of_nat n * poll \<Longrightarrow>
    \<exists>t r. poll_import (Suc n) c env import_id poll deadline s = Some (t, r)
      \<and> (\<forall>st. r = Inr st \<longrightarrow> is_terminal st = Inr True)"
proof (induction n arbitrary: s)
  case 0
  obtain u q where u: "sdk_import_status c env import_id s = (u, q)" by (cases "sdk_import_status c env import_id s")
  have "now_of env s \<le> now_of env u" using api_clock [OF assms(1)] u by (simp add: sdk_import_status_def)
  with 0 have "deadline \<le> io_clock env (sdk_world u)" by (simp add: now_of_def)
  with u show ?case by (auto split: sum.split bool.split)
next
  case (Suc n)
  obtain u q where u: "sdk_import_status c env import_id s = (u, q)" by (cases "sdk_import_status c env import_id s")
  have mono: "now_of env s \<le> now_of env u" using api_clock [OF assms(1)] u by (simp add: sdk_import_status_def)
  show ?case
  proof (cases "\<exists>st v. q = Inr st \<and> is_terminal st = Inr False \<and> \<not> deadline \<le> io_clock env (sdk_world u)
      \<and> sdk_sleep env (JReal poll) u = (v, Inr ())")
    case False
    obtain v x where v: "sdk_sleep env (JReal poll) u = (v, x)" by (cases "sdk_sleep env (JReal poll) u")
    have "x = Inr () \<or> (\<exists>e. x = Inl e)" by (cases x) auto
    with False u v show ?thesis by (auto split: sum.split bool.split)
  next
    case True
    then obtain st v where st: "q = Inr st" "is_terminal st = Inr False" "\<not> deadline \<le> io_clock env (sdk_world u)"
      and v: "sdk_sleep env (JReal poll) u = (v, Inr ())" by blast
    from sleep_clock [OF assms(1) v] assms(2) have "now_of env u + poll \<le> now_of env v"
      by (auto simp: sleep_time_def split: if_splits)
    with mono Suc.prems have "deadline \<le> now_of env v + of_nat n * poll" by (simp add: algebra_simps)
    from Suc.IH [OF this] u st v show ?thesis by simp
  qed
qed

lemma poll_import_more: "poll_import n c env i poll d s = Some x \<Longrightarrow> poll_import (n + k) c env i poll d s = Some x"
  by (induction n arbitrary: s) (auto split: prod.splits sum.splits bool.splits if_splits)

text \<open>
  C33: waiting for an import ends. With a clock that never goes back and advances by
  what is slept, and a positive interval, the loop ends within
  \<^verbatim>\<open>timeout / poll_interval\<close> + 1 polls whatever the server answers, with the same result
  for any larger bound; a value it returns is a job in a terminal state.
\<close>

theorem wait_for_import_terminates:
  assumes "clock_runs env" and "0 < poll_interval"
  shows "\<exists>t r. (\<forall>k. wait_for_import (nat \<lceil>timeout / poll_interval\<rceil> + 1 + k) c env import_id poll_interval timeout s
        = Some (t, r))
    \<and> (\<forall>st. r = Inr st \<longrightarrow> is_terminal st = Inr True)"
proof -
  let ?n = "nat \<lceil>timeout / poll_interval\<rceil>"
  have "timeout / poll_interval \<le> of_nat ?n" by linarith
  then have "timeout \<le> of_nat ?n * poll_interval" using assms(2) by (simp add: divide_le_eq)
  then have "now_of env s + timeout \<le> now_of env s + of_nat ?n * poll_interval" by simp
  from poll_import_ends [OF assms this, of c import_id] poll_import_more [of "Suc ?n"]
  show ?thesis by (simp add: wait_for_import_def now_of_def) blast
qed

section \<open>Pages\<close>

text \<open>
  The iterators of the SDK yield the server's list. Against the server, whose answers
  name no next cursor, an iterator sends one request, yields exactly the items of
  \<^verbatim>\<open>results\<close> in order, and ends without an exception; one page of fuel is enough.
\<close>

theorem iterator_yields_list:
  assumes "persistent env (200, rh, envelope (JObj [(''results'', JList items)]) rid sv [] dep None now)"
  shows "\<exists>t. (\<forall>fuel. paginate (Suc fuel) c env path params ''results'' s = Some (t, items, None))
    \<and> sdk_trace t = sdk_trace s @
        [Sent (the_request c ''GET'' (path @ (if params = [] then [] else ''?'' @ urlencode env params)) [] [])]"
proof -
  let ?a = "envelope (JObj [(''results'', JList items)]) rid sv [] dep None now"
  let ?rq = "the_request c ''GET'' (path @ (if params = [] then [] else ''?'' @ urlencode env params)) [] []"
  obtain u where u: "send_request env ?rq s = (u, Inr (200, rh, ?a))" "sdk_trace u = sdk_trace s @ [Sent ?rq]"
    using send_persistent [OF assms] by blast
  have loop: "request_loop env ?rq n d s = (u, Inr ?a)" for n d
    by (cases n) (simp_all add: bind_s_apply u(1) read_ok_envelope read_error_envelope(2))
  have url: "page_url env path params JNull = path @ (if params = [] then [] else ''?'' @ urlencode env params)"
    by (simp add: page_url_def Let_def)
  have items: "page_items ''results'' ?a = Inr items"
    by (simp add: page_items_def envelope_def py_get_def json_get_or_def py_iter_def)
  have cursor: "page_cursor ?a = Inr JNull"
    by (cases dep) (simp_all add: page_cursor_def envelope_def meta_def py_get_def json_get_or_def)
  have "paginate (Suc fuel) c env path params ''results'' s = Some (u, items, None)" for fuel
    by (simp add: paginate_def sdk_request_loop url loop items cursor del: append.simps)
  with u(2) show ?thesis by blast
qed

end
