(* ===== verification/SdkDelivery.thy ===== *)
theory SdkDelivery
  imports SdkServer
begin

text \<open>
  Delivery end to end: the SDK's queue over a network that may lose any answer, against the
  server's ingestion. The SDK retries, spools and replays; the server's event keys make the
  repeats harmless.
\<close>

section \<open>What a client does to its world\<close>

text \<open>
  A client touches its world through the transport and \<^verbatim>\<open>sleep\<close> only: along a relation
  both respect, every operation of the SDK moves the world.
\<close>

definition world_moves :: "('w \<Rightarrow> 'w \<Rightarrow> bool) \<Rightarrow> 'w sdk \<Rightarrow> 'w sdk \<Rightarrow> bool" where
  "world_moves R s t \<longleftrightarrow> R (sdk_world s) (sdk_world t)"

locale client_world = evolution R for R :: "'w \<Rightarrow> 'w \<Rightarrow> bool" +
  fixes env :: "'w sdk_env"
  assumes transport: "evolves R (io_transport env rq)"
    and sleeping: "R w (io_sleep env d w)"
begin

sublocale moves: evolution "world_moves R"
  by unfold_locales (auto simp: world_moves_def refl elim: trans)

lemma keeps_world: "(\<And>s. sdk_world (f s) = sdk_world s) \<Longrightarrow> evolves (world_moves R) (writes f)"
  by (simp add: evolves_def world_moves_def refl)

lemma on_world: "evolves R m \<Longrightarrow> evolves (world_moves R) (on_world m)"
  by (simp add: evolves_def world_moves_def on_world_def split: prod.split) (metis fst_conv)

lemma send: "evolves (world_moves R) (send_request env rq)"
  unfolding send_request_def
  by (intro moves.bind keeps_world on_world transport) (simp add: log_io_def)

lemma sleep: "evolves (world_moves R) (sdk_sleep env j)"
  unfolding sdk_sleep_def
  by (intro moves.bind moves.basic keeps_world on_world evolves_writes sleeping) (simp add: log_io_def)

lemma request_loop: "evolves (world_moves R) (request_loop env rq n delay)"
proof (induction n arbitrary: delay)
  case 0
  show ?case by (auto intro!: moves.bind moves.basic send)
next
  case (Suc n)
  then show ?case by (auto intro!: moves.bind moves.basic send sleep)
qed

lemma post: "evolves (world_moves R) (post_events c env mode evs)"
  unfolding post_events_def sdk_request_loop by (rule request_loop)

lemma chunk: "evolves (world_moves R) (send_chunk c env mode ch acc)"
  unfolding send_chunk_def
proof (intro moves.bind moves.catching moves.basic post)
  fix e k
  assume "chunk_failed c env ch e = Some k"
  then show "evolves (world_moves R) k"
    by (auto simp: chunk_failed_def spool_append_def intro!: moves.bind moves.basic keeps_world
        split: exn.splits if_splits)
next
  fix x
  show "evolves (world_moves R) (case x of None \<Rightarrow> ret acc
    | Some answer \<Rightarrow>
        bind_s (lift_r (meta_request_id answer)) (\<lambda>req_id.
        bind_s (lift_r (bind_r (data_results answer) py_iter)) (\<lambda>rs.
        bind_s (lift_r (map_r log_result rs)) (\<lambda>logged. ret (fst acc @ logged, req_id)))))"
    by (cases x) (auto intro!: moves.bind moves.basic)
qed

lemma drain: "evolves (world_moves R) (drain env)"
  unfolding drain_def
  by (auto intro!: moves.bind moves.basic keeps_world split: option.split)

lemma flush: "evolves (world_moves R) (flush c env mode)"
  unfolding flush_def Let_def
  by (auto intro!: moves.bind moves.basic moves.folding keeps_world drain chunk split: prod.split)

lemma enqueue: "evolves (world_moves R) (enqueue_event c env e)"
  unfolding enqueue_event_def
  by (auto intro!: moves.bind moves.basic keeps_world flush)

lemma ingest: "evolves (world_moves R) (ingest c env es mode)"
  unfolding ingest_def by (intro moves.bind moves.basic post)

end

section \<open>The server behind the transport\<close>

text \<open>
  The server's state, its clock in microseconds and, for the requests to come, whether a
  gateway loses their answer.
\<close>

record served =
  sv_sys :: sys
  sv_clock :: int
  sv_lost :: "bool list"

text \<open>
  What the application answers to the outcome of \<open>ingest_events\<close>, for the request id, schema
  version and time given.
\<close>

definition events_answer :: "string \<Rightarrow> string \<Rightarrow> string \<Rightarrow> item_result list result \<Rightarrow> answer" where
  "events_answer rid sv now outcome =
     (case outcome of
        Inr rs \<Rightarrow> (200, [], envelope (JObj [(''results'', JList (map item_json rs))]) rid sv [] None None now)
      | Inl x \<Rightarrow>
          (case handle_exn rid sv now x of
             Inr resp \<Rightarrow> (resp_status resp, lower_keys (resp_headers resp), resp_body resp)
           | Inl _ \<Rightarrow> (500, [], http_error_envelope 500 [])))"

text \<open>
  A request runs the handler of \<^verbatim>\<open>/v1/events:batch\<close> on the text of its body, at the time
  of the server's clock. A lost answer reaches the client as a 504 without an envelope,
  after the handler has run.
\<close>

definition served_transport ::
  "ingest_env \<Rightarrow> principal \<Rightarrow> (rat \<Rightarrow> string) \<Rightarrow> (item_result list result \<Rightarrow> answer) \<Rightarrow> http_request \<Rightarrow> (served, answer) st" where
  "served_transport ienv p fr render rq w =
     (let src = (case map_of (rq_headers rq) ''X-TrueFigure-Source'' of None \<Rightarrow> [] | Some x \<Rightarrow> x) in
      case ingest_events (ienv\<lparr>env_now := sv_clock w\<rparr>) p src (json_dumps fr default_style (rq_body rq)) (sv_sys w) of
        (s', outcome) \<Rightarrow>
          (w\<lparr>sv_sys := s', sv_lost := tl (sv_lost w)\<rparr>,
           Inr (if sv_lost w \<noteq> [] \<and> hd (sv_lost w) then (504, [], http_error_envelope 504 ''HTTP Error 504'')
                else render outcome)))"

definition served_env ::
  "served sdk_env \<Rightarrow> ingest_env \<Rightarrow> principal \<Rightarrow> (item_result list result \<Rightarrow> answer) \<Rightarrow> served sdk_env" where
  "served_env env ienv p render =
     env\<lparr>io_transport := served_transport ienv p (io_float_repr env) render,
         io_sleep := (\<lambda>d w. w\<lparr>sv_clock := sv_clock w + \<lfloor>d * 1000000\<rfloor>\<rparr>)\<rparr>"

text \<open>Event keys stay unique, and a stored key stays stored.\<close>

definition server_keeps :: "served \<Rightarrow> served \<Rightarrow> bool" where
  "server_keeps v w \<longleftrightarrow> keeps_keys_unique (sv_sys v) (sv_sys w) \<and> keys_within (sv_sys v) (sv_sys w)"

lemma keys_within_ingest: "evolves keys_within (ingest_events env p src raw)"
proof -
  have "evolves keys_within (check_rate ws rpm now)" for ws rpm now
    by (simp add: evolves_def check_rate_apply keys_within_def same_config_def key_exists_iff)
  then show ?thesis
    by (auto simp: ingest_events_def process_batch_def
        intro!: replay_keys.bind replay_keys.basic replay_keys.loop keys_within_process_one)
qed

lemma server_keeps_transport: "evolves server_keeps (served_transport ienv p fr render rq)"
  unfolding evolves_def
proof
  fix w :: served
  let ?src = "case map_of (rq_headers rq) ''X-TrueFigure-Source'' of None \<Rightarrow> [] | Some x \<Rightarrow> x"
  let ?run = "ingest_events (ienv\<lparr>env_now := sv_clock w\<rparr>) p ?src (json_dumps fr default_style (rq_body rq))"
  have "keeps_keys_unique (sv_sys w) (fst (?run (sv_sys w)))" "keys_within (sv_sys w) (fst (?run (sv_sys w)))"
    using unique_ingest keys_within_ingest unfolding evolves_def by blast+
  then show "server_keeps w (fst (served_transport ienv p fr render rq w))"
    by (simp add: server_keeps_def served_transport_def Let_def split: prod.split) (metis fst_conv)
qed

interpretation delivery: client_world server_keeps "served_env env ienv p render" for env ienv p render
  by unfold_locales
    (auto simp: server_keeps_def served_env_def server_keeps_transport keeps_keys_unique_def
      intro: unique_keys.trans replay_keys.trans replay_keys.refl)

section \<open>What a successful request has been answered\<close>

lemma request_loop_answer:
  "request_loop env rq n delay s = (t, Inr a) \<Longrightarrow>
     \<exists>u status rh. send_request env rq u = (t, Inr (status, rh, a)) \<and> status < 400 \<and> answer_errors a = Inr []"
proof (induction n arbitrary: delay s)
  case 0
  then show ?case by (auto simp: bind_s_Inr_iff split: if_splits prod.splits)
next
  case (Suc n)
  then show ?case by (auto simp: bind_s_Inr_iff split: if_splits prod.splits)
qed

text \<open>A result of a batch that says its event is stored, and under which key.\<close>

definition reported_key :: "json \<Rightarrow> string option" where
  "reported_key r =
     (case r of
        JObj kvs \<Rightarrow>
          (case json_get kvs ''event_key'' of
             Some (JStr k) \<Rightarrow>
               if json_get kvs ''status'' \<in> {Some (JStr ''accepted''), Some (JStr ''duplicate'')} then Some k else None
           | _ \<Rightarrow> None)
      | _ \<Rightarrow> None)"

lemma reported_item: "reported_key (item_json x) = item_key x"
proof (cases x)
  case (Rejected_Item i err key echo)
  then show ?thesis
    by (cases key; cases echo) (auto simp: reported_key_def echo_field_def split: json.split)
qed (auto simp: reported_key_def)

definition reported_stored :: "principal \<Rightarrow> json list \<Rightarrow> served \<Rightarrow> bool" where
  "reported_stored p rs w \<longleftrightarrow>
     (\<forall>r \<in> set rs. \<forall>k. reported_key r = Some k \<longrightarrow> key_exists (p_workspace_id p) k (sv_sys w))"

lemma reported_stored_grows: "reported_stored p rs v \<Longrightarrow> server_keeps v w \<Longrightarrow> reported_stored p rs w"
  by (auto simp: reported_stored_def server_keeps_def keys_within_def)

lemma error_answer_errors: "handle_exn rid sv now x = Inr resp \<Longrightarrow> answer_errors (resp_body resp) \<noteq> Inr []"
  by (cases x)
    (auto simp: handle_exn_def handle_tf_error_def handle_unexpected_def bind_r_Inr_iff read_error_envelope(1))

lemma log_item: "log_result (item_json x) = Inr (item_json x)"
  by (cases x) (simp_all add: log_result_def py_get_def json_get_or_def to_error_object_def)

lemma read_events_answer:
  "read_results (envelope (JObj [(''results'', JList (map item_json rs))]) rid sv [] None None now)
    = Inr (map item_json rs, JStr rid)"
proof -
  have "map_r log_result (map item_json rs) = Inr (map item_json rs)"
    using map_r_all [of "map item_json rs" log_result "\<lambda>x. x"] log_item by auto
  then show ?thesis
    by (simp add: read_results_def meta_request_id_def data_results_def envelope_def meta_def py_item_def py_iter_def)
qed

lemma served_answer:
  assumes "served_transport ienv p fr render rq w = (w', Inr (status, rh, a))"
  obtains e src raw outcome where "ingest_events e p src raw (sv_sys w) = (sv_sys w', outcome)"
    "(status, rh, a) = (504, [], http_error_envelope 504 ''HTTP Error 504'') \<or> (status, rh, a) = render outcome"
proof -
  let ?src = "case map_of (rq_headers rq) ''X-TrueFigure-Source'' of None \<Rightarrow> [] | Some x \<Rightarrow> x"
  let ?run = "ingest_events (ienv\<lparr>env_now := sv_clock w\<rparr>) p ?src (json_dumps fr default_style (rq_body rq)) (sv_sys w)"
  obtain s' outcome where run: "?run = (s', outcome)" by fastforce
  with assms have w': "w\<lparr>sv_sys := s', sv_lost := tl (sv_lost w)\<rparr> = w'"
    and a: "(status, rh, a) = (504, [], http_error_envelope 504 ''HTTP Error 504'') \<or> (status, rh, a) = render outcome"
    by (auto simp: served_transport_def Let_def split: if_splits)
  from w' have "sv_sys w' = s'" by auto
  with run a show ?thesis using that by blast
qed

lemma post_stored:
  assumes "post_events c (served_env env ienv p (events_answer rid sv now)) mode evs s = (t, Inr a)"
    and "\<not> is_test p"
  shows "\<exists>rs. read_results a = Inr (rs, JStr rid) \<and> reported_stored p rs (sdk_world t)"
proof -
  let ?env = "served_env env ienv p (events_answer rid sv now)"
  obtain u status rh rq where u: "send_request ?env rq u = (t, Inr (status, rh, a))" "status < 400"
    "answer_errors a = Inr []"
    using request_loop_answer assms(1) unfolding post_events_def sdk_request_loop by blast
  from u(1) obtain w0 where "served_transport ienv p (io_float_repr env) (events_answer rid sv now) rq w0
      = (sdk_world t, Inr (status, rh, a))"
    by (auto simp: send_request_def on_world_def served_env_def split: prod.splits)
  then obtain src raw e outcome where out: "ingest_events e p src raw (sv_sys w0) = (sv_sys (sdk_world t), outcome)"
    and a: "(status, rh, a) = (504, [], http_error_envelope 504 ''HTTP Error 504'')
      \<or> (status, rh, a) = events_answer rid sv now outcome"
    by (rule served_answer)
  from a u(2) have a: "(status, rh, a) = events_answer rid sv now outcome" by auto
  show ?thesis
  proof (cases outcome)
    case (Inl x)
    with a u(2,3) error_answer_errors show ?thesis
      by (auto simp: events_answer_def split: sum.splits)
  next
    case (Inr rs)
    then have "a = envelope (JObj [(''results'', JList (map item_json rs))]) rid sv [] None None now"
      using a by (simp add: events_answer_def)
    moreover have "reported_stored p (map item_json rs) (sdk_world t)"
      using ingest_keys [OF out [unfolded Inr] assms(2)] by (auto simp: reported_stored_def reported_item)
    ultimately show ?thesis using read_events_answer by blast
  qed
qed

lemma send_chunk_Inr:
  assumes "send_chunk c env mode ch acc s = (u, Inr acc')"
  shows "acc' = acc \<or> (\<exists>a new rid. post_events c env mode ch s = (u, Inr a) \<and> read_results a = Inr (new, rid)
    \<and> acc' = (fst acc @ new, rid))"
proof (cases "post_events c env mode ch s")
  case (Pair v r)
  show ?thesis
  proof (cases r)
    case (Inr a)
    with assms Pair show ?thesis
      by (auto simp: send_chunk_def catch_def read_results_def bind_s_apply split: sum.splits)
  next
    case (Inl e)
    with assms Pair show ?thesis
      by (auto simp: send_chunk_def catch_def chunk_failed_def bind_s_apply split: sum.splits exn.splits if_splits)
  qed
qed

lemma fold_stored:
  assumes "\<not> is_test p"
  shows "fold_s (send_chunk c (served_env env ienv p (events_answer rid sv now)) mode) chs acc s = (t, Inr acc') \<Longrightarrow>
    reported_stored p (fst acc) (sdk_world s) \<Longrightarrow> reported_stored p (fst acc') (sdk_world t)"
proof (induction chs arbitrary: acc s)
  case Nil
  then show ?case by simp
next
  case (Cons ch chs)
  let ?env = "served_env env ienv p (events_answer rid sv now)"
  obtain u acc1 where u: "send_chunk c ?env mode ch acc s = (u, Inr acc1)"
    and rest: "fold_s (send_chunk c ?env mode) chs acc1 u = (t, Inr acc')"
    using Cons.prems(1) by (auto simp: bind_s_Inr_iff)
  have "server_keeps (sdk_world s) (sdk_world u)"
    using evolvesD [OF delivery.chunk u] by (simp add: world_moves_def)
  then have old: "reported_stored p (fst acc) (sdk_world u)" by (rule reported_stored_grows [OF Cons.prems(2)])
  have "reported_stored p (fst acc1) (sdk_world u)"
    using send_chunk_Inr [OF u] old post_stored [OF _ assms]
    by (fastforce simp: reported_stored_def)
  from Cons.IH [OF rest this] show ?case .
qed

lemma batch_result_results: "mk_batch_result results rid = Inr br \<Longrightarrow> br_results br = results"
  by (auto simp: mk_batch_result_def bind_r_Inr_iff)

lemma flush_results:
  assumes "flush c env mode s = (t, Inr br)"
  obtains (none) "br_results br = JList []"
  | (sent) batch v rs rid where "fold_s (send_chunk c env mode) (batches batch) ([], JStr []) v = (t, Inr (rs, rid))"
      "br_results br = JList rs"
proof -
  obtain v batch where run: "(if batch = [] then lift_r (mk_batch_result (JList []) (JStr []))
      else bind_s (fold_s (send_chunk c env mode) (batches batch) ([], JStr [])) (\<lambda>(results, req_id).
        lift_r (mk_batch_result (JList results) req_id))) v = (t, Inr br)"
    using assms unfolding flush_def Let_def bind_s_Inr_iff [where m = "reads _"] bind_s_Inr_iff [where m = "writes _"]
      bind_s_Inr_iff [where m = "if _ then _ else _"] by blast
  show thesis
  proof (cases "batch = []")
    case True
    with run have "br_results br = JList []" by (auto dest: batch_result_results)
    then show ?thesis by (rule none)
  next
    case False
    with run show ?thesis
      using sent [of batch] by (auto simp: bind_s_Inr_iff dest: batch_result_results)
  qed
qed

section \<open>Exactly once\<close>

text \<open>
  C11: what a flush reports as stored is stored exactly once. However many answers the
  network loses, and so however often the SDK sends a batch again, spools it and replays it:
  if no two events of the server share a key before a flush, none do after it, and when the
  flush returns, every event its results call accepted or duplicate is in the server's
  table exactly once, under the key reported.
\<close>

theorem sdk_delivers_once:
  assumes "unique_key event_id (events (sv_sys (sdk_world s)))" and "\<not> is_test p"
    and "flush c (served_env env ienv p (events_answer rid sv now)) mode s = (t, r)"
  shows "unique_key event_id (events (sv_sys (sdk_world t)))
    \<and> (\<forall>br. r = Inr br \<longrightarrow> (\<exists>rs. br_results br = JList rs
        \<and> (\<forall>x \<in> set rs. \<forall>k. reported_key x = Some k \<longrightarrow>
            length (filter (\<lambda>e. event_id e = (p_workspace_id p, k)) (tbl_rows (events (sv_sys (sdk_world t))))) = 1)))"
proof -
  let ?env = "served_env env ienv p (events_answer rid sv now)"
  let ?rows = "tbl_rows (events (sv_sys (sdk_world t)))"
  have "world_moves server_keeps s t" using delivery.flush assms(3) by (rule evolvesD)
  then have unique: "unique_key event_id (events (sv_sys (sdk_world t)))"
    using assms(1) by (simp add: world_moves_def server_keeps_def keeps_keys_unique_def)
  have one: "length (filter (\<lambda>e. event_id e = i) ?rows) = 1" if "i \<in> event_id ` set ?rows" for i
  proof -
    have "length (filter (\<lambda>e. event_id e = i) rows) = 1"
      if "distinct (map event_id rows)" "i \<in> event_id ` set rows" for rows
      using that by (induction rows) (auto simp: filter_empty_conv image_iff)
    with unique that show ?thesis by (simp add: unique_key_def)
  qed
  have "\<exists>rs. br_results br = JList rs \<and> reported_stored p rs (sdk_world t)" if br: "r = Inr br" for br
    using assms(3) [unfolded br]
  proof (cases rule: flush_results)
    case (sent batch v rs rid')
    then show ?thesis using fold_stored [OF assms(2) sent(1)] by (simp add: reported_stored_def)
  qed (simp add: reported_stored_def)
  with unique one show ?thesis by (auto simp: reported_stored_def key_exists_iff)
qed

section \<open>Echo\<close>

text \<open>
  Computations that cannot be told apart but for the history of requests: from states equal
  up to it they end equal up to it, with the same result.
\<close>

definition forget :: "'w sdk \<Rightarrow> 'w sdk" where
  "forget s = s\<lparr>sdk_trace := []\<rparr>"

definition agree :: "('w sdk, 'a) st \<Rightarrow> ('w sdk, 'a) st \<Rightarrow> bool" where
  "agree m n \<longleftrightarrow> (\<forall>s t. forget s = forget t \<longrightarrow> forget (fst (m s)) = forget (fst (n t)) \<and> snd (m s) = snd (n t))"

lemma agreeD:
  "agree m n \<Longrightarrow> forget s = forget t \<Longrightarrow> m s = (s', x) \<Longrightarrow> n t = (t', y) \<Longrightarrow> forget s' = forget t' \<and> x = y"
  unfolding agree_def by (metis fst_conv snd_conv)

lemma agree_bind:
  assumes "agree m n" and "\<And>x. agree (k x) (l x)"
  shows "agree (bind_s m k) (bind_s n l)"
  unfolding agree_def
proof (intro allI impI)
  fix s t :: "'a sdk"
  assume st: "forget s = forget t"
  obtain s' x t' y where run: "m s = (s', x)" "n t = (t', y)" by fastforce
  with agreeD [OF assms(1) st] have "forget s' = forget t'" "x = y" by simp_all
  with run assms(2) show "forget (fst (bind_s m k s)) = forget (fst (bind_s n l t)) \<and>
      snd (bind_s m k s) = snd (bind_s n l t)"
    by (cases y) (simp_all add: bind_s_apply agree_def)
qed

lemma agree_lift [simp]: "agree (lift_r r) (lift_r r)"
  by (cases r) (simp_all add: agree_def)

lemma agree_ret [simp]: "agree (ret x) (ret x)" and agree_raise [simp]: "agree (raise e) (raise e)"
  by (simp_all add: agree_def)

lemma forget_world: "forget s = forget t \<Longrightarrow> sdk_world s = sdk_world t"
  by (cases s; cases t) (simp add: forget_def)

lemma agree_on_world [simp]: "agree (on_world m) (on_world m)"
  unfolding agree_def
proof (intro allI impI)
  fix s t :: "'a sdk"
  assume st: "forget s = forget t"
  obtain w r where "m (sdk_world t) = (w, r)" by fastforce
  with forget_world [OF st] st
  show "forget (fst (on_world m s)) = forget (fst (on_world m t)) \<and> snd (on_world m s) = snd (on_world m t)"
    by (cases s; cases t) (simp add: on_world_def forget_def)
qed

lemma agree_log: "agree (writes (log_io x)) (writes (log_io y))"
  by (simp add: agree_def log_io_def forget_def)

lemma agree_send:
  "io_transport env rq = io_transport env rq' \<Longrightarrow> agree (send_request env rq) (send_request env rq')"
  unfolding send_request_def by (simp add: agree_bind agree_log)

lemma agree_sleep: "agree (sdk_sleep env j) (sdk_sleep env j)"
  unfolding sdk_sleep_def by (intro agree_bind agree_log agree_lift agree_on_world)

lemma agree_if: "agree m m' \<Longrightarrow> agree n n' \<Longrightarrow> agree (if b then m else n) (if b then m' else n')"
  by simp

lemma agree_request_loop:
  assumes "io_transport env rq = io_transport env rq'"
  shows "agree (request_loop env rq n delay) (request_loop env rq' n delay)"
proof (induction n arbitrary: delay)
  case 0
  show ?case by (auto intro!: agree_bind agree_if agree_send [OF assms])
next
  case (Suc n)
  then show ?case by (auto intro!: agree_bind agree_if agree_send [OF assms] agree_sleep)
qed

lemma source_header:
  "map_of (request_headers c [(''X-TrueFigure-Mode'', mode)]) ''X-TrueFigure-Source''
    = map_of (request_headers c []) ''X-TrueFigure-Source''"
  by (cases "cl_source_ref c") (auto simp: request_headers_def update_items_def)

text \<open>
  Test mode. The server never looks at the mode header of a request; whether events are
  stored is a matter of the key alone. \<open>echo\<close> therefore does to the server exactly what
  \<open>ingest\<close> does, and is answered the same: with a key that is not a test key, the
  events of an \<open>echo\<close> are stored.
\<close>

theorem echo_is_ingest:
  fixes c env ienv p render es
  defines "E \<equiv> served_env env ienv p render"
  shows "sdk_world (fst (echo c E (Some es) s)) = sdk_world (fst (ingest c E es mode s))
    \<and> snd (echo c E (Some es) s) = snd (ingest c E es mode s)"
proof -
  have "agree (post_events c E ''test'' es) (post_events c E mode es)"
    unfolding post_events_def sdk_request_loop E_def
    by (rule agree_request_loop) (simp add: served_env_def served_transport_def the_request_def source_header fun_eq_iff)
  then have same: "agree (echo c E (Some es)) (ingest c E es mode)"
    unfolding echo_def ingest_def by (simp add: agree_bind)
  obtain u x v y where run: "echo c E (Some es) s = (u, x)" "ingest c E es mode s = (v, y)" by fastforce
  from agreeD [OF same refl run] have "sdk_world u = sdk_world v" "x = y" by (auto dest: forget_world)
  with run show ?thesis by simp
qed

end
