(* ===== verification/SdkExamples.thy ===== *)
theory SdkExamples
  imports SdkDelivery
begin

text \<open>
  The SDK's theorems at concrete clients, queues and servers.
\<close>

section \<open>A client, an event and networks\<close>

text \<open>The client with and without an offline buffer; the world is a clock in seconds.\<close>

definition ex_client :: "bool \<Rightarrow> int \<Rightarrow> client" where
  "ex_client buffered retries =
     make_client ''tfk_live_1'' ''https://api.test/'' (Some ''dep_1'') (if buffered then Some ''spool'' else None)
       retries None"

definition ex_event :: json where
  "ex_event = JObj [(''n'', JInt 1)]"

definition ex_net :: "answer result \<Rightarrow> rat sdk_env" where
  "ex_net reply =
     \<lparr>io_transport = (\<lambda>rq w. (w, reply)), io_put = (\<lambda>url data w. (w, Inr 200)), io_sleep = (\<lambda>d w. w + d),
      io_clock = (\<lambda>w. w),
      io_loads = (\<lambda>s. if s = json_dumps (\<lambda>_. ''0.5'') default_style ex_event @ [CHR 0x0A] then Some ex_event else None),
      io_float_repr = (\<lambda>_. ''0.5''), io_repr = (\<lambda>_. ''{}'')\<rparr>"

definition ex_unavailable :: "answer result" where
  "ex_unavailable = Inr (503, [], http_error_envelope 503 ''unavailable'')"

definition ex_queue_of :: "json list \<Rightarrow> string option \<Rightarrow> rat sdk" where
  "ex_queue_of pending spool = \<lparr>sdk_pending = pending, sdk_spool = spool, sdk_trace = [], sdk_world = 0\<rparr>"

lemma ex_buffered [simp]: "cl_buffered (ex_client b n) = b" "cl_max_retries (ex_client b n) = n"
  by (simp_all add: ex_client_def make_client_def given_def)

lemma ex_reads_back: "reads_back (ex_net reply) [ex_event, ex_event]"
  by (auto simp: reads_back_def ex_net_def plain_repr_def printable_def strip_def is_space_def)

lemma ex_outstanding: "outstanding (ex_net reply) (ex_queue_of [ex_event, ex_event] None) = Inr [ex_event, ex_event]"
  by (simp add: outstanding_def ex_queue_of_def)

lemma ex_batches: "batches [ex_event, ex_event] = [[ex_event, ex_event]]"
  by (simp add: batches_step SDK_MAX_BATCH_def)

section \<open>The queue\<close>

lemma flush_refines_queue_witness:
  "\<exists>u kept r. flush_queue (post_events (ex_client True 0) (ex_net ex_unavailable) ''production'')
      [[ex_event, ex_event]] ([], JStr []) (ex_queue_of [] None) = (u, kept, r)
    \<and> outstanding (ex_net ex_unavailable)
        (fst (flush (ex_client True 0) (ex_net ex_unavailable) ''production'' (ex_queue_of [ex_event, ex_event] None)))
        = Inr kept"
  using flush_refines_queue [OF _ ex_outstanding ex_reads_back, of "ex_client True 0" ex_unavailable "''production''"]
  by (auto simp: ex_batches drained_def ex_queue_of_def)

lemma ex_contract_only: "contract_only (ex_client True 0) (ex_net ex_unavailable) mode"
  by (simp add: contract_only_def post_events_def sdk_request_def send_request_def on_world_def log_io_def
      ex_net_def ex_unavailable_def bind_s_apply http_error_envelope_def answer_errors_def answer_request_id_def
      py_get_def json_get_or_def py_iter_def error_object_of_def request_failed_def contract_error_def Let_def)

lemma flush_keeps_failed_batches_witness:
  "\<exists>answers :: json list option list. length answers = length (batches [ex_event, ex_event])
    \<and> outstanding (ex_net ex_unavailable)
        (fst (flush (ex_client True 0) (ex_net ex_unavailable) ''production'' (ex_queue_of [ex_event, ex_event] None)))
        = Inr (concat (map fst (filter (\<lambda>x. snd x = None) (zip (batches [ex_event, ex_event]) answers))))"
proof -
  have b: "cl_buffered (ex_client True 0)" by simp
  from flush_keeps_failed_batches [OF b ex_outstanding ex_reads_back ex_contract_only [where mode = "''production''"]]
  show ?thesis by blast
qed

lemma outage_loses_events_witness:
  "outstanding (ex_net (Inl OSError)) (ex_queue_of [ex_event, ex_event] None) = Inr [ex_event, ex_event]
    \<and> outstanding (ex_net (Inl OSError))
        (fst (flush (ex_client True 3) (ex_net (Inl OSError)) ''production'' (ex_queue_of [ex_event, ex_event] None)))
        = Inr []"
proof
  have "\<forall>rq w. snd (io_transport (ex_net (Inl OSError)) rq w) = Inl OSError" by (simp add: ex_net_def)
  from outage_loses_events [OF _ ex_outstanding _ this] show "outstanding (ex_net (Inl OSError))
        (fst (flush (ex_client True 3) (ex_net (Inl OSError)) ''production'' (ex_queue_of [ex_event, ex_event] None)))
        = Inr []" by simp
qed (rule ex_outstanding)

text \<open>An event waits, and the gateway loses the first answer.\<close>

definition ex_served :: "served sdk" where
  "ex_served = \<lparr>sdk_pending = [ex_good ''w1''], sdk_spool = None, sdk_trace = [],
     sdk_world = \<lparr>sv_sys = ex_state, sv_clock = 1782892800000000, sv_lost = [True]\<rparr>\<rparr>"

definition ex_base :: "served sdk_env" where
  "ex_base = \<lparr>io_transport = (\<lambda>rq w. (w, Inl OSError)), io_put = (\<lambda>url data w. (w, Inr 200)),
      io_sleep = (\<lambda>d w. w), io_clock = (\<lambda>w. 0), io_loads = (\<lambda>s. None),
      io_float_repr = (\<lambda>_. ''0.5''), io_repr = (\<lambda>_. ''{}'')\<rparr>"

definition ex_flushed :: "served sdk \<times> batch_result result" where
  "ex_flushed = flush (ex_client False 1)
     (served_env ex_base (ex_request [ex_good ''w1'']) ex_principal (events_answer ''req_1'' ''1.0'' ''now''))
     ''production'' ex_served"

definition ex_reported :: "batch_result result \<Rightarrow> json list" where
  "ex_reported r = (case r of Inr br \<Rightarrow> (case br_results br of JList rs \<Rightarrow> rs | _ \<Rightarrow> []) | _ \<Rightarrow> [])"

lemma ex_flushed_run:
  "is_ok (snd ex_flushed)" "length (sdk_trace (fst ex_flushed)) = 3"
  "map (\<lambda>r. reported_key r \<noteq> None) (ex_reported (snd ex_flushed)) = [True]"
  by code_simp+

lemma sdk_delivers_once_witness:
  "\<exists>k. map reported_key (ex_reported (snd ex_flushed)) = [Some k]
     \<and> length (filter (\<lambda>e. event_id e = (7, k)) (tbl_rows (events (sv_sys (sdk_world (fst ex_flushed)))))) = 1"
proof -
  have u: "unique_key event_id (events (sv_sys (sdk_world ex_served)))" and live: "\<not> is_test ex_principal"
    by code_simp+
  obtain br where "snd ex_flushed = Inr br" using ex_flushed_run(1) by (auto simp: is_ok_iff)
  then obtain t where run: "ex_flushed = (t, Inr br)" by (metis prod.collapse)
  from sdk_delivers_once [OF u live run [unfolded ex_flushed_def]] obtain rs where rs: "br_results br = JList rs"
    "\<And>x k. x \<in> set rs \<Longrightarrow> reported_key x = Some k \<Longrightarrow>
       length (filter (\<lambda>e. event_id e = (p_workspace_id ex_principal, k)) (tbl_rows (events (sv_sys (sdk_world t))))) = 1"
    by blast
  have t: "fst ex_flushed = t" "snd ex_flushed = Inr br" using run by (metis fst_conv, metis snd_conv)
  then have "ex_reported (snd ex_flushed) = rs" by (simp add: ex_reported_def rs(1))
  with ex_flushed_run(3) obtain x k where "rs = [x]" "reported_key x = Some k" by (auto simp: map_eq_Cons_conv)
  with rs(2) [of x k] t show ?thesis by (simp add: ex_reported_def rs(1) ex_principal_def)
qed

section \<open>Errors of the server\<close>

definition ex_limited :: tf_error where
  "ex_limited = \<lparr>err_code = ''TF-RATE-001'', err_name = ''RATE_LIMITED'', err_http = 429,
    err_retryable = True, err_message = ''slow down'', err_field_path = None, err_retry_after = Some 30,
    err_detail = None\<rparr>"

definition ex_limited_answer :: "answer result" where
  "ex_limited_answer =
     (case handle_exn ''req_1'' ''1.0'' ''now'' (TFExn ex_limited) of
        Inr r \<Rightarrow> Inr (resp_status r, lower_keys (resp_headers r), resp_body r) | Inl e \<Rightarrow> Inl e)"

lemma server_error_reaches_caller_witness:
  "snd (sdk_request (ex_client False 2) (ex_net ex_limited_answer) ''GET'' ''/v1/whoami'' [] [] (ex_queue_of [] None))
     = Inl (RateLimited [sdk_error ex_limited] (JStr ''req_1''))
   \<and> length (sdk_trace (fst (sdk_request (ex_client False 2) (ex_net ex_limited_answer) ''GET'' ''/v1/whoami'' [] []
       (ex_queue_of [] None)))) = 5"
proof -
  obtain r where r: "handle_exn ''req_1'' ''1.0'' ''now'' (TFExn ex_limited) = Inr r"
    by (simp add: handle_exn_def)
  then have net: "persistent (ex_net ex_limited_answer) (resp_status r, lower_keys (resp_headers r), resp_body r)"
    by (simp add: persistent_def ex_net_def ex_limited_answer_def)
  have reg: "registered e" if "TFExn ex_limited = TFExn e" for e
  proof -
    have "registered ex_limited" by code_simp
    with that show ?thesis by simp
  qed
  have asks: "0 < n" if "TFExn ex_limited = TFExn e" "err_retry_after e = Some n" for e n
    using that by (auto simp: ex_limited_def)
  from server_error_reaches_caller [OF r reg asks net, where c = "ex_client False 2" and meth = "''GET''"
      and path = "''/v1/whoami''" and body = "[]" and extra = "[]" and s = "ex_queue_of [] None"]
  show ?thesis by (auto simp: ex_limited_def ex_queue_of_def attempts_def upt_rec)
qed

section \<open>An unbuffered queue, imports, uploads, events and pages\<close>

lemma ex_post_fails:
  "\<exists>t e. post_events (ex_client False 0) (ex_net ex_unavailable) mode ch s = (t, Inl e) \<and> contract_error e"
  by (simp add: post_events_def sdk_request_def send_request_def on_world_def log_io_def
      ex_net_def ex_unavailable_def bind_s_apply http_error_envelope_def answer_errors_def answer_request_id_def
      py_get_def json_get_or_def py_iter_def error_object_of_def request_failed_def contract_error_def Let_def)

lemma flush_unbuffered_drops_rest_witness:
  "length (sdk_pending (fst (flush (ex_client False 0) (ex_net ex_unavailable) ''production''
     (ex_queue_of (replicate 501 ex_event) None)))) = 500"
proof -
  let ?s = "ex_queue_of (replicate 501 ex_event) None"
  have b: "\<not> cl_buffered (ex_client False 0)" and p: "sdk_pending ?s \<noteq> []"
    by (simp, simp add: ex_queue_of_def)
  obtain t e where post: "post_events (ex_client False 0) (ex_net ex_unavailable) ''production''
      (take SDK_MAX_BATCH (sdk_pending ?s)) (?s\<lparr>sdk_pending := []\<rparr>) = (t, Inl e)" and e: "contract_error e"
    using ex_post_fails by blast
  from flush_unbuffered_drops_rest [OF b p e post] show ?thesis
    by (simp add: ex_queue_of_def SDK_MAX_BATCH_def)
qed

lemma wait_for_import_terminates_witness:
  "\<exists>t r. wait_for_import 11 (ex_client False 0) (ex_net ex_unavailable) ''imp_1'' 2 20 (ex_queue_of [] None)
     = Some (t, r)"
proof -
  have "clock_runs (ex_net ex_unavailable)" by (simp add: clock_runs_def ex_net_def)
  then obtain t r where "\<forall>k. wait_for_import (nat \<lceil>(20 :: rat) / 2\<rceil> + 1 + k) (ex_client False 0)
      (ex_net ex_unavailable) ''imp_1'' 2 20 (ex_queue_of [] None) = Some (t, r)"
    using wait_for_import_terminates [where poll_interval = 2 and timeout = 20] by fastforce
  from spec [OF this, of 0] show ?thesis by simp
qed

lemma upload_read_back_witness:
  "import_lines (ex_env\<lparr>env_loads := (\<lambda>_. Some (ex_good ''w1''))\<rparr>) ex_principal [] 400
     (ndjson ex_base [ex_good ''w1'', ex_good ''w1''])
   = fold_s (import_event (ex_env\<lparr>env_loads := (\<lambda>_. Some (ex_good ''w1''))\<rparr>) ex_principal [] 400)
       [(0, ex_good ''w1''), (1, ex_good ''w1'')] (no_counts, [])"
proof -
  have "plain_repr (io_float_repr ex_base)"
    by (simp add: ex_base_def plain_repr_def printable_def strip_def is_space_def)
  from upload_read_back [OF this, of "[ex_good ''w1'', ex_good ''w1'']" "ex_env\<lparr>env_loads := (\<lambda>_. Some (ex_good ''w1''))\<rparr>"]
  show ?thesis by simp
qed

lemma sdk_events_valid_witness:
  "envelope_valid (JObj (activity_event (JStr ''u1'') (JStr ''2026-07-01T07:30:00Z'') (JStr ''w1'')
     (JStr ''draft_generated'') ''dep_1'' \<lparr>eo_origin = ''customer_system'', eo_scope = Some ''s'', eo_extra = []\<rparr>))"
  using sdk_events_valid [of "''dep_1''" "\<lparr>eo_origin = ''customer_system'', eo_scope = Some ''s'', eo_extra = []\<rparr>"
      "''draft_generated''" "''created''" "''tokens_in''" 1 "''error_found''"]
  by (simp add: origin_types_def meters_def)

lemma iterator_yields_list_witness:
  "\<exists>t. paginate 1 (ex_client False 0)
     (ex_net (Inr (200, [], envelope (JObj [(''results'', JList [JInt 1, JInt 2])]) ''req_1'' ''1.0'' [] None None ''now'')))
     ''/v1/config/roster'' [] ''results'' (ex_queue_of [] None) = Some (t, [JInt 1, JInt 2], None)"
proof -
  let ?env = "ex_net (Inr (200, [], envelope (JObj [(''results'', JList [JInt 1, JInt 2])]) ''req_1'' ''1.0'' [] None None ''now''))"
  have "persistent ?env (200, [], envelope (JObj [(''results'', JList [JInt 1, JInt 2])]) ''req_1'' ''1.0'' [] None None ''now'')"
    by (simp add: persistent_def ex_net_def)
  from iterator_yields_list [OF this, where c = "ex_client False 0" and path = "''/v1/config/roster''"
      and params = "[]" and s = "ex_queue_of [] None"]
  show ?thesis by fastforce
qed

end
