(* ===== verification/AppRoutes.thy ===== *)
theory AppRoutes
  imports OpsSafe
begin

text \<open>
  The application's own endpoint (\<^verbatim>\<open>api/app.py\<close>): \<^verbatim>\<open>GET /v1/whoami\<close>, what a key is told
  about itself.
\<close>

text \<open>The join of the workspace with its organization.\<close>

definition workspace_and_org :: "sys \<Rightarrow> int \<Rightarrow> (workspace_row \<times> organization_row) option" where
  "workspace_and_org s workspace_id =
     (case fetch_one (\<lambda>w. ws_id w = workspace_id) (workspaces s) of
        None \<Rightarrow> None
      | Some w \<Rightarrow> map_option (Pair w) (fetch_one (\<lambda>o'. org_id o' = ws_organization_id w) (organizations s)))"

definition whoami :: "principal \<Rightarrow> sys \<Rightarrow> (string \<times> json) list result" where
  "whoami p s =
     (case workspace_and_org s (p_workspace_id p) of
        None \<Rightarrow> Inl (tf_raise ''TF-SRV-001'' None None (Some ''workspace not found''))
      | Some (w, org) \<Rightarrow>
          Inr [(''org_ref'', JStr (org_ref org)), (''plan_type'', JStr (org_plan_type org)),
               (''workspace_ref'', JStr (ws_ref w)), (''environment'', JStr (ws_environment w)),
               (''mode'', JStr (p_mode p)), (''scope'', JStr (scope_str (p_scope p))),
               (''roles'', JList (map JStr (p_roles p))),
               (''rate_limit_tier'', JObj [(''rpm'', JInt (ws_rate_limit_rpm w)), (''epm'', JInt (ws_rate_limit_epm w))])])"

text \<open>
  A key the operators issued is told what they issued. Over well-typed tables with
  distinct identities, \<^verbatim>\<open>whoami\<close> for a principal of a workspace never fails, and
  reports that workspace's reference and limits, its organization's reference and plan, and
  the mode, scope and roles of the key.
\<close>

theorem whoami_reports_workspace:
  assumes "ops_typed s" and "unique_key ws_id (workspaces s)" and "unique_key org_id (organizations s)"
    and "w \<in> set (tbl_rows (workspaces s))" and "ws_id w = p_workspace_id p"
  shows "\<exists>org \<in> set (tbl_rows (organizations s)). org_id org = ws_organization_id w
    \<and> org_plan_type org \<in> set plan_types \<and> 0 < ws_rate_limit_rpm w \<and> 0 < ws_rate_limit_epm w
    \<and> whoami p s =
        Inr [(''org_ref'', JStr (org_ref org)), (''plan_type'', JStr (org_plan_type org)),
             (''workspace_ref'', JStr (ws_ref w)), (''environment'', JStr (ws_environment w)),
             (''mode'', JStr (p_mode p)), (''scope'', JStr (scope_str (p_scope p))),
             (''roles'', JList (map JStr (p_roles p))),
             (''rate_limit_tier'', JObj [(''rpm'', JInt (ws_rate_limit_rpm w)), (''epm'', JInt (ws_rate_limit_epm w))])]"
proof -
  have fetch: "fetch_one (\<lambda>r. key r = key x) t = Some x"
    if "unique_key key t" "x \<in> set (tbl_rows t)" for key :: "'r \<Rightarrow> int" and t x
  proof -
    have "find (\<lambda>r. key r = key x) rows = Some x" if "distinct (map key rows)" "x \<in> set rows" for rows
      using that by (induction rows) auto
    with that show ?thesis by (simp add: fetch_one_def unique_key_def)
  qed
  from assms(1,4) obtain org where org: "org \<in> set (tbl_rows (organizations s))" "org_id org = ws_organization_id w"
    and w: "workspace_typed w"
    by (auto simp: ops_typed_def workspaces_typed_def)
  have "workspace_and_org s (p_workspace_id p) = Some (w, org)"
    using fetch [OF assms(2,4)] fetch [OF assms(3) org(1)] assms(5) org(2) by (simp add: workspace_and_org_def)
  moreover have "org_plan_type org \<in> set plan_types"
    using assms(1) org(1) by (simp add: ops_typed_def orgs_typed_def)
  ultimately show ?thesis using org w by (auto simp: whoami_def workspace_typed_def positive_int4_def)
qed

end
