(* ===== verification/OpsArgs.thy ===== *)
theory OpsArgs
  imports OpsSafe
begin

text \<open>
  The command line of \<^verbatim>\<open>ops/opsctl.py\<close>: the table of commands and options that
  \<^verbatim>\<open>build_parser\<close> declares, what \<^verbatim>\<open>argparse\<close> makes of the options given, and the
  function each command runs. A command line is its group, its command and the options with
  their values; splitting it from the words typed is left to \<^verbatim>\<open>argparse\<close>, whose errors
  exit.
\<close>

section \<open>Options\<close>

datatype arg_value = Absent | Text string | Number int | Texts "string list"

type_synonym namespace = "(string \<times> arg_value) list"

record option_spec =
  opt_flag :: string
  opt_required :: bool
  opt_default :: arg_value
  opt_is_int :: bool
  opt_choices :: "string list option"
  opt_append :: bool

definition an_option :: "string \<Rightarrow> arg_value \<Rightarrow> option_spec" where
  "an_option flag dflt =
     \<lparr>opt_flag = flag, opt_required = False, opt_default = dflt, opt_is_int = False, opt_choices = None,
      opt_append = False\<rparr>"

definition required_opt :: "string \<Rightarrow> option_spec" where
  "required_opt flag = (an_option flag Absent)\<lparr>opt_required := True\<rparr>"

definition int_opt :: "string \<Rightarrow> arg_value \<Rightarrow> option_spec" where
  "int_opt flag dflt = (an_option flag dflt)\<lparr>opt_is_int := True\<rparr>"

definition choice_opt :: "string \<Rightarrow> string \<Rightarrow> string list \<Rightarrow> option_spec" where
  "choice_opt flag dflt choices = (an_option flag (Text dflt))\<lparr>opt_choices := Some choices\<rparr>"

definition append_opt :: "string \<Rightarrow> option_spec" where
  "append_opt flag = (an_option flag Absent)\<lparr>opt_append := True\<rparr>"

text \<open>The value of an option: converted first, then compared with the choices.\<close>

definition convert :: "option_spec \<Rightarrow> string \<Rightarrow> arg_value result" where
  "convert o' text' =
     (if opt_is_int o' then (case py_int text' of None \<Rightarrow> Inl SystemExit | Some n \<Rightarrow> Inr (Number n))
      else (case opt_choices o' of
              None \<Rightarrow> Inr (Text text')
            | Some cs \<Rightarrow> if text' \<in> set cs then Inr (Text text') else Inl SystemExit))"

definition value_of :: "namespace \<Rightarrow> string \<Rightarrow> arg_value" where
  "value_of ns flag = (case map_of ns flag of None \<Rightarrow> Absent | Some v \<Rightarrow> v)"

definition store_option :: "option_spec \<Rightarrow> arg_value \<Rightarrow> namespace \<Rightarrow> namespace" where
  "store_option o' v ns =
     (let flag = opt_flag o' in
      (flag, if opt_append o'
             then (case (value_of ns flag, v) of
                     (Texts xs, Text x) \<Rightarrow> Texts (xs @ [x])
                   | (_, Text x) \<Rightarrow> Texts [x]
                   | _ \<Rightarrow> v)
             else v) # ns)"

fun read_options :: "option_spec list \<Rightarrow> (string \<times> string) list \<Rightarrow> namespace \<Rightarrow> namespace result" where
  "read_options specs [] ns = Inr ns"
| "read_options specs ((flag, text') # given) ns =
     (case find (\<lambda>o'. opt_flag o' = flag) specs of
        None \<Rightarrow> Inl SystemExit
      | Some o' \<Rightarrow> bind_r (convert o' text') (\<lambda>v. read_options specs given (store_option o' v ns)))"

definition parse_options :: "option_spec list \<Rightarrow> (string \<times> string) list \<Rightarrow> namespace result" where
  "parse_options specs given =
     bind_r (read_options specs given (map (\<lambda>o'. (opt_flag o', opt_default o')) specs)) (\<lambda>ns.
       if list_all (\<lambda>o'. opt_required o' \<longrightarrow> opt_flag o' \<in> fst ` set given) specs
       then Inr ns else Inl SystemExit)"

definition text_of :: "namespace \<Rightarrow> string \<Rightarrow> string" where
  "text_of ns flag = (case value_of ns flag of Text t \<Rightarrow> t | _ \<Rightarrow> [])"

definition text_opt :: "namespace \<Rightarrow> string \<Rightarrow> string option" where
  "text_opt ns flag = (case value_of ns flag of Text t \<Rightarrow> Some t | _ \<Rightarrow> None)"

definition number_opt :: "namespace \<Rightarrow> string \<Rightarrow> int option" where
  "number_opt ns flag = (case value_of ns flag of Number n \<Rightarrow> Some n | _ \<Rightarrow> None)"

definition number_of :: "namespace \<Rightarrow> string \<Rightarrow> int" where
  "number_of ns flag = (case value_of ns flag of Number n \<Rightarrow> n | _ \<Rightarrow> 0)"

definition texts_of :: "namespace \<Rightarrow> string \<Rightarrow> string list" where
  "texts_of ns flag = (case value_of ns flag of Texts ts \<Rightarrow> ts | _ \<Rightarrow> [])"

section \<open>Commands\<close>

text \<open>
  What the process brings along: digest and random tokens, the clock, the DDL of a
  partition, and the environments of the workers.
\<close>

record ops_env =
  oe_sha256 :: "string \<Rightarrow> string"
  oe_secret :: string
  oe_token :: string
  oe_now :: int
  oe_today :: "int \<times> int"
  oe_ddl :: "string \<Rightarrow> string \<times> string \<Rightarrow> (sys, unit) st"
  oe_numeric :: "json \<Rightarrow> rat result"
  oe_ingest :: ingest_env
  oe_sender :: sender
  oe_engine :: engine_env

record command_spec =
  cmd_group :: string
  cmd_name :: string
  cmd_options :: "option_spec list"
  cmd_run :: "ops_env \<Rightarrow> namespace \<Rightarrow> (sys, string list) st"

definition table_commands :: "command_spec list" where
  "table_commands =
    [\<lparr>cmd_group = ''org'', cmd_name = ''create'',
      cmd_options = [required_opt ''ref'', required_opt ''legal-name'', an_option ''plan'' (Text ''free'')],
      cmd_run = (\<lambda>env a. run_ops (oe_sha256 env) (Org_Create (text_of a ''plan'') (text_of a ''ref'') (text_of a ''legal-name'')))\<rparr>,
     \<lparr>cmd_group = ''workspace'', cmd_name = ''create'',
      cmd_options = [required_opt ''org-ref'', required_opt ''ref'', required_opt ''name'',
        choice_opt ''environment'' ''production'' (map fst environments), int_opt ''rpm'' (Number 600),
        int_opt ''epm'' (Number 60000), int_opt ''backfill-days'' (Number 400)],
      cmd_run = (\<lambda>env a. run_ops (oe_sha256 env) (Workspace_Create (text_of a ''org-ref'') (text_of a ''ref'')
        (text_of a ''name'') (text_of a ''environment'') (number_of a ''backfill-days'') (number_of a ''rpm'')
        (number_of a ''epm'')))\<rparr>,
     \<lparr>cmd_group = ''user'', cmd_name = ''create'',
      cmd_options = [required_opt ''workspace-ref'', required_opt ''user-ref'',
        choice_opt ''type'' ''user'' (map fst user_types), an_option ''display-name'' Absent, an_option ''role'' Absent],
      cmd_run = (\<lambda>env a. run_ops (oe_sha256 env) (User_Create (text_of a ''workspace-ref'') (text_of a ''user-ref'')
        (text_of a ''type'') (text_opt a ''display-name'') (text_opt a ''role'')))\<rparr>,
     \<lparr>cmd_group = ''key'', cmd_name = ''issue'',
      cmd_options = [required_opt ''workspace-ref'', required_opt ''owner-user-ref'',
        choice_opt ''mode'' ''production'' (map fst key_modes), choice_opt ''scope'' ''workspace'' (map fst key_scopes),
        append_opt ''role'', append_opt ''deployment-ref''],
      cmd_run = (\<lambda>env a. run_ops (oe_sha256 env) (Key_Issue (oe_secret env) (oe_token env)
        (text_of a ''workspace-ref'') (text_of a ''owner-user-ref'') (text_of a ''mode'') (text_of a ''scope'')
        (texts_of a ''role'') (texts_of a ''deployment-ref'')))\<rparr>,
     \<lparr>cmd_group = ''key'', cmd_name = ''revoke'', cmd_options = [required_opt ''key-ref''],
      cmd_run = (\<lambda>env a. run_ops (oe_sha256 env) (Key_Revoke (text_of a ''key-ref'')))\<rparr>,
     \<lparr>cmd_group = ''grant'', cmd_name = ''add'', cmd_options = [required_opt ''key-ref'', required_opt ''deployment-ref''],
      cmd_run = (\<lambda>env a. run_ops (oe_sha256 env) (Grant_Add (text_of a ''key-ref'') (text_of a ''deployment-ref'')))\<rparr>,
     \<lparr>cmd_group = ''plan'', cmd_name = ''set'', cmd_options = [required_opt ''org-ref'', required_opt ''plan''],
      cmd_run = (\<lambda>env a. run_ops (oe_sha256 env) (Plan_Set (text_of a ''org-ref'') (text_of a ''plan'')))\<rparr>,
     \<lparr>cmd_group = ''limits'', cmd_name = ''set'',
      cmd_options = [required_opt ''workspace-ref'', int_opt ''rpm'' Absent, int_opt ''epm'' Absent,
        int_opt ''backfill-days'' Absent],
      cmd_run = (\<lambda>env a. run_ops (oe_sha256 env) (Limits_Set (text_of a ''workspace-ref'') (number_opt a ''rpm'')
        (number_opt a ''epm'') (number_opt a ''backfill-days'')))\<rparr>]"

definition worker_commands :: "command_spec list" where
  "worker_commands =
    [\<lparr>cmd_group = ''partitions'', cmd_name = ''ensure'',
      cmd_options = [int_opt ''months'' (Number 1), an_option ''start'' Absent],
      cmd_run = (\<lambda>env a. partitions_ensure (oe_ddl env) (oe_today env) (text_opt a ''start'') (number_of a ''months''))\<rparr>,
     \<lparr>cmd_group = ''pipeline'', cmd_name = ''run'', cmd_options = [int_opt ''limit'' (Number 500)],
      cmd_run = (\<lambda>env a. pipeline_run (oe_numeric env) (number_of a ''limit''))\<rparr>,
     \<lparr>cmd_group = ''imports'', cmd_name = ''run'', cmd_options = [required_opt ''import-id''],
      cmd_run = (\<lambda>env a. imports_run (oe_ingest env) (text_of a ''import-id''))\<rparr>,
     \<lparr>cmd_group = ''webhooks'', cmd_name = ''deliver'', cmd_options = [int_opt ''limit'' (Number 100)],
      cmd_run = (\<lambda>env a. webhooks_deliver (eng_hooks (oe_engine env)) (oe_sender env) (oe_now env) (number_of a ''limit''))\<rparr>,
     \<lparr>cmd_group = ''engine'', cmd_name = ''run'', cmd_options = [required_opt ''deployment-ref'', required_opt ''period''],
      cmd_run = (\<lambda>env a. engine_run (oe_engine env) (text_of a ''deployment-ref'') (text_of a ''period''))\<rparr>,
     \<lparr>cmd_group = ''report'', cmd_name = ''issue'', cmd_options = [required_opt ''deployment-ref'', required_opt ''period''],
      cmd_run = (\<lambda>env a. report_issue (oe_engine env) (text_of a ''deployment-ref'') (text_of a ''period''))\<rparr>,
     \<lparr>cmd_group = ''monitors'', cmd_name = ''run'', cmd_options = [required_opt ''workspace-ref''],
      cmd_run = (\<lambda>env a. monitors_run (oe_engine env) (text_of a ''workspace-ref''))\<rparr>]"

definition opsctl :: "ops_env \<Rightarrow> string \<Rightarrow> string \<Rightarrow> (string \<times> string) list \<Rightarrow> (sys, string list) st" where
  "opsctl env grp name given =
     (case find (\<lambda>c. cmd_group c = grp \<and> cmd_name c = name) (table_commands @ worker_commands) of
        None \<Rightarrow> raise SystemExit
      | Some c \<Rightarrow> bind_s (lift_r (parse_options (cmd_options c) given)) (cmd_run c env))"

section \<open>Failure leaves no trace\<close>

definition atomic :: "('s, 'a) st \<Rightarrow> bool" where
  "atomic m \<longleftrightarrow> (\<forall>s t e. m s = (t, Inl e) \<longrightarrow> t = s)"

lemma atomic_basic [simp, intro]:
  "atomic (transaction m)" "atomic (raise e)" "atomic (ret x)" "atomic (reads f)" "atomic (lift_r r)"
  by (auto simp: atomic_def transaction_Inl_iff lift_r_def split: sum.splits)

lemma atomic_after_read: "(\<And>x. atomic (k x)) \<Longrightarrow> atomic (bind_s (lift_r r) k)"
  by (auto simp: atomic_def bind_s_lift split: sum.splits)

lemma atomic_choice: "(\<And>v. atomic (k v)) \<Longrightarrow> atomic (bind_s (choice labels x) k)"
  by (auto simp: atomic_def choice_def bind_s_apply split: option.splits)

lemma atomic_then_ret: "atomic m \<Longrightarrow> atomic (bind_s m (\<lambda>x. ret (f x)))"
  by (auto simp: atomic_def bind_s_Inl_iff)

lemma run_ops_atomic: "atomic (run_ops sha256 cmd)"
  by (cases cmd)
    (auto simp: org_create_def plan_set_def workspace_create_def limits_set_def user_create_def key_issue_def
      key_revoke_def grant_add_def Let_def intro!: atomic_choice atomic_then_ret)

lemma table_command_run:
  "c \<in> set table_commands \<Longrightarrow> \<exists>cmd. cmd_run c env a = run_ops (oe_sha256 env) cmd"
  by (auto simp: table_commands_def simp del: run_ops.simps)

definition command_key :: "command_spec \<Rightarrow> string \<times> string" where
  "command_key c = (cmd_group c, cmd_name c)"

lemma command_keys:
  "map command_key (table_commands @ worker_commands) =
     [(''org'', ''create''), (''workspace'', ''create''), (''user'', ''create''), (''key'', ''issue''), (''key'', ''revoke''),
      (''grant'', ''add''), (''plan'', ''set''), (''limits'', ''set''), (''partitions'', ''ensure''), (''pipeline'', ''run''),
      (''imports'', ''run''), (''webhooks'', ''deliver''), (''engine'', ''run''), (''report'', ''issue''), (''monitors'', ''run'')]"
  unfolding table_commands_def worker_commands_def command_key_def by (simp del: run_ops.simps)

lemma table_command_found:
  assumes "c \<in> set table_commands"
  shows "find (\<lambda>d. cmd_group d = cmd_group c \<and> cmd_name d = cmd_name c) (table_commands @ worker_commands) = Some c"
proof -
  have "find (\<lambda>d. cmd_group d = cmd_group c \<and> cmd_name d = cmd_name c) cs = Some c"
    if "distinct (map command_key cs)" "c \<in> set cs" for cs
    using that by (induction cs) (auto simp: command_key_def)
  moreover have "distinct (map command_key (table_commands @ worker_commands))" unfolding command_keys by simp
  ultimately show ?thesis using assms by simp
qed

text \<open>An option whose value its declaration refuses.\<close>

definition refused_option :: "option_spec list \<Rightarrow> string \<times> string \<Rightarrow> bool" where
  "refused_option specs g =
     (case find (\<lambda>o'. opt_flag o' = fst g) specs of None \<Rightarrow> True | Some o' \<Rightarrow> \<not> is_ok (convert o' (snd g)))"

lemma read_options_refused:
  "list_ex (refused_option specs) given \<Longrightarrow> read_options specs given ns = Inl SystemExit"
proof (induction specs given ns rule: read_options.induct)
  case (2 specs flag text' given ns)
  then show ?case
    by (auto simp: refused_option_def bind_r_def convert_def split: option.splits sum.splits if_splits)
qed simp

text \<open>
  C15: a command line keeps the tables typed, and does all of its work or none. Whatever
  options one of the commands on the tables is given: plans, environments and modes stay
  labels of their enumerations, limits positive integers of the column, references distinct,
  every workspace keeps its organization, every key an owner of its own workspace, and every
  grant joins a key and a deployment of one workspace, at most once. A command that fails
  leaves every table as it was; an option that is not declared, or whose value is no number
  or none of its choices, makes it exit before it starts.
\<close>

theorem opsctl_keeps_types:
  assumes "ops_typed s" and "c \<in> set table_commands"
    and "opsctl env (cmd_group c) (cmd_name c) given s = (t, r)"
  shows "ops_typed t \<and> (\<forall>e. r = Inl e \<longrightarrow> t = s)
    \<and> (list_ex (refused_option (cmd_options c)) given \<longrightarrow> r = Inl SystemExit)"
proof (cases "parse_options (cmd_options c) given")
  case (Inl e)
  then have "t = s" "r = Inl e" using assms(3) by (simp_all add: opsctl_def table_command_found [OF assms(2)])
  moreover have "e = SystemExit" if "list_ex (refused_option (cmd_options c)) given"
    using Inl read_options_refused [OF that] by (simp add: parse_options_def)
  ultimately show ?thesis using assms(1) by simp
next
  case (Inr a)
  then have run: "cmd_run c env a s = (t, r)"
    using assms(3) by (simp add: opsctl_def table_command_found [OF assms(2)])
  obtain cmd where cmd: "cmd_run c env a = run_ops (oe_sha256 env) cmd" using table_command_run [OF assms(2)] by blast
  have "\<not> list_ex (refused_option (cmd_options c)) given"
    using Inr read_options_refused by (auto simp: parse_options_def bind_r_Inr_iff)
  moreover have "ops_typed t" using run_ops_typed [OF assms(1), of "oe_sha256 env" cmd] run cmd by simp
  moreover have "t = s" if "r = Inl e" for e
    using run_ops_atomic [of "oe_sha256 env" cmd] run cmd that by (auto simp: atomic_def)
  ultimately show ?thesis by blast
qed

end
