(* ===== verification/OpsExamples.thy ===== *)
theory OpsExamples
  imports AppRoutes OpsArgs EngineExamples
begin

text \<open>
  The operators' theorems at a company the commands themselves set up: an organization, a
  workspace, an owner, a deployment of an agent and a key.
\<close>

definition ex_setup :: "ops_command list" where
  "ex_setup =
     [Org_Create ''team'' ''org_1'' ''Acme'',
      Workspace_Create ''org_1'' ''ws_1'' ''main'' ''production'' 400 600 60000,
      User_Create ''ws_1'' ''ana'' ''user'' None None]"

definition ex_agent :: "int \<Rightarrow> deployment_row" where
  "ex_agent ws =
     \<lparr>dep_id = 42, dep_workspace_id = ws, dep_type = Agent, dep_status = Dep_Active, dep_ref = ''dep_1'',
      dep_name = ''d'', dep_external_ref = None, dep_mode = Measured, dep_planned_rollout = None\<rparr>"

definition ex_founded :: sys where
  "ex_founded =
     (let s = fold (\<lambda>c s. fst (run_ops id c s)) ex_setup empty_sys
      in s\<lparr>deployments := Table [ex_agent (tbl_seq (workspaces empty_sys))] 43\<rparr>)"

definition ex_issue :: "sys \<times> string list result" where
  "ex_issue = key_issue id ''s3cret'' ''t1'' ''ws_1'' ''ana'' ''production'' Deployment_Scope [''admin''] [''dep_1''] ex_founded"

lemma ex_founded_typed: "ops_typed ex_founded"
  by code_simp

lemma ex_founded_keys: "tbl_rows (api_keys ex_founded) = []"
  by code_simp

lemma ex_issued: "is_ok (snd ex_issue)" "unique_key key_secret_hash (api_keys (fst ex_issue))"
    "unique_key key_ref (api_keys (fst ex_issue))" "ops_typed (fst ex_issue)"
    "map key_secret_hash (tbl_rows (api_keys (fst ex_issue))) = [''tf_live_s3cret'']"
  by code_simp+

definition ex_ops :: ops_env where
  "ex_ops = \<lparr>oe_sha256 = id, oe_secret = ''s3cret'', oe_token = ''t1'', oe_now = 0, oe_today = (2026, 7),
     oe_ddl = (\<lambda>table bounds. ret ()), oe_numeric = (\<lambda>j. Inr 0), oe_ingest = ex_env,
     oe_sender = (\<lambda>m u h b. Inr 204), oe_engine = ex_engine\<rparr>"

definition ex_limits :: "(string \<times> string) list \<Rightarrow> sys \<times> string list result" where
  "ex_limits given = opsctl ex_ops ''limits'' ''set'' ((''workspace-ref'', ''ws_1'') # given) ex_founded"

lemma opsctl_keeps_types_witness:
  "ops_typed (fst (ex_limits [(''rpm'', ''100'')])) \<and> is_ok (snd (ex_limits [(''rpm'', ''100'')]))
   \<and> fst (ex_limits [(''rpm'', ''many'')]) = ex_founded \<and> snd (ex_limits [(''rpm'', ''many'')]) = Inl SystemExit"
proof -
  let ?c = "table_commands ! 7"
  have c: "?c \<in> set table_commands" "cmd_group ?c = ''limits''" "cmd_name ?c = ''set''"
    by (simp_all add: table_commands_def)
  have ok: "is_ok (snd (ex_limits [(''rpm'', ''100'')]))" by code_simp
  have bad: "list_ex (refused_option (cmd_options ?c)) [(''workspace-ref'', ''ws_1''), (''rpm'', ''many'')]" by code_simp
  from opsctl_keeps_types [OF ex_founded_typed c(1), of ex_ops, unfolded c(2,3)] ok bad
  show ?thesis by (auto simp: ex_limits_def prod_eq_iff)
qed

lemma issued_key_authenticates_witness:
  "\<exists>p. resolve_key id ''production'' (fst ex_issue) ''tf_live_s3cret'' = Inr p
     \<and> p_scope p = Deployment_Scope \<and> p_granted p = {42} \<and> p_mode p = ''production''"
proof -
  obtain out where "snd ex_issue = Inr out" using ex_issued(1) by (auto simp: is_ok_iff)
  then have run: "key_issue id ''s3cret'' ''t1'' ''ws_1'' ''ana'' ''production'' Deployment_Scope [''admin''] [''dep_1'']
      ex_founded = (fst ex_issue, Inr out)"
    unfolding ex_issue_def by (metis prod.collapse)
  have fresh: "\<forall>k \<in> set (tbl_rows (api_keys ex_founded)). key_secret_hash k \<noteq> id (presented_key ''production'' ''s3cret'')"
    by (simp add: ex_founded_keys)
  have dep: "deployment_named ''dep_1'' ex_founded = Some d \<Longrightarrow> dep_id d = 42" for d
    by (auto simp: deployment_named_def ex_founded_def Let_def ex_agent_def fetch_one_def split: if_splits)
  from issued_key_authenticates [OF ex_founded_typed run fresh, of "''production''"] show ?thesis
    by (auto simp: presented_key_def expected_mode_def dep id_def)
qed

lemma revoked_key_refused_witness:
  "let t = fst (key_revoke ''ak_t1'' (fst ex_issue)) in
     resolve_key id ''production'' t ''tf_live_s3cret''
       = Inl (tf_raise ''TF-AUTH-001'' None None (Some ''key not found or revoked''))"
proof -
  have ok: "is_ok (snd (key_revoke ''ak_t1'' (fst ex_issue)))" by code_simp
  have "key_prefix_to_mode ''tf_live_s3cret'' \<noteq> None" by code_simp
  moreover have "\<exists>k \<in> set (tbl_rows (api_keys (fst ex_issue))). key_ref k = ''ak_t1'' \<and> key_secret_hash k = id ''tf_live_s3cret''"
    by code_simp
  moreover obtain t out where run: "key_revoke ''ak_t1'' (fst ex_issue) = (t, Inr out)"
    using ok by (cases "key_revoke ''ak_t1'' (fst ex_issue)") (auto simp: is_ok_iff)
  ultimately show ?thesis
    using revoked_key_refused [OF run ex_issued(2,3), of id "''production''" "''tf_live_s3cret''"] by simp
qed

lemma whoami_reports_workspace_witness:
  "\<exists>fields. whoami \<lparr>p_api_key_id = 1, p_api_key_ref = ''ak_t1'', p_workspace_id = tbl_seq (workspaces empty_sys),
       p_owner_user_id = 1, p_mode = ''production'', p_scope = Deployment_Scope, p_roles = [''admin''], p_granted = {42}\<rparr>
       (fst ex_issue) = Inr fields
     \<and> map_of fields ''workspace_ref'' = Some (JStr ''ws_1'')"
proof -
  let ?p = "\<lparr>p_api_key_id = 1, p_api_key_ref = ''ak_t1'', p_workspace_id = tbl_seq (workspaces empty_sys),
       p_owner_user_id = 1, p_mode = ''production'', p_scope = Deployment_Scope, p_roles = [''admin''], p_granted = {42}\<rparr>"
  have u: "unique_key ws_id (workspaces (fst ex_issue))" "unique_key org_id (organizations (fst ex_issue))"
    by code_simp+
  have "list_ex (\<lambda>w. ws_id w = tbl_seq (workspaces empty_sys) \<and> ws_ref w = ''ws_1'') (tbl_rows (workspaces (fst ex_issue)))"
    by code_simp
  then obtain w where w: "w \<in> set (tbl_rows (workspaces (fst ex_issue)))"
    "ws_id w = p_workspace_id ?p" "ws_ref w = ''ws_1''"
    by (auto simp: list_ex_iff)
  from whoami_reports_workspace [OF ex_issued(4) u w(1,2)] w(3) show ?thesis by auto
qed

lemma partitions_contiguous_witness:
  "\<exists>created. fst (ensure_months record_partition 3 (month_at (12 * 2026 + 10)) []) = created \<and> length created = 3"
  using partitions_contiguous [of "12 * 2026 + 10" 3 "[]"] by simp

end
