(* ===== verification/Backends.thy ===== *)
theory Backends
  imports Webhooks Storage Auth
begin

text \<open>
  What a process takes from its environment: the settings of
  \<^verbatim>\<open>platform/config/config.py\<close>, and the storage backend \<^verbatim>\<open>storage.py\<close> chooses by it,
  with the Supabase backend over \<^verbatim>\<open>httpx\<close>, whose requests are a parameter.
\<close>

section \<open>Settings\<close>

type_synonym environ = "string \<Rightarrow> string option"

record settings =
  set_database_url :: string
  set_environment :: string
  set_schema_version :: string

definition is_production :: "settings \<Rightarrow> bool" where
  "is_production st = (set_environment st = ''production'')"

definition require_variable :: "environ \<Rightarrow> string \<Rightarrow> string result" where
  "require_variable environ name =
     (case environ name of None \<Rightarrow> Inl RuntimeError | Some v \<Rightarrow> if v = [] then Inl RuntimeError else Inr v)"

definition variable_or :: "environ \<Rightarrow> string \<Rightarrow> string \<Rightarrow> string" where
  "variable_or environ name otherwise = (case environ name of None \<Rightarrow> otherwise | Some v \<Rightarrow> v)"

definition get_settings :: "environ \<Rightarrow> settings result" where
  "get_settings environ =
     (let environment = variable_or environ ''TF_ENVIRONMENT'' ''production'' in
      if environment \<notin> {''production'', ''sandbox''} then Inl RuntimeError
      else bind_r (require_variable environ ''DATABASE_URL'') (\<lambda>url.
        Inr \<lparr>set_database_url = url, set_environment = environment,
             set_schema_version = variable_or environ ''TF_SCHEMA_VERSION'' ''1.0''\<rparr>))"

text \<open>A process that starts has a database, and the mode it serves is that of its keys.\<close>

lemma settings_serve:
  assumes "get_settings environ = Inr st"
  shows "set_database_url st \<noteq> []"
    and "expected_mode (set_environment st) = (if is_production st then ''production'' else ''test'')"
    and "set_environment st \<in> {''production'', ''sandbox''}"
  using assms
  by (auto simp: get_settings_def Let_def require_variable_def is_production_def expected_mode_def bind_r_Inr_iff
      split: if_splits option.splits)

section \<open>The Supabase backend\<close>

datatype http_body = No_Body | Content string | Json_Body json

record 'w httpx =
  hx_post :: "string \<Rightarrow> headers \<Rightarrow> http_body \<Rightarrow> ('w, int \<times> string) st"
  hx_get :: "string \<Rightarrow> headers \<Rightarrow> ('w, int \<times> string) st"
  hx_loads :: "string \<Rightarrow> json option"
  hx_str :: "json \<Rightarrow> string"

record supabase =
  sb_url :: string
  sb_key :: string

definition make_supabase :: "string \<Rightarrow> string \<Rightarrow> supabase" where
  "make_supabase url service_key =
     \<lparr>sb_url = rev (dropWhile (\<lambda>c. c = CHR ''/'') (rev url)), sb_key = service_key\<rparr>"

definition sb_headers :: "supabase \<Rightarrow> headers" where
  "sb_headers sb = [(''Authorization'', ''Bearer '' @ sb_key sb), (''apikey'', sb_key sb)]"

definition raise_for_status :: "int \<Rightarrow> unit result" where
  "raise_for_status status = (if 200 \<le> status \<and> status < 300 then Inr () else Inl HTTPStatusError)"

definition object_url :: "supabase \<Rightarrow> string \<Rightarrow> string \<Rightarrow> string \<Rightarrow> string" where
  "object_url sb what bucket path =
     sb_url sb @ ''/storage/v1/object/'' @ what @ bucket @ ''/'' @ path"

definition sb_put :: "'w httpx \<Rightarrow> supabase \<Rightarrow> string \<Rightarrow> string \<Rightarrow> string \<Rightarrow> ('w, unit) st" where
  "sb_put http sb bucket path data =
     bind_s (hx_post http (object_url sb [] bucket path) (sb_headers sb @ [(''x-upsert'', ''true'')]) (Content data))
       (\<lambda>(status, _). lift_r (raise_for_status status))"

definition sb_get :: "'w httpx \<Rightarrow> supabase \<Rightarrow> string \<Rightarrow> string \<Rightarrow> ('w, string) st" where
  "sb_get http sb bucket path =
     bind_s (hx_get http (object_url sb [] bucket path) (sb_headers sb)) (\<lambda>(status, content).
     bind_s (lift_r (raise_for_status status)) (\<lambda>_. ret content))"

definition sb_exists :: "'w httpx \<Rightarrow> supabase \<Rightarrow> string \<Rightarrow> string \<Rightarrow> ('w, bool) st" where
  "sb_exists http sb bucket path =
     bind_s (hx_get http (object_url sb ''info/'' bucket path) (sb_headers sb)) (\<lambda>(status, _). ret (status = 200))"

text \<open>\<^verbatim>\<open>str(r.json()[field])\<close>.\<close>

definition json_field :: "'w httpx \<Rightarrow> string \<Rightarrow> string \<Rightarrow> string result" where
  "json_field http field content =
     (case hx_loads http content of
        None \<Rightarrow> Inl ValueError
      | Some (JObj kvs) \<Rightarrow> (case json_get kvs field of None \<Rightarrow> Inl KeyError | Some v \<Rightarrow> Inr (hx_str http v))
      | Some _ \<Rightarrow> Inl TypeError)"

definition sb_sign :: "'w httpx \<Rightarrow> supabase \<Rightarrow> string \<Rightarrow> http_body \<Rightarrow> string \<Rightarrow> ('w, string) st" where
  "sb_sign http sb url body field =
     bind_s (hx_post http url (sb_headers sb) body) (\<lambda>(status, content).
     bind_s (lift_r (raise_for_status status)) (\<lambda>_.
     bind_s (lift_r (json_field http field content)) (\<lambda>u. ret (sb_url sb @ u))))"

definition sb_signed_upload_url :: "'w httpx \<Rightarrow> supabase \<Rightarrow> string \<Rightarrow> string \<Rightarrow> ('w, string) st" where
  "sb_signed_upload_url http sb bucket path =
     sb_sign http sb (object_url sb ''upload/sign/'' bucket path) No_Body ''url''"

definition sb_signed_download_url :: "'w httpx \<Rightarrow> supabase \<Rightarrow> string \<Rightarrow> string \<Rightarrow> int \<Rightarrow> ('w, string) st" where
  "sb_signed_download_url http sb bucket path expires_s =
     sb_sign http sb (object_url sb ''sign/'' bucket path) (Json_Body (JObj [(''expiresIn'', JInt expires_s)]))
       ''signedURL''"

section \<open>The choice of a backend\<close>

datatype storage_backend = Supabase_Storage supabase | Filesystem_Storage

definition get_storage :: "environ \<Rightarrow> storage_backend" where
  "get_storage environ =
     (case (environ ''SUPABASE_URL'', environ ''SUPABASE_SERVICE_KEY'') of
        (Some url, Some key) \<Rightarrow>
          if url \<noteq> [] \<and> key \<noteq> [] then Supabase_Storage (make_supabase url key) else Filesystem_Storage
      | _ \<Rightarrow> Filesystem_Storage)"

text \<open>
  Nothing is taken for stored or signed that the service refused: an answer outside 2xx
  raises, whatever the answer says.
\<close>

lemma sb_refused:
  assumes "\<And>url hs b w. \<exists>w' text. hx_post http url hs b w = (w', Inr (status, text))"
    and "\<not> (200 \<le> status \<and> status < 300)"
  shows "snd (sb_put http sb bucket path data w) = Inl HTTPStatusError"
    and "snd (sb_signed_upload_url http sb bucket path w) = Inl HTTPStatusError"
    and "snd (sb_signed_download_url http sb bucket path expires_s w) = Inl HTTPStatusError"
proof -
  have bad: "raise_for_status status = Inl HTTPStatusError" using assms(2) by (simp add: raise_for_status_def)
  show "snd (sb_put http sb bucket path data w) = Inl HTTPStatusError"
    using assms(1) [of "object_url sb [] bucket path" "sb_headers sb @ [(''x-upsert'', ''true'')]" "Content data" w] bad
    by (auto simp: sb_put_def bind_s_apply)
  have sign: "snd (sb_sign http sb url b field w) = Inl HTTPStatusError" for url b field
    using assms(1) [of url "sb_headers sb" b w] bad by (auto simp: sb_sign_def bind_s_apply)
  show "snd (sb_signed_upload_url http sb bucket path w) = Inl HTTPStatusError"
    and "snd (sb_signed_download_url http sb bucket path expires_s w) = Inl HTTPStatusError"
    by (simp_all add: sb_signed_upload_url_def sb_signed_download_url_def sign)
qed

end
