(* ===== verification/Dedup.thy ===== *)
theory Dedup
  imports IngestSafety
begin

text \<open>
  Deduplication beyond one request: the same event from two origins, and the same event in
  concurrent transactions, where the lookup and the insertion of each interleave with those
  of the others.
\<close>

section \<open>Origins\<close>

text \<open>The event as another origin reports it.\<close>

definition with_origin :: "string \<Rightarrow> payload \<Rightarrow> payload" where
  "with_origin origin ev = map (\<lambda>(k, v). (k, if k = ''origin'' then JStr origin else v)) ev"

lemma origin_keys: "map fst (with_origin origin ev) = map fst ev"
  by (simp add: with_origin_def comp_def case_prod_beta)

lemma origin_get: "k \<noteq> ''origin'' \<Longrightarrow> json_get (with_origin origin ev) k = json_get ev k"
  by (induction ev) (auto simp: with_origin_def)

lemma origin_subscript: "k \<noteq> ''origin'' \<Longrightarrow> subscript (with_origin origin ev) k = subscript ev k"
  by (simp add: subscript_def origin_get)

lemma origin_check:
  assumes "check_event env ev hz = Inr c" "validate_structure env (with_origin origin ev) = Inr ()"
  shows "check_event env (with_origin origin ev) hz = Inr c"
  using assms by (auto simp: check_event_def bind_r_Inr_iff scan_forbidden_fields_def origin_keys origin_get origin_subscript Let_def)

lemma origin_prep: "prep env p (with_origin origin ev) ety pl src s = prep env p ev ety pl src s"
  by (simp add: prep_def origin_subscript origin_get json_get_or_def)

text \<open>
  C9: the origin does not count. Whatever event was accepted or found stored, the same event
  reported by another origin, if the schema accepts it, is answered as a duplicate in any
  later state with the same configuration that still holds the first, and is not stored:
  against \<^verbatim>\<open>docs/semantics.md\<close>, by which different origins are never deduplicated against
  each other.
\<close>

theorem other_origin_dropped:
  assumes "try_event env p (JObj ev) i src hz s = (t, Inr x)" and "\<not> is_test p"
    and "validate_structure env (with_origin origin ev) = Inr ()"
    and "keys_within t u" and "same_config s u"
  shows "\<exists>key. process_one env p (JObj (with_origin origin ev)) j src hz u = (u, Inr (Duplicate_Item j key))"
proof -
  obtain ety pl ts where c: "check_event env ev hz = Inr (ety, pl, ts)"
    and st: "store_event env p ev ety pl ts i src s = (t, Inr x)"
    using assms(1) by (auto simp: try_event_def bind_s_Inr_iff)
  obtain dep key where k: "prep env p ev ety pl src s = Inr (dep, key)"
    using st by (auto simp: store_event_prep split: sum.splits)
  have "key_exists (p_workspace_id p) key t"
    using st assms(2) k by (auto simp: store_event_prep transaction_Inr_iff dest: persist_Inr split: if_splits)
  then have "key_exists (p_workspace_id p) key u" using assms(4) by (simp add: keys_within_def)
  moreover have "prep env p (with_origin origin ev) ety pl src u = Inr (dep, key)"
    using k prep_same_config [OF assms(5)] by (simp add: origin_prep)
  ultimately have "store_event env p (with_origin origin ev) ety pl ts j src u = (u, Inr (Duplicate_Item j key))"
    using assms(2) by (simp add: store_event_prep)
  then show ?thesis
    using origin_check [OF c assms(3)] by (auto simp: process_one_after_try try_event_def)
qed

theorem other_origin_dropped_witness:
  "(case ex_good ''w1'' of JObj ev \<Rightarrow>
      let t = fst (try_event ex_env ex_principal (JObj ev) 0 [] 400 ex_state) in
      length (tbl_rows (events t)) = 1 \<and>
      (\<exists>key. process_one ex_env ex_principal (JObj (with_origin ''vendor_product'' ev)) 0 [] 400 t
         = (t, Inr (Duplicate_Item 0 key))))"
proof -
  obtain ev where ev: "ex_good ''w1'' = JObj ev" by (simp add: ex_good_def ex_envelope_def)
  let ?r = "try_event ex_env ex_principal (ex_good ''w1'') 0 [] 400 ex_state"
  have ok: "is_ok (snd ?r)" "length (tbl_rows (events (fst ?r))) = 1" "\<not> is_test ex_principal" "same_config ex_state (fst ?r)"
    "(case ex_good ''w1'' of JObj ev \<Rightarrow> validate_structure ex_env (with_origin ''vendor_product'' ev) = Inr ())"
    by code_simp+
  then obtain t x where r: "?r = (t, Inr x)" by (cases ?r) (auto simp: is_ok_iff)
  have "validate_structure ex_env (with_origin ''vendor_product'' ev) = Inr ()" "same_config ex_state t"
    using ok(4,5) r unfolding ev by simp_all
  from other_origin_dropped [OF r [unfolded ev] ok(3) this(1) replay_keys.refl this(2)] ok(2) r show ?thesis
    by (simp add: ev Let_def)
qed

section \<open>Concurrent transactions\<close>

text \<open>
  One event of a request as its transaction's two statements: the lookup of the key and, where
  it found none, the insertion. Between the two other transactions may commit; the insertion
  then meets the unique index on workspace, key and time of the event.
\<close>

datatype attempt = Begun | Absent int string | Finished "item_result result"

definition look_up :: "ingest_env \<Rightarrow> principal \<Rightarrow> payload \<Rightarrow> json \<Rightarrow> payload \<Rightarrow> int \<Rightarrow> string \<Rightarrow> sys \<Rightarrow> attempt" where
  "look_up env p ev ety pl i src s =
     (case prep env p ev ety pl src s of
        Inl e \<Rightarrow> Finished (Inl e)
      | Inr (dep, key) \<Rightarrow>
          if is_test p then Finished (Inr (Accepted_Item i key (Some (echo_json ety pl True None))))
          else if key_exists (p_workspace_id p) key s then Finished (Inr (Duplicate_Item i key))
          else Absent dep key)"

definition index_taken :: "int \<Rightarrow> string \<Rightarrow> string \<Rightarrow> sys \<Rightarrow> bool" where
  "index_taken ws key ts s =
     exists_row (\<lambda>e. ev_workspace_id e = ws \<and> ev_key e = key \<and> Inr (ev_occurred_at e) = strptime_ms ts) (events s)"

definition insert_checked ::
  "principal \<Rightarrow> payload \<Rightarrow> json \<Rightarrow> payload \<Rightarrow> string \<Rightarrow> int \<Rightarrow> string \<Rightarrow> int \<Rightarrow> string \<Rightarrow> (sys, item_result) st" where
  "insert_checked p ev ety pl ts i src dep key =
     bind_s (reads (index_taken (p_workspace_id p) key ts)) (\<lambda>taken.
       if taken then raise DatabaseError else transaction (persist p ev ety pl ts i src dep key))"

text \<open>The same event in the hands of several requests.\<close>

inductive race_step ::
  "ingest_env \<Rightarrow> principal \<Rightarrow> payload \<Rightarrow> json \<Rightarrow> payload \<Rightarrow> string \<Rightarrow> int \<Rightarrow> string
     \<Rightarrow> sys \<times> attempt list \<Rightarrow> sys \<times> attempt list \<Rightarrow> bool" for env p ev ety pl ts i src where
  Looking_Up: "n < length as \<Longrightarrow> as ! n = Begun \<Longrightarrow>
     race_step env p ev ety pl ts i src (s, as) (s, as[n := look_up env p ev ety pl i src s])"
| Inserting: "n < length as \<Longrightarrow> as ! n = Absent dep key \<Longrightarrow> insert_checked p ev ety pl ts i src dep key s = (t, r) \<Longrightarrow>
     race_step env p ev ety pl ts i src (s, as) (t, as[n := Finished r])"

text \<open>Without a transaction in between, the two statements are the model of the request.\<close>

lemma alone_is_store_event:
  "store_event env p ev ety pl ts i src s =
     (case look_up env p ev ety pl i src s of
        Finished r \<Rightarrow> (s, r)
      | Absent dep key \<Rightarrow> insert_checked p ev ety pl ts i src dep key s
      | Begun \<Rightarrow> undefined)"
  by (auto simp: store_event_prep look_up_def insert_checked_def index_taken_def key_exists_def exists_row_def
      split: sum.splits)

definition same_key :: "principal \<Rightarrow> string \<Rightarrow> sys \<Rightarrow> event_row list" where
  "same_key p key s = filter (\<lambda>e. event_id e = (p_workspace_id p, key)) (tbl_rows (events s))"

lemma no_same_key: "same_key p key s = [] \<longleftrightarrow> \<not> key_exists (p_workspace_id p) key s"
  by (auto simp: same_key_def filter_empty_conv key_exists_def exists_row_def event_id_def)

text \<open>What an insertion that succeeds once does in every state.\<close>

lemma persist_everywhere:
  assumes "persist p ev ety pl ts i src dep key s = (s1, Inr x)"
  obtains mk "when" where "strptime_ms ts = Inr when"
    and "\<And>n. event_id (mk n) = (p_workspace_id p, key) \<and> ev_occurred_at (mk n) = when"
    and "\<And>u. persist p ev ety pl ts i src dep key u = (add_event (mk (tbl_seq (events u))) u, Inr (Accepted_Item i key None))"
    and "x = Accepted_Item i key None"
proof -
  obtain org sv e "when" ety' o' where f: "subscript ev ''origin'' = Inr (JStr org)" "subscript ev ''schema_version'' = Inr (JStr sv)"
    "ety = JStr e" "strptime_ms ts = Inr when" "map_of event_types e = Some ety'" "map_of origin_types org = Some o'"
    "x = Accepted_Item i key None"
  proof -
    obtain org sv where o: "subscript ev ''origin'' = Inr org" "subscript ev ''schema_version'' = Inr sv"
      and ins: "insert_event p dep ety org sv key ts src pl s = (s1, Inr ())" and x: "x = Accepted_Item i key None"
      using assms by (auto simp: persist_def bind_s_Inr_iff)
    from ins obtain e o' v w ty oty where "ety = JStr e" "org = JStr o'" "sv = JStr v" "strptime_ms ts = Inr w"
      "map_of event_types e = Some ty" "map_of origin_types o' = Some oty"
      unfolding insert_event_def by (simp split: json.splits sum.splits option.splits)
    with o x show thesis by (intro that) simp_all
  qed
  show thesis
  proof (rule that [OF f(4) _ _ f(7)])
    let ?mk = "event_row_of p dep ety' o' sv key when src pl"
    show "event_id (?mk n) = (p_workspace_id p, key) \<and> ev_occurred_at (?mk n) = when" for n
      by (simp add: event_id_def event_row_of_def)
    show "persist p ev ety pl ts i src dep key u = (add_event (?mk (tbl_seq (events u))) u, Inr (Accepted_Item i key None))" for u
      using f by (simp add: persist_def insert_event_def add_event_def insert_row_def)
  qed
qed

text \<open>How the attempts stand once the configuration, the key and the time of the event are fixed.\<close>

definition undecided :: "int \<Rightarrow> string \<Rightarrow> attempt \<Rightarrow> bool" where
  "undecided dep key a \<longleftrightarrow> a = Begun \<or> a = Absent dep key"

definition outrun :: "int \<Rightarrow> string \<Rightarrow> attempt \<Rightarrow> bool" where
  "outrun i key a \<longleftrightarrow> a = Finished (Inr (Duplicate_Item i key)) \<or> a = Finished (Inl DatabaseError)"

definition one_winner :: "int \<Rightarrow> int \<Rightarrow> string \<Rightarrow> attempt list \<Rightarrow> bool" where
  "one_winner i dep key as \<longleftrightarrow> (\<exists>n < length as. as ! n = Finished (Inr (Accepted_Item i key None))
     \<and> (\<forall>m < length as. m \<noteq> n \<longrightarrow> undecided dep key (as ! m) \<or> outrun i key (as ! m)))"

definition race_ok :: "principal \<Rightarrow> int \<Rightarrow> string \<Rightarrow> string \<Rightarrow> int \<Rightarrow> sys \<Rightarrow> sys \<times> attempt list \<Rightarrow> bool" where
  "race_ok p dep key ts i s0 c \<longleftrightarrow> same_config s0 (fst c) \<and>
     (same_key p key (fst c) = [] \<and> (\<forall>m < length (snd c). undecided dep key (snd c ! m))
      \<or> (\<exists>e. same_key p key (fst c) = [e] \<and> Inr (ev_occurred_at e) = strptime_ms ts \<and> one_winner i dep key (snd c)))"

lemma one_winner_update:
  assumes "one_winner i dep key as" "n < length as" "undecided dep key (as ! n)"
    and "undecided dep key a \<or> outrun i key a"
  shows "one_winner i dep key (as[n := a])"
proof -
  obtain w where w: "w < length as" "as ! w = Finished (Inr (Accepted_Item i key None))"
    "\<And>m. m < length as \<Longrightarrow> m \<noteq> w \<Longrightarrow> undecided dep key (as ! m) \<or> outrun i key (as ! m)"
    using assms(1) by (auto simp: one_winner_def)
  have "n \<noteq> w" using assms(3) w(2) by (auto simp: undecided_def)
  with w assms(2,4) show ?thesis
    unfolding one_winner_def by (intro exI [of _ w]) (auto simp: nth_list_update)
qed

lemma index_taken_iff:
  "index_taken (p_workspace_id p) key ts s \<longleftrightarrow> (\<exists>e \<in> set (same_key p key s). Inr (ev_occurred_at e) = strptime_ms ts)"
  by (auto simp: index_taken_def exists_row_def same_key_def event_id_def)

lemma race_step_ok:
  assumes "race_step env p ev ety pl ts i src c c'" "race_ok p dep key ts i s0 c" "\<not> is_test p"
    and "prep env p ev ety pl src s0 = Inr (dep, key)" "persist p ev ety pl ts i src dep key s0 = (s1, Inr x)"
  shows "race_ok p dep key ts i s0 c'"
  using assms(1)
proof cases
  case (Looking_Up n as s)
  have prep: "prep env p ev ety pl src s = Inr (dep, key)"
    using assms(2,4) Looking_Up(1) prep_same_config [of s0 s] by (simp add: race_ok_def)
  let ?a = "look_up env p ev ety pl i src s"
  have a: "?a = (if same_key p key s = [] then Absent dep key else Finished (Inr (Duplicate_Item i key)))"
    using prep assms(3) by (simp add: look_up_def no_same_key)
  have "undecided dep key (as ! n)" using Looking_Up(4) by (simp add: undecided_def)
  then have "one_winner i dep key as \<Longrightarrow> one_winner i dep key (as[n := ?a])"
    by (rule one_winner_update [rotated 2]) (auto simp: a undecided_def outrun_def Looking_Up(3))
  then show ?thesis
    using assms(2) Looking_Up(3) unfolding Looking_Up(1,2)
    by (auto simp: race_ok_def a undecided_def nth_list_update split: if_splits)
next
  case (Inserting n as dep' key' s t r)
  obtain mk "when" where w: "strptime_ms ts = Inr when"
    and mk: "\<And>n. event_id (mk n) = (p_workspace_id p, key) \<and> ev_occurred_at (mk n) = when"
    and run: "\<And>u. persist p ev ety pl ts i src dep key u = (add_event (mk (tbl_seq (events u))) u, Inr (Accepted_Item i key None))"
    using persist_everywhere [OF assms(5)] by metis
  have und: "undecided dep key (as ! n)"
  proof -
    have "as ! n \<noteq> Finished q" for q using Inserting(4) by simp
    with assms(2) Inserting(3) show ?thesis
      unfolding Inserting(1) race_ok_def one_winner_def outrun_def fst_conv snd_conv by metis
  qed
  then have same: "dep' = dep" "key' = key" using Inserting(4) by (simp_all add: undecided_def)
  show ?thesis
  proof (cases "same_key p key s = []")
    case True
    then have "insert_checked p ev ety pl ts i src dep key s
        = (add_event (mk (tbl_seq (events s))) s, Inr (Accepted_Item i key None))"
      by (simp add: insert_checked_def index_taken_iff transaction_def run)
    with Inserting(5) same have t: "t = add_event (mk (tbl_seq (events s))) s" "r = Inr (Accepted_Item i key None)" by simp_all
    have "same_key p key t = [mk (tbl_seq (events s))]"
      using True mk by (simp add: t same_key_def add_event_def table_simps)
    moreover have "one_winner i dep key (as[n := Finished r])"
      using assms(2) True Inserting(3) unfolding Inserting(1)
      by (auto simp: race_ok_def one_winner_def t(2) nth_list_update intro!: exI [of _ n])
    moreover have "same_config s0 t" using assms(2) by (simp add: Inserting(1) race_ok_def t same_config_def add_event_def)
    ultimately show ?thesis using mk w by (simp add: race_ok_def Inserting(2))
  next
    case False
    with assms(2) obtain e where e: "same_key p key s = [e]" "Inr (ev_occurred_at e) = strptime_ms ts" "one_winner i dep key as"
      by (auto simp: race_ok_def Inserting(1))
    then have "insert_checked p ev ety pl ts i src dep key s = (s, Inl DatabaseError)"
      by (simp add: insert_checked_def index_taken_iff)
    with Inserting(5) same have t: "t = s" "r = Inl DatabaseError" by simp_all
    have "one_winner i dep key (as[n := Finished r])"
      using e(3) Inserting(3) und by (rule one_winner_update) (simp add: outrun_def t)
    with e assms(2) show ?thesis by (simp add: race_ok_def Inserting(1,2) t)
  qed
qed

text \<open>What an event that is accepted alone finds: its configuration and key, no row and an insertion that works.\<close>

definition fresh_event ::
  "ingest_env \<Rightarrow> principal \<Rightarrow> payload \<Rightarrow> json \<Rightarrow> payload \<Rightarrow> string \<Rightarrow> int \<Rightarrow> string \<Rightarrow> int \<Rightarrow> string \<Rightarrow> sys \<Rightarrow> sys \<Rightarrow> bool" where
  "fresh_event env p ev ety pl ts i src dep key s s1 \<longleftrightarrow> \<not> is_test p
     \<and> prep env p ev ety pl src s = Inr (dep, key) \<and> same_key p key s = []
     \<and> persist p ev ety pl ts i src dep key s = (s1, Inr (Accepted_Item i key None))"

lemma accepted_fresh:
  assumes "store_event env p ev ety pl ts i src s = (s1, Inr (Accepted_Item i key None))" and "\<not> is_test p"
  obtains dep where "fresh_event env p ev ety pl ts i src dep key s s1"
proof -
  obtain dep key' where k: "prep env p ev ety pl src s = Inr (dep, key')" and none: "\<not> key_exists (p_workspace_id p) key' s"
    and ins: "persist p ev ety pl ts i src dep key' s = (s1, Inr (Accepted_Item i key None))"
    using assms by (auto simp: store_event_prep transaction_Inr_iff split: sum.splits if_splits)
  have "key' = key" by (rule persist_everywhere [OF ins]) simp
  with k none ins assms(2) that show thesis by (simp add: fresh_event_def no_same_key)
qed

lemma race_reachable:
  assumes "fresh_event env p ev ety pl ts i src dep key s s1"
    and "(race_step env p ev ety pl ts i src)\<^sup>*\<^sup>* (s, replicate n Begun) c"
  shows "race_ok p dep key ts i s c \<and> length (snd c) = n"
  using assms(2)
proof (induction rule: rtranclp_induct)
  case base
  then show ?case using assms(1) by (simp add: fresh_event_def race_ok_def same_config_def undecided_def)
next
  case (step c c')
  then show ?case
    using race_step_ok [OF step.hyps(2)] assms(1) by (auto simp: fresh_event_def elim: race_step.cases)
qed

lemma race_decided:
  assumes "race_ok p dep key ts i s (t, as)" "as \<noteq> []" "\<forall>a \<in> set as. \<exists>r. a = Finished r"
  shows "length (same_key p key t) = 1 \<and> (\<exists>m < length as. as ! m = Finished (Inr (Accepted_Item i key None))
             \<and> (\<forall>j < length as. j \<noteq> m \<longrightarrow> outrun i key (as ! j)))"
proof -
  have "\<not> undecided dep key (as ! j)" if "j < length as" for j
    using assms(3) nth_mem [OF that] by (fastforce simp: undecided_def)
  then show ?thesis using assms(1,2) by (auto simp: race_ok_def one_winner_def)
qed

text \<open>Both look up before either inserts.\<close>

lemma both_absent:
  assumes "fresh_event env p ev ety pl ts i src dep key s s1"
  shows "(race_step env p ev ety pl ts i src)\<^sup>*\<^sup>* (s, [Begun, Begun])
    (s1, [Finished (Inr (Accepted_Item i key None)), Absent dep key])"
proof -
  let ?R = "race_step env p ev ety pl ts i src"
  have look: "look_up env p ev ety pl i src s = Absent dep key"
    and first: "insert_checked p ev ety pl ts i src dep key s = (s1, Inr (Accepted_Item i key None))"
    using assms by (simp_all add: fresh_event_def look_up_def no_same_key [symmetric] insert_checked_def index_taken_iff
        transaction_def)
  have steps: "?R (s, [Begun, Begun]) (s, [Absent dep key, Begun])"
    "?R (s, [Absent dep key, Begun]) (s, [Absent dep key, Absent dep key])"
    "?R (s, [Absent dep key, Absent dep key]) (s1, [Finished (Inr (Accepted_Item i key None)), Absent dep key])"
    using race_step.Looking_Up [of 0 "[Begun, Begun]" env p ev ety pl ts i src s]
      race_step.Looking_Up [of 1 "[Absent dep key, Begun]" env p ev ety pl ts i src s]
      race_step.Inserting [of 0 "[Absent dep key, Absent dep key]" dep key p ev ety pl ts i src s s1, OF _ _ first]
    by (simp_all add: look)
  then show ?thesis by (blast intro: converse_rtranclp_into_rtranclp r_into_rtranclp)
qed

lemma second_insertion_fails:
  assumes "race_ok p dep key ts i s (s1, [Finished (Inr (Accepted_Item i key None)), Absent dep key])"
  shows "race_step env p ev ety pl ts i src (s1, [Finished (Inr (Accepted_Item i key None)), Absent dep key])
    (s1, [Finished (Inr (Accepted_Item i key None)), Finished (Inl DatabaseError)])"
proof -
  have "index_taken (p_workspace_id p) key ts s1"
    using assms by (auto simp: race_ok_def undecided_def index_taken_iff less_Suc_eq)
  then have "insert_checked p ev ety pl ts i src dep key s1 = (s1, Inl DatabaseError)" by (simp add: insert_checked_def)
  then show ?thesis
    using race_step.Inserting [of 1 "[Finished (Inr (Accepted_Item i key None)), Absent dep key]" dep key p ev ety pl ts i src
        s1 s1 "Inl DatabaseError"] by simp
qed

text \<open>
  C8: concurrent requests with the same event store it once, but not every one is told so.
  Let several requests bring an event that would be accepted alone, their lookups and
  insertions interleaved in any way. When all are done the event is stored exactly once, one
  request has accepted it, and every other one found a duplicate or failed with a database
  error; and two requests that both look the key up before either inserts do end this way,
  the second answered with the error, and its whole batch with a 500, instead of the
  duplicate.
\<close>

theorem concurrent_duplicates:
  assumes "store_event env p ev ety pl ts i src s = (s1, Inr (Accepted_Item i key None))" and "\<not> is_test p"
  shows "(\<forall>n t as. 0 < n \<and> (race_step env p ev ety pl ts i src)\<^sup>*\<^sup>* (s, replicate n Begun) (t, as)
            \<and> (\<forall>a \<in> set as. \<exists>r. a = Finished r) \<longrightarrow>
          length (same_key p key t) = 1
        \<and> (\<exists>m < length as. as ! m = Finished (Inr (Accepted_Item i key None))
             \<and> (\<forall>j < length as. j \<noteq> m \<longrightarrow> outrun i key (as ! j))))
     \<and> (race_step env p ev ety pl ts i src)\<^sup>*\<^sup>* (s, [Begun, Begun])
          (s1, [Finished (Inr (Accepted_Item i key None)), Finished (Inl DatabaseError)])"
proof -
  obtain dep where fresh: "fresh_event env p ev ety pl ts i src dep key s s1" by (rule accepted_fresh [OF assms])
  have "race_ok p dep key ts i s (s1, [Finished (Inr (Accepted_Item i key None)), Absent dep key])"
    using race_reachable [OF fresh, of 2, unfolded numeral_2_eq_2, simplified, OF both_absent [OF fresh]] by simp
  then have lost: "(race_step env p ev ety pl ts i src)\<^sup>*\<^sup>* (s, [Begun, Begun])
      (s1, [Finished (Inr (Accepted_Item i key None)), Finished (Inl DatabaseError)])"
    by (rule rtranclp.rtrancl_into_rtrancl [OF both_absent [OF fresh] second_insertion_fails])
  show ?thesis
    by (intro conjI allI impI race_decided [THEN conjunct1] race_decided [THEN conjunct2] lost)
      (use race_reachable [OF fresh] in fastforce)+
qed

theorem concurrent_duplicates_witness:
  "(case check_event ex_env (case ex_good ''w1'' of JObj ev \<Rightarrow> ev) 400 of Inl _ \<Rightarrow> False | Inr (ety, pl, ts) \<Rightarrow>
      \<exists>t key. (race_step ex_env ex_principal (case ex_good ''w1'' of JObj ev \<Rightarrow> ev) ety pl ts 0 [])\<^sup>*\<^sup>*
        (ex_state, [Begun, Begun]) (t, [Finished (Inr (Accepted_Item 0 key None)), Finished (Inl DatabaseError)]))"
proof -
  let ?ev = "case ex_good ''w1'' of JObj ev \<Rightarrow> ev"
  have test: "case check_event ex_env ?ev 400 of Inl _ \<Rightarrow> False | Inr (ety, pl, ts) \<Rightarrow>
      (case store_event ex_env ex_principal ?ev ety pl ts 0 [] ex_state of
         (t, r) \<Rightarrow> (case r of Inl _ \<Rightarrow> False | Inr x \<Rightarrow> (case x of Accepted_Item i key e \<Rightarrow> i = 0 \<and> e = None | _ \<Rightarrow> False)))"
    by code_simp
  obtain ety pl ts where c: "check_event ex_env ?ev 400 = Inr (ety, pl, ts)"
    and ok: "case store_event ex_env ex_principal ?ev ety pl ts 0 [] ex_state of
         (t, r) \<Rightarrow> (case r of Inl _ \<Rightarrow> False | Inr x \<Rightarrow> (case x of Accepted_Item i key e \<Rightarrow> i = 0 \<and> e = None | _ \<Rightarrow> False))"
  proof (cases "check_event ex_env ?ev 400")
    case (Inr c)
    obtain ety pl ts where "c = (ety, pl, ts)" by (cases c)
    with test Inr show ?thesis by (intro that) simp_all
  qed (use test in simp)
  obtain t r where tr: "store_event ex_env ex_principal ?ev ety pl ts 0 [] ex_state = (t, r)" by fastforce
  with ok obtain x where st: "store_event ex_env ex_principal ?ev ety pl ts 0 [] ex_state = (t, Inr x)"
    and x: "case x of Accepted_Item i key e \<Rightarrow> i = 0 \<and> e = None | _ \<Rightarrow> False"
    by (cases r) auto
  from x obtain key where "x = Accepted_Item 0 key None" by (auto split: item_result.splits)
  note st = st [unfolded this]
  have "\<not> is_test ex_principal" by code_simp
  from concurrent_duplicates [OF st this] c show ?thesis by auto
qed

end
