(* ===== verification/Routes.thy ===== *)
theory Routes
  imports Prelude
begin

text \<open>
  The routes of the application: the operations declared in \<^verbatim>\<open>api/routes\<close> and
  \<^verbatim>\<open>api/app.py\<close> in the order the routers are included, and how a request finds its
  handler.
\<close>

section \<open>The table of routes\<close>

text \<open>One constructor per handler.\<close>

datatype endpoint =
    Register_Deployment | List_Deployments | Get_Deployment | Update_Deployment
  | Upsert_Roster | List_Roster | Declare_License | Get_License
  | Register_Id_Namespace | List_Id_Namespaces
  | Create_Parameter_Version | List_Parameter_Versions | Get_Parameter_Version
  | Register_Label_Schema | List_Label_Schemas
  | Create_Webhook | List_Webhooks | Delete_Webhook
  | Declare_Change_Event | List_Change_Events
  | Create_Mapping_Contract | List_Mapping_Contracts
  | Ingest_Events | Event_Status
  | Create_Import | Import_Status
  | Webhook_Deliveries
  | List_Figures | Get_Figure | Figure_Lineage | List_Reports | Get_Report
  | Live_Usage | Live_Cost | Live_Health | List_Alerts | Ack_Alert
  | Whoami

text \<open>The decorators of each module: the verb, the template of the path, the handler.\<close>

type_synonym route = "string \<times> string \<times> endpoint"

definition config_routes :: "route list" where
  "config_routes =
    [(''POST'', ''/v1/deployments'', Register_Deployment),
     (''GET'', ''/v1/deployments'', List_Deployments),
     (''GET'', ''/v1/deployments/{deployment_id}'', Get_Deployment),
     (''PATCH'', ''/v1/deployments/{deployment_id}'', Update_Deployment),
     (''POST'', ''/v1/roster:batch'', Upsert_Roster),
     (''GET'', ''/v1/roster'', List_Roster),
     (''PUT'', ''/v1/deployments/{deployment_id}/license'', Declare_License),
     (''GET'', ''/v1/deployments/{deployment_id}/license'', Get_License),
     (''POST'', ''/v1/id-namespaces'', Register_Id_Namespace),
     (''GET'', ''/v1/id-namespaces'', List_Id_Namespaces),
     (''POST'', ''/v1/parameters'', Create_Parameter_Version),
     (''GET'', ''/v1/parameters'', List_Parameter_Versions),
     (''GET'', ''/v1/parameters/{version}'', Get_Parameter_Version),
     (''POST'', ''/v1/qa-labels/schemas'', Register_Label_Schema),
     (''GET'', ''/v1/qa-labels/schemas'', List_Label_Schemas),
     (''POST'', ''/v1/webhooks'', Create_Webhook),
     (''GET'', ''/v1/webhooks'', List_Webhooks),
     (''DELETE'', ''/v1/webhooks/{webhook_id}'', Delete_Webhook),
     (''POST'', ''/v1/change-events'', Declare_Change_Event),
     (''GET'', ''/v1/change-events'', List_Change_Events),
     (''POST'', ''/v1/mapping-contracts'', Create_Mapping_Contract),
     (''GET'', ''/v1/mapping-contracts'', List_Mapping_Contracts)]"

definition ingest_routes :: "route list" where
  "ingest_routes =
    [(''POST'', ''/v1/events:batch'', Ingest_Events),
     (''GET'', ''/v1/events/{event_key}/status'', Event_Status)]"

definition import_routes :: "route list" where
  "import_routes =
    [(''POST'', ''/v1/imports'', Create_Import),
     (''GET'', ''/v1/imports/{import_id}'', Import_Status)]"

definition webhook_routes :: "route list" where
  "webhook_routes = [(''GET'', ''/v1/webhooks/{webhook_id}/deliveries'', Webhook_Deliveries)]"

definition read_routes :: "route list" where
  "read_routes =
    [(''GET'', ''/v1/figures/{deployment_id}'', List_Figures),
     (''GET'', ''/v1/figures/{deployment_id}/{figure_id}'', Get_Figure),
     (''GET'', ''/v1/figures/{deployment_id}/{figure_id}/lineage'', Figure_Lineage),
     (''GET'', ''/v1/reports/{deployment_id}'', List_Reports),
     (''GET'', ''/v1/reports/{deployment_id}/{report_id}'', Get_Report),
     (''GET'', ''/v1/live/usage/{deployment_id}'', Live_Usage),
     (''GET'', ''/v1/live/cost/{deployment_id}'', Live_Cost),
     (''GET'', ''/v1/live/health/{deployment_id}'', Live_Health),
     (''GET'', ''/v1/alerts'', List_Alerts),
     (''POST'', ''/v1/alerts/{alert_id}:ack'', Ack_Alert)]"

definition routes :: "route list" where
  "routes = config_routes @ ingest_routes @ import_routes @ webhook_routes @ read_routes
     @ [(''GET'', ''/v1/whoami'', Whoami)]"

lemmas routes_defs = routes_def config_routes_def ingest_routes_def import_routes_def webhook_routes_def read_routes_def

text \<open>
  The router tries the routes in order and takes the first whose verb and template agree;
  \<open>matches\<close> is the framework's match of a template with a path, the values of its
  parameters by their names.
\<close>

definition find_route ::
  "(string \<Rightarrow> string \<Rightarrow> (string \<times> string) list option) \<Rightarrow> string \<Rightarrow> string \<Rightarrow> (endpoint \<times> (string \<times> string) list) option" where
  "find_route matches verb path =
     (case find (\<lambda>(v, t, e). v = verb \<and> matches t path \<noteq> None) routes of
        None \<Rightarrow> None
      | Some (v, t, e) \<Rightarrow> map_option (Pair e) (matches t path))"

section \<open>Templates\<close>

text \<open>
  What the framework documents of templates: the segments between slashes correspond one by
  one, a segment in braces stands for any text that is not empty and has no slash, up to
  what follows the brace.
\<close>

fun segments :: "string \<Rightarrow> string list" where
  "segments [] = [[]]"
| "segments (c # cs) =
     (if c = CHR ''/'' then [] # segments cs
      else (case segments cs of [] \<Rightarrow> [[c]] | s # ss \<Rightarrow> (c # s) # ss))"

definition is_param :: "string \<Rightarrow> bool" where
  "is_param t = (case t of [] \<Rightarrow> False | c # _ \<Rightarrow> c = CHR ''{'')"

definition param_name :: "string \<Rightarrow> string" where
  "param_name t = takeWhile (\<lambda>c. c \<noteq> CHR ''}'') (tl t)"

definition param_suffix :: "string \<Rightarrow> string" where
  "param_suffix t = tl (dropWhile (\<lambda>c. c \<noteq> CHR ''}'') t)"

definition segment_match :: "string \<Rightarrow> string \<Rightarrow> (string \<times> string) list option" where
  "segment_match t s =
     (if is_param t then
        (let n = length s - length (param_suffix t) in
         if 0 < n \<and> drop n s = param_suffix t then Some [(param_name t, take n s)] else None)
      else if s = t then Some [] else None)"

fun segments_match :: "string list \<Rightarrow> string list \<Rightarrow> (string \<times> string) list option" where
  "segments_match [] [] = Some []"
| "segments_match (t # ts) (s # ss) =
     (case segment_match t s of
        None \<Rightarrow> None
      | Some b \<Rightarrow> map_option ((@) b) (segments_match ts ss))"
| "segments_match _ _ = None"

definition template_match :: "string \<Rightarrow> string \<Rightarrow> (string \<times> string) list option" where
  "template_match t path = segments_match (segments t) (segments path)"

definition routes_by_segments :: "(string \<Rightarrow> string \<Rightarrow> (string \<times> string) list option) \<Rightarrow> bool" where
  "routes_by_segments matches \<longleftrightarrow> (\<forall>(v, t, e) \<in> set routes. \<forall>path. matches t path = template_match t path)"

section \<open>No two routes compete\<close>

definition segment_apart :: "string \<Rightarrow> string \<Rightarrow> bool" where
  "segment_apart t u =
     (if is_param t then \<not> is_param u \<and> segment_match t u = None
      else if is_param u then segment_match u t = None else t \<noteq> u)"

fun segments_apart :: "string list \<Rightarrow> string list \<Rightarrow> bool" where
  "segments_apart [] [] = False"
| "segments_apart (t # ts) (u # us) = (segment_apart t u \<or> segments_apart ts us)"
| "segments_apart _ _ = True"

lemma segment_apart_sound: "segment_match t s \<noteq> None \<Longrightarrow> segment_match u s \<noteq> None \<Longrightarrow> \<not> segment_apart t u"
  by (auto simp: segment_apart_def segment_match_def Let_def split: if_splits)

lemma segments_apart_sound:
  "segments_match ts ps \<noteq> None \<Longrightarrow> segments_match us ps \<noteq> None \<Longrightarrow> \<not> segments_apart ts us"
proof (induction ts ps arbitrary: us rule: segments_match.induct)
  case (2 t ts s ss)
  then show ?case
    using segment_apart_sound [of t s] by (cases us) (auto split: option.splits)
next
  case 1
  then show ?case by (cases us) auto
qed auto

text \<open>The table with its templates split, compared pair by pair.\<close>

definition split_route :: "route \<Rightarrow> string \<times> string list \<times> route" where
  "split_route r = (case r of (v, t, e) \<Rightarrow> (v, segments t, r))"

fun all_apart :: "(string \<times> string list \<times> route) list \<Rightarrow> bool" where
  "all_apart [] = True"
| "all_apart ((v, ts, r) # rs) =
     (list_all (\<lambda>(w, us, q). v = w \<longrightarrow> segments_apart ts us \<and> segments_apart us ts) rs \<and> all_apart rs)"

lemma all_apart_sound:
  "all_apart rs \<Longrightarrow> (v, ts, r) \<in> set rs \<Longrightarrow> (v, us, q) \<in> set rs \<Longrightarrow> r = q \<or> segments_apart ts us"
  by (induction rs rule: all_apart.induct) (fastforce simp: list_all_iff)+

lemma routes_apart: "all_apart (map split_route routes)"
  by code_simp

lemma first_route:
  assumes "routes_by_segments matches" and "(verb, t, e) \<in> set routes" and "matches t path = Some b"
  shows "find_route matches verb path = Some (e, b)"
proof -
  obtain r where r: "find (\<lambda>(v, t, e). v = verb \<and> matches t path \<noteq> None) routes = Some r"
    using assms(2,3) by (cases "find (\<lambda>(v, t, e). v = verb \<and> matches t path \<noteq> None) routes")
      (auto simp: find_None_iff)
  obtain t' e' where r': "r = (verb, t', e')" "(verb, t', e') \<in> set routes" "matches t' path \<noteq> None"
    using r nth_mem [of _ routes] by (auto simp: find_Some_iff) (metis nth_mem option.discI)
  have "template_match t path \<noteq> None" "template_match t' path \<noteq> None"
    using assms r'(2,3) by (auto simp: routes_by_segments_def)
  then have "\<not> segments_apart (segments t) (segments t')"
    using segments_apart_sound by (simp add: template_match_def)
  moreover have "(verb, segments t, (verb, t, e)) \<in> set (map split_route routes)"
    "(verb, segments t', (verb, t', e')) \<in> set (map split_route routes)"
    using assms(2) r'(2) by (force simp: split_route_def)+
  ultimately have "t' = t \<and> e' = e" using all_apart_sound [OF routes_apart] by blast
  with r r'(1) assms(3) show ?thesis by (simp add: find_route_def)
qed

text \<open>
  C38: The order of the routes does not matter. Whatever route has the verb of a request and
  matches its path is the one the router takes: no other route of the application has the
  same verb and matches the path too, so including the routers in another order, or adding
  the handlers of a module in another order, changes nothing.
\<close>

theorem routes_unambiguous:
  assumes "routes_by_segments matches" and "(verb, t, e) \<in> set routes" and "matches t path = Some b"
  shows "find_route matches verb path = Some (e, b)"
  using assms by (rule first_route)

section \<open>Every route is reached\<close>

text \<open>The path of a template for values of its parameters, in order.\<close>

fun fill_segments :: "string list \<Rightarrow> string list \<Rightarrow> string list" where
  "fill_segments [] vs = []"
| "fill_segments (t # ts) vs =
     (if is_param t then (hd vs @ param_suffix t) # fill_segments ts (tl vs) else t # fill_segments ts vs)"

definition fill :: "string \<Rightarrow> string list \<Rightarrow> string" where
  "fill t vs = join ''/'' (fill_segments (segments t) vs)"

definition param_names :: "string \<Rightarrow> string list" where
  "param_names t = map param_name (filter is_param (segments t))"

definition plain_value :: "string \<Rightarrow> bool" where
  "plain_value v \<longleftrightarrow> v \<noteq> [] \<and> CHR ''/'' \<notin> set v"

lemma segments_plain: "CHR ''/'' \<notin> set s \<Longrightarrow> segments s = [s]"
  by (induction s) auto

lemma segments_first: "CHR ''/'' \<notin> set s \<Longrightarrow> segments (s @ CHR ''/'' # r) = s # segments r"
  by (induction s) auto

lemma segments_join: "ss \<noteq> [] \<Longrightarrow> \<forall>s \<in> set ss. CHR ''/'' \<notin> set s \<Longrightarrow> segments (join ''/'' ss) = ss"
  by (induction "''/''" ss rule: join.induct) (simp_all add: segments_plain segments_first)

lemma segments_no_slash: "s \<in> set (segments p) \<Longrightarrow> CHR ''/'' \<notin> set s"
proof (induction p arbitrary: s)
  case (Cons c p)
  then show ?case by (cases "segments p") (auto split: if_splits)
qed simp

lemma segments_not_Nil: "segments p \<noteq> []"
  by (cases p) (auto split: list.split)

lemma param_suffix_subset: "set (param_suffix t) \<subseteq> set t"
  unfolding param_suffix_def
  by (metis list.sel(2) list.set_sel(2) set_dropWhileD subsetI)

lemma fill_no_slash:
  assumes "\<forall>t \<in> set ts. CHR ''/'' \<notin> set t" "\<forall>v \<in> set vs. plain_value v" "length vs = length (filter is_param ts)"
  shows "\<forall>s \<in> set (fill_segments ts vs). CHR ''/'' \<notin> set s"
  using assms
proof (induction ts vs rule: fill_segments.induct)
  case (2 t ts vs)
  have t: "CHR ''/'' \<notin> set t" "\<forall>t \<in> set ts. CHR ''/'' \<notin> set t" using "2.prems"(1) by simp_all
  have suffix: "CHR ''/'' \<notin> set (param_suffix t)" using t(1) param_suffix_subset by blast
  show ?case
  proof (cases "is_param t")
    case True
    then obtain v ws where vs: "vs = v # ws" using "2.prems"(3) by (cases vs) simp_all
    have "\<forall>s \<in> set (fill_segments ts ws). CHR ''/'' \<notin> set s"
      using "2.IH"(1) [OF True t(2)] "2.prems"(2,3) True by (simp add: vs)
    then show ?thesis using True suffix "2.prems"(2) by (simp add: vs plain_value_def)
  next
    case False
    with "2.IH"(2) [OF False t(2)] "2.prems"(2,3) t(1) show ?thesis by simp
  qed
qed simp

lemma fill_matches:
  assumes "\<forall>v \<in> set vs. plain_value v" "length vs = length (filter is_param ts)"
  shows "segments_match ts (fill_segments ts vs) = Some (zip (map param_name (filter is_param ts)) vs)"
  using assms
proof (induction ts vs rule: fill_segments.induct)
  case (2 t ts vs)
  then show ?case by (cases vs) (auto simp: segment_match_def plain_value_def Let_def)
qed simp

lemma template_match_fill:
  assumes "\<forall>v \<in> set vs. plain_value v" "length vs = length (param_names t)"
  shows "template_match t (fill t vs) = Some (zip (param_names t) vs)"
proof -
  have n: "length vs = length (filter is_param (segments t))" using assms(2) by (simp add: param_names_def)
  have "fill_segments (segments t) vs \<noteq> []" using segments_not_Nil [of t] by (cases "segments t") auto
  then have "segments (fill t vs) = fill_segments (segments t) vs"
    using fill_no_slash [OF _ assms(1) n] segments_no_slash unfolding fill_def by (intro segments_join) blast+
  then show ?thesis
    using fill_matches [OF assms(1) n] by (simp add: template_match_def param_names_def)
qed

lemma route_reached:
  assumes "routes_by_segments matches" "(verb, t, e) \<in> set routes"
    and "\<forall>v \<in> set vs. plain_value v" "length vs = length (param_names t)"
  shows "find_route matches verb (fill t vs) = Some (e, zip (param_names t) vs)"
proof (rule first_route [OF assms(1,2)])
  show "matches t (fill t vs) = Some (zip (param_names t) vs)"
    using assms(1,2) template_match_fill [OF assms(3,4)] by (auto simp: routes_by_segments_def)
qed

end
