(* ===== verification/App.thy ===== *)
theory App
  imports AppRoutes Routes SystemSafe
begin

text \<open>
  The application (\<^verbatim>\<open>api/app.py\<close>): a request finds its route, is authenticated, runs the
  handler of the route and is answered by an envelope, under the middleware that numbers
  requests and the two exception handlers.
\<close>

section \<open>Requests\<close>

text \<open>What the handlers read of a request; header names count without case.\<close>

record http_call =
  hc_verb :: string
  hc_path :: string
  hc_header :: "string \<Rightarrow> string option"
  hc_query :: "string \<Rightarrow> string option"
  hc_body :: string

text \<open>The body of \<^verbatim>\<open>POST /v1/imports\<close>.\<close>

record import_create =
  ic_kind :: string
  ic_expected_events :: int
  ic_source_ref :: "string option"

text \<open>
  The validation of each request model: the model, or the location and the message of the
  first error.
\<close>

type_synonym 'm model = "(string \<times> json) list \<Rightarrow> (string list \<times> string) + 'm"

record request_models =
  rm_deployment_create :: "deployment_create model"
  rm_deployment_update :: "deployment_update model"
  rm_roster_batch :: "roster_user list model"
  rm_license_declare :: "license_declare model"
  rm_namespace_create :: "namespace_create model"
  rm_parameter_create :: "parameter_create model"
  rm_label_schema_create :: "label_schema_create model"
  rm_webhook_create :: "webhook_create model"
  rm_change_create :: "change_create model"
  rm_mapping_create :: "mapping_create model"
  rm_import_create :: "import_create model"

text \<open>The settings, clocks and tokens of one request.\<close>

record app_env =
  ap_sha256 :: "string \<Rightarrow> string"
  ap_environment :: string
  ap_schema_version :: string
  ap_request_id :: string
  ap_as_of :: string
  ap_token :: "int \<Rightarrow> string"
  ap_models :: request_models
  ap_ingest :: ingest_env
  ap_config :: config_env
  ap_read :: read_env

text \<open>
  The framework: how it matches templates, what it answers where no route or no integer is
  found, and which exceptions are handled inside the middleware, so that \<^verbatim>\<open>call_next\<close>
  returns their answer.
\<close>

record framework =
  fw_matches :: "string \<Rightarrow> string \<Rightarrow> (string \<times> string) list option"
  fw_unrouted :: "http_call \<Rightarrow> response"
  fw_int :: "string \<Rightarrow> int option"
  fw_invalid :: "http_call \<Rightarrow> response"
  fw_inside :: "exn \<Rightarrow> bool"

section \<open>Handlers\<close>

text \<open>\<^verbatim>\<open>await request.json()\<close>, then \<^verbatim>\<open>parse_body\<close>.\<close>

definition json_body :: "app_env \<Rightarrow> http_call \<Rightarrow> json result" where
  "json_body env rq =
     (case env_loads (ap_ingest env) (hc_body rq) of None \<Rightarrow> Inl ValueError | Some j \<Rightarrow> Inr j)"

definition with_body ::
  "app_env \<Rightarrow> http_call \<Rightarrow> 'm model \<Rightarrow> ('m \<Rightarrow> (sys, answer) st) \<Rightarrow> (sys, answer) st" where
  "with_body env rq validate k =
     bind_s (lift_r (bind_r (json_body env rq) (parse_body validate ''TF-CFG-007''))) k"

definition status_fields :: "event_status_view \<Rightarrow> (string \<times> json) list" where
  "status_fields v =
     [(''event_key'', JStr (st_event_key v)), (''status'', JStr (st_status v)), (''reason'', opt_str (st_reason v)),
      (''resolved_person'', opt_str (st_resolved_person v)), (''joined_work_item'', opt_str (st_joined_work_item v))]"

text \<open>\<^verbatim>\<open>request.headers.get("X-TrueFigure-Source", "") or ""\<close>.\<close>

definition source_header :: "http_call \<Rightarrow> string" where
  "source_header rq = (case hc_header rq ''X-TrueFigure-Source'' of None \<Rightarrow> [] | Some x \<Rightarrow> x)"

definition post_import :: "app_env \<Rightarrow> principal \<Rightarrow> import_create \<Rightarrow> (sys, answer) st" where
  "post_import env p body =
     bind_s (query (\<lambda>s. new_ref (ap_token env (tbl_seq (import_jobs s))) ''import_job'')) (\<lambda>ref.
     bind_s (create_import p (ic_kind body) (ic_expected_events body) (ic_source_ref body) ref) (\<lambda>fields.
       ret (answer 201 fields)))"

definition post_parameters :: "app_env \<Rightarrow> http_call \<Rightarrow> principal \<Rightarrow> (sys, answer) st" where
  "post_parameters env rq p =
     (if ''finance_params'' \<notin> set (p_roles p)
      then raise (tf_raise ''TF-CFG-002'' None None (Some ''finance_params role required (BR-016)''))
      else with_body env rq (rm_parameter_create (ap_models env)) (create_parameter_version (ap_config env) p))"

text \<open>
  The handler of an endpoint: \<open>arg\<close> gives the values of the path's parameters and
  \<open>version\<close> the one that is an integer.
\<close>

fun handler ::
  "app_env \<Rightarrow> http_call \<Rightarrow> principal \<Rightarrow> (string \<Rightarrow> string) \<Rightarrow> int \<Rightarrow> endpoint \<Rightarrow> (sys, answer) st" where
  "handler env rq p arg version Register_Deployment =
     with_body env rq (rm_deployment_create (ap_models env)) (register_deployment (ap_config env) p)"
| "handler env rq p arg version List_Deployments = query (list_deployments p)"
| "handler env rq p arg version Get_Deployment = query (get_deployment p (arg ''deployment_id''))"
| "handler env rq p arg version Update_Deployment =
     with_body env rq (rm_deployment_update (ap_models env))
       (update_deployment (ap_config env) p (arg ''deployment_id''))"
| "handler env rq p arg version Upsert_Roster =
     with_body env rq (rm_roster_batch (ap_models env)) (upsert_roster (ap_config env) p)"
| "handler env rq p arg version List_Roster = query (list_roster p (hc_query rq ''status'') (hc_query rq ''kind''))"
| "handler env rq p arg version Declare_License =
     with_body env rq (rm_license_declare (ap_models env))
       (declare_license (ap_config env) p (arg ''deployment_id''))"
| "handler env rq p arg version Get_License = query (get_license (ap_config env) p (arg ''deployment_id''))"
| "handler env rq p arg version Register_Id_Namespace =
     with_body env rq (rm_namespace_create (ap_models env)) (register_id_namespace p)"
| "handler env rq p arg version List_Id_Namespaces = query (list_id_namespaces p)"
| "handler env rq p arg version Create_Parameter_Version = post_parameters env rq p"
| "handler env rq p arg version List_Parameter_Versions = query (list_parameter_versions p)"
| "handler env rq p arg version Get_Parameter_Version = query (get_parameter_version p version)"
| "handler env rq p arg version Register_Label_Schema =
     with_body env rq (rm_label_schema_create (ap_models env)) (register_label_schema p)"
| "handler env rq p arg version List_Label_Schemas = query (list_label_schemas p)"
| "handler env rq p arg version Create_Webhook =
     with_body env rq (rm_webhook_create (ap_models env)) (create_webhook (ap_config env) p)"
| "handler env rq p arg version List_Webhooks = query (list_webhooks p)"
| "handler env rq p arg version Delete_Webhook = delete_webhook p (arg ''webhook_id'')"
| "handler env rq p arg version Declare_Change_Event =
     with_body env rq (rm_change_create (ap_models env)) (declare_change_event (ap_config env) p)"
| "handler env rq p arg version List_Change_Events = query (list_change_events p)"
| "handler env rq p arg version Create_Mapping_Contract =
     with_body env rq (rm_mapping_create (ap_models env)) (create_mapping_contract p)"
| "handler env rq p arg version List_Mapping_Contracts = query (list_mapping_contracts p)"
| "handler env rq p arg version Ingest_Events =
     bind_s (ingest_events (ap_ingest env) p (source_header rq) (hc_body rq)) (\<lambda>results.
       ret (answer 200 [(''results'', JList (map item_json results))]))"
| "handler env rq p arg version Event_Status =
     bind_s (query (event_status p (arg ''event_key''))) (\<lambda>v. ret (answer 200 (status_fields v)))"
| "handler env rq p arg version Create_Import =
     with_body env rq (rm_import_create (ap_models env)) (post_import env p)"
| "handler env rq p arg version Import_Status =
     bind_s (query (Imports.import_status p (arg ''import_id''))) (\<lambda>fields. ret (answer 200 fields))"
| "handler env rq p arg version Webhook_Deliveries = query (webhook_deliveries_log (ap_read env) p (arg ''webhook_id''))"
| "handler env rq p arg version List_Figures =
     query (list_figures (ap_read env) p (arg ''deployment_id'') (hc_query rq ''period''))"
| "handler env rq p arg version Get_Figure =
     query (get_figure (ap_read env) p (arg ''deployment_id'') (arg ''figure_id''))"
| "handler env rq p arg version Figure_Lineage =
     query (figure_lineage p (arg ''deployment_id'') (arg ''figure_id''))"
| "handler env rq p arg version List_Reports = query (list_reports (ap_read env) p (arg ''deployment_id''))"
| "handler env rq p arg version Get_Report =
     query (get_report (ap_read env) p (arg ''deployment_id'') (arg ''report_id''))"
| "handler env rq p arg version Live_Usage = query (live_usage (ap_read env) p (arg ''deployment_id''))"
| "handler env rq p arg version Live_Cost =
     query (live_cost (ap_read env) p (arg ''deployment_id'') (hc_query rq ''period''))"
| "handler env rq p arg version Live_Health = query (live_health (ap_read env) p (arg ''deployment_id''))"
| "handler env rq p arg version List_Alerts = query (list_alerts (ap_read env) p (hc_query rq ''status''))"
| "handler env rq p arg version Ack_Alert = ack_alert p (arg ''alert_id'')"
| "handler env rq p arg version Whoami =
     bind_s (query (whoami p)) (\<lambda>fields. ret (answer 200 fields))"

section \<open>The application\<close>

text \<open>The middleware labels what \<^verbatim>\<open>call_next\<close> returns.\<close>

definition attach_request_id :: "app_env \<Rightarrow> response \<Rightarrow> response" where
  "attach_request_id env r = r\<lparr>resp_headers := resp_headers r @ [(''X-TrueFigure-Request-Id'', ap_request_id env)]\<rparr>"

definition failed :: "app_env \<Rightarrow> framework \<Rightarrow> exn \<Rightarrow> response result" where
  "failed env fw x =
     bind_r (handle_exn (ap_request_id env) (ap_schema_version env) (ap_as_of env) x) (\<lambda>r.
       Inr (if fw_inside fw x then attach_request_id env r else r))"

definition answered :: "app_env \<Rightarrow> framework \<Rightarrow> answer result \<Rightarrow> response result" where
  "answered env fw r =
     (case r of
        Inl x \<Rightarrow> failed env fw x
      | Inr a \<Rightarrow> Inr (attach_request_id env
          (ok_response (ap_request_id env) (ap_schema_version env) (ap_as_of env) a)))"

definition path_value :: "(string \<times> string) list \<Rightarrow> string \<Rightarrow> string" where
  "path_value b name = (case map_of b name of None \<Rightarrow> [] | Some v \<Rightarrow> v)"

text \<open>The one path parameter that is declared an integer.\<close>

definition int_arg :: "framework \<Rightarrow> endpoint \<Rightarrow> (string \<times> string) list \<Rightarrow> int option" where
  "int_arg fw e b = (if e = Get_Parameter_Version then fw_int fw (path_value b ''version'') else Some 0)"

definition handle_request :: "app_env \<Rightarrow> framework \<Rightarrow> http_call \<Rightarrow> sys \<Rightarrow> sys \<times> response result" where
  "handle_request env fw rq s =
     (case find_route (fw_matches fw) (hc_verb rq) (hc_path rq) of
        None \<Rightarrow> (s, Inr (attach_request_id env (fw_unrouted fw rq)))
      | Some (e, b) \<Rightarrow>
          (case require_principal (ap_sha256 env) (ap_environment env) s (hc_header rq ''authorization'') of
             Inl x \<Rightarrow> (s, failed env fw x)
           | Inr p \<Rightarrow>
               (case int_arg fw e b of
                  None \<Rightarrow> (s, Inr (attach_request_id env (fw_invalid fw rq)))
                | Some version \<Rightarrow>
                    (case handler env rq p (path_value b) version e s of
                       (t, r) \<Rightarrow> (t, answered env fw r)))))"

end
