(* ===== verification/Answers.thy ===== *)
theory Answers
  imports AppRoutes Imports Declarations ReadPlane
begin

text \<open>
  What the handlers may answer: an exception of the contract always carries an entry of the
  error registry, whatever path raised it, and an answer carries data, except where a
  deployment has no license.
\<close>

section \<open>Errors of the registry\<close>

definition raises_ok :: "exn \<Rightarrow> bool" where
  "raises_ok x \<longleftrightarrow> (\<forall>e. x = TFExn e \<longrightarrow> registered e)"

text \<open>A result, and a computation, whose contract errors are registered and whose values satisfy \<open>P\<close>.\<close>

definition good :: "('a \<Rightarrow> bool) \<Rightarrow> 'a result \<Rightarrow> bool" where
  "good P r \<longleftrightarrow> (case r of Inl x \<Rightarrow> raises_ok x | Inr a \<Rightarrow> P a)"

definition goods :: "('a \<Rightarrow> bool) \<Rightarrow> ('s, 'a) st \<Rightarrow> bool" where
  "goods P m \<longleftrightarrow> (\<forall>s. good P (snd (m s)))"

abbreviation fine :: "'a result \<Rightarrow> bool" where "fine \<equiv> good (\<lambda>_. True)"
abbreviation fines :: "('s, 'a) st \<Rightarrow> bool" where "fines \<equiv> goods (\<lambda>_. True)"

lemma raises_ok_simps [simp]:
  "raises_ok (RejectExn e)" "raises_ok TimestampError" "raises_ok ValueError" "raises_ok TypeError" "raises_ok KeyError"
  "raises_ok AttributeError" "raises_ok FileNotFoundError" "raises_ok AssertionError" "raises_ok OverflowError"
  "raises_ok DatabaseError" "raises_ok SystemExit" "raises_ok OSError" "raises_ok TimeoutError" "raises_ok VerificationError"
  "raises_ok RuntimeError" "raises_ok HTTPStatusError" "raises_ok (TrueFigureError es rid)" "raises_ok (RateLimited es rid)"
  "raises_ok (TFExn err) \<longleftrightarrow> registered err"
  by (simp_all add: raises_ok_def)

lemma raises_ok_tf [simp]: "raises_ok (tf_raise c fp ra d)"
proof (cases "c \<in> set code_ids")
  case True
  then show ?thesis using tf_raise_known [of c fp ra d] by auto
next
  case False
  then show ?thesis by (simp add: tf_raise_def mk_tf_error_unknown)
qed

lemma good_simps [simp]: "good P (Inl x) \<longleftrightarrow> raises_ok x" "good P (Inr a) \<longleftrightarrow> P a"
  by (simp_all add: good_def)

lemma good_Inl: "good P r \<Longrightarrow> r = Inl x \<Longrightarrow> raises_ok x"
  by simp

lemma good_if: "(c \<Longrightarrow> good P a) \<Longrightarrow> (\<not> c \<Longrightarrow> good P b) \<Longrightarrow> good P (if c then a else b)"
  by simp

lemma raises_ok_reject [simp]: "raises_ok (mk_reject c fp d)"
  by (auto simp: mk_reject_def mk_tf_error_def get_code_def bind_r_def split: sum.split option.split)

lemma good_bind_r:
  assumes "fine r" "\<And>x. good P (f x)"
  shows "good P (bind_r r f)"
  using assms by (cases r) simp_all

lemma goods_basic:
  "P x \<Longrightarrow> goods P (ret x)" "raises_ok e \<Longrightarrow> goods P (raise e)" "good P r \<Longrightarrow> goods P (lift_r r)"
  "(\<And>s. P (f s)) \<Longrightarrow> goods P (reads f)" "(\<And>s. good P (h s)) \<Longrightarrow> goods P (query h)" "Q () \<Longrightarrow> goods Q (writes g)"
  by (simp_all add: goods_def ret_def raise_def lift_r_def reads_def query_def writes_def)

lemma goods_bind:
  assumes "fines m" "\<And>x. goods P (k x)"
  shows "goods P (bind_s m k)"
  unfolding goods_def
proof
  fix s
  obtain t r where m: "m s = (t, r)" by fastforce
  have "fine (snd (m s))" using assms(1) by (simp add: goods_def)
  with m have "fine r" by simp
  moreover have "good P (snd (k x t))" for x using assms(2) by (simp add: goods_def)
  ultimately show "good P (snd (bind_s m k s))" by (cases r) (simp_all add: bind_s_apply m)
qed

lemma goods_transaction: "goods P m \<Longrightarrow> goods P (transaction m)"
  unfolding goods_def transaction_def by (auto split: prod.splits sum.splits) (metis snd_conv good_simps)+

lemma goods_catch:
  assumes "goods P m" "\<And>e k. h e = Some k \<Longrightarrow> goods P k"
  shows "goods P (catch m h)"
  unfolding goods_def
proof
  fix s
  obtain t r where m: "m s = (t, r)" by fastforce
  have r: "good P r" using assms(1) m by (metis goods_def snd_conv)
  have k: "h e = Some k \<Longrightarrow> good P (snd (k t))" for e k using assms(2) by (simp add: goods_def)
  show "good P (snd (catch m h s))"
    using r k by (cases r) (auto simp: catch_def m split: option.split)
qed

lemma goods_loop: "(\<And>x. fines (f x)) \<Longrightarrow> fines (for_each f xs)"
  by (induction xs) (auto intro!: goods_bind goods_basic)

lemma fine_all_r: "(\<And>x. fine (f x)) \<Longrightarrow> fine (all_r f ys)"
  by (induction ys) (auto intro!: good_bind_r)

lemma fine_opt_r: "(\<And>x. fine (f x)) \<Longrightarrow> fine (opt_r f o')"
  by (auto simp: opt_r_def intro!: good_bind_r split: option.split)

lemmas goods_rules = goods_bind goods_basic goods_transaction goods_loop good_bind_r fine_all_r fine_opt_r

section \<open>The columns and references\<close>

lemma fine_columns: "fine (int4 n)" "fine (char3 c)" "fine (parse_enum labels x)" "fine (filter_of labels y)"
  "fine (new_ref tok kind)" "fine (encode_id kind' i)"
  by (auto simp: int4_def char3_def parse_enum_def filter_of_def new_ref_def encode_id_def ref_prefix_def fine_opt_r intro!: good_bind_r
      split: option.split)

lemma fine_deployments:
  "fine (require_deployment p d)" "fine (resolve_deployment p ref s)" "fine (read_deployment p ref s)"
  by (auto simp: require_deployment_def resolve_deployment_def read_deployment_def split: option.split intro!: good_bind_r)

lemma fine_body: "fine (parse_body validate code body)"
  by (auto simp: parse_body_def split: json.split sum.split)

section \<open>The handlers of the configuration\<close>

text \<open>What a handler answers: a status of success and, but for \<open>get_license\<close>, data.\<close>

definition has_data :: "answer \<Rightarrow> bool" where
  "has_data a \<longleftrightarrow> (case a of (status, data, dep) \<Rightarrow> status \<in> {200, 201} \<and> data \<noteq> JNull)"

lemma has_data_simps [simp]:
  "has_data (200, JObj kvs, dep)" "has_data (answer 200 kvs)" "has_data (answer 201 kvs)" "has_data (listing items)"
  by (simp_all add: has_data_def answer_def listing_def)

text \<open>The database's readings of text and numbers raise no error of the contract by themselves.\<close>

definition columns_fine :: "config_env \<Rightarrow> bool" where
  "columns_fine env \<longleftrightarrow> (\<forall>x. fine (cfg_date env x)) \<and> (\<forall>x. fine (cfg_instant env x)) \<and> (\<forall>q. fine (cfg_numeric env q))"

lemma columns_fineD: "columns_fine env \<Longrightarrow> fine (cfg_date env x)" "columns_fine env \<Longrightarrow> fine (cfg_instant env x)"
  "columns_fine env \<Longrightarrow> fine (cfg_numeric env q)"
  by (simp_all add: columns_fine_def)

lemma fine_keystream: "fine (keystream_loop m n k bs c)"
proof (induction m n k bs c rule: keystream_loop.induct)
  case (1 m n k bs c)
  show ?case
    unfolding keystream_loop.simps [of m n k bs c] using "1.IH" by auto
qed

lemma fine_encrypt: "fine (encrypt sha hmac setting secret)"
  by (auto simp: encrypt_def keystream_def Let_def intro!: good_bind_r fine_keystream)

lemma config_answers:
  assumes "columns_fine env"
  shows "goods has_data (register_deployment env p b1)" "goods has_data (update_deployment env p ref b2)"
    "goods has_data (upsert_roster env p b3)" "goods has_data (declare_license env p ref b4)"
    "goods has_data (register_id_namespace p b5)" "goods has_data (create_parameter_version env p b6)"
    "goods has_data (register_label_schema p b7)" "goods has_data (create_webhook env p b8)"
    "goods has_data (delete_webhook p ref)" "goods has_data (declare_change_event env p b10)"
    "goods has_data (create_mapping_contract p b11)"
proof -
  note rules = goods_rules fine_columns fine_deployments columns_fineD [OF assms] fine_encrypt
  show "goods has_data (register_deployment env p b1)"
    by (auto simp: register_deployment_def already_registered_def insert_deployment_def link_service_user_def
        intro!: rules split: option.split)
  show "goods has_data (update_deployment env p ref b2)"
    by (auto simp: update_deployment_def type_change_allowed_def intro!: rules)
  have "fines (upsert_roster_item env p item)" for item
    unfolding upsert_roster_item_def upsert_user_def claim_identifier_def
    by (rule goods_catch) (auto intro!: rules split: option.split exn.splits)
  then show "goods has_data (upsert_roster env p b3)"
    by (auto simp: upsert_roster_def intro!: rules)
  show "goods has_data (declare_license env p ref b4)"
    by (auto simp: declare_license_def close_license_def licensed_user_def intro!: rules)
  show "goods has_data (register_id_namespace p b5)"
    by (auto simp: register_id_namespace_def namespace_scope_def intro!: rules)
  show "goods has_data (create_parameter_version env p b6)"
    by (auto simp: create_parameter_version_def intro!: rules)
  show "goods has_data (register_label_schema p b7)"
    by (auto simp: register_label_schema_def intro!: rules)
  show "goods has_data (create_webhook env p b8)"
    by (auto simp: create_webhook_def check_event_types_def intro!: rules split: option.split)
  show "goods has_data (delete_webhook p ref)"
    by (auto simp: delete_webhook_def intro!: rules)
  show "goods has_data (declare_change_event env p b10)"
    by (auto simp: declare_change_event_def supersede_def link_change_def intro!: rules split: option.split)
  show "goods has_data (create_mapping_contract p b11)"
    by (auto simp: create_mapping_contract_def intro!: rules)
qed

section \<open>The handlers that read\<close>

text \<open>The one answer of a success without data: no license in force.\<close>

definition no_license :: "answer \<Rightarrow> bool" where
  "no_license a \<longleftrightarrow> (case a of (status, data, dep) \<Rightarrow> status = 200 \<and> data = JNull)"

lemma license_answers: "goods (\<lambda>a. has_data a \<or> no_license a) (query (get_license env p ref))"
  by (auto simp: get_license_def license_fields_def no_license_def
      intro!: goods_rules fine_deployments fine_columns split: option.split)

lemma fine_items: "fine (namespace_item s n)" "fine (mapping_item m)"
  by (auto simp: namespace_item_def mapping_item_def intro!: good_bind_r fine_columns)

lemma config_reads:
  "good has_data (list_deployments p s)" "good has_data (get_deployment p ref s)" "good has_data (list_roster p st kd s)"
  "good has_data (list_id_namespaces p s)" "good has_data (list_parameter_versions p s)"
  "good has_data (get_parameter_version p v s)" "good has_data (list_label_schemas p s)" "good has_data (list_webhooks p s)"
  "good has_data (list_change_events p s)" "good has_data (list_mapping_contracts p s)"
  by (auto simp: list_deployments_def get_deployment_def list_roster_def list_id_namespaces_def list_parameter_versions_def
      get_parameter_version_def list_label_schemas_def list_webhooks_def list_change_events_def list_mapping_contracts_def
      intro!: good_bind_r fine_all_r fine_deployments fine_columns fine_items split: option.split)

lemma fine_dates: "fine (mk_date y m d)" "fine (prev_day dt)" "fine (period_bounds period)"
proof -
  show m: "fine (mk_date y m d)" for y m d by (simp add: mk_date_def)
  show d: "fine (prev_day dt)" for dt by (simp add: prev_day_def split: prod.split)
  show "fine (period_bounds period)"
    by (auto simp: period_bounds_def Let_def intro!: good_bind_r m d split: option.split)
qed

lemma fine_cost_lines:
  assumes "\<And>j. fine (fl_of_json fl j)"
  shows "fine (cost_lines fl prices us acc)"
proof (induction us arbitrary: acc)
  case (Cons u us)
  have "fine (cost_line fl prices u acc)"
    by (auto simp: cost_line_def dict_get_def Let_def intro!: good_bind_r assms split: prod.split json.split option.split)
  with Cons.IH show ?case by (auto intro!: good_bind_r)
qed simp

lemma usage_data_object: "\<exists>kvs. usage_data fl active lic = JObj kvs"
  by (auto simp: usage_data_def Let_def split: option.split)

lemma read_answers:
  assumes "\<And>j. fine (fl_of_json (rd_floats env) j)"
  shows "good has_data (list_figures env p ref period s)" "good has_data (get_figure env p ref fig s)"
    "good has_data (figure_lineage p ref fig s)" "good has_data (list_reports env p ref s)"
    "good has_data (get_report env p ref rep s)" "good has_data (live_usage env p ref s)"
    "good has_data (live_cost env p ref period s)" "good has_data (live_health env p ref s)"
    "good has_data (list_alerts env p st s)" "good has_data (webhook_deliveries_log env p ref s)"
proof -
  note rules = good_bind_r fine_deployments fine_columns fine_dates fine_cost_lines assms
  have f: "fine (newest_figure d r s)" for d r by (simp add: newest_figure_def split: option.split)
  show "good has_data (list_figures env p ref period s)"
    by (auto simp: list_figures_def Let_def intro!: rules)
  show "good has_data (get_figure env p ref fig s)"
    by (auto simp: get_figure_def figure_dict_def intro!: rules f)
  show "good has_data (figure_lineage p ref fig s)"
    by (auto simp: figure_lineage_def lineage_dict_def intro!: rules f)
  show "good has_data (list_reports env p ref s)" by (auto simp: list_reports_def intro!: rules)
  show "good has_data (get_report env p ref rep s)"
    by (auto simp: get_report_def intro!: rules split: option.split)
  show "good has_data (live_usage env p ref s)"
    using usage_data_object by (auto simp: live_usage_def intro!: rules) (metis has_data_simps(1))
  show "good has_data (live_cost env p ref period s)"
    by (auto simp: live_cost_def Let_def intro!: rules split: prod.split)
  show "good has_data (live_health env p ref s)" by (auto simp: live_health_def Let_def intro!: rules)
  show "good has_data (list_alerts env p st s)" by (auto simp: list_alerts_def intro!: rules)
  show "good has_data (webhook_deliveries_log env p ref s)"
    by (auto simp: webhook_deliveries_log_def split: option.split)
qed

section \<open>Ingestion and imports\<close>

definition ingest_fine :: "ingest_env \<Rightarrow> bool" where
  "ingest_fine env \<longleftrightarrow> (\<forall>r v. fine (env_re_search env r v)) \<and> (\<forall>j. fine (env_bind_text env j))"

lemma fine_subscripts: "fine (subscript pl k)" "fine (subscripts pl ks)" "fine (str_parts js)"
proof -
  show s: "fine (subscript pl k)" for k by (simp add: subscript_def split: option.split)
  show "fine (subscripts pl ks)" by (induction ks) (auto intro!: good_bind_r s)
  show "fine (str_parts js)" by (induction js rule: str_parts.induct) (auto intro!: good_bind_r)
qed

lemma fine_times: "fine (canonical_ts ts)" "fine (strptime_ms t)" "fine (days_before now n)"
  by (auto simp: canonical_ts_def parse_ts_def astimezone_utc_def strptime_ms_def days_before_def Let_def
      intro!: good_bind_r fine_dates split: json.split option.split)

lemma fine_event_key: "fine (event_key sha d ety pl scope)"
proof -
  have "fine (key_parts d ety pl ts)" for ts
    unfolding key_parts_def by (intro good_if good_bind_r fine_subscripts) simp_all
  then show ?thesis
    unfolding event_key_def natural_key_def by (intro good_bind_r fine_subscripts fine_times) simp_all
qed

lemma fine_check_event: "fine (check_event env ev hz)"
proof -
  have "fine (scan_keys sc ks)" for sc ks by (induction sc ks rule: scan_keys.induct) auto
  moreover have "fine (validate_structure env ev)"
    by (auto simp: validate_structure_def Let_def intro!: good_bind_r split: option.split json.split list.split)
  moreover have "fine (check_timestamp env pl hz)" for pl
  proof (cases "canonical_ts (json_get_or pl ''timestamp'' JNull)")
    case (Inl x)
    then have "raises_ok x" by (rule good_Inl [OF fine_times(1)])
    with Inl show ?thesis by (cases x) (simp_all add: check_timestamp_def)
  next
    case (Inr ts)
    then show ?thesis by (auto simp: check_timestamp_def Let_def intro!: good_bind_r fine_times)
  qed
  ultimately show ?thesis
    by (auto simp: check_event_def scan_forbidden_fields_def payload_dict_def Let_def
        intro!: good_bind_r fine_subscripts split: json.split)
qed

lemma fines_process_one:
  assumes "ingest_fine env"
  shows "fines (process_one env p event i src hz)"
proof -
  have ids: "fine (check_ids env s ws d sr fs)" for s ws d sr fs
  proof (induction fs)
    case (Cons f fs)
    obtain field v where "f = (field, v)" by (cases f)
    then show ?case
      using assms Cons.IH by (auto simp: ingest_fine_def intro!: good_bind_r split: option.split)
  qed simp
  have dep: "fine (resolve_dep env p w s)" for w s
    by (auto simp: resolve_dep_def intro!: good_bind_r fine_deployments split: json.split option.split)
  have ins: "fines (insert_event p d ety org sv key ts sr pl)" for d ety org sv key ts sr pl
    by (auto simp: insert_event_def intro!: goods_basic split: json.split sum.split option.split)
  have "fines (store_event env p ev ety pl ts i src)" for ev ety pl ts
    unfolding store_event_def check_namespaces_def
    by (auto intro!: goods_rules fine_subscripts fine_event_key ids dep ins)
  then have "fines (try_event env p event i src hz)"
    by (auto simp: try_event_def intro!: goods_rules fine_check_event split: json.split prod.split)
  moreover have "fines (reject_event env p event i src err)" for err
  proof -
    have key: "fine (safe_key env event)"
    proof (cases event)
      case (JObj ev)
      let ?r = "event_key (env_sha256 env)
                  (JStr (py_str (env_float_repr env) (json_get_or ev ''deployment_id'' (JStr []))))
                  (JStr (py_str (env_float_repr env) (json_get_or ev ''event_type'' (JStr []))))
                  (case json_get ev ''payload'' of Some (JObj p) \<Rightarrow> p | _ \<Rightarrow> [])
                  (json_get_or ev ''idempotency_scope'' JNull)"
      have "fine ?r" by (rule fine_event_key)
      then show ?thesis unfolding safe_key_def JObj json.case by (cases ?r) (simp_all only: sum.case good_simps, simp)
    qed (simp_all add: safe_key_def)
    have "fine (maybe_enum j)" for j by (simp add: maybe_enum_def split: json.split)
    then have "fines (quarantine env p event err src k)" for k
      using assms by (auto simp: quarantine_def ingest_fine_def Let_def intro!: goods_rules)
    then show ?thesis
      unfolding reject_event_def by (intro goods_bind goods_basic key) (simp_all add: goods_basic)
  qed
  ultimately show ?thesis
    unfolding process_one_def by (auto intro!: goods_catch split: exn.splits)
qed

lemma fines_ingest:
  assumes "ingest_fine env"
  shows "fines (ingest_events env p src raw)"
proof -
  have parse: "fine (parse_batch env raw)"
    unfolding parse_batch_def by (intro good_if) (simp_all split: option.split json.split)
  have rate: "fines (check_rate ws rpm now)" for ws rpm now
    by (auto simp: check_rate_def Let_def intro!: goods_rules)
  have quota: "fine (check_quota ws now s)" for ws now s
    by (simp add: check_quota_def split: option.split)
  have batch: "fines (process_batch env p src hz evs)" for hz evs
    unfolding process_batch_def by (auto intro!: goods_loop fines_process_one assms)
  show ?thesis
    unfolding ingest_events_def by (intro goods_bind rate batch goods_basic parse quota TrueI)
qed

lemma fine_lookups: "fine (event_status p key s)" "fine (Imports.import_status p ref s)" "fine (whoami p s)"
  by (auto simp: event_status_def Imports.import_status_def whoami_def split: option.split list.split)

lemma fines_actions: "fines (create_import p kind n src ref)" "goods has_data (ack_alert p ref)"
  by (auto simp: create_import_def ack_alert_def Let_def intro!: goods_rules)

end
