(* ===== verification/AppSafe.thy ===== *)
theory AppSafe
  imports App Answers
begin

text \<open>
  What holds of every request the application serves: which of them change the state, in
  which state they leave it, and that every answer of a handler is an envelope of the
  contract.
\<close>

section \<open>Which requests change the state\<close>

lemma query_state: "fst (query f s) = s" "fst (bind_s (query f) (\<lambda>x. ret (g x)) s) = s"
  by (auto simp: query_def bind_s_def ret_def split: sum.split)

lemma get_handler_reads: "(''GET'', t, e) \<in> set routes \<Longrightarrow> fst (handler env rq p arg version e s) = s"
  by (auto simp: routes_defs query_state)

lemma find_route_in:
  "find_route matches verb path = Some (e, b) \<Longrightarrow> \<exists>t. (verb, t, e) \<in> set routes \<and> matches t path = Some b"
  by (auto simp: find_route_def find_Some_iff split: option.splits) (metis nth_mem)

lemma serve_cases:
  obtains (unrouted) "find_route (fw_matches fw) (hc_verb rq) (hc_path rq) = None"
      "handle_request env fw rq s = (s, Inr (attach_request_id env (fw_unrouted fw rq)))"
  | (refused) e b x where "find_route (fw_matches fw) (hc_verb rq) (hc_path rq) = Some (e, b)"
      "require_principal (ap_sha256 env) (ap_environment env) s (hc_header rq ''authorization'') = Inl x"
      "handle_request env fw rq s = (s, failed env fw x)"
  | (invalid) b p where "find_route (fw_matches fw) (hc_verb rq) (hc_path rq) = Some (Get_Parameter_Version, b)"
      "require_principal (ap_sha256 env) (ap_environment env) s (hc_header rq ''authorization'') = Inr p"
      "fw_int fw (path_value b ''version'') = None"
      "handle_request env fw rq s = (s, Inr (attach_request_id env (fw_invalid fw rq)))"
  | (handled) e b p version t r where "find_route (fw_matches fw) (hc_verb rq) (hc_path rq) = Some (e, b)"
      "require_principal (ap_sha256 env) (ap_environment env) s (hc_header rq ''authorization'') = Inr p"
      "int_arg fw e b = Some version"
      "handler env rq p (path_value b) version e s = (t, r)"
      "handle_request env fw rq s = (t, answered env fw r)"
proof (cases "find_route (fw_matches fw) (hc_verb rq) (hc_path rq)")
  case None
  then show ?thesis by (intro unrouted) (simp_all add: handle_request_def)
next
  case found: (Some eb)
  obtain e b where eb: "eb = (e, b)" by (cases eb)
  show ?thesis
  proof (cases "require_principal (ap_sha256 env) (ap_environment env) s (hc_header rq ''authorization'')")
    case (Inl x)
    then show ?thesis using found eb by (intro refused) (simp_all add: handle_request_def)
  next
    case (Inr p)
    show ?thesis
    proof (cases "int_arg fw e b")
      case None
      then have "e = Get_Parameter_Version" "fw_int fw (path_value b ''version'') = None"
        by (auto simp: int_arg_def split: if_splits)
      then show ?thesis using found eb Inr None by (intro invalid) (simp_all add: handle_request_def)
    next
      case (Some version)
      obtain t r where h: "handler env rq p (path_value b) version e s = (t, r)" by (metis surj_pair)
      show ?thesis
        by (rule handled [OF _ Inr Some h]) (simp_all add: found eb handle_request_def Inr Some h)
    qed
  qed
qed

lemma get_is_safe: "hc_verb rq = ''GET'' \<Longrightarrow> fst (handle_request env fw rq s) = s"
proof (cases rule: serve_cases [of fw rq env s])
  case (handled e b p version t r)
  assume "hc_verb rq = ''GET''"
  with handled(1) obtain tm where "(''GET'', tm, e) \<in> set routes" using find_route_in by metis
  from get_handler_reads [OF this, of env rq p "path_value b" version s] handled(4,5) show ?thesis by simp
qed simp_all

section \<open>Every request is a run of the system\<close>

interpretation runs: evolution "(system_step numeric)\<^sup>*\<^sup>*" for numeric
  by unfold_locales auto

lemma runs_step: "(\<And>s t r. m s = (t, r) \<Longrightarrow> system_step numeric s t) \<Longrightarrow> evolves (system_step numeric)\<^sup>*\<^sup>* m"
  unfolding evolves_def by (metis prod.collapse r_into_rtranclp)

lemma runs_config: "(\<And>s t r. m s = (t, r) \<Longrightarrow> config_step env p s t) \<Longrightarrow> evolves (system_step numeric)\<^sup>*\<^sup>* m"
  by (rule runs_step) (blast intro: system_step.Configuring)

lemma runs_operations:
  "evolves (system_step numeric)\<^sup>*\<^sup>* (ingest_events env p src raw)"
  "evolves (system_step numeric)\<^sup>*\<^sup>* (create_import p kind n isrc ref)"
  "evolves (system_step numeric)\<^sup>*\<^sup>* (ack_alert p aref)"
  by (rule runs_step, erule system_step.intros)+

lemma runs_configuration:
  "evolves (system_step numeric)\<^sup>*\<^sup>* (register_deployment env p b1)"
  "evolves (system_step numeric)\<^sup>*\<^sup>* (update_deployment env p ref b2)"
  "evolves (system_step numeric)\<^sup>*\<^sup>* (upsert_roster env p b3)"
  "evolves (system_step numeric)\<^sup>*\<^sup>* (declare_license env p ref b4)"
  "evolves (system_step numeric)\<^sup>*\<^sup>* (register_id_namespace p b5)"
  "evolves (system_step numeric)\<^sup>*\<^sup>* (create_parameter_version env p b6)"
  "evolves (system_step numeric)\<^sup>*\<^sup>* (register_label_schema p b7)"
  "evolves (system_step numeric)\<^sup>*\<^sup>* (create_webhook env p b8)"
  "evolves (system_step numeric)\<^sup>*\<^sup>* (delete_webhook p ref)"
  "evolves (system_step numeric)\<^sup>*\<^sup>* (declare_change_event env p b10)"
  "evolves (system_step numeric)\<^sup>*\<^sup>* (create_mapping_contract p b11)"
  by (rule runs_config, erule config_step.intros)+

lemma handler_runs: "evolves (system_step numeric)\<^sup>*\<^sup>* (handler env rq p arg version e)"
  by (cases e) (auto simp: with_body_def post_parameters_def post_import_def
      intro!: runs.bind runs.basic runs_operations runs_configuration)

lemma serve_runs:
  assumes "handle_request env fw rq s = (t, r)"
  shows "(system_step numeric)\<^sup>*\<^sup>* s t"
  using assms by (cases rule: serve_cases [of fw rq env s]) (auto dest: evolvesD [OF handler_runs])

section \<open>Who is let in\<close>

definition refusal :: "exn \<Rightarrow> bool" where
  "refusal x \<longleftrightarrow> (\<exists>e. x = TFExn e \<and> registered e \<and> err_code e \<in> {''TF-AUTH-001'', ''TF-AUTH-003''})"

lemma refusals: "refusal (tf_raise ''TF-AUTH-001'' fp ra d)" "refusal (tf_raise ''TF-AUTH-003'' fp ra d)"
proof -
  have "''TF-AUTH-001'' \<in> set code_ids" "''TF-AUTH-003'' \<in> set code_ids"
    by (simp_all add: code_ids_def registry_codes_def)
  from this [THEN tf_raise_known] show "refusal (tf_raise ''TF-AUTH-001'' fp ra d)" "refusal (tf_raise ''TF-AUTH-003'' fp ra d)"
    unfolding refusal_def by blast+
qed

lemma refused_code: "require_principal sha256 environment s header = Inl x \<Longrightarrow> refusal x"
  unfolding require_principal_def extract_bearer_def resolve_key_def Let_def bind_r_def
  by (simp split: option.splits sum.splits if_splits) (auto simp: refusals)

text \<open>
  C5: Requests are safe. Whatever request comes in a reachable state, whoever sends it, and
  whatever the framework, the invariants of all components hold afterwards; a request that
  authenticates nobody, matches no route or reads changes nothing at all, and the refused one
  is answered with the status and the single error of an authentication code.
\<close>

theorem request_safe:
  assumes "(system_step numeric)\<^sup>*\<^sup>* migrated s" and "handle_request env fw rq s = (t, r)"
  shows "system_ok numeric t \<and> (hc_verb rq = ''GET'' \<longrightarrow> t = s)
     \<and> (find_route (fw_matches fw) (hc_verb rq) (hc_path rq) = None \<longrightarrow> t = s)
     \<and> (\<forall>e b x. find_route (fw_matches fw) (hc_verb rq) (hc_path rq) = Some (e, b)
          \<and> require_principal (ap_sha256 env) (ap_environment env) s (hc_header rq ''authorization'') = Inl x \<longrightarrow>
          t = s \<and> (\<exists>err answer. r = Inr answer \<and> err_code err \<in> {''TF-AUTH-001'', ''TF-AUTH-003''}
            \<and> resp_status answer = err_http err
            \<and> resp_body answer = envelope JNull (ap_request_id env) (ap_schema_version env) [to_error_object err]
                None None (ap_as_of env)))"
proof -
  have "system_ok numeric t"
    using reachable_ok [OF rtranclp_trans [OF assms(1) serve_runs [OF assms(2)]]] .
  moreover have "hc_verb rq = ''GET'' \<Longrightarrow> t = s" using get_is_safe [of rq env fw s] assms(2) by simp
  moreover have "t = s \<and> (\<exists>err answer. r = Inr answer \<and> err_code err \<in> {''TF-AUTH-001'', ''TF-AUTH-003''}
            \<and> resp_status answer = err_http err
            \<and> resp_body answer = envelope JNull (ap_request_id env) (ap_schema_version env) [to_error_object err]
                None None (ap_as_of env))"
    if "find_route (fw_matches fw) (hc_verb rq) (hc_path rq) = Some (e, b)"
      and p: "require_principal (ap_sha256 env) (ap_environment env) s (hc_header rq ''authorization'') = Inl x" for e b x
  proof -
    obtain err where err: "x = TFExn err" "err_code err \<in> {''TF-AUTH-001'', ''TF-AUTH-003''}"
      using refused_code [OF p] by (auto simp: refusal_def)
    have "handle_request env fw rq s = (s, failed env fw x)" using that by (simp add: handle_request_def)
    with assms(2) err show ?thesis
      by (auto simp: failed_def handle_exn_def handle_tf_error_def attach_request_id_def)
  qed
  moreover have "find_route (fw_matches fw) (hc_verb rq) (hc_path rq) = None \<Longrightarrow> t = s"
    using assms(2) by (simp add: handle_request_def)
  ultimately show ?thesis by blast
qed

section \<open>Every answer is an envelope\<close>

text \<open>What the server's parameters raise is not of the contract, or registered.\<close>

definition app_fine :: "app_env \<Rightarrow> bool" where
  "app_fine env \<longleftrightarrow> columns_fine (ap_config env) \<and> ingest_fine (ap_ingest env)
     \<and> (\<forall>j. fine (fl_of_json (rd_floats (ap_read env)) j))"

definition answers_as :: "endpoint \<Rightarrow> answer \<Rightarrow> bool" where
  "answers_as e a \<longleftrightarrow> has_data a \<or> (e = Get_License \<and> no_license a)"

lemma goods_mono: "goods P m \<Longrightarrow> (\<And>a. P a \<Longrightarrow> Q a) \<Longrightarrow> goods Q m"
  by (auto simp: goods_def good_def split: sum.splits)

lemma goods_query: "(\<And>s. good has_data (f s)) \<Longrightarrow> goods (answers_as e) (query f)"
  by (rule goods_mono [of has_data]) (auto simp: answers_as_def intro: goods_basic)

lemma goods_data: "goods has_data m \<Longrightarrow> goods (answers_as e) m"
  by (erule goods_mono) (simp add: answers_as_def)

lemma goods_body: "(\<And>b. goods has_data (k b)) \<Longrightarrow> goods has_data (with_body env rq validate k)"
  by (auto simp: with_body_def json_body_def intro!: goods_bind goods_basic good_bind_r fine_body split: option.split)

lemma handler_answers:
  assumes "app_fine env"
  shows "goods (answers_as e) (handler env rq p arg version e)"
proof -
  have c: "columns_fine (ap_config env)" and i: "ingest_fine (ap_ingest env)"
    and f: "\<And>j. fine (fl_of_json (rd_floats (ap_read env)) j)"
    using assms by (simp_all add: app_fine_def)
  have import: "goods has_data (post_import env p body)" for body
    by (auto simp: post_import_def intro!: goods_rules fine_columns fines_actions)
  have params: "goods has_data (post_parameters env rq p)"
    by (auto simp: post_parameters_def intro!: goods_basic goods_body config_answers [OF c])
  show ?thesis
    by (cases e; simp only: handler.simps)
      ((rule goods_query, rule config_reads read_answers [OF f])
       | (rule goods_data, rule goods_body, rule config_answers [OF c] import)
       | (rule goods_data, rule config_answers [OF c] fines_actions params)
       | (rule goods_data, rule goods_bind, rule fines_ingest [OF i], simp add: goods_basic)
       | (rule goods_data, rule goods_bind, rule goods_basic, rule fine_lookups, simp add: goods_basic)
       | (rule goods_mono [OF license_answers], simp add: answers_as_def))+
qed

text \<open>
  C6: Every answer of a handler is the envelope. A request that is routed, with an integer where
  the path declares one, is always answered, by the middleware's request id and the schema
  version of the settings: either with a status of success, no error and data, which only
  the license of a deployment without one leaves null, or with null and exactly one error of
  the registry, whose status is the answer's. No input makes an exception leave the
  application, and no error carries a code, status or retry flag of its own making.
\<close>

theorem every_answer_enveloped:
  assumes "app_fine env" and "find_route (fw_matches fw) (hc_verb rq) (hc_path rq) = Some (e, b)"
    and "int_arg fw e b \<noteq> None"
  shows "\<exists>t r. handle_request env fw rq s = (t, Inr r)
     \<and> ((\<exists>data dep. resp_status r \<in> {200, 201} \<and> (data = JNull \<longrightarrow> e = Get_License)
            \<and> resp_body r = envelope data (ap_request_id env) (ap_schema_version env) [] dep None (ap_as_of env))
        \<or> (\<exists>err. registered err \<and> resp_status r = err_http err
            \<and> resp_body r = envelope JNull (ap_request_id env) (ap_schema_version env) [to_error_object err]
                None None (ap_as_of env)))"
proof -
  have err: "\<exists>r e. failed env fw x = Inr r \<and> registered e \<and> resp_status r = err_http e
      \<and> resp_body r = envelope JNull (ap_request_id env) (ap_schema_version env) [to_error_object e] None None (ap_as_of env)"
    if "raises_ok x" for x
  proof -
    have "\<And>e. x = TFExn e \<Longrightarrow> registered e" using that by (simp add: raises_ok_def)
    from handle_exn_closed [of x "ap_request_id env" "ap_schema_version env" "ap_as_of env", OF this]
    show ?thesis by (auto simp: failed_def attach_request_id_def)
  qed
  obtain version where v: "int_arg fw e b = Some version" using assms(3) by blast
  show ?thesis
  proof (cases "require_principal (ap_sha256 env) (ap_environment env) s (hc_header rq ''authorization'')")
    case (Inl x)
    then have "refusal x" by (rule refused_code)
    then have "raises_ok x" by (auto simp: refusal_def)
    from err [OF this] Inl assms(2) show ?thesis by (auto simp: handle_request_def)
  next
    case (Inr p)
    obtain t q where h: "handler env rq p (path_value b) version e s = (t, q)" by fastforce
    then have run: "handle_request env fw rq s = (t, answered env fw q)" using assms(2) Inr v by (simp add: handle_request_def)
    have good: "good (answers_as e) q"
      using handler_answers [OF assms(1), of e rq p "path_value b" version] h by (metis goods_def snd_conv)
    show ?thesis
    proof (cases q)
      case (Inl x)
      then have "raises_ok x" using good by simp
      from err [OF this] run Inl show ?thesis by (auto simp: answered_def)
    next
      case (Inr a)
      obtain status data dep where a: "a = (status, data, dep)" by (cases a)
      with run Inr good show ?thesis
        by (auto simp: answered_def ok_response_def attach_request_id_def answers_as_def has_data_def no_license_def)
    qed
  qed
qed

section \<open>Where an answer misleads\<close>

text \<open>The framework handles \<^verbatim>\<open>TFError\<close> inside the middleware and any other exception outside of it.\<close>

definition handlers_placed :: "framework \<Rightarrow> bool" where
  "handlers_placed fw \<longleftrightarrow> (\<forall>x. fw_inside fw x \<longleftrightarrow> (\<exists>e. x = TFExn e))"

text \<open>The handlers that call \<^verbatim>\<open>request.json()\<close>; the parameters' handler looks at the role first.\<close>

definition body_endpoints :: "endpoint list" where
  "body_endpoints =
     [Register_Deployment, Update_Deployment, Upsert_Roster, Declare_License, Register_Id_Namespace,
      Create_Parameter_Version, Register_Label_Schema, Create_Webhook, Declare_Change_Event, Create_Mapping_Contract, Create_Import]"

lemma unreadable_body: "json_body env rq = Inl x \<Longrightarrow> with_body env rq validate k s = (s, Inl x)"
  by (simp add: with_body_def bind_s_def lift_r_def)

text \<open>
  C39: A body that is no JSON is the server's fault. An authenticated request whose body is
  not JSON, to any handler that calls \<^verbatim>\<open>request.json()\<close> (to the parameters' one by a caller
  with the role \<^verbatim>\<open>finance_params\<close>, who gets that far), changes nothing and is answered with
  status 500 and \<^verbatim>\<open>TF-SRV-001\<close>, which tells the client to try again, instead of the
  malformed field; and since the exception is handled outside the middleware, the answer lacks
  the header with the request's id.
\<close>

theorem malformed_body_retryable:
  assumes "find_route (fw_matches fw) (hc_verb rq) (hc_path rq) = Some (e, b)" and "e \<in> set body_endpoints"
    and "require_principal (ap_sha256 env) (ap_environment env) s (hc_header rq ''authorization'') = Inr p"
    and "e = Create_Parameter_Version \<longrightarrow> ''finance_params'' \<in> set (p_roles p)"
    and "env_loads (ap_ingest env) (hc_body rq) = None" and "handlers_placed fw"
  shows "\<exists>r err. handle_request env fw rq s = (s, Inr r) \<and> resp_status r = 500 \<and> resp_headers r = []
     \<and> resp_body r = envelope JNull (ap_request_id env) (ap_schema_version env) [to_error_object err] None None (ap_as_of env)
     \<and> err_code err = ''TF-SRV-001'' \<and> err_retryable err"
proof -
  have bad: "json_body env rq = Inl ValueError" using assms(5) by (simp add: json_body_def)
  have "handler env rq p (path_value b) 0 e s = (s, Inl ValueError)"
    using assms(2,4) by (auto simp: body_endpoints_def post_parameters_def unreadable_body [OF bad])
  moreover have "int_arg fw e b = Some 0" using assms(2) by (auto simp: body_endpoints_def int_arg_def)
  ultimately have "handle_request env fw rq s = (s, failed env fw ValueError)"
    using assms(1,3) by (simp add: handle_request_def answered_def)
  moreover have "\<not> fw_inside fw ValueError" using assms(6) by (simp add: handlers_placed_def)
  moreover obtain err where "mk_tf_error ''TF-SRV-001'' None None (Some ''internal error'') None = Inr err"
    "err_code err = ''TF-SRV-001'' \<and> err_retryable err \<and> err_http err = 500"
    by (simp add: mk_tf_error_def get_code_def registry_codes_def)
  ultimately show ?thesis
    by (auto simp: failed_def handle_exn_def handle_unexpected_def intro!: exI [of _ err])
qed

end
