(* ===== verification/SdkServed.thy ===== *)
theory SdkServed
  imports AppSafe SdkSafe
begin

text \<open>
  The SDK against the application: a call of the client is sent, routed, authenticated and
  handled, and what the handler answers or raises is what the caller gets.
\<close>

section \<open>The application behind the transport\<close>

text \<open>
  The world of the client is the server's state. \<open>receives\<close> is what the HTTP server makes of
  a request; the answer's header names are lowered by the transport.
\<close>

definition app_answer :: "response result \<Rightarrow> SdkClient.answer" where
  "app_answer r =
     (case r of
        Inr resp \<Rightarrow> (resp_status resp, lower_keys (resp_headers resp), resp_body resp)
      | Inl _ \<Rightarrow> (500, [], http_error_envelope 500 []))"

definition app_transport ::
  "app_env \<Rightarrow> framework \<Rightarrow> (http_request \<Rightarrow> http_call) \<Rightarrow> http_request \<Rightarrow> (sys, SdkClient.answer) st" where
  "app_transport aenv fw receives rq s =
     (case handle_request aenv fw (receives rq) s of (t, r) \<Rightarrow> (t, Inr (app_answer r)))"

text \<open>The query of a URL and the filters an optional argument adds to it.\<close>

definition query_string :: "(string \<times> string) list \<Rightarrow> string" where
  "query_string ps = (if ps = [] then [] else ''?'' @ join ''&'' (map (\<lambda>(k, v). k @ ''='' @ v) ps))"

definition opt_param :: "string \<Rightarrow> string option \<Rightarrow> (string \<times> string) list" where
  "opt_param k v = (if given v then [(k, the v)] else [])"

text \<open>
  What the HTTP server promises: the verb, the path up to the question mark and the
  parameters after it, as they are when none of their characters needs an escape, and the
  header with the key.
\<close>

definition url_plain :: "string \<Rightarrow> bool" where
  "url_plain path \<longleftrightarrow> (\<forall>c \<in> set path. is_url_safe c \<or> c = CHR ''/'' \<or> c = CHR '':'')"

definition query_plain :: "(string \<times> string) list \<Rightarrow> bool" where
  "query_plain ps \<longleftrightarrow> distinct (map fst ps) \<and> list_all (\<lambda>(k, v). url_plain k \<and> url_plain v) ps"

definition received :: "client \<Rightarrow> (http_request \<Rightarrow> http_call) \<Rightarrow> bool" where
  "received c receives \<longleftrightarrow> (\<forall>verb path ps body. url_plain path \<and> query_plain ps \<longrightarrow>
     (let call = receives (the_request c verb (path @ query_string ps) body [])
      in hc_verb call = verb \<and> hc_path call = path \<and> hc_query call = map_of ps
         \<and> hc_header call ''authorization'' = Some (''Bearer '' @ cl_api_key c)))"

section \<open>One request\<close>

lemma request_answered:
  assumes "send_request env rq s = (t, Inr (status, rh, a))" "answer_errors a = Inr []" "answer_request_id rh a = Inr i"
    and "status < 400"
  shows "request_loop env rq n d s = (t, Inr a)"
  using assms by (cases n) (simp_all add: bind_s_apply lift_r_def ret_def)

lemma request_refused:
  assumes "send_request env rq s = (t, Inr (status, rh, a))" "answer_errors a = Inr es" "answer_request_id rh a = Inr i"
    and "es \<noteq> []" "\<not> is_retryable status es"
  shows "request_loop env rq n d s = (t, Inl (request_failed status es i))"
  using assms by (cases n) (simp_all add: bind_s_apply lift_r_def raise_def)

text \<open>The state of the client after one request that the application served.\<close>

definition after_request :: "http_request \<Rightarrow> sys \<Rightarrow> sys sdk \<Rightarrow> sys sdk" where
  "after_request rq t st = st\<lparr>sdk_trace := sdk_trace st @ [Sent rq], sdk_world := t\<rparr>"

lemma send_served:
  assumes "io_transport env = app_transport aenv fw receives" "handle_request aenv fw (receives rq) (sdk_world st) = (t, r)"
  shows "send_request env rq st = (after_request rq t st, Inr (app_answer r))"
  using assms by (simp add: send_request_def bind_s_apply writes_def log_io_def on_world_def app_transport_def
      after_request_def)

text \<open>A call of the client whose path is that of a route, filled with values that need no escape.\<close>

lemma call_served:
  assumes "io_transport env = app_transport aenv fw receives" and "received c receives"
    and "routes_by_segments (fw_matches fw)" and "(verb, tm, e) \<in> set routes"
    and "\<forall>v \<in> set vs. plain_value v" and "length vs = length (param_names tm)" and "url_plain (fill tm vs)"
    and "query_plain ps"
    and "require_principal (ap_sha256 aenv) (ap_environment aenv) (sdk_world st) (Some (''Bearer '' @ cl_api_key c)) = Inr p"
    and "int_arg fw e (zip (param_names tm) vs) = Some version"
    and "rq = the_request c verb (fill tm vs @ query_string ps) body []"
    and "handler aenv (receives rq) p (path_value (zip (param_names tm) vs)) version e (sdk_world st) = (t, r)"
  shows "send_request env rq st = (after_request rq t st, Inr (app_answer (answered aenv fw r)))"
proof (rule send_served [OF assms(1)])
  have call: "hc_verb (receives rq) = verb" "hc_path (receives rq) = fill tm vs"
    "hc_header (receives rq) ''authorization'' = Some (''Bearer '' @ cl_api_key c)"
    using assms(2,7,8,11) unfolding received_def Let_def by blast+
  have "find_route (fw_matches fw) verb (fill tm vs) = Some (e, zip (param_names tm) vs)"
    by (rule route_reached [OF assms(3-6)])
  then show "handle_request aenv fw (receives rq) (sdk_world st) = (t, answered aenv fw r)"
    using call assms(9,10,12) by (simp add: handle_request_def)
qed

lemma api_success:
  assumes "send_request env (the_request c verb path body []) st = (st', Inr (app_answer (answered aenv fw (Inr (status, data, dep)))))"
    and "status < 400"
  shows "api c env verb path body st = (st', Inr data)"
proof -
  let ?a = "envelope data (ap_request_id aenv) (ap_schema_version aenv) [] dep None (ap_as_of aenv)"
  have s: "send_request env (the_request c verb path body []) st = (st', Inr (status, lower_keys [(''X-TrueFigure-Request-Id'', ap_request_id aenv)], ?a))"
    using assms(1) by (simp add: app_answer_def answered_def ok_response_def attach_request_id_def)
  have "sdk_request c env verb path body [] st = (st', Inr ?a)"
    unfolding sdk_request_loop by (rule request_answered [OF s read_ok_envelope read_error_envelope(2) assms(2)])
  then show ?thesis
    by (simp add: api_def bind_s_apply lift_r_def py_item_def envelope_def)
qed

lemma api_refusal:
  assumes "send_request env (the_request c verb path body []) st = (st', Inr (app_answer (answered aenv fw (Inl (TFExn err)))))"
    and "\<not> err_retryable err" "err_http err < 500" "err_http err \<noteq> 429"
  shows "api c env verb path body st = (st', Inl (TrueFigureError [sdk_error err] (JStr (ap_request_id aenv))))"
proof -
  let ?a = "envelope JNull (ap_request_id aenv) (ap_schema_version aenv) [to_error_object err] None None (ap_as_of aenv)"
  obtain rh where s: "send_request env (the_request c verb path body []) st = (st', Inr (err_http err, rh, ?a))"
    using assms(1) by (auto simp: app_answer_def answered_def failed_def handle_exn_def handle_tf_error_def attach_request_id_def)
  have "\<not> is_retryable (err_http err) [sdk_error err]"
    using assms(2-4) by (simp add: is_retryable_def sdk_error_def)
  then have "sdk_request c env verb path body [] st
      = (st', Inl (request_failed (err_http err) [sdk_error err] (JStr (ap_request_id aenv))))"
    unfolding sdk_request_loop by (intro request_refused [OF s read_error_envelope]) simp_all
  with assms(4) show ?thesis
    by (simp add: api_def bind_s_apply request_failed_def error_request_id_def sdk_error_def Let_def)
qed

section \<open>The calls of the SDK\<close>

text \<open>
  Every method of the client that makes one request and returns its data: the route it is
  meant for, the values of the path, the filters of the query, the fields of the body and,
  for a version of the parameters, its number.
\<close>

definition expected_field :: "int option \<Rightarrow> (string \<times> json) list" where
  "expected_field n = (if n = None \<or> n = Some 0 then [] else [(''expected_events'', JInt (the n))])"

definition source_field :: "client \<Rightarrow> (string \<times> json) list" where
  "source_field c = (if given (cl_source_ref c) then [(''source_ref'', JStr (the (cl_source_ref c)))] else [])"

inductive sdk_call ::
  "client \<Rightarrow> sys sdk_env \<Rightarrow> (sys sdk, json) st \<Rightarrow> route \<Rightarrow> string list \<Rightarrow> (string \<times> string) list
     \<Rightarrow> (string \<times> json) list \<Rightarrow> int \<Rightarrow> bool" for c env where
  "sdk_call c env (sdk_whoami c env) (''GET'', ''/v1/whoami'', Whoami)
       [] [] [] n"
| "sdk_call c env (sdk_event_status c env k) (''GET'', ''/v1/events/{event_key}/status'', Event_Status)
       [k] [] [] n"
| "deployment_or_default c dep = Inr d \<Longrightarrow>
     sdk_call c env (sdk_live_usage c env dep) (''GET'', ''/v1/live/usage/{deployment_id}'', Live_Usage)
       [d] [] [] n"
| "deployment_or_default c dep = Inr d \<Longrightarrow>
     sdk_call c env (sdk_live_cost c env dep) (''GET'', ''/v1/live/cost/{deployment_id}'', Live_Cost)
       [d] [] [] n"
| "deployment_or_default c dep = Inr d \<Longrightarrow>
     sdk_call c env (integration_health c env dep) (''GET'', ''/v1/live/health/{deployment_id}'', Live_Health)
       [d] [] [] n"
| "deployment_or_default c dep = Inr d \<Longrightarrow>
     sdk_call c env (figures_of c env dep period) (''GET'', ''/v1/figures/{deployment_id}'', List_Figures)
       [d] (opt_param ''period'' period) [] n"
| "deployment_or_default c dep = Inr d \<Longrightarrow>
     sdk_call c env (sdk_get_figure c env f dep) (''GET'', ''/v1/figures/{deployment_id}/{figure_id}'', Get_Figure)
       [d, f] [] [] n"
| "deployment_or_default c dep = Inr d \<Longrightarrow>
     sdk_call c env (sdk_figure_lineage c env f dep) (''GET'', ''/v1/figures/{deployment_id}/{figure_id}/lineage'', Figure_Lineage)
       [d, f] [] [] n"
| "deployment_or_default c dep = Inr d \<Longrightarrow>
     sdk_call c env (reports_of c env dep period) (''GET'', ''/v1/reports/{deployment_id}'', List_Reports)
       [d] (opt_param ''period'' period) [] n"
| "deployment_or_default c dep = Inr d \<Longrightarrow>
     sdk_call c env (sdk_get_report c env r dep) (''GET'', ''/v1/reports/{deployment_id}/{report_id}'', Get_Report)
       [d, r] [] [] n"
| "sdk_call c env (list_alerts_of c env dep st) (''GET'', ''/v1/alerts'', List_Alerts)
       [] ((''status'', st) # opt_param ''deployment_id'' dep) [] n"
| "sdk_call c env (ack_alert_of c env a) (''POST'', ''/v1/alerts/{alert_id}:ack'', Ack_Alert)
       [a] [] [] n"
| "sdk_call c env (sdk_list_deployments c env) (''GET'', ''/v1/deployments'', List_Deployments)
       [] [] [] n"
| "deployment_or_default c dep = Inr d \<Longrightarrow>
     sdk_call c env (sdk_get_deployment c env dep) (''GET'', ''/v1/deployments/{deployment_id}'', Get_Deployment)
       [d] [] [] n"
| "deployment_or_default c dep = Inr d \<Longrightarrow>
     sdk_call c env (sdk_get_license c env dep) (''GET'', ''/v1/deployments/{deployment_id}/license'', Get_License)
       [d] [] [] n"
| "sdk_call c env (sdk_list_roster c env st kind) (''GET'', ''/v1/roster'', List_Roster)
       [] (opt_param ''status'' st @ opt_param ''kind'' kind) [] n"
| "sdk_call c env (sdk_list_parameters c env) (''GET'', ''/v1/parameters'', List_Parameter_Versions)
       [] [] [] n"
| "sdk_call c env (sdk_get_parameter_version c env n) (''GET'', ''/v1/parameters/{version}'', Get_Parameter_Version)
       [int_str n] [] [] n"
| "sdk_call c env (sdk_list_change_events c env) (''GET'', ''/v1/change-events'', List_Change_Events)
       [] [] [] n"
| "sdk_call c env (sdk_list_id_namespaces c env) (''GET'', ''/v1/id-namespaces'', List_Id_Namespaces)
       [] [] [] n"
| "sdk_call c env (sdk_list_label_schemas c env) (''GET'', ''/v1/qa-labels/schemas'', List_Label_Schemas)
       [] [] [] n"
| "sdk_call c env (sdk_list_mapping_contracts c env) (''GET'', ''/v1/mapping-contracts'', List_Mapping_Contracts)
       [] [] [] n"
| "sdk_call c env (sdk_list_webhooks c env) (''GET'', ''/v1/webhooks'', List_Webhooks)
       [] [] [] n"
| "sdk_call c env (sdk_delete_webhook c env w) (''DELETE'', ''/v1/webhooks/{webhook_id}'', Delete_Webhook)
       [w] [] [] n"
| "sdk_call c env (sdk_webhook_deliveries c env w) (''GET'', ''/v1/webhooks/{webhook_id}/deliveries'', Webhook_Deliveries)
       [w] [] [] n"
| "sdk_call c env (sdk_import_status c env i) (''GET'', ''/v1/imports/{import_id}'', Import_Status)
       [i] [] [] n"
| "sdk_call c env (sdk_register_deployment c env x type ext pl refs) (''POST'', ''/v1/deployments'', Register_Deployment)
       [] [] ([(''name'', x), (''type'', type)] @ if_truthy ''external_ref'' ext
          @ if_truthy ''planned_rollout_at'' pl @ if_truthy ''service_user_refs'' refs) n"
| "deployment_or_default c dep = Inr d \<Longrightarrow>
     sdk_call c env (sdk_update_deployment c env dep x pl) (''PATCH'', ''/v1/deployments/{deployment_id}'', Update_Deployment)
       [d] [] (if_some ''name'' x @ if_some ''planned_rollout_at'' pl) n"
| "sdk_call c env (sdk_upsert_roster c env us) (''POST'', ''/v1/roster:batch'', Upsert_Roster)
       [] [] [(''users'', us)] n"
| "deployment_or_default c dep = Inr d \<Longrightarrow>
     sdk_call c env (sdk_declare_license c env seats from price per cur refs dep) (''PUT'', ''/v1/deployments/{deployment_id}/license'', Declare_License)
       [d] [] ([(''seats_paid'', seats), (''valid_from'', from), (''period_unit'', per), (''currency'', cur)]
          @ if_some ''price_per_seat'' price @ if_truthy ''licensed_user_refs'' refs) n"
| "sdk_call c env (sdk_create_parameter_version c env pay from cur) (''POST'', ''/v1/parameters'', Create_Parameter_Version)
       [] [] [(''payload'', pay), (''effective_from'', from), (''currency'', cur)] n"
| "sdk_call c env (sdk_declare_change_event c env type day side text refs prev) (''POST'', ''/v1/change-events'', Declare_Change_Event)
       [] [] ([(''type'', type), (''occurred_at'', day), (''sidedness'', side), (''description'', text)]
          @ if_truthy ''deployment_refs'' refs @ if_truthy ''supersedes'' prev) n"
| "sdk_call c env (sdk_register_id_namespace c env fld ns on src re text) (''POST'', ''/v1/id-namespaces'', Register_Id_Namespace)
       [] [] ([(''field'', fld), (''namespace'', ns), (''source_ref'', src)] @ if_truthy ''deployment_id'' on
          @ if_truthy ''format_regex'' re @ if_truthy ''description'' text) n"
| "sdk_call c env (sdk_register_label_schema c env l x vals cat least) (''POST'', ''/v1/qa-labels/schemas'', Register_Label_Schema)
       [] [] ([(''label_schema_ref'', l), (''name'', x), (''label_values'', vals),
          (''min_samples_for_calibration'', least)] @ if_truthy ''applies_to_category'' cat) n"
| "sdk_call c env (sdk_create_webhook c env url evs secret) (''POST'', ''/v1/webhooks'', Create_Webhook)
       [] [] [(''url'', url), (''events'', evs), (''secret'', secret)] n"
| "sdk_call c env (sdk_create_mapping_contract c env src type v fm notes) (''POST'', ''/v1/mapping-contracts'', Create_Mapping_Contract)
       [] [] ([(''source_ref'', src), (''event_type'', type), (''version'', v), (''field_map'', fm)]
          @ if_truthy ''notes'' notes) n"
| "sdk_call c env (sdk_create_import c env kd expected) (''POST'', ''/v1/imports'', Create_Import)
       [] [] ([(''kind'', JStr kd)] @ expected_field expected @ source_field c) n"

definition url_value :: "string \<Rightarrow> bool" where
  "url_value v \<longleftrightarrow> plain_value v \<and> url_plain v"

lemma url_plain_simps [simp]:
  "url_plain []" "url_plain (c # cs) \<longleftrightarrow> (is_url_safe c \<or> c = CHR ''/'' \<or> c = CHR '':'') \<and> url_plain cs"
  "url_plain (xs @ ys) \<longleftrightarrow> url_plain xs \<and> url_plain ys"
  by (auto simp: url_plain_def)

lemma query_strings:
  "query_string [] = []" "query_string (opt_param ''period'' period) = period_query period"
  "query_string ((''status'', x) # opt_param ''deployment_id'' dep)
     = ''?status='' @ x @ (case dep of None \<Rightarrow> [] | Some d \<Rightarrow> if d = [] then [] else ''&deployment_id='' @ d)"
  "query_string (opt_param ''status'' y @ opt_param ''kind'' z)
     = (let q = join ''&'' (map (\<lambda>(k, v). k @ ''='' @ the v) (filter (\<lambda>kv. given (snd kv)) [(''status'', y), (''kind'', z)]))
        in if q = [] then [] else ''?'' @ q)"
  by (auto simp: query_string_def opt_param_def period_query_def given_def Let_def split: option.split)

lemmas sdk_call_defs =
  ack_alert_of_def figures_of_def integration_health_def list_alerts_of_def
  reports_of_def sdk_create_import_def sdk_create_mapping_contract_def sdk_create_parameter_version_def
  sdk_create_webhook_def sdk_declare_change_event_def sdk_declare_license_def sdk_delete_webhook_def
  sdk_event_status_def sdk_figure_lineage_def sdk_get_deployment_def sdk_get_figure_def
  sdk_get_license_def sdk_get_parameter_version_def sdk_get_report_def sdk_import_status_def
  sdk_list_change_events_def sdk_list_deployments_def sdk_list_id_namespaces_def sdk_list_label_schemas_def
  sdk_list_mapping_contracts_def sdk_list_parameters_def sdk_list_roster_def sdk_list_webhooks_def
  sdk_live_cost_def sdk_live_usage_def sdk_register_deployment_def sdk_register_id_namespace_def
  sdk_register_label_schema_def sdk_update_deployment_def sdk_upsert_roster_def sdk_webhook_deliveries_def
  sdk_whoami_def

text \<open>Every such call is the plain request of its route, and the route is one of the application's.\<close>

lemma sdk_call_api: "sdk_call c env m (verb, tm, e) vs ps body n \<Longrightarrow> list_all url_value vs \<Longrightarrow>
    m = api c env verb (fill tm vs @ query_string ps) body"
  by (erule sdk_call.cases)
    (simp_all add: sdk_call_defs api_at_def bind_s_lift query_strings fill_def is_param_def param_suffix_def
      expected_field_def source_field_def given_def Let_def split: option.split)

lemma sdk_call_route: "sdk_call c env m (verb, tm, e) vs ps body n \<Longrightarrow>
    (verb, tm, e) \<in> set routes \<and> length vs = length (param_names tm)"
  by (erule sdk_call.cases) (simp_all add: routes_defs param_names_def is_param_def)

lemma sdk_call_plain: "sdk_call c env m (verb, tm, e) vs ps body n \<Longrightarrow> list_all url_value vs \<Longrightarrow>
    list_all (\<lambda>(k, v). url_plain v) ps \<Longrightarrow> url_plain (fill tm vs) \<and> query_plain ps"
  by (erule sdk_call.cases)
    (simp_all add: fill_def is_param_def param_suffix_def url_value_def query_plain_def opt_param_def is_url_safe_def
      split: if_splits)

lemma sdk_call_version: "sdk_call c env m (verb, tm, e) vs ps body n \<Longrightarrow> e = Get_Parameter_Version \<Longrightarrow>
    path_value (zip (param_names tm) vs) ''version'' = int_str n"
  by (erule sdk_call.cases) (simp_all add: param_names_def is_param_def param_name_def path_value_def)

text \<open>
  C7: The SDK reaches the handlers. Against the application, every method of the client that
  makes one request and returns its data, called with references that are not empty and,
  like the filters, need no escape in a URL, sends one request that the router takes to the
  handler the method is meant for, with the references and filters the caller gave. Where the
  handler answers, the method returns exactly its data; where it raises an error of the
  contract that is not to be retried (not marked so, its status below 500 and not 429), the
  method raises that error, with the code, message and request id of the server. The server
  is left in the state the handler left it, and the client's queue and buffer stay as they
  were.
\<close>

theorem sdk_calls_served:
  assumes "io_transport env = app_transport aenv fw receives" and "received c receives"
    and "routes_by_segments (fw_matches fw)" and "fw_int fw (int_str n) = Some n" and "app_fine aenv"
    and "require_principal (ap_sha256 aenv) (ap_environment aenv) (sdk_world st) (Some (''Bearer '' @ cl_api_key c)) = Inr p"
    and "sdk_call c env m (verb, tm, e) vs ps body n" and "list_all url_value vs" and "list_all (\<lambda>(k, v). url_plain v) ps"
    and "rq = the_request c verb (fill tm vs @ query_string ps) body []" and "version = (if e = Get_Parameter_Version then n else 0)"
    and "handler aenv (receives rq) p (path_value (zip (param_names tm) vs)) version e (sdk_world st) = (t, q)"
  shows "hc_query (receives rq) = map_of ps \<and>
     (case q of
        Inr (status, data, dep) \<Rightarrow> m st = (after_request rq t st, Inr data)
      | Inl (TFExn err) \<Rightarrow> \<not> err_retryable err \<and> err_http err < 500 \<and> err_http err \<noteq> 429 \<longrightarrow>
          m st = (after_request rq t st, Inl (TrueFigureError [sdk_error err] (JStr (ap_request_id aenv))))
      | Inl _ \<Rightarrow> True)"
proof (rule conjI)
  have m: "m = api c env verb (fill tm vs @ query_string ps) body" by (rule sdk_call_api [OF assms(7,8)])
  have route: "(verb, tm, e) \<in> set routes" and len: "length vs = length (param_names tm)"
    using sdk_call_route [OF assms(7)] by auto
  have url: "url_plain (fill tm vs)" and plain: "query_plain ps" using sdk_call_plain [OF assms(7-9)] by auto
  have vs: "\<forall>v \<in> set vs. plain_value v" using assms(8) by (auto simp: list_all_iff url_value_def)
  show "hc_query (receives rq) = map_of ps"
    using assms(2,10) url plain unfolding received_def Let_def by blast
  have "int_arg fw e (zip (param_names tm) vs) = Some version"
    using sdk_call_version [OF assms(7)] assms(4,11) by (simp add: int_arg_def)
  then have sent: "send_request env (the_request c verb (fill tm vs @ query_string ps) body []) st
      = (after_request rq t st, Inr (app_answer (answered aenv fw q)))"
    using call_served [OF assms(1-3) route vs len url plain assms(6) _ assms(10,12)] assms(10) by simp
  have good: "good (answers_as e) q"
    using handler_answers [OF assms(5), of e "receives rq" p "path_value (zip (param_names tm) vs)" version] assms(12)
    by (metis goods_def snd_conv)
  show "case q of
        Inr (status, data, dep) \<Rightarrow> m st = (after_request rq t st, Inr data)
      | Inl (TFExn err) \<Rightarrow> \<not> err_retryable err \<and> err_http err < 500 \<and> err_http err \<noteq> 429 \<longrightarrow>
          m st = (after_request rq t st, Inl (TrueFigureError [sdk_error err] (JStr (ap_request_id aenv))))
      | Inl _ \<Rightarrow> True"
  proof (cases q)
    case (Inl x)
    then show ?thesis using api_refusal sent m by (cases x) auto
  next
    case (Inr ans)
    obtain status data dep where ans: "ans = (status, data, dep)" by (cases ans)
    have "status < 400" using good by (auto simp: Inr ans answers_as_def has_data_def no_license_def)
    from api_success [OF _ this] sent m show ?thesis by (simp add: Inr ans)
  qed
qed

end
