(* ===== verification/SystemExamples.thy ===== *)
theory SystemExamples
  imports SystemSafe OpsExamples ConfigExamples
begin

text \<open>
  The theorems on the whole system at a run of it: the operators found a company on the
  migrated database, its owner registers a deployment, gets a key and sends an event, and
  the pipeline settles it.
\<close>

definition ex_admin :: principal where
  "ex_admin = ex_owner\<lparr>p_workspace_id := 1, p_owner_user_id := 2\<rparr>"

definition ex_started :: sys where
  "ex_started = fst (register_deployment ex_config ex_admin ex_register
     (fold (\<lambda>c s. fst (run_ops id c s)) ex_setup migrated))"

definition ex_keyed :: sys where
  "ex_keyed = fst (run_ops id (Key_Issue ''s3cret'' ''t1'' ''ws_1'' ''ana'' ''production'' ''deployment'' [''admin''] [''dep_1''])
     ex_started)"

definition ex_day :: ingest_env where
  "ex_day = ex_request [ex_envelope ''activity'' (ex_activity ''ana'' ''w1'' ''2026-07-01T07:30:00Z'') []]"

definition ex_answer :: "sys \<times> item_result list result" where
  "ex_answer = ingest_events ex_day ex_admin [] ''x'' ex_keyed"

definition ex_settled :: sys where
  "ex_settled = fst (run_pipeline ex_numeric 5 (fst ex_answer))"

lemma fold_reachable: "(system_step numeric)\<^sup>*\<^sup>* s (fold (\<lambda>c s. fst (run_ops sha256 c s)) cs s)"
proof (induction cs arbitrary: s)
  case (Cons c cs)
  have "system_step numeric s (fst (run_ops sha256 c s))"
    by (rule system_step.Operating [of sha256 c s _ "snd (run_ops sha256 c s)"]) simp
  with Cons show ?case by (simp add: converse_rtranclp_into_rtranclp)
qed simp

lemma ex_reachable:
  "(system_step ex_numeric)\<^sup>*\<^sup>* migrated ex_keyed"
  "(system_step ex_numeric)\<^sup>*\<^sup>* ex_keyed (fst ex_answer)"
  "(system_step ex_numeric)\<^sup>*\<^sup>* (fst ex_answer) ex_settled"
proof -
  let ?s = "fold (\<lambda>c s. fst (run_ops id c s)) ex_setup migrated"
  have "system_step ex_numeric ?s ex_started"
    unfolding ex_started_def
    by (rule system_step.Configuring, rule config_step.intros(1)) (rule prod.collapse [symmetric])
  moreover have "system_step ex_numeric ex_started ex_keyed"
    unfolding ex_keyed_def by (rule system_step.Operating) (rule prod.collapse [symmetric])
  ultimately show "(system_step ex_numeric)\<^sup>*\<^sup>* migrated ex_keyed"
    using fold_reachable [of ex_numeric migrated id ex_setup] by (meson rtranclp.rtrancl_into_rtrancl)
  show "(system_step ex_numeric)\<^sup>*\<^sup>* ex_keyed (fst ex_answer)"
    unfolding ex_answer_def
    by (rule r_into_rtranclp, rule system_step.Ingesting) (rule prod.collapse [symmetric])
  show "(system_step ex_numeric)\<^sup>*\<^sup>* (fst ex_answer) ex_settled"
    unfolding ex_settled_def
    by (rule r_into_rtranclp, rule system_step.Processing) (rule prod.collapse [symmetric])
qed

lemma ex_settled_reachable: "(system_step ex_numeric)\<^sup>*\<^sup>* migrated ex_settled"
  using ex_reachable by (meson rtranclp_trans)

text \<open>What the run leaves, evaluated once for each state.\<close>

definition answered_keys :: "sys \<times> item_result list result \<Rightarrow> nat \<times> bool list" where
  "answered_keys x = (length (tbl_rows (events (fst x))), case snd x of Inl _ \<Rightarrow> [] | Inr rs \<Rightarrow> map (\<lambda>r. item_key r \<noteq> None) rs)"

definition settled_events :: "sys \<Rightarrow> (pipeline_status \<times> int option \<times> int) list" where
  "settled_events s = map (\<lambda>e. (ev_status e, ev_resolved_user_id e, ev_workspace_id e)) (tbl_rows (events s))"

lemma ex_answered: "answered_keys ex_answer = (1, [True])"
  by code_simp

lemma ex_settled_events: "settled_events ex_settled = [(Joined, Some 2, 1)]"
  by code_simp

lemma ex_authenticates:
  "map_sum (\<lambda>_. ()) (\<lambda>p. (p_workspace_id p, p_owner_user_id p, 1 \<in> p_granted p))
     (resolve_key id ''production'' ex_keyed ''tf_live_s3cret'') = Inr (1, 2, True)"
  by code_simp

section \<open>The theorems\<close>

lemma system_invariant_witness:
  "system_ok ex_numeric ex_settled \<and> settled_events ex_settled = [(Joined, Some 2, 1)]"
  using system_invariant [OF ex_settled_reachable] ex_settled_events by blast

lemma system_history_witness:
  "\<exists>old new. tbl_rows (events ex_settled) = old @ new \<and> list_all2 event_moves (tbl_rows (events (fst ex_answer))) old
     \<and> length old = 1 \<and> new = []"
proof -
  have "(system_step ex_numeric)\<^sup>*\<^sup>* migrated (fst ex_answer)" using ex_reachable(1,2) by (rule rtranclp_trans)
  from system_history [OF this ex_reachable(3)] obtain old new where
    o: "tbl_rows (events ex_settled) = old @ new" "list_all2 event_moves (tbl_rows (events (fst ex_answer))) old" by blast
  moreover have "length (tbl_rows (events (fst ex_answer))) = 1" using ex_answered by (simp add: answered_keys_def)
  moreover have "length (tbl_rows (events ex_settled)) = 1"
    using arg_cong [OF ex_settled_events, of length] by (simp add: settled_events_def)
  ultimately have "length old = 1" "new = []" using list_all2_lengthD [OF o(2)] by auto
  with o show ?thesis by blast
qed

lemma accepted_event_durable_witness:
  "\<exists>k. \<exists>!e. e \<in> set (tbl_rows (events ex_settled)) \<and> ev_workspace_id e = 1 \<and> ev_key e = k"
proof -
  obtain rs where rs: "snd ex_answer = Inr rs" "map (\<lambda>r. item_key r \<noteq> None) rs = [True]"
    using ex_answered by (cases "snd ex_answer") (auto simp: answered_keys_def)
  then obtain x k where x: "x \<in> set rs" "item_key x = Some k" by (cases rs) auto
  have run: "ingest_events ex_day ex_admin [] ''x'' ex_keyed = (fst ex_answer, Inr rs)"
    using rs(1) unfolding ex_answer_def by (metis prod.collapse)
  have "\<not> is_test ex_admin" by (simp add: is_test_def ex_admin_def ex_owner_def)
  from accepted_event_durable [OF ex_reachable(1) run this x ex_reachable(3)] show ?thesis
    by (auto simp: ex_admin_def)
qed

lemma authenticated_in_workspace_witness:
  "has_member (users ex_settled) 2 1 \<and> has_deployment (deployments ex_settled) 1 1"
proof -
  obtain p where p: "resolve_key id ''production'' ex_keyed ''tf_live_s3cret'' = Inr p"
    "p_workspace_id p = 1" "p_owner_user_id p = 2" "1 \<in> p_granted p"
    using ex_authenticates by (cases "resolve_key id ''production'' ex_keyed ''tf_live_s3cret''") auto
  have "(system_step ex_numeric)\<^sup>*\<^sup>* ex_keyed ex_settled" using ex_reachable(2,3) by (rule rtranclp_trans)
  from authenticated_in_workspace [OF ex_reachable(1) p(1) this] p(2-4) show ?thesis by auto
qed

end
