(* ===== verification/ReadIsolation.thy ===== *)
theory ReadIsolation
  imports AppSafe ReadRules
begin

text \<open>
  Reading across workspaces: no \<^verbatim>\<open>GET\<close> of the application depends on the rows of a
  workspace other than the caller's.
\<close>

lemma whoami_view:
  assumes "same_workspace (p_workspace_id p) s t"
  shows "whoami p t = whoami p s"
proof -
  let ?P = "\<lambda>w. ws_id w = p_workspace_id p"
  have f: "fetch_one ?P (workspaces t) = fetch_one ?P (workspaces s)"
    using assms by (intro fetch_within [of ?P]) (simp_all add: same_workspace_def)
  have "fetch_one (\<lambda>o'. org_id o' = ws_organization_id w) (organizations t)
      = fetch_one (\<lambda>o'. org_id o' = ws_organization_id w) (organizations s)" if "fetch_one ?P (workspaces s) = Some w" for w
  proof -
    have "w \<in> set (filter ?P (tbl_rows (workspaces s)))" using that by (auto dest: fetch_one_Some)
    then show ?thesis
      using assms by (intro fetch_within [of "\<lambda>o'. org_id o' = ws_organization_id w"]) (simp_all add: same_workspace_def)
  qed
  then have "workspace_and_org t (p_workspace_id p) = workspace_and_org s (p_workspace_id p)"
    by (simp add: workspace_and_org_def f split: option.split)
  then show ?thesis by (simp add: whoami_def)
qed

lemma snd_query: "snd (query f t) = f t"
  by (simp add: query_def)

lemma snd_answer: "f t = f s \<Longrightarrow> snd (bind_s (query f) (\<lambda>x. ret (g x)) t) = snd (bind_s (query f) (\<lambda>x. ret (g x)) s)"
  by (simp add: bind_s_lift split: sum.split)

lemma get_handler_view:
  assumes "(''GET'', tm, e) \<in> set routes"
    and "same_workspace (p_workspace_id p) s t" and "references_ok s" and "references_ok t"
  shows "snd (handler env rq p arg version e t) = snd (handler env rq p arg version e s)"
proof -
  note views = document_reads_view [OF assms(2)] configuration_reads_view [OF assms(2)] live_view [OF assms(2-4)]
    get_report_view [OF assms(2-4)] list_alerts_view [OF assms(2-4)] delivery_log_view [OF assms(2)]
    list_id_namespaces_view [OF assms(2-4)] event_status_view [OF assms(2-4)] import_status_view [OF assms(2)]
    whoami_view [OF assms(2)]
  show ?thesis
    using assms(1) views by (auto simp: routes_defs snd_query intro!: snd_answer)
qed

text \<open>
  C18: A reader learns nothing of another workspace. Let two states, whose rows refer to each
  other as the primary and foreign keys of the database say, hold the same rows of the
  caller's workspace, of its organization and of its deployments, whatever they hold of
  others. Then every \<^verbatim>\<open>GET\<close> of the application that the caller's key admits is answered
  alike in both, also where it is refused, so no answer tells whether another workspace's
  deployment, figure, report, webhook, alert, event or import exists.
\<close>

theorem reads_own_workspace_only:
  assumes "hc_verb rq = ''GET''"
    and "require_principal (ap_sha256 env) (ap_environment env) s (hc_header rq ''authorization'') = Inr p"
    and "require_principal (ap_sha256 env) (ap_environment env) t (hc_header rq ''authorization'') = Inr p"
    and "same_workspace (p_workspace_id p) s t" and "references_ok s" and "references_ok t"
  shows "snd (handle_request env fw rq t) = snd (handle_request env fw rq s)"
proof (cases "find_route (fw_matches fw) (hc_verb rq) (hc_path rq)")
  case None
  then show ?thesis by (simp add: handle_request_def)
next
  case (Some r)
  obtain e b where r: "r = (e, b)" by (cases r)
  obtain tm where "(''GET'', tm, e) \<in> set routes" using find_route_in Some r assms(1) by metis
  from get_handler_view [OF this assms(4-6)] have h:
    "snd (handler env rq p (path_value b) v e t) = snd (handler env rq p (path_value b) v e s)" for v .
  show ?thesis
    using Some h by (simp add: handle_request_def r assms(2,3) case_prod_beta split: option.split)
qed

end
