(* ===== verification/AppExamples.thy ===== *)
theory AppExamples
  imports SdkServed SystemExamples ReadExamples ReadIsolation
begin

text \<open>
  The theorems on the application at requests to the system of the operators' run: with the
  key they issued, without one, and through the client.
\<close>

definition ex_invalid :: "'m model" where
  "ex_invalid = (\<lambda>_. Inl ([''name''], ''Field required''))"

definition ex_models :: request_models where
  "ex_models = \<lparr>rm_deployment_create = (\<lambda>_. Inr ex_register), rm_deployment_update = ex_invalid,
     rm_roster_batch = ex_invalid, rm_license_declare = ex_invalid, rm_namespace_create = ex_invalid,
     rm_parameter_create = ex_invalid, rm_label_schema_create = ex_invalid, rm_webhook_create = ex_invalid,
     rm_change_create = ex_invalid, rm_mapping_create = ex_invalid, rm_import_create = ex_invalid\<rparr>"

definition ex_app :: app_env where
  "ex_app = \<lparr>ap_sha256 = id, ap_environment = ''production'', ap_schema_version = ''1.0'',
     ap_request_id = ''req_1'', ap_as_of = ''2026-07-01'', ap_token = int_str, ap_models = ex_models,
     ap_ingest = ex_env, ap_config = ex_config, ap_read = ex_reader\<rparr>"

definition ex_bare :: "int \<Rightarrow> response" where
  "ex_bare status = \<lparr>resp_status = status, resp_body = JObj [(''detail'', JStr ''Not Found'')], resp_headers = []\<rparr>"

definition ex_framework :: framework where
  "ex_framework = \<lparr>fw_matches = template_match, fw_unrouted = (\<lambda>_. ex_bare 404),
     fw_int = py_int, fw_invalid = (\<lambda>_. ex_bare 422),
     fw_inside = (\<lambda>x. case x of TFExn _ \<Rightarrow> True | _ \<Rightarrow> False)\<rparr>"

definition ex_call :: "string \<Rightarrow> string \<Rightarrow> string option \<Rightarrow> http_call" where
  "ex_call verb path key = \<lparr>hc_verb = verb, hc_path = path,
     hc_header = (\<lambda>h. if h = ''authorization'' then key else None), hc_query = (\<lambda>_. None), hc_body = ''{''\<rparr>"

lemma ex_fine: "app_fine ex_app"
  by (simp add: app_fine_def ex_app_def columns_fine_def ingest_fine_def ex_config_def ex_env_def ex_reader_def
      ex_floats_def split: json.split)

lemma ex_by_segments: "routes_by_segments template_match"
  by (auto simp: routes_by_segments_def)

text \<open>The key opens the workspace, its deployment is found and has data.\<close>

definition sees_deployment :: "principal result \<Rightarrow> bool" where
  "sees_deployment r = (case r of Inl _ \<Rightarrow> False
     | Inr p \<Rightarrow> (case get_deployment p ''dep_1'' ex_keyed of Inl _ \<Rightarrow> False | Inr (st, data, dep) \<Rightarrow> data \<noteq> JNull))"

lemma ex_key_opens:
  "sees_deployment (require_principal id ''production'' ex_keyed (Some ''Bearer tf_live_s3cret''))"
  by code_simp

lemma ex_admitted:
  obtains p st data dep where "require_principal id ''production'' ex_keyed (Some ''Bearer tf_live_s3cret'') = Inr p"
    "get_deployment p ''dep_1'' ex_keyed = Inr (st, data, dep)" "data \<noteq> JNull"
proof -
  obtain p where p: "require_principal id ''production'' ex_keyed (Some ''Bearer tf_live_s3cret'') = Inr p"
    using ex_key_opens by (cases "require_principal id ''production'' ex_keyed (Some ''Bearer tf_live_s3cret'')")
      (simp_all add: sees_deployment_def)
  obtain a where a: "get_deployment p ''dep_1'' ex_keyed = Inr a"
    using ex_key_opens p by (cases "get_deployment p ''dep_1'' ex_keyed") (simp_all add: sees_deployment_def)
  obtain st data dep where "a = (st, data, dep)" by (cases a)
  with that p a ex_key_opens show thesis by (simp add: sees_deployment_def)
qed

section \<open>The theorems\<close>

lemma routes_unambiguous_witness:
  "find_route template_match ''GET'' ''/v1/webhooks/wh_1/deliveries''
     = Some (Webhook_Deliveries, [(''webhook_id'', ''wh_1'')])"
proof -
  have "(''GET'', ''/v1/webhooks/{webhook_id}/deliveries'', Webhook_Deliveries) \<in> set routes"
    by (simp add: routes_defs)
  moreover have "template_match ''/v1/webhooks/{webhook_id}/deliveries'' ''/v1/webhooks/wh_1/deliveries''
      = Some [(''webhook_id'', ''wh_1'')]" by code_simp
  ultimately show ?thesis by (rule routes_unambiguous [OF ex_by_segments])
qed

lemma ex_routed:
  "find_route (fw_matches ex_framework) ''POST'' ''/v1/deployments'' = Some (Register_Deployment, [])"
  "find_route (fw_matches ex_framework) ''GET'' ''/v1/whoami'' = Some (Whoami, [])"
  by code_simp+

lemma request_safe_witness:
  "system_ok ex_numeric (fst (handle_request ex_app ex_framework (ex_call ''POST'' ''/v1/deployments'' None) ex_keyed))
     \<and> (\<exists>answer. \<exists>err::tf_error. handle_request ex_app ex_framework (ex_call ''POST'' ''/v1/deployments'' None) ex_keyed = (ex_keyed, Inr answer)
       \<and> resp_status answer = err_http err \<and> err_code err \<in> {''TF-AUTH-001'', ''TF-AUTH-003''})"
proof -
  let ?rq = "ex_call ''POST'' ''/v1/deployments'' None"
  obtain t r where run: "handle_request ex_app ex_framework ?rq ex_keyed = (t, r)" by fastforce
  have route: "find_route (fw_matches ex_framework) (hc_verb ?rq) (hc_path ?rq) = Some (Register_Deployment, [])"
    using ex_routed by (simp add: ex_call_def)
  have refused: "require_principal (ap_sha256 ex_app) (ap_environment ex_app) ex_keyed (hc_header ?rq ''authorization'')
      = Inl (tf_raise ''TF-AUTH-001'' None None (Some ''missing Authorization: Bearer <api_key>''))"
    by (simp add: ex_call_def require_principal_def extract_bearer_def)
  note safe = request_safe [OF ex_reachable(1) run]
  have sound: "system_ok ex_numeric t" using safe by (rule conjunct1)
  have kept: "t = ex_keyed \<and> (\<exists>err answer. r = Inr answer \<and> err_code err \<in> {''TF-AUTH-001'', ''TF-AUTH-003''}
      \<and> resp_status answer = err_http err
      \<and> resp_body answer = envelope JNull (ap_request_id ex_app) (ap_schema_version ex_app) [to_error_object err]
          None None (ap_as_of ex_app))"
    by (rule safe [THEN conjunct2, THEN conjunct2, THEN conjunct2, rule_format, OF conjI [OF route refused]])
  from kept [THEN conjunct2] obtain err :: tf_error and answer where "r = Inr answer"
    "err_code err \<in> {''TF-AUTH-001'', ''TF-AUTH-003''}" "resp_status answer = err_http err"
    by (elim exE conjE) (rule that)
  with kept [THEN conjunct1]
  have "\<exists>answer. \<exists>err::tf_error. (t, r) = (ex_keyed, Inr answer) \<and> resp_status answer = err_http err
      \<and> err_code err \<in> {''TF-AUTH-001'', ''TF-AUTH-003''}"
    by (intro exI [of _ answer] exI [of _ err] conjI) simp_all
  with sound show ?thesis unfolding run fst_conv by (rule conjI)
qed

lemma every_answer_enveloped_witness:
  "\<exists>t r. handle_request ex_app ex_framework (ex_call ''GET'' ''/v1/whoami'' (Some ''Bearer tf_live_s3cret'')) ex_keyed = (t, Inr r)
     \<and> ((\<exists>data dep. resp_status r \<in> {200, 201} \<and> data \<noteq> JNull
            \<and> resp_body r = envelope data ''req_1'' ''1.0'' [] dep None ''2026-07-01'')
        \<or> (\<exists>err. registered err \<and> resp_status r = err_http err
            \<and> resp_body r = envelope JNull ''req_1'' ''1.0'' [to_error_object err] None None ''2026-07-01''))"
proof -
  let ?rq = "ex_call ''GET'' ''/v1/whoami'' (Some ''Bearer tf_live_s3cret'')"
  have "find_route (fw_matches ex_framework) (hc_verb ?rq) (hc_path ?rq) = Some (Whoami, [])"
    using ex_routed by (simp add: ex_call_def)
  from every_answer_enveloped [OF ex_fine this, of ex_keyed] show ?thesis
    by (simp add: int_arg_def ex_app_def)
qed

lemma malformed_body_retryable_witness:
  "\<exists>r err. handle_request ex_app ex_framework (ex_call ''POST'' ''/v1/deployments'' (Some ''Bearer tf_live_s3cret'')) ex_keyed
       = (ex_keyed, Inr r)
     \<and> resp_status r = 500 \<and> resp_headers r = []
     \<and> resp_body r = envelope JNull ''req_1'' ''1.0'' [to_error_object err] None None ''2026-07-01''
     \<and> err_code err = ''TF-SRV-001'' \<and> err_retryable err"
proof -
  let ?rq = "ex_call ''POST'' ''/v1/deployments'' (Some ''Bearer tf_live_s3cret'')"
  obtain p where p: "require_principal (ap_sha256 ex_app) (ap_environment ex_app) ex_keyed
      (hc_header ?rq ''authorization'') = Inr p"
    using ex_admitted by (auto simp: ex_app_def ex_call_def)
  have route: "find_route (fw_matches ex_framework) (hc_verb ?rq) (hc_path ?rq) = Some (Register_Deployment, [])"
    using ex_routed by (simp add: ex_call_def)
  have "Register_Deployment \<in> set body_endpoints" "Register_Deployment = Create_Parameter_Version \<longrightarrow> ''finance_params'' \<in> set (p_roles p)"
    "env_loads (ap_ingest ex_app) (hc_body ?rq) = None"
    "handlers_placed ex_framework"
    by (auto simp: body_endpoints_def ex_app_def ex_env_def ex_call_def handlers_placed_def ex_framework_def split: exn.splits)
  from malformed_body_retryable [OF route this(1) p this(2-4)] show ?thesis by (simp add: ex_app_def)
qed

text \<open>The keyed system after another workspace registered a deployment.\<close>

definition ex_neighbours :: sys where
  "ex_neighbours = ex_keyed\<lparr>deployments := insert_row (\<lambda>i. ex_deployment i 8 ''dep_other'') (deployments ex_keyed)\<rparr>"

lemma ex_keyed_rows:
  "figures ex_keyed = empty_table" "reports ex_keyed = empty_table" "alerts ex_keyed = empty_table"
  "identifier_namespaces ex_keyed = empty_table" "report_figures ex_keyed = []" "events ex_keyed = empty_table"
  "work_items ex_keyed = empty_table" "map dep_workspace_id (tbl_rows (deployments ex_keyed)) = [1]"
  by code_simp+

lemma ex_keyed_references: "references_ok ex_keyed" "references_ok ex_neighbours"
proof -
  have "system_ok ex_numeric ex_keyed" by (rule reachable_ok [OF ex_reachable(1)])
  then have w: "wf_table dep_id (deployments ex_keyed)" "wf_table user_id (users ex_keyed)"
    by (simp_all add: system_ok_def ids_ok_def tenancy_ok_def)
  then show "references_ok ex_keyed" by (simp add: references_ok_def ex_keyed_rows wf_table_def table_simps)
  have "wf_table dep_id (deployments ex_neighbours)"
    unfolding ex_neighbours_def by (simp add: wf_insert_row w(1) ex_deployment_def)
  with w show "references_ok ex_neighbours"
    by (simp add: references_ok_def ex_neighbours_def ex_keyed_rows wf_table_def table_simps)
qed

lemma ex_neighbours_same: "same_workspace 1 ex_keyed ex_neighbours"
  by (simp add: same_workspace_def same_documents_def own_deployments_def ex_neighbours_def ex_deployment_def table_simps)

lemma reads_own_workspace_only_witness:
  "snd (handle_request ex_app ex_framework (ex_call ''GET'' ''/v1/deployments'' (Some ''Bearer tf_live_s3cret'')) ex_neighbours)
     = snd (handle_request ex_app ex_framework (ex_call ''GET'' ''/v1/deployments'' (Some ''Bearer tf_live_s3cret'')) ex_keyed)"
proof -
  let ?rq = "ex_call ''GET'' ''/v1/deployments'' (Some ''Bearer tf_live_s3cret'')"
  obtain p where p: "require_principal (ap_sha256 ex_app) (ap_environment ex_app) ex_keyed (hc_header ?rq ''authorization'') = Inr p"
    using ex_admitted by (auto simp: ex_app_def ex_call_def)
  moreover have "resolve_key f e ex_neighbours = resolve_key f e ex_keyed" for f e
    by (intro ext) (simp add: resolve_key_def principal_of_def granted_deployments_def ex_neighbours_def
        split: option.split)
  ultimately have q: "require_principal (ap_sha256 ex_app) (ap_environment ex_app) ex_neighbours (hc_header ?rq ''authorization'') = Inr p"
    by (simp add: require_principal_def)
  have "case require_principal id ''production'' ex_keyed (Some ''Bearer tf_live_s3cret'') of Inl _ \<Rightarrow> False | Inr p \<Rightarrow> p_workspace_id p = 1"
    by code_simp
  with p have "p_workspace_id p = 1" by (simp add: ex_app_def ex_call_def)
  with ex_neighbours_same have "same_workspace (p_workspace_id p) ex_keyed ex_neighbours" by simp
  from reads_own_workspace_only [OF _ p q this ex_keyed_references] show ?thesis by (simp add: ex_call_def)
qed

section \<open>Through the client\<close>

definition ex_caller :: client where
  "ex_caller = make_client ''tf_live_s3cret'' ''http://tf'' None None 3 None"

text \<open>The server's reading of a URL: the path, and the fields of the query between ampersands.\<close>

fun query_fields :: "string \<Rightarrow> string list" where
  "query_fields [] = [[]]"
| "query_fields (c # cs) =
     (if c = CHR ''&'' then [] # query_fields cs
      else (case query_fields cs of [] \<Rightarrow> [[c]] | s # ss \<Rightarrow> (c # s) # ss))"

definition query_field :: "string \<Rightarrow> string \<times> string" where
  "query_field s = (takeWhile (\<lambda>c. c \<noteq> CHR ''='') s, drop 1 (dropWhile (\<lambda>c. c \<noteq> CHR ''='') s))"

definition query_of :: "string \<Rightarrow> (string \<times> string) list" where
  "query_of u = (case dropWhile (\<lambda>c. c \<noteq> CHR ''?'') u of [] \<Rightarrow> [] | _ # q \<Rightarrow> map query_field (query_fields q))"

definition ex_receives :: "http_request \<Rightarrow> http_call" where
  "ex_receives rq = (let u = drop (length ''http://tf'') (rq_url rq) in
     \<lparr>hc_verb = rq_method rq, hc_path = takeWhile (\<lambda>c. c \<noteq> CHR ''?'') u,
      hc_header = map_of (lower_keys (rq_headers rq)), hc_query = map_of (query_of u), hc_body = []\<rparr>)"

definition ex_link :: "sys sdk_env" where
  "ex_link = \<lparr>io_transport = app_transport ex_app ex_framework ex_receives, io_put = (\<lambda>_ _. ret 200),
     io_sleep = (\<lambda>_ w. w), io_clock = (\<lambda>_. 0), io_loads = (\<lambda>_. None), io_float_repr = (\<lambda>_. ''0.5''),
     io_repr = (\<lambda>_. [])\<rparr>"

definition ex_online :: "sys sdk" where
  "ex_online = \<lparr>sdk_pending = [], sdk_spool = None, sdk_trace = [], sdk_world = ex_keyed\<rparr>"

lemma ex_caller_simps: "cl_base_url ex_caller = ''http://tf''" "cl_api_key ex_caller = ''tf_live_s3cret''"
  "map_of (lower_keys (request_headers ex_caller [])) ''authorization'' = Some ''Bearer tf_live_s3cret''"
  by code_simp+

lemma url_plain_free: "url_plain s \<Longrightarrow> CHR ''?'' \<notin> set s \<and> CHR ''&'' \<notin> set s \<and> CHR ''='' \<notin> set s"
  by (auto simp: url_plain_def is_url_safe_def)

lemma plain_path:
  assumes "url_plain path"
  shows "takeWhile (\<lambda>c. c \<noteq> CHR ''?'') (path @ query_string ps) = path"
    and "dropWhile (\<lambda>c. c \<noteq> CHR ''?'') (path @ query_string ps) = query_string ps"
proof -
  have "\<forall>c \<in> set path. c \<noteq> CHR ''?''" using url_plain_free [OF assms] by blast
  then show "takeWhile (\<lambda>c. c \<noteq> CHR ''?'') (path @ query_string ps) = path"
    "dropWhile (\<lambda>c. c \<noteq> CHR ''?'') (path @ query_string ps) = query_string ps"
    by (simp_all add: query_string_def dropWhile_append2 takeWhile_append2)
qed

lemma query_fields_plain: "CHR ''&'' \<notin> set s \<Longrightarrow> query_fields s = [s]"
  by (induction s) auto

lemma query_fields_first: "CHR ''&'' \<notin> set s \<Longrightarrow> query_fields (s @ CHR ''&'' # r) = s # query_fields r"
  by (induction s) auto

lemma query_fields_join: "ss \<noteq> [] \<Longrightarrow> \<forall>s \<in> set ss. CHR ''&'' \<notin> set s \<Longrightarrow> query_fields (join ''&'' ss) = ss"
  by (induction "''&''" ss rule: join.induct) (simp_all add: query_fields_plain query_fields_first)

lemma query_field_plain: "CHR ''='' \<notin> set k \<Longrightarrow> query_field (k @ ''='' @ v) = (k, v)"
proof -
  assume "CHR ''='' \<notin> set k"
  then have "\<forall>c \<in> set k. c \<noteq> CHR ''=''" by blast
  then show ?thesis by (simp add: query_field_def dropWhile_append2 takeWhile_append2)
qed

lemma query_read:
  assumes "url_plain path" and "query_plain ps"
  shows "query_of (path @ query_string ps) = ps"
proof (cases "ps = []")
  case False
  let ?f = "\<lambda>(k, v). k @ ''='' @ v"
  have free: "CHR ''&'' \<notin> set (?f kv) \<and> CHR ''='' \<notin> set (fst kv)" if "kv \<in> set ps" for kv
  proof -
    have "url_plain (fst kv)" "url_plain (snd kv)"
      using that assms(2) by (auto simp: query_plain_def list_all_iff split_beta)
    then show ?thesis using url_plain_free [of "fst kv"] url_plain_free [of "snd kv"] by (cases kv) simp
  qed
  have "query_fields (join ''&'' (map ?f ps)) = map ?f ps"
    using free False by (intro query_fields_join) auto
  moreover have "map query_field (map ?f ps) = ps"
    unfolding map_map using free query_field_plain by (intro map_idI) (auto simp: comp_def)
  ultimately show ?thesis
    using False unfolding query_of_def plain_path(2) [OF assms(1)] by (simp add: query_string_def)
next
  case True
  then show ?thesis unfolding query_of_def plain_path(2) [OF assms(1)] by (simp add: query_string_def)
qed

lemma ex_received: "received ex_caller ex_receives"
  by (auto simp: received_def ex_receives_def the_request_def ex_caller_simps plain_path query_read Let_def)

lemma sdk_calls_served_witness:
  "\<exists>rq data. sdk_get_deployment ex_caller ex_link (Some ''dep_1'') ex_online
     = (after_request rq ex_keyed ex_online, Inr data) \<and> data \<noteq> JNull"
proof -
  obtain p st data dep where p: "require_principal id ''production'' ex_keyed (Some ''Bearer tf_live_s3cret'') = Inr p"
    "get_deployment p ''dep_1'' ex_keyed = Inr (st, data, dep)" "data \<noteq> JNull" by (rule ex_admitted)
  let ?t = "''/v1/deployments/{deployment_id}''"
  let ?rq = "the_request ex_caller ''GET'' (fill ?t [''dep_1''] @ query_string []) [] []"
  have io: "io_transport ex_link = app_transport ex_app ex_framework ex_receives" by (simp add: ex_link_def)
  have seg: "routes_by_segments (fw_matches ex_framework)" using ex_by_segments by (simp add: ex_framework_def)
  have auth: "require_principal (ap_sha256 ex_app) (ap_environment ex_app) (sdk_world ex_online)
      (Some (''Bearer '' @ cl_api_key ex_caller)) = Inr p"
    using p(1) by (simp add: ex_app_def ex_online_def ex_caller_simps)
  have vals: "list_all url_value [''dep_1'']" by code_simp
  have int: "fw_int ex_framework (int_str 0) = Some 0" by code_simp
  have "deployment_or_default ex_caller (Some ''dep_1'') = Inr ''dep_1''"
    by (simp add: deployment_or_default_def given_def)
  then have "sdk_call ex_caller ex_link (sdk_get_deployment ex_caller ex_link (Some ''dep_1''))
      (''GET'', ?t, endpoint.Get_Deployment) [''dep_1''] [] [] 0"
    by (rule sdk_call.intros)
  moreover have "path_value (zip (param_names ?t) [''dep_1'']) ''deployment_id'' = ''dep_1''" by code_simp
  then have "handler ex_app (ex_receives ?rq) p (path_value (zip (param_names ?t) [''dep_1''])) 0 endpoint.Get_Deployment
      (sdk_world ex_online) = (ex_keyed, Inr (st, data, dep))"
    using p(2) by (simp add: query_def ex_online_def)
  ultimately have "sdk_get_deployment ex_caller ex_link (Some ''dep_1'') ex_online
      = (after_request ?rq ex_keyed ex_online, Inr data)"
    using sdk_calls_served [OF io ex_received seg int ex_fine auth _ vals _ refl refl] by fastforce
  with p(3) show ?thesis by blast
qed

end
