(* ===== verification/Spec2Isabelle.thy ===== *)
theory Spec2Isabelle
  imports EventKey Periods ErrorModel Refs Wire Auth RateLimit Namespaces EventSchema IngestSafety
    Resend Imports PipelineProgress Secretbox WebhooksSafe EngineExamples ConfigExamples ReadExamples
    SdkExamples OpsExamples Backends Dedup AppExamples
begin

text \<open>
  A verification library for TrueFigure: a measurement server (\<^verbatim>\<open>src/truefigure_server\<close>),
  its client SDK (\<^verbatim>\<open>sdk/truefigure\<close>) and the operators' command line
  (\<^verbatim>\<open>ops/opsctl.py\<close>).

  The program. Clients post events (activity, lifecycle, cost meters, quality and revenue
  signals) with an API key. Ingestion validates every event, derives its event key, stores it
  once or keeps it as rejected. A worker takes the stored events in order, resolves who did
  them, joins them to work items and adds them to daily aggregates. The engine turns the
  aggregates of a period, with the parameters in force, into versioned figures, and figures
  into reports; monitors raise alerts; an outbox of webhook deliveries is sent and retried.
  The configuration plane declares what all of this is measured against; the read plane
  serves it. The state they share is the database, here the record \<open>sys\<close> of
  \<^verbatim>\<open>Schema\<close>: one table per relation of \<^verbatim>\<open>0001_certified_schema.sql\<close>, with
  the columns the code reads or writes.

  Theories and code.
  \<^item> \<^verbatim>\<open>Prelude\<close>: Python exceptions as values, JSON, tables with generated identities,
    the state and error monad, the locale \<^verbatim>\<open>evolution\<close> for what computations preserve.
    \<^verbatim>\<open>PyJson\<close>, \<^verbatim>\<open>Calendar\<close>, \<^verbatim>\<open>IsoTime\<close>, \<^verbatim>\<open>Decimals\<close>: what the code uses of
    \<^verbatim>\<open>json\<close>, \<^verbatim>\<open>datetime\<close> and \<^verbatim>\<open>decimal\<close>.
  \<^item> \<^verbatim>\<open>EventKey\<close>, \<^verbatim>\<open>Periods\<close>, \<^verbatim>\<open>Refs\<close>: \<^verbatim>\<open>domain/entities\<close>.
    \<^verbatim>\<open>Wire\<close>, \<^verbatim>\<open>ErrorModel\<close>: \<^verbatim>\<open>api/request_models\<close>, \<^verbatim>\<open>errors.py\<close>, the envelope
    and the exception handlers of \<^verbatim>\<open>api/app.py\<close>. \<^verbatim>\<open>AppRoutes\<close>: \<^verbatim>\<open>/v1/whoami\<close>.
    \<^verbatim>\<open>Routes\<close>: the decorators of \<^verbatim>\<open>api/routes\<close> and how the router takes one.
    \<^verbatim>\<open>App\<close>: \<open>handle_request\<close>, from the route over the key, the body and the handler
    to the envelope and the middleware; \<^verbatim>\<open>Answers\<close>, \<^verbatim>\<open>AppSafe\<close> what it may answer and
    change.
  \<^item> \<^verbatim>\<open>Auth\<close>, \<^verbatim>\<open>RateLimit\<close>, \<^verbatim>\<open>Namespaces\<close>, \<^verbatim>\<open>EventSchema\<close>, \<^verbatim>\<open>Ingest\<close>,
    \<^verbatim>\<open>Imports\<close>, \<^verbatim>\<open>Storage\<close>: keys, limits and \<^verbatim>\<open>api/routes/ingest.py\<close> and
    \<^verbatim>\<open>imports.py\<close>; \<^verbatim>\<open>IngestSafety\<close> their properties, \<^verbatim>\<open>Resend\<close> those of a
    batch sent again, at once or later.
  \<^item> \<^verbatim>\<open>Pipeline\<close>, \<^verbatim>\<open>PipelineExact\<close>, \<^verbatim>\<open>PipelineProgress\<close>:
    \<^verbatim>\<open>domain/policies/pipeline.py\<close>, the last with what the rest of the system may do
    between its runs.
    \<^verbatim>\<open>Secretbox\<close>, \<^verbatim>\<open>Webhooks\<close>, \<^verbatim>\<open>WebhooksSafe\<close>: \<^verbatim>\<open>secretbox.py\<close> and
    \<^verbatim>\<open>webhooks_delivery.py\<close>. \<^verbatim>\<open>Engine\<close>, \<^verbatim>\<open>Reports\<close> with \<^verbatim>\<open>EngineSafe\<close>,
    \<^verbatim>\<open>EngineExact\<close>, \<^verbatim>\<open>ReportsExact\<close>: \<^verbatim>\<open>domain/engine.py\<close>.
  \<^item> \<^verbatim>\<open>ConfigPlane\<close>, \<^verbatim>\<open>Declarations\<close> with \<^verbatim>\<open>ConfigSafe\<close>, \<^verbatim>\<open>ConfigRules\<close>:
    \<^verbatim>\<open>config_plane.py\<close>. \<^verbatim>\<open>ReadPlane\<close> with \<^verbatim>\<open>ReadRules\<close>, \<^verbatim>\<open>ReadServed\<close>:
    \<^verbatim>\<open>read_plane.py\<close> and \<^verbatim>\<open>webhooks_routes.py\<close>; \<^verbatim>\<open>ReadIsolation\<close> takes every
    \<^verbatim>\<open>GET\<close> of the application together.
  \<^item> \<^verbatim>\<open>SdkShapes\<close>, \<^verbatim>\<open>SdkClient\<close>, \<^verbatim>\<open>SdkApi\<close>: the SDK's \<^verbatim>\<open>errors.py\<close>,
    \<^verbatim>\<open>events.py\<close>, \<^verbatim>\<open>webhooks.py\<close> and \<^verbatim>\<open>client.py\<close>; \<^verbatim>\<open>SdkSafe\<close>,
    \<^verbatim>\<open>SdkQueue\<close> what they guarantee alone, \<^verbatim>\<open>SdkServer\<close>, \<^verbatim>\<open>SdkDelivery\<close> what
    they guarantee against the server, \<^verbatim>\<open>SdkServed\<close> the client's calls against
    \<open>handle_request\<close>. \<^verbatim>\<open>OpsCtl\<close>, \<^verbatim>\<open>OpsArgs\<close> with \<^verbatim>\<open>OpsSafe\<close>:
    \<^verbatim>\<open>ops/opsctl.py\<close>. \<^verbatim>\<open>Backends\<close>: \<^verbatim>\<open>config.py\<close> and the Supabase backend of
    \<^verbatim>\<open>storage.py\<close>.
  \<^item> \<^verbatim>\<open>Footprints\<close>: which tables each operation leaves alone, as locales of a view
    and the operations beside it, and the step contracts of the workers. \<^verbatim>\<open>System\<close>:
    \<open>migrated\<close>, the database after the migration, and \<open>system_step\<close>, whose rules are
    all handlers, workers and commands; the locale \<open>steady\<close> is what each of them owes a
    relation of states. \<^verbatim>\<open>SystemData\<close>, \<^verbatim>\<open>Tenancy\<close>, \<^verbatim>\<open>SystemSafe\<close> interpret it for
    the contract of every component. \<^verbatim>\<open>Dedup\<close>: the same event from two origins, and the
    lookup and the insertion of \<^verbatim>\<open>_process_one\<close> in concurrent transactions.
  \<^item> The theories named \<^verbatim>\<open>...Examples\<close> apply the theorems to concrete states.

  What the theorems show. Whatever the order of commands, requests, imports, runs and
  deliveries, every state reachable from the migrated database satisfies the invariants of
  all components at once (\<open>system_ok\<close>); the history only appends and settles; an event
  answered as accepted or duplicate stays stored once; a key opens its own workspace only.
  Every HTTP request is such a step, a GET and a refused key change nothing, every routed
  request is answered by the envelope of data or of one registered error, no two routes
  compete, and every single call of the SDK reaches the handler it names with the values the
  caller gave.
  Of the parts: ingestion touches the caller's workspace only, keeps event keys
  unique, stores what the schema allows and makes resending harmless, at the same or a later
  time, for what was not refused for its time stamp; running an import is one batch of a
  production key. The aggregates are at every moment the sums of the settled events; a run
  settles what its limit and the backlog allow or stops before an event that raises, and
  what is settled stays so in every later state. Figures and reports are append-only and
  versioned densely, cost is exact and served live up to the rounding of the last digit, a
  report binds the latest figures and is served as issued. No configuration request writes
  a row of another workspace, no GET depends on one, and the uniqueness rules of the configuration are invariants. Deliveries move
  along their state machine only. On the client's side, a flush refines an operation on one
  queue of events, keeps what the server did not take, and together with the server's keys
  delivers each event once, however many answers are lost; requests and polling are bounded;
  the SDK checks what the worker signs. The operators' commands keep the tables typed, and
  keys open what they were issued for until they are revoked. Where the code falls short,
  a theorem says so: malformed bodies answered as an internal error to retry, events of another origin that are dropped, concurrent duplicates that
  fail their batch, poisoned batches, the one
  event that holds up all events after it, the outage that empties the
  offline buffer, the queue that is cut to its first batch, the unescaped separator of event
  keys, the deleted subscription, the license without a price.

  Bounds and fuel. Loops over data recurse on the data, retries on the number left.
  \<open>poll_import\<close> takes \<^verbatim>\<open>timeout / poll_interval\<close> + 1 polls, which
  \<open>wait_for_import_terminates\<close> proves enough; \<open>paginate\<close> takes a number of pages, of
  which the server needs one; the pipeline and the delivery worker take the limit of their
  command. \<^verbatim>\<open>NUMERIC\<close>, \<^verbatim>\<open>INTEGER\<close> and \<^verbatim>\<open>BIGINT\<close> columns refuse what is outside
  them, as the database does.

  What is a parameter. SHA-256 and HMAC, random tokens, the clock, the JSON parser, the
  schema validator and the regular expressions, the text of floats and of
  \<^verbatim>\<open>Decimal(str(x))\<close>, the operations on doubles, \<^verbatim>\<open>AVG\<close> and the hours of an interval,
  what the driver does with text bound to a typed column, the sender of webhooks, the
  transport, \<^verbatim>\<open>sleep\<close> and uploader of the SDK, the framework's match of a path with a
  template, its parse of an integer in a path, its own answers (no route, documentation
  pages, no integer) and what the HTTP server makes of the SDK's request, the requests of \<^verbatim>\<open>httpx\<close>, the DDL of a partition, and the time stamps
  of rows. A hypothesis about one of them is its documented behaviour.

  Conventions. Strings are Latin-1 without NUL; text is ordered by code point; the session
  time zone is UTC and years print unpadded; where SQL leaves the order open, rows come in
  order of insertion; identities are not consumed by a rollback; the order of keys in a
  \<^verbatim>\<open>JSONB\<close> column is kept; the body of a request has passed its pydantic model, a function of \<open>App\<close>; one worker
  runs the pipeline. Operations interleave, in \<open>system_step\<close>, where the code commits:
  transactions are taken as serial, except in \<^verbatim>\<open>Dedup\<close>, where the two statements of an
  event interleave with others and the unique index decides. A webhook event of a monitor run commits with the run. The SDK's
  \<open>sdk_trace\<close> is a history variable that no operation reads.

  Not modelled. The connection pool and its closing at shutdown; audit columns, indexes, row security and the
  partitioning of the database; how \<^verbatim>\<open>argparse\<close> splits words into options and what help
  it prints; the log lines and the typed views
  (\<^verbatim>\<open>types.py\<close>) of the SDK. None of them decides what the modelled parts do.
\<close>

end
